(* ===== verification/Flow_Prelude.thy ===== *)
theory Flow_Prelude
  imports Main "HOL-Library.Word" "HOL-Library.Multiset" "HOL-Library.Product_Lexorder"
begin

text \<open>
  Shared vocabulary of the development: the machine integer types, the fact collections, and the
  standard-library algorithms that the sources call (\<^verbatim>\<open>std::sort\<close>, \<^verbatim>\<open>std::unique\<close>,
  \<^verbatim>\<open>std::adjacent_find\<close>, \<^verbatim>\<open>std::lower_bound\<close>, \<^verbatim>\<open>std::binary_search\<close>,
  \<^verbatim>\<open>std::min_element\<close>, \<^verbatim>\<open>std::to_string\<close>), each as an executable definition together with
  the lemmas that relate it to sets, multisets and sorted lists.
  A \<^verbatim>\<open>std::vector\<close> is a list and its size a \<open>nat\<close>: a vector's size always fits its
  \<^verbatim>\<open>size_t\<close>, so no count of elements wraps.
\<close>

type_synonym u8 = "8 word"
type_synonym u16 = "16 word"
type_synonym u32 = "32 word"
type_synonym u64 = "64 word"

type_synonym byte = u8

named_theorems sort_laws "order-independence and content laws of the sorting algorithms"
named_theorems codec_laws "round-trip laws of encoders and decoders"

section \<open>Standard algorithms\<close>

text \<open>\<^verbatim>\<open>std::to_string\<close> on an unsigned value: its decimal digits.\<close>

fun to_string :: "nat \<Rightarrow> string" where
  "to_string n = (if n < 10 then [char_of (48 + n)]
                  else to_string (n div 10) @ [char_of (48 + n mod 10)])"

declare to_string.simps [simp del]

text \<open>\<^verbatim>\<open>std::adjacent_find(begin, end) != end\<close>.\<close>

fun adjacent_find :: "'a list \<Rightarrow> bool" where
  "adjacent_find (x # y # ys) = (x = y \<or> adjacent_find (y # ys))"
| "adjacent_find _ = False"

text \<open>
  \<^verbatim>\<open>std::lower_bound\<close>: the halving loop over a range of \<open>len\<close> elements that starts at
  \<open>first\<close>; \<open>p\<close> is the comparison with the sought value.
\<close>

function lower_bound_loop :: "('a \<Rightarrow> bool) \<Rightarrow> 'a list \<Rightarrow> nat \<Rightarrow> nat \<Rightarrow> nat" where
  "lower_bound_loop p xs first len =
     (if len = 0 then first
      else let half = len div 2; mid = first + half
           in if p (xs ! mid) then lower_bound_loop p xs (mid + 1) (len - half - 1)
              else lower_bound_loop p xs first half)"
  by pat_completeness auto
termination by (relation "measure (\<lambda>(p, xs, first, len). len)") auto

declare lower_bound_loop.simps [simp del]

definition lower_bound :: "('a \<Rightarrow> bool) \<Rightarrow> 'a list \<Rightarrow> nat" where
  "lower_bound p xs = lower_bound_loop p xs 0 (length xs)"

text \<open>\<^verbatim>\<open>std::binary_search\<close>: \<open>lower_bound\<close>, then one comparison the other way.\<close>

definition binary_search :: "'a::linorder list \<Rightarrow> 'a \<Rightarrow> bool" where
  "binary_search xs v =
     (let i = lower_bound (\<lambda>x. x < v) xs in i < length xs \<and> \<not> v < xs ! i)"

text \<open>\<^verbatim>\<open>std::sort\<close> with a comparator, as an insertion sort over the comparator.\<close>

fun insert_by :: "('a \<Rightarrow> 'a \<Rightarrow> bool) \<Rightarrow> 'a \<Rightarrow> 'a list \<Rightarrow> 'a list" where
  "insert_by lt x [] = [x]"
| "insert_by lt x (y # ys) = (if lt y x then y # insert_by lt x ys else x # y # ys)"

fun sort_by :: "('a \<Rightarrow> 'a \<Rightarrow> bool) \<Rightarrow> 'a list \<Rightarrow> 'a list" where
  "sort_by lt [] = []"
| "sort_by lt (x # xs) = insert_by lt x (sort_by lt xs)"

text \<open>\<^verbatim>\<open>std::min_element\<close> of a non-empty range: the first least element.\<close>

fun min_element :: "'a::linorder \<Rightarrow> 'a list \<Rightarrow> 'a" where
  "min_element best [] = best"
| "min_element best (x # xs) = min_element (if x < best then x else best) xs"

section \<open>Laws of the algorithms\<close>

lemma adjacent_find_sorted [sort_laws]:
  "sorted xs \<Longrightarrow> adjacent_find xs \<longleftrightarrow> \<not> distinct xs"
  by (induction xs rule: adjacent_find.induct) (auto simp: order.antisym)

lemma adjacent_find_sort [simp, sort_laws]: "adjacent_find (sort xs) \<longleftrightarrow> \<not> distinct xs"
  by (simp add: adjacent_find_sorted)

lemma lower_bound_loop_takeWhile:
  assumes "first + len \<le> length xs"
    and "\<forall>i < first. p (xs ! i)"
    and "\<forall>i. first + len \<le> i \<longrightarrow> i < length xs \<longrightarrow> \<not> p (xs ! i)"
    and "\<forall>i j. i \<le> j \<longrightarrow> j < length xs \<longrightarrow> p (xs ! j) \<longrightarrow> p (xs ! i)"
  shows "lower_bound_loop p xs first len = length (takeWhile p xs)"
  using assms
proof (induction p xs first len rule: lower_bound_loop.induct)
  case (1 p xs first len)
  show ?case
  proof (cases "len = 0")
    case True
    have "length (takeWhile p xs) = first"
    proof (rule order.antisym)
      show "length (takeWhile p xs) \<le> first"
      proof (rule ccontr)
        assume "\<not> length (takeWhile p xs) \<le> first"
        then have lt: "first < length (takeWhile p xs)" by simp
        then have "p (xs ! first)" using set_takeWhileD nth_mem takeWhile_nth by metis
        moreover have "first < length xs" using lt length_takeWhile_le order.strict_trans2 by blast
        ultimately show False using "1.prems"(3) True by auto
      qed
      show "first \<le> length (takeWhile p xs)"
      proof (rule ccontr)
        assume "\<not> first \<le> length (takeWhile p xs)"
        then have lt: "length (takeWhile p xs) < first" by simp
        then have "\<not> p (xs ! length (takeWhile p xs))"
          using "1.prems"(1) True by (intro nth_length_takeWhile) simp
        then show False using "1.prems"(2) lt by blast
      qed
    qed
    then show ?thesis using True by (simp add: lower_bound_loop.simps)
  next
    case False
    define half where "half = len div 2"
    define mid where "mid = first + half"
    have half: "half < len" using False by (simp add: half_def)
    then have mid: "mid < length xs" using "1.prems"(1) by (simp add: mid_def)
    show ?thesis
    proof (cases "p (xs ! mid)")
      case True
      have low: "\<forall>i < mid + 1. p (xs ! i)"
        using True mid "1.prems"(4) by (metis Suc_eq_plus1 less_Suc_eq_le)
      have eq: "(mid + 1) + (len - half - 1) = first + len"
        using half by (simp add: mid_def)
      have "lower_bound_loop p xs (mid + 1) (len - half - 1) = length (takeWhile p xs)"
        using "1.IH"(1)[OF False half_def _ _ _ low _ "1.prems"(4)] True "1.prems"(1,3) eq
        by (simp add: mid_def)
      then show ?thesis
        using False True
        by (simp add: lower_bound_loop.simps[of p xs first len] half_def mid_def Let_def)
    next
      case no: False
      have high: "\<forall>i. first + half \<le> i \<longrightarrow> i < length xs \<longrightarrow> \<not> p (xs ! i)"
        using no mid "1.prems"(4) by (metis mid_def)
      have "lower_bound_loop p xs first half = length (takeWhile p xs)"
        using "1.IH"(2)[OF False half_def _ _ _ "1.prems"(2) high "1.prems"(4)] no mid
          "1.prems"(1) half
        by (simp add: mid_def)
      then show ?thesis
        using False no
        by (simp add: lower_bound_loop.simps[of p xs first len] half_def mid_def Let_def)
    qed
  qed
qed

lemma lower_bound_sorted_key:
  assumes "sorted (map k xs)"
  shows "lower_bound (\<lambda>x. k x < v) xs = length (takeWhile (\<lambda>x. k x < v) xs)"
  unfolding lower_bound_def
proof (rule lower_bound_loop_takeWhile)
  show "\<forall>i j. i \<le> j \<longrightarrow> j < length xs \<longrightarrow> k (xs ! j) < v \<longrightarrow> k (xs ! i) < v"
  proof (intro allI impI)
    fix i j assume "i \<le> j" and j: "j < length xs" and "k (xs ! j) < v"
    moreover have "k (xs ! i) \<le> k (xs ! j)"
      using sorted_nth_mono[OF assms \<open>i \<le> j\<close>] j \<open>i \<le> j\<close> by simp
    ultimately show "k (xs ! i) < v" by simp
  qed
qed auto

lemma takeWhile_less_sorted:
  assumes "sorted (map k xs)"
  shows "(\<exists>x \<in> set xs. k x = v) \<longleftrightarrow>
    (let i = length (takeWhile (\<lambda>x. k x < v) xs) in i < length xs \<and> k (xs ! i) = v)"
proof -
  have "(\<exists>x \<in> set xs. k x = v) \<longleftrightarrow>
    (case dropWhile (\<lambda>x. k x < v) xs of [] \<Rightarrow> False | y # _ \<Rightarrow> k y = v)"
    using assms by (induction xs) auto
  also have "\<dots> \<longleftrightarrow>
    (let i = length (takeWhile (\<lambda>x. k x < v) xs) in i < length xs \<and> k (xs ! i) = v)"
    by (induction xs) (auto simp: Let_def)
  finally show ?thesis .
qed

lemma binary_search_sorted [simp, sort_laws]:
  assumes "sorted xs"
  shows "binary_search xs v \<longleftrightarrow> v \<in> set xs"
proof -
  let ?i = "length (takeWhile (\<lambda>x. x < v) xs)"
  have lb: "lower_bound (\<lambda>x. x < v) xs = ?i"
    using lower_bound_sorted_key[of "\<lambda>x. x" xs v] assms by simp
  have "v \<in> set xs \<longleftrightarrow> (?i < length xs \<and> xs ! ?i = v)"
    using takeWhile_less_sorted[of "\<lambda>x. x" xs v] assms by (simp add: Let_def)
  moreover have "?i < length xs \<Longrightarrow> \<not> xs ! ?i < v" by (rule nth_length_takeWhile)
  ultimately show ?thesis
    unfolding binary_search_def lb Let_def by (auto simp: not_less order.antisym)
qed

lemma set_remdups_adj_sort [simp]: "set (remdups_adj (sort xs)) = set xs"
  by simp

lemma sort_mset_cong [sort_laws]: "mset xs = mset ys \<Longrightarrow> sort xs = sort ys"
  by (metis mset_sort properties_for_sort sorted_sort)

lemma sort_key_mset_cong [sort_laws]:
  assumes "mset xs = mset ys" and "distinct (map k xs)"
  shows "sort_key k xs = sort_key k ys"
proof -
  have inj: "inj_on k (set (sort_key k xs))" using assms(2) by (simp add: distinct_map)
  have "distinct (map k ys)" using assms by (metis mset_eq_imp_distinct_iff mset_map)
  then have "map k (sort_key k xs) = map k (sort_key k ys)"
    using assms by (intro sorted_distinct_set_unique) (auto simp: distinct_map dest: mset_eq_setD)
  moreover have "set (sort_key k xs) = set (sort_key k ys)"
    using assms(1) by (auto dest: mset_eq_setD)
  ultimately show ?thesis using inj by (metis inj_on_map_eq_map Un_absorb)
qed

lemma find_distinct_key:
  "distinct (map f xs) \<Longrightarrow> x \<in> set xs \<Longrightarrow> find (\<lambda>y. f y = f x) xs = Some x"
  by (induction xs) (auto simp: rev_image_eqI)

lemma find_Some_sat: "find P xs = Some x \<Longrightarrow> x \<in> set xs \<and> P x"
  by (induction xs) (auto split: if_splits)

lemma sorted_wrt_less_Cons2:
  "sorted_wrt (<) (x # y # (zs :: 'a::linorder list)) \<longleftrightarrow> x < y \<and> sorted_wrt (<) (y # zs)"
  by auto

lemma min_element_Min: "min_element b xs = Min (insert b (set xs))"
proof (induction xs arbitrary: b)
  case (Cons x xs)
  have "(if x < b then x else b) = min b x" by (auto simp: min_def)
  then have "min_element b (x # xs) = Min (insert (min b x) (set xs))" using Cons.IH by simp
  also have "\<dots> = Min (insert b (set (x # xs)))"
  proof (cases "xs = []")
    case False
    then show ?thesis
      by (simp only: Min_insert finite_set finite_insert set_empty insert_not_empty list.set
          min.assoc not_False_eq_True)
  qed (simp add: min_def)
  finally show ?case .
qed simp

section \<open>Sorting with a comparator\<close>

text \<open>
  The contract of the comparator that \<^verbatim>\<open>std::sort\<close> needs, restricted to the elements it is
  applied to: a strict order that is total on them. Under it the sorted result depends only on the
  multiset of elements.
\<close>

lemma mset_insert_by [simp]: "mset (insert_by lt x ys) = add_mset x (mset ys)"
  by (induction ys) auto

lemma mset_sort_by [simp, sort_laws]: "mset (sort_by lt xs) = mset xs"
  by (induction xs) auto

lemma set_sort_by [simp]: "set (sort_by lt xs) = set xs"
  by (metis mset_sort_by set_mset_mset)

lemma length_sort_by [simp]: "length (sort_by lt xs) = length xs"
  by (metis mset_sort_by size_mset)

lemma sort_by_eq_Nil [simp]: "sort_by lt xs = [] \<longleftrightarrow> xs = []"
  by (metis mset_sort_by mset_zero_iff)

locale strict_order_on =
  fixes S :: "'a set" and lt :: "'a \<Rightarrow> 'a \<Rightarrow> bool"
  assumes irrefl: "x \<in> S \<Longrightarrow> \<not> lt x x"
    and trans: "x \<in> S \<Longrightarrow> y \<in> S \<Longrightarrow> z \<in> S \<Longrightarrow> lt x y \<Longrightarrow> lt y z \<Longrightarrow> lt x z"
begin

lemma asym: "x \<in> S \<Longrightarrow> y \<in> S \<Longrightarrow> lt x y \<Longrightarrow> \<not> lt y x"
  using irrefl trans by blast

lemma sorted_insert_by:
  assumes "insert x (set ys) \<subseteq> S" and "\<forall>y \<in> set ys. lt x y \<or> lt y x"
    and "sorted_wrt lt ys"
  shows "sorted_wrt lt (insert_by lt x ys)"
  using assms
proof (induction ys)
  case (Cons y ys)
  have set_ins: "set (insert_by lt x ys) = insert x (set ys)"
    by (metis mset_insert_by set_mset_add_mset_insert set_mset_mset)
  show ?case
  proof (cases "lt y x")
    case True
    then show ?thesis using Cons by (auto simp: set_ins)
  next
    case False
    then have "lt x y" using Cons.prems by auto
    then have "\<forall>z \<in> set ys. lt x z" using Cons.prems trans[of x y] by auto
    then show ?thesis using False Cons.prems \<open>lt x y\<close> by auto
  qed
qed simp

lemma sorted_sort_by:
  assumes "set xs \<subseteq> S" and "distinct xs"
    and "\<forall>x \<in> set xs. \<forall>y \<in> set xs. x \<noteq> y \<longrightarrow> lt x y \<or> lt y x"
  shows "sorted_wrt lt (sort_by lt xs)"
  using assms
proof (induction xs)
  case (Cons x xs)
  have "sorted_wrt lt (insert_by lt x (sort_by lt xs))"
    using Cons by (intro sorted_insert_by) auto
  then show ?case by simp
qed simp

lemma sorted_unique:
  assumes "set xs \<subseteq> S" and "mset xs = mset ys" and "sorted_wrt lt xs" and "sorted_wrt lt ys"
  shows "xs = ys"
  using assms
proof (induction xs arbitrary: ys)
  case (Cons x xs)
  from Cons.prems(2) obtain y ys' where ys: "ys = y # ys'" by (cases ys) auto
  have sets: "set (x # xs) = set ys" using Cons.prems(2) by (metis set_mset_mset)
  have "x = y"
  proof (rule ccontr)
    assume neq: "x \<noteq> y"
    then have "lt y x" using sets ys Cons.prems(4) by auto
    moreover have "lt x y" using sets ys neq Cons.prems(3) by auto
    moreover have "x \<in> S" "y \<in> S" using Cons.prems(1) sets ys by auto
    ultimately show False using asym by blast
  qed
  then have "xs = ys'" using Cons ys by auto
  then show ?case using ys \<open>x = y\<close> by simp
qed simp

lemma sort_by_mset_cong:
  assumes "set xs \<subseteq> S" and "distinct xs" and "mset xs = mset ys"
    and "\<forall>x \<in> set xs. \<forall>y \<in> set xs. x \<noteq> y \<longrightarrow> lt x y \<or> lt y x"
  shows "sort_by lt xs = sort_by lt ys"
proof (rule sorted_unique)
  have sets: "set xs = set ys" using assms(3) by (metis set_mset_mset)
  have "distinct ys" using assms(2,3) by (metis mset_eq_imp_distinct_iff)
  then show "sorted_wrt lt (sort_by lt ys)" using assms sets by (intro sorted_sort_by) auto
  show "sorted_wrt lt (sort_by lt xs)" using assms by (intro sorted_sort_by) auto
qed (use assms in auto)

lemma hd_sort_by_least:
  assumes "set xs \<subseteq> S" and "distinct xs" and "xs \<noteq> []"
    and "\<forall>x \<in> set xs. \<forall>y \<in> set xs. x \<noteq> y \<longrightarrow> lt x y \<or> lt y x"
    and "x \<in> set xs" and "x \<noteq> hd (sort_by lt xs)"
  shows "lt (hd (sort_by lt xs)) x"
proof -
  obtain y ys where ys: "sort_by lt xs = y # ys"
    using assms(3) by (metis neq_Nil_conv sort_by_eq_Nil)
  have "sorted_wrt lt (y # ys)" using sorted_sort_by[of xs] assms ys by metis
  moreover have "x \<in> set (y # ys)" using assms(5) ys by (metis set_sort_by)
  ultimately show ?thesis using assms(6) ys by auto
qed

end

end
