(* ===== verification/Flow_Checked.thy ===== *)
theory Flow_Checked
  imports Flow_Prelude
begin

text \<open>
  Checked integer arithmetic (\<^verbatim>\<open>include/flowplace/checked.hpp\<close>) and the identity and generation
  types (\<^verbatim>\<open>include/flowplace/ids.hpp\<close>). Every identity and every generation is a 64-bit value;
  the tag classes of the source only keep them apart in the C++ type system, so each is a synonym of
  \<open>u64\<close> here. Value 0 is "absent".
\<close>

section \<open>Checked arithmetic\<close>

definition u64_max :: u64 where "u64_max = 0xFFFFFFFFFFFFFFFF"
definition u32_max :: u64 where "u32_max = 0xFFFFFFFF"
definition u16_max :: u64 where "u16_max = 0xFFFF"
definition u8_max :: u64 where "u8_max = 0xFF"

definition CheckedAdd :: "u64 \<Rightarrow> u64 \<Rightarrow> u64 option" where
  "CheckedAdd a b = (if a > u64_max - b then None else Some (a + b))"

definition CheckedSub :: "u64 \<Rightarrow> u64 \<Rightarrow> u64 option" where
  "CheckedSub a b = (if b > a then None else Some (a - b))"

definition CheckedMul :: "u64 \<Rightarrow> u64 \<Rightarrow> u64 option" where
  "CheckedMul a b = (if a = 0 \<or> b = 0 then Some 0
                     else if a > u64_max div b then None
                     else Some (a * b))"

definition SaturatingAdd :: "u64 \<Rightarrow> u64 \<Rightarrow> u64" where
  "SaturatingAdd a b = (case CheckedAdd a b of Some s \<Rightarrow> s | None \<Rightarrow> u64_max)"

definition SaturatingMul :: "u64 \<Rightarrow> u64 \<Rightarrow> u64" where
  "SaturatingMul a b = (case CheckedMul a b of Some s \<Rightarrow> s | None \<Rightarrow> u64_max)"

definition NarrowU32 :: "u64 \<Rightarrow> u32 option" where
  "NarrowU32 v = (if v > u32_max then None else Some (ucast v))"

definition NarrowU16 :: "u64 \<Rightarrow> u16 option" where
  "NarrowU16 v = (if v > u16_max then None else Some (ucast v))"

definition NarrowU8 :: "u64 \<Rightarrow> u8 option" where
  "NarrowU8 v = (if v > u8_max then None else Some (ucast v))"

section \<open>Identities, generations, epochs\<close>

type_synonym FlowId = u64
type_synonym PlacementId = u64
type_synonym CandidateSetId = u64
type_synonym PathId = u64
type_synonym CapacitySnapshotId = u64
type_synonym PolicyId = u64
type_synonym QosProfileId = u64
type_synonym ReservationId = u64
type_synonym EvidenceId = u64
type_synonym FailureDomainId = u64
type_synonym LocalityId = u64
type_synonym PolicyLabelId = u64
type_synonym AttemptId = u64
type_synonym IncarnationId = u64
type_synonym WorkerId = u64
type_synonym FabricEpoch = u64
type_synonym Gen = u64

text \<open>\<^verbatim>\<open>Id::valid\<close>, \<^verbatim>\<open>Generation::valid\<close>, \<^verbatim>\<open>FabricEpoch::valid\<close>.\<close>

definition valid_id :: "u64 \<Rightarrow> bool" where
  "valid_id v \<longleftrightarrow> v \<noteq> 0"

definition IsNewerThan :: "Gen \<Rightarrow> Gen \<Rightarrow> bool" where
  "IsNewerThan a b \<longleftrightarrow> a > b"

text \<open>\<open>Advance\<close> returns whether the counter could advance, and the counter afterwards.\<close>

definition Advance :: "Gen \<Rightarrow> bool \<times> Gen" where
  "Advance g = (if g = u64_max then (False, g) else (True, g + 1))"

definition Next :: "Gen \<Rightarrow> Gen" where
  "Next g = snd (Advance g)"

section \<open>Facts\<close>

lemma unat_u64_max: "unat u64_max = 2 ^ 64 - 1"
  by (simp add: u64_max_def)

lemma le_u64_max [simp]: "a \<le> u64_max"
  using unsigned_less[of a, where ?'a = nat] by (simp add: word_le_nat_alt unat_u64_max)

lemma CheckedAdd_None_iff: "CheckedAdd a b = None \<longleftrightarrow> 2 ^ 64 \<le> unat a + unat b"
proof -
  have "unat (u64_max - b) = 2 ^ 64 - 1 - unat b"
    using unat_sub[of b u64_max] by (simp add: unat_u64_max)
  moreover have "unat b < 2 ^ 64" using unsigned_less[of b, where ?'a = nat] by simp
  ultimately show ?thesis by (auto simp: CheckedAdd_def word_less_nat_alt)
qed

lemma CheckedAdd_Some: "CheckedAdd a b = Some c \<Longrightarrow> unat c = unat a + unat b"
proof -
  assume "CheckedAdd a b = Some c"
  then have "unat a + unat b < 2 ^ 64" "c = a + b"
    using CheckedAdd_None_iff[of a b] by (auto simp: CheckedAdd_def split: if_splits)
  then show ?thesis by (simp add: unat_word_ariths)
qed

lemma CheckedSub_Some: "CheckedSub a b = Some c \<Longrightarrow> unat c = unat a - unat b \<and> b \<le> a"
  by (auto simp: CheckedSub_def unat_sub split: if_splits)

lemma CheckedMul_None_iff: "CheckedMul a b = None \<longleftrightarrow> 2 ^ 64 \<le> unat a * unat b"
proof (cases "a = 0 \<or> b = 0")
  case True
  then show ?thesis by (auto simp: CheckedMul_def)
next
  case False
  then have b: "0 < unat b" by (simp add: unat_gt_0)
  have "u64_max div b < a \<longleftrightarrow> (2 ^ 64 - 1) div unat b < unat a"
    by (simp add: word_less_nat_alt unat_div unat_u64_max)
  also have "\<dots> \<longleftrightarrow> 2 ^ 64 - 1 < unat a * unat b"
    using b by (simp add: div_less_iff_less_mult)
  finally show ?thesis using False by (auto simp: CheckedMul_def)
qed

lemma CheckedMul_Some: "CheckedMul a b = Some c \<Longrightarrow> unat c = unat a * unat b"
proof -
  assume h: "CheckedMul a b = Some c"
  then have "unat a * unat b < 2 ^ 64" using CheckedMul_None_iff[of a b] by auto
  moreover have "c = a * b" using h by (auto simp: CheckedMul_def split: if_splits)
  ultimately show ?thesis by (simp add: unat_word_ariths)
qed

lemma CheckedMul_Some_iff: "(\<exists>c. CheckedMul a b = Some c) \<longleftrightarrow> unat a * unat b < 2 ^ 64"
  using CheckedMul_None_iff[of a b] by (cases "CheckedMul a b") auto

lemma CheckedMul_1 [simp]: "CheckedMul a 1 = Some a"
  by (simp add: CheckedMul_def leD)

lemma Advance_monotone: "Advance g = (True, g') \<Longrightarrow> IsNewerThan g' g \<and> unat g' = unat g + 1"
proof -
  assume h: "Advance g = (True, g')"
  then have ne: "g \<noteq> u64_max" and g': "g' = g + 1" by (auto simp: Advance_def split: if_splits)
  have "unat g \<noteq> 2 ^ 64 - 1" using ne unat_u64_max by (metis word_unat_eq_iff)
  then have lt: "unat g + 1 < 2 ^ 64" using unsigned_less[of g, where ?'a = nat] by simp
  then have "unat g' = unat g + 1" by (simp add: g' unat_word_ariths)
  then show ?thesis by (simp add: IsNewerThan_def word_less_nat_alt)
qed

lemma Advance_False_iff: "fst (Advance g) = False \<longleftrightarrow> g = u64_max"
  by (simp add: Advance_def)

end
