(* ===== verification/Flow_Status.thy ===== *)
theory Flow_Status
  imports Flow_Checked
begin

text \<open>
  Status codes and results (\<^verbatim>\<open>include/flowplace/status.hpp\<close>, \<^verbatim>\<open>src/status.cpp\<close>).
  \<^verbatim>\<open>Status\<close> is a record of a code and a message, \<^verbatim>\<open>Result<T>\<close> the sum \<open>Status + 'a\<close>
  whose left side is the failure.
\<close>

datatype (plugins only: code size) StatusCode =
  kOk
| kMalformedRequest
| kOversizeRequest
| kDuplicatePathId
| kInvalidId
| kUnknownReference
| kInconsistentAuthorityGeneration
| kContradictoryConstraints
| kUnrepresentableValue
| kMissingField
| kInvalidFieldValue
| kStaleAuthorityGeneration
| kStaleCandidateSet
| kStaleCapacitySnapshot
| kStalePolicy
| kStaleQos
| kStaleFabricEpoch
| kStaleIncumbent
| kStaleEvidence
| kCapacityInsufficient
| kServiceClassUnsatisfied
| kFailureDomainDiversityUnmet
| kLatencyBudgetUnmet
| kPolicyRejectedFlow
| kPolicyRejectedAllPaths
| kPolicyDeferred
| kPolicyMoveSuppressed
| kPolicyHeadroomGate
| kQueueFull
| kShuttingDown
| kFencedStaleEpoch
| kFencedStaleIncarnation
| kDuplicateAttemptConflict
| kCancelled
| kAlreadyCommitted
| kUnknownAttempt
| kWorkerLimitExceeded
| kNotRunning
| kStoreNotFound
| kStoreCorrupt
| kStoreTruncatedTail
| kStoreVersionUnsupported
| kStoreIoError
| kStoreGrowthExceeded
| kStoreAmbiguousAttempt
| kFrameTooLarge
| kFrameChecksumMismatch
| kProtocolMismatch
| kWireMalformed
| kConnectionClosed
| kIoError
| kSocketError
| kInvalidArgument
| kNotFound
| kAlreadyExists
| kUnsupported
| kArithmeticOverflow
| kInternalInvariantViolation

text \<open>\<^verbatim>\<open>static_cast<std::uint16_t>(code)\<close>.\<close>

primrec StatusCode_value :: "StatusCode \<Rightarrow> u16" where
  "StatusCode_value kOk = 0"
| "StatusCode_value kMalformedRequest = 10"
| "StatusCode_value kOversizeRequest = 11"
| "StatusCode_value kDuplicatePathId = 12"
| "StatusCode_value kInvalidId = 13"
| "StatusCode_value kUnknownReference = 14"
| "StatusCode_value kInconsistentAuthorityGeneration = 15"
| "StatusCode_value kContradictoryConstraints = 16"
| "StatusCode_value kUnrepresentableValue = 17"
| "StatusCode_value kMissingField = 18"
| "StatusCode_value kInvalidFieldValue = 19"
| "StatusCode_value kStaleAuthorityGeneration = 30"
| "StatusCode_value kStaleCandidateSet = 31"
| "StatusCode_value kStaleCapacitySnapshot = 32"
| "StatusCode_value kStalePolicy = 33"
| "StatusCode_value kStaleQos = 34"
| "StatusCode_value kStaleFabricEpoch = 35"
| "StatusCode_value kStaleIncumbent = 36"
| "StatusCode_value kStaleEvidence = 37"
| "StatusCode_value kCapacityInsufficient = 50"
| "StatusCode_value kServiceClassUnsatisfied = 51"
| "StatusCode_value kFailureDomainDiversityUnmet = 52"
| "StatusCode_value kLatencyBudgetUnmet = 53"
| "StatusCode_value kPolicyRejectedFlow = 70"
| "StatusCode_value kPolicyRejectedAllPaths = 71"
| "StatusCode_value kPolicyDeferred = 72"
| "StatusCode_value kPolicyMoveSuppressed = 73"
| "StatusCode_value kPolicyHeadroomGate = 74"
| "StatusCode_value kQueueFull = 90"
| "StatusCode_value kShuttingDown = 91"
| "StatusCode_value kFencedStaleEpoch = 92"
| "StatusCode_value kFencedStaleIncarnation = 93"
| "StatusCode_value kDuplicateAttemptConflict = 94"
| "StatusCode_value kCancelled = 95"
| "StatusCode_value kAlreadyCommitted = 96"
| "StatusCode_value kUnknownAttempt = 97"
| "StatusCode_value kWorkerLimitExceeded = 98"
| "StatusCode_value kNotRunning = 99"
| "StatusCode_value kStoreNotFound = 110"
| "StatusCode_value kStoreCorrupt = 111"
| "StatusCode_value kStoreTruncatedTail = 112"
| "StatusCode_value kStoreVersionUnsupported = 113"
| "StatusCode_value kStoreIoError = 114"
| "StatusCode_value kStoreGrowthExceeded = 115"
| "StatusCode_value kStoreAmbiguousAttempt = 116"
| "StatusCode_value kFrameTooLarge = 130"
| "StatusCode_value kFrameChecksumMismatch = 131"
| "StatusCode_value kProtocolMismatch = 132"
| "StatusCode_value kWireMalformed = 133"
| "StatusCode_value kConnectionClosed = 134"
| "StatusCode_value kIoError = 150"
| "StatusCode_value kSocketError = 151"
| "StatusCode_value kInvalidArgument = 152"
| "StatusCode_value kNotFound = 153"
| "StatusCode_value kAlreadyExists = 154"
| "StatusCode_value kUnsupported = 155"
| "StatusCode_value kArithmeticOverflow = 156"
| "StatusCode_value kInternalInvariantViolation = 157"

definition kCodeNames :: "(StatusCode \<times> string \<times> string) list" where
  "kCodeNames = [
    (kOk, ''OK'', ''ok''),
    (kMalformedRequest, ''MALFORMED_REQUEST'', ''structural''),
    (kOversizeRequest, ''OVERSIZE_REQUEST'', ''structural''),
    (kDuplicatePathId, ''DUPLICATE_PATH_ID'', ''structural''),
    (kInvalidId, ''INVALID_ID'', ''structural''),
    (kUnknownReference, ''UNKNOWN_REFERENCE'', ''structural''),
    (kInconsistentAuthorityGeneration, ''INCONSISTENT_AUTHORITY_GENERATION'', ''structural''),
    (kContradictoryConstraints, ''CONTRADICTORY_CONSTRAINTS'', ''structural''),
    (kUnrepresentableValue, ''UNREPRESENTABLE_VALUE'', ''structural''),
    (kMissingField, ''MISSING_FIELD'', ''structural''),
    (kInvalidFieldValue, ''INVALID_FIELD_VALUE'', ''structural''),
    (kStaleAuthorityGeneration, ''STALE_AUTHORITY_GENERATION'', ''staleness''),
    (kStaleCandidateSet, ''STALE_CANDIDATE_SET'', ''staleness''),
    (kStaleCapacitySnapshot, ''STALE_CAPACITY_SNAPSHOT'', ''staleness''),
    (kStalePolicy, ''STALE_POLICY'', ''staleness''),
    (kStaleQos, ''STALE_QOS'', ''staleness''),
    (kStaleFabricEpoch, ''STALE_FABRIC_EPOCH'', ''staleness''),
    (kStaleIncumbent, ''STALE_INCUMBENT'', ''staleness''),
    (kStaleEvidence, ''STALE_EVIDENCE'', ''staleness''),
    (kCapacityInsufficient, ''CAPACITY_INSUFFICIENT'', ''feasibility''),
    (kServiceClassUnsatisfied, ''SERVICE_CLASS_UNSATISFIED'', ''feasibility''),
    (kFailureDomainDiversityUnmet, ''FAILURE_DOMAIN_DIVERSITY_UNMET'', ''feasibility''),
    (kLatencyBudgetUnmet, ''LATENCY_BUDGET_UNMET'', ''feasibility''),
    (kPolicyRejectedFlow, ''POLICY_REJECTED_FLOW'', ''policy''),
    (kPolicyRejectedAllPaths, ''POLICY_REJECTED_ALL_PATHS'', ''policy''),
    (kPolicyDeferred, ''POLICY_DEFERRED'', ''policy''),
    (kPolicyMoveSuppressed, ''POLICY_MOVE_SUPPRESSED'', ''policy''),
    (kPolicyHeadroomGate, ''POLICY_HEADROOM_GATE'', ''policy''),
    (kQueueFull, ''QUEUE_FULL'', ''runtime''),
    (kShuttingDown, ''SHUTTING_DOWN'', ''runtime''),
    (kFencedStaleEpoch, ''FENCED_STALE_EPOCH'', ''runtime''),
    (kFencedStaleIncarnation, ''FENCED_STALE_INCARNATION'', ''runtime''),
    (kDuplicateAttemptConflict, ''DUPLICATE_ATTEMPT_CONFLICT'', ''runtime''),
    (kCancelled, ''CANCELLED'', ''runtime''),
    (kAlreadyCommitted, ''ALREADY_COMMITTED'', ''runtime''),
    (kUnknownAttempt, ''UNKNOWN_ATTEMPT'', ''runtime''),
    (kWorkerLimitExceeded, ''WORKER_LIMIT_EXCEEDED'', ''runtime''),
    (kNotRunning, ''NOT_RUNNING'', ''runtime''),
    (kStoreNotFound, ''STORE_NOT_FOUND'', ''store''),
    (kStoreCorrupt, ''STORE_CORRUPT'', ''store''),
    (kStoreTruncatedTail, ''STORE_TRUNCATED_TAIL'', ''store''),
    (kStoreVersionUnsupported, ''STORE_VERSION_UNSUPPORTED'', ''store''),
    (kStoreIoError, ''STORE_IO_ERROR'', ''store''),
    (kStoreGrowthExceeded, ''STORE_GROWTH_EXCEEDED'', ''store''),
    (kStoreAmbiguousAttempt, ''STORE_AMBIGUOUS_ATTEMPT'', ''store''),
    (kFrameTooLarge, ''FRAME_TOO_LARGE'', ''wire''),
    (kFrameChecksumMismatch, ''FRAME_CHECKSUM_MISMATCH'', ''wire''),
    (kProtocolMismatch, ''PROTOCOL_MISMATCH'', ''wire''),
    (kWireMalformed, ''WIRE_MALFORMED'', ''wire''),
    (kConnectionClosed, ''CONNECTION_CLOSED'', ''wire''),
    (kIoError, ''IO_ERROR'', ''generic''),
    (kSocketError, ''SOCKET_ERROR'', ''generic''),
    (kInvalidArgument, ''INVALID_ARGUMENT'', ''generic''),
    (kNotFound, ''NOT_FOUND'', ''generic''),
    (kAlreadyExists, ''ALREADY_EXISTS'', ''generic''),
    (kUnsupported, ''UNSUPPORTED'', ''generic''),
    (kArithmeticOverflow, ''ARITHMETIC_OVERFLOW'', ''generic''),
    (kInternalInvariantViolation, ''INTERNAL_INVARIANT_VIOLATION'', ''generic'')]"

definition IsKnownStatusCode :: "u16 \<Rightarrow> bool" where
  "IsKnownStatusCode value = list_ex (\<lambda>entry. StatusCode_value (fst entry) = value) kCodeNames"

definition StatusCodeName :: "StatusCode \<Rightarrow> string" where
  "StatusCodeName code = (case find (\<lambda>entry. fst entry = code) kCodeNames of
     Some entry \<Rightarrow> fst (snd entry) | None \<Rightarrow> ''UNKNOWN_CODE'')"

definition StatusCodeCategory :: "StatusCode \<Rightarrow> string" where
  "StatusCodeCategory code = (case find (\<lambda>entry. fst entry = code) kCodeNames of
     Some entry \<Rightarrow> snd (snd entry) | None \<Rightarrow> ''unknown'')"

text \<open>
  \<^verbatim>\<open>static_cast<StatusCode>(value)\<close> where a decoder has checked \<open>IsKnownStatusCode\<close>; the
  decoders reject every other value before the cast.
\<close>

definition StatusCode_of :: "u16 \<Rightarrow> StatusCode option" where
  "StatusCode_of value =
     map_option fst (find (\<lambda>entry. StatusCode_value (fst entry) = value) kCodeNames)"

record Status =
  st_code :: StatusCode
  st_message :: string

definition Status_Ok :: Status where
  "Status_Ok = \<lparr>st_code = kOk, st_message = []\<rparr>"

definition mk_Status :: "StatusCode \<Rightarrow> string \<Rightarrow> Status" where
  "mk_Status code message = \<lparr>st_code = code, st_message = message\<rparr>"

definition Status_ok :: "Status \<Rightarrow> bool" where
  "Status_ok s \<longleftrightarrow> st_code s = kOk"

definition Status_ToString :: "Status \<Rightarrow> string" where
  "Status_ToString s = StatusCodeName (st_code s) @
     (if st_message s = [] then [] else '': '' @ st_message s)"

type_synonym 'a Result = "Status + 'a"

section \<open>Facts\<close>

lemma mk_Status_simps [simp]:
  "st_code (mk_Status c m) = c" "st_message (mk_Status c m) = m"
  by (simp_all add: mk_Status_def)

lemma Status_ok_Ok [simp]: "Status_ok Status_Ok" "st_code Status_Ok = kOk"
  by (simp_all add: Status_ok_def Status_Ok_def)

lemma Status_ok_mk [simp]: "Status_ok (mk_Status c m) \<longleftrightarrow> c = kOk"
  by (simp add: Status_ok_def)

lemma kCodeNames_codes: "map fst kCodeNames =
   [kOk, kMalformedRequest, kOversizeRequest, kDuplicatePathId
    , kInvalidId, kUnknownReference, kInconsistentAuthorityGeneration, kContradictoryConstraints
    , kUnrepresentableValue, kMissingField, kInvalidFieldValue, kStaleAuthorityGeneration
    , kStaleCandidateSet, kStaleCapacitySnapshot, kStalePolicy, kStaleQos
    , kStaleFabricEpoch, kStaleIncumbent, kStaleEvidence, kCapacityInsufficient
    , kServiceClassUnsatisfied, kFailureDomainDiversityUnmet, kLatencyBudgetUnmet, kPolicyRejectedFlow
    , kPolicyRejectedAllPaths, kPolicyDeferred, kPolicyMoveSuppressed, kPolicyHeadroomGate
    , kQueueFull, kShuttingDown, kFencedStaleEpoch, kFencedStaleIncarnation
    , kDuplicateAttemptConflict, kCancelled, kAlreadyCommitted, kUnknownAttempt
    , kWorkerLimitExceeded, kNotRunning, kStoreNotFound, kStoreCorrupt
    , kStoreTruncatedTail, kStoreVersionUnsupported, kStoreIoError, kStoreGrowthExceeded
    , kStoreAmbiguousAttempt, kFrameTooLarge, kFrameChecksumMismatch, kProtocolMismatch
    , kWireMalformed, kConnectionClosed, kIoError, kSocketError
    , kInvalidArgument, kNotFound, kAlreadyExists, kUnsupported
    , kArithmeticOverflow, kInternalInvariantViolation]"
  by (simp add: kCodeNames_def)

lemma codes_strict: "sorted_wrt (<) (map StatusCode_value (map fst kCodeNames))"
  by (simp add: kCodeNames_codes sorted_wrt_less_Cons2 sorted_wrt1 del: sorted_wrt.simps(2))

lemma codes_complete: "c \<in> fst ` set kCodeNames"
proof -
  have "c \<in> set (map fst kCodeNames)"
    unfolding kCodeNames_codes by (cases c) simp_all
  then show ?thesis by simp
qed

lemma StatusCode_of_value [simp]: "StatusCode_of (StatusCode_value c) = Some c"
proof -
  obtain entry where e: "entry \<in> set kCodeNames" and c: "c = fst entry"
    using codes_complete[of c] by blast
  have "distinct (map (\<lambda>entry. StatusCode_value (fst entry)) kCodeNames)"
    using codes_strict by (simp add: strict_sorted_iff comp_def)
  from find_distinct_key[OF this e] show ?thesis by (simp add: StatusCode_of_def c)
qed

lemma StatusCode_value_inject [simp]: "StatusCode_value a = StatusCode_value b \<longleftrightarrow> a = b"
  by (metis StatusCode_of_value option.inject)

lemma IsKnownStatusCode_iff: "IsKnownStatusCode v \<longleftrightarrow> (\<exists>c. v = StatusCode_value c)"
proof
  assume "IsKnownStatusCode v"
  then show "\<exists>c. v = StatusCode_value c" by (auto simp: IsKnownStatusCode_def list_ex_iff)
next
  assume "\<exists>c. v = StatusCode_value c"
  then obtain c where v: "v = StatusCode_value c" by blast
  have "StatusCode_of v = Some c" by (simp add: v)
  then have "find (\<lambda>entry. StatusCode_value (fst entry) = v) kCodeNames \<noteq> None"
    by (auto simp: StatusCode_of_def)
  then show "IsKnownStatusCode v"
    unfolding IsKnownStatusCode_def list_ex_iff find_None_iff by blast
qed

lemma IsKnownStatusCode_value [simp]: "IsKnownStatusCode (StatusCode_value c)"
  by (auto simp: IsKnownStatusCode_iff)

end
