(* ===== verification/Flow_Bytes.thy ===== *)
theory Flow_Bytes
  imports Flow_Status
begin

text \<open>
  Little-endian byte encoding (\<^verbatim>\<open>include/flowplace/bytes.hpp\<close>, \<^verbatim>\<open>src/bytes.cpp\<close>).
  A \<^verbatim>\<open>ByteWriter\<close> only ever appends to \<^verbatim>\<open>data_\<close>, so each of its operations is the list of
  bytes it appends, and a sequence of writes is a concatenation. A \<^verbatim>\<open>ByteReader\<close> observes its
  buffer only from \<^verbatim>\<open>offset_\<close> on, so its state is the list of bytes that remain: \<open>remaining\<close> is
  the length, \<open>AtEnd\<close> is emptiness, and a read returns the value with the bytes left over, or
  \<open>None\<close> for the source's \<open>false\<close>. A signed 64-bit value is its two's-complement word.
\<close>

unbundle bit_operations_syntax

type_synonym i64 = "64 word"
type_synonym ByteReader = "byte list"

section \<open>Writer\<close>

text \<open>Byte \<open>i\<close> of a value: \<^verbatim>\<open>static_cast<std::uint8_t>((v >> (8 * i)) & 0xFFu)\<close>.\<close>

definition le_byte :: "nat \<Rightarrow> 'a::len word \<Rightarrow> byte" where
  "le_byte i v = ucast (drop_bit (8 * i) v AND 0xFF)"

definition put_le :: "nat \<Rightarrow> 'a::len word \<Rightarrow> byte list" where
  "put_le n v = map (\<lambda>i. le_byte i v) [0..<n]"

definition ByteWriter_U8 :: "u8 \<Rightarrow> byte list" where
  "ByteWriter_U8 v = [v]"

definition ByteWriter_U16 :: "u16 \<Rightarrow> byte list" where
  "ByteWriter_U16 v = [le_byte 0 v, le_byte 1 v]"

definition ByteWriter_U32 :: "u32 \<Rightarrow> byte list" where
  "ByteWriter_U32 v = put_le 4 v"

definition ByteWriter_U64 :: "u64 \<Rightarrow> byte list" where
  "ByteWriter_U64 v = put_le 8 v"

definition ByteWriter_I64 :: "i64 \<Rightarrow> byte list" where
  "ByteWriter_I64 v = ByteWriter_U64 v"

definition ByteWriter_Bytes :: "byte list \<Rightarrow> byte list" where
  "ByteWriter_Bytes data = (if length data = 0 then [] else data)"

text \<open>The \<^verbatim>\<open>char\<close>s of a \<^verbatim>\<open>std::string\<close> as bytes, and back.\<close>

definition byte_of_char :: "char \<Rightarrow> byte" where
  "byte_of_char c = word_of_nat (of_char c)"

definition char_of_byte :: "byte \<Rightarrow> char" where
  "char_of_byte b = char_of (unat b)"

definition ByteWriter_String :: "string \<Rightarrow> byte list" where
  "ByteWriter_String v =
     ByteWriter_U32 (word_of_nat (length v)) @ ByteWriter_Bytes (map byte_of_char v)"

section \<open>Reader\<close>

text \<open>\<^verbatim>\<open>value |= static_cast<...>(data_[offset_ + i]) << (8 * i)\<close> for \<open>i = 0 \<dots> n - 1\<close>.\<close>

definition get_le :: "nat \<Rightarrow> byte list \<Rightarrow> 'a::len word" where
  "get_le n bs = foldl (\<lambda>value i. value OR push_bit (8 * i) (ucast (bs ! i))) 0 [0..<n]"

definition ByteReader_U8 :: "ByteReader \<Rightarrow> (u8 \<times> ByteReader) option" where
  "ByteReader_U8 r = (if length r < 1 then None else Some (r ! 0, drop 1 r))"

definition ByteReader_U16 :: "ByteReader \<Rightarrow> (u16 \<times> ByteReader) option" where
  "ByteReader_U16 r =
     (if length r < 2 then None
      else Some (ucast (r ! 0) OR push_bit 8 (ucast (r ! 1)), drop 2 r))"

definition ByteReader_U32 :: "ByteReader \<Rightarrow> (u32 \<times> ByteReader) option" where
  "ByteReader_U32 r = (if length r < 4 then None else Some (get_le 4 r, drop 4 r))"

definition ByteReader_U64 :: "ByteReader \<Rightarrow> (u64 \<times> ByteReader) option" where
  "ByteReader_U64 r = (if length r < 8 then None else Some (get_le 8 r, drop 8 r))"

definition ByteReader_I64 :: "ByteReader \<Rightarrow> (i64 \<times> ByteReader) option" where
  "ByteReader_I64 r = (case ByteReader_U64 r of None \<Rightarrow> None | Some (raw, r') \<Rightarrow> Some (raw, r'))"

definition ByteReader_Bytes :: "nat \<Rightarrow> ByteReader \<Rightarrow> (byte list \<times> ByteReader) option" where
  "ByteReader_Bytes n r = (if length r < n then None else Some (take n r, drop n r))"

definition ByteReader_String :: "u32 \<Rightarrow> ByteReader \<Rightarrow> (string \<times> ByteReader) option" where
  "ByteReader_String max_length r =
     (case ByteReader_U32 r of
        None \<Rightarrow> None
      | Some (len, r') \<Rightarrow>
          if len > max_length then None
          else if length r' < unat len then None
          else Some (map char_of_byte (take (unat len) r'), drop (unat len) r'))"

definition ByteReader_AtEnd :: "ByteReader \<Rightarrow> bool" where
  "ByteReader_AtEnd r \<longleftrightarrow> r = []"

section \<open>Little-endian facts\<close>

lemma length_put_le [simp]: "length (put_le n v) = n"
  by (simp add: put_le_def)

lemma bit_le_byte: "bit (le_byte i v) k \<longleftrightarrow> k < 8 \<and> bit v (8 * i + k)" for v :: "'a::len word"
proof -
  have mask: "(0xFF :: 'a word) = mask 8" by (simp add: mask_eq_exp_minus_1)
  show ?thesis
    using bit_imp_le_length[of v "8 * i + k"]
    by (auto simp: le_byte_def mask bit_simps ac_simps)
qed

lemma bit_foldl_or:
  "bit (foldl (\<lambda>v i. v OR f i) (z :: 'a::len word) is) k \<longleftrightarrow> bit z k \<or> (\<exists>i \<in> set is. bit (f i) k)"
  by (induction "is" arbitrary: z) (auto simp: bit_simps)

lemma bit_get_le:
  "bit (get_le n bs :: 'a::len word) k \<longleftrightarrow> k < LENGTH('a) \<and> k div 8 < n \<and> bit (bs ! (k div 8)) (k mod 8)"
proof -
  have "bit (get_le n bs :: 'a word) k \<longleftrightarrow>
    (\<exists>i < n. k < LENGTH('a) \<and> 8 * i \<le> k \<and> bit (bs ! i) (k - 8 * i))"
    by (auto simp: get_le_def bit_foldl_or bit_simps)
  also have "\<dots> \<longleftrightarrow> k < LENGTH('a) \<and> k div 8 < n \<and> bit (bs ! (k div 8)) (k mod 8)"
  proof
    assume "\<exists>i < n. k < LENGTH('a) \<and> 8 * i \<le> k \<and> bit (bs ! i) (k - 8 * i)"
    then obtain i where i: "i < n" "k < LENGTH('a)" "8 * i \<le> k" "bit (bs ! i) (k - 8 * i)" by blast
    have "k - 8 * i < 8" using i(4) bit_imp_le_length by fastforce
    then have "i = k div 8" using i(3) by linarith
    then show "k < LENGTH('a) \<and> k div 8 < n \<and> bit (bs ! (k div 8)) (k mod 8)"
      using i by (simp add: minus_mult_div_eq_mod)
  next
    assume h: "k < LENGTH('a) \<and> k div 8 < n \<and> bit (bs ! (k div 8)) (k mod 8)"
    show "\<exists>i < n. k < LENGTH('a) \<and> 8 * i \<le> k \<and> bit (bs ! i) (k - 8 * i)"
      using h by (intro exI[of _ "k div 8"]) (simp add: minus_mult_div_eq_mod)
  qed
  finally show ?thesis .
qed

lemma get_put_le:
  assumes "LENGTH('a::len) = 8 * n"
  shows "get_le n (put_le n (v :: 'a word) @ r) = v"
proof (rule bit_eqI)
  fix k
  have "k < 8 * n \<Longrightarrow> k div 8 < n" by auto
  moreover have "bit v k \<Longrightarrow> k < 8 * n" using assms bit_imp_le_length by metis
  ultimately show "bit (get_le n (put_le n v @ r) :: 'a word) k = bit v k"
    using assms by (auto simp: bit_get_le nth_append put_le_def bit_le_byte)
qed

lemma put_get_le:
  assumes "LENGTH('a::len) = 8 * n" and "length bs = n"
  shows "put_le n (get_le n bs :: 'a word) = bs"
proof (rule nth_equalityI)
  show "length (put_le n (get_le n bs :: 'a word)) = length bs" by (simp add: assms)
  fix i assume "i < length (put_le n (get_le n bs :: 'a word))"
  then have i: "i < n" by simp
  show "put_le n (get_le n bs :: 'a word) ! i = bs ! i"
  proof (rule bit_eqI)
    fix k
    have "bit (bs ! i) k \<Longrightarrow> k < 8" using bit_imp_le_length by fastforce
    then show "bit (put_le n (get_le n bs :: 'a word) ! i) k = bit (bs ! i) k"
      using i assms by (cases "k < 8") (auto simp: put_le_def bit_le_byte bit_get_le)
  qed
qed

lemma get_le_append: "length bs = n \<Longrightarrow> get_le n (bs @ r) = (get_le n bs :: 'a::len word)"
  by (auto intro!: bit_eqI simp: bit_get_le nth_append)

lemma char_of_byte_of_char [simp]: "char_of_byte (byte_of_char c) = c"
proof -
  have "(of_char c :: nat) < 256" by simp
  then show ?thesis by (simp add: char_of_byte_def byte_of_char_def unat_of_nat)
qed

section \<open>The codec contract\<close>

text \<open>
  What the rest of the library relies on: a decoder, applied to an encoding followed by any other
  bytes, returns exactly the encoded value and leaves exactly the other bytes.
\<close>

locale codec =
  fixes enc :: "'a \<Rightarrow> byte list"
    and dec :: "ByteReader \<Rightarrow> ('a \<times> ByteReader) option"
    and wf :: "'a \<Rightarrow> bool"
  assumes dec_enc: "wf x \<Longrightarrow> dec (enc x @ r) = Some (x, r)"
begin

lemma enc_prefix_free: "wf x \<Longrightarrow> wf y \<Longrightarrow> enc x @ r = enc y @ s \<Longrightarrow> x = y \<and> r = s"
  by (metis dec_enc option.inject prod.inject)

lemma enc_inject: "wf x \<Longrightarrow> wf y \<Longrightarrow> enc x = enc y \<longleftrightarrow> x = y"
  using enc_prefix_free[of x y "[]" "[]"] by auto

end

text \<open>The counted loop of the decoders: \<open>count\<close> reads, stopping at the first failure.\<close>

fun read_n :: "(ByteReader \<Rightarrow> ('a \<times> ByteReader) option) \<Rightarrow> nat \<Rightarrow> ByteReader \<Rightarrow> ('a list \<times> ByteReader) option" where
  "read_n dec 0 r = Some ([], r)"
| "read_n dec (Suc n) r =
     (case dec r of
        None \<Rightarrow> None
      | Some (x, r') \<Rightarrow>
          (case read_n dec n r' of
             None \<Rightarrow> None
           | Some (xs, r'') \<Rightarrow> Some (x # xs, r'')))"

lemma length_read_n: "read_n dec n r = Some (xs, r') \<Longrightarrow> length xs = n"
  by (induction dec n r arbitrary: xs r' rule: read_n.induct) (auto split: option.splits)

context codec
begin

lemma read_n_concat:
  "\<forall>x \<in> set xs. wf x \<Longrightarrow> read_n dec (length xs) (concat (map enc xs) @ r) = Some (xs, r)"
  by (induction xs) (simp_all add: dec_enc)

end

interpretation u8_codec: codec ByteWriter_U8 ByteReader_U8 "\<lambda>_. True"
  by unfold_locales (simp add: ByteWriter_U8_def ByteReader_U8_def)

interpretation u16_codec: codec ByteWriter_U16 ByteReader_U16 "\<lambda>_. True"
proof unfold_locales
  fix v :: u16 and r
  have put: "ByteWriter_U16 v = put_le 2 v"
    by (simp add: ByteWriter_U16_def put_le_def upt_rec numeral_2_eq_2)
  have get: "ucast (bs ! 0) OR push_bit 8 (ucast (bs ! 1)) = (get_le 2 bs :: u16)" for bs
    by (simp add: get_le_def upt_rec numeral_2_eq_2)
  show "ByteReader_U16 (ByteWriter_U16 v @ r) = Some (v, r)"
    using get_put_le[of 2 v r] by (simp only: ByteReader_U16_def get put) simp
qed

interpretation u32_codec: codec ByteWriter_U32 ByteReader_U32 "\<lambda>_. True"
  by unfold_locales (simp add: ByteWriter_U32_def ByteReader_U32_def get_put_le)

interpretation u64_codec: codec ByteWriter_U64 ByteReader_U64 "\<lambda>_. True"
  by unfold_locales (simp add: ByteWriter_U64_def ByteReader_U64_def get_put_le)

interpretation i64_codec: codec ByteWriter_I64 ByteReader_I64 "\<lambda>_. True"
  by unfold_locales (simp add: ByteWriter_I64_def ByteReader_I64_def u64_codec.dec_enc)

text \<open>
  A string survives the trip when its length fits the 32-bit prefix and the bound the reader
  accepts.
\<close>

interpretation string_codec: codec ByteWriter_String "ByteReader_String m"
  "\<lambda>s. length s \<le> unat m" for m
proof unfold_locales
  fix s :: string and r assume s: "length s \<le> unat m"
  then have lt: "length s < 2 ^ 32" using unsigned_less[of m, where ?'a = nat] by simp
  then have len: "unat (word_of_nat (length s) :: u32) = length s" by (simp add: unat_of_nat)
  then have le: "\<not> (m < word_of_nat (length s))" using s by (simp add: word_less_nat_alt)
  have bytes: "ByteWriter_Bytes bs = bs" for bs by (simp add: ByteWriter_Bytes_def)
  show "ByteReader_String m (ByteWriter_String s @ r) = Some (s, r)"
    by (simp add: ByteReader_String_def ByteWriter_String_def u32_codec.dec_enc bytes len le comp_def)
qed

lemmas word_codecs [codec_laws] =
  u8_codec.dec_enc u16_codec.dec_enc u32_codec.dec_enc u64_codec.dec_enc i64_codec.dec_enc

text \<open>A short buffer is an error, never a zero-filled value.\<close>

lemma ByteReader_short:
  "length r < 1 \<Longrightarrow> ByteReader_U8 r = None"
  "length r < 2 \<Longrightarrow> ByteReader_U16 r = None"
  "length r < 4 \<Longrightarrow> ByteReader_U32 r = None"
  "length r < 8 \<Longrightarrow> ByteReader_U64 r = None"
  by (simp_all add: ByteReader_U8_def ByteReader_U16_def ByteReader_U32_def ByteReader_U64_def)

section \<open>Fields at an offset\<close>

text \<open>\<^verbatim>\<open>GetU16\<close>, \<^verbatim>\<open>GetU32\<close> and \<^verbatim>\<open>GetU64\<close> of the frame and journal formats, at an offset of a buffer.\<close>

definition GetU16_at :: "nat \<Rightarrow> byte list \<Rightarrow> u16" where "GetU16_at off buf = get_le 2 (drop off buf)"
definition GetU32_at :: "nat \<Rightarrow> byte list \<Rightarrow> u32" where "GetU32_at off buf = get_le 4 (drop off buf)"
definition GetU64_at :: "nat \<Rightarrow> byte list \<Rightarrow> u64" where "GetU64_at off buf = get_le 8 (drop off buf)"

lemma take_drop_append: "take k (drop a bs) @ drop (a + k) bs = drop a bs"
  by (metis append_take_drop_id drop_drop add.commute)

lemma GetU32_at_append:
  assumes "off + 4 \<le> length a"
  shows "GetU32_at off (a @ b) = GetU32_at off a"
proof -
  have a: "drop off a = take 4 (drop off a) @ drop (off + 4) a" by (simp add: take_drop_append)
  have len: "length (take 4 (drop off a)) = 4" using assms by simp
  show ?thesis
    using assms get_le_append [OF len, of "drop (off + 4) a @ b", where 'a = 32]
      get_le_append [OF len, of "drop (off + 4) a", where 'a = 32]
    by (simp add: GetU32_at_def) (metis a append_assoc)
qed

lemma get_le_cong:
  assumes "\<And>j. j < n \<Longrightarrow> a ! j = b ! j"
  shows "get_le n a = (get_le n b :: 'a::len word)"
  unfolding get_le_def using assms by (intro foldl_cong) simp_all

lemma get_le_take: "get_le n (take n bs) = (get_le n bs :: 'a::len word)"
  by (rule get_le_cong) simp

lemma get_le_update:
  assumes "i < off \<or> off + n \<le> i" "off + n \<le> length bs"
  shows "get_le n (drop off (bs[i := c])) = (get_le n (drop off bs) :: 'a::len word)"
proof (rule get_le_cong)
  fix j assume "j < n"
  then have "i \<noteq> off + j" "off \<le> length bs" using assms by auto
  then show "drop off (bs[i := c]) ! j = drop off bs ! j" by simp
qed

lemma get_le_inject:
  assumes "(get_le n a :: 'a::len word) = get_le n b" "LENGTH('a) = 8 * n" "length a = n" "length b = n"
  shows "a = b"
  using put_get_le [where 'a = 'a, OF assms(2,3)] put_get_le [where 'a = 'a, OF assms(2,4)] assms(1) by metis

lemma GetU32_at_changed:
  assumes "off \<le> i" "i < off + 4" "off + 4 \<le> length bs" "c \<noteq> bs ! i"
  shows "GetU32_at off (bs[i := c]) \<noteq> GetU32_at off bs"
proof
  assume "GetU32_at off (bs[i := c]) = GetU32_at off bs"
  then have "(get_le 4 (take 4 (drop off (bs[i := c]))) :: u32) = get_le 4 (take 4 (drop off bs))"
    by (simp add: GetU32_at_def get_le_take)
  then have "take 4 (drop off (bs[i := c])) = take 4 (drop off bs)"
    using assms(3) by (intro get_le_inject [where 'a = 32 and n = 4]) simp_all
  then have "take 4 (drop off (bs[i := c])) ! (i - off) = take 4 (drop off bs) ! (i - off)" by simp
  then show False using assms by simp
qed

end
