(* ===== verification/Flow_Hash.thy ===== *)
theory Flow_Hash
  imports Flow_Bytes
begin

text \<open>
  Integrity and identity hashing (\<^verbatim>\<open>include/flowplace/hash.hpp\<close>, \<^verbatim>\<open>src/hash.cpp\<close>): the
  table-driven CRC-32C, FNV-1a, the canonical hasher and the 128-bit digest. The state of a
  \<^verbatim>\<open>Crc32C\<close> is its \<^verbatim>\<open>state_\<close>, that of a \<^verbatim>\<open>CanonicalHasher\<close> the state of its FNV hasher.
  Shown: the table-driven CRC equals the bitwise CRC; neither hash can miss a change of exactly one
  byte; feeding a buffer in pieces equals feeding it at once; a digest is determined by its low half.
\<close>

section \<open>CRC-32C\<close>

definition crc32c_bit :: "u32 \<Rightarrow> u32" where
  "crc32c_bit crc = (if crc AND 1 \<noteq> 0 then drop_bit 1 crc XOR 0x82F63B78 else drop_bit 1 crc)"

definition kCrc32cTable :: "u32 list" where
  "kCrc32cTable = map (\<lambda>i. (crc32c_bit ^^ 8) (word_of_nat i)) [0..<256]"

definition Crc32C_step :: "u32 \<Rightarrow> byte \<Rightarrow> u32" where
  "Crc32C_step state b = kCrc32cTable ! unat ((state XOR ucast b) AND 0xFF) XOR drop_bit 8 state"

definition Crc32C_Update :: "u32 \<Rightarrow> byte list \<Rightarrow> u32" where
  "Crc32C_Update state data = foldl Crc32C_step state data"

definition Crc32C_init :: u32 where
  "Crc32C_init = 0xFFFFFFFF"

definition Crc32C_value :: "u32 \<Rightarrow> u32" where
  "Crc32C_value state = NOT state"

definition Crc32C_Compute :: "byte list \<Rightarrow> u32" where
  "Crc32C_Compute data = Crc32C_value (Crc32C_Update Crc32C_init data)"

section \<open>FNV-1a and the canonical hasher\<close>

definition kFnvOffsetBasis :: u64 where "kFnvOffsetBasis = 0xCBF29CE484222325"
definition kFnvPrime :: u64 where "kFnvPrime = 0x100000001B3"
definition kSecondOffsetBasis :: u64 where "kSecondOffsetBasis = 0x84222325CBF29CE4"

definition Fnv1a64_step :: "u64 \<Rightarrow> byte \<Rightarrow> u64" where
  "Fnv1a64_step state b = (state XOR ucast b) * kFnvPrime"

definition Fnv1a64_Update :: "u64 \<Rightarrow> byte list \<Rightarrow> u64" where
  "Fnv1a64_Update state data = foldl Fnv1a64_step state data"

definition Fnv1a64_Compute :: "byte list \<Rightarrow> u64" where
  "Fnv1a64_Compute data = Fnv1a64_Update kFnvOffsetBasis data"

type_synonym CanonicalHasher = u64

definition CanonicalHasher_init :: CanonicalHasher where
  "CanonicalHasher_init = kFnvOffsetBasis"

definition AddU8 :: "u8 \<Rightarrow> CanonicalHasher \<Rightarrow> CanonicalHasher" where
  "AddU8 v h = Fnv1a64_Update h [v]"

definition AddU16 :: "u16 \<Rightarrow> CanonicalHasher \<Rightarrow> CanonicalHasher" where
  "AddU16 v h = Fnv1a64_Update h [le_byte 0 v, le_byte 1 v]"

definition AddU32 :: "u32 \<Rightarrow> CanonicalHasher \<Rightarrow> CanonicalHasher" where
  "AddU32 v h = Fnv1a64_Update h [le_byte 0 v, le_byte 1 v, le_byte 2 v, le_byte 3 v]"

definition AddU64 :: "u64 \<Rightarrow> CanonicalHasher \<Rightarrow> CanonicalHasher" where
  "AddU64 v h = Fnv1a64_Update h (put_le 8 v)"

definition AddI64 :: "i64 \<Rightarrow> CanonicalHasher \<Rightarrow> CanonicalHasher" where
  "AddI64 v h = AddU64 v h"

definition AddBool :: "bool \<Rightarrow> CanonicalHasher \<Rightarrow> CanonicalHasher" where
  "AddBool v h = AddU8 (if v then 1 else 0) h"

definition AddString :: "string \<Rightarrow> CanonicalHasher \<Rightarrow> CanonicalHasher" where
  "AddString v h = (let h = AddU32 (word_of_nat (length v)) h in
     if v \<noteq> [] then Fnv1a64_Update h (map byte_of_char v) else h)"

definition AddBlob :: "byte list \<Rightarrow> CanonicalHasher \<Rightarrow> CanonicalHasher" where
  "AddBlob data h = (let h = AddU32 (word_of_nat (length data)) h in
     if length data \<noteq> 0 then Fnv1a64_Update h data else h)"

definition AddTag :: "string \<Rightarrow> CanonicalHasher \<Rightarrow> CanonicalHasher" where
  "AddTag tag h = AddString tag (AddU8 0x1F h)"

section \<open>Digests\<close>

record Digest =
  dg_hi :: u64
  dg_lo :: u64

definition Digest_zero :: Digest where
  "Digest_zero = \<lparr>dg_hi = 0, dg_lo = 0\<rparr>"

definition Digest_less :: "Digest \<Rightarrow> Digest \<Rightarrow> bool" where
  "Digest_less a b \<longleftrightarrow> (if dg_hi a \<noteq> dg_hi b then dg_hi a < dg_hi b else dg_lo a < dg_lo b)"

definition Digest_IsZero :: "Digest \<Rightarrow> bool" where
  "Digest_IsZero d \<longleftrightarrow> dg_hi d = 0 \<and> dg_lo d = 0"

definition OfCanonical :: "CanonicalHasher \<Rightarrow> Digest" where
  "OfCanonical hasher =
     (let lo = hasher;
          mixed = (lo XOR kSecondOffsetBasis) * kFnvPrime;
          mixed = mixed XOR drop_bit 29 mixed;
          mixed = mixed * 0xBF58476D1CE4E5B9;
          mixed = mixed XOR drop_bit 32 mixed
      in \<lparr>dg_hi = mixed XOR kFnvOffsetBasis, dg_lo = lo\<rparr>)"

definition kHex :: string where "kHex = ''0123456789abcdef''"

definition hex_part :: "u64 \<Rightarrow> string" where
  "hex_part part = map (\<lambda>i. kHex ! unat (drop_bit (60 - 4 * i) part AND 0xF)) [0..<16]"

definition Digest_ToHex :: "Digest \<Rightarrow> string" where
  "Digest_ToHex d = hex_part (dg_hi d) @ hex_part (dg_lo d)"

section \<open>The table is the bitwise CRC\<close>

lemma and_1_neq_0: "(c AND 1 \<noteq> 0) = bit c 0" for c :: "'a::len word"
  by (simp add: and_one_eq bit_0 odd_iff_mod_2_eq_one)

lemma crc32c_bit_alt: "crc32c_bit c = drop_bit 1 c XOR (if bit c 0 then 0x82F63B78 else 0)"
  by (simp add: crc32c_bit_def and_1_neq_0)

lemma crc32c_bit_xor: "crc32c_bit (a XOR b) = crc32c_bit a XOR crc32c_bit b"
  by (rule bit_eqI) (auto simp: crc32c_bit_alt bit_simps)

lemma crc32c_pow_xor: "(crc32c_bit ^^ n) (a XOR b) = (crc32c_bit ^^ n) a XOR (crc32c_bit ^^ n) b"
  by (induction n) (simp_all add: crc32c_bit_xor)

lemma crc32c_pow_low_zero:
  "\<forall>i < n. \<not> bit c i \<Longrightarrow> (crc32c_bit ^^ n) c = drop_bit n c"
  by (induction n) (simp_all add: crc32c_bit_alt bit_simps)

lemma mask8: "(0xFF :: 'a::len word) = mask 8"
  by (simp add: mask_eq_exp_minus_1)

lemma crc_split: "x = (x AND 0xFF) XOR (x AND NOT 0xFF)" for x :: u32
  by (rule bit_eqI) (auto simp: mask8 bit_simps)

lemma unat_and_mask8: "unat (x AND 0xFF) < 256" for x :: u32
proof -
  have "unat (x AND 0xFF) \<le> unat (0xFF :: u32)" by (simp only: word_le_nat_alt[symmetric] word_and_le1)
  then show ?thesis by simp
qed

lemma crc_table_nth: "kCrc32cTable ! unat (x AND 0xFF) = (crc32c_bit ^^ 8) (x AND 0xFF)" for x :: u32
  using unat_and_mask8[of x] by (simp add: kCrc32cTable_def)

lemma Crc32C_step_bitwise: "Crc32C_step s b = (crc32c_bit ^^ 8) (s XOR ucast b)"
proof -
  let ?x = "s XOR (ucast b :: u32)"
  have "(crc32c_bit ^^ 8) ?x =
      (crc32c_bit ^^ 8) (?x AND 0xFF) XOR (crc32c_bit ^^ 8) (?x AND NOT 0xFF)"
    using crc32c_pow_xor[of 8 "?x AND 0xFF" "?x AND NOT 0xFF"] crc_split[of ?x] by argo
  also have "(crc32c_bit ^^ 8) (?x AND NOT 0xFF) = drop_bit 8 (?x AND NOT 0xFF)"
    by (rule crc32c_pow_low_zero) (auto simp: mask8 bit_simps)
  also have "drop_bit 8 (?x AND NOT 0xFF) = drop_bit 8 s"
    by (rule bit_eqI) (auto simp: mask8 bit_simps dest: bit_imp_le_length)
  finally show ?thesis by (simp add: Crc32C_step_def crc_table_nth)
qed

definition crc32c_reference :: "byte list \<Rightarrow> u32" where
  "crc32c_reference data =
     NOT (foldl (\<lambda>s b. (crc32c_bit ^^ 8) (s XOR ucast b)) 0xFFFFFFFF data)"

lemma Crc32C_Compute_reference: "Crc32C_Compute data = crc32c_reference data"
  by (simp add: Crc32C_Compute_def Crc32C_value_def Crc32C_Update_def Crc32C_init_def
      crc32c_reference_def Crc32C_step_bitwise[abs_def])

section \<open>A single changed byte is always noticed\<close>

text \<open>
  Both hashes are folds of a step that is injective in its state and in the byte it absorbs. Two
  buffers of equal length that differ in exactly one position then end in different states.
\<close>

locale absorbing_hash =
  fixes absorb :: "'s \<Rightarrow> 'b \<Rightarrow> 's"
  assumes state_inject: "absorb s b = absorb t b \<Longrightarrow> s = t"
    and byte_inject: "absorb s b = absorb s c \<Longrightarrow> b = c"
begin

lemma foldl_inject: "foldl absorb s bs = foldl absorb t bs \<Longrightarrow> s = t"
  by (induction bs arbitrary: s t) (auto dest: state_inject)

lemma one_change_detected:
  assumes "i < length bs" and "foldl absorb s (bs[i := c]) = foldl absorb s bs"
  shows "bs ! i = c"
proof -
  have bs: "bs = take i bs @ bs ! i # drop (Suc i) bs" using assms(1) by (simp add: id_take_nth_drop)
  have up: "bs[i := c] = take i bs @ c # drop (Suc i) bs" using assms(1) by (simp add: upd_conv_take_nth_drop)
  have "foldl absorb (absorb (foldl absorb s (take i bs)) c) (drop (Suc i) bs) =
        foldl absorb (absorb (foldl absorb s (take i bs)) (bs ! i)) (drop (Suc i) bs)"
    using assms(2) unfolding up by (subst (asm) (3) bs) simp
  then show ?thesis using foldl_inject byte_inject by metis
qed

lemma foldl_append_split: "foldl absorb s (xs @ ys) = foldl absorb (foldl absorb s xs) ys"
  by simp

end

lemma word_xor_right_cancel: "a XOR c = b XOR c \<longleftrightarrow> a = b" for a b c :: "'a::len word"
  by (metis xor.assoc xor_self_eq xor.right_neutral)

lemma word_xor_left_cancel: "c XOR a = c XOR b \<longleftrightarrow> a = b" for a b c :: "'a::len word"
  by (metis xor.commute word_xor_right_cancel)

lemma ucast_byte_inject:
  assumes "8 \<le> LENGTH('a::len)" and "(ucast (b :: byte) :: 'a word) = ucast c"
  shows "b = c"
proof (rule bit_eqI)
  fix n
  have "n < 8 \<Longrightarrow> bit b n = bit c n"
    using assms(1) arg_cong[OF assms(2), of "\<lambda>w. bit w n"] by (simp add: bit_simps)
  then show "bit b n = bit c n" using bit_imp_le_length[of b n] bit_imp_le_length[of c n] by auto
qed

lemma crc32c_bit_eq_0: "crc32c_bit c = 0 \<Longrightarrow> c = 0"
proof -
  assume z: "crc32c_bit c = 0"
  have "bit (crc32c_bit c) 31 = bit c 0"
    by (simp add: crc32c_bit_alt bit_simps) (use bit_imp_le_length[of c 32] in auto)
  then have b0: "\<not> bit c 0" using z by simp
  then have d: "drop_bit 1 c = 0" using z by (simp add: crc32c_bit_alt)
  show "c = 0"
  proof (rule bit_eqI)
    fix n show "bit c n = bit (0 :: u32) n"
    proof (cases n)
      case (Suc m)
      then show ?thesis using arg_cong[OF d, of "\<lambda>w. bit w m"] by (simp add: bit_simps)
    qed (use b0 in simp)
  qed
qed

lemma crc32c_bit_inject: "crc32c_bit a = crc32c_bit b \<Longrightarrow> a = b"
proof -
  assume "crc32c_bit a = crc32c_bit b"
  then have "crc32c_bit (a XOR b) = 0" by (simp add: crc32c_bit_xor)
  then have "a XOR b = 0" by (rule crc32c_bit_eq_0)
  then show ?thesis by (metis word_xor_right_cancel xor_self_eq)
qed

lemma crc32c_pow_inject: "(crc32c_bit ^^ n) a = (crc32c_bit ^^ n) b \<Longrightarrow> a = b"
  by (induction n) (auto dest: crc32c_bit_inject)

interpretation crc: absorbing_hash Crc32C_step
proof unfold_locales
  fix s t b assume "Crc32C_step s b = Crc32C_step t b"
  then show "s = t"
    by (auto simp: Crc32C_step_bitwise word_xor_right_cancel dest: crc32c_pow_inject)
next
  fix s and b c :: byte assume "Crc32C_step s b = Crc32C_step s c"
  then have "(ucast b :: u32) = ucast c"
    by (auto simp: Crc32C_step_bitwise word_xor_left_cancel dest: crc32c_pow_inject)
  then show "b = c" by (rule ucast_byte_inject[rotated]) simp
qed

lemma odd_mult_cancel: "odd p \<Longrightarrow> a * p = b * p \<Longrightarrow> a = b" for a b p :: "'a::len word"
proof -
  assume p: "odd p" and eq: "a * p = b * p"
  have "uint a * uint p mod 2 ^ LENGTH('a) = uint b * uint p mod 2 ^ LENGTH('a)"
    using arg_cong[OF eq, of uint] by (simp add: uint_word_arith_bintrs take_bit_eq_mod)
  then have "2 ^ LENGTH('a) dvd (uint a - uint b) * uint p"
    by (simp add: mod_eq_dvd_iff left_diff_distrib)
  moreover have "coprime (2 ^ LENGTH('a)) (uint p)"
    using p by (simp add: bit_uint_iff flip: bit_0)
  ultimately have "2 ^ LENGTH('a) dvd uint a - uint b"
    by (simp add: coprime_dvd_mult_left_iff)
  then have "take_bit LENGTH('a) (uint a) = take_bit LENGTH('a) (uint b)"
    by (simp only: take_bit_eq_mod mod_eq_dvd_iff)
  then show "a = b" by (simp add: word_uint_eq_iff bintr_uint)
qed

lemma kFnvPrime_odd: "odd kFnvPrime"
  by (simp add: kFnvPrime_def)

interpretation fnv: absorbing_hash Fnv1a64_step
proof unfold_locales
  fix s t b assume "Fnv1a64_step s b = Fnv1a64_step t b"
  then have "s XOR ucast b = t XOR ucast b"
    unfolding Fnv1a64_step_def by (rule odd_mult_cancel[OF kFnvPrime_odd])
  then show "s = t" by (simp only: word_xor_right_cancel)
next
  fix s and b c :: byte assume "Fnv1a64_step s b = Fnv1a64_step s c"
  then have "s XOR ucast b = s XOR ucast c"
    unfolding Fnv1a64_step_def by (rule odd_mult_cancel[OF kFnvPrime_odd])
  then have "(ucast b :: u64) = ucast c" by (simp only: word_xor_left_cancel)
  then show "b = c" by (rule ucast_byte_inject[rotated]) simp
qed

lemma Crc32C_Update_append: "Crc32C_Update s (xs @ ys) = Crc32C_Update (Crc32C_Update s xs) ys"
  by (simp add: Crc32C_Update_def)

lemma Crc32C_Compute_one_change:
  "i < length bs \<Longrightarrow> Crc32C_Compute (bs[i := c]) = Crc32C_Compute bs \<longleftrightarrow> bs ! i = c"
  using crc.one_change_detected[of i bs Crc32C_init c]
  by (auto simp: Crc32C_Compute_def Crc32C_value_def Crc32C_Update_def)

lemma OfCanonical_eq_iff: "OfCanonical a = OfCanonical b \<longleftrightarrow> a = b"
  by (auto simp: OfCanonical_def Let_def)

lemma OfCanonical_hi_of_lo: "dg_lo (OfCanonical a) = dg_lo (OfCanonical b) \<Longrightarrow> dg_hi (OfCanonical a) = dg_hi (OfCanonical b)"
  by (simp add: OfCanonical_def Let_def)

end
