(* ===== verification/Flow_Model.thy ===== *)
theory Flow_Model
  imports Flow_Hash
begin

text \<open>
  The domain model (\<^verbatim>\<open>include/flowplace/model.hpp\<close>, \<^verbatim>\<open>src/model.cpp\<close>): enumerations with
  their names and parsers, the facts a caller supplies, the policy, the request, the limits, and the
  canonical digests.

  A scoped C++ enumeration can hold any value of its underlying type, and validation rejects the
  ones that name no enumerator. Each enumeration is therefore a datatype of its enumerators plus one
  constructor \<open>..._raw k\<close> for the value that lies \<open>k\<close> above the last enumerator; \<open>..._value\<close> is
  \<^verbatim>\<open>static_cast\<close> to the underlying type. Field names carry a prefix per struct.
\<close>

section \<open>Enumerations\<close>

datatype ServiceClass = kBestEffort | kControlled | kAssured | kReserved | ServiceClass_raw nat

primrec ServiceClass_value :: "ServiceClass \<Rightarrow> nat" where
  "ServiceClass_value ServiceClass.kBestEffort = 0"
| "ServiceClass_value ServiceClass.kControlled = 1"
| "ServiceClass_value ServiceClass.kAssured = 2"
| "ServiceClass_value ServiceClass.kReserved = 3"
| "ServiceClass_value (ServiceClass_raw k) = 4 + k"

primrec ServiceClassName :: "ServiceClass \<Rightarrow> string" where
  "ServiceClassName ServiceClass.kBestEffort = ''best_effort''"
| "ServiceClassName ServiceClass.kControlled = ''controlled''"
| "ServiceClassName ServiceClass.kAssured = ''assured''"
| "ServiceClassName ServiceClass.kReserved = ''reserved''"
| "ServiceClassName (ServiceClass_raw k) = ''unknown''"

definition kServiceClassNames :: "(string \<times> ServiceClass) list" where
  "kServiceClassNames = [(''best_effort'', ServiceClass.kBestEffort), (''controlled'', ServiceClass.kControlled), (''assured'', ServiceClass.kAssured), (''reserved'', ServiceClass.kReserved)]"

datatype PriorityClass = kLow | kNormal | kHigh | kCritical | PriorityClass_raw nat

primrec PriorityClass_value :: "PriorityClass \<Rightarrow> nat" where
  "PriorityClass_value PriorityClass.kLow = 0"
| "PriorityClass_value PriorityClass.kNormal = 1"
| "PriorityClass_value PriorityClass.kHigh = 2"
| "PriorityClass_value PriorityClass.kCritical = 3"
| "PriorityClass_value (PriorityClass_raw k) = 4 + k"

primrec PriorityClassName :: "PriorityClass \<Rightarrow> string" where
  "PriorityClassName PriorityClass.kLow = ''low''"
| "PriorityClassName PriorityClass.kNormal = ''normal''"
| "PriorityClassName PriorityClass.kHigh = ''high''"
| "PriorityClassName PriorityClass.kCritical = ''critical''"
| "PriorityClassName (PriorityClass_raw k) = ''unknown''"

definition kPriorityNames :: "(string \<times> PriorityClass) list" where
  "kPriorityNames = [(''low'', PriorityClass.kLow), (''normal'', PriorityClass.kNormal), (''high'', PriorityClass.kHigh), (''critical'', PriorityClass.kCritical)]"

datatype PathTier = kPremium | kStandard | kEconomy | PathTier_raw nat

primrec PathTier_value :: "PathTier \<Rightarrow> nat" where
  "PathTier_value PathTier.kPremium = 0"
| "PathTier_value PathTier.kStandard = 1"
| "PathTier_value PathTier.kEconomy = 2"
| "PathTier_value (PathTier_raw k) = 3 + k"

primrec PathTierName :: "PathTier \<Rightarrow> string" where
  "PathTierName PathTier.kPremium = ''premium''"
| "PathTierName PathTier.kStandard = ''standard''"
| "PathTierName PathTier.kEconomy = ''economy''"
| "PathTierName (PathTier_raw k) = ''unknown''"

definition kTierNames :: "(string \<times> PathTier) list" where
  "kTierNames = [(''premium'', PathTier.kPremium), (''standard'', PathTier.kStandard), (''economy'', PathTier.kEconomy)]"

datatype LocalityScope = kNode | kRack | kZone | kRegion | kGlobal | LocalityScope_raw nat

primrec LocalityScope_value :: "LocalityScope \<Rightarrow> nat" where
  "LocalityScope_value LocalityScope.kNode = 0"
| "LocalityScope_value LocalityScope.kRack = 1"
| "LocalityScope_value LocalityScope.kZone = 2"
| "LocalityScope_value LocalityScope.kRegion = 3"
| "LocalityScope_value LocalityScope.kGlobal = 4"
| "LocalityScope_value (LocalityScope_raw k) = 5 + k"

primrec LocalityScopeName :: "LocalityScope \<Rightarrow> string" where
  "LocalityScopeName LocalityScope.kNode = ''node''"
| "LocalityScopeName LocalityScope.kRack = ''rack''"
| "LocalityScopeName LocalityScope.kZone = ''zone''"
| "LocalityScopeName LocalityScope.kRegion = ''region''"
| "LocalityScopeName LocalityScope.kGlobal = ''global''"
| "LocalityScopeName (LocalityScope_raw k) = ''unknown''"

definition kScopeNames :: "(string \<times> LocalityScope) list" where
  "kScopeNames = [(''node'', LocalityScope.kNode), (''rack'', LocalityScope.kRack), (''zone'', LocalityScope.kZone), (''region'', LocalityScope.kRegion), (''global'', LocalityScope.kGlobal)]"

datatype ObjectiveKind = kCost | kLatency | kResidualCapacity | kHopCount | kCongestionUtilization | kTier | kLocalityAffinity | kReservationAffinity | kIncumbentStability | ObjectiveKind_raw nat

primrec ObjectiveKind_value :: "ObjectiveKind \<Rightarrow> nat" where
  "ObjectiveKind_value ObjectiveKind.kCost = 0"
| "ObjectiveKind_value ObjectiveKind.kLatency = 1"
| "ObjectiveKind_value ObjectiveKind.kResidualCapacity = 2"
| "ObjectiveKind_value ObjectiveKind.kHopCount = 3"
| "ObjectiveKind_value ObjectiveKind.kCongestionUtilization = 4"
| "ObjectiveKind_value ObjectiveKind.kTier = 5"
| "ObjectiveKind_value ObjectiveKind.kLocalityAffinity = 6"
| "ObjectiveKind_value ObjectiveKind.kReservationAffinity = 7"
| "ObjectiveKind_value ObjectiveKind.kIncumbentStability = 8"
| "ObjectiveKind_value (ObjectiveKind_raw k) = 9 + k"

primrec ObjectiveKindName :: "ObjectiveKind \<Rightarrow> string" where
  "ObjectiveKindName ObjectiveKind.kCost = ''cost''"
| "ObjectiveKindName ObjectiveKind.kLatency = ''latency''"
| "ObjectiveKindName ObjectiveKind.kResidualCapacity = ''residual_capacity''"
| "ObjectiveKindName ObjectiveKind.kHopCount = ''hop_count''"
| "ObjectiveKindName ObjectiveKind.kCongestionUtilization = ''congestion''"
| "ObjectiveKindName ObjectiveKind.kTier = ''tier''"
| "ObjectiveKindName ObjectiveKind.kLocalityAffinity = ''locality_affinity''"
| "ObjectiveKindName ObjectiveKind.kReservationAffinity = ''reservation_affinity''"
| "ObjectiveKindName ObjectiveKind.kIncumbentStability = ''incumbent_stability''"
| "ObjectiveKindName (ObjectiveKind_raw k) = ''unknown''"

definition kObjectiveNames :: "(string \<times> ObjectiveKind) list" where
  "kObjectiveNames = [(''cost'', ObjectiveKind.kCost), (''latency'', ObjectiveKind.kLatency), (''residual_capacity'', ObjectiveKind.kResidualCapacity), (''hop_count'', ObjectiveKind.kHopCount), (''congestion'', ObjectiveKind.kCongestionUtilization), (''tier'', ObjectiveKind.kTier), (''locality_affinity'', ObjectiveKind.kLocalityAffinity), (''reservation_affinity'', ObjectiveKind.kReservationAffinity), (''incumbent_stability'', ObjectiveKind.kIncumbentStability)]"

datatype Direction = kMinimize | kMaximize | Direction_raw nat

primrec Direction_value :: "Direction \<Rightarrow> nat" where
  "Direction_value Direction.kMinimize = 0"
| "Direction_value Direction.kMaximize = 1"
| "Direction_value (Direction_raw k) = 2 + k"

primrec DirectionName :: "Direction \<Rightarrow> string" where
  "DirectionName Direction.kMinimize = ''min''"
| "DirectionName Direction.kMaximize = ''max''"
| "DirectionName (Direction_raw k) = ''unknown''"

definition kDirectionNames :: "(string \<times> Direction) list" where
  "kDirectionNames = [(''min'', Direction.kMinimize), (''max'', Direction.kMaximize)]"

datatype EvidencePolicyMode = kRankWorst | kHardExclude | EvidencePolicyMode_raw nat

primrec EvidencePolicyMode_value :: "EvidencePolicyMode \<Rightarrow> nat" where
  "EvidencePolicyMode_value EvidencePolicyMode.kRankWorst = 0"
| "EvidencePolicyMode_value EvidencePolicyMode.kHardExclude = 1"
| "EvidencePolicyMode_value (EvidencePolicyMode_raw k) = 2 + k"

primrec EvidencePolicyModeName :: "EvidencePolicyMode \<Rightarrow> string" where
  "EvidencePolicyModeName EvidencePolicyMode.kRankWorst = ''rank_worst''"
| "EvidencePolicyModeName EvidencePolicyMode.kHardExclude = ''hard_exclude''"
| "EvidencePolicyModeName (EvidencePolicyMode_raw k) = ''unknown''"

definition kEvidenceModeNames :: "(string \<times> EvidencePolicyMode) list" where
  "kEvidenceModeNames = [(''rank_worst'', EvidencePolicyMode.kRankWorst), (''hard_exclude'', EvidencePolicyMode.kHardExclude)]"

datatype GateAction = kPlace | kDefer | GateAction_raw nat

primrec GateAction_value :: "GateAction \<Rightarrow> nat" where
  "GateAction_value GateAction.kPlace = 0"
| "GateAction_value GateAction.kDefer = 1"
| "GateAction_value (GateAction_raw k) = 2 + k"

primrec GateActionName :: "GateAction \<Rightarrow> string" where
  "GateActionName GateAction.kPlace = ''place''"
| "GateActionName GateAction.kDefer = ''defer''"
| "GateActionName (GateAction_raw k) = ''unknown''"

definition kGateNames :: "(string \<times> GateAction) list" where
  "kGateNames = [(''place'', GateAction.kPlace), (''defer'', GateAction.kDefer)]"

datatype ChurnAction = kAllowMove | kDefer | ChurnAction_raw nat

primrec ChurnAction_value :: "ChurnAction \<Rightarrow> nat" where
  "ChurnAction_value ChurnAction.kAllowMove = 0"
| "ChurnAction_value ChurnAction.kDefer = 1"
| "ChurnAction_value (ChurnAction_raw k) = 2 + k"

primrec ChurnActionName :: "ChurnAction \<Rightarrow> string" where
  "ChurnActionName ChurnAction.kAllowMove = ''allow_move''"
| "ChurnActionName ChurnAction.kDefer = ''defer''"
| "ChurnActionName (ChurnAction_raw k) = ''unknown''"

definition kChurnNames :: "(string \<times> ChurnAction) list" where
  "kChurnNames = [(''allow_move'', ChurnAction.kAllowMove), (''defer'', ChurnAction.kDefer)]"

text \<open>\<^verbatim>\<open>ParseEnum\<close>: the first table entry whose name is the given one.\<close>

fun ParseEnum :: "(string \<times> 'a) list \<Rightarrow> string \<Rightarrow> 'a option" where
  "ParseEnum [] v = None"
| "ParseEnum ((name, value) # table) v = (if name = v then Some value else ParseEnum table v)"

definition ParseServiceClass :: "string \<Rightarrow> ServiceClass option" where
  "ParseServiceClass v = ParseEnum kServiceClassNames v"

definition ParsePriorityClass :: "string \<Rightarrow> PriorityClass option" where
  "ParsePriorityClass v = ParseEnum kPriorityNames v"

definition ParsePathTier :: "string \<Rightarrow> PathTier option" where
  "ParsePathTier v = ParseEnum kTierNames v"

definition ParseLocalityScope :: "string \<Rightarrow> LocalityScope option" where
  "ParseLocalityScope v = ParseEnum kScopeNames v"

definition ParseObjectiveKind :: "string \<Rightarrow> ObjectiveKind option" where
  "ParseObjectiveKind v = ParseEnum kObjectiveNames v"

definition ParseDirection :: "string \<Rightarrow> Direction option" where
  "ParseDirection v = ParseEnum kDirectionNames v"

definition ParseEvidencePolicyMode :: "string \<Rightarrow> EvidencePolicyMode option" where
  "ParseEvidencePolicyMode v = ParseEnum kEvidenceModeNames v"

definition ParseGateAction :: "string \<Rightarrow> GateAction option" where
  "ParseGateAction v = ParseEnum kGateNames v"

definition ParseChurnAction :: "string \<Rightarrow> ChurnAction option" where
  "ParseChurnAction v = ParseEnum kChurnNames v"

section \<open>Facts about the enumerations\<close>

lemma ServiceClass_value_inject [simp]: "ServiceClass_value a = ServiceClass_value b \<longleftrightarrow> a = b"
  by (cases a; cases b) simp_all

lemma PriorityClass_value_inject [simp]: "PriorityClass_value a = PriorityClass_value b \<longleftrightarrow> a = b"
  by (cases a; cases b) simp_all

lemma PathTier_value_inject [simp]: "PathTier_value a = PathTier_value b \<longleftrightarrow> a = b"
  by (cases a; cases b) simp_all

lemma LocalityScope_value_inject [simp]: "LocalityScope_value a = LocalityScope_value b \<longleftrightarrow> a = b"
  by (cases a; cases b) simp_all

lemma ObjectiveKind_value_inject [simp]: "ObjectiveKind_value a = ObjectiveKind_value b \<longleftrightarrow> a = b"
  by (cases a; cases b) simp_all

lemma Direction_value_inject [simp]: "Direction_value a = Direction_value b \<longleftrightarrow> a = b"
  by (cases a; cases b) simp_all

lemma EvidencePolicyMode_value_inject [simp]: "EvidencePolicyMode_value a = EvidencePolicyMode_value b \<longleftrightarrow> a = b"
  by (cases a; cases b) simp_all

lemma GateAction_value_inject [simp]: "GateAction_value a = GateAction_value b \<longleftrightarrow> a = b"
  by (cases a; cases b) simp_all

lemma ChurnAction_value_inject [simp]: "ChurnAction_value a = ChurnAction_value b \<longleftrightarrow> a = b"
  by (cases a; cases b) simp_all

text \<open>Parsing inverts naming on every enumerator, and only enumerators are parsed.\<close>

lemma ParseServiceClass_roundtrip: "ParseServiceClass v = Some x \<longleftrightarrow> ServiceClass_value x < 4 \<and> v = ServiceClassName x"
  by (cases x) (auto simp: ParseServiceClass_def kServiceClassNames_def)

lemma ParsePriorityClass_roundtrip: "ParsePriorityClass v = Some x \<longleftrightarrow> PriorityClass_value x < 4 \<and> v = PriorityClassName x"
  by (cases x) (auto simp: ParsePriorityClass_def kPriorityNames_def)

lemma ParsePathTier_roundtrip: "ParsePathTier v = Some x \<longleftrightarrow> PathTier_value x < 3 \<and> v = PathTierName x"
  by (cases x) (auto simp: ParsePathTier_def kTierNames_def)

lemma ParseLocalityScope_roundtrip: "ParseLocalityScope v = Some x \<longleftrightarrow> LocalityScope_value x < 5 \<and> v = LocalityScopeName x"
  by (cases x) (auto simp: ParseLocalityScope_def kScopeNames_def)

lemma ParseObjectiveKind_roundtrip: "ParseObjectiveKind v = Some x \<longleftrightarrow> ObjectiveKind_value x < 9 \<and> v = ObjectiveKindName x"
  by (cases x) (auto simp: ParseObjectiveKind_def kObjectiveNames_def)

lemma ParseDirection_roundtrip: "ParseDirection v = Some x \<longleftrightarrow> Direction_value x < 2 \<and> v = DirectionName x"
  by (cases x) (auto simp: ParseDirection_def kDirectionNames_def)

lemma ParseEvidencePolicyMode_roundtrip: "ParseEvidencePolicyMode v = Some x \<longleftrightarrow> EvidencePolicyMode_value x < 2 \<and> v = EvidencePolicyModeName x"
  by (cases x) (auto simp: ParseEvidencePolicyMode_def kEvidenceModeNames_def)

lemma ParseGateAction_roundtrip: "ParseGateAction v = Some x \<longleftrightarrow> GateAction_value x < 2 \<and> v = GateActionName x"
  by (cases x) (auto simp: ParseGateAction_def kGateNames_def)

lemma ParseChurnAction_roundtrip: "ParseChurnAction v = Some x \<longleftrightarrow> ChurnAction_value x < 2 \<and> v = ChurnActionName x"
  by (cases x) (auto simp: ParseChurnAction_def kChurnNames_def)

instantiation PathTier :: linorder
begin

definition less_eq_PathTier :: "PathTier \<Rightarrow> PathTier \<Rightarrow> bool" where
  "less_eq_PathTier a b \<longleftrightarrow> PathTier_value a \<le> PathTier_value b"

definition less_PathTier :: "PathTier \<Rightarrow> PathTier \<Rightarrow> bool" where
  "less_PathTier a b \<longleftrightarrow> PathTier_value a < PathTier_value b"

instance
  by standard (auto simp: less_eq_PathTier_def less_PathTier_def)

end

instantiation ObjectiveKind :: linorder
begin

definition less_eq_ObjectiveKind :: "ObjectiveKind \<Rightarrow> ObjectiveKind \<Rightarrow> bool" where
  "less_eq_ObjectiveKind a b \<longleftrightarrow> ObjectiveKind_value a \<le> ObjectiveKind_value b"

definition less_ObjectiveKind :: "ObjectiveKind \<Rightarrow> ObjectiveKind \<Rightarrow> bool" where
  "less_ObjectiveKind a b \<longleftrightarrow> ObjectiveKind_value a < ObjectiveKind_value b"

instance
  by standard (auto simp: less_eq_ObjectiveKind_def less_ObjectiveKind_def)

end

section \<open>Service classes\<close>

primrec ServiceHeadroomMultiplier :: "ServiceClass \<Rightarrow> u64" where
  "ServiceHeadroomMultiplier kBestEffort = 1"
| "ServiceHeadroomMultiplier kControlled = 2"
| "ServiceHeadroomMultiplier kAssured = 3"
| "ServiceHeadroomMultiplier kReserved = 3"
| "ServiceHeadroomMultiplier (ServiceClass_raw k) = 1"

definition ServiceRequiresReservation :: "ServiceClass \<Rightarrow> bool" where
  "ServiceRequiresReservation v \<longleftrightarrow> v = kReserved"

section \<open>Limits\<close>

record Limits =
  max_candidate_paths :: u64
  max_capacity_entries :: u64
  max_evidence_entries :: u64
  max_occupied_failure_domains :: u64
  max_objectives :: u64
  max_path_labels :: u64
  max_path_reservations :: u64
  max_policy_id_lists :: u64
  max_affinity_refs :: u64
  max_string_length :: u64
  max_ranked_explained :: u64
  max_exclusion_samples :: u64
  max_exclusion_reasons :: u64

definition default_Limits :: Limits where
  "default_Limits = \<lparr>
     max_candidate_paths = 1048576, max_capacity_entries = 2097152,
     max_evidence_entries = 2097152, max_occupied_failure_domains = 1048576,
     max_objectives = 8, max_path_labels = 32, max_path_reservations = 16,
     max_policy_id_lists = 4096, max_affinity_refs = 256, max_string_length = 256,
     max_ranked_explained = 32, max_exclusion_samples = 4, max_exclusion_reasons = 64\<rparr>"

section \<open>Facts supplied by the caller\<close>

text \<open>
  A reservation reference, with the order \<^verbatim>\<open>operator<\<close> of the source: by identity, then by
  generation.
\<close>

datatype ReservationRef = ReservationRef (rr_id: ReservationId) (rr_generation: Gen)

instantiation ReservationRef :: linorder
begin

definition less_ReservationRef :: "ReservationRef \<Rightarrow> ReservationRef \<Rightarrow> bool" where
  "less_ReservationRef a b \<longleftrightarrow>
     (if rr_id a \<noteq> rr_id b then rr_id a < rr_id b else rr_generation a < rr_generation b)"

definition less_eq_ReservationRef :: "ReservationRef \<Rightarrow> ReservationRef \<Rightarrow> bool" where
  "less_eq_ReservationRef a b \<longleftrightarrow> a < b \<or> a = b"

instance
proof
  fix a b c :: ReservationRef
  show "(a < b) = (a \<le> b \<and> \<not> b \<le> a)"
    by (auto simp: less_ReservationRef_def less_eq_ReservationRef_def split: if_splits)
  show "a \<le> a" by (simp add: less_eq_ReservationRef_def)
  show "a \<le> b \<Longrightarrow> b \<le> c \<Longrightarrow> a \<le> c"
    by (auto simp: less_ReservationRef_def less_eq_ReservationRef_def split: if_splits)
  show "a \<le> b \<Longrightarrow> b \<le> a \<Longrightarrow> a = b"
    by (auto simp: less_ReservationRef_def less_eq_ReservationRef_def split: if_splits)
  show "a \<le> b \<or> b \<le> a"
    by (cases a; cases b)
       (auto simp: less_ReservationRef_def less_eq_ReservationRef_def not_less_iff_gr_or_eq)
qed

end

definition ReservationRef_none :: ReservationRef where
  "ReservationRef_none = ReservationRef 0 0"

definition ReservationRef_valid :: "ReservationRef \<Rightarrow> bool" where
  "ReservationRef_valid r \<longleftrightarrow> valid_id (rr_id r) \<and> valid_id (rr_generation r)"

definition ReservationRef_ToString :: "ReservationRef \<Rightarrow> string" where
  "ReservationRef_ToString r =
     (if \<not> ReservationRef_valid r then ''-''
      else to_string (unat (rr_id r)) @ '':'' @ to_string (unat (rr_generation r)))"

record PathAttributes =
  pa_tier :: PathTier
  pa_locality :: LocalityId
  pa_locality_scope :: LocalityScope
  pa_failure_domain :: FailureDomainId
  pa_cost_micro :: u64
  pa_latency_nanos :: u64
  pa_hop_count :: u16
  pa_labels :: "PolicyLabelId list"
  pa_reservations :: "ReservationRef list"

record CandidatePath =
  cp_id :: PathId
  cp_authority :: Gen
  cp_attributes :: PathAttributes

record CandidateSet =
  cs_id :: CandidateSetId
  cs_generation :: Gen
  cs_paths :: "CandidatePath list"

record PathCapacity =
  pc_path :: PathId
  pc_capacity_bytes :: u64
  pc_residual_bytes :: u64

record CapacitySnapshot =
  cap_id :: CapacitySnapshotId
  cap_generation :: Gen
  cap_entries :: "PathCapacity list"

record CongestionEvidenceEntry =
  ce_path :: PathId
  ce_utilization_ppb :: u32

record EvidenceBundle =
  ev_id :: EvidenceId
  ev_generation :: Gen
  ev_entries :: "CongestionEvidenceEntry list"

record QosProfile =
  qos_id :: QosProfileId
  qos_generation :: Gen
  qos_service_class :: ServiceClass
  qos_priority :: PriorityClass
  qos_required_residual_bytes :: u64
  qos_max_latency_nanos :: u64

section \<open>Policy\<close>

record Objective =
  ob_kind :: ObjectiveKind
  ob_direction :: Direction

record LocalityConstraint =
  lc_required_locality :: "LocalityId option"
  lc_preferred_locality :: "LocalityId option"
  lc_forbidden_localities :: "LocalityId list"

record FailureDomainConstraint =
  fd_required_domain :: "FailureDomainId option"
  fd_forbidden_domains :: "FailureDomainId list"
  fd_avoid_occupied_domains :: bool
  fd_min_distinct_domains :: u32

record ReservationAffinity =
  ra_required :: bool
  ra_refs :: "ReservationRef list"

record AdmissionGate =
  ag_min_residual_headroom_bytes :: u64
  ag_on_below :: GateAction

record ServicePolicy =
  sp_allow_degraded :: bool
  sp_max_relaxation_steps :: u8

record ChurnPolicy =
  ch_on_move :: ChurnAction
  ch_prefer_incumbent :: bool
  ch_move_improvement_threshold :: u64
  ch_threshold_objective_index :: u32

record EvidencePolicy =
  ep_on_missing :: EvidencePolicyMode
  ep_on_stale :: EvidencePolicyMode

record PlacementPolicy =
  pp_id :: PolicyId
  pp_generation :: Gen
  pp_objectives :: "Objective list"
  pp_allowed_tiers :: "PathTier list"
  pp_required_labels :: "PolicyLabelId list"
  pp_forbidden_labels :: "PolicyLabelId list"
  pp_locality :: LocalityConstraint
  pp_failure_domains :: FailureDomainConstraint
  pp_reservation_affinity :: ReservationAffinity
  pp_admission :: AdmissionGate
  pp_service :: ServicePolicy
  pp_churn :: ChurnPolicy
  pp_evidence :: EvidencePolicy
  pp_revalidate_after_nanos :: u64

section \<open>Incumbent, authority and request\<close>

record IncumbentPlacement =
  inc_id :: PlacementId
  inc_generation :: Gen
  inc_path :: PathId
  inc_path_authority :: Gen
  inc_candidate_set_generation :: Gen
  inc_capacity_generation :: Gen
  inc_policy_generation :: Gen
  inc_qos_generation :: Gen
  inc_fabric_epoch :: FabricEpoch
  inc_reservation :: ReservationRef

record AuthorityExpectation =
  ex_path_authority :: Gen
  ex_candidate_set :: Gen
  ex_capacity :: Gen
  ex_policy :: Gen
  ex_qos :: Gen
  ex_fabric_epoch :: FabricEpoch
  ex_evidence :: Gen

record AuthorityVector =
  av_path_authority :: Gen
  av_candidate_set :: CandidateSetId
  av_candidate_set_generation :: Gen
  av_capacity :: CapacitySnapshotId
  av_capacity_generation :: Gen
  av_policy :: PolicyId
  av_policy_generation :: Gen
  av_qos :: QosProfileId
  av_qos_generation :: Gen
  av_evidence :: EvidenceId
  av_evidence_generation :: Gen
  av_fabric_epoch :: FabricEpoch

definition AuthorityVector_none :: AuthorityVector where
  "AuthorityVector_none = \<lparr>
     av_path_authority = 0, av_candidate_set = 0, av_candidate_set_generation = 0,
     av_capacity = 0, av_capacity_generation = 0, av_policy = 0, av_policy_generation = 0,
     av_qos = 0, av_qos_generation = 0, av_evidence = 0, av_evidence_generation = 0,
     av_fabric_epoch = 0\<rparr>"

definition slash :: "u64 \<Rightarrow> u64 \<Rightarrow> string" where
  "slash a b = to_string (unat a) @ ''/'' @ to_string (unat b)"

definition AuthorityVector_ToString :: "AuthorityVector \<Rightarrow> string" where
  "AuthorityVector_ToString a =
     ''pathauth='' @ to_string (unat (av_path_authority a)) @
     '' cset='' @ slash (av_candidate_set a) (av_candidate_set_generation a) @
     '' cap='' @ slash (av_capacity a) (av_capacity_generation a) @
     '' policy='' @ slash (av_policy a) (av_policy_generation a) @
     '' qos='' @ slash (av_qos a) (av_qos_generation a) @
     '' evidence='' @ slash (av_evidence a) (av_evidence_generation a) @
     '' epoch='' @ to_string (unat (av_fabric_epoch a))"

definition kMaxProvenanceFieldLength :: nat where "kMaxProvenanceFieldLength = 128"

record Provenance =
  pv_producer :: string
  pv_producer_version :: string
  pv_source_sequence :: u64
  pv_observer_unix_nanos :: i64

record PlacementRequest =
  rq_flow :: FlowId
  rq_flow_generation :: Gen
  rq_candidates :: CandidateSet
  rq_capacity :: CapacitySnapshot
  rq_qos :: QosProfile
  rq_policy :: PlacementPolicy
  rq_evidence :: EvidenceBundle
  rq_incumbent :: "IncumbentPlacement option"
  rq_occupied_failure_domains :: "FailureDomainId list"
  rq_expected :: AuthorityExpectation
  rq_provenance :: Provenance
  rq_attempt :: AttemptId

section \<open>Canonical digests\<close>

text \<open>
  A hash routine takes the hasher last, so that a body of \<open>let h = \<dots>\<close> reads like the sequence of
  calls on one \<^verbatim>\<open>CanonicalHasher\<close>. \<open>AddSize\<close> is
  \<^verbatim>\<open>h.AddU32(static_cast<std::uint32_t>(v.size()))\<close>.
\<close>

definition AddSize :: "'a list \<Rightarrow> CanonicalHasher \<Rightarrow> CanonicalHasher" where
  "AddSize xs h = AddU32 (word_of_nat (length xs)) h"

definition AddEnum :: "nat \<Rightarrow> CanonicalHasher \<Rightarrow> CanonicalHasher" where
  "AddEnum v h = AddU8 (word_of_nat v) h"

definition HashReservation :: "ReservationRef \<Rightarrow> CanonicalHasher \<Rightarrow> CanonicalHasher" where
  "HashReservation r h =
     (let h = AddTag ''reservation'' h;
          h = AddU64 (rr_id r) h
      in AddU64 (rr_generation r) h)"

definition HashPathAttributes :: "PathAttributes \<Rightarrow> CanonicalHasher \<Rightarrow> CanonicalHasher" where
  "HashPathAttributes a h =
     (let h = AddTag ''path_attributes'' h;
          h = AddEnum (PathTier_value (pa_tier a)) h;
          h = AddU64 (pa_locality a) h;
          h = AddEnum (LocalityScope_value (pa_locality_scope a)) h;
          h = AddU64 (pa_failure_domain a) h;
          h = AddU64 (pa_cost_micro a) h;
          h = AddU64 (pa_latency_nanos a) h;
          h = AddU16 (pa_hop_count a) h;
          labels = remdups_adj (sort (pa_labels a));
          h = AddSize labels h;
          h = fold AddU64 labels h;
          reservations = remdups_adj (sort (pa_reservations a));
          h = AddSize reservations h
      in fold HashReservation reservations h)"

definition HashSorted ::
  "'a list \<Rightarrow> ('a \<Rightarrow> u64) \<Rightarrow> ('a \<Rightarrow> CanonicalHasher \<Rightarrow> CanonicalHasher) \<Rightarrow> CanonicalHasher \<Rightarrow> CanonicalHasher" where
  "HashSorted input key write h =
     (let sorted = sort_key key input;
          h = AddSize sorted h
      in fold write sorted h)"

definition HashIncumbent :: "IncumbentPlacement \<Rightarrow> CanonicalHasher \<Rightarrow> CanonicalHasher" where
  "HashIncumbent inc h =
     (let h = AddTag ''incumbent'' h;
          h = AddU64 (inc_id inc) h;
          h = AddU64 (inc_generation inc) h;
          h = AddU64 (inc_path inc) h;
          h = AddU64 (inc_path_authority inc) h;
          h = AddU64 (inc_candidate_set_generation inc) h;
          h = AddU64 (inc_capacity_generation inc) h;
          h = AddU64 (inc_policy_generation inc) h;
          h = AddU64 (inc_qos_generation inc) h;
          h = AddU64 (inc_fabric_epoch inc) h
      in HashReservation (inc_reservation inc) h)"

definition HashIdSet :: "string \<Rightarrow> u64 list \<Rightarrow> CanonicalHasher \<Rightarrow> CanonicalHasher" where
  "HashIdSet tag ids h =
     (let h = AddTag tag h;
          sorted = remdups_adj (sort ids);
          h = AddSize sorted h
      in fold AddU64 sorted h)"

definition HashReservationSet :: "string \<Rightarrow> ReservationRef list \<Rightarrow> CanonicalHasher \<Rightarrow> CanonicalHasher" where
  "HashReservationSet tag refs h =
     (let h = AddTag tag h;
          sorted = remdups_adj (sort refs);
          h = AddSize sorted h
      in fold HashReservation sorted h)"

definition HashOptionalId :: "u64 option \<Rightarrow> CanonicalHasher \<Rightarrow> CanonicalHasher" where
  "HashOptionalId v h =
     (let h = AddBool (v \<noteq> None) h in case v of None \<Rightarrow> h | Some x \<Rightarrow> AddU64 x h)"

definition HashCandidatePath :: "CandidatePath \<Rightarrow> CanonicalHasher \<Rightarrow> CanonicalHasher" where
  "HashCandidatePath path h =
     (let h = AddU64 (cp_id path) h;
          h = AddU64 (cp_authority path) h
      in HashPathAttributes (cp_attributes path) h)"

definition CandidateSetDigest :: "CandidateSet \<Rightarrow> Digest" where
  "CandidateSetDigest cset =
     (let h = AddTag ''candidate_set'' CanonicalHasher_init;
          h = AddU64 (cs_id cset) h;
          h = AddU64 (cs_generation cset) h;
          h = HashSorted (cs_paths cset) cp_id HashCandidatePath h
      in OfCanonical h)"

definition HashPathCapacity :: "PathCapacity \<Rightarrow> CanonicalHasher \<Rightarrow> CanonicalHasher" where
  "HashPathCapacity entry h =
     (let h = AddU64 (pc_path entry) h;
          h = AddU64 (pc_capacity_bytes entry) h
      in AddU64 (pc_residual_bytes entry) h)"

definition CapacitySnapshotDigest :: "CapacitySnapshot \<Rightarrow> Digest" where
  "CapacitySnapshotDigest snapshot =
     (let h = AddTag ''capacity_snapshot'' CanonicalHasher_init;
          h = AddU64 (cap_id snapshot) h;
          h = AddU64 (cap_generation snapshot) h;
          h = HashSorted (cap_entries snapshot) pc_path HashPathCapacity h
      in OfCanonical h)"

definition HashEvidenceEntry :: "CongestionEvidenceEntry \<Rightarrow> CanonicalHasher \<Rightarrow> CanonicalHasher" where
  "HashEvidenceEntry entry h =
     (let h = AddU64 (ce_path entry) h in AddU32 (ce_utilization_ppb entry) h)"

definition EvidenceDigest :: "EvidenceBundle \<Rightarrow> Digest" where
  "EvidenceDigest evidence =
     (let h = AddTag ''evidence'' CanonicalHasher_init;
          h = AddU64 (ev_id evidence) h;
          h = AddU64 (ev_generation evidence) h;
          h = HashSorted (ev_entries evidence) ce_path HashEvidenceEntry h
      in OfCanonical h)"

definition QosProfileDigest :: "QosProfile \<Rightarrow> Digest" where
  "QosProfileDigest qos =
     (let h = AddTag ''qos'' CanonicalHasher_init;
          h = AddU64 (qos_id qos) h;
          h = AddU64 (qos_generation qos) h;
          h = AddEnum (ServiceClass_value (qos_service_class qos)) h;
          h = AddEnum (PriorityClass_value (qos_priority qos)) h;
          h = AddU64 (qos_required_residual_bytes qos) h;
          h = AddU64 (qos_max_latency_nanos qos) h
      in OfCanonical h)"

definition HashObjective :: "Objective \<Rightarrow> CanonicalHasher \<Rightarrow> CanonicalHasher" where
  "HashObjective objective h =
     (let h = AddEnum (ObjectiveKind_value (ob_kind objective)) h
      in AddEnum (Direction_value (ob_direction objective)) h)"

definition PolicyDigest :: "PlacementPolicy \<Rightarrow> Digest" where
  "PolicyDigest policy =
     (let h = AddTag ''policy'' CanonicalHasher_init;
          h = AddU64 (pp_id policy) h;
          h = AddU64 (pp_generation policy) h;
          h = AddSize (pp_objectives policy) h;
          h = fold HashObjective (pp_objectives policy) h;
          tiers = remdups_adj (sort (pp_allowed_tiers policy));
          h = AddSize tiers h;
          h = fold (\<lambda>tier. AddEnum (PathTier_value tier)) tiers h;
          h = HashIdSet ''required_labels'' (pp_required_labels policy) h;
          h = HashIdSet ''forbidden_labels'' (pp_forbidden_labels policy) h;
          h = AddTag ''locality'' h;
          h = HashOptionalId (lc_required_locality (pp_locality policy)) h;
          h = HashOptionalId (lc_preferred_locality (pp_locality policy)) h;
          h = HashIdSet ''forbidden_localities'' (lc_forbidden_localities (pp_locality policy)) h;
          h = AddTag ''failure_domains'' h;
          h = HashOptionalId (fd_required_domain (pp_failure_domains policy)) h;
          h = HashIdSet ''forbidden_domains'' (fd_forbidden_domains (pp_failure_domains policy)) h;
          h = AddBool (fd_avoid_occupied_domains (pp_failure_domains policy)) h;
          h = AddU32 (fd_min_distinct_domains (pp_failure_domains policy)) h;
          h = AddTag ''reservation_affinity'' h;
          h = AddBool (ra_required (pp_reservation_affinity policy)) h;
          h = HashReservationSet ''affinity_refs'' (ra_refs (pp_reservation_affinity policy)) h;
          h = AddTag ''admission'' h;
          h = AddU64 (ag_min_residual_headroom_bytes (pp_admission policy)) h;
          h = AddEnum (GateAction_value (ag_on_below (pp_admission policy))) h;
          h = AddTag ''service'' h;
          h = AddBool (sp_allow_degraded (pp_service policy)) h;
          h = AddU8 (sp_max_relaxation_steps (pp_service policy)) h;
          h = AddTag ''churn'' h;
          h = AddEnum (ChurnAction_value (ch_on_move (pp_churn policy))) h;
          h = AddBool (ch_prefer_incumbent (pp_churn policy)) h;
          h = AddU64 (ch_move_improvement_threshold (pp_churn policy)) h;
          h = AddU32 (ch_threshold_objective_index (pp_churn policy)) h;
          h = AddTag ''evidence_policy'' h;
          h = AddEnum (EvidencePolicyMode_value (ep_on_missing (pp_evidence policy))) h;
          h = AddEnum (EvidencePolicyMode_value (ep_on_stale (pp_evidence policy))) h;
          h = AddU64 (pp_revalidate_after_nanos policy) h
      in OfCanonical h)"

definition AddDigest :: "Digest \<Rightarrow> CanonicalHasher \<Rightarrow> CanonicalHasher" where
  "AddDigest d h = (let h = AddU64 (dg_lo d) h in AddU64 (dg_hi d) h)"

definition RequestDigest :: "PlacementRequest \<Rightarrow> Limits \<Rightarrow> Digest" where
  "RequestDigest request limits =
     (let h = AddTag ''request'' CanonicalHasher_init;
          h = AddU64 (rq_flow request) h;
          h = AddU64 (rq_flow_generation request) h;
          h = AddDigest (CandidateSetDigest (rq_candidates request)) h;
          h = AddDigest (CapacitySnapshotDigest (rq_capacity request)) h;
          h = AddDigest (EvidenceDigest (rq_evidence request)) h;
          h = AddDigest (QosProfileDigest (rq_qos request)) h;
          h = AddDigest (PolicyDigest (rq_policy request)) h;
          h = AddBool (rq_incumbent request \<noteq> None) h;
          h = (case rq_incumbent request of None \<Rightarrow> h | Some inc \<Rightarrow> HashIncumbent inc h);
          h = HashIdSet ''occupied_failure_domains'' (rq_occupied_failure_domains request) h;
          h = AddTag ''expected'' h;
          h = AddU64 (ex_path_authority (rq_expected request)) h;
          h = AddU64 (ex_candidate_set (rq_expected request)) h;
          h = AddU64 (ex_capacity (rq_expected request)) h;
          h = AddU64 (ex_policy (rq_expected request)) h;
          h = AddU64 (ex_qos (rq_expected request)) h;
          h = AddU64 (ex_evidence (rq_expected request)) h;
          h = AddU64 (ex_fabric_epoch (rq_expected request)) h;
          h = AddTag ''provenance'' h;
          h = AddString (pv_producer (rq_provenance request)) h;
          h = AddString (pv_producer_version (rq_provenance request)) h;
          h = AddU64 (pv_source_sequence (rq_provenance request)) h;
          h = AddU64 (rq_attempt request) h
      in OfCanonical h)"

definition AuthorityVectorDigest :: "AuthorityVector \<Rightarrow> Digest" where
  "AuthorityVectorDigest a =
     (let h = AddTag ''authority_vector'' CanonicalHasher_init;
          h = AddU64 (av_path_authority a) h;
          h = AddU64 (av_candidate_set a) h;
          h = AddU64 (av_candidate_set_generation a) h;
          h = AddU64 (av_capacity a) h;
          h = AddU64 (av_capacity_generation a) h;
          h = AddU64 (av_policy a) h;
          h = AddU64 (av_policy_generation a) h;
          h = AddU64 (av_qos a) h;
          h = AddU64 (av_qos_generation a) h;
          h = AddU64 (av_evidence a) h;
          h = AddU64 (av_evidence_generation a) h;
          h = AddU64 (av_fabric_epoch a) h
      in OfCanonical h)"

section \<open>Order independence of the digests\<close>

text \<open>
  \<open>sort\<close> followed by \<^verbatim>\<open>std::unique\<close> enumerates the set of elements, so a list hashed that way
  enters the digest as a set.
\<close>

lemma distinct_remdups_adj_sorted: "sorted xs \<Longrightarrow> distinct (remdups_adj xs)"
  by (induction xs rule: remdups_adj.induct) auto

lemma remdups_adj_sort: "remdups_adj (sort xs) = sorted_list_of_set (set xs)"
  by (rule sorted_distinct_set_unique) (auto simp: sorted_remdups_adj distinct_remdups_adj_sorted)

lemma HashIdSet_set_cong: "set xs = set ys \<Longrightarrow> HashIdSet t xs h = HashIdSet t ys h"
  by (simp add: HashIdSet_def remdups_adj_sort)

lemma HashReservationSet_set_cong: "set xs = set ys \<Longrightarrow> HashReservationSet t xs h = HashReservationSet t ys h"
  by (simp add: HashReservationSet_def remdups_adj_sort)

lemma HashSorted_mset_cong:
  assumes "mset xs = mset ys" "distinct (map k xs)"
  shows "HashSorted xs k w h = HashSorted ys k w h"
  using sort_key_mset_cong [OF assms] by (simp add: HashSorted_def)

text \<open>
  Two requests that carry the same facts: equal scalars and objectives, the same candidate, capacity
  and evidence entries and the same elements of every policy list, each in any order.
\<close>

definition same_policy_facts :: "PlacementPolicy \<Rightarrow> PlacementPolicy \<Rightarrow> bool" where
  "same_policy_facts p q \<longleftrightarrow>
     mset (pp_allowed_tiers p) = mset (pp_allowed_tiers q) \<and>
     mset (pp_required_labels p) = mset (pp_required_labels q) \<and>
     mset (pp_forbidden_labels p) = mset (pp_forbidden_labels q) \<and>
     mset (lc_forbidden_localities (pp_locality p)) = mset (lc_forbidden_localities (pp_locality q)) \<and>
     mset (fd_forbidden_domains (pp_failure_domains p)) = mset (fd_forbidden_domains (pp_failure_domains q)) \<and>
     mset (ra_refs (pp_reservation_affinity p)) = mset (ra_refs (pp_reservation_affinity q)) \<and>
     (\<exists>tiers rl fl loc dom refs.
        q = p\<lparr>pp_allowed_tiers := tiers, pp_required_labels := rl, pp_forbidden_labels := fl,
               pp_locality := (pp_locality p)\<lparr>lc_forbidden_localities := loc\<rparr>,
               pp_failure_domains := (pp_failure_domains p)\<lparr>fd_forbidden_domains := dom\<rparr>,
               pp_reservation_affinity := (pp_reservation_affinity p)\<lparr>ra_refs := refs\<rparr>\<rparr>)"

definition same_facts :: "PlacementRequest \<Rightarrow> PlacementRequest \<Rightarrow> bool" where
  "same_facts r s \<longleftrightarrow>
     mset (cs_paths (rq_candidates r)) = mset (cs_paths (rq_candidates s)) \<and>
     mset (cap_entries (rq_capacity r)) = mset (cap_entries (rq_capacity s)) \<and>
     mset (ev_entries (rq_evidence r)) = mset (ev_entries (rq_evidence s)) \<and>
     mset (rq_occupied_failure_domains r) = mset (rq_occupied_failure_domains s) \<and>
     same_policy_facts (rq_policy r) (rq_policy s) \<and>
     (\<exists>ps cs es os pol.
        s = r\<lparr>rq_candidates := (rq_candidates r)\<lparr>cs_paths := ps\<rparr>,
               rq_capacity := (rq_capacity r)\<lparr>cap_entries := cs\<rparr>,
               rq_evidence := (rq_evidence r)\<lparr>ev_entries := es\<rparr>,
               rq_occupied_failure_domains := os, rq_policy := pol\<rparr>)"

lemma PolicyDigest_same_facts:
  assumes "same_policy_facts p q"
  shows "PolicyDigest p = PolicyDigest q"
proof -
  from assms obtain tiers rl fl loc dom refs where
    q: "q = p\<lparr>pp_allowed_tiers := tiers, pp_required_labels := rl, pp_forbidden_labels := fl,
               pp_locality := (pp_locality p)\<lparr>lc_forbidden_localities := loc\<rparr>,
               pp_failure_domains := (pp_failure_domains p)\<lparr>fd_forbidden_domains := dom\<rparr>,
               pp_reservation_affinity := (pp_reservation_affinity p)\<lparr>ra_refs := refs\<rparr>\<rparr>"
    and sets: "set (pp_allowed_tiers p) = set tiers" "set (pp_required_labels p) = set rl"
      "set (pp_forbidden_labels p) = set fl"
      "set (lc_forbidden_localities (pp_locality p)) = set loc"
      "set (fd_forbidden_domains (pp_failure_domains p)) = set dom"
      "set (ra_refs (pp_reservation_affinity p)) = set refs"
    by (auto simp: same_policy_facts_def dest!: mset_eq_setD)
  show ?thesis
    unfolding q PolicyDigest_def
    by (simp add: sets remdups_adj_sort HashIdSet_def HashReservationSet_def)
qed

lemma RequestDigest_same_facts:
  assumes "same_facts r s"
    and "distinct (map cp_id (cs_paths (rq_candidates r)))"
    and "distinct (map pc_path (cap_entries (rq_capacity r)))"
    and "distinct (map ce_path (ev_entries (rq_evidence r)))"
  shows "RequestDigest r limits = RequestDigest s limits"
proof -
  from assms(1) obtain ps cs es os pol where
    s: "s = r\<lparr>rq_candidates := (rq_candidates r)\<lparr>cs_paths := ps\<rparr>,
               rq_capacity := (rq_capacity r)\<lparr>cap_entries := cs\<rparr>,
               rq_evidence := (rq_evidence r)\<lparr>ev_entries := es\<rparr>,
               rq_occupied_failure_domains := os, rq_policy := pol\<rparr>"
    and m: "mset (cs_paths (rq_candidates r)) = mset ps" "mset (cap_entries (rq_capacity r)) = mset cs"
      "mset (ev_entries (rq_evidence r)) = mset es" "mset (rq_occupied_failure_domains r) = mset os"
    and pol: "same_policy_facts (rq_policy r) pol"
    by (auto simp: same_facts_def)
  have "CandidateSetDigest (rq_candidates r) = CandidateSetDigest ((rq_candidates r)\<lparr>cs_paths := ps\<rparr>)"
    using HashSorted_mset_cong [OF m(1) assms(2)] by (simp add: CandidateSetDigest_def)
  moreover have "CapacitySnapshotDigest (rq_capacity r) = CapacitySnapshotDigest ((rq_capacity r)\<lparr>cap_entries := cs\<rparr>)"
    using HashSorted_mset_cong [OF m(2) assms(3)] by (simp add: CapacitySnapshotDigest_def)
  moreover have "EvidenceDigest (rq_evidence r) = EvidenceDigest ((rq_evidence r)\<lparr>ev_entries := es\<rparr>)"
    using HashSorted_mset_cong [OF m(3) assms(4)] by (simp add: EvidenceDigest_def)
  ultimately show ?thesis
    unfolding s RequestDigest_def
    by (simp add: PolicyDigest_same_facts [OF pol] HashIdSet_set_cong [OF mset_eq_setD [OF m(4)]])
qed

text \<open>Reordering or repeating the labels and reservations of a path does not change its hash.\<close>

lemma HashPathAttributes_set_cong:
  assumes "set ls = set (pa_labels a)" "set rs = set (pa_reservations a)"
  shows "HashPathAttributes (a\<lparr>pa_labels := ls, pa_reservations := rs\<rparr>) h = HashPathAttributes a h"
  using assms by (simp add: HashPathAttributes_def remdups_adj_sort)

end
