(* ===== verification/Flow_Explain.thy ===== *)
theory Flow_Explain
  imports Flow_Model
begin

text \<open>
  Decisions and their explanations (\<^verbatim>\<open>include/flowplace/explain.hpp\<close>, \<^verbatim>\<open>src/explain.cpp\<close>):
  outcomes, exclusion reasons, degradation flags and incumbent deltas with their names and
  categories, the records of an explanation, an intent and a decision, their canonical digests and
  the human-readable rendering. The decoder range-checks every one of these enumerations and the
  engine only writes enumerators, so they need no out-of-range constructor.
\<close>

section \<open>Enumerations\<close>

datatype (plugins only: code size) Outcome =
  kPlaced
| kPlacedDegraded
| kDeferred
| kNoLegalPath
| kInsufficientCapacity
| kPolicyRejected
| kStaleInput
| kConflictingInput

primrec Outcome_value :: "Outcome \<Rightarrow> nat" where
  "Outcome_value Outcome.kPlaced = 0"
| "Outcome_value Outcome.kPlacedDegraded = 1"
| "Outcome_value Outcome.kDeferred = 2"
| "Outcome_value Outcome.kNoLegalPath = 3"
| "Outcome_value Outcome.kInsufficientCapacity = 4"
| "Outcome_value Outcome.kPolicyRejected = 5"
| "Outcome_value Outcome.kStaleInput = 6"
| "Outcome_value Outcome.kConflictingInput = 7"

primrec OutcomeName :: "Outcome \<Rightarrow> string" where
  "OutcomeName Outcome.kPlaced = ''PLACED''"
| "OutcomeName Outcome.kPlacedDegraded = ''PLACED_DEGRADED''"
| "OutcomeName Outcome.kDeferred = ''DEFERRED''"
| "OutcomeName Outcome.kNoLegalPath = ''NO_LEGAL_PATH''"
| "OutcomeName Outcome.kInsufficientCapacity = ''INSUFFICIENT_CAPACITY''"
| "OutcomeName Outcome.kPolicyRejected = ''POLICY_REJECTED''"
| "OutcomeName Outcome.kStaleInput = ''STALE_INPUT''"
| "OutcomeName Outcome.kConflictingInput = ''CONFLICTING_INPUT''"

lemma Outcome_value_inject [simp]: "Outcome_value a = Outcome_value b \<longleftrightarrow> a = b"
  by (cases a; simp; cases b; simp)

datatype (plugins only: code size) ExclusionReason =
  kPathAuthorityStale
| kTierNotAllowed
| kForbiddenLabel
| kMissingRequiredLabel
| kForbiddenLocality
| kLocalityMismatch
| kForbiddenFailureDomain
| kRequiredFailureDomainMismatch
| kFailureDomainOccupied
| kCapacityUnknown
| kCapacityInsufficient
| kServiceHeadroomUnmet
| kServiceReservationUnmet
| kReservationAffinityUnsatisfied
| kLatencyBudgetExceeded
| kEvidenceMissing
| kEvidenceStale
| kDuplicatePathEntry

primrec ExclusionReason_value :: "ExclusionReason \<Rightarrow> nat" where
  "ExclusionReason_value ExclusionReason.kPathAuthorityStale = 0"
| "ExclusionReason_value ExclusionReason.kTierNotAllowed = 1"
| "ExclusionReason_value ExclusionReason.kForbiddenLabel = 2"
| "ExclusionReason_value ExclusionReason.kMissingRequiredLabel = 3"
| "ExclusionReason_value ExclusionReason.kForbiddenLocality = 4"
| "ExclusionReason_value ExclusionReason.kLocalityMismatch = 5"
| "ExclusionReason_value ExclusionReason.kForbiddenFailureDomain = 6"
| "ExclusionReason_value ExclusionReason.kRequiredFailureDomainMismatch = 7"
| "ExclusionReason_value ExclusionReason.kFailureDomainOccupied = 8"
| "ExclusionReason_value ExclusionReason.kCapacityUnknown = 9"
| "ExclusionReason_value ExclusionReason.kCapacityInsufficient = 10"
| "ExclusionReason_value ExclusionReason.kServiceHeadroomUnmet = 11"
| "ExclusionReason_value ExclusionReason.kServiceReservationUnmet = 12"
| "ExclusionReason_value ExclusionReason.kReservationAffinityUnsatisfied = 13"
| "ExclusionReason_value ExclusionReason.kLatencyBudgetExceeded = 14"
| "ExclusionReason_value ExclusionReason.kEvidenceMissing = 15"
| "ExclusionReason_value ExclusionReason.kEvidenceStale = 16"
| "ExclusionReason_value ExclusionReason.kDuplicatePathEntry = 17"

primrec ExclusionReasonName :: "ExclusionReason \<Rightarrow> string" where
  "ExclusionReasonName ExclusionReason.kPathAuthorityStale = ''path_authority_stale''"
| "ExclusionReasonName ExclusionReason.kTierNotAllowed = ''tier_not_allowed''"
| "ExclusionReasonName ExclusionReason.kForbiddenLabel = ''forbidden_label''"
| "ExclusionReasonName ExclusionReason.kMissingRequiredLabel = ''missing_required_label''"
| "ExclusionReasonName ExclusionReason.kForbiddenLocality = ''forbidden_locality''"
| "ExclusionReasonName ExclusionReason.kLocalityMismatch = ''locality_mismatch''"
| "ExclusionReasonName ExclusionReason.kForbiddenFailureDomain = ''forbidden_failure_domain''"
| "ExclusionReasonName ExclusionReason.kRequiredFailureDomainMismatch = ''required_failure_domain_mismatch''"
| "ExclusionReasonName ExclusionReason.kFailureDomainOccupied = ''failure_domain_occupied''"
| "ExclusionReasonName ExclusionReason.kCapacityUnknown = ''capacity_unknown''"
| "ExclusionReasonName ExclusionReason.kCapacityInsufficient = ''capacity_insufficient''"
| "ExclusionReasonName ExclusionReason.kServiceHeadroomUnmet = ''service_headroom_unmet''"
| "ExclusionReasonName ExclusionReason.kServiceReservationUnmet = ''service_reservation_unmet''"
| "ExclusionReasonName ExclusionReason.kReservationAffinityUnsatisfied = ''reservation_affinity_unsatisfied''"
| "ExclusionReasonName ExclusionReason.kLatencyBudgetExceeded = ''latency_budget_exceeded''"
| "ExclusionReasonName ExclusionReason.kEvidenceMissing = ''evidence_missing''"
| "ExclusionReasonName ExclusionReason.kEvidenceStale = ''evidence_stale''"
| "ExclusionReasonName ExclusionReason.kDuplicatePathEntry = ''duplicate_path_entry''"

lemma ExclusionReason_value_inject [simp]: "ExclusionReason_value a = ExclusionReason_value b \<longleftrightarrow> a = b"
  by (cases a; simp; cases b; simp)

instantiation ExclusionReason :: linorder
begin

definition less_eq_ExclusionReason :: "ExclusionReason \<Rightarrow> ExclusionReason \<Rightarrow> bool" where
  "less_eq_ExclusionReason a b \<longleftrightarrow> ExclusionReason_value a \<le> ExclusionReason_value b"

definition less_ExclusionReason :: "ExclusionReason \<Rightarrow> ExclusionReason \<Rightarrow> bool" where
  "less_ExclusionReason a b \<longleftrightarrow> ExclusionReason_value a < ExclusionReason_value b"

instance
  by standard (auto simp: less_eq_ExclusionReason_def less_ExclusionReason_def)

end

datatype (plugins only: code size) DegradationFlag =
  kIncumbentSuperseded
| kIncumbentStale
| kServiceRelaxed
| kHeadroomBelowComfort
| kLocalityPreferenceUnmet
| kReservationPreferenceUnmet
| kEvidenceUnknown
| kChurnSuppressed
| kNoIncumbent

primrec DegradationFlag_value :: "DegradationFlag \<Rightarrow> nat" where
  "DegradationFlag_value DegradationFlag.kIncumbentSuperseded = 0"
| "DegradationFlag_value DegradationFlag.kIncumbentStale = 1"
| "DegradationFlag_value DegradationFlag.kServiceRelaxed = 2"
| "DegradationFlag_value DegradationFlag.kHeadroomBelowComfort = 3"
| "DegradationFlag_value DegradationFlag.kLocalityPreferenceUnmet = 4"
| "DegradationFlag_value DegradationFlag.kReservationPreferenceUnmet = 5"
| "DegradationFlag_value DegradationFlag.kEvidenceUnknown = 6"
| "DegradationFlag_value DegradationFlag.kChurnSuppressed = 7"
| "DegradationFlag_value DegradationFlag.kNoIncumbent = 8"

primrec DegradationFlagName :: "DegradationFlag \<Rightarrow> string" where
  "DegradationFlagName DegradationFlag.kIncumbentSuperseded = ''incumbent_superseded''"
| "DegradationFlagName DegradationFlag.kIncumbentStale = ''incumbent_stale''"
| "DegradationFlagName DegradationFlag.kServiceRelaxed = ''service_relaxed''"
| "DegradationFlagName DegradationFlag.kHeadroomBelowComfort = ''headroom_below_comfort''"
| "DegradationFlagName DegradationFlag.kLocalityPreferenceUnmet = ''locality_preference_unmet''"
| "DegradationFlagName DegradationFlag.kReservationPreferenceUnmet = ''reservation_preference_unmet''"
| "DegradationFlagName DegradationFlag.kEvidenceUnknown = ''evidence_unknown''"
| "DegradationFlagName DegradationFlag.kChurnSuppressed = ''churn_suppressed''"
| "DegradationFlagName DegradationFlag.kNoIncumbent = ''no_incumbent''"

lemma DegradationFlag_value_inject [simp]: "DegradationFlag_value a = DegradationFlag_value b \<longleftrightarrow> a = b"
  by (cases a; simp; cases b; simp)

instantiation DegradationFlag :: linorder
begin

definition less_eq_DegradationFlag :: "DegradationFlag \<Rightarrow> DegradationFlag \<Rightarrow> bool" where
  "less_eq_DegradationFlag a b \<longleftrightarrow> DegradationFlag_value a \<le> DegradationFlag_value b"

definition less_DegradationFlag :: "DegradationFlag \<Rightarrow> DegradationFlag \<Rightarrow> bool" where
  "less_DegradationFlag a b \<longleftrightarrow> DegradationFlag_value a < DegradationFlag_value b"

instance
  by standard (auto simp: less_eq_DegradationFlag_def less_DegradationFlag_def)

end

datatype (plugins only: code size) IncumbentDelta =
  kNoIncumbent
| kKept
| kMoved
| kReplacedStale

primrec IncumbentDelta_value :: "IncumbentDelta \<Rightarrow> nat" where
  "IncumbentDelta_value IncumbentDelta.kNoIncumbent = 0"
| "IncumbentDelta_value IncumbentDelta.kKept = 1"
| "IncumbentDelta_value IncumbentDelta.kMoved = 2"
| "IncumbentDelta_value IncumbentDelta.kReplacedStale = 3"

primrec IncumbentDeltaName :: "IncumbentDelta \<Rightarrow> string" where
  "IncumbentDeltaName IncumbentDelta.kNoIncumbent = ''no_incumbent''"
| "IncumbentDeltaName IncumbentDelta.kKept = ''kept''"
| "IncumbentDeltaName IncumbentDelta.kMoved = ''moved''"
| "IncumbentDeltaName IncumbentDelta.kReplacedStale = ''replaced_stale''"

lemma IncumbentDelta_value_inject [simp]: "IncumbentDelta_value a = IncumbentDelta_value b \<longleftrightarrow> a = b"
  by (cases a; simp; cases b; simp)

section \<open>Categories\<close>

definition IsCapacityReason :: "ExclusionReason \<Rightarrow> bool" where
  "IsCapacityReason v \<longleftrightarrow> v \<in> {ExclusionReason.kCapacityUnknown, ExclusionReason.kCapacityInsufficient}"

definition IsServiceReason :: "ExclusionReason \<Rightarrow> bool" where
  "IsServiceReason v \<longleftrightarrow>
     v \<in> {ExclusionReason.kServiceHeadroomUnmet, ExclusionReason.kServiceReservationUnmet}"

definition IsStalenessReason :: "ExclusionReason \<Rightarrow> bool" where
  "IsStalenessReason v \<longleftrightarrow>
     v \<in> {ExclusionReason.kPathAuthorityStale, ExclusionReason.kEvidenceStale}"

definition IsPolicyReason :: "ExclusionReason \<Rightarrow> bool" where
  "IsPolicyReason v \<longleftrightarrow>
     v \<in> {ExclusionReason.kTierNotAllowed, ExclusionReason.kForbiddenLabel,
          ExclusionReason.kMissingRequiredLabel, ExclusionReason.kForbiddenLocality,
          ExclusionReason.kLocalityMismatch, ExclusionReason.kForbiddenFailureDomain,
          ExclusionReason.kRequiredFailureDomainMismatch, ExclusionReason.kFailureDomainOccupied,
          ExclusionReason.kReservationAffinityUnsatisfied, ExclusionReason.kEvidenceMissing}"

definition IsQosReason :: "ExclusionReason \<Rightarrow> bool" where
  "IsQosReason v \<longleftrightarrow> v = ExclusionReason.kLatencyBudgetExceeded"

lemmas reason_category_defs =
  IsCapacityReason_def IsServiceReason_def IsStalenessReason_def IsPolicyReason_def IsQosReason_def

text \<open>Every reason the engine records belongs to exactly one category.\<close>

lemma reason_categories_partition:
  assumes "r \<noteq> ExclusionReason.kDuplicatePathEntry"
  shows "length (filter (\<lambda>f. f r)
           [IsCapacityReason, IsServiceReason, IsStalenessReason, IsPolicyReason, IsQosReason]) = 1"
  using assms by (cases r) (simp_all add: reason_category_defs)

primrec IsDegradingFlag :: "DegradationFlag \<Rightarrow> bool" where
  "IsDegradingFlag DegradationFlag.kIncumbentSuperseded = False"
| "IsDegradingFlag DegradationFlag.kIncumbentStale = False"
| "IsDegradingFlag DegradationFlag.kServiceRelaxed = True"
| "IsDegradingFlag DegradationFlag.kHeadroomBelowComfort = True"
| "IsDegradingFlag DegradationFlag.kLocalityPreferenceUnmet = True"
| "IsDegradingFlag DegradationFlag.kReservationPreferenceUnmet = True"
| "IsDegradingFlag DegradationFlag.kEvidenceUnknown = True"
| "IsDegradingFlag DegradationFlag.kChurnSuppressed = False"
| "IsDegradingFlag DegradationFlag.kNoIncumbent = False"

section \<open>Explanations, intents and decisions\<close>

record ExclusionSummary =
  es_reason :: ExclusionReason
  es_count :: u64
  es_sample :: "PathId list"

record ObjectiveValue =
  ov_kind :: ObjectiveKind
  ov_direction :: Direction
  ov_known :: bool
  ov_value :: u64

record RankedCandidate =
  rc_path :: PathId
  rc_authority :: Gen
  rc_rank :: u32
  rc_is_incumbent :: bool
  rc_keys :: "ObjectiveValue list"

record BindingConstraint =
  bc_kind :: ExclusionReason
  bc_path :: PathId
  bc_required :: u64
  bc_available :: u64
  bc_label :: string

record Explanation =
  xp_truncated :: bool
  xp_candidate_count :: u64
  xp_legal_candidate_count :: u64
  xp_excluded_candidate_count :: u64
  xp_unknown_evidence_count :: u64
  xp_distinct_failure_domains :: u64
  xp_ranked :: "RankedCandidate list"
  xp_exclusions :: "ExclusionSummary list"
  xp_degradations :: "DegradationFlag list"
  xp_binding :: "BindingConstraint list"
  xp_notes :: "string list"

definition default_Explanation :: Explanation where
  "default_Explanation = \<lparr>
     xp_truncated = False, xp_candidate_count = 0, xp_legal_candidate_count = 0,
     xp_excluded_candidate_count = 0, xp_unknown_evidence_count = 0,
     xp_distinct_failure_domains = 0, xp_ranked = [], xp_exclusions = [], xp_degradations = [],
     xp_binding = [], xp_notes = []\<rparr>"

record PlacementIntent =
  in_flow :: FlowId
  in_flow_generation :: Gen
  in_path :: PathId
  in_path_authority :: Gen
  in_candidate_set :: CandidateSetId
  in_candidate_set_generation :: Gen
  in_capacity :: CapacitySnapshotId
  in_capacity_generation :: Gen
  in_policy :: PolicyId
  in_policy_generation :: Gen
  in_qos :: QosProfileId
  in_qos_generation :: Gen
  in_evidence :: EvidenceId
  in_evidence_generation :: Gen
  in_fabric_epoch :: FabricEpoch
  in_reservation :: ReservationRef
  in_attempt :: AttemptId
  in_revalidate_after_nanos :: u64
  in_digest :: Digest

text \<open>\<^verbatim>\<open>operator==\<close> on intents compares every field but the digest.\<close>

definition PlacementIntent_eq :: "PlacementIntent \<Rightarrow> PlacementIntent \<Rightarrow> bool" where
  "PlacementIntent_eq a b \<longleftrightarrow>
     in_flow a = in_flow b \<and> in_flow_generation a = in_flow_generation b \<and> in_path a = in_path b \<and>
     in_path_authority a = in_path_authority b \<and> in_candidate_set a = in_candidate_set b \<and>
     in_candidate_set_generation a = in_candidate_set_generation b \<and> in_capacity a = in_capacity b \<and>
     in_capacity_generation a = in_capacity_generation b \<and> in_policy a = in_policy b \<and>
     in_policy_generation a = in_policy_generation b \<and> in_qos a = in_qos b \<and>
     in_qos_generation a = in_qos_generation b \<and> in_evidence a = in_evidence b \<and>
     in_evidence_generation a = in_evidence_generation b \<and> in_fabric_epoch a = in_fabric_epoch b \<and>
     in_reservation a = in_reservation b \<and> in_attempt a = in_attempt b \<and>
     in_revalidate_after_nanos a = in_revalidate_after_nanos b"

record PlacementDecision =
  de_outcome :: Outcome
  de_code :: StatusCode
  de_intent :: "PlacementIntent option"
  de_authority :: AuthorityVector
  de_delta :: IncumbentDelta
  de_explanation :: Explanation
  de_digest :: Digest
  de_validation :: Status

definition default_PlacementDecision :: PlacementDecision where
  "default_PlacementDecision = \<lparr>
     de_outcome = Outcome.kNoLegalPath, de_code = kOk, de_intent = None,
     de_authority = AuthorityVector_none, de_delta = IncumbentDelta.kNoIncumbent,
     de_explanation = default_Explanation, de_digest = Digest_zero, de_validation = Status_Ok\<rparr>"

definition placed :: "PlacementDecision \<Rightarrow> bool" where
  "placed d \<longleftrightarrow> de_outcome d = Outcome.kPlaced \<or> de_outcome d = Outcome.kPlacedDegraded"

section \<open>Digests\<close>

definition HashObjectiveValue :: "ObjectiveValue \<Rightarrow> CanonicalHasher \<Rightarrow> CanonicalHasher" where
  "HashObjectiveValue v h =
     (let h = AddEnum (ObjectiveKind_value (ov_kind v)) h;
          h = AddEnum (Direction_value (ov_direction v)) h;
          h = AddBool (ov_known v) h
      in AddU64 (ov_value v) h)"

definition IntentDigest :: "PlacementIntent \<Rightarrow> Digest" where
  "IntentDigest intent =
     (let h = AddTag ''intent'' CanonicalHasher_init;
          h = AddU64 (in_flow intent) h;
          h = AddU64 (in_flow_generation intent) h;
          h = AddU64 (in_path intent) h;
          h = AddU64 (in_path_authority intent) h;
          h = AddU64 (in_candidate_set intent) h;
          h = AddU64 (in_candidate_set_generation intent) h;
          h = AddU64 (in_capacity intent) h;
          h = AddU64 (in_capacity_generation intent) h;
          h = AddU64 (in_policy intent) h;
          h = AddU64 (in_policy_generation intent) h;
          h = AddU64 (in_qos intent) h;
          h = AddU64 (in_qos_generation intent) h;
          h = AddU64 (in_evidence intent) h;
          h = AddU64 (in_evidence_generation intent) h;
          h = AddU64 (in_fabric_epoch intent) h;
          h = AddU64 (rr_id (in_reservation intent)) h;
          h = AddU64 (rr_generation (in_reservation intent)) h;
          h = AddU64 (in_attempt intent) h;
          h = AddU64 (in_revalidate_after_nanos intent) h
      in OfCanonical h)"

definition HashRankedCandidate :: "RankedCandidate \<Rightarrow> CanonicalHasher \<Rightarrow> CanonicalHasher" where
  "HashRankedCandidate ranked h =
     (let h = AddU32 (rc_rank ranked) h;
          h = AddU64 (rc_path ranked) h;
          h = AddU64 (rc_authority ranked) h;
          h = AddBool (rc_is_incumbent ranked) h;
          h = AddSize (rc_keys ranked) h
      in fold HashObjectiveValue (rc_keys ranked) h)"

definition HashExclusionSummary :: "ExclusionSummary \<Rightarrow> CanonicalHasher \<Rightarrow> CanonicalHasher" where
  "HashExclusionSummary summary h =
     (let h = AddEnum (ExclusionReason_value (es_reason summary)) h;
          h = AddU64 (es_count summary) h;
          h = AddSize (es_sample summary) h
      in fold AddU64 (es_sample summary) h)"

definition HashBindingConstraint :: "BindingConstraint \<Rightarrow> CanonicalHasher \<Rightarrow> CanonicalHasher" where
  "HashBindingConstraint binding h =
     (let h = AddEnum (ExclusionReason_value (bc_kind binding)) h;
          h = AddU64 (bc_path binding) h;
          h = AddU64 (bc_required binding) h;
          h = AddU64 (bc_available binding) h
      in AddString (bc_label binding) h)"

definition HashExplanation :: "Explanation \<Rightarrow> CanonicalHasher \<Rightarrow> CanonicalHasher" where
  "HashExplanation x h =
     (let h = AddTag ''explanation'' h;
          h = AddU64 (xp_candidate_count x) h;
          h = AddU64 (xp_legal_candidate_count x) h;
          h = AddU64 (xp_excluded_candidate_count x) h;
          h = AddU64 (xp_unknown_evidence_count x) h;
          h = AddU64 (xp_distinct_failure_domains x) h;
          h = AddBool (xp_truncated x) h;
          h = AddSize (xp_ranked x) h;
          h = fold HashRankedCandidate (xp_ranked x) h;
          h = AddSize (xp_exclusions x) h;
          h = fold HashExclusionSummary (xp_exclusions x) h;
          h = AddSize (xp_degradations x) h;
          h = fold (\<lambda>flag. AddEnum (DegradationFlag_value flag)) (xp_degradations x) h;
          h = AddSize (xp_binding x) h;
          h = fold HashBindingConstraint (xp_binding x) h;
          h = AddSize (xp_notes x) h
      in fold AddString (xp_notes x) h)"

definition DecisionDigest :: "PlacementDecision \<Rightarrow> Digest" where
  "DecisionDigest decision =
     (let h = AddTag ''decision'' CanonicalHasher_init;
          h = AddEnum (Outcome_value (de_outcome decision)) h;
          h = AddU16 (StatusCode_value (de_code decision)) h;
          h = AddBool (de_intent decision \<noteq> None) h;
          h = (case de_intent decision of
                 None \<Rightarrow> h
               | Some intent \<Rightarrow> AddDigest (IntentDigest intent) h);
          h = AddDigest (AuthorityVectorDigest (de_authority decision)) h;
          h = AddEnum (IncumbentDelta_value (de_delta decision)) h;
          h = HashExplanation (de_explanation decision) h;
          h = AddU16 (StatusCode_value (st_code (de_validation decision))) h
      in OfCanonical h)"

text \<open>Intents equal in the sense of \<^verbatim>\<open>operator==\<close> have the same digest.\<close>

lemma PlacementIntent_eq_digest: "PlacementIntent_eq a b \<Longrightarrow> IntentDigest a = IntentDigest b"
  by (simp add: PlacementIntent_eq_def IntentDigest_def)

text \<open>The decision digest does not read the digest field, so recomputing it is idempotent.\<close>

lemma DecisionDigest_update [simp]: "DecisionDigest (d\<lparr>de_digest := x\<rparr>) = DecisionDigest d"
  by (simp add: DecisionDigest_def)

section \<open>Rendering\<close>

definition newline :: string where "newline = [CHR 0x0A]"

definition id_str :: "u64 \<Rightarrow> string" where "id_str i = to_string (unat i)"

definition Render_intent :: "PlacementIntent \<Rightarrow> string" where
  "Render_intent intent =
     ''intent: flow='' @ id_str (in_flow intent) @ ''/'' @ id_str (in_flow_generation intent) @
     '' path='' @ id_str (in_path intent) @ ''/'' @ id_str (in_path_authority intent) @
     '' reservation='' @ ReservationRef_ToString (in_reservation intent) @
     '' revalidate_after_nanos='' @ id_str (in_revalidate_after_nanos intent) @ newline @
     ''intent_digest: '' @ Digest_ToHex (in_digest intent) @ newline"

definition Render_ranked :: "RankedCandidate \<Rightarrow> string" where
  "Render_ranked ranked =
     ''  ['' @ to_string (unat (rc_rank ranked)) @ ''] path='' @ id_str (rc_path ranked) @
     '' auth='' @ id_str (rc_authority ranked) @
     (if rc_is_incumbent ranked then '' incumbent'' else []) @
     concat (map (\<lambda>key. '' '' @ ObjectiveKindName (ov_kind key) @ ''='' @
                         (if ov_known key then id_str (ov_value key) else ''UNKNOWN'')) (rc_keys ranked)) @
     newline"

fun join_comma :: "u64 list \<Rightarrow> string" where
  "join_comma [] = []"
| "join_comma [x] = id_str x"
| "join_comma (x # y # xs) = id_str x @ '','' @ join_comma (y # xs)"

definition Render_exclusion :: "ExclusionSummary \<Rightarrow> string" where
  "Render_exclusion summary =
     ''  '' @ ExclusionReasonName (es_reason summary) @ ''='' @ id_str (es_count summary) @
     (if es_sample summary \<noteq> [] then '' sample='' @ join_comma (es_sample summary) else []) @ newline"

definition Render_binding :: "BindingConstraint \<Rightarrow> string" where
  "Render_binding binding =
     ''  '' @ ExclusionReasonName (bc_kind binding) @ '' path='' @ id_str (bc_path binding) @
     '' required='' @ id_str (bc_required binding) @ '' available='' @ id_str (bc_available binding) @
     (if bc_label binding \<noteq> [] then '' ('' @ bc_label binding @ '')'' else []) @ newline"

definition RenderDecision :: "PlacementDecision \<Rightarrow> string" where
  "RenderDecision d =
     (let x = de_explanation d in
      ''outcome='' @ OutcomeName (de_outcome d) @ '' code='' @ StatusCodeName (de_code d) @
      '' delta='' @ IncumbentDeltaName (de_delta d) @ newline @
      ''authority: '' @ AuthorityVector_ToString (de_authority d) @ newline @
      ''digest: '' @ Digest_ToHex (de_digest d) @ newline @
      (if \<not> Status_ok (de_validation d)
       then ''validation: '' @ Status_ToString (de_validation d) @ newline else []) @
      (case de_intent d of None \<Rightarrow> [] | Some intent \<Rightarrow> Render_intent intent) @
      ''candidates: total='' @ id_str (xp_candidate_count x) @
      '' legal='' @ id_str (xp_legal_candidate_count x) @
      '' excluded='' @ id_str (xp_excluded_candidate_count x) @
      '' unknown_evidence='' @ id_str (xp_unknown_evidence_count x) @
      '' distinct_failure_domains='' @ id_str (xp_distinct_failure_domains x) @ newline @
      (if xp_ranked x \<noteq> []
       then ''ranking:'' @ newline @ concat (map Render_ranked (xp_ranked x)) else []) @
      (if xp_exclusions x \<noteq> []
       then ''exclusions:'' @ newline @ concat (map Render_exclusion (xp_exclusions x)) else []) @
      (if xp_degradations x \<noteq> []
       then ''degradations:'' @
            concat (map (\<lambda>flag. '' '' @ DegradationFlagName flag) (xp_degradations x)) @ newline
       else []) @
      (if xp_binding x \<noteq> []
       then ''binding:'' @ newline @ concat (map Render_binding (xp_binding x)) else []) @
      (if xp_truncated x then ''explanation_truncated: true'' @ newline else []) @
      concat (map (\<lambda>note. ''note: '' @ note @ newline) (xp_notes x)))"

end
