(* ===== verification/Flow_Validate.thy ===== *)
theory Flow_Validate
  imports Flow_Explain
begin

text \<open>
  Structural validation (\<^verbatim>\<open>src/validate.cpp\<close>). Every function returns the status the source
  returns, message included; a chain of early returns is a chain of conditionals, and a loop that
  returns from its body is \<open>first_error\<close>. The validator of the whole request is then shown to accept
  exactly the requests that satisfy the declarative predicate \<open>wf_request\<close>.
\<close>

section \<open>Helpers of the validator\<close>

definition CountMessage :: "string \<Rightarrow> nat \<Rightarrow> u64 \<Rightarrow> string" where
  "CountMessage what n limit = what @ '' count '' @ to_string n @ '' exceeds limit '' @ id_str limit"

text \<open>\<^verbatim>\<open>SortedUniqueCopy\<close> returns the copy and the \<^verbatim>\<open>had_duplicates\<close> flag.\<close>

definition SortedUniqueCopy :: "'a::linorder list \<Rightarrow> 'a list \<times> bool" where
  "SortedUniqueCopy input =
     (let copy = sort input in (remdups_adj copy, adjacent_find copy))"

definition Contains :: "'a::linorder list \<Rightarrow> 'a \<Rightarrow> bool" where
  "Contains xs v = binary_search xs v"

text \<open>The two-finger walk of \<^verbatim>\<open>Intersects\<close>: the lists are what remains at the two indices.\<close>

fun Intersects :: "'a::linorder list \<Rightarrow> 'a list \<Rightarrow> bool" where
  "Intersects (a # as) (b # bs) =
     (if a = b then True
      else if a < b then Intersects as (b # bs) else Intersects (a # as) bs)"
| "Intersects _ _ = False"

definition IdListToString :: "PolicyLabelId list \<Rightarrow> string" where
  "IdListToString ids = join_comma ids"

fun first_error :: "('a \<Rightarrow> Status) \<Rightarrow> 'a list \<Rightarrow> Status" where
  "first_error f [] = Status_Ok"
| "first_error f (x # xs) = (let s = f x in if Status_ok s then first_error f xs else s)"

definition and_then :: "Status \<Rightarrow> Status \<Rightarrow> Status" where
  "and_then s k = (if \<not> Status_ok s then s else k)"

section \<open>Enumerations\<close>

definition bad_objective :: "Objective \<Rightarrow> bool" where
  "bad_objective b \<longleftrightarrow> \<not> ObjectiveKind_value (ob_kind b) \<le> 8 \<or> \<not> Direction_value (ob_direction b) \<le> 1"

definition ValidateEnumerations :: "PlacementRequest \<Rightarrow> Status" where
  "ValidateEnumerations request =
     (if \<not> ServiceClass_value (qos_service_class (rq_qos request)) \<le> 3
      then mk_Status kInvalidFieldValue ''qos service class is out of range''
      else if \<not> PriorityClass_value (qos_priority (rq_qos request)) \<le> 3
      then mk_Status kInvalidFieldValue ''qos priority class is out of range''
      else if \<not> unat (sp_max_relaxation_steps (pp_service (rq_policy request))) \<le> 2
      then mk_Status kInvalidFieldValue ''policy service relaxation is out of range''
      else if \<not> GateAction_value (ag_on_below (pp_admission (rq_policy request))) \<le> 1 \<or>
              \<not> ChurnAction_value (ch_on_move (pp_churn (rq_policy request))) \<le> 1 \<or>
              \<not> EvidencePolicyMode_value (ep_on_missing (pp_evidence (rq_policy request))) \<le> 1 \<or>
              \<not> EvidencePolicyMode_value (ep_on_stale (pp_evidence (rq_policy request))) \<le> 1
      then mk_Status kInvalidFieldValue ''policy mode field is out of range''
      else and_then
        (first_error (\<lambda>objective.
           if bad_objective objective
           then mk_Status kInvalidFieldValue ''policy objective is out of range''
           else Status_Ok) (pp_objectives (rq_policy request)))
        (and_then
          (first_error (\<lambda>tier.
             if \<not> PathTier_value tier \<le> 2
             then mk_Status kInvalidFieldValue ''policy allowed tier is out of range''
             else Status_Ok) (pp_allowed_tiers (rq_policy request)))
          (first_error (\<lambda>path.
             if \<not> PathTier_value (pa_tier (cp_attributes path)) \<le> 2 \<or>
                \<not> LocalityScope_value (pa_locality_scope (cp_attributes path)) \<le> 4
             then mk_Status kInvalidFieldValue
                    (''candidate path '' @ id_str (cp_id path) @ '' has an out-of-range attribute'')
             else Status_Ok) (cs_paths (rq_candidates request)))))"

section \<open>Identities and generations\<close>

definition incumbent_complete :: "IncumbentPlacement \<Rightarrow> bool" where
  "incumbent_complete inc \<longleftrightarrow>
     valid_id (inc_id inc) \<and> valid_id (inc_generation inc) \<and> valid_id (inc_path inc) \<and>
     valid_id (inc_path_authority inc) \<and> valid_id (inc_candidate_set_generation inc) \<and>
     valid_id (inc_capacity_generation inc) \<and> valid_id (inc_policy_generation inc) \<and>
     valid_id (inc_qos_generation inc) \<and> valid_id (inc_fabric_epoch inc)"

definition ValidateIncumbent :: "IncumbentPlacement option \<Rightarrow> Status" where
  "ValidateIncumbent incumbent =
     (case incumbent of
        None \<Rightarrow> Status_Ok
      | Some inc \<Rightarrow>
          if \<not> incumbent_complete inc
          then mk_Status kInvalidFieldValue
                 ''incumbent placement is missing a required identity or generation''
          else if valid_id (rr_id (inc_reservation inc)) \<noteq> valid_id (rr_generation (inc_reservation inc))
          then mk_Status kInconsistentAuthorityGeneration
                 ''incumbent reservation must carry both an id and a generation, or neither''
          else Status_Ok)"

definition ValidateGenerations :: "PlacementRequest \<Rightarrow> Status" where
  "ValidateGenerations request =
     (if \<not> valid_id (rq_flow request)
      then mk_Status kInvalidId ''flow id must be non-zero''
      else if \<not> valid_id (rq_flow_generation request)
      then mk_Status kInvalidFieldValue ''flow generation must be non-zero''
      else if \<not> valid_id (cs_id (rq_candidates request))
      then mk_Status kInvalidId ''candidate set id must be non-zero''
      else if \<not> valid_id (cs_generation (rq_candidates request))
      then mk_Status kInvalidFieldValue ''candidate set generation must be non-zero''
      else if \<not> valid_id (cap_id (rq_capacity request))
      then mk_Status kInvalidId ''capacity snapshot id must be non-zero''
      else if \<not> valid_id (cap_generation (rq_capacity request))
      then mk_Status kInvalidFieldValue ''capacity snapshot generation must be non-zero''
      else if \<not> valid_id (qos_id (rq_qos request))
      then mk_Status kInvalidId ''qos profile id must be non-zero''
      else if \<not> valid_id (qos_generation (rq_qos request))
      then mk_Status kInvalidFieldValue ''qos generation must be non-zero''
      else if \<not> valid_id (pp_id (rq_policy request))
      then mk_Status kInvalidId ''policy id must be non-zero''
      else if \<not> valid_id (pp_generation (rq_policy request))
      then mk_Status kInvalidFieldValue ''policy generation must be non-zero''
      else if \<not> valid_id (ex_path_authority (rq_expected request))
      then mk_Status kMissingField ''expected path authority generation must be declared (non-zero)''
      else if \<not> valid_id (ex_candidate_set (rq_expected request)) \<or>
              \<not> valid_id (ex_capacity (rq_expected request)) \<or>
              \<not> valid_id (ex_policy (rq_expected request)) \<or>
              \<not> valid_id (ex_qos (rq_expected request)) \<or>
              \<not> valid_id (ex_fabric_epoch (rq_expected request))
      then mk_Status kMissingField
             (''expected candidate set, capacity, policy, qos, and fabric epoch generations '' @
              ''must all be declared (non-zero)'')
      else if valid_id (ev_id (rq_evidence request)) \<noteq> valid_id (ev_generation (rq_evidence request))
      then mk_Status kInconsistentAuthorityGeneration
             ''evidence bundle must carry both an id and a generation, or neither''
      else ValidateIncumbent (rq_incumbent request))"

section \<open>Bounds\<close>

text \<open>\<^verbatim>\<open>v.size() > limit\<close> compares the 64-bit size with the 64-bit limit.\<close>

definition exceeds :: "'a list \<Rightarrow> u64 \<Rightarrow> bool" where
  "exceeds xs limit \<longleftrightarrow> length xs > unat limit"

definition ValidateBounds :: "PlacementRequest \<Rightarrow> Limits \<Rightarrow> Status" where
  "ValidateBounds request limits =
     (if exceeds (cs_paths (rq_candidates request)) (max_candidate_paths limits)
      then mk_Status kOversizeRequest
             (CountMessage ''candidate path'' (length (cs_paths (rq_candidates request)))
                (max_candidate_paths limits))
      else if exceeds (cap_entries (rq_capacity request)) (max_capacity_entries limits)
      then mk_Status kOversizeRequest
             (CountMessage ''capacity entry'' (length (cap_entries (rq_capacity request)))
                (max_capacity_entries limits))
      else if exceeds (ev_entries (rq_evidence request)) (max_evidence_entries limits)
      then mk_Status kOversizeRequest
             (CountMessage ''evidence entry'' (length (ev_entries (rq_evidence request)))
                (max_evidence_entries limits))
      else if exceeds (rq_occupied_failure_domains request) (max_occupied_failure_domains limits)
      then mk_Status kOversizeRequest
             (CountMessage ''occupied failure domain'' (length (rq_occupied_failure_domains request))
                (max_occupied_failure_domains limits))
      else if pp_objectives (rq_policy request) = []
      then mk_Status kMissingField
             (''policy must declare at least one ranking objective; the engine applies no '' @
              ''implicit objective order'')
      else if exceeds (pp_objectives (rq_policy request)) (max_objectives limits)
      then mk_Status kOversizeRequest
             (CountMessage ''objective'' (length (pp_objectives (rq_policy request)))
                (max_objectives limits))
      else if length (pp_allowed_tiers (rq_policy request)) > 3
      then mk_Status kInvalidFieldValue ''policy lists more tiers than exist''
      else if exceeds (pp_required_labels (rq_policy request)) (max_policy_id_lists limits) \<or>
              exceeds (pp_forbidden_labels (rq_policy request)) (max_policy_id_lists limits) \<or>
              exceeds (lc_forbidden_localities (pp_locality (rq_policy request))) (max_policy_id_lists limits) \<or>
              exceeds (fd_forbidden_domains (pp_failure_domains (rq_policy request))) (max_policy_id_lists limits)
      then mk_Status kOversizeRequest
             ''policy id list exceeds the configured limit (see Limits::max_policy_id_lists)''
      else if exceeds (ra_refs (pp_reservation_affinity (rq_policy request))) (max_affinity_refs limits)
      then mk_Status kOversizeRequest
             (CountMessage ''reservation affinity ref''
                (length (ra_refs (pp_reservation_affinity (rq_policy request))))
                (max_affinity_refs limits))
      else if length (pv_producer (rq_provenance request)) > kMaxProvenanceFieldLength \<or>
              length (pv_producer_version (rq_provenance request)) > kMaxProvenanceFieldLength
      then mk_Status kOversizeRequest ''provenance field exceeds kMaxProvenanceFieldLength''
      else Status_Ok)"

section \<open>Candidates\<close>

definition ValidateCandidate :: "Limits \<Rightarrow> CandidatePath \<Rightarrow> Status" where
  "ValidateCandidate limits path =
     (let (labels, duplicate) = SortedUniqueCopy (pa_labels (cp_attributes path));
          reservations = sort (pa_reservations (cp_attributes path)) in
      if \<not> valid_id (cp_id path)
      then mk_Status kInvalidId ''candidate path id must be non-zero''
      else if \<not> valid_id (cp_authority path)
      then mk_Status kInconsistentAuthorityGeneration
             (''candidate path '' @ id_str (cp_id path) @ '' has an unset path authority generation'')
      else if exceeds (pa_labels (cp_attributes path)) (max_path_labels limits)
      then mk_Status kOversizeRequest
             (CountMessage ''path label'' (length (pa_labels (cp_attributes path))) (max_path_labels limits))
      else if exceeds (pa_reservations (cp_attributes path)) (max_path_reservations limits)
      then mk_Status kOversizeRequest
             (CountMessage ''path reservation'' (length (pa_reservations (cp_attributes path)))
                (max_path_reservations limits))
      else if duplicate
      then mk_Status kInvalidFieldValue
             (''candidate path '' @ id_str (cp_id path) @ '' lists a duplicate label'')
      else if adjacent_find reservations
      then mk_Status kInvalidFieldValue
             (''candidate path '' @ id_str (cp_id path) @ '' lists a duplicate reservation reference'')
      else first_error (\<lambda>ref.
             if \<not> ReservationRef_valid ref
             then mk_Status kInconsistentAuthorityGeneration
                    (''candidate path '' @ id_str (cp_id path) @
                     '' carries a reservation reference without an id or generation'')
             else Status_Ok) reservations)"

text \<open>
  The duplicate scan over the sorted copy. \<^verbatim>\<open>std::sort\<close> may order paths of equal id either way;
  the model sorts stably, so the choice between the two rejections of a duplicated id is the one of
  the supplied order. That the scan accepts does not depend on it.
\<close>

fun candidate_duplicate_scan :: "CandidatePath list \<Rightarrow> Status" where
  "candidate_duplicate_scan (a # b # rest) =
     (if cp_id b = cp_id a
      then if cp_authority b \<noteq> cp_authority a
           then mk_Status kInconsistentAuthorityGeneration
                  (''candidate path '' @ id_str (cp_id b) @
                   '' appears with two different path authority generations'')
           else mk_Status kDuplicatePathId
                  (''candidate path '' @ id_str (cp_id b) @ '' appears more than once'')
      else candidate_duplicate_scan (b # rest))"
| "candidate_duplicate_scan _ = Status_Ok"

definition ValidateCandidates :: "PlacementRequest \<Rightarrow> Limits \<Rightarrow> Status" where
  "ValidateCandidates request limits =
     and_then (first_error (ValidateCandidate limits) (cs_paths (rq_candidates request)))
       (candidate_duplicate_scan (sort_key cp_id (cs_paths (rq_candidates request))))"

section \<open>Capacity and evidence\<close>

text \<open>The first argument is the path of the previous entry, \<open>None\<close> at index 0.\<close>

fun capacity_scan :: "PathId option \<Rightarrow> PathCapacity list \<Rightarrow> Status" where
  "capacity_scan prev [] = Status_Ok"
| "capacity_scan prev (e # es) =
     (if \<not> valid_id (pc_path e)
      then mk_Status kInvalidId ''capacity entry path id must be non-zero''
      else if pc_residual_bytes e > pc_capacity_bytes e
      then mk_Status kInvalidFieldValue
             (''capacity entry for path '' @ id_str (pc_path e) @
              '' reports residual capacity above total capacity'')
      else if prev = Some (pc_path e)
      then mk_Status kDuplicatePathId
             (''capacity snapshot lists path '' @ id_str (pc_path e) @ '' more than once'')
      else capacity_scan (Some (pc_path e)) es)"

fun evidence_scan :: "PathId option \<Rightarrow> CongestionEvidenceEntry list \<Rightarrow> Status" where
  "evidence_scan prev [] = Status_Ok"
| "evidence_scan prev (e # es) =
     (if \<not> valid_id (ce_path e)
      then mk_Status kInvalidId ''evidence entry path id must be non-zero''
      else if ce_utilization_ppb e > 1000000000
      then mk_Status kInvalidFieldValue
             (''evidence entry for path '' @ id_str (ce_path e) @ '' reports utilization above 1e9 ppb'')
      else if prev = Some (ce_path e)
      then mk_Status kDuplicatePathId
             (''evidence bundle lists path '' @ id_str (ce_path e) @ '' more than once'')
      else evidence_scan (Some (ce_path e)) es)"

definition ValidateCapacityAndEvidence :: "PlacementRequest \<Rightarrow> Status" where
  "ValidateCapacityAndEvidence request =
     and_then (capacity_scan None (sort_key pc_path (cap_entries (rq_capacity request))))
       (evidence_scan None (sort_key ce_path (ev_entries (rq_evidence request))))"

section \<open>Policy\<close>

definition ValidatePolicyLabels :: "PlacementPolicy \<Rightarrow> Status" where
  "ValidatePolicyLabels policy =
     (let (required, required_duplicate) = SortedUniqueCopy (pp_required_labels policy);
          (forbidden, forbidden_duplicate) = SortedUniqueCopy (pp_forbidden_labels policy) in
      if adjacent_find (sort (map ob_kind (pp_objectives policy)))
      then mk_Status kInvalidFieldValue ''policy lists the same objective kind more than once''
      else if required_duplicate
      then mk_Status kInvalidFieldValue ''policy repeats a required label''
      else if forbidden_duplicate
      then mk_Status kInvalidFieldValue ''policy repeats a forbidden label''
      else if Intersects required forbidden
      then mk_Status kContradictoryConstraints
             (''policy requires and forbids the same label(s): '' @ IdListToString required)
      else Status_Ok)"

definition requires_forbidden :: "u64 option \<Rightarrow> u64 list \<Rightarrow> bool" where
  "requires_forbidden required xs =
     (case required of None \<Rightarrow> False | Some x \<Rightarrow> Contains xs x)"

definition ValidatePolicyLocations :: "PlacementPolicy \<Rightarrow> Status" where
  "ValidatePolicyLocations policy =
     (let (localities, locality_duplicate) = SortedUniqueCopy (lc_forbidden_localities (pp_locality policy));
          (domains, domain_duplicate) = SortedUniqueCopy (fd_forbidden_domains (pp_failure_domains policy));
          required_locality = lc_required_locality (pp_locality policy);
          required_domain = fd_required_domain (pp_failure_domains policy) in
      if locality_duplicate
      then mk_Status kInvalidFieldValue ''policy repeats a forbidden locality''
      else if requires_forbidden required_locality localities
      then mk_Status kContradictoryConstraints
             (''policy requires locality '' @ id_str (the required_locality) @ '' and also forbids it'')
      else if domain_duplicate
      then mk_Status kInvalidFieldValue ''policy repeats a forbidden failure domain''
      else if requires_forbidden required_domain domains
      then mk_Status kContradictoryConstraints
             (''policy requires failure domain '' @ id_str (the required_domain) @ '' and also forbids it'')
      else Status_Ok)"

definition ValidatePolicyAffinity :: "PlacementPolicy \<Rightarrow> Status" where
  "ValidatePolicyAffinity policy =
     (if ra_required (pp_reservation_affinity policy) \<and> ra_refs (pp_reservation_affinity policy) = []
      then mk_Status kContradictoryConstraints
             ''policy requires reservation affinity but lists no reservation reference''
      else first_error (\<lambda>ref.
             if \<not> ReservationRef_valid ref
             then mk_Status kInconsistentAuthorityGeneration
                    ''policy reservation affinity reference is missing an id or generation''
             else Status_Ok) (ra_refs (pp_reservation_affinity policy)))"

definition ValidatePolicyModes :: "PlacementPolicy \<Rightarrow> Status" where
  "ValidatePolicyModes policy =
     (if unat (ch_threshold_objective_index (pp_churn policy)) \<ge> length (pp_objectives policy)
      then mk_Status kInvalidFieldValue
             ''policy churn threshold objective index is outside the objective list''
      else if sp_max_relaxation_steps (pp_service policy) > 2
      then mk_Status kInvalidFieldValue ''policy service relaxation allows at most 2 steps''
      else if \<not> sp_allow_degraded (pp_service policy) \<and> sp_max_relaxation_steps (pp_service policy) \<noteq> 0
      then mk_Status kInvalidFieldValue
             ''policy allows relaxation steps without allowing degraded service''
      else if ch_on_move (pp_churn policy) = ChurnAction.kDefer \<and> \<not> ch_prefer_incumbent (pp_churn policy)
      then mk_Status kInvalidFieldValue
             ''policy defers moves without preferring the incumbent; the rule would be inert''
      else if length (pp_allowed_tiers policy) > 1 \<and> adjacent_find (sort (pp_allowed_tiers policy))
      then mk_Status kInvalidFieldValue ''policy repeats an allowed tier''
      else Status_Ok)"

definition candidate_domains :: "CandidatePath list \<Rightarrow> FailureDomainId list" where
  "candidate_domains paths =
     remdups_adj (sort (filter valid_id (map (\<lambda>p. pa_failure_domain (cp_attributes p)) paths)))"

definition ValidatePolicyFeasible :: "PlacementRequest \<Rightarrow> Status" where
  "ValidatePolicyFeasible request =
     (let qos = rq_qos request;
          min_domains = fd_min_distinct_domains (pp_failure_domains (rq_policy request));
          domains = candidate_domains (cs_paths (rq_candidates request)) in
      if CheckedMul (qos_required_residual_bytes qos) (ServiceHeadroomMultiplier (qos_service_class qos)) = None
      then mk_Status kArithmeticOverflow
             ''service-class headroom requirement overflows 64-bit capacity arithmetic''
      else if min_domains \<noteq> 0 \<and> unat min_domains > length domains
      then mk_Status kContradictoryConstraints
             (''policy requires at least '' @ to_string (unat min_domains) @
              '' distinct failure domains but the candidate set spans only '' @ to_string (length domains))
      else Status_Ok)"

definition ValidatePolicy :: "PlacementRequest \<Rightarrow> Status" where
  "ValidatePolicy request =
     (let policy = rq_policy request in
      and_then (ValidatePolicyLabels policy)
        (and_then (ValidatePolicyLocations policy)
          (and_then (ValidatePolicyAffinity policy)
            (and_then (ValidatePolicyModes policy) (ValidatePolicyFeasible request)))))"

definition ValidateRequest :: "PlacementRequest \<Rightarrow> Limits \<Rightarrow> Status" where
  "ValidateRequest request limits =
     and_then (ValidateEnumerations request)
       (and_then (ValidateGenerations request)
         (and_then (ValidateBounds request limits)
           (and_then (ValidateCandidates request limits)
             (and_then (ValidateCapacityAndEvidence request) (ValidatePolicy request)))))"

section \<open>What a valid request is\<close>

definition wf_enums :: "PlacementRequest \<Rightarrow> bool" where
  "wf_enums r \<longleftrightarrow>
     ServiceClass_value (qos_service_class (rq_qos r)) < 4 \<and>
     PriorityClass_value (qos_priority (rq_qos r)) < 4 \<and>
     GateAction_value (ag_on_below (pp_admission (rq_policy r))) < 2 \<and>
     ChurnAction_value (ch_on_move (pp_churn (rq_policy r))) < 2 \<and>
     EvidencePolicyMode_value (ep_on_missing (pp_evidence (rq_policy r))) < 2 \<and>
     EvidencePolicyMode_value (ep_on_stale (pp_evidence (rq_policy r))) < 2 \<and>
     (\<forall>b \<in> set (pp_objectives (rq_policy r)).
        ObjectiveKind_value (ob_kind b) < 9 \<and> Direction_value (ob_direction b) < 2) \<and>
     (\<forall>t \<in> set (pp_allowed_tiers (rq_policy r)). PathTier_value t < 3) \<and>
     (\<forall>p \<in> set (cs_paths (rq_candidates r)).
        PathTier_value (pa_tier (cp_attributes p)) < 3 \<and>
        LocalityScope_value (pa_locality_scope (cp_attributes p)) < 5)"

definition wf_ids :: "PlacementRequest \<Rightarrow> bool" where
  "wf_ids r \<longleftrightarrow>
     0 \<notin> {rq_flow r, rq_flow_generation r, cs_id (rq_candidates r), cs_generation (rq_candidates r),
           cap_id (rq_capacity r), cap_generation (rq_capacity r), qos_id (rq_qos r),
           qos_generation (rq_qos r), pp_id (rq_policy r), pp_generation (rq_policy r)} \<and>
     0 \<notin> {ex_path_authority (rq_expected r), ex_candidate_set (rq_expected r),
           ex_capacity (rq_expected r), ex_policy (rq_expected r), ex_qos (rq_expected r),
           ex_fabric_epoch (rq_expected r)} \<and>
     (ev_id (rq_evidence r) = 0 \<longleftrightarrow> ev_generation (rq_evidence r) = 0) \<and>
     (case rq_incumbent r of
        None \<Rightarrow> True
      | Some inc \<Rightarrow> incumbent_complete inc \<and>
          (rr_id (inc_reservation inc) = 0 \<longleftrightarrow> rr_generation (inc_reservation inc) = 0))"

definition wf_bounds :: "PlacementRequest \<Rightarrow> Limits \<Rightarrow> bool" where
  "wf_bounds r limits \<longleftrightarrow>
     length (cs_paths (rq_candidates r)) \<le> unat (max_candidate_paths limits) \<and>
     length (cap_entries (rq_capacity r)) \<le> unat (max_capacity_entries limits) \<and>
     length (ev_entries (rq_evidence r)) \<le> unat (max_evidence_entries limits) \<and>
     length (rq_occupied_failure_domains r) \<le> unat (max_occupied_failure_domains limits) \<and>
     pp_objectives (rq_policy r) \<noteq> [] \<and>
     length (pp_objectives (rq_policy r)) \<le> unat (max_objectives limits) \<and>
     length (pp_allowed_tiers (rq_policy r)) \<le> 3 \<and>
     length (pp_required_labels (rq_policy r)) \<le> unat (max_policy_id_lists limits) \<and>
     length (pp_forbidden_labels (rq_policy r)) \<le> unat (max_policy_id_lists limits) \<and>
     length (lc_forbidden_localities (pp_locality (rq_policy r))) \<le> unat (max_policy_id_lists limits) \<and>
     length (fd_forbidden_domains (pp_failure_domains (rq_policy r))) \<le> unat (max_policy_id_lists limits) \<and>
     length (ra_refs (pp_reservation_affinity (rq_policy r))) \<le> unat (max_affinity_refs limits) \<and>
     length (pv_producer (rq_provenance r)) \<le> 128 \<and>
     length (pv_producer_version (rq_provenance r)) \<le> 128"

definition wf_candidate :: "Limits \<Rightarrow> CandidatePath \<Rightarrow> bool" where
  "wf_candidate limits p \<longleftrightarrow>
     cp_id p \<noteq> 0 \<and> cp_authority p \<noteq> 0 \<and>
     length (pa_labels (cp_attributes p)) \<le> unat (max_path_labels limits) \<and>
     length (pa_reservations (cp_attributes p)) \<le> unat (max_path_reservations limits) \<and>
     distinct (pa_labels (cp_attributes p)) \<and> distinct (pa_reservations (cp_attributes p)) \<and>
     (\<forall>ref \<in> set (pa_reservations (cp_attributes p)). ReservationRef_valid ref)"

definition wf_facts :: "PlacementRequest \<Rightarrow> Limits \<Rightarrow> bool" where
  "wf_facts r limits \<longleftrightarrow>
     (\<forall>p \<in> set (cs_paths (rq_candidates r)). wf_candidate limits p) \<and>
     distinct (map cp_id (cs_paths (rq_candidates r))) \<and>
     (\<forall>e \<in> set (cap_entries (rq_capacity r)).
        pc_path e \<noteq> 0 \<and> pc_residual_bytes e \<le> pc_capacity_bytes e) \<and>
     distinct (map pc_path (cap_entries (rq_capacity r))) \<and>
     (\<forall>e \<in> set (ev_entries (rq_evidence r)).
        ce_path e \<noteq> 0 \<and> ce_utilization_ppb e \<le> 1000000000) \<and>
     distinct (map ce_path (ev_entries (rq_evidence r)))"

definition wf_policy :: "PlacementPolicy \<Rightarrow> bool" where
  "wf_policy p \<longleftrightarrow>
     distinct (map ob_kind (pp_objectives p)) \<and>
     distinct (pp_required_labels p) \<and> distinct (pp_forbidden_labels p) \<and>
     set (pp_required_labels p) \<inter> set (pp_forbidden_labels p) = {} \<and>
     distinct (lc_forbidden_localities (pp_locality p)) \<and>
     set_option (lc_required_locality (pp_locality p)) \<inter> set (lc_forbidden_localities (pp_locality p)) = {} \<and>
     distinct (fd_forbidden_domains (pp_failure_domains p)) \<and>
     set_option (fd_required_domain (pp_failure_domains p)) \<inter> set (fd_forbidden_domains (pp_failure_domains p)) = {} \<and>
     (ra_required (pp_reservation_affinity p) \<longrightarrow> ra_refs (pp_reservation_affinity p) \<noteq> []) \<and>
     (\<forall>ref \<in> set (ra_refs (pp_reservation_affinity p)). ReservationRef_valid ref) \<and>
     unat (ch_threshold_objective_index (pp_churn p)) < length (pp_objectives p) \<and>
     sp_max_relaxation_steps (pp_service p) \<le> (if sp_allow_degraded (pp_service p) then 2 else 0) \<and>
     (ch_on_move (pp_churn p) = ChurnAction.kDefer \<longrightarrow> ch_prefer_incumbent (pp_churn p)) \<and>
     distinct (pp_allowed_tiers p)"

definition wf_feasible :: "PlacementRequest \<Rightarrow> bool" where
  "wf_feasible r \<longleftrightarrow>
     unat (qos_required_residual_bytes (rq_qos r)) *
       unat (ServiceHeadroomMultiplier (qos_service_class (rq_qos r))) < 2 ^ 64 \<and>
     unat (fd_min_distinct_domains (pp_failure_domains (rq_policy r))) \<le>
       card ((\<lambda>p. pa_failure_domain (cp_attributes p)) ` set (cs_paths (rq_candidates r)) - {0})"

definition wf_request :: "PlacementRequest \<Rightarrow> Limits \<Rightarrow> bool" where
  "wf_request r limits \<longleftrightarrow>
     wf_enums r \<and> wf_ids r \<and> wf_bounds r limits \<and> wf_facts r limits \<and> wf_policy (rq_policy r) \<and> wf_feasible r"

section \<open>The validator accepts exactly the well-formed requests\<close>

lemma Status_ok_if [simp]: "Status_ok (if b then s else t) \<longleftrightarrow> (if b then Status_ok s else Status_ok t)"
  by simp

lemma Status_ok_and_then [simp]: "Status_ok (and_then s k) \<longleftrightarrow> Status_ok s \<and> Status_ok k"
  by (simp add: and_then_def)

lemma Status_ok_first_error [simp]: "Status_ok (first_error f xs) \<longleftrightarrow> (\<forall>x \<in> set xs. Status_ok (f x))"
  by (induction xs) (auto simp: Let_def)

lemma Intersects_sorted:
  assumes "sorted xs" "sorted ys"
  shows "Intersects xs ys \<longleftrightarrow> set xs \<inter> set ys \<noteq> {}"
  using assms by (induction xs ys rule: Intersects.induct) auto

lemma candidate_duplicate_scan_ok:
  "sorted (map cp_id ps) \<Longrightarrow> Status_ok (candidate_duplicate_scan ps) \<longleftrightarrow> distinct (map cp_id ps)"
  by (induction ps rule: candidate_duplicate_scan.induct) auto

lemma capacity_scan_ok:
  "sorted (map pc_path es) \<Longrightarrow> (\<And>p. prev = Some p \<Longrightarrow> \<forall>e \<in> set es. p \<le> pc_path e) \<Longrightarrow>
   Status_ok (capacity_scan prev es) \<longleftrightarrow>
     (\<forall>e \<in> set es. pc_path e \<noteq> 0 \<and> pc_residual_bytes e \<le> pc_capacity_bytes e) \<and>
     distinct (map pc_path es) \<and> (\<forall>e \<in> set es. prev \<noteq> Some (pc_path e))"
  by (induction prev es rule: capacity_scan.induct) (auto simp: valid_id_def not_le)

lemma evidence_scan_ok:
  "sorted (map ce_path es) \<Longrightarrow> (\<And>p. prev = Some p \<Longrightarrow> \<forall>e \<in> set es. p \<le> ce_path e) \<Longrightarrow>
   Status_ok (evidence_scan prev es) \<longleftrightarrow>
     (\<forall>e \<in> set es. ce_path e \<noteq> 0 \<and> ce_utilization_ppb e \<le> 1000000000) \<and>
     distinct (map ce_path es) \<and> (\<forall>e \<in> set es. prev \<noteq> Some (ce_path e))"
  by (induction prev es rule: evidence_scan.induct) (auto simp: valid_id_def not_le)

lemma SortedUniqueCopy_eq [simp]: "SortedUniqueCopy xs = (sorted_list_of_set (set xs), \<not> distinct xs)"
  by (simp add: SortedUniqueCopy_def remdups_adj_sort Let_def)

lemma Contains_eq [simp]: "sorted xs \<Longrightarrow> Contains xs v \<longleftrightarrow> v \<in> set xs"
  by (simp add: Contains_def)

lemma ValidateEnumerations_ok:
  "Status_ok (ValidateEnumerations r) \<longleftrightarrow>
     wf_enums r \<and> sp_max_relaxation_steps (pp_service (rq_policy r)) \<le> 2"
  by (auto simp: ValidateEnumerations_def wf_enums_def bad_objective_def word_le_nat_alt
      simp flip: less_Suc_eq_le)

lemma ValidateGenerations_ok: "Status_ok (ValidateGenerations r) \<longleftrightarrow> wf_ids r"
  by (auto simp: ValidateGenerations_def ValidateIncumbent_def wf_ids_def valid_id_def
      split: option.splits)

lemma ValidateBounds_ok: "Status_ok (ValidateBounds r limits) \<longleftrightarrow> wf_bounds r limits"
  by (auto simp: ValidateBounds_def wf_bounds_def exceeds_def kMaxProvenanceFieldLength_def)

lemma ValidateCandidate_ok: "Status_ok (ValidateCandidate limits p) \<longleftrightarrow> wf_candidate limits p"
  by (auto simp: Let_def ValidateCandidate_def wf_candidate_def exceeds_def valid_id_def)

lemma sort_key_scan: "sorted (map k (sort_key k xs))" "distinct (map k (sort_key k xs)) \<longleftrightarrow> distinct (map k xs)"
  by (simp_all add: distinct_map)

lemma ValidateFacts_ok:
  "Status_ok (and_then (ValidateCandidates r limits) (ValidateCapacityAndEvidence r)) \<longleftrightarrow> wf_facts r limits"
  by (auto simp: ValidateCandidates_def ValidateCapacityAndEvidence_def wf_facts_def
      ValidateCandidate_ok candidate_duplicate_scan_ok capacity_scan_ok [where prev = None, simplified]
      evidence_scan_ok [where prev = None, simplified] sort_key_scan)

lemma ValidatePolicyLabels_ok:
  "Status_ok (ValidatePolicyLabels p) \<longleftrightarrow>
     distinct (map ob_kind (pp_objectives p)) \<and> distinct (pp_required_labels p) \<and>
     distinct (pp_forbidden_labels p) \<and> set (pp_required_labels p) \<inter> set (pp_forbidden_labels p) = {}"
  by (auto simp: Let_def ValidatePolicyLabels_def Intersects_sorted)

lemma ValidatePolicyLocations_ok:
  "Status_ok (ValidatePolicyLocations p) \<longleftrightarrow>
     distinct (lc_forbidden_localities (pp_locality p)) \<and>
     set_option (lc_required_locality (pp_locality p)) \<inter> set (lc_forbidden_localities (pp_locality p)) = {} \<and>
     distinct (fd_forbidden_domains (pp_failure_domains p)) \<and>
     set_option (fd_required_domain (pp_failure_domains p)) \<inter> set (fd_forbidden_domains (pp_failure_domains p)) = {}"
  by (auto simp: Let_def ValidatePolicyLocations_def requires_forbidden_def split: option.splits)

lemma ValidatePolicyAffinity_ok:
  "Status_ok (ValidatePolicyAffinity p) \<longleftrightarrow>
     (ra_required (pp_reservation_affinity p) \<longrightarrow> ra_refs (pp_reservation_affinity p) \<noteq> []) \<and>
     (\<forall>ref \<in> set (ra_refs (pp_reservation_affinity p)). ReservationRef_valid ref)"
  by (auto simp: ValidatePolicyAffinity_def)

lemma distinct_short: "length xs \<le> Suc 0 \<Longrightarrow> distinct xs"
  by (cases xs) auto

lemma ValidatePolicyModes_ok:
  "Status_ok (ValidatePolicyModes p) \<longleftrightarrow>
     unat (ch_threshold_objective_index (pp_churn p)) < length (pp_objectives p) \<and>
     sp_max_relaxation_steps (pp_service p) \<le> (if sp_allow_degraded (pp_service p) then 2 else 0) \<and>
     (ch_on_move (pp_churn p) = ChurnAction.kDefer \<longrightarrow> ch_prefer_incumbent (pp_churn p)) \<and>
     distinct (pp_allowed_tiers p)"
  by (auto simp: ValidatePolicyModes_def not_less not_le intro: distinct_short)

lemma length_candidate_domains:
  "length (candidate_domains ps) = card ((\<lambda>p. pa_failure_domain (cp_attributes p)) ` set ps - {0})"
proof -
  have "set (filter valid_id (map (\<lambda>p. pa_failure_domain (cp_attributes p)) ps)) =
        (\<lambda>p. pa_failure_domain (cp_attributes p)) ` set ps - {0}"
    by (auto simp: valid_id_def)
  then show ?thesis by (simp only: candidate_domains_def remdups_adj_sort) simp
qed

lemma ValidatePolicyFeasible_ok: "Status_ok (ValidatePolicyFeasible r) \<longleftrightarrow> wf_feasible r"
  by (auto simp: ValidatePolicyFeasible_def wf_feasible_def Let_def length_candidate_domains
      CheckedMul_None_iff not_less not_le)

lemma ValidatePolicy_ok: "Status_ok (ValidatePolicy r) \<longleftrightarrow> wf_policy (rq_policy r) \<and> wf_feasible r"
  by (simp add: ValidatePolicy_def Let_def ValidatePolicyLabels_ok ValidatePolicyLocations_ok
      ValidatePolicyAffinity_ok ValidatePolicyModes_ok ValidatePolicyFeasible_ok wf_policy_def)

lemma ValidateRequest_ok_wf: "Status_ok (ValidateRequest r limits) \<longleftrightarrow> wf_request r limits"
proof -
  have "Status_ok (ValidateRequest r limits) \<longleftrightarrow>
     wf_enums r \<and> sp_max_relaxation_steps (pp_service (rq_policy r)) \<le> 2 \<and> wf_ids r \<and>
     wf_bounds r limits \<and> wf_facts r limits \<and> wf_policy (rq_policy r) \<and> wf_feasible r"
    using ValidateFacts_ok [of r limits]
    by (auto simp: ValidateRequest_def ValidateEnumerations_ok ValidateGenerations_ok
        ValidateBounds_ok ValidatePolicy_ok)
  moreover have "wf_policy (rq_policy r) \<Longrightarrow> sp_max_relaxation_steps (pp_service (rq_policy r)) \<le> 2"
    by (auto simp: wf_policy_def split: if_splits)
  ultimately show ?thesis by (auto simp: wf_request_def)
qed

section \<open>The codes the validator rejects with\<close>

definition validation_codes :: "StatusCode set" where
  "validation_codes =
     {kOk, kInvalidFieldValue, kInvalidId, kMissingField, kInconsistentAuthorityGeneration,
      kOversizeRequest, kDuplicatePathId, kContradictoryConstraints, kArithmeticOverflow}"

lemma code_if: "st_code (if b then s else t) \<in> C \<longleftrightarrow> (b \<longrightarrow> st_code s \<in> C) \<and> (\<not> b \<longrightarrow> st_code t \<in> C)"
  by simp

lemma code_and_then: "st_code s \<in> C \<Longrightarrow> st_code k \<in> C \<Longrightarrow> st_code (and_then s k) \<in> C"
  by (simp add: and_then_def)

lemma code_first_error: "kOk \<in> C \<Longrightarrow> (\<And>x. st_code (f x) \<in> C) \<Longrightarrow> st_code (first_error f xs) \<in> C"
  by (induction xs) (simp_all add: Let_def)

lemma code_scans:
  "st_code (candidate_duplicate_scan ps) \<in> validation_codes"
  "st_code (capacity_scan prev cs) \<in> validation_codes"
  "st_code (evidence_scan prev es) \<in> validation_codes"
proof -
  show "st_code (candidate_duplicate_scan ps) \<in> validation_codes"
    by (induction ps rule: candidate_duplicate_scan.induct) (simp_all add: validation_codes_def)
  show "st_code (capacity_scan prev cs) \<in> validation_codes"
    by (induction prev cs rule: capacity_scan.induct) (simp_all add: validation_codes_def)
  show "st_code (evidence_scan prev es) \<in> validation_codes"
    by (induction prev es rule: evidence_scan.induct) (simp_all add: validation_codes_def)
qed

lemma in_validation_codes [simp]:
  "kOk \<in> validation_codes" "kInvalidFieldValue \<in> validation_codes" "kInvalidId \<in> validation_codes"
  "kMissingField \<in> validation_codes" "kInconsistentAuthorityGeneration \<in> validation_codes"
  "kOversizeRequest \<in> validation_codes" "kDuplicatePathId \<in> validation_codes"
  "kContradictoryConstraints \<in> validation_codes" "kArithmeticOverflow \<in> validation_codes"
  by (simp_all add: validation_codes_def)

lemma code_ValidateIncumbent: "st_code (ValidateIncumbent i) \<in> validation_codes"
  by (simp add: ValidateIncumbent_def code_if split: option.split)

lemma code_ValidateCandidate: "st_code (ValidateCandidate limits p) \<in> validation_codes"
  by (simp add: ValidateCandidate_def Let_def code_if code_first_error)

lemma code_ValidatePolicy: "st_code (ValidatePolicy r) \<in> validation_codes"
  by (simp add: ValidatePolicy_def Let_def code_and_then code_if code_first_error
      ValidatePolicyLabels_def ValidatePolicyLocations_def ValidatePolicyAffinity_def
      ValidatePolicyModes_def ValidatePolicyFeasible_def)

lemma ValidateRequest_code: "st_code (ValidateRequest r limits) \<in> validation_codes"
  unfolding ValidateRequest_def
proof (intro code_and_then)
  show "st_code (ValidateEnumerations r) \<in> validation_codes"
    by (simp add: ValidateEnumerations_def code_if code_and_then code_first_error)
  show "st_code (ValidateGenerations r) \<in> validation_codes"
    by (simp add: ValidateGenerations_def code_if code_ValidateIncumbent)
  show "st_code (ValidateBounds r limits) \<in> validation_codes"
    by (simp add: ValidateBounds_def code_if)
  show "st_code (ValidateCandidates r limits) \<in> validation_codes"
    by (simp add: ValidateCandidates_def code_and_then code_first_error code_ValidateCandidate code_scans)
  show "st_code (ValidateCapacityAndEvidence r) \<in> validation_codes"
    by (simp add: ValidateCapacityAndEvidence_def code_and_then code_scans)
  show "st_code (ValidatePolicy r) \<in> validation_codes"
    by (rule code_ValidatePolicy)
qed

section \<open>Validity does not depend on the order of the supplied facts\<close>

lemma distinct_map_mset_cong: "mset xs = mset ys \<Longrightarrow> distinct (map f xs) \<longleftrightarrow> distinct (map f ys)"
  by (metis mset_eq_imp_distinct_iff mset_map)

lemma wf_policy_same_facts:
  assumes "same_policy_facts p q" shows "wf_policy q \<longleftrightarrow> wf_policy p"
proof -
  from assms obtain tiers rl fl loc dom refs where
    q: "q = p\<lparr>pp_allowed_tiers := tiers, pp_required_labels := rl, pp_forbidden_labels := fl,
               pp_locality := (pp_locality p)\<lparr>lc_forbidden_localities := loc\<rparr>,
               pp_failure_domains := (pp_failure_domains p)\<lparr>fd_forbidden_domains := dom\<rparr>,
               pp_reservation_affinity := (pp_reservation_affinity p)\<lparr>ra_refs := refs\<rparr>\<rparr>"
    and m: "mset (pp_allowed_tiers p) = mset tiers" "mset (pp_required_labels p) = mset rl"
      "mset (pp_forbidden_labels p) = mset fl"
      "mset (lc_forbidden_localities (pp_locality p)) = mset loc"
      "mset (fd_forbidden_domains (pp_failure_domains p)) = mset dom"
      "mset (ra_refs (pp_reservation_affinity p)) = mset refs"
    by (auto simp: same_policy_facts_def)
  have "ra_refs (pp_reservation_affinity p) = [] \<longleftrightarrow> refs = []"
    using m(6) by (metis mset_zero_iff)
  then show ?thesis
    unfolding q wf_policy_def using m [THEN mset_eq_setD] m [THEN mset_eq_imp_distinct_iff] by simp
qed

lemma wf_request_same_facts:
  assumes "same_facts r s" shows "wf_request s limits \<longleftrightarrow> wf_request r limits"
proof -
  from assms obtain ps cs es os pol where
    s: "s = r\<lparr>rq_candidates := (rq_candidates r)\<lparr>cs_paths := ps\<rparr>,
               rq_capacity := (rq_capacity r)\<lparr>cap_entries := cs\<rparr>,
               rq_evidence := (rq_evidence r)\<lparr>ev_entries := es\<rparr>,
               rq_occupied_failure_domains := os, rq_policy := pol\<rparr>"
    and m: "mset (cs_paths (rq_candidates r)) = mset ps" "mset (cap_entries (rq_capacity r)) = mset cs"
      "mset (ev_entries (rq_evidence r)) = mset es" "mset (rq_occupied_failure_domains r) = mset os"
    and pol: "same_policy_facts (rq_policy r) pol"
    by (auto simp: same_facts_def)
  obtain tiers rl fl loc dom refs where
    q: "pol = (rq_policy r)\<lparr>pp_allowed_tiers := tiers, pp_required_labels := rl, pp_forbidden_labels := fl,
               pp_locality := (pp_locality (rq_policy r))\<lparr>lc_forbidden_localities := loc\<rparr>,
               pp_failure_domains := (pp_failure_domains (rq_policy r))\<lparr>fd_forbidden_domains := dom\<rparr>,
               pp_reservation_affinity := (pp_reservation_affinity (rq_policy r))\<lparr>ra_refs := refs\<rparr>\<rparr>"
    and n: "mset (pp_allowed_tiers (rq_policy r)) = mset tiers" "mset (pp_required_labels (rq_policy r)) = mset rl"
      "mset (pp_forbidden_labels (rq_policy r)) = mset fl"
      "mset (lc_forbidden_localities (pp_locality (rq_policy r))) = mset loc"
      "mset (fd_forbidden_domains (pp_failure_domains (rq_policy r))) = mset dom"
      "mset (ra_refs (pp_reservation_affinity (rq_policy r))) = mset refs"
    using pol by (auto simp: same_policy_facts_def)
  note sets = m [THEN mset_eq_setD] n [THEN mset_eq_setD]
  have "wf_enums s \<longleftrightarrow> wf_enums r" unfolding s q wf_enums_def using sets by simp
  moreover have "wf_ids s \<longleftrightarrow> wf_ids r" unfolding s q wf_ids_def by simp
  moreover have "wf_bounds s limits \<longleftrightarrow> wf_bounds r limits"
    unfolding s q wf_bounds_def using m [THEN mset_eq_length] n [THEN mset_eq_length] by simp
  moreover have "wf_facts s limits \<longleftrightarrow> wf_facts r limits"
    unfolding s wf_facts_def
    using sets distinct_map_mset_cong [OF m(1), of cp_id] distinct_map_mset_cong [OF m(2), of pc_path]
      distinct_map_mset_cong [OF m(3), of ce_path]
    by simp
  moreover have "wf_policy (rq_policy s) \<longleftrightarrow> wf_policy (rq_policy r)"
    unfolding s using wf_policy_same_facts [OF pol] by simp
  moreover have "wf_feasible s \<longleftrightarrow> wf_feasible r" unfolding s q wf_feasible_def using sets by simp
  ultimately show ?thesis by (simp add: wf_request_def)
qed

end
