(* ===== verification/Flow_Engine.thy ===== *)
theory Flow_Engine
  imports Flow_Validate
begin

text \<open>
  The deterministic placement engine (\<^verbatim>\<open>src/engine.cpp\<close>): request preparation, the hard
  exclusions of one candidate, rank entries and their order, the exclusion recorder, and \<^verbatim>\<open>Place\<close>
  split into its documented stages, followed by \<^verbatim>\<open>VerifyIntent\<close>. Pointers into the request are
  the pointed-to values; a null pointer is \<open>None\<close>.
\<close>

section \<open>Preparation\<close>

record ServiceRequirement =
  sr_headroom_multiplier :: u64
  sr_reservation_required :: bool

definition RequirementFor :: "ServiceClass \<Rightarrow> ServiceRequirement" where
  "RequirementFor service_class = \<lparr>
     sr_headroom_multiplier = ServiceHeadroomMultiplier service_class,
     sr_reservation_required = ServiceRequiresReservation service_class\<rparr>"

definition SortedUnique :: "PolicyLabelId list \<Rightarrow> PolicyLabelId list" where
  "SortedUnique labels = remdups_adj (sort labels)"

definition ContainsSorted :: "'a::linorder list \<Rightarrow> 'a \<Rightarrow> bool" where
  "ContainsSorted xs v = binary_search xs v"

definition SortPointersById :: "('a \<Rightarrow> u64) \<Rightarrow> 'a list \<Rightarrow> 'a list" where
  "SortPointersById key input = sort_key key input"

definition LookupById :: "('a \<Rightarrow> u64) \<Rightarrow> 'a list \<Rightarrow> u64 \<Rightarrow> 'a option" where
  "LookupById key xs i =
     (let it = lower_bound (\<lambda>item. key item < i) xs in
      if it = length xs \<or> key (xs ! it) \<noteq> i then None else Some (xs ! it))"

record PreparedRequest =
  pr_request :: PlacementRequest
  pr_limits :: Limits
  pr_service :: ServiceRequirement
  pr_evidence_bundle_present :: bool
  pr_evidence_trusted :: bool
  pr_congestion_objective_used :: bool
  pr_incumbent_present :: bool
  pr_incumbent_eligible :: bool
  pr_headroom_requirement_overflow :: bool
  pr_required_base_bytes :: u64
  pr_required_headroom_bytes :: u64
  pr_candidates_by_id :: "CandidatePath list"
  pr_capacity_by_path :: "PathCapacity list"
  pr_evidence_by_path :: "CongestionEvidenceEntry list"
  pr_forbidden_localities :: "LocalityId list"
  pr_forbidden_domains :: "FailureDomainId list"
  pr_occupied_domains :: "FailureDomainId list"
  pr_required_labels :: "PolicyLabelId list"
  pr_forbidden_labels :: "PolicyLabelId list"
  pr_affinity_refs :: "ReservationRef list"
  pr_allowed_tiers :: "PathTier list"

definition IncumbentEligible :: "PlacementRequest \<Rightarrow> CandidatePath list \<Rightarrow> IncumbentPlacement \<Rightarrow> bool" where
  "IncumbentEligible request candidates_by_id inc \<longleftrightarrow>
     inc_path_authority inc = ex_path_authority (rq_expected request) \<and>
     inc_candidate_set_generation inc = ex_candidate_set (rq_expected request) \<and>
     inc_capacity_generation inc = cap_generation (rq_capacity request) \<and>
     inc_policy_generation inc = pp_generation (rq_policy request) \<and>
     inc_qos_generation inc = qos_generation (rq_qos request) \<and>
     inc_fabric_epoch inc = ex_fabric_epoch (rq_expected request) \<and>
     LookupById cp_id candidates_by_id (inc_path inc) \<noteq> None"

definition Prepare :: "PlacementRequest \<Rightarrow> Limits \<Rightarrow> PreparedRequest" where
  "Prepare request limits =
     (let service = RequirementFor (qos_service_class (rq_qos request));
          base = qos_required_residual_bytes (rq_qos request);
          headroom = CheckedMul base (sr_headroom_multiplier service);
          candidates_by_id = SortPointersById cp_id (cs_paths (rq_candidates request));
          evidence_bundle_present = valid_id (ev_generation (rq_evidence request)) in
      \<lparr>pr_request = request,
       pr_limits = limits,
       pr_service = service,
       pr_evidence_bundle_present = evidence_bundle_present,
       pr_evidence_trusted = (evidence_bundle_present \<and> valid_id (ex_evidence (rq_expected request)) \<and>
          ev_generation (rq_evidence request) = ex_evidence (rq_expected request)),
       pr_congestion_objective_used =
          list_ex (\<lambda>objective. ob_kind objective = kCongestionUtilization) (pp_objectives (rq_policy request)),
       pr_incumbent_present = (rq_incumbent request \<noteq> None),
       pr_incumbent_eligible =
          (case rq_incumbent request of
             None \<Rightarrow> False
           | Some inc \<Rightarrow> IncumbentEligible request candidates_by_id inc),
       pr_headroom_requirement_overflow = (headroom = None),
       pr_required_base_bytes = base,
       pr_required_headroom_bytes = (case headroom of Some h \<Rightarrow> h | None \<Rightarrow> base),
       pr_candidates_by_id = candidates_by_id,
       pr_capacity_by_path = SortPointersById pc_path (cap_entries (rq_capacity request)),
       pr_evidence_by_path = SortPointersById ce_path (ev_entries (rq_evidence request)),
       pr_forbidden_localities = sort (lc_forbidden_localities (pp_locality (rq_policy request))),
       pr_forbidden_domains = sort (fd_forbidden_domains (pp_failure_domains (rq_policy request))),
       pr_occupied_domains = remdups_adj (sort (rq_occupied_failure_domains request)),
       pr_required_labels = sort (pp_required_labels (rq_policy request)),
       pr_forbidden_labels = sort (pp_forbidden_labels (rq_policy request)),
       pr_affinity_refs = sort (ra_refs (pp_reservation_affinity (rq_policy request))),
       pr_allowed_tiers = sort (pp_allowed_tiers (rq_policy request))\<rparr>)"

section \<open>Hard exclusions of one candidate\<close>

record CandidateVerdict =
  cv_legal :: bool
  cv_reason :: ExclusionReason
  cv_multiplier_relaxed :: bool
  cv_reservation_relaxed :: bool
  cv_evidence_known :: bool
  cv_evidence_stale :: bool
  cv_required :: u64
  cv_available :: u64

definition default_CandidateVerdict :: CandidateVerdict where
  "default_CandidateVerdict = \<lparr>
     cv_legal = False, cv_reason = kPathAuthorityStale, cv_multiplier_relaxed = False,
     cv_reservation_relaxed = False, cv_evidence_known = False, cv_evidence_stale = False,
     cv_required = 0, cv_available = 0\<rparr>"

text \<open>The loop over a path's reservations that looks for one the policy names.\<close>

definition affinity_matched :: "PreparedRequest \<Rightarrow> CandidatePath \<Rightarrow> bool" where
  "affinity_matched prepared path =
     list_ex (binary_search (pr_affinity_refs prepared)) (pa_reservations (cp_attributes path))"

text \<open>The congestion evidence stage of \<^verbatim>\<open>Evaluate\<close>.\<close>

definition EvaluateEvidence :: "PreparedRequest \<Rightarrow> CandidatePath \<Rightarrow> CandidateVerdict \<Rightarrow> CandidateVerdict" where
  "EvaluateEvidence prepared path verdict =
     (let policy = rq_policy (pr_request prepared);
          entry = LookupById ce_path (pr_evidence_by_path prepared) (cp_id path) in
      if pr_congestion_objective_used prepared then
        if \<not> pr_evidence_trusted prepared then
          if pr_evidence_bundle_present prepared then
            (let verdict = verdict\<lparr>cv_evidence_stale := True\<rparr> in
             if ep_on_stale (pp_evidence policy) = kHardExclude
             then verdict\<lparr>cv_reason := kEvidenceStale\<rparr>
             else verdict\<lparr>cv_legal := True\<rparr>)
          else if ep_on_missing (pp_evidence policy) = kHardExclude
          then verdict\<lparr>cv_reason := kEvidenceMissing\<rparr>
          else verdict\<lparr>cv_legal := True\<rparr>
        else if entry = None then
          if ep_on_missing (pp_evidence policy) = kHardExclude
          then verdict\<lparr>cv_reason := kEvidenceMissing\<rparr>
          else verdict\<lparr>cv_legal := True\<rparr>
        else verdict\<lparr>cv_evidence_known := True, cv_legal := True\<rparr>
      else verdict\<lparr>cv_legal := True\<rparr>)"

text \<open>The capacity, service, affinity and latency stages; \<open>capacity\<close> is the entry found.\<close>

definition EvaluateService ::
  "PreparedRequest \<Rightarrow> CandidatePath \<Rightarrow> PathCapacity \<Rightarrow> CandidateVerdict \<Rightarrow> CandidateVerdict" where
  "EvaluateService prepared path capacity verdict =
     (let request = pr_request prepared;
          policy = rq_policy request;
          residual = pc_residual_bytes capacity;
          degradable = (\<lambda>steps. sp_allow_degraded (pp_service policy) \<and>
                                sp_max_relaxation_steps (pp_service policy) \<ge> steps);
          headroom_short = residual < pr_required_headroom_bytes prepared;
          reservation_short = sr_reservation_required (pr_service prepared) \<and>
                              pa_reservations (cp_attributes path) = [] in
      if residual < pr_required_base_bytes prepared then
        verdict\<lparr>cv_reason := ExclusionReason.kCapacityInsufficient,
                cv_required := pr_required_base_bytes prepared, cv_available := residual\<rparr>
      else
        let verdict = verdict\<lparr>cv_required := pr_required_headroom_bytes prepared, cv_available := residual\<rparr> in
        if headroom_short \<and> \<not> degradable 1 then verdict\<lparr>cv_reason := kServiceHeadroomUnmet\<rparr>
        else
          let verdict = (if headroom_short
                         then verdict\<lparr>cv_multiplier_relaxed := True,
                                      cv_required := pr_required_base_bytes prepared\<rparr>
                         else verdict) in
          if reservation_short \<and> \<not> degradable 2 then verdict\<lparr>cv_reason := kServiceReservationUnmet\<rparr>
          else
            let verdict = (if reservation_short then verdict\<lparr>cv_reservation_relaxed := True\<rparr> else verdict) in
            if ra_required (pp_reservation_affinity policy) \<and> \<not> affinity_matched prepared path
            then verdict\<lparr>cv_reason := kReservationAffinityUnsatisfied\<rparr>
            else if qos_max_latency_nanos (rq_qos request) \<noteq> 0 \<and>
                    pa_latency_nanos (cp_attributes path) > qos_max_latency_nanos (rq_qos request)
            then verdict\<lparr>cv_reason := kLatencyBudgetExceeded,
                         cv_required := qos_max_latency_nanos (rq_qos request),
                         cv_available := pa_latency_nanos (cp_attributes path)\<rparr>
            else EvaluateEvidence prepared path verdict)"

definition Evaluate :: "PreparedRequest \<Rightarrow> CandidatePath \<Rightarrow> CandidateVerdict" where
  "Evaluate prepared path =
     (let request = pr_request prepared;
          policy = rq_policy request;
          verdict = default_CandidateVerdict;
          attributes = cp_attributes path;
          labels = SortedUnique (pa_labels attributes) in
      if cp_authority path \<noteq> ex_path_authority (rq_expected request)
      then verdict\<lparr>cv_reason := kPathAuthorityStale\<rparr>
      else if pr_allowed_tiers prepared \<noteq> [] \<and> \<not> ContainsSorted (pr_allowed_tiers prepared) (pa_tier attributes)
      then verdict\<lparr>cv_reason := kTierNotAllowed\<rparr>
      else if list_ex (ContainsSorted (pr_forbidden_labels prepared)) labels
      then verdict\<lparr>cv_reason := kForbiddenLabel\<rparr>
      else if list_ex (\<lambda>required. \<not> ContainsSorted labels required) (pr_required_labels prepared)
      then verdict\<lparr>cv_reason := kMissingRequiredLabel\<rparr>
      else if valid_id (pa_locality attributes) \<and>
              ContainsSorted (pr_forbidden_localities prepared) (pa_locality attributes)
      then verdict\<lparr>cv_reason := kForbiddenLocality\<rparr>
      else if (case lc_required_locality (pp_locality policy) of
                 None \<Rightarrow> False | Some required \<Rightarrow> pa_locality attributes \<noteq> required)
      then verdict\<lparr>cv_reason := kLocalityMismatch\<rparr>
      else if valid_id (pa_failure_domain attributes) \<and>
              ContainsSorted (pr_forbidden_domains prepared) (pa_failure_domain attributes)
      then verdict\<lparr>cv_reason := kForbiddenFailureDomain\<rparr>
      else if (case fd_required_domain (pp_failure_domains policy) of
                 None \<Rightarrow> False | Some required \<Rightarrow> pa_failure_domain attributes \<noteq> required)
      then verdict\<lparr>cv_reason := kRequiredFailureDomainMismatch\<rparr>
      else if fd_avoid_occupied_domains (pp_failure_domains policy) \<and>
              valid_id (pa_failure_domain attributes) \<and>
              ContainsSorted (pr_occupied_domains prepared) (pa_failure_domain attributes)
      then verdict\<lparr>cv_reason := kFailureDomainOccupied\<rparr>
      else case LookupById pc_path (pr_capacity_by_path prepared) (cp_id path) of
             None \<Rightarrow> verdict\<lparr>cv_reason := kCapacityUnknown\<rparr>
           | Some capacity \<Rightarrow> EvaluateService prepared path capacity verdict)"

section \<open>Rank entries and their order\<close>

definition TierOrdinal :: "PathTier \<Rightarrow> u64" where
  "TierOrdinal tier = word_of_nat (PathTier_value tier)"

record RankEntry =
  re_path :: CandidatePath
  re_capacity :: "PathCapacity option"
  re_evidence_known :: bool
  re_utilization_ppb :: u32
  re_is_incumbent :: bool
  re_multiplier_relaxed :: bool
  re_reservation_relaxed :: bool
  re_has_unknown :: bool
  re_keys :: "ObjectiveValue list"

text \<open>
  The value of one objective for an entry whose other fields are set: \<open>None\<close> where the source clears
  \<^verbatim>\<open>value.known\<close>. An out-of-range kind matches no case and leaves the value 0.
\<close>

definition objective_value :: "PreparedRequest \<Rightarrow> RankEntry \<Rightarrow> ObjectiveKind \<Rightarrow> u64 option" where
  "objective_value prepared entry kind =
     (let path = re_path entry;
          policy = rq_policy (pr_request prepared) in
      case kind of
        ObjectiveKind.kCost \<Rightarrow> Some (pa_cost_micro (cp_attributes path))
      | ObjectiveKind.kLatency \<Rightarrow> Some (pa_latency_nanos (cp_attributes path))
      | ObjectiveKind.kResidualCapacity \<Rightarrow>
          Some (case re_capacity entry of Some c \<Rightarrow> pc_residual_bytes c | None \<Rightarrow> 0)
      | ObjectiveKind.kHopCount \<Rightarrow> Some (ucast (pa_hop_count (cp_attributes path)))
      | ObjectiveKind.kCongestionUtilization \<Rightarrow>
          (if re_evidence_known entry then Some (ucast (re_utilization_ppb entry)) else None)
      | ObjectiveKind.kTier \<Rightarrow> Some (TierOrdinal (pa_tier (cp_attributes path)))
      | ObjectiveKind.kLocalityAffinity \<Rightarrow>
          Some (case lc_preferred_locality (pp_locality policy) of
                  None \<Rightarrow> 0
                | Some preferred \<Rightarrow> if pa_locality (cp_attributes path) \<noteq> preferred then 1 else 0)
      | ObjectiveKind.kReservationAffinity \<Rightarrow>
          Some (if pr_affinity_refs prepared = [] \<or> affinity_matched prepared path then 0 else 1)
      | ObjectiveKind.kIncumbentStability \<Rightarrow>
          Some (if re_is_incumbent entry then 0 else if pr_incumbent_eligible prepared then 1 else 0)
      | ObjectiveKind_raw k \<Rightarrow> Some 0)"

definition objective_key :: "PreparedRequest \<Rightarrow> RankEntry \<Rightarrow> Objective \<Rightarrow> ObjectiveValue" where
  "objective_key prepared entry objective =
     (let v = objective_value prepared entry (ob_kind objective) in
      \<lparr>ov_kind = ob_kind objective, ov_direction = ob_direction objective,
       ov_known = (v \<noteq> None), ov_value = (case v of Some x \<Rightarrow> x | None \<Rightarrow> 0)\<rparr>)"

definition BuildRankEntry :: "PreparedRequest \<Rightarrow> CandidateVerdict \<Rightarrow> CandidatePath \<Rightarrow> RankEntry" where
  "BuildRankEntry prepared verdict path =
     (let request = pr_request prepared;
          evidence = LookupById ce_path (pr_evidence_by_path prepared) (cp_id path);
          entry = \<lparr>
            re_path = path,
            re_capacity = LookupById pc_path (pr_capacity_by_path prepared) (cp_id path),
            re_evidence_known = (cv_evidence_known verdict \<and> evidence \<noteq> None),
            re_utilization_ppb = (case evidence of Some e \<Rightarrow> ce_utilization_ppb e | None \<Rightarrow> 0),
            re_is_incumbent =
              (case rq_incumbent request of
                 None \<Rightarrow> False
               | Some inc \<Rightarrow> inc_path inc = cp_id path \<and> pr_incumbent_eligible prepared),
            re_multiplier_relaxed = cv_multiplier_relaxed verdict,
            re_reservation_relaxed = cv_reservation_relaxed verdict,
            re_has_unknown = False,
            re_keys = []\<rparr>;
          keys = map (objective_key prepared entry) (pp_objectives (rq_policy request))
      in entry\<lparr>re_has_unknown := list_ex (\<lambda>k. \<not> ov_known k) keys, re_keys := keys\<rparr>)"

text \<open>The loop of \<^verbatim>\<open>RankLess\<close> over the common prefix of the keys, then the tie-break on the ids.\<close>

fun RankLess_keys :: "ObjectiveValue list \<Rightarrow> ObjectiveValue list \<Rightarrow> bool \<Rightarrow> bool" where
  "RankLess_keys (x # xs) (y # ys) tie =
     (if ov_known x \<noteq> ov_known y then ov_known x
      else if ov_known x \<and> ov_value x \<noteq> ov_value y
      then (if ov_direction x = kMinimize then ov_value x < ov_value y else ov_value y < ov_value x)
      else RankLess_keys xs ys tie)"
| "RankLess_keys _ _ tie = tie"

definition RankLess :: "RankEntry \<Rightarrow> RankEntry \<Rightarrow> bool" where
  "RankLess a b = RankLess_keys (re_keys a) (re_keys b) (cp_id (re_path a) < cp_id (re_path b))"

section \<open>The exclusion recorder\<close>

text \<open>
  \<^verbatim>\<open>std::map<ExclusionReason, Entry>\<close> is a partial map; its iteration order is the order of the
  enumerators, \<open>all_reasons\<close>.
\<close>

definition all_reasons :: "ExclusionReason list" where
  "all_reasons =
     [kPathAuthorityStale, kTierNotAllowed, kForbiddenLabel, kMissingRequiredLabel,
      kForbiddenLocality, kLocalityMismatch, kForbiddenFailureDomain,
      kRequiredFailureDomainMismatch, kFailureDomainOccupied, kCapacityUnknown,
      ExclusionReason.kCapacityInsufficient, kServiceHeadroomUnmet, kServiceReservationUnmet,
      kReservationAffinityUnsatisfied, kLatencyBudgetExceeded, kEvidenceMissing, kEvidenceStale,
      kDuplicatePathEntry]"

record RecorderEntry =
  en_summary :: ExclusionSummary
  en_required :: u64
  en_available :: u64
  en_example :: PathId

record ExclusionRecorder =
  er_entries :: "ExclusionReason \<Rightarrow> RecorderEntry option"
  er_max_reasons :: u64
  er_max_samples :: u64
  er_truncated :: bool

definition ExclusionRecorder_init :: "u64 \<Rightarrow> u64 \<Rightarrow> ExclusionRecorder" where
  "ExclusionRecorder_init max_reasons max_samples =
     \<lparr>er_entries = (\<lambda>_. None), er_max_reasons = max_reasons, er_max_samples = max_samples,
      er_truncated = False\<rparr>"

definition er_keys :: "ExclusionRecorder \<Rightarrow> ExclusionReason list" where
  "er_keys r = filter (\<lambda>k. er_entries r k \<noteq> None) all_reasons"

text \<open>\<^verbatim>\<open>count += 1\<close> and the sample update of \<^verbatim>\<open>Add\<close>; the flag is \<^verbatim>\<open>truncated_ = true\<close>.\<close>

definition sample_insert :: "u64 \<Rightarrow> PathId \<Rightarrow> PathId list \<Rightarrow> PathId list" where
  "sample_insert max_samples path sample =
     (if length sample < unat max_samples then sort (sample @ [path])
      else if sample \<noteq> [] \<and> path < last sample then sort (butlast sample @ [path])
      else sample)"

definition Recorder_bump :: "ExclusionReason \<Rightarrow> PathId \<Rightarrow> RecorderEntry \<Rightarrow> ExclusionRecorder \<Rightarrow> ExclusionRecorder" where
  "Recorder_bump reason path entry r =
     (let s = en_summary entry;
          s' = s\<lparr>es_count := es_count s + 1,
                 es_sample := sample_insert (er_max_samples r) path (es_sample s)\<rparr>
      in r\<lparr>er_entries := (er_entries r)(reason \<mapsto> entry\<lparr>en_summary := s'\<rparr>),
           er_truncated := er_truncated r \<or> \<not> length (es_sample s) < unat (er_max_samples r)\<rparr>)"

definition Recorder_Add :: "ExclusionReason \<Rightarrow> CandidateVerdict \<Rightarrow> PathId \<Rightarrow> ExclusionRecorder \<Rightarrow> ExclusionRecorder" where
  "Recorder_Add reason verdict path r =
     (case er_entries r reason of
        None \<Rightarrow>
          if length (er_keys r) \<ge> unat (er_max_reasons r) then r\<lparr>er_truncated := True\<rparr>
          else Recorder_bump reason path
                 \<lparr>en_summary = \<lparr>es_reason = reason, es_count = 0, es_sample = []\<rparr>,
                  en_required = cv_required verdict, en_available = cv_available verdict,
                  en_example = path\<rparr> r
      | Some entry \<Rightarrow>
          Recorder_bump reason path
            (if path < en_example entry
             then entry\<lparr>en_example := path, en_required := cv_required verdict,
                        en_available := cv_available verdict\<rparr>
             else entry) r)"

definition Recorder_Count :: "ExclusionRecorder \<Rightarrow> ExclusionReason \<Rightarrow> u64" where
  "Recorder_Count r reason =
     (case er_entries r reason of None \<Rightarrow> 0 | Some entry \<Rightarrow> es_count (en_summary entry))"

definition Recorder_Summaries :: "ExclusionRecorder \<Rightarrow> ExclusionSummary list" where
  "Recorder_Summaries r = map (\<lambda>k. en_summary (the (er_entries r k))) (er_keys r)"

definition Recorder_FirstRequired :: "ExclusionRecorder \<Rightarrow> ExclusionReason \<Rightarrow> u64" where
  "Recorder_FirstRequired r reason =
     (case er_entries r reason of None \<Rightarrow> 0 | Some entry \<Rightarrow> en_required entry)"

definition Recorder_FirstAvailable :: "ExclusionRecorder \<Rightarrow> ExclusionReason \<Rightarrow> u64" where
  "Recorder_FirstAvailable r reason =
     (case er_entries r reason of None \<Rightarrow> 0 | Some entry \<Rightarrow> en_available entry)"

definition Recorder_FirstPath :: "ExclusionRecorder \<Rightarrow> ExclusionReason \<Rightarrow> PathId" where
  "Recorder_FirstPath r reason =
     (case er_entries r reason of None \<Rightarrow> 0 | Some entry \<Rightarrow> en_example entry)"

definition Recorder_ReasonIsOnly :: "ExclusionRecorder \<Rightarrow> ExclusionReason \<Rightarrow> bool" where
  "Recorder_ReasonIsOnly r reason \<longleftrightarrow> length (er_keys r) = 1 \<and> er_entries r reason \<noteq> None"

section \<open>Explanation helpers\<close>

definition BuildAuthority :: "PlacementRequest \<Rightarrow> AuthorityExpectation \<Rightarrow> AuthorityVector" where
  "BuildAuthority request expected = \<lparr>
     av_path_authority = ex_path_authority expected,
     av_candidate_set = cs_id (rq_candidates request),
     av_candidate_set_generation = cs_generation (rq_candidates request),
     av_capacity = cap_id (rq_capacity request),
     av_capacity_generation = cap_generation (rq_capacity request),
     av_policy = pp_id (rq_policy request),
     av_policy_generation = pp_generation (rq_policy request),
     av_qos = qos_id (rq_qos request),
     av_qos_generation = qos_generation (rq_qos request),
     av_evidence = ev_id (rq_evidence request),
     av_evidence_generation = ev_generation (rq_evidence request),
     av_fabric_epoch = ex_fabric_epoch expected\<rparr>"

definition kMaxNotes :: nat where "kMaxNotes = 16"
definition kMaxBinding :: nat where "kMaxBinding = 8"

definition AddNote :: "string \<Rightarrow> Explanation \<Rightarrow> Explanation" where
  "AddNote note x =
     (if length (xp_notes x) \<ge> kMaxNotes then x\<lparr>xp_truncated := True\<rparr>
      else x\<lparr>xp_notes := xp_notes x @ [note]\<rparr>)"

definition AddDegradation :: "DegradationFlag \<Rightarrow> Explanation \<Rightarrow> Explanation" where
  "AddDegradation flag x =
     (if flag \<notin> set (xp_degradations x)
      then x\<lparr>xp_degradations := sort (xp_degradations x @ [flag])\<rparr> else x)"

definition AddBinding :: "ExclusionReason \<Rightarrow> PathId \<Rightarrow> u64 \<Rightarrow> u64 \<Rightarrow> string \<Rightarrow> Explanation \<Rightarrow> Explanation" where
  "AddBinding kind path required available label x =
     (if length (xp_binding x) \<ge> kMaxBinding then x\<lparr>xp_truncated := True\<rparr>
      else x\<lparr>xp_binding := xp_binding x @
               [\<lparr>bc_kind = kind, bc_path = path, bc_required = required, bc_available = available,
                 bc_label = label\<rparr>]\<rparr>)"

definition OutcomeForValidationCode :: "StatusCode \<Rightarrow> Outcome" where
  "OutcomeForValidationCode code =
     (if code \<in> {kStaleAuthorityGeneration, kStaleCandidateSet, kStaleCapacitySnapshot, kStalePolicy,
                 kStaleQos, kStaleFabricEpoch, kStaleEvidence}
      then Outcome.kStaleInput else Outcome.kConflictingInput)"

text \<open>Updates of the decision under construction.\<close>

definition explain :: "(Explanation \<Rightarrow> Explanation) \<Rightarrow> PlacementDecision \<Rightarrow> PlacementDecision" where
  "explain f d = d\<lparr>de_explanation := f (de_explanation d)\<rparr>"

definition set_outcome :: "Outcome \<Rightarrow> StatusCode \<Rightarrow> PlacementDecision \<Rightarrow> PlacementDecision" where
  "set_outcome outcome code d = d\<lparr>de_outcome := outcome, de_code := code\<rparr>"

definition with_digest :: "PlacementDecision \<Rightarrow> PlacementDecision" where
  "with_digest d = d\<lparr>de_digest := DecisionDigest d\<rparr>"

definition Reject :: "StatusCode \<Rightarrow> string \<Rightarrow> PlacementDecision" where
  "Reject code message =
     (let d = set_outcome (OutcomeForValidationCode code) code default_PlacementDecision;
          d = d\<lparr>de_validation := mk_Status code message\<rparr>
      in with_digest (explain (AddNote message) d))"

section \<open>Self-verification\<close>

definition VerifyIntent_bound :: "PlacementRequest \<Rightarrow> PlacementIntent \<Rightarrow> string option" where
  "VerifyIntent_bound request intent =
     (if in_flow intent \<noteq> rq_flow request \<or> in_flow_generation intent \<noteq> rq_flow_generation request
      then Some ''intent flow does not match the request''
      else if in_path_authority intent \<noteq> ex_path_authority (rq_expected request)
      then Some ''intent path authority generation is not the expected authority generation''
      else if in_candidate_set intent \<noteq> cs_id (rq_candidates request) \<or>
              in_candidate_set_generation intent \<noteq> cs_generation (rq_candidates request)
      then Some ''intent is not bound to the request candidate set generation''
      else if in_capacity intent \<noteq> cap_id (rq_capacity request) \<or>
              in_capacity_generation intent \<noteq> cap_generation (rq_capacity request)
      then Some ''intent is not bound to the request capacity snapshot generation''
      else if in_policy intent \<noteq> pp_id (rq_policy request) \<or>
              in_policy_generation intent \<noteq> pp_generation (rq_policy request)
      then Some ''intent is not bound to the request policy generation''
      else if in_qos intent \<noteq> qos_id (rq_qos request) \<or> in_qos_generation intent \<noteq> qos_generation (rq_qos request)
      then Some ''intent is not bound to the request qos generation''
      else if in_fabric_epoch intent \<noteq> ex_fabric_epoch (rq_expected request)
      then Some ''intent is not bound to the expected fabric epoch''
      else if valid_id (in_evidence_generation intent) then
        if in_evidence_generation intent \<noteq> ev_generation (rq_evidence request)
        then Some ''intent references an evidence generation that is not the supplied one''
        else if in_evidence intent \<noteq> ev_id (rq_evidence request)
        then Some ''intent references an evidence bundle identity that is not the supplied one''
        else if \<not> valid_id (ex_evidence (rq_expected request)) \<or>
                in_evidence_generation intent \<noteq> ex_evidence (rq_expected request)
        then Some ''intent is bound to an evidence generation the request does not trust''
        else None
      else if valid_id (in_evidence intent)
      then Some ''intent carries an evidence identity without an evidence generation''
      else None)"

text \<open>\<open>None\<close> is the source's \<^verbatim>\<open>true\<close>; \<open>Some reason\<close> is \<^verbatim>\<open>false\<close> with the reason written.\<close>

definition VerifyIntent :: "Limits \<Rightarrow> PlacementRequest \<Rightarrow> PlacementIntent \<Rightarrow> string option" where
  "VerifyIntent limits request intent =
     (if \<not> Status_ok (ValidateRequest request limits) then Some ''request is not valid''
      else case VerifyIntent_bound request intent of
        Some reason \<Rightarrow> Some reason
      | None \<Rightarrow>
          let prepared = Prepare request limits in
          case LookupById cp_id (pr_candidates_by_id prepared) (in_path intent) of
            None \<Rightarrow> Some (''chosen path '' @ id_str (in_path intent) @
                          '' is not a member of the authorized candidate set'')
          | Some path \<Rightarrow>
              let verdict = Evaluate prepared path in
              if cp_authority path \<noteq> in_path_authority intent
              then Some ''chosen path authority generation does not match the intent''
              else if \<not> cv_legal verdict
              then Some (''chosen path fails a hard constraint: '' @ ExclusionReasonName (cv_reason verdict))
              else if ReservationRef_valid (in_reservation intent) \<and>
                      in_reservation intent \<notin> set (pa_reservations (cp_attributes path))
              then Some ''intent references a reservation the chosen path does not carry''
              else None)"

section \<open>The stages of Place\<close>

text \<open>Stage 2: request-level staleness, in the fixed order of the \<^verbatim>\<open>checks\<close> table.\<close>

definition stale_checks :: "PlacementRequest \<Rightarrow> (bool \<times> StatusCode \<times> string) list" where
  "stale_checks request =
     (let expected = rq_expected request in
      [(cs_generation (rq_candidates request) \<noteq> ex_candidate_set expected, kStaleCandidateSet,
        ''candidate set generation is not the expected generation''),
       (cap_generation (rq_capacity request) \<noteq> ex_capacity expected, kStaleCapacitySnapshot,
        ''capacity snapshot generation is not the expected generation''),
       (pp_generation (rq_policy request) \<noteq> ex_policy expected, kStalePolicy,
        ''policy generation is not the expected generation''),
       (qos_generation (rq_qos request) \<noteq> ex_qos expected, kStaleQos,
        ''qos generation is not the expected generation'')])"

definition Place_stale :: "StatusCode \<Rightarrow> string \<Rightarrow> PlacementDecision \<Rightarrow> PlacementDecision" where
  "Place_stale code message d =
     (let d = set_outcome Outcome.kStaleInput code d;
          d = d\<lparr>de_validation := mk_Status code message\<rparr>
      in with_digest (explain (AddNote message) d))"

definition Place_overflow :: "PlacementDecision \<Rightarrow> PlacementDecision" where
  "Place_overflow d =
     (let d = set_outcome Outcome.kConflictingInput kArithmeticOverflow d;
          d = d\<lparr>de_validation := mk_Status kArithmeticOverflow
                 ''service-class headroom requirement is not representable''\<rparr>
      in with_digest
           (explain (AddNote ''the service-class headroom requirement overflows 64-bit capacity arithmetic'') d))"

definition initial_delta :: "PreparedRequest \<Rightarrow> IncumbentDelta" where
  "initial_delta prepared =
     (if \<not> pr_incumbent_present prepared then IncumbentDelta.kNoIncumbent
      else if pr_incumbent_eligible prepared then kKept else kReplacedStale)"

text \<open>Stage 3: the loop over the candidates.\<close>

record ScanState =
  sc_exclusions :: ExclusionRecorder
  sc_legal :: "RankEntry list"
  sc_legal_domains :: "FailureDomainId list"
  sc_unknown :: u64

definition scan_step :: "PreparedRequest \<Rightarrow> CandidatePath \<Rightarrow> ScanState \<Rightarrow> ScanState" where
  "scan_step prepared path s =
     (let verdict = Evaluate prepared path in
      if \<not> cv_legal verdict
      then s\<lparr>sc_exclusions := Recorder_Add (cv_reason verdict) verdict (cp_id path) (sc_exclusions s)\<rparr>
      else
        let entry = BuildRankEntry prepared verdict path;
            domain = pa_failure_domain (cp_attributes path) in
        s\<lparr>sc_legal := sc_legal s @ [entry],
          sc_legal_domains := (if valid_id domain then sc_legal_domains s @ [domain] else sc_legal_domains s),
          sc_unknown := (if re_has_unknown entry then sc_unknown s + 1 else sc_unknown s)\<rparr>)"

definition scan_init :: "Limits \<Rightarrow> ScanState" where
  "scan_init limits =
     \<lparr>sc_exclusions = ExclusionRecorder_init (max_exclusion_reasons limits) (max_exclusion_samples limits),
      sc_legal = [], sc_legal_domains = [], sc_unknown = 0\<rparr>"

definition scan_candidates :: "PreparedRequest \<Rightarrow> ScanState" where
  "scan_candidates prepared =
     fold (scan_step prepared) (cs_paths (rq_candidates (pr_request prepared))) (scan_init (pr_limits prepared))"

definition Place_summarise :: "PreparedRequest \<Rightarrow> ScanState \<Rightarrow> PlacementDecision \<Rightarrow> PlacementDecision" where
  "Place_summarise prepared s d =
     (let policy = rq_policy (pr_request prepared);
          legal_count = word_of_nat (length (sc_legal s));
          d = explain (\<lambda>x. x\<lparr>
                xp_unknown_evidence_count := sc_unknown s,
                xp_distinct_failure_domains := word_of_nat (length (remdups_adj (sort (sc_legal_domains s)))),
                xp_legal_candidate_count := legal_count,
                xp_excluded_candidate_count := xp_candidate_count x - legal_count,
                xp_exclusions := Recorder_Summaries (sc_exclusions s),
                xp_truncated := xp_truncated x \<or> er_truncated (sc_exclusions s)\<rparr>) d;
          d = (if \<not> pr_evidence_trusted prepared \<and> pr_evidence_bundle_present prepared
               then explain (AddNote (''supplied evidence bundle is not bound to the expected evidence generation and was '' @
                                      ''treated as untrusted'')) d
               else d)
      in (if ep_on_missing (pp_evidence policy) = kRankWorst \<and> pr_congestion_objective_used prepared \<and>
             \<not> pr_evidence_bundle_present prepared
          then explain (AddNote ''congestion evidence is absent; ranking keys are UNKNOWN'') d
          else d))"

text \<open>Stage 4: classification of an empty legal set, by category.\<close>

definition all_in_category :: "(ExclusionReason \<Rightarrow> bool) \<Rightarrow> ExclusionSummary list \<Rightarrow> bool" where
  "all_in_category category summaries \<longleftrightarrow>
     summaries \<noteq> [] \<and> list_all (\<lambda>summary. category (es_reason summary)) summaries"

definition classify_empty :: "ExclusionRecorder \<Rightarrow> u64 \<Rightarrow> ExclusionSummary list \<Rightarrow> Outcome \<times> StatusCode \<times> string" where
  "classify_empty exclusions candidate_count summaries =
     (if candidate_count = 0
      then (Outcome.kNoLegalPath, kNotFound, ''the authorized candidate set is empty'')
      else if Recorder_Count exclusions kPathAuthorityStale = candidate_count
      then (Outcome.kStaleInput, kStaleAuthorityGeneration,
            ''no candidate carries the expected path authority generation'')
      else if all_in_category IsStalenessReason summaries \<or> Recorder_ReasonIsOnly exclusions kEvidenceStale
      then (Outcome.kStaleInput, kStaleEvidence, ''every candidate was excluded by stale evidence'')
      else if all_in_category IsPolicyReason summaries
      then (Outcome.kPolicyRejected, kPolicyRejectedAllPaths,
            ''policy excluded every candidate that is still authorized'')
      else if all_in_category IsServiceReason summaries
      then (Outcome.kNoLegalPath, kServiceClassUnsatisfied,
            ''no candidate satisfies the service-class requirements of this flow'')
      else if all_in_category IsCapacityReason summaries
      then if Recorder_ReasonIsOnly exclusions kCapacityUnknown
           then (Outcome.kInsufficientCapacity, kNotFound,
                 ''capacity evidence is absent for every candidate; absence is not capacity'')
           else (Outcome.kInsufficientCapacity, StatusCode.kCapacityInsufficient,
                 ''no candidate reports sufficient residual capacity'')
      else if all_in_category IsQosReason summaries
      then (Outcome.kNoLegalPath, kLatencyBudgetUnmet, ''no candidate meets the latency budget'')
      else (Outcome.kNoLegalPath, kNotFound,
            ''no candidate is legal; independent hard constraints removed every candidate''))"

fun dominant_loop :: "ExclusionSummary option \<Rightarrow> ExclusionSummary list \<Rightarrow> ExclusionSummary option" where
  "dominant_loop best [] = best"
| "dominant_loop best (s # ss) =
     dominant_loop
       (case best of None \<Rightarrow> Some s | Some b \<Rightarrow> if es_count s > es_count b then Some s else Some b) ss"

definition Place_empty :: "ScanState \<Rightarrow> PlacementDecision \<Rightarrow> PlacementDecision" where
  "Place_empty s d =
     (let exclusions = sc_exclusions s;
          count = xp_candidate_count (de_explanation d);
          summaries = xp_exclusions (de_explanation d);
          (outcome, code, note) = classify_empty exclusions count summaries;
          d = explain (AddNote note) (set_outcome outcome code d);
          d = (case dominant_loop None summaries of
                 None \<Rightarrow> d
               | Some dominant \<Rightarrow>
                   explain (AddBinding (es_reason dominant) (Recorder_FirstPath exclusions (es_reason dominant))
                              (Recorder_FirstRequired exclusions (es_reason dominant))
                              (Recorder_FirstAvailable exclusions (es_reason dominant))
                              (''excluded='' @ id_str (es_count dominant) @ '' of '' @ id_str count)) d)
      in with_digest d)"

text \<open>Stage 5: failure-domain diversity over the legal set.\<close>

definition diversity_unmet :: "PreparedRequest \<Rightarrow> PlacementDecision \<Rightarrow> bool" where
  "diversity_unmet prepared d \<longleftrightarrow>
     (let minimum = fd_min_distinct_domains (pp_failure_domains (rq_policy (pr_request prepared))) in
      minimum \<noteq> 0 \<and> xp_distinct_failure_domains (de_explanation d) < ucast minimum)"

definition Place_diversity :: "PreparedRequest \<Rightarrow> PlacementDecision \<Rightarrow> PlacementDecision" where
  "Place_diversity prepared d =
     (let minimum = fd_min_distinct_domains (pp_failure_domains (rq_policy (pr_request prepared)));
          domains = xp_distinct_failure_domains (de_explanation d);
          d = set_outcome Outcome.kNoLegalPath kFailureDomainDiversityUnmet d;
          d = explain (AddNote (''legal candidates span '' @ id_str domains @
                                '' distinct failure domains but the policy requires '' @
                                to_string (unat minimum))) d
      in with_digest
           (explain (AddBinding kForbiddenFailureDomain 0 (ucast minimum) domains ''diversity requirement'') d))"

text \<open>Stage 6: the ranking; \<open>legal\<close> is already sorted by \<^const>\<open>RankLess\<close>.\<close>

definition ranked_candidate :: "nat \<times> RankEntry \<Rightarrow> RankedCandidate" where
  "ranked_candidate ie =
     \<lparr>rc_path = cp_id (re_path (snd ie)), rc_authority = cp_authority (re_path (snd ie)),
      rc_rank = word_of_nat (fst ie), rc_is_incumbent = re_is_incumbent (snd ie),
      rc_keys = re_keys (snd ie)\<rparr>"

definition Place_ranked :: "PreparedRequest \<Rightarrow> RankEntry list \<Rightarrow> PlacementDecision \<Rightarrow> PlacementDecision" where
  "Place_ranked prepared legal d =
     (let explained = min (length legal) (unat (max_ranked_explained (pr_limits prepared))) in
      explain (\<lambda>x. x\<lparr>
        xp_ranked := xp_ranked x @ map ranked_candidate (zip [0..<explained] (take explained legal)),
        xp_truncated := xp_truncated x \<or> explained < length legal\<rparr>) d)"

text \<open>Stage 7: churn. \<open>index_of_path\<close> is the search loop; the length stands for "not found".\<close>

fun index_of_path :: "PathId \<Rightarrow> RankEntry list \<Rightarrow> nat" where
  "index_of_path p [] = 0"
| "index_of_path p (e # es) = (if cp_id (re_path e) = p then 0 else Suc (index_of_path p es))"

definition improvement_over :: "ObjectiveValue \<Rightarrow> ObjectiveValue \<Rightarrow> u64" where
  "improvement_over best current =
     (if ov_known best \<and> ov_known current
      then if ov_direction best = kMinimize
           then if ov_value current > ov_value best then ov_value current - ov_value best else 0
           else if ov_value best > ov_value current then ov_value best - ov_value current else 0
      else 0)"

definition Place_churn :: "PreparedRequest \<Rightarrow> RankEntry list \<Rightarrow> PlacementDecision \<Rightarrow> nat \<times> PlacementDecision" where
  "Place_churn prepared legal d =
     (let churn = pp_churn (rq_policy (pr_request prepared)) in
      case rq_incumbent (pr_request prepared) of
        None \<Rightarrow> (0, explain (AddDegradation DegradationFlag.kNoIncumbent) d)
      | Some incumbent \<Rightarrow>
          if \<not> pr_incumbent_eligible prepared then
            (0, explain (AddNote (''incumbent placement '' @ id_str (inc_id incumbent) @
                                  '' is not eligible: stale authority generation or path no longer authorized''))
                  (explain (AddDegradation kIncumbentStale) d))
          else if ch_prefer_incumbent churn then
            (let threshold_index = unat (ch_threshold_objective_index churn);
                 incumbent_index = index_of_path (inc_path incumbent) legal in
             if incumbent_index \<noteq> 0 \<and> incumbent_index < length legal then
               (let best = re_keys (legal ! 0) ! threshold_index;
                    current = re_keys (legal ! incumbent_index) ! threshold_index;
                    improvement = improvement_over best current in
                if improvement \<le> ch_move_improvement_threshold churn then
                  (incumbent_index,
                   explain (AddNote (''churn suppressed: the best candidate improves the incumbent by '' @
                                     id_str improvement @ '' which does not exceed the move threshold '' @
                                     id_str (ch_move_improvement_threshold churn)))
                     (explain (AddDegradation kChurnSuppressed) d))
                else (0, d))
             else (0, d))
          else (0, d))"

definition is_moving :: "PreparedRequest \<Rightarrow> RankEntry \<Rightarrow> bool" where
  "is_moving prepared chosen =
     (case rq_incumbent (pr_request prepared) of
        None \<Rightarrow> False
      | Some incumbent \<Rightarrow> cp_id (re_path chosen) \<noteq> inc_path incumbent)"

definition move_deferred :: "PreparedRequest \<Rightarrow> RankEntry list \<Rightarrow> nat \<Rightarrow> bool" where
  "move_deferred prepared legal chosen_index =
     (let churn = pp_churn (rq_policy (pr_request prepared)) in
      is_moving prepared (legal ! chosen_index) \<and> ch_prefer_incumbent churn \<and>
      ch_on_move churn = ChurnAction.kDefer \<and>
      (case rq_incumbent (pr_request prepared) of
         None \<Rightarrow> False
       | Some incumbent \<Rightarrow> index_of_path (inc_path incumbent) legal \<noteq> chosen_index))"

definition Place_move_deferred :: "PreparedRequest \<Rightarrow> PlacementDecision \<Rightarrow> PlacementDecision" where
  "Place_move_deferred prepared d =
     (let d = set_outcome Outcome.kDeferred kPolicyMoveSuppressed d;
          d = d\<lparr>de_delta := (if pr_incumbent_eligible prepared then kMoved else kReplacedStale)\<rparr>
      in with_digest
           (explain (AddNote ''policy defers moves away from the incumbent; the flow remains unplaced'') d))"

text \<open>Stage 8: the admission gate. \<open>Inl\<close> is the early return, \<open>Inr\<close> continues.\<close>

definition residual_of :: "RankEntry \<Rightarrow> u64" where
  "residual_of chosen = (case re_capacity chosen of Some c \<Rightarrow> pc_residual_bytes c | None \<Rightarrow> 0)"

definition Place_admission ::
  "PreparedRequest \<Rightarrow> RankEntry \<Rightarrow> PlacementDecision \<Rightarrow> PlacementDecision + PlacementDecision" where
  "Place_admission prepared chosen d =
     (let gate = pp_admission (rq_policy (pr_request prepared));
          minimum = ag_min_residual_headroom_bytes gate;
          bind = AddBinding ExclusionReason.kCapacityInsufficient (cp_id (re_path chosen)) minimum
                   (residual_of chosen) ''admission gate'' in
      if minimum \<noteq> 0 \<and> residual_of chosen < minimum then
        if ag_on_below gate = GateAction.kDefer then
          Inl (with_digest
            (explain (AddNote ''residual capacity headroom is below the admission gate; the decision is deferred'')
              (explain bind (set_outcome Outcome.kDeferred kPolicyHeadroomGate d))))
        else Inr (explain bind (explain (AddDegradation kHeadroomBelowComfort) d))
      else Inr d)"

definition Place_flags :: "PreparedRequest \<Rightarrow> RankEntry \<Rightarrow> PlacementDecision \<Rightarrow> PlacementDecision" where
  "Place_flags prepared chosen d =
     (let policy = rq_policy (pr_request prepared);
          path = re_path chosen;
          d = (if re_multiplier_relaxed chosen \<or> re_reservation_relaxed chosen
               then explain (AddBinding kServiceHeadroomUnmet (cp_id path) (pr_required_headroom_bytes prepared)
                              (residual_of chosen) ''service-class headroom relaxed'')
                      (explain (AddDegradation kServiceRelaxed) d)
               else d);
          d = (if (case lc_preferred_locality (pp_locality policy) of
                     None \<Rightarrow> False | Some preferred \<Rightarrow> pa_locality (cp_attributes path) \<noteq> preferred)
               then explain (AddDegradation kLocalityPreferenceUnmet) d else d);
          d = (if pr_affinity_refs prepared \<noteq> [] \<and> \<not> affinity_matched prepared path
               then explain (AddDegradation kReservationPreferenceUnmet) d else d)
      in (if re_has_unknown chosen then explain (AddDegradation kEvidenceUnknown) d else d))"

definition Place_delta :: "PreparedRequest \<Rightarrow> RankEntry \<Rightarrow> PlacementDecision \<Rightarrow> PlacementDecision" where
  "Place_delta prepared chosen d =
     (case rq_incumbent (pr_request prepared) of
        None \<Rightarrow> d\<lparr>de_delta := IncumbentDelta.kNoIncumbent\<rparr>
      | Some incumbent \<Rightarrow>
          if cp_id (re_path chosen) = inc_path incumbent
          then d\<lparr>de_delta := (if pr_incumbent_eligible prepared then kKept else kReplacedStale)\<rparr>
          else if pr_incumbent_eligible prepared
          then explain (AddDegradation kIncumbentSuperseded) (d\<lparr>de_delta := kMoved\<rparr>)
          else d\<lparr>de_delta := kReplacedStale\<rparr>)"

text \<open>The intent: its reservation, then all its fields, then its digest.\<close>

definition chosen_reservation :: "PreparedRequest \<Rightarrow> CandidatePath \<Rightarrow> ReservationRef" where
  "chosen_reservation prepared path =
     (let policy = rq_policy (pr_request prepared);
          reservations = pa_reservations (cp_attributes path);
          first = (if ra_required (pp_reservation_affinity policy) \<or> pr_affinity_refs prepared \<noteq> []
                   then case find (binary_search (pr_affinity_refs prepared)) reservations of
                          None \<Rightarrow> ReservationRef_none | Some ref \<Rightarrow> ref
                   else ReservationRef_none) in
      if \<not> ReservationRef_valid first \<and> sr_reservation_required (pr_service prepared) \<and> reservations \<noteq> []
      then min_element (hd reservations) (tl reservations)
      else first)"

definition Place_intent :: "PreparedRequest \<Rightarrow> RankEntry \<Rightarrow> PlacementIntent" where
  "Place_intent prepared chosen =
     (let request = pr_request prepared;
          intent = \<lparr>
            in_flow = rq_flow request,
            in_flow_generation = rq_flow_generation request,
            in_path = cp_id (re_path chosen),
            in_path_authority = cp_authority (re_path chosen),
            in_candidate_set = cs_id (rq_candidates request),
            in_candidate_set_generation = cs_generation (rq_candidates request),
            in_capacity = cap_id (rq_capacity request),
            in_capacity_generation = cap_generation (rq_capacity request),
            in_policy = pp_id (rq_policy request),
            in_policy_generation = pp_generation (rq_policy request),
            in_qos = qos_id (rq_qos request),
            in_qos_generation = qos_generation (rq_qos request),
            in_evidence = (if pr_evidence_trusted prepared then ev_id (rq_evidence request) else 0),
            in_evidence_generation =
              (if pr_evidence_trusted prepared then ev_generation (rq_evidence request) else 0),
            in_fabric_epoch = ex_fabric_epoch (rq_expected request),
            in_reservation = chosen_reservation prepared (re_path chosen),
            in_attempt = rq_attempt request,
            in_revalidate_after_nanos = pp_revalidate_after_nanos (rq_policy request),
            in_digest = Digest_zero\<rparr>
      in intent\<lparr>in_digest := IntentDigest intent\<rparr>)"

text \<open>Stage 9: self-verification and the outcome.\<close>

definition Place_self_rejected :: "string \<Rightarrow> PlacementDecision \<Rightarrow> PlacementDecision" where
  "Place_self_rejected reason d =
     (let x = de_explanation d;
          rejected = Reject kInternalInvariantViolation (''placement self-verification failed: '' @ reason);
          rejected = rejected\<lparr>de_authority := de_authority d\<rparr>;
          rejected = explain (\<lambda>y. y\<lparr>
            xp_candidate_count := xp_candidate_count x,
            xp_legal_candidate_count := xp_legal_candidate_count x,
            xp_excluded_candidate_count := xp_excluded_candidate_count x,
            xp_exclusions := xp_exclusions x\<rparr>) rejected
      in with_digest rejected)"

definition Place_accept :: "PreparedRequest \<Rightarrow> RankEntry \<Rightarrow> PlacementIntent \<Rightarrow> PlacementDecision \<Rightarrow> PlacementDecision" where
  "Place_accept prepared chosen intent d =
     (let d = explain (AddBinding ExclusionReason.kCapacityInsufficient (cp_id (re_path chosen))
                        (pr_required_headroom_bytes prepared) (residual_of chosen) ''chosen path headroom'') d;
          degrading = list_ex IsDegradingFlag (xp_degradations (de_explanation d));
          d = set_outcome (if degrading then Outcome.kPlacedDegraded else Outcome.kPlaced) kOk d
      in with_digest (d\<lparr>de_intent := Some intent\<rparr>))"

definition Place_chosen :: "PreparedRequest \<Rightarrow> RankEntry \<Rightarrow> PlacementDecision \<Rightarrow> PlacementDecision" where
  "Place_chosen prepared chosen d =
     (case Place_admission prepared chosen d of
        Inl deferred \<Rightarrow> deferred
      | Inr d \<Rightarrow>
          let d = Place_delta prepared chosen (Place_flags prepared chosen d);
              intent = Place_intent prepared chosen in
          case VerifyIntent (pr_limits prepared) (pr_request prepared) intent of
            Some reason \<Rightarrow> Place_self_rejected reason d
          | None \<Rightarrow> Place_accept prepared chosen intent d)"

definition Place_legal :: "PreparedRequest \<Rightarrow> RankEntry list \<Rightarrow> PlacementDecision \<Rightarrow> PlacementDecision" where
  "Place_legal prepared entries d =
     (let legal = sort_by RankLess entries;
          d = Place_ranked prepared legal d;
          (chosen_index, d) = Place_churn prepared legal d in
      if move_deferred prepared legal chosen_index then Place_move_deferred prepared d
      else Place_chosen prepared (legal ! chosen_index) d)"

definition initial_decision :: "PlacementRequest \<Rightarrow> PlacementDecision" where
  "initial_decision request =
     explain (\<lambda>x. x\<lparr>xp_candidate_count := word_of_nat (length (cs_paths (rq_candidates request)))\<rparr>)
       (default_PlacementDecision\<lparr>de_authority := BuildAuthority request (rq_expected request)\<rparr>)"

definition Place_invalid :: "PlacementRequest \<Rightarrow> Status \<Rightarrow> PlacementDecision" where
  "Place_invalid request validation =
     (let d = Reject (st_code validation) (st_message validation)
      in with_digest (d\<lparr>de_authority := BuildAuthority request (rq_expected request)\<rparr>))"

definition Place_prepared :: "PreparedRequest \<Rightarrow> PlacementDecision \<Rightarrow> PlacementDecision" where
  "Place_prepared prepared d =
     (if pr_headroom_requirement_overflow prepared then Place_overflow d
      else
        let d = d\<lparr>de_delta := initial_delta prepared\<rparr>;
            s = scan_candidates prepared;
            d = Place_summarise prepared s d in
        if sc_legal s = [] then Place_empty s d
        else if diversity_unmet prepared d then Place_diversity prepared d
        else Place_legal prepared (sc_legal s) d)"

definition Place :: "Limits \<Rightarrow> PlacementRequest \<Rightarrow> PlacementDecision" where
  "Place limits request =
     (let validation = ValidateRequest request limits in
      if \<not> Status_ok validation then Place_invalid request validation
      else case find fst (stale_checks request) of
        Some (_, code, message) \<Rightarrow> Place_stale code message (initial_decision request)
      | None \<Rightarrow> Place_prepared (Prepare request limits) (initial_decision request))"

end
