(* ===== verification/Flow_Eligibility.thy ===== *)
theory Flow_Eligibility
  imports Flow_Engine
begin

text \<open>
  The hard constraints of the engine. \<open>violates\<close> states each exclusion reason declaratively over the
  request; \<open>Evaluate\<close> on a prepared well-formed request is shown to be legal exactly when no
  constraint is violated, and otherwise to report the first violated one in enumerator order. The
  sorted indices \<open>Prepare\<close> builds are used through the locale \<open>keyed_index\<close>.
\<close>

section \<open>Sorted indices as a keyed index\<close>

locale keyed_index =
  fixes key :: "'a \<Rightarrow> u64"
    and build :: "'a list \<Rightarrow> 'b"
    and lookup :: "'b \<Rightarrow> u64 \<Rightarrow> 'a option"
  assumes lookup_build: "distinct (map key xs) \<Longrightarrow> lookup (build xs) i = find (\<lambda>x. key x = i) xs"
begin

lemma lookup_Some: "distinct (map key xs) \<Longrightarrow> lookup (build xs) i = Some x \<longleftrightarrow> x \<in> set xs \<and> key x = i"
  by (auto simp: lookup_build dest: find_Some_sat find_distinct_key)

lemma lookup_None: "distinct (map key xs) \<Longrightarrow> lookup (build xs) i = None \<longleftrightarrow> (\<forall>x \<in> set xs. key x \<noteq> i)"
  by (auto simp: lookup_build find_None_iff)

lemma lookup_member: "distinct (map key xs) \<Longrightarrow> x \<in> set xs \<Longrightarrow> lookup (build xs) (key x) = Some x"
  by (simp add: lookup_Some)

lemma lookup_mset_cong:
  assumes "mset xs = mset ys" "distinct (map key xs)"
  shows "lookup (build xs) i = lookup (build ys) i"
proof -
  have d: "distinct (map key ys)" using assms by (simp flip: distinct_map_mset_cong [OF assms(1)])
  show ?thesis
  proof (cases "lookup (build ys) i")
    case None
    then have "lookup (build xs) i = None"
      using lookup_None [OF d, of i] lookup_None [OF assms(2), of i] mset_eq_setD [OF assms(1)] by simp
    with None show ?thesis by simp
  next
    case (Some y)
    then have "lookup (build xs) i = Some y"
      using lookup_Some [OF d, of i y] lookup_Some [OF assms(2), of i y] mset_eq_setD [OF assms(1)] by simp
    with Some show ?thesis by simp
  qed
qed

end

lemma LookupById_SortPointersById:
  assumes "distinct (map key xs)"
  shows "LookupById key (SortPointersById key xs) i = find (\<lambda>x. key x = i) xs"
proof -
  let ?s = "sort_key key xs"
  let ?n = "length (takeWhile (\<lambda>x. key x < i) ?s)"
  have sorted: "sorted (map key ?s)" by simp
  have look: "LookupById key (SortPointersById key xs) i =
    (if ?n = length ?s \<or> key (?s ! ?n) \<noteq> i then None else Some (?s ! ?n))"
    by (simp add: LookupById_def SortPointersById_def lower_bound_sorted_key [OF sorted] Let_def)
  have le: "?n \<le> length ?s" by (rule length_takeWhile_le)
  have mem: "(\<exists>x \<in> set xs. key x = i) \<longleftrightarrow> ?n < length ?s \<and> key (?s ! ?n) = i"
    using takeWhile_less_sorted [OF sorted, of i] by (simp add: Let_def)
  show ?thesis
  proof (cases "\<exists>x \<in> set xs. key x = i")
    case True
    then have n: "?n < length ?s" "key (?s ! ?n) = i" using mem by auto
    then have "?s ! ?n \<in> set xs" using nth_mem [OF n(1)] by simp
    from find_distinct_key [OF assms this] n show ?thesis by (simp add: look)
  next
    case False
    then have "find (\<lambda>x. key x = i) xs = None" by (auto simp: find_None_iff)
    moreover have "?n = length ?s \<or> key (?s ! ?n) \<noteq> i" using False mem le by linarith
    ultimately show ?thesis by (simp add: look)
  qed
qed

interpretation candidate_index: keyed_index cp_id "SortPointersById cp_id" "LookupById cp_id"
  by unfold_locales (rule LookupById_SortPointersById)

interpretation capacity_index: keyed_index pc_path "SortPointersById pc_path" "LookupById pc_path"
  by unfold_locales (rule LookupById_SortPointersById)

interpretation evidence_index: keyed_index ce_path "SortPointersById ce_path" "LookupById ce_path"
  by unfold_locales (rule LookupById_SortPointersById)

section \<open>The hard constraints\<close>

definition capacity_entry :: "PlacementRequest \<Rightarrow> PathId \<Rightarrow> PathCapacity option" where
  "capacity_entry r i = find (\<lambda>e. pc_path e = i) (cap_entries (rq_capacity r))"

definition relaxable :: "PlacementRequest \<Rightarrow> u8 \<Rightarrow> bool" where
  "relaxable r steps \<longleftrightarrow>
     sp_allow_degraded (pp_service (rq_policy r)) \<and> steps \<le> sp_max_relaxation_steps (pp_service (rq_policy r))"

definition uses_congestion :: "PlacementRequest \<Rightarrow> bool" where
  "uses_congestion r \<longleftrightarrow> (\<exists>b \<in> set (pp_objectives (rq_policy r)). ob_kind b = kCongestionUtilization)"

definition evidence_supplied :: "PlacementRequest \<Rightarrow> bool" where
  "evidence_supplied r \<longleftrightarrow> ev_generation (rq_evidence r) \<noteq> 0"

definition evidence_trusted :: "PlacementRequest \<Rightarrow> bool" where
  "evidence_trusted r \<longleftrightarrow>
     evidence_supplied r \<and> ev_generation (rq_evidence r) = ex_evidence (rq_expected r)"

primrec violates :: "PlacementRequest \<Rightarrow> CandidatePath \<Rightarrow> ExclusionReason \<Rightarrow> bool" where
  "violates r p kPathAuthorityStale \<longleftrightarrow> cp_authority p \<noteq> ex_path_authority (rq_expected r)"
| "violates r p kTierNotAllowed \<longleftrightarrow>
     pp_allowed_tiers (rq_policy r) \<noteq> [] \<and> pa_tier (cp_attributes p) \<notin> set (pp_allowed_tiers (rq_policy r))"
| "violates r p kForbiddenLabel \<longleftrightarrow>
     set (pa_labels (cp_attributes p)) \<inter> set (pp_forbidden_labels (rq_policy r)) \<noteq> {}"
| "violates r p kMissingRequiredLabel \<longleftrightarrow>
     \<not> set (pp_required_labels (rq_policy r)) \<subseteq> set (pa_labels (cp_attributes p))"
| "violates r p kForbiddenLocality \<longleftrightarrow>
     pa_locality (cp_attributes p) \<in> set (lc_forbidden_localities (pp_locality (rq_policy r))) - {0}"
| "violates r p kLocalityMismatch \<longleftrightarrow>
     \<not> set_option (lc_required_locality (pp_locality (rq_policy r))) \<subseteq> {pa_locality (cp_attributes p)}"
| "violates r p kForbiddenFailureDomain \<longleftrightarrow>
     pa_failure_domain (cp_attributes p) \<in> set (fd_forbidden_domains (pp_failure_domains (rq_policy r))) - {0}"
| "violates r p kRequiredFailureDomainMismatch \<longleftrightarrow>
     \<not> set_option (fd_required_domain (pp_failure_domains (rq_policy r))) \<subseteq> {pa_failure_domain (cp_attributes p)}"
| "violates r p kFailureDomainOccupied \<longleftrightarrow>
     fd_avoid_occupied_domains (pp_failure_domains (rq_policy r)) \<and>
     pa_failure_domain (cp_attributes p) \<in> set (rq_occupied_failure_domains r) - {0}"
| "violates r p kCapacityUnknown \<longleftrightarrow> capacity_entry r (cp_id p) = None"
| "violates r p ExclusionReason.kCapacityInsufficient \<longleftrightarrow>
     (\<exists>c. capacity_entry r (cp_id p) = Some c \<and>
          pc_residual_bytes c < qos_required_residual_bytes (rq_qos r))"
| "violates r p kServiceHeadroomUnmet \<longleftrightarrow>
     (\<exists>c. capacity_entry r (cp_id p) = Some c \<and>
          unat (pc_residual_bytes c) <
            unat (qos_required_residual_bytes (rq_qos r)) *
            unat (ServiceHeadroomMultiplier (qos_service_class (rq_qos r)))) \<and> \<not> relaxable r 1"
| "violates r p kServiceReservationUnmet \<longleftrightarrow>
     qos_service_class (rq_qos r) = kReserved \<and> pa_reservations (cp_attributes p) = [] \<and> \<not> relaxable r 2"
| "violates r p kReservationAffinityUnsatisfied \<longleftrightarrow>
     ra_required (pp_reservation_affinity (rq_policy r)) \<and>
     set (pa_reservations (cp_attributes p)) \<inter> set (ra_refs (pp_reservation_affinity (rq_policy r))) = {}"
| "violates r p kLatencyBudgetExceeded \<longleftrightarrow>
     qos_max_latency_nanos (rq_qos r) \<noteq> 0 \<and>
     pa_latency_nanos (cp_attributes p) > qos_max_latency_nanos (rq_qos r)"
| "violates r p kEvidenceMissing \<longleftrightarrow>
     uses_congestion r \<and> ep_on_missing (pp_evidence (rq_policy r)) = kHardExclude \<and>
     (if evidence_supplied r then evidence_trusted r \<and> cp_id p \<notin> ce_path ` set (ev_entries (rq_evidence r))
      else True)"
| "violates r p kEvidenceStale \<longleftrightarrow>
     uses_congestion r \<and> ep_on_stale (pp_evidence (rq_policy r)) = kHardExclude \<and>
     evidence_supplied r \<and> \<not> evidence_trusted r"
| "violates r p kDuplicatePathEntry \<longleftrightarrow> False"

section \<open>The prepared request\<close>

lemma sorted_remdups_adj_sort: "sorted (remdups_adj (sort xs))"
  by (simp add: remdups_adj_sort)

lemma sort_key_eq_Nil [simp]: "sort_key k xs = [] \<longleftrightarrow> xs = []"
  by (metis length_0_conv length_sort)

lemma ContainsSorted_sort [simp]: "ContainsSorted (sort xs) v \<longleftrightarrow> v \<in> set xs"
  by (simp add: ContainsSorted_def)

lemma ContainsSorted_unique [simp]: "ContainsSorted (remdups_adj (sort xs)) v \<longleftrightarrow> v \<in> set xs"
  by (simp add: ContainsSorted_def sorted_remdups_adj_sort)

lemma Prepare_simps [simp]:
  "pr_request (Prepare r l) = r" "pr_limits (Prepare r l) = l"
  "pr_service (Prepare r l) = RequirementFor (qos_service_class (rq_qos r))"
  "pr_required_base_bytes (Prepare r l) = qos_required_residual_bytes (rq_qos r)"
  "pr_candidates_by_id (Prepare r l) = SortPointersById cp_id (cs_paths (rq_candidates r))"
  "pr_capacity_by_path (Prepare r l) = SortPointersById pc_path (cap_entries (rq_capacity r))"
  "pr_evidence_by_path (Prepare r l) = SortPointersById ce_path (ev_entries (rq_evidence r))"
  "pr_forbidden_localities (Prepare r l) = sort (lc_forbidden_localities (pp_locality (rq_policy r)))"
  "pr_forbidden_domains (Prepare r l) = sort (fd_forbidden_domains (pp_failure_domains (rq_policy r)))"
  "pr_occupied_domains (Prepare r l) = remdups_adj (sort (rq_occupied_failure_domains r))"
  "pr_required_labels (Prepare r l) = sort (pp_required_labels (rq_policy r))"
  "pr_forbidden_labels (Prepare r l) = sort (pp_forbidden_labels (rq_policy r))"
  "pr_affinity_refs (Prepare r l) = sort (ra_refs (pp_reservation_affinity (rq_policy r)))"
  "pr_allowed_tiers (Prepare r l) = sort (pp_allowed_tiers (rq_policy r))"
  "pr_incumbent_present (Prepare r l) \<longleftrightarrow> rq_incumbent r \<noteq> None"
  by (simp_all add: Prepare_def Let_def)

lemma Prepare_evidence [simp]:
  "pr_evidence_bundle_present (Prepare r l) \<longleftrightarrow> evidence_supplied r"
  "pr_evidence_trusted (Prepare r l) \<longleftrightarrow> evidence_trusted r"
  "pr_congestion_objective_used (Prepare r l) \<longleftrightarrow> uses_congestion r"
  by (auto simp: Prepare_def Let_def evidence_supplied_def evidence_trusted_def uses_congestion_def
      valid_id_def list_ex_iff)

lemma Prepare_headroom:
  assumes "wf_request r l"
  shows "unat (pr_required_headroom_bytes (Prepare r l)) =
           unat (qos_required_residual_bytes (rq_qos r)) *
           unat (ServiceHeadroomMultiplier (qos_service_class (rq_qos r)))"
    and "\<not> pr_headroom_requirement_overflow (Prepare r l)"
proof -
  from assms have "unat (qos_required_residual_bytes (rq_qos r)) *
       unat (ServiceHeadroomMultiplier (qos_service_class (rq_qos r))) < 2 ^ 64"
    by (simp add: wf_request_def wf_feasible_def)
  then obtain h where h: "CheckedMul (qos_required_residual_bytes (rq_qos r))
      (ServiceHeadroomMultiplier (qos_service_class (rq_qos r))) = Some h"
    using CheckedMul_Some_iff by blast
  then show "unat (pr_required_headroom_bytes (Prepare r l)) =
           unat (qos_required_residual_bytes (rq_qos r)) *
           unat (ServiceHeadroomMultiplier (qos_service_class (rq_qos r)))"
    by (simp add: Prepare_def RequirementFor_def Let_def CheckedMul_Some)
  show "\<not> pr_headroom_requirement_overflow (Prepare r l)"
    using h by (simp add: Prepare_def RequirementFor_def Let_def)
qed

lemma affinity_matched_Prepare [simp]:
  "affinity_matched (Prepare r l) p \<longleftrightarrow>
     set (pa_reservations (cp_attributes p)) \<inter> set (ra_refs (pp_reservation_affinity (rq_policy r))) \<noteq> {}"
  by (auto simp: affinity_matched_def list_ex_iff)

lemma wf_request_distinct:
  assumes "wf_request r l"
  shows "distinct (map cp_id (cs_paths (rq_candidates r)))"
    and "distinct (map pc_path (cap_entries (rq_capacity r)))"
    and "distinct (map ce_path (ev_entries (rq_evidence r)))"
  using assms by (simp_all add: wf_request_def wf_facts_def)

lemma lookup_capacity:
  "wf_request r l \<Longrightarrow> LookupById pc_path (SortPointersById pc_path (cap_entries (rq_capacity r))) i = capacity_entry r i"
  by (simp add: wf_request_distinct capacity_index.lookup_build capacity_entry_def)

lemma lookup_evidence_None:
  "wf_request r l \<Longrightarrow>
   LookupById ce_path (SortPointersById ce_path (ev_entries (rq_evidence r))) i = None \<longleftrightarrow>
   i \<notin> ce_path ` set (ev_entries (rq_evidence r))"
  by (auto simp: wf_request_distinct evidence_index.lookup_None)


section \<open>Evaluate reports the first violated constraint\<close>

text \<open>The evidence stage, over the declarative reasons.\<close>

lemma EvaluateEvidence_spec:
  assumes "wf_request r l" and v: "\<not> cv_legal v"
  shows "cv_legal (EvaluateEvidence (Prepare r l) p v) \<longleftrightarrow>
           \<not> violates r p kEvidenceMissing \<and> \<not> violates r p kEvidenceStale"
    and "cv_reason (EvaluateEvidence (Prepare r l) p v) =
           (if violates r p kEvidenceMissing then kEvidenceMissing
            else if violates r p kEvidenceStale then kEvidenceStale else cv_reason v)"
  using v by (auto simp: EvaluateEvidence_def Let_def lookup_evidence_None [OF assms(1)] evidence_trusted_def)

abbreviation late_reasons :: "ExclusionReason list" where
  "late_reasons \<equiv>
     [ExclusionReason.kCapacityInsufficient, kServiceHeadroomUnmet, kServiceReservationUnmet,
      kReservationAffinityUnsatisfied, kLatencyBudgetExceeded, kEvidenceMissing, kEvidenceStale,
      kDuplicatePathEntry]"

definition verdict_is :: "ExclusionReason option \<Rightarrow> CandidateVerdict \<Rightarrow> bool" where
  "verdict_is x v \<longleftrightarrow>
     (case x of None \<Rightarrow> cv_legal v | Some k \<Rightarrow> \<not> cv_legal v \<and> cv_reason v = k)"

lemma verdict_is_simps [simp]:
  "verdict_is None v \<longleftrightarrow> cv_legal v"
  "verdict_is (Some k) v \<longleftrightarrow> \<not> cv_legal v \<and> cv_reason v = k"
  by (simp_all add: verdict_is_def)

lemma verdict_is_if: "verdict_is x (if b then v else w) \<longleftrightarrow> (if b then verdict_is x v else verdict_is x w)"
  "verdict_is (if b then x else y) v \<longleftrightarrow> (if b then verdict_is x v else verdict_is y v)"
  by simp_all

lemma EvaluateService_spec:
  assumes wf: "wf_request r l" and v: "\<not> cv_legal v" and c: "capacity_entry r (cp_id p) = Some c"
  shows "verdict_is (find (violates r p) late_reasons) (EvaluateService (Prepare r l) p c v)"
proof -
  let ?P = "Prepare r l"
  have headroom: "pc_residual_bytes c < pr_required_headroom_bytes ?P \<and>
      \<not> (sp_allow_degraded (pp_service (rq_policy (pr_request ?P))) \<and>
         1 \<le> sp_max_relaxation_steps (pp_service (rq_policy (pr_request ?P)))) \<longleftrightarrow>
      violates r p kServiceHeadroomUnmet"
    by (simp add: word_less_nat_alt Prepare_headroom [OF wf] c relaxable_def)
  have reservation: "(sr_reservation_required (pr_service ?P) \<and> pa_reservations (cp_attributes p) = []) \<and>
      \<not> (sp_allow_degraded (pp_service (rq_policy (pr_request ?P))) \<and>
         2 \<le> sp_max_relaxation_steps (pp_service (rq_policy (pr_request ?P)))) \<longleftrightarrow>
      violates r p kServiceReservationUnmet"
    by (simp add: RequirementFor_def ServiceRequiresReservation_def relaxable_def)
  have affinity: "ra_required (pp_reservation_affinity (rq_policy (pr_request ?P))) \<and>
      \<not> affinity_matched ?P p \<longleftrightarrow> violates r p kReservationAffinityUnsatisfied"
    by simp
  have latency: "qos_max_latency_nanos (rq_qos (pr_request ?P)) \<noteq> 0 \<and>
      qos_max_latency_nanos (rq_qos (pr_request ?P)) < pa_latency_nanos (cp_attributes p) \<longleftrightarrow>
      violates r p kLatencyBudgetExceeded"
    by simp
  have base: "pc_residual_bytes c < pr_required_base_bytes ?P \<longleftrightarrow>
      violates r p ExclusionReason.kCapacityInsufficient"
    by (simp add: c)
  have never: "\<not> violates r p kDuplicatePathEntry" by simp
  show ?thesis
    using v unfolding EvaluateService_def Let_def headroom reservation affinity latency base
    by (simp add: EvaluateEvidence_spec [OF wf] never verdict_is_if del: violates.simps)
qed

text \<open>
  The verdict of a candidate of a well-formed request: the first violated constraint in enumerator
  order, legal when there is none.
\<close>

lemma Evaluate_spec:
  assumes wf: "wf_request r l"
  shows "verdict_is (find (violates r p) all_reasons) (Evaluate (Prepare r l) p)"
proof -
  let ?P = "Prepare r l" and ?a = "cp_attributes p"
  define late where "late = late_reasons"
  have split: "all_reasons =
      [kPathAuthorityStale, kTierNotAllowed, kForbiddenLabel, kMissingRequiredLabel,
       kForbiddenLocality, kLocalityMismatch, kForbiddenFailureDomain,
       kRequiredFailureDomainMismatch, kFailureDomainOccupied, kCapacityUnknown] @ late"
    by (simp add: all_reasons_def late_def)
  have authority: "cp_authority p \<noteq> ex_path_authority (rq_expected (pr_request ?P)) \<longleftrightarrow>
      violates r p kPathAuthorityStale"
    by simp
  have tier: "pr_allowed_tiers ?P \<noteq> [] \<and> \<not> ContainsSorted (pr_allowed_tiers ?P) (pa_tier ?a) \<longleftrightarrow>
      violates r p kTierNotAllowed"
    by simp
  have forbidden: "list_ex (ContainsSorted (pr_forbidden_labels ?P)) (SortedUnique (pa_labels ?a)) \<longleftrightarrow>
      violates r p kForbiddenLabel"
    by (auto simp: SortedUnique_def list_ex_iff)
  have required: "list_ex (\<lambda>x. \<not> ContainsSorted (SortedUnique (pa_labels ?a)) x) (pr_required_labels ?P) \<longleftrightarrow>
      violates r p kMissingRequiredLabel"
    by (auto simp: SortedUnique_def list_ex_iff)
  have locality: "valid_id (pa_locality ?a) \<and> ContainsSorted (pr_forbidden_localities ?P) (pa_locality ?a) \<longleftrightarrow>
      violates r p kForbiddenLocality"
    by (auto simp: valid_id_def)
  have mismatch: "(case lc_required_locality (pp_locality (rq_policy (pr_request ?P))) of
      None \<Rightarrow> False | Some x \<Rightarrow> pa_locality ?a \<noteq> x) \<longleftrightarrow> violates r p kLocalityMismatch"
    by (auto split: option.splits)
  have domain: "valid_id (pa_failure_domain ?a) \<and> ContainsSorted (pr_forbidden_domains ?P) (pa_failure_domain ?a) \<longleftrightarrow>
      violates r p kForbiddenFailureDomain"
    by (auto simp: valid_id_def)
  have required_domain: "(case fd_required_domain (pp_failure_domains (rq_policy (pr_request ?P))) of
      None \<Rightarrow> False | Some x \<Rightarrow> pa_failure_domain ?a \<noteq> x) \<longleftrightarrow> violates r p kRequiredFailureDomainMismatch"
    by (auto split: option.splits)
  have occupied: "fd_avoid_occupied_domains (pp_failure_domains (rq_policy (pr_request ?P))) \<and>
      valid_id (pa_failure_domain ?a) \<and> ContainsSorted (pr_occupied_domains ?P) (pa_failure_domain ?a) \<longleftrightarrow>
      violates r p kFailureDomainOccupied"
    by (auto simp: valid_id_def)
  have capacity: "LookupById pc_path (pr_capacity_by_path ?P) (cp_id p) = capacity_entry r (cp_id p)"
    by (simp add: lookup_capacity [OF wf])
  have unknown: "violates r p kCapacityUnknown \<longleftrightarrow> capacity_entry r (cp_id p) = None" by simp
  have default: "\<not> cv_legal default_CandidateVerdict" by (simp add: default_CandidateVerdict_def)
  have service: "capacity_entry r (cp_id p) = Some c \<Longrightarrow>
      verdict_is (find (violates r p) late) (EvaluateService ?P p c default_CandidateVerdict)" for c
    unfolding late_def by (rule EvaluateService_spec [OF wf default])
  show ?thesis
    unfolding Evaluate_def Let_def authority tier forbidden required locality mismatch domain
      required_domain occupied capacity split
    using service
    by (cases "capacity_entry r (cp_id p)")
       (simp_all add: unknown default verdict_is_if del: violates.simps)
qed

text \<open>Legality and the reported reason, as separate facts.\<close>

lemma set_all_reasons [simp]: "set all_reasons = UNIV"
proof -
  have "k \<in> set all_reasons" for k by (cases k) (simp_all add: all_reasons_def)
  then show ?thesis by auto
qed

lemma sorted_all_reasons: "sorted_wrt (<) all_reasons"
  by (simp add: all_reasons_def less_ExclusionReason_def)

lemma find_sorted_Some:
  "sorted_wrt (<) (xs :: 'a::linorder list) \<Longrightarrow>
   find P xs = Some k \<longleftrightarrow> k \<in> set xs \<and> P k \<and> (\<forall>j \<in> set xs. j < k \<longrightarrow> \<not> P j)"
  by (induction xs) force+

lemma find_all_reasons:
  "find P all_reasons = None \<longleftrightarrow> (\<forall>k. \<not> P k)"
  "find P all_reasons = Some k \<longleftrightarrow> P k \<and> (\<forall>j < k. \<not> P j)"
  by (simp_all add: find_None_iff find_sorted_Some [OF sorted_all_reasons])

lemma Evaluate_legal_iff:
  "wf_request r l \<Longrightarrow> cv_legal (Evaluate (Prepare r l) p) \<longleftrightarrow> (\<forall>k. \<not> violates r p k)"
  using Evaluate_spec [of r l p] find_all_reasons(1) [of "violates r p"]
  by (cases "find (violates r p) all_reasons") auto

lemma Evaluate_reason_first:
  assumes "wf_request r l" "\<not> cv_legal (Evaluate (Prepare r l) p)"
  shows "violates r p (cv_reason (Evaluate (Prepare r l) p)) \<and>
         (\<forall>j < cv_reason (Evaluate (Prepare r l) p). \<not> violates r p j)"
  using Evaluate_spec [OF assms(1), of p] assms(2) find_all_reasons(2) [of "violates r p"]
  by (cases "find (violates r p) all_reasons") auto

end
