(* ===== verification/Flow_Ranking.thy ===== *)
theory Flow_Ranking
  imports Flow_Eligibility
begin

text \<open>
  The order of the legal candidates and the exclusion recorder. \<open>RankLess\<close> is a strict order on
  entries ranked by the same objectives and total on entries of distinct paths, so the sorted list is
  unique whatever the sorting algorithm; the recorder keeps exact counts, the lowest path ids as its
  sample and the lowest path as its example.
\<close>

section \<open>The rank order\<close>

lemma RankLess_keys_irrefl: "\<not> RankLess_keys xs xs False"
  by (induction xs) auto

lemma RankLess_keys_trans:
  assumes "map ov_direction xs = map ov_direction ys" "map ov_direction ys = map ov_direction zs"
    and "RankLess_keys xs ys (a < b)" "RankLess_keys ys zs (b < c)"
  shows "RankLess_keys xs zs (a < (c :: 'a::linorder))"
  using assms
proof (induction xs arbitrary: ys zs)
  case Nil
  then show ?case by auto
next
  case (Cons x xs)
  then obtain y ys' z zs' where yz: "ys = y # ys'" "zs = z # zs'" by (cases ys; cases zs; auto)
  show ?case
    using Cons.prems Cons.IH [of ys' zs'] unfolding yz
    by (auto split: if_splits)
qed

lemma RankLess_keys_total:
  "map ov_direction xs = map ov_direction ys \<Longrightarrow> a \<noteq> b \<Longrightarrow>
   RankLess_keys xs ys (a < b) \<or> RankLess_keys ys xs (b < (a :: 'a::linorder))"
  by (induction xs ys "a < b" rule: RankLess_keys.induct) auto

interpretation rank: strict_order_on "{e. map ov_direction (re_keys e) = ds}" RankLess for ds
proof
  fix x y z :: RankEntry
  assume "x \<in> {e. map ov_direction (re_keys e) = ds}"
    and "y \<in> {e. map ov_direction (re_keys e) = ds}" and "z \<in> {e. map ov_direction (re_keys e) = ds}"
  then have "map ov_direction (re_keys x) = map ov_direction (re_keys y)"
    "map ov_direction (re_keys y) = map ov_direction (re_keys z)"
    by simp_all
  moreover assume "RankLess x y" "RankLess y z"
  ultimately show "RankLess x z"
    unfolding RankLess_def by (rule RankLess_keys_trans)
qed (simp add: RankLess_def RankLess_keys_irrefl)

text \<open>The rank entry the scan builds for a legal candidate.\<close>

definition entry_of :: "PreparedRequest \<Rightarrow> CandidatePath \<Rightarrow> RankEntry" where
  "entry_of prepared p = BuildRankEntry prepared (Evaluate prepared p) p"

abbreviation directions :: "PreparedRequest \<Rightarrow> Direction list" where
  "directions prepared \<equiv> map ob_direction (pp_objectives (rq_policy (pr_request prepared)))"

lemma entry_of_simps [simp]:
  "re_path (entry_of prepared p) = p"
  "map ov_direction (re_keys (entry_of prepared p)) = directions prepared"
  "length (re_keys (entry_of prepared p)) = length (pp_objectives (rq_policy (pr_request prepared)))"
  by (simp_all add: entry_of_def BuildRankEntry_def Let_def objective_key_def)

lemma entry_of_total:
  assumes "distinct (map cp_id ps)" "x \<in> entry_of prepared ` set ps" "y \<in> entry_of prepared ` set ps" "x \<noteq> y"
  shows "RankLess x y \<or> RankLess y x"
proof -
  from assms obtain p q where pq: "p \<in> set ps" "q \<in> set ps" "x = entry_of prepared p" "y = entry_of prepared q"
    and "p \<noteq> q" by auto
  then have "cp_id p \<noteq> cp_id q" using assms(1) by (auto simp: distinct_map dest: inj_onD)
  then show ?thesis
    unfolding RankLess_def pq entry_of_simps by (intro RankLess_keys_total) simp_all
qed

lemma distinct_entries: "distinct (map cp_id ps) \<Longrightarrow> distinct (map (entry_of prepared) ps)"
  by (auto simp: distinct_map inj_on_def dest: arg_cong [where f = re_path])

text \<open>The facts about sorting entries that the stages of \<open>Place\<close> use.\<close>

lemma ranked_sorted:
  assumes "distinct (map cp_id ps)"
  shows "sorted_wrt RankLess (sort_by RankLess (map (entry_of prepared) ps))"
  using assms entry_of_total [OF assms]
  by (intro rank.sorted_sort_by [where ds = "directions prepared"]) (auto simp: distinct_entries)

lemma ranked_mset_cong:
  assumes "distinct (map cp_id ps)" "mset ps = mset qs"
  shows "sort_by RankLess (map (entry_of prepared) ps) = sort_by RankLess (map (entry_of prepared) qs)"
  using assms entry_of_total [OF assms(1)]
  by (intro rank.sort_by_mset_cong [where ds = "directions prepared"]) (auto simp: distinct_entries)

section \<open>The sample of lowest path ids\<close>

lemma sort_snoc: "sort (xs @ [x]) = insort x (sort xs)"
  by (rule properties_for_sort) (simp_all add: sorted_insort)

lemma take_insort: "sorted xs \<Longrightarrow> take n (insort x xs) = take n (insort x (take n xs))"
proof (induction xs arbitrary: n)
  case (Cons y ys)
  then show ?case by (cases n; cases "n - 1") auto
qed simp

lemma insort_snoc:
  assumes "sorted (us @ [z])"
  shows "insort x (us @ [z]) = (if x < z then insort x us @ [z] else us @ [z, x])"
proof -
  have "sort (x # us @ [z]) = (if x < z then insort x us @ [z] else us @ [z, x])"
    using assms by (intro properties_for_sort) (auto simp: sorted_append sorted_insort set_insort_key)
  then show ?thesis using assms by (simp add: sorted_sort_id)
qed

lemma sample_insert_take:
  "sample_insert m p (take (unat m) (sort ps)) = take (unat m) (sort (ps @ [p]))"
proof (cases "length ps < unat m")
  case True
  then show ?thesis by (simp add: sample_insert_def sort_snoc sorted_sort_id)
next
  case False
  define t where "t = take (unat m) (sort ps)"
  have len: "length t = unat m" using False by (simp add: t_def)
  have st: "sorted t" by (simp add: t_def)
  have "take (unat m) (sort (ps @ [p])) = take (unat m) (insort p t)"
    by (simp add: sort_snoc t_def take_insort [of "sort ps"])
  also have "\<dots> = sample_insert m p t"
  proof (cases t rule: rev_cases)
    case Nil
    then show ?thesis using len by (simp add: sample_insert_def)
  next
    case (snoc us z)
    then have n: "unat m = Suc (length us)" using len by simp
    show ?thesis
      using st by (auto simp: snoc n sample_insert_def insort_snoc sort_snoc sorted_append sorted_sort_id)
  qed
  finally show ?thesis by (simp add: t_def)
qed

section \<open>The recorder keeps exact counts and order-independent samples\<close>

type_synonym exclusion = "ExclusionReason \<times> CandidateVerdict \<times> PathId"

definition excluded_paths :: "exclusion list \<Rightarrow> ExclusionReason \<Rightarrow> PathId list" where
  "excluded_paths xs k = map (snd \<circ> snd) (filter (\<lambda>x. fst x = k) xs)"

definition record_all :: "u64 \<Rightarrow> u64 \<Rightarrow> exclusion list \<Rightarrow> ExclusionRecorder" where
  "record_all M m xs = fold (\<lambda>(k, v, p). Recorder_Add k v p) xs (ExclusionRecorder_init M m)"

text \<open>
  The entry of a reason whose excluded paths are \<open>ps\<close>, where \<open>vf\<close> gives the verdict of a path.
\<close>

definition recorder_entry :: "(PathId \<Rightarrow> CandidateVerdict) \<Rightarrow> u64 \<Rightarrow> ExclusionReason \<Rightarrow> PathId list \<Rightarrow> RecorderEntry" where
  "recorder_entry vf m k ps =
     \<lparr>en_summary = \<lparr>es_reason = k, es_count = word_of_nat (length ps), es_sample = take (unat m) (sort ps)\<rparr>,
      en_required = cv_required (vf (Min (set ps))), en_available = cv_available (vf (Min (set ps))),
      en_example = Min (set ps)\<rparr>"

definition recorder_state :: "(PathId \<Rightarrow> CandidateVerdict) \<Rightarrow> u64 \<Rightarrow> u64 \<Rightarrow> exclusion list \<Rightarrow> ExclusionRecorder" where
  "recorder_state vf M m xs =
     \<lparr>er_entries = (\<lambda>k. if excluded_paths xs k = [] then None
                         else Some (recorder_entry vf m k (excluded_paths xs k))),
      er_max_reasons = M, er_max_samples = m,
      er_truncated = (\<exists>k. unat m < length (excluded_paths xs k))\<rparr>"

lemma excluded_paths_snoc [simp]:
  "excluded_paths (xs @ [(k, v, p)]) j = excluded_paths xs j @ (if j = k then [p] else [])"
  by (simp add: excluded_paths_def)

lemma length_er_keys_None:
  assumes "er_entries r k = None" shows "length (er_keys r) < 18"
proof -
  have "length (er_keys r) < length all_reasons"
    unfolding er_keys_def by (rule length_filter_less [of k]) (simp_all add: assms)
  then show ?thesis by (simp add: all_reasons_def)
qed

lemma truncated_snoc:
  "(\<exists>j. unat m < length (excluded_paths (xs @ [(k, v, p)]) j)) \<longleftrightarrow>
   (\<exists>j. unat m < length (excluded_paths xs j)) \<or> unat m \<le> length (excluded_paths xs k)"
  (is "?new \<longleftrightarrow> ?old \<or> ?here")
proof
  assume ?new
  then obtain j where "unat m < length (excluded_paths (xs @ [(k, v, p)]) j)" by blast
  then show "?old \<or> ?here" by (cases "j = k") auto
next
  assume "?old \<or> ?here"
  then show ?new
  proof
    assume ?old
    then obtain j where "unat m < length (excluded_paths xs j)" by blast
    then show ?new by (intro exI [of _ j]) simp
  qed (intro exI [of _ k], simp)
qed

lemma recorder_state_snoc:
  "recorder_state vf M m (xs @ [(k, v, p)]) = (recorder_state vf M m xs)\<lparr>
     er_entries := (er_entries (recorder_state vf M m xs))
       (k \<mapsto> recorder_entry vf m k (excluded_paths xs k @ [p])),
     er_truncated := er_truncated (recorder_state vf M m xs) \<or> unat m \<le> length (excluded_paths xs k)\<rparr>"
  unfolding recorder_state_def truncated_snoc by (simp add: fun_eq_iff)

lemma Recorder_Add_state:
  assumes "18 \<le> unat M" "v = vf p"
  shows "Recorder_Add k v p (recorder_state vf M m xs) = recorder_state vf M m (xs @ [(k, v, p)])"
proof (cases "excluded_paths xs k = []")
  case True
  let ?r = "recorder_state vf M m xs"
  have none: "er_entries ?r k = None" by (simp add: recorder_state_def True)
  have room: "\<not> unat M \<le> length (er_keys ?r)" using length_er_keys_None [OF none] assms(1) by linarith
  have max: "er_max_reasons ?r = M" by (simp add: recorder_state_def)
  have one: "sample_insert m p [] = take (unat m) [p]" using sample_insert_take [of m p "[]"] by simp
  show ?thesis
    unfolding Recorder_Add_def
    by (simp add: none room max recorder_state_snoc)
       (auto simp: Recorder_bump_def recorder_state_def recorder_entry_def True one assms(2) Let_def)
next
  case False
  have min: "Min (set (excluded_paths xs k @ [p])) =
      (if p < Min (set (excluded_paths xs k)) then p else Min (set (excluded_paths xs k)))"
    using False by (simp add: min_def order.order_iff_strict del: Min_gr_iff Min_less_iff)
  show ?thesis
    using False
    unfolding recorder_state_snoc
    by (auto simp: Recorder_Add_def Recorder_bump_def recorder_state_def recorder_entry_def
        sample_insert_take min assms(2) Let_def simp del: set_append)
qed

lemma record_all_state:
  assumes "18 \<le> unat M" "\<forall>(k, v, p) \<in> set xs. v = vf p"
  shows "record_all M m xs = recorder_state vf M m xs"
  using assms(2)
proof (induction xs rule: rev_induct)
  case Nil
  then show ?case by (simp add: record_all_def ExclusionRecorder_init_def recorder_state_def excluded_paths_def)
next
  case (snoc x xs)
  obtain k v p where x: "x = (k, v, p)" by (cases x)
  have "record_all M m (xs @ [x]) = Recorder_Add k v p (record_all M m xs)"
    by (simp add: record_all_def x)
  also have "\<dots> = recorder_state vf M m (xs @ [x])"
    using snoc Recorder_Add_state [OF assms(1)] by (auto simp: x)
  finally show ?case .
qed

lemma mset_excluded_paths: "mset xs = mset ys \<Longrightarrow> mset (excluded_paths xs k) = mset (excluded_paths ys k)"
  by (simp add: excluded_paths_def)

lemma recorder_state_mset_cong:
  assumes "mset xs = mset ys"
  shows "recorder_state vf M m xs = recorder_state vf M m ys"
proof -
  note e = mset_excluded_paths [OF assms]
  have "length (excluded_paths xs k) = length (excluded_paths ys k)"
    "sort (excluded_paths xs k) = sort (excluded_paths ys k)"
    "set (excluded_paths xs k) = set (excluded_paths ys k)"
    "excluded_paths xs k = [] \<longleftrightarrow> excluded_paths ys k = []" for k
    using e [of k] mset_eq_length sort_mset_cong mset_eq_setD by (blast, blast, blast, metis mset_zero_iff)
  then show ?thesis by (simp add: recorder_state_def recorder_entry_def cong: if_cong)
qed

end
