(* ===== verification/Flow_Decision.thy ===== *)
theory Flow_Decision
  imports Flow_Ranking
begin

text \<open>
  What a decision of the engine guarantees. The scan of the candidates is put in closed form, the
  stages of \<open>Place\<close> are traced through the fields of the decision, and the properties follow: an
  intent is produced exactly for a placed outcome, it names a listed candidate that violates no hard
  constraint, it passes self-verification, and it is the best-ranked legal candidate or the retained
  incumbent.
\<close>

section \<open>Projections of the stages\<close>

lemma explain_simps [simp]:
  "de_outcome (explain f d) = de_outcome d" "de_code (explain f d) = de_code d"
  "de_intent (explain f d) = de_intent d" "de_authority (explain f d) = de_authority d"
  "de_delta (explain f d) = de_delta d" "de_explanation (explain f d) = f (de_explanation d)"
  "de_validation (explain f d) = de_validation d"
  by (simp_all add: explain_def)

lemma set_outcome_simps [simp]:
  "de_outcome (set_outcome o' c d) = o'" "de_code (set_outcome o' c d) = c"
  "de_intent (set_outcome o' c d) = de_intent d" "de_authority (set_outcome o' c d) = de_authority d"
  "de_delta (set_outcome o' c d) = de_delta d" "de_explanation (set_outcome o' c d) = de_explanation d"
  "de_validation (set_outcome o' c d) = de_validation d"
  by (simp_all add: set_outcome_def)

lemma with_digest_simps [simp]:
  "de_outcome (with_digest d) = de_outcome d" "de_code (with_digest d) = de_code d"
  "de_intent (with_digest d) = de_intent d" "de_authority (with_digest d) = de_authority d"
  "de_delta (with_digest d) = de_delta d" "de_explanation (with_digest d) = de_explanation d"
  "de_validation (with_digest d) = de_validation d"
  "de_digest (with_digest d) = DecisionDigest (with_digest d)"
  by (simp_all add: with_digest_def)

lemma default_PlacementDecision_simps [simp]:
  "de_intent default_PlacementDecision = None"
  "de_outcome default_PlacementDecision = Outcome.kNoLegalPath"
  "de_delta default_PlacementDecision = IncumbentDelta.kNoIncumbent"
  "de_explanation default_PlacementDecision = default_Explanation"
  "de_validation default_PlacementDecision = Status_Ok"
  by (simp_all add: default_PlacementDecision_def)

lemma default_Explanation_simps [simp]:
  "xp_notes default_Explanation = []" "xp_binding default_Explanation = []"
  "xp_degradations default_Explanation = []" "xp_ranked default_Explanation = []"
  "xp_exclusions default_Explanation = []" "xp_truncated default_Explanation = False"
  by (simp_all add: default_Explanation_def)

lemma AddNote_simps [simp]:
  "xp_degradations (AddNote n x) = xp_degradations x" "xp_binding (AddNote n x) = xp_binding x"
  "xp_ranked (AddNote n x) = xp_ranked x" "xp_exclusions (AddNote n x) = xp_exclusions x"
  "xp_candidate_count (AddNote n x) = xp_candidate_count x"
  "xp_legal_candidate_count (AddNote n x) = xp_legal_candidate_count x"
  "xp_excluded_candidate_count (AddNote n x) = xp_excluded_candidate_count x"
  "xp_unknown_evidence_count (AddNote n x) = xp_unknown_evidence_count x"
  "xp_distinct_failure_domains (AddNote n x) = xp_distinct_failure_domains x"
  by (simp_all add: AddNote_def)

lemma AddBinding_simps [simp]:
  "xp_degradations (AddBinding k p q a lb x) = xp_degradations x"
  "xp_notes (AddBinding k p q a lb x) = xp_notes x"
  "xp_ranked (AddBinding k p q a lb x) = xp_ranked x"
  "xp_exclusions (AddBinding k p q a lb x) = xp_exclusions x"
  "xp_candidate_count (AddBinding k p q a lb x) = xp_candidate_count x"
  "xp_legal_candidate_count (AddBinding k p q a lb x) = xp_legal_candidate_count x"
  "xp_excluded_candidate_count (AddBinding k p q a lb x) = xp_excluded_candidate_count x"
  "xp_unknown_evidence_count (AddBinding k p q a lb x) = xp_unknown_evidence_count x"
  "xp_distinct_failure_domains (AddBinding k p q a lb x) = xp_distinct_failure_domains x"
  by (simp_all add: AddBinding_def)

lemma AddDegradation_simps [simp]:
  "set (xp_degradations (AddDegradation f x)) = insert f (set (xp_degradations x))"
  "xp_notes (AddDegradation f x) = xp_notes x" "xp_binding (AddDegradation f x) = xp_binding x"
  "xp_ranked (AddDegradation f x) = xp_ranked x" "xp_exclusions (AddDegradation f x) = xp_exclusions x"
  "xp_candidate_count (AddDegradation f x) = xp_candidate_count x"
  "xp_legal_candidate_count (AddDegradation f x) = xp_legal_candidate_count x"
  "xp_excluded_candidate_count (AddDegradation f x) = xp_excluded_candidate_count x"
  "xp_unknown_evidence_count (AddDegradation f x) = xp_unknown_evidence_count x"
  "xp_distinct_failure_domains (AddDegradation f x) = xp_distinct_failure_domains x"
  by (auto simp: AddDegradation_def)

lemma Reject_simps [simp]:
  "de_intent (Reject c m) = None" "de_code (Reject c m) = c"
  "de_outcome (Reject c m) = OutcomeForValidationCode c"
  "de_delta (Reject c m) = IncumbentDelta.kNoIncumbent"
  by (simp_all add: Reject_def Let_def)

section \<open>The scan in closed form\<close>

definition legal_paths :: "PreparedRequest \<Rightarrow> CandidatePath list" where
  "legal_paths prepared =
     filter (\<lambda>p. cv_legal (Evaluate prepared p)) (cs_paths (rq_candidates (pr_request prepared)))"

definition exclusions_of :: "PreparedRequest \<Rightarrow> exclusion list" where
  "exclusions_of prepared =
     map (\<lambda>p. (cv_reason (Evaluate prepared p), Evaluate prepared p, cp_id p))
       (filter (\<lambda>p. \<not> cv_legal (Evaluate prepared p)) (cs_paths (rq_candidates (pr_request prepared))))"

lemma scan_fold:
  "fold (scan_step P) ps s =
     s\<lparr>sc_exclusions := fold (\<lambda>(k, v, p). Recorder_Add k v p)
         (map (\<lambda>p. (cv_reason (Evaluate P p), Evaluate P p, cp_id p))
           (filter (\<lambda>p. \<not> cv_legal (Evaluate P p)) ps)) (sc_exclusions s),
       sc_legal := sc_legal s @ map (entry_of P) (filter (\<lambda>p. cv_legal (Evaluate P p)) ps),
       sc_legal_domains := sc_legal_domains s @
         filter valid_id (map (\<lambda>p. pa_failure_domain (cp_attributes p)) (filter (\<lambda>p. cv_legal (Evaluate P p)) ps)),
       sc_unknown := sc_unknown s +
         word_of_nat (length (filter re_has_unknown (map (entry_of P) (filter (\<lambda>p. cv_legal (Evaluate P p)) ps))))\<rparr>"
  by (induction ps arbitrary: s) (simp_all add: scan_step_def Let_def flip: entry_of_def)

lemma scan_candidates_simps:
  "sc_legal (scan_candidates P) = map (entry_of P) (legal_paths P)"
  "sc_exclusions (scan_candidates P) =
     record_all (max_exclusion_reasons (pr_limits P)) (max_exclusion_samples (pr_limits P)) (exclusions_of P)"
  "sc_legal_domains (scan_candidates P) =
     filter valid_id (map (\<lambda>p. pa_failure_domain (cp_attributes p)) (legal_paths P))"
  "sc_unknown (scan_candidates P) =
     word_of_nat (length (filter re_has_unknown (map (entry_of P) (legal_paths P))))"
  by (simp_all add: scan_candidates_def scan_fold scan_init_def record_all_def legal_paths_def exclusions_of_def)

section \<open>The branches of Place\<close>

definition fresh :: "PlacementRequest \<Rightarrow> bool" where
  "fresh r \<longleftrightarrow>
     cs_generation (rq_candidates r) = ex_candidate_set (rq_expected r) \<and>
     cap_generation (rq_capacity r) = ex_capacity (rq_expected r) \<and>
     pp_generation (rq_policy r) = ex_policy (rq_expected r) \<and>
     qos_generation (rq_qos r) = ex_qos (rq_expected r)"

lemma stale_checks_None: "find fst (stale_checks r) = None \<longleftrightarrow> fresh r"
  by (simp add: stale_checks_def fresh_def Let_def)

lemma Place_not_wf: "\<not> wf_request r l \<Longrightarrow> Place l r = Place_invalid r (ValidateRequest r l)"
  by (simp add: Place_def Let_def ValidateRequest_ok_wf)

lemma Place_not_fresh:
  assumes "wf_request r l" "find fst (stale_checks r) = Some (b, c, m)"
  shows "Place l r = Place_stale c m (initial_decision r)"
  using assms by (simp add: Place_def Let_def ValidateRequest_ok_wf)

definition summarised :: "PlacementRequest \<Rightarrow> Limits \<Rightarrow> PlacementDecision" where
  "summarised r l =
     Place_summarise (Prepare r l) (scan_candidates (Prepare r l))
       ((initial_decision r)\<lparr>de_delta := initial_delta (Prepare r l)\<rparr>)"

lemma Place_fresh:
  assumes "wf_request r l" "fresh r"
  shows "Place l r =
    (if legal_paths (Prepare r l) = [] then Place_empty (scan_candidates (Prepare r l)) (summarised r l)
     else if diversity_unmet (Prepare r l) (summarised r l) then Place_diversity (Prepare r l) (summarised r l)
     else Place_legal (Prepare r l) (map (entry_of (Prepare r l)) (legal_paths (Prepare r l))) (summarised r l))"
  using assms stale_checks_None [of r]
  by (simp add: Place_def Let_def ValidateRequest_ok_wf Place_prepared_def Prepare_headroom(2)
      scan_candidates_simps summarised_def)

lemma Place_branches:
  obtains (invalid) "\<not> wf_request r l" "Place l r = Place_invalid r (ValidateRequest r l)"
  | (stale) b c m where "wf_request r l" "\<not> fresh r" "find fst (stale_checks r) = Some (b, c, m)"
      "Place l r = Place_stale c m (initial_decision r)"
  | (empty) "wf_request r l" "fresh r" "legal_paths (Prepare r l) = []"
      "Place l r = Place_empty (scan_candidates (Prepare r l)) (summarised r l)"
  | (diversity) "wf_request r l" "fresh r" "legal_paths (Prepare r l) \<noteq> []"
      "diversity_unmet (Prepare r l) (summarised r l)"
      "Place l r = Place_diversity (Prepare r l) (summarised r l)"
  | (legal) "wf_request r l" "fresh r" "legal_paths (Prepare r l) \<noteq> []"
      "\<not> diversity_unmet (Prepare r l) (summarised r l)"
      "Place l r = Place_legal (Prepare r l)
         (map (entry_of (Prepare r l)) (legal_paths (Prepare r l))) (summarised r l)"
proof (cases "wf_request r l")
  case False
  then show ?thesis using invalid Place_not_wf by blast
next
  case wf: True
  show ?thesis
  proof (cases "find fst (stale_checks r)")
    case None
    then have "fresh r" by (simp add: stale_checks_None)
    then show ?thesis using Place_fresh [OF wf] empty diversity legal wf by (metis (full_types))
  next
    case (Some x)
    then have "\<not> fresh r" using stale_checks_None [of r] by simp
    then show ?thesis using Some Place_not_fresh [OF wf] stale wf by (metis prod_cases3)
  qed
qed

section \<open>The chosen candidate\<close>

text \<open>The incumbent is retained against a better-ranked candidate.\<close>

definition retained :: "PreparedRequest \<Rightarrow> RankEntry list \<Rightarrow> bool" where
  "retained P legal \<longleftrightarrow>
     (case rq_incumbent (pr_request P) of
        None \<Rightarrow> False
      | Some inc \<Rightarrow>
          let churn = pp_churn (rq_policy (pr_request P));
              i = index_of_path (inc_path inc) legal;
              t = unat (ch_threshold_objective_index churn) in
          pr_incumbent_eligible P \<and> ch_prefer_incumbent churn \<and> 0 < i \<and> i < length legal \<and>
          improvement_over (re_keys (legal ! 0) ! t) (re_keys (legal ! i) ! t) \<le> ch_move_improvement_threshold churn)"

definition churn_index :: "PreparedRequest \<Rightarrow> RankEntry list \<Rightarrow> nat" where
  "churn_index P legal =
     (if retained P legal then index_of_path (inc_path (the (rq_incumbent (pr_request P)))) legal else 0)"

lemma fst_Place_churn [simp]: "fst (Place_churn P legal d) = churn_index P legal"
  by (simp add: Place_churn_def churn_index_def retained_def Let_def split: option.splits)

lemma Place_churn_simps [simp]:
  "de_intent (snd (Place_churn P legal d)) = de_intent d"
  "de_authority (snd (Place_churn P legal d)) = de_authority d"
  "de_delta (snd (Place_churn P legal d)) = de_delta d"
  "de_validation (snd (Place_churn P legal d)) = de_validation d"
  "xp_ranked (de_explanation (snd (Place_churn P legal d))) = xp_ranked (de_explanation d)"
  by (simp_all add: Place_churn_def Let_def split: option.splits)

lemma churn_index_bound: "legal \<noteq> [] \<Longrightarrow> churn_index P legal < length legal"
  by (auto simp: churn_index_def retained_def Let_def split: option.splits)

lemma index_of_path_found:
  "index_of_path i legal < length legal \<Longrightarrow> cp_id (re_path (legal ! index_of_path i legal)) = i"
  by (induction legal) (auto split: if_splits)

lemma index_of_path_notin: "\<not> index_of_path i legal < length legal \<longleftrightarrow> i \<notin> cp_id ` re_path ` set legal"
  by (induction legal) auto

definition ranking :: "PreparedRequest \<Rightarrow> RankEntry list" where
  "ranking P = sort_by RankLess (map (entry_of P) (legal_paths P))"

definition chosen :: "PreparedRequest \<Rightarrow> RankEntry" where
  "chosen P = ranking P ! churn_index P (ranking P)"

lemma ranking_simps [simp]:
  "set (ranking P) = entry_of P ` set (legal_paths P)"
  "length (ranking P) = length (legal_paths P)"
  "ranking P = [] \<longleftrightarrow> legal_paths P = []"
  by (simp_all add: ranking_def)

lemma chosen_legal:
  assumes "legal_paths P \<noteq> []"
  obtains p where "p \<in> set (legal_paths P)" "chosen P = entry_of P p"
proof -
  have "chosen P \<in> set (ranking P)"
    unfolding chosen_def using assms churn_index_bound [of "ranking P" P] by (intro nth_mem) simp
  then show ?thesis using that by auto
qed

lemma legal_paths_subset: "set (legal_paths P) \<subseteq> set (cs_paths (rq_candidates (pr_request P)))"
  by (auto simp: legal_paths_def)

lemma distinct_legal_paths:
  "wf_request r l \<Longrightarrow> distinct (map cp_id (legal_paths (Prepare r l)))"
  using wf_request_distinct(1) [of r l] by (simp add: legal_paths_def distinct_map_filter)

section \<open>Self-verification always succeeds\<close>

lemma min_element_mem: "min_element x xs \<in> insert x (set xs)"
  unfolding min_element_Min by (rule Min_in) auto

lemma chosen_reservation_carried:
  "ReservationRef_valid (chosen_reservation P p) \<Longrightarrow>
   chosen_reservation P p \<in> set (pa_reservations (cp_attributes p))"
  using min_element_mem [of "hd (pa_reservations (cp_attributes p))" "tl (pa_reservations (cp_attributes p))"]
  by (cases "pa_reservations (cp_attributes p)")
     (auto simp: chosen_reservation_def Let_def ReservationRef_none_def ReservationRef_valid_def valid_id_def
       split: if_splits option.splits dest!: find_Some_sat)

lemma VerifyIntent_bound_Place_intent:
  assumes "wf_request r l" "\<not> violates r p kPathAuthorityStale"
  shows "VerifyIntent_bound r (Place_intent (Prepare r l) (entry_of (Prepare r l) p)) = None"
  using assms
  by (auto simp: VerifyIntent_bound_def Place_intent_def Let_def valid_id_def evidence_trusted_def
      evidence_supplied_def)

lemma VerifyIntent_Place_intent:
  assumes wf: "wf_request r l" and p: "p \<in> set (legal_paths (Prepare r l))"
  shows "VerifyIntent l r (Place_intent (Prepare r l) (entry_of (Prepare r l) p)) = None"
proof -
  let ?i = "Place_intent (Prepare r l) (entry_of (Prepare r l) p)"
  have legal: "cv_legal (Evaluate (Prepare r l) p)" using p by (simp add: legal_paths_def)
  then have ok: "\<not> violates r p k" for k using Evaluate_legal_iff [OF wf] by blast
  have "LookupById cp_id (SortPointersById cp_id (cs_paths (rq_candidates r))) (in_path ?i) = Some p"
    using p candidate_index.lookup_member [OF wf_request_distinct(1) [OF wf], of p]
    by (simp add: Place_intent_def Let_def legal_paths_def)
  moreover have "in_path_authority ?i = cp_authority p" by (simp add: Place_intent_def Let_def)
  moreover have "in_reservation ?i = chosen_reservation (Prepare r l) p" by (simp add: Place_intent_def Let_def)
  ultimately show ?thesis
    using VerifyIntent_bound_Place_intent [OF wf ok] wf legal chosen_reservation_carried [of "Prepare r l" p]
    by (simp add: VerifyIntent_def ValidateRequest_ok_wf Let_def)
qed

section \<open>Placing a chosen candidate\<close>

lemma Place_legal_eq:
  assumes wf: "wf_request r l" and ne: "legal_paths (Prepare r l) \<noteq> []"
  defines "P \<equiv> Prepare r l"
  shows "Place_legal P (map (entry_of P) (legal_paths P)) d =
    (let d' = snd (Place_churn P (ranking P) (Place_ranked P (ranking P) d)) in
     if move_deferred P (ranking P) (churn_index P (ranking P)) then Place_move_deferred P d'
     else case Place_admission P (chosen P) d' of
            Inl x \<Rightarrow> x
          | Inr x \<Rightarrow> Place_accept P (chosen P) (Place_intent P (chosen P))
                      (Place_delta P (chosen P) (Place_flags P (chosen P) x)))"
proof -
  obtain p where p: "p \<in> set (legal_paths P)" "chosen P = entry_of P p"
    using ne chosen_legal unfolding P_def by blast
  have "VerifyIntent (pr_limits P) (pr_request P) (Place_intent P (chosen P)) = None"
    using VerifyIntent_Place_intent [OF wf] p unfolding P_def by simp
  then show ?thesis
    unfolding Place_legal_def Let_def ranking_def [symmetric] split_beta fst_Place_churn Place_chosen_def
      chosen_def [symmetric]
    by (simp split: sum.split)
qed


text \<open>The three ways a request with a legal candidate ends.\<close>

definition gate_closed :: "PreparedRequest \<Rightarrow> RankEntry \<Rightarrow> bool" where
  "gate_closed P e \<longleftrightarrow>
     (let gate = pp_admission (rq_policy (pr_request P)) in
      ag_min_residual_headroom_bytes gate \<noteq> 0 \<and> residual_of e < ag_min_residual_headroom_bytes gate \<and>
      ag_on_below gate = GateAction.kDefer)"

definition admitted :: "PreparedRequest \<Rightarrow> RankEntry \<Rightarrow> PlacementDecision \<Rightarrow> PlacementDecision" where
  "admitted P e d =
     (let minimum = ag_min_residual_headroom_bytes (pp_admission (rq_policy (pr_request P))) in
      if minimum \<noteq> 0 \<and> residual_of e < minimum
      then explain (AddBinding ExclusionReason.kCapacityInsufficient (cp_id (re_path e)) minimum
                     (residual_of e) ''admission gate'')
             (explain (AddDegradation kHeadroomBelowComfort) d)
      else d)"

definition gate_deferred :: "PreparedRequest \<Rightarrow> RankEntry \<Rightarrow> PlacementDecision \<Rightarrow> PlacementDecision" where
  "gate_deferred P e d =
     with_digest
        (explain (AddNote ''residual capacity headroom is below the admission gate; the decision is deferred'')
          (explain (AddBinding ExclusionReason.kCapacityInsufficient (cp_id (re_path e))
                     (ag_min_residual_headroom_bytes (pp_admission (rq_policy (pr_request P))))
                     (residual_of e) ''admission gate'')
            (set_outcome Outcome.kDeferred kPolicyHeadroomGate d)))"

lemma Place_admission_eq:
  "Place_admission P e d = (if gate_closed P e then Inl (gate_deferred P e d) else Inr (admitted P e d))"
  by (simp add: Place_admission_def gate_closed_def gate_deferred_def admitted_def Let_def)

lemma admitted_simps [simp]:
  "de_intent (admitted P e d) = de_intent d" "de_delta (admitted P e d) = de_delta d"
  by (simp_all add: admitted_def Let_def)

lemma Place_flags_delta_simps [simp]:
  "de_intent (Place_flags P e d) = de_intent d" "de_intent (Place_delta P e d) = de_intent d"
  "de_delta (Place_flags P e d) = de_delta d"
  by (simp_all add: Place_flags_def Place_delta_def Let_def split: option.splits)

lemma Place_summarise_simps [simp]:
  "de_intent (Place_summarise P s d) = de_intent d" "de_delta (Place_summarise P s d) = de_delta d"
  "xp_ranked (de_explanation (Place_summarise P s d)) = xp_ranked (de_explanation d)"
  "xp_degradations (de_explanation (Place_summarise P s d)) = xp_degradations (de_explanation d)"
  "xp_binding (de_explanation (Place_summarise P s d)) = xp_binding (de_explanation d)"
  "xp_exclusions (de_explanation (Place_summarise P s d)) = Recorder_Summaries (sc_exclusions s)"
  "xp_candidate_count (de_explanation (Place_summarise P s d)) = xp_candidate_count (de_explanation d)"
  "xp_legal_candidate_count (de_explanation (Place_summarise P s d)) = word_of_nat (length (sc_legal s))"
  "xp_excluded_candidate_count (de_explanation (Place_summarise P s d)) =
     xp_candidate_count (de_explanation d) - word_of_nat (length (sc_legal s))"
  "xp_distinct_failure_domains (de_explanation (Place_summarise P s d)) =
     word_of_nat (length (remdups_adj (sort (sc_legal_domains s))))"
  by (simp_all add: Place_summarise_def Let_def)

lemma Place_ranked_simps [simp]:
  "de_intent (Place_ranked P legal d) = de_intent d" "de_delta (Place_ranked P legal d) = de_delta d"
  by (simp_all add: Place_ranked_def Let_def)

lemma initial_decision_simps [simp]:
  "de_intent (initial_decision r) = None"
  "xp_candidate_count (de_explanation (initial_decision r)) = word_of_nat (length (cs_paths (rq_candidates r)))"
  "xp_ranked (de_explanation (initial_decision r)) = []" "xp_degradations (de_explanation (initial_decision r)) = []"
  "xp_binding (de_explanation (initial_decision r)) = []" "xp_notes (de_explanation (initial_decision r)) = []"
  by (simp_all add: initial_decision_def)

lemma summarised_simps [simp]:
  "de_intent (summarised r l) = None" "de_delta (summarised r l) = initial_delta (Prepare r l)"
  "xp_ranked (de_explanation (summarised r l)) = []"
  "xp_degradations (de_explanation (summarised r l)) = []"
  by (simp_all add: summarised_def)

definition accepted :: "PlacementRequest \<Rightarrow> Limits \<Rightarrow> PlacementDecision" where
  "accepted r l =
     (let P = Prepare r l;
          d = snd (Place_churn P (ranking P) (Place_ranked P (ranking P) (summarised r l)));
          d = admitted P (chosen P) d
      in Place_accept P (chosen P) (Place_intent P (chosen P))
           (Place_delta P (chosen P) (Place_flags P (chosen P) d)))"

text \<open>Whether the request has a placement, decided on the request alone.\<close>

definition placeable :: "PlacementRequest \<Rightarrow> Limits \<Rightarrow> bool" where
  "placeable r l \<longleftrightarrow>
     wf_request r l \<and> fresh r \<and> legal_paths (Prepare r l) \<noteq> [] \<and>
     \<not> diversity_unmet (Prepare r l) (summarised r l) \<and>
     \<not> move_deferred (Prepare r l) (ranking (Prepare r l)) (churn_index (Prepare r l) (ranking (Prepare r l))) \<and>
     \<not> gate_closed (Prepare r l) (chosen (Prepare r l))"

lemma Place_placeable: "placeable r l \<Longrightarrow> Place l r = accepted r l"
  unfolding placeable_def
  by (simp add: Place_fresh Place_legal_eq Let_def accepted_def Place_admission_eq)

lemma accepted_simps [simp]:
  "de_intent (accepted r l) = Some (Place_intent (Prepare r l) (chosen (Prepare r l)))"
  "placed (accepted r l)" "de_code (accepted r l) = kOk"
  by (simp_all add: accepted_def Place_accept_def Let_def placed_def)

lemma classify_empty_outcome:
  assumes "classify_empty e n s = (x, c, m)"
  shows "x \<notin> {Outcome.kPlaced, Outcome.kPlacedDegraded, Outcome.kDeferred}"
    and "c \<notin> {kInternalInvariantViolation, kOk}"
  using assms by (auto simp: classify_empty_def split: if_splits)

lemma stale_checks_codes:
  "find fst (stale_checks r) = Some (b, c, m) \<Longrightarrow>
   c \<in> {kStaleCandidateSet, kStaleCapacitySnapshot, kStalePolicy, kStaleQos}"
  by (auto simp: stale_checks_def Let_def split: if_splits)

lemma Place_empty_simps:
  "de_intent (Place_empty s d) = de_intent d" "de_delta (Place_empty s d) = de_delta d"
  "de_outcome (Place_empty s d) =
     fst (classify_empty (sc_exclusions s) (xp_candidate_count (de_explanation d)) (xp_exclusions (de_explanation d)))"
  "de_code (Place_empty s d) =
     fst (snd (classify_empty (sc_exclusions s) (xp_candidate_count (de_explanation d)) (xp_exclusions (de_explanation d))))"
  by (simp_all add: Place_empty_def Let_def split: prod.splits option.splits)

text \<open>Every request that is not placeable ends without an intent.\<close>

lemma Place_not_placeable:
  assumes "\<not> placeable r l"
  shows "de_intent (Place l r) = None \<and> \<not> placed (Place l r) \<and>
         de_code (Place l r) \<notin> {kInternalInvariantViolation, kOk}"
proof (cases rule: Place_branches [of r l])
  case invalid
  have "st_code (ValidateRequest r l) \<noteq> kOk"
    using invalid(1) ValidateRequest_ok_wf [of r l] by (simp add: Status_ok_def)
  then show ?thesis
    using invalid ValidateRequest_code [of r l]
    by (auto simp: Place_invalid_def Let_def placed_def OutcomeForValidationCode_def validation_codes_def)
next
  case (stale b c m)
  then show ?thesis
    using stale_checks_codes [of r] by (auto simp: Place_stale_def Let_def placed_def)
next
  case empty
  obtain x c m where "classify_empty (sc_exclusions (scan_candidates (Prepare r l)))
      (xp_candidate_count (de_explanation (summarised r l)))
      (xp_exclusions (de_explanation (summarised r l))) = (x, c, m)"
    by (metis prod_cases3)
  then show ?thesis
    using empty classify_empty_outcome by (auto simp: Place_empty_simps placed_def)
next
  case diversity
  then show ?thesis by (simp add: Place_diversity_def Let_def placed_def)
next
  case legal
  then have "move_deferred (Prepare r l) (ranking (Prepare r l)) (churn_index (Prepare r l) (ranking (Prepare r l))) \<or>
      gate_closed (Prepare r l) (chosen (Prepare r l))"
    using assms by (simp add: placeable_def)
  then show ?thesis
    using legal
    by (auto simp: Place_legal_eq Let_def Place_move_deferred_def placed_def Place_admission_eq gate_deferred_def)
qed

lemma placed_iff_placeable: "placed (Place l r) \<longleftrightarrow> placeable r l"
  using Place_placeable Place_not_placeable by (metis accepted_simps(2))


section \<open>Fields of an accepted decision\<close>

lemma Place_churn_degradations:
  "set (xp_degradations (de_explanation (snd (Place_churn P legal d)))) =
     set (xp_degradations (de_explanation d)) \<union>
     (case rq_incumbent (pr_request P) of
        None \<Rightarrow> {DegradationFlag.kNoIncumbent}
      | Some inc \<Rightarrow> if \<not> pr_incumbent_eligible P then {kIncumbentStale}
                    else if retained P legal then {kChurnSuppressed} else {})"
  by (auto simp: Place_churn_def retained_def Let_def split: option.splits)

text \<open>The conditions under which the chosen candidate is legal but not ideal.\<close>

definition not_ideal :: "PreparedRequest \<Rightarrow> RankEntry \<Rightarrow> bool" where
  "not_ideal P e \<longleftrightarrow>
     residual_of e < ag_min_residual_headroom_bytes (pp_admission (rq_policy (pr_request P))) \<or>
     re_multiplier_relaxed e \<or> re_reservation_relaxed e \<or> re_has_unknown e \<or>
     \<not> set_option (lc_preferred_locality (pp_locality (rq_policy (pr_request P))))
         \<subseteq> {pa_locality (cp_attributes (re_path e))} \<or>
     (pr_affinity_refs P \<noteq> [] \<and> \<not> affinity_matched P (re_path e))"

lemma admitted_degradations:
  "set (xp_degradations (de_explanation (admitted P e d))) =
     set (xp_degradations (de_explanation d)) \<union>
     (if residual_of e < ag_min_residual_headroom_bytes (pp_admission (rq_policy (pr_request P)))
      then {kHeadroomBelowComfort} else {})"
  by (auto simp: admitted_def Let_def)

lemma Place_flags_degrading:
  "(\<exists>f \<in> set (xp_degradations (de_explanation (Place_flags P e d))). IsDegradingFlag f) \<longleftrightarrow>
   (\<exists>f \<in> set (xp_degradations (de_explanation d)). IsDegradingFlag f) \<or>
   re_multiplier_relaxed e \<or> re_reservation_relaxed e \<or> re_has_unknown e \<or>
   \<not> set_option (lc_preferred_locality (pp_locality (rq_policy (pr_request P))))
       \<subseteq> {pa_locality (cp_attributes (re_path e))} \<or>
   (pr_affinity_refs P \<noteq> [] \<and> \<not> affinity_matched P (re_path e))"
  by (auto simp: Place_flags_def Let_def split: option.splits)

lemma Place_delta_degrading:
  "(\<exists>f \<in> set (xp_degradations (de_explanation (Place_delta P e d))). IsDegradingFlag f) \<longleftrightarrow>
   (\<exists>f \<in> set (xp_degradations (de_explanation d)). IsDegradingFlag f)"
  by (auto simp: Place_delta_def split: option.splits)

lemma Place_accept_outcome:
  "de_outcome (Place_accept P e i d) =
     (if \<exists>f \<in> set (xp_degradations (de_explanation d)). IsDegradingFlag f
      then Outcome.kPlacedDegraded else Outcome.kPlaced)"
  by (simp add: Place_accept_def Let_def list_ex_iff)

lemma Place_ranked_degradations [simp]:
  "xp_degradations (de_explanation (Place_ranked P legal d)) = xp_degradations (de_explanation d)"
  by (simp add: Place_ranked_def Let_def)

lemma churn_not_degrading:
  "\<not> (\<exists>f \<in> set (xp_degradations (de_explanation
        (snd (Place_churn P legal (Place_ranked P legal (summarised r l)))))). IsDegradingFlag f)"
  by (auto simp: Place_churn_degradations split: option.splits if_splits)

lemma accepted_outcome:
  "de_outcome (accepted r l) =
     (if not_ideal (Prepare r l) (chosen (Prepare r l)) then Outcome.kPlacedDegraded else Outcome.kPlaced)"
proof -
  let ?P = "Prepare r l"
  let ?d = "snd (Place_churn ?P (ranking ?P) (Place_ranked ?P (ranking ?P) (summarised r l)))"
  have "(\<exists>f \<in> set (xp_degradations (de_explanation (admitted ?P (chosen ?P) ?d))). IsDegradingFlag f) \<longleftrightarrow>
      residual_of (chosen ?P) < ag_min_residual_headroom_bytes (pp_admission (rq_policy (pr_request ?P)))"
    using churn_not_degrading [of ?P "ranking ?P" r l] unfolding admitted_degradations by auto
  then show ?thesis
    unfolding accepted_def Let_def Place_accept_outcome Place_delta_degrading Place_flags_degrading not_ideal_def
    by simp
qed

lemma accepted_delta:
  "de_delta (accepted r l) =
     (case rq_incumbent r of
        None \<Rightarrow> IncumbentDelta.kNoIncumbent
      | Some inc \<Rightarrow>
          if \<not> pr_incumbent_eligible (Prepare r l) then kReplacedStale
          else if cp_id (re_path (chosen (Prepare r l))) = inc_path inc then kKept else kMoved)"
  by (simp add: accepted_def Place_accept_def Let_def Place_delta_def split: option.splits)

lemma accepted_degradations_churn:
  assumes "retained (Prepare r l) (ranking (Prepare r l))"
  shows "kChurnSuppressed \<in> set (xp_degradations (de_explanation (accepted r l)))"
proof -
  let ?P = "Prepare r l"
  let ?d = "snd (Place_churn ?P (ranking ?P) (Place_ranked ?P (ranking ?P) (summarised r l)))"
  have "kChurnSuppressed \<in> set (xp_degradations (de_explanation ?d))"
    using assms by (auto simp: Place_churn_degradations retained_def Let_def split: option.splits)
  moreover have "f \<in> set (xp_degradations (de_explanation d)) \<Longrightarrow>
      f \<in> set (xp_degradations (de_explanation (Place_delta ?P e (Place_flags ?P e d))))" for f e d
    by (auto simp: Place_delta_def Place_flags_def Let_def split: option.splits)
  ultimately show ?thesis
    by (simp add: accepted_def Place_accept_def Let_def admitted_degradations)
qed

lemma chosen_best:
  assumes wf: "wf_request r l" and ne: "legal_paths (Prepare r l) \<noteq> []"
    and "\<not> retained (Prepare r l) (ranking (Prepare r l))"
    and e: "e \<in> entry_of (Prepare r l) ` set (legal_paths (Prepare r l))" "e \<noteq> chosen (Prepare r l)"
  shows "RankLess (chosen (Prepare r l)) e"
proof -
  let ?P = "Prepare r l"
  have hd: "chosen ?P = hd (ranking ?P)"
    using assms(3) ne by (simp add: chosen_def churn_index_def hd_conv_nth)
  note d = distinct_legal_paths [OF wf]
  show ?thesis
    unfolding hd ranking_def
    using e ne entry_of_total [OF d, of _ ?P] hd unfolding ranking_def
    by (intro rank.hd_sort_by_least [where ds = "directions ?P"]) (auto simp: distinct_entries [OF d])
qed

lemma chosen_retained:
  assumes "retained P (ranking P)"
  obtains inc where "rq_incumbent (pr_request P) = Some inc" "cp_id (re_path (chosen P)) = inc_path inc"
    "pr_incumbent_eligible P" "ch_prefer_incumbent (pp_churn (rq_policy (pr_request P)))"
  using assms index_of_path_found [of _ "ranking P"]
  by (auto simp: retained_def chosen_def churn_index_def Let_def split: option.splits)

section \<open>Bounds of the explanation\<close>

definition bounded :: "Limits \<Rightarrow> Explanation \<Rightarrow> bool" where
  "bounded l x \<longleftrightarrow>
     length (xp_notes x) \<le> 16 \<and> length (xp_binding x) \<le> 8 \<and>
     length (xp_ranked x) \<le> unat (max_ranked_explained l) \<and> length (xp_exclusions x) \<le> 18 \<and>
     (\<forall>s \<in> set (xp_exclusions x). length (es_sample s) \<le> unat (max_exclusion_samples l))"

lemma bounded_adds [simp]:
  "bounded l x \<Longrightarrow> bounded l (AddNote n x)"
  "bounded l x \<Longrightarrow> bounded l (AddBinding k p q a lb x)"
  "bounded l x \<Longrightarrow> bounded l (AddDegradation f x)"
  by (auto simp: bounded_def AddNote_def AddBinding_def AddDegradation_def kMaxNotes_def kMaxBinding_def)

lemma bounded_default: "bounded l default_Explanation"
  by (simp add: bounded_def)

lemma bounded_initial [simp]: "bounded l (de_explanation (initial_decision r))"
  by (simp add: initial_decision_def bounded_def)

text \<open>The samples never outgrow their limit, whatever the limit on reasons.\<close>

definition samples_bounded :: "ExclusionRecorder \<Rightarrow> bool" where
  "samples_bounded r \<longleftrightarrow>
     (\<forall>k e. er_entries r k = Some e \<longrightarrow> length (es_sample (en_summary e)) \<le> unat (er_max_samples r))"

lemma length_sample_insert:
  "length xs \<le> unat m \<Longrightarrow> length (sample_insert m p xs) \<le> unat m"
  by (cases xs rule: rev_cases) (auto simp: sample_insert_def)

lemma samples_bounded_Add:
  "samples_bounded r \<Longrightarrow> samples_bounded (Recorder_Add k v p r) \<and> er_max_samples (Recorder_Add k v p r) = er_max_samples r"
  by (auto simp: samples_bounded_def Recorder_Add_def Recorder_bump_def Let_def length_sample_insert
      split: option.splits if_splits)

lemma samples_bounded_record_all:
  "samples_bounded (record_all M m xs) \<and> er_max_samples (record_all M m xs) = m"
proof (induction xs rule: rev_induct)
  case Nil
  then show ?case by (simp add: record_all_def samples_bounded_def ExclusionRecorder_init_def)
next
  case (snoc x xs)
  then show ?case by (cases x) (simp add: record_all_def samples_bounded_Add)
qed

lemma Recorder_Summaries_bounded:
  assumes "samples_bounded r"
  shows "length (Recorder_Summaries r) \<le> 18"
    and "\<forall>s \<in> set (Recorder_Summaries r). length (es_sample s) \<le> unat (er_max_samples r)"
proof -
  have "length (er_keys r) \<le> length all_reasons" unfolding er_keys_def by (rule length_filter_le)
  then show "length (Recorder_Summaries r) \<le> 18" by (simp add: Recorder_Summaries_def all_reasons_def)
  show "\<forall>s \<in> set (Recorder_Summaries r). length (es_sample s) \<le> unat (er_max_samples r)"
    using assms by (auto simp: Recorder_Summaries_def er_keys_def samples_bounded_def)
qed

lemma bounded_summarised [simp]: "bounded l (de_explanation (summarised r l))"
proof -
  let ?s = "scan_candidates (Prepare r l)"
  have "bounded l (x\<lparr>xp_unknown_evidence_count := a, xp_distinct_failure_domains := b,
      xp_legal_candidate_count := c, xp_excluded_candidate_count := e,
      xp_exclusions := Recorder_Summaries (sc_exclusions ?s), xp_truncated := t\<rparr>)" if "bounded l x" for x a b c e t
    using that samples_bounded_record_all [of "max_exclusion_reasons l" "max_exclusion_samples l" "exclusions_of (Prepare r l)"]
      Recorder_Summaries_bounded [of "sc_exclusions ?s"]
    by (auto simp: bounded_def scan_candidates_simps)
  then show ?thesis by (simp add: summarised_def Place_summarise_def Let_def)
qed

lemma bounded_stages:
  "bounded l (de_explanation d) \<Longrightarrow> bounded l (de_explanation (snd (Place_churn P legal d)))"
  "bounded l (de_explanation d) \<Longrightarrow> bounded l (de_explanation (Place_flags P e d))"
  "bounded l (de_explanation d) \<Longrightarrow> bounded l (de_explanation (Place_delta P e d))"
  "bounded l (de_explanation d) \<Longrightarrow> bounded l (de_explanation (admitted P e d))"
  "bounded l (de_explanation d) \<Longrightarrow> bounded l (de_explanation (gate_deferred P e d))"
  "bounded l (de_explanation d) \<Longrightarrow> bounded l (de_explanation (Place_accept P e i d))"
  "bounded l (de_explanation d) \<Longrightarrow> bounded l (de_explanation (Place_empty s d))"
  "bounded l (de_explanation d) \<Longrightarrow> bounded l (de_explanation (Place_diversity P d))"
  "bounded l (de_explanation d) \<Longrightarrow> bounded l (de_explanation (Place_move_deferred P d))"
  "bounded l (de_explanation d) \<Longrightarrow> bounded l (de_explanation (Place_stale c n d))"
  by (simp_all add: Place_churn_def Place_flags_def Place_delta_def admitted_def gate_deferred_def
      Place_accept_def Place_empty_def Place_diversity_def Place_move_deferred_def Place_stale_def Let_def
      split: option.split prod.split)

lemma bounded_ranked:
  "bounded (pr_limits P) (de_explanation d) \<Longrightarrow> xp_ranked (de_explanation d) = [] \<Longrightarrow>
   bounded (pr_limits P) (de_explanation (Place_ranked P legal d))"
  by (simp add: bounded_def Place_ranked_def Let_def)

lemma Place_bounded: "bounded l (de_explanation (Place l r))"
proof (cases rule: Place_branches [of r l])
  case invalid
  then show ?thesis by (simp add: Place_invalid_def Reject_def Let_def bounded_default)
next
  case legal
  have "bounded l (de_explanation (Place_ranked (Prepare r l) (ranking (Prepare r l)) (summarised r l)))"
    using bounded_ranked [of "Prepare r l" "summarised r l"] by simp
  then show ?thesis
    unfolding legal(5) Place_legal_eq [OF legal(1,3)] Let_def Place_admission_eq
    by (simp add: bounded_stages)
qed (simp_all add: bounded_stages)

end
