(* ===== verification/Flow_Determinism.thy ===== *)
theory Flow_Determinism
  imports Flow_Decision
begin

text \<open>
  Decisions do not depend on the order in which facts are supplied: two requests with the same
  candidates, capacity entries, evidence entries and policy lists up to order get the same decision,
  field for field, as long as the limit on exclusion reasons is not below the number of reasons.
\<close>

section \<open>Requests that differ in order only\<close>

lemma same_facts_scalars:
  assumes "same_facts r s"
  shows "rq_flow s = rq_flow r" "rq_flow_generation s = rq_flow_generation r"
    "cs_id (rq_candidates s) = cs_id (rq_candidates r)"
    "cs_generation (rq_candidates s) = cs_generation (rq_candidates r)"
    "cap_id (rq_capacity s) = cap_id (rq_capacity r)"
    "cap_generation (rq_capacity s) = cap_generation (rq_capacity r)"
    "ev_id (rq_evidence s) = ev_id (rq_evidence r)"
    "ev_generation (rq_evidence s) = ev_generation (rq_evidence r)"
    "rq_qos s = rq_qos r" "rq_incumbent s = rq_incumbent r" "rq_expected s = rq_expected r"
    "rq_attempt s = rq_attempt r"
  using assms by (auto simp: same_facts_def)

lemma same_facts_policy:
  assumes "same_facts r s"
  shows "pp_id (rq_policy s) = pp_id (rq_policy r)"
    "pp_generation (rq_policy s) = pp_generation (rq_policy r)"
    "pp_objectives (rq_policy s) = pp_objectives (rq_policy r)"
    "lc_required_locality (pp_locality (rq_policy s)) = lc_required_locality (pp_locality (rq_policy r))"
    "lc_preferred_locality (pp_locality (rq_policy s)) = lc_preferred_locality (pp_locality (rq_policy r))"
    "fd_required_domain (pp_failure_domains (rq_policy s)) = fd_required_domain (pp_failure_domains (rq_policy r))"
    "fd_avoid_occupied_domains (pp_failure_domains (rq_policy s)) = fd_avoid_occupied_domains (pp_failure_domains (rq_policy r))"
    "fd_min_distinct_domains (pp_failure_domains (rq_policy s)) = fd_min_distinct_domains (pp_failure_domains (rq_policy r))"
    "ra_required (pp_reservation_affinity (rq_policy s)) = ra_required (pp_reservation_affinity (rq_policy r))"
    "pp_admission (rq_policy s) = pp_admission (rq_policy r)"
    "pp_service (rq_policy s) = pp_service (rq_policy r)"
    "pp_churn (rq_policy s) = pp_churn (rq_policy r)"
    "pp_evidence (rq_policy s) = pp_evidence (rq_policy r)"
    "pp_revalidate_after_nanos (rq_policy s) = pp_revalidate_after_nanos (rq_policy r)"
  using assms by (auto simp: same_facts_def same_policy_facts_def)

lemma same_facts_lists:
  assumes "same_facts r s"
  shows "mset (cs_paths (rq_candidates s)) = mset (cs_paths (rq_candidates r))"
    "mset (cap_entries (rq_capacity s)) = mset (cap_entries (rq_capacity r))"
    "mset (ev_entries (rq_evidence s)) = mset (ev_entries (rq_evidence r))"
    "mset (rq_occupied_failure_domains s) = mset (rq_occupied_failure_domains r)"
    "mset (lc_forbidden_localities (pp_locality (rq_policy s))) = mset (lc_forbidden_localities (pp_locality (rq_policy r)))"
    "mset (fd_forbidden_domains (pp_failure_domains (rq_policy s))) = mset (fd_forbidden_domains (pp_failure_domains (rq_policy r)))"
    "mset (pp_required_labels (rq_policy s)) = mset (pp_required_labels (rq_policy r))"
    "mset (pp_forbidden_labels (rq_policy s)) = mset (pp_forbidden_labels (rq_policy r))"
    "mset (ra_refs (pp_reservation_affinity (rq_policy s))) = mset (ra_refs (pp_reservation_affinity (rq_policy r)))"
    "mset (pp_allowed_tiers (rq_policy s)) = mset (pp_allowed_tiers (rq_policy r))"
  using assms by (simp_all add: same_facts_def same_policy_facts_def)

lemma Prepare_same_facts:
  assumes same: "same_facts r s" and wf: "wf_request r l"
  shows "Prepare s l = (Prepare r l)\<lparr>pr_request := s\<rparr>"
proof -
  note m = same_facts_lists [OF same]
  note d = wf_request_distinct [OF wf]
  have sorted: "sort_key cp_id (cs_paths (rq_candidates s)) = sort_key cp_id (cs_paths (rq_candidates r))"
    "sort_key pc_path (cap_entries (rq_capacity s)) = sort_key pc_path (cap_entries (rq_capacity r))"
    "sort_key ce_path (ev_entries (rq_evidence s)) = sort_key ce_path (ev_entries (rq_evidence r))"
    using sort_key_mset_cong [OF m(1) [symmetric] d(1)] sort_key_mset_cong [OF m(2) [symmetric] d(2)]
      sort_key_mset_cong [OF m(3) [symmetric] d(3)] by simp_all
  show ?thesis
    by (simp add: Prepare_def Let_def SortPointersById_def sorted sort_mset_cong [OF m(4)]
        sort_mset_cong [OF m(5)] sort_mset_cong [OF m(6)] sort_mset_cong [OF m(7)] sort_mset_cong [OF m(8)]
        sort_mset_cong [OF m(9)] sort_mset_cong [OF m(10)] same_facts_scalars [OF same]
        same_facts_policy [OF same] IncumbentEligible_def split: option.splits)
qed

section \<open>The engine on such requests\<close>

lemma affinity_matched_same_facts: "affinity_matched (P\<lparr>pr_request := s\<rparr>) p = affinity_matched P p"
  by (simp add: affinity_matched_def)

lemma EvaluateEvidence_same_facts:
  assumes "same_facts (pr_request P) s"
  shows "EvaluateEvidence (P\<lparr>pr_request := s\<rparr>) p v = EvaluateEvidence P p v"
  by (simp add: EvaluateEvidence_def Let_def same_facts_policy [OF assms])

lemma EvaluateService_same_facts:
  assumes "same_facts (pr_request P) s"
  shows "EvaluateService (P\<lparr>pr_request := s\<rparr>) p c v = EvaluateService P p c v"
  unfolding EvaluateService_def Let_def
  by (simp add: same_facts_scalars [OF assms] same_facts_policy [OF assms]
      affinity_matched_same_facts EvaluateEvidence_same_facts [OF assms] cong: if_cong)

lemma Evaluate_same_facts:
  assumes "same_facts (pr_request P) s"
  shows "Evaluate (P\<lparr>pr_request := s\<rparr>) p = Evaluate P p"
  unfolding Evaluate_def Let_def EvaluateService_same_facts [OF assms]
  by (simp add: same_facts_scalars [OF assms] same_facts_policy [OF assms])

lemma objective_key_same_facts:
  assumes "same_facts (pr_request P) s"
  shows "objective_key (P\<lparr>pr_request := s\<rparr>) = objective_key P"
  by (intro ext)
     (simp add: objective_key_def objective_value_def Let_def affinity_matched_same_facts
       same_facts_policy [OF assms] split: ObjectiveKind.split)

lemma entry_of_same_facts:
  assumes "same_facts (pr_request P) s"
  shows "entry_of (P\<lparr>pr_request := s\<rparr>) = entry_of P"
  by (rule ext)
     (simp add: entry_of_def BuildRankEntry_def Let_def objective_key_same_facts [OF assms]
       Evaluate_same_facts [OF assms] same_facts_scalars [OF assms] same_facts_policy [OF assms]
       cong: option.case_cong)

lemma mset_legal_paths_same_facts:
  assumes "same_facts (pr_request P) s"
  shows "mset (legal_paths (P\<lparr>pr_request := s\<rparr>)) = mset (legal_paths P)"
  by (simp add: legal_paths_def Evaluate_same_facts [OF assms] same_facts_lists(1) [OF assms])

lemma mset_exclusions_same_facts:
  assumes "same_facts (pr_request P) s"
  shows "mset (exclusions_of (P\<lparr>pr_request := s\<rparr>)) = mset (exclusions_of P)"
  by (simp add: exclusions_of_def Evaluate_same_facts [OF assms] same_facts_lists(1) [OF assms])

lemma ranking_same_facts:
  assumes "same_facts (pr_request P) s" "distinct (map cp_id (legal_paths P))"
  shows "ranking (P\<lparr>pr_request := s\<rparr>) = ranking P"
  using ranked_mset_cong [OF assms(2) mset_legal_paths_same_facts [OF assms(1), symmetric]]
  by (simp add: ranking_def entry_of_same_facts [OF assms(1)])


section \<open>The stages of Place\<close>

lemma summaries_same_facts:
  assumes "same_facts (pr_request P) s" "18 \<le> unat (max_exclusion_reasons (pr_limits P))"
    and "distinct (map cp_id (cs_paths (rq_candidates (pr_request P))))"
  shows "sc_exclusions (scan_candidates (P\<lparr>pr_request := s\<rparr>)) = sc_exclusions (scan_candidates P)"
proof -
  define vf where "vf i = Evaluate P (the (find (\<lambda>p. cp_id p = i) (cs_paths (rq_candidates (pr_request P)))))" for i
  have vf: "\<forall>(k, v, i) \<in> set (exclusions_of P). v = vf i"
    using find_distinct_key [OF assms(3)] by (auto simp: exclusions_of_def vf_def)
  moreover have "set (exclusions_of (P\<lparr>pr_request := s\<rparr>)) = set (exclusions_of P)"
    using mset_exclusions_same_facts [OF assms(1)] by (rule mset_eq_setD)
  ultimately have vf': "\<forall>(k, v, i) \<in> set (exclusions_of (P\<lparr>pr_request := s\<rparr>)). v = vf i" by simp
  show ?thesis
    using record_all_state [OF assms(2) vf] record_all_state [OF assms(2) vf']
      recorder_state_mset_cong [OF mset_exclusions_same_facts [OF assms(1)], of vf]
    by (simp add: scan_candidates_simps)
qed

lemma scan_same_facts:
  assumes "same_facts (pr_request P) s"
  shows "length (sc_legal (scan_candidates (P\<lparr>pr_request := s\<rparr>))) = length (sc_legal (scan_candidates P))"
    and "sort (sc_legal_domains (scan_candidates (P\<lparr>pr_request := s\<rparr>))) = sort (sc_legal_domains (scan_candidates P))"
    and "sc_unknown (scan_candidates (P\<lparr>pr_request := s\<rparr>)) = sc_unknown (scan_candidates P)"
proof -
  note m = mset_legal_paths_same_facts [OF assms]
  show "length (sc_legal (scan_candidates (P\<lparr>pr_request := s\<rparr>))) = length (sc_legal (scan_candidates P))"
    using mset_eq_length [OF m] by (simp add: scan_candidates_simps)
  show "sort (sc_legal_domains (scan_candidates (P\<lparr>pr_request := s\<rparr>))) = sort (sc_legal_domains (scan_candidates P))"
    by (rule sort_mset_cong) (simp add: scan_candidates_simps m)
  have "mset (filter re_has_unknown (map (entry_of (P\<lparr>pr_request := s\<rparr>)) (legal_paths (P\<lparr>pr_request := s\<rparr>)))) =
      mset (filter re_has_unknown (map (entry_of P) (legal_paths P)))"
    by (simp add: entry_of_same_facts [OF assms] m)
  from mset_eq_length [OF this]
  show "sc_unknown (scan_candidates (P\<lparr>pr_request := s\<rparr>)) = sc_unknown (scan_candidates P)"
    by (simp add: scan_candidates_simps)
qed

lemma Place_summarise_same_facts:
  assumes "same_facts (pr_request P) s" "18 \<le> unat (max_exclusion_reasons (pr_limits P))"
    and "distinct (map cp_id (cs_paths (rq_candidates (pr_request P))))"
  shows "Place_summarise (P\<lparr>pr_request := s\<rparr>) (scan_candidates (P\<lparr>pr_request := s\<rparr>)) d =
         Place_summarise P (scan_candidates P) d"
  unfolding Place_summarise_def Let_def scan_same_facts [OF assms(1)] summaries_same_facts [OF assms]
  by (simp add: same_facts_policy [OF assms(1)])

lemma Place_stages_same_facts:
  assumes "same_facts (pr_request P) s"
  shows "Place_churn (P\<lparr>pr_request := s\<rparr>) legal d = Place_churn P legal d"
    "Place_ranked (P\<lparr>pr_request := s\<rparr>) legal d = Place_ranked P legal d"
    "Place_move_deferred (P\<lparr>pr_request := s\<rparr>) d = Place_move_deferred P d"
    "move_deferred (P\<lparr>pr_request := s\<rparr>) legal i = move_deferred P legal i"
    "churn_index (P\<lparr>pr_request := s\<rparr>) legal = churn_index P legal"
    "Place_diversity (P\<lparr>pr_request := s\<rparr>) d = Place_diversity P d"
    "diversity_unmet (P\<lparr>pr_request := s\<rparr>) d = diversity_unmet P d"
    "initial_delta (P\<lparr>pr_request := s\<rparr>) = initial_delta P"
    "Place_admission (P\<lparr>pr_request := s\<rparr>) e d = Place_admission P e d"
    "Place_flags (P\<lparr>pr_request := s\<rparr>) e d = Place_flags P e d"
    "Place_delta (P\<lparr>pr_request := s\<rparr>) e d = Place_delta P e d"
    "Place_accept (P\<lparr>pr_request := s\<rparr>) e intent d = Place_accept P e intent d"
    "chosen_reservation (P\<lparr>pr_request := s\<rparr>) p = chosen_reservation P p"
    "Place_intent (P\<lparr>pr_request := s\<rparr>) e = Place_intent P e"
proof -
  note eqs = same_facts_scalars [OF assms] same_facts_policy [OF assms]
  show churn: "Place_churn (P\<lparr>pr_request := s\<rparr>) legal d = Place_churn P legal d" for legal d
    by (simp add: Place_churn_def Let_def eqs split: option.split)
  show "churn_index (P\<lparr>pr_request := s\<rparr>) legal = churn_index P legal"
    using churn [of legal undefined] by (metis fst_Place_churn)
  show res: "chosen_reservation (P\<lparr>pr_request := s\<rparr>) p = chosen_reservation P p" for p
    by (simp add: chosen_reservation_def Let_def eqs)
  show "Place_intent (P\<lparr>pr_request := s\<rparr>) e = Place_intent P e"
    by (simp add: Place_intent_def Let_def eqs res)
  show "Place_flags (P\<lparr>pr_request := s\<rparr>) e d = Place_flags P e d"
    by (simp add: Place_flags_def Let_def eqs affinity_matched_same_facts)
qed (simp_all add: Place_ranked_def Place_move_deferred_def move_deferred_def is_moving_def
      Place_diversity_def diversity_unmet_def initial_delta_def Place_admission_def Place_delta_def
      Place_accept_def Let_def same_facts_scalars [OF assms] same_facts_policy [OF assms] split: option.split)

lemma Place_same_facts:
  assumes same: "same_facts r s" and wf: "wf_request r l"
    and reasons: "18 \<le> unat (max_exclusion_reasons l)"
  shows "Place l s = Place l r"
proof -
  have wf': "wf_request s l" using wf_request_same_facts [OF same] wf by simp
  note P = Prepare_same_facts [OF same wf]
  have same': "same_facts (pr_request (Prepare r l)) s" using same by simp
  note st = Place_stages_same_facts [OF same']
  note m = mset_legal_paths_same_facts [OF same']
  have init: "initial_decision s = initial_decision r"
    using mset_eq_length [OF same_facts_lists(1) [OF same]]
    by (simp add: initial_decision_def BuildAuthority_def same_facts_scalars [OF same] same_facts_policy [OF same])
  have stale: "stale_checks s = stale_checks r"
    by (simp add: stale_checks_def same_facts_scalars [OF same] same_facts_policy [OF same])
  have summ: "summarised s l = summarised r l"
    unfolding summarised_def P init st(8)
    by (rule Place_summarise_same_facts) (use same reasons wf_request_distinct(1) [OF wf] in simp_all)
  show ?thesis
  proof (cases "fresh r")
    case False
    then obtain b c mm where "find fst (stale_checks r) = Some (b, c, mm)"
      using stale_checks_None [of r] by (cases "find fst (stale_checks r)") auto
    then show ?thesis using Place_not_fresh [OF wf] Place_not_fresh [OF wf'] by (simp add: stale init)
  next
    case fresh: True
    have fresh': "fresh s" using fresh stale stale_checks_None by metis
    have rank: "ranking (Prepare s l) = ranking (Prepare r l)"
      unfolding P by (rule ranking_same_facts [OF same']) (rule distinct_legal_paths [OF wf])
    have nil: "legal_paths (Prepare s l) = [] \<longleftrightarrow> legal_paths (Prepare r l) = []"
      unfolding P using m by (metis mset_zero_iff)
    have empty: "Place_empty (scan_candidates (Prepare s l)) d = Place_empty (scan_candidates (Prepare r l)) d" for d
      unfolding P Place_empty_def
      by (subst summaries_same_facts) (use same reasons wf_request_distinct(1) [OF wf] in simp_all)
    have chosen: "chosen (Prepare s l) = chosen (Prepare r l)"
      unfolding chosen_def rank by (simp add: P st)
    have legal: "Place_legal (Prepare s l) (map (entry_of (Prepare s l)) (legal_paths (Prepare s l))) d =
        Place_legal (Prepare r l) (map (entry_of (Prepare r l)) (legal_paths (Prepare r l))) d"
      if "legal_paths (Prepare r l) \<noteq> []" for d
      unfolding Place_legal_eq [OF wf that] Place_legal_eq [OF wf', unfolded nil, OF that] rank chosen
      by (simp add: P st Let_def split: sum.split)
    show ?thesis
      unfolding Place_fresh [OF wf fresh] Place_fresh [OF wf' fresh'] nil summ empty
      using legal by (simp add: P st)
  qed
qed

end
