(* ===== verification/Flow_Exclusions.thy ===== *)
theory Flow_Exclusions
  imports Flow_Decision
begin

text \<open>
  The exclusion part of an explanation in closed form: one exact summary per violated constraint, in
  enumerator order, whose counts add up to the excluded candidates; and the classification of a
  request without a legal candidate as a function of the set of reasons alone.
\<close>

section \<open>The summaries\<close>

definition first_violation :: "PlacementRequest \<Rightarrow> CandidatePath \<Rightarrow> ExclusionReason option" where
  "first_violation r p = find (violates r p) all_reasons"

definition excluded_for :: "PlacementRequest \<Rightarrow> ExclusionReason \<Rightarrow> PathId list" where
  "excluded_for r k = map cp_id (filter (\<lambda>p. first_violation r p = Some k) (cs_paths (rq_candidates r)))"

definition summary_for :: "PlacementRequest \<Rightarrow> Limits \<Rightarrow> ExclusionReason \<Rightarrow> ExclusionSummary" where
  "summary_for r l k =
     \<lparr>es_reason = k, es_count = word_of_nat (length (excluded_for r k)),
      es_sample = take (unat (max_exclusion_samples l)) (sort (excluded_for r k))\<rparr>"

lemma first_violation_Evaluate:
  assumes "wf_request r l"
  shows "first_violation r p = None \<longleftrightarrow> cv_legal (Evaluate (Prepare r l) p)"
    and "first_violation r p = Some k \<longleftrightarrow>
         \<not> cv_legal (Evaluate (Prepare r l) p) \<and> cv_reason (Evaluate (Prepare r l) p) = k"
  using Evaluate_spec [OF assms, of p] unfolding first_violation_def
  by (cases "find (violates r p) all_reasons"; auto)+

lemma legal_paths_eq:
  "wf_request r l \<Longrightarrow>
   legal_paths (Prepare r l) = filter (\<lambda>p. first_violation r p = None) (cs_paths (rq_candidates r))"
  by (simp add: legal_paths_def first_violation_Evaluate(1))

lemma excluded_paths_exclusions_of:
  "wf_request r l \<Longrightarrow> excluded_paths (exclusions_of (Prepare r l)) k = excluded_for r k"
  by (simp add: excluded_paths_def exclusions_of_def excluded_for_def filter_map o_def
      first_violation_Evaluate(2) conj_commute)

lemma scan_exclusions:
  assumes wf: "wf_request r l" and "18 \<le> unat (max_exclusion_reasons l)"
  obtains vf where "sc_exclusions (scan_candidates (Prepare r l)) =
    recorder_state vf (max_exclusion_reasons l) (max_exclusion_samples l) (exclusions_of (Prepare r l))"
proof -
  define vf where "vf i = Evaluate (Prepare r l) (the (find (\<lambda>p. cp_id p = i) (cs_paths (rq_candidates r))))" for i
  have "\<forall>(k, v, i) \<in> set (exclusions_of (Prepare r l)). v = vf i"
    using find_distinct_key [OF wf_request_distinct(1) [OF wf]] by (auto simp: exclusions_of_def vf_def)
  then show ?thesis
    using that record_all_state [OF assms(2)] by (simp add: scan_candidates_simps)
qed

lemma er_keys_scan:
  assumes "wf_request r l" "18 \<le> unat (max_exclusion_reasons l)"
  shows "er_keys (sc_exclusions (scan_candidates (Prepare r l))) = filter (\<lambda>k. excluded_for r k \<noteq> []) all_reasons"
proof -
  obtain vf where "sc_exclusions (scan_candidates (Prepare r l)) =
    recorder_state vf (max_exclusion_reasons l) (max_exclusion_samples l) (exclusions_of (Prepare r l))"
    using scan_exclusions [OF assms] .
  then show ?thesis
    by (simp add: er_keys_def recorder_state_def excluded_paths_exclusions_of [OF assms(1)] cong: filter_cong)
qed

lemma summaries_scan:
  assumes "wf_request r l" "18 \<le> unat (max_exclusion_reasons l)"
  shows "Recorder_Summaries (sc_exclusions (scan_candidates (Prepare r l))) =
         map (summary_for r l) (filter (\<lambda>k. excluded_for r k \<noteq> []) all_reasons)"
proof -
  obtain vf where s: "sc_exclusions (scan_candidates (Prepare r l)) =
    recorder_state vf (max_exclusion_reasons l) (max_exclusion_samples l) (exclusions_of (Prepare r l))"
    using scan_exclusions [OF assms] .
  show ?thesis
    unfolding Recorder_Summaries_def er_keys_scan [OF assms]
    by (rule map_cong)
       (auto simp: s recorder_state_def recorder_entry_def summary_for_def excluded_paths_exclusions_of [OF assms(1)])
qed

lemma Recorder_Count_scan:
  assumes "wf_request r l" "18 \<le> unat (max_exclusion_reasons l)"
  shows "Recorder_Count (sc_exclusions (scan_candidates (Prepare r l))) k = word_of_nat (length (excluded_for r k))"
proof -
  obtain vf where s: "sc_exclusions (scan_candidates (Prepare r l)) =
    recorder_state vf (max_exclusion_reasons l) (max_exclusion_samples l) (exclusions_of (Prepare r l))"
    using scan_exclusions [OF assms] .
  show ?thesis
    by (simp add: s Recorder_Count_def recorder_state_def recorder_entry_def excluded_paths_exclusions_of [OF assms(1)])
qed

lemma exclusions_stages:
  "xp_exclusions (de_explanation (snd (Place_churn P legal d))) = xp_exclusions (de_explanation d)"
  "xp_exclusions (de_explanation (Place_ranked P legal d)) = xp_exclusions (de_explanation d)"
  "xp_exclusions (de_explanation (Place_flags P e d)) = xp_exclusions (de_explanation d)"
  "xp_exclusions (de_explanation (Place_delta P e d)) = xp_exclusions (de_explanation d)"
  "xp_exclusions (de_explanation (admitted P e d)) = xp_exclusions (de_explanation d)"
  "xp_exclusions (de_explanation (gate_deferred P e d)) = xp_exclusions (de_explanation d)"
  "xp_exclusions (de_explanation (Place_accept P e i d)) = xp_exclusions (de_explanation d)"
  "xp_exclusions (de_explanation (Place_empty s d)) = xp_exclusions (de_explanation d)"
  "xp_exclusions (de_explanation (Place_diversity P d)) = xp_exclusions (de_explanation d)"
  "xp_exclusions (de_explanation (Place_move_deferred P d)) = xp_exclusions (de_explanation d)"
  by (simp_all add: Place_churn_def Place_ranked_def Place_flags_def Place_delta_def admitted_def
      gate_deferred_def Place_accept_def Place_empty_def Place_diversity_def Place_move_deferred_def Let_def
      split: option.split prod.split)

lemma Place_exclusions:
  assumes "wf_request r l" "fresh r" "18 \<le> unat (max_exclusion_reasons l)"
  shows "xp_exclusions (de_explanation (Place l r)) =
         map (summary_for r l) (filter (\<lambda>k. excluded_for r k \<noteq> []) all_reasons)"
proof -
  have "xp_exclusions (de_explanation (summarised r l)) =
      map (summary_for r l) (filter (\<lambda>k. excluded_for r k \<noteq> []) all_reasons)"
    by (simp add: summarised_def summaries_scan [OF assms(1,3)])
  then show ?thesis
    using assms(1,2)
    by (simp add: Place_fresh Place_legal_eq Let_def Place_admission_eq exclusions_stages split: if_split)
qed

section \<open>The counts are exact\<close>

lemma sum_filter_reasons:
  "sum_list (map (\<lambda>k. length (filter (\<lambda>p. f p = Some k) ps)) all_reasons) = length (filter (\<lambda>p. f p \<noteq> None) ps)"
proof (induction ps)
  case Nil
  show ?case by (simp add: all_reasons_def)
next
  case (Cons p ps)
  have "sum_list (map (\<lambda>k. length (filter (\<lambda>p. f p = Some k) (p # ps))) all_reasons) =
      sum_list (map (\<lambda>k. (if f p = Some k then 1 else 0) + length (filter (\<lambda>p. f p = Some k) ps)) all_reasons)"
    by (rule arg_cong [where f = sum_list]) (rule map_cong, simp_all)
  also have "\<dots> = sum_list (map (\<lambda>k. if f p = Some k then 1 else 0) all_reasons) +
      length (filter (\<lambda>p. f p \<noteq> None) ps)"
    by (simp only: sum_list_addf Cons.IH)
  also have "sum_list (map (\<lambda>k. if f p = Some k then 1 else 0 :: nat) all_reasons) = (if f p = None then 0 else 1)"
  proof (cases "f p")
    case (Some k)
    then show ?thesis by (cases k) (simp_all add: all_reasons_def)
  qed (simp add: all_reasons_def)
  finally show ?case by simp
qed

lemma excluded_for_sum:
  "sum_list (map (\<lambda>k. length (excluded_for r k)) all_reasons) =
   length (filter (\<lambda>p. first_violation r p \<noteq> None) (cs_paths (rq_candidates r)))"
  by (simp only: excluded_for_def length_map sum_filter_reasons)

section \<open>Classification of a request without a legal candidate\<close>

definition reasons :: "PlacementRequest \<Rightarrow> ExclusionReason set" where
  "reasons r = {k. \<exists>p \<in> set (cs_paths (rq_candidates r)). first_violation r p = Some k}"

definition blocked_by :: "ExclusionReason set \<Rightarrow> Outcome \<times> StatusCode" where
  "blocked_by R =
     (if R = {} then (Outcome.kNoLegalPath, kNotFound)
      else if R = {kPathAuthorityStale} then (Outcome.kStaleInput, kStaleAuthorityGeneration)
      else if R \<subseteq> Collect IsStalenessReason then (Outcome.kStaleInput, kStaleEvidence)
      else if R \<subseteq> Collect IsPolicyReason then (Outcome.kPolicyRejected, kPolicyRejectedAllPaths)
      else if R \<subseteq> Collect IsServiceReason then (Outcome.kNoLegalPath, kServiceClassUnsatisfied)
      else if R \<subseteq> Collect IsCapacityReason
      then (Outcome.kInsufficientCapacity,
            if R = {kCapacityUnknown} then kNotFound else StatusCode.kCapacityInsufficient)
      else if R \<subseteq> Collect IsQosReason then (Outcome.kNoLegalPath, kLatencyBudgetUnmet)
      else (Outcome.kNoLegalPath, kNotFound))"

lemma reasons_excluded_for: "k \<in> reasons r \<longleftrightarrow> excluded_for r k \<noteq> []"
  by (auto simp: reasons_def excluded_for_def filter_empty_conv)

lemma all_in_category_summaries:
  "all_in_category C (map (summary_for r l) (filter (\<lambda>k. excluded_for r k \<noteq> []) all_reasons)) \<longleftrightarrow>
     reasons r \<noteq> {} \<and> reasons r \<subseteq> Collect C"
  by (auto simp: all_in_category_def list_all_iff filter_empty_conv summary_for_def simp flip: reasons_excluded_for)

lemma Recorder_ReasonIsOnly_scan:
  assumes "wf_request r l" "18 \<le> unat (max_exclusion_reasons l)"
  shows "Recorder_ReasonIsOnly (sc_exclusions (scan_candidates (Prepare r l))) k \<longleftrightarrow> reasons r = {k}"
proof -
  let ?e = "sc_exclusions (scan_candidates (Prepare r l))"
  have keys: "set (er_keys ?e) = reasons r"
    by (auto simp: er_keys_scan [OF assms] reasons_excluded_for)
  have entry: "er_entries ?e k \<noteq> None \<longleftrightarrow> k \<in> set (er_keys ?e)" by (simp add: er_keys_def)
  have "distinct all_reasons" by (simp add: all_reasons_def)
  then have "distinct (er_keys ?e)" by (simp add: er_keys_def)
  then have "length (er_keys ?e) = card (reasons r)" using distinct_card keys by metis
  then show ?thesis
    unfolding Recorder_ReasonIsOnly_def entry keys by (auto simp: card_1_singleton_iff)
qed

lemma length_filter_all: "length (filter Q xs) = length xs \<longleftrightarrow> (\<forall>x \<in> set xs. Q x)"
  by (metis filter_True length_filter_less less_irrefl)

lemma word_of_nat_length_eq:
  "length xs < 2 ^ 64 \<Longrightarrow> length ys < 2 ^ 64 \<Longrightarrow>
   (word_of_nat (length xs) :: u64) = word_of_nat (length ys) \<longleftrightarrow> length xs = length ys"
  by (simp add: word_of_nat_eq_iff take_bit_nat_eq_self)

lemma candidates_bounded:
  assumes "wf_request r l" shows "length (cs_paths (rq_candidates r)) < 2 ^ 64"
proof -
  have "length (cs_paths (rq_candidates r)) \<le> unat (max_candidate_paths l)"
    using assms by (simp add: wf_request_def wf_bounds_def)
  also have "\<dots> < 2 ^ 64" using unsigned_less [where 'a = nat, of "max_candidate_paths l"] by simp
  finally show ?thesis .
qed

lemma classify_empty_reasons:
  assumes wf: "wf_request r l" and M: "18 \<le> unat (max_exclusion_reasons l)"
    and none: "legal_paths (Prepare r l) = []"
  shows "(let (x, c, m) = classify_empty (sc_exclusions (scan_candidates (Prepare r l)))
             (word_of_nat (length (cs_paths (rq_candidates r))))
             (map (summary_for r l) (filter (\<lambda>k. excluded_for r k \<noteq> []) all_reasons))
          in (x, c)) = blocked_by (reasons r)"
proof -
  let ?ps = "cs_paths (rq_candidates r)"
  have all: "\<forall>p \<in> set ?ps. first_violation r p \<noteq> None"
    using none by (auto simp: legal_paths_eq [OF wf] filter_empty_conv)
  have "(word_of_nat (length ?ps) :: u64) = 0 \<longleftrightarrow> ?ps = []"
    using word_of_nat_length_eq [OF candidates_bounded [OF wf], of "[]"] by simp
  also have "\<dots> \<longleftrightarrow> reasons r = {}" using all by (cases ?ps) (auto simp: reasons_def)
  finally have zero: "(word_of_nat (length ?ps) :: u64) = 0 \<longleftrightarrow> reasons r = {}" .
  have le: "length (excluded_for r kPathAuthorityStale) \<le> length ?ps" by (simp add: excluded_for_def)
  have "Recorder_Count (sc_exclusions (scan_candidates (Prepare r l))) kPathAuthorityStale =
      word_of_nat (length ?ps) \<longleftrightarrow> length (excluded_for r kPathAuthorityStale) = length ?ps"
    unfolding Recorder_Count_scan [OF wf M]
    using le candidates_bounded [OF wf] by (intro word_of_nat_length_eq) linarith+
  also have "\<dots> \<longleftrightarrow> (\<forall>p \<in> set ?ps. first_violation r p = Some kPathAuthorityStale)"
    by (simp add: excluded_for_def length_filter_all)
  finally have stale: "reasons r \<noteq> {} \<Longrightarrow>
      Recorder_Count (sc_exclusions (scan_candidates (Prepare r l))) kPathAuthorityStale =
        word_of_nat (length ?ps) \<longleftrightarrow> reasons r = {kPathAuthorityStale}"
    using all by (fastforce simp: reasons_def)
  have only: "reasons r = {kEvidenceStale} \<Longrightarrow> reasons r \<subseteq> Collect IsStalenessReason"
    by (simp add: IsStalenessReason_def)
  show ?thesis
    unfolding classify_empty_def zero all_in_category_summaries Recorder_ReasonIsOnly_scan [OF wf M] blocked_by_def
    using stale only by auto
qed

end
