(* ===== verification/Flow_Example.thy ===== *)
theory Flow_Example
  imports Flow_Determinism Flow_Exclusions
begin

text \<open>
  A small concrete request on which the properties of the engine are exercised: two candidate paths
  with capacity, a policy that minimises cost, and a variant whose flow is already placed.
\<close>

definition sample_attributes :: "u64 \<Rightarrow> FailureDomainId \<Rightarrow> PathAttributes" where
  "sample_attributes cost domain = \<lparr>
     pa_tier = kStandard, pa_locality = 1, pa_locality_scope = LocalityScope.kZone, pa_failure_domain = domain,
     pa_cost_micro = cost, pa_latency_nanos = 100, pa_hop_count = 2, pa_labels = [7], pa_reservations = []\<rparr>"

definition sample_path :: "PathId \<Rightarrow> u64 \<Rightarrow> CandidatePath" where
  "sample_path i cost = \<lparr>cp_id = i, cp_authority = 5, cp_attributes = sample_attributes cost i\<rparr>"

definition sample_policy :: PlacementPolicy where
  "sample_policy = \<lparr>
     pp_id = 4, pp_generation = 14,
     pp_objectives = [\<lparr>ob_kind = ObjectiveKind.kCost, ob_direction = kMinimize\<rparr>],
     pp_allowed_tiers = [kPremium, kStandard], pp_required_labels = [7], pp_forbidden_labels = [8, 9],
     pp_locality = \<lparr>lc_required_locality = None, lc_preferred_locality = None, lc_forbidden_localities = []\<rparr>,
     pp_failure_domains = \<lparr>fd_required_domain = None, fd_forbidden_domains = [],
       fd_avoid_occupied_domains = True, fd_min_distinct_domains = 1\<rparr>,
     pp_reservation_affinity = \<lparr>ra_required = False, ra_refs = []\<rparr>,
     pp_admission = \<lparr>ag_min_residual_headroom_bytes = 0, ag_on_below = GateAction.kDefer\<rparr>,
     pp_service = \<lparr>sp_allow_degraded = False, sp_max_relaxation_steps = 0\<rparr>,
     pp_churn = \<lparr>ch_on_move = ChurnAction.kDefer, ch_prefer_incumbent = True,
       ch_move_improvement_threshold = 10, ch_threshold_objective_index = 0\<rparr>,
     pp_evidence = \<lparr>ep_on_missing = kHardExclude, ep_on_stale = kHardExclude\<rparr>,
     pp_revalidate_after_nanos = 1000\<rparr>"

definition sample_request :: PlacementRequest where
  "sample_request = \<lparr>
     rq_flow = 1, rq_flow_generation = 1,
     rq_candidates = \<lparr>cs_id = 1, cs_generation = 11, cs_paths = [sample_path 20 30, sample_path 10 40]\<rparr>,
     rq_capacity = \<lparr>cap_id = 2, cap_generation = 12, cap_entries =
       [\<lparr>pc_path = 20, pc_capacity_bytes = 1000, pc_residual_bytes = 500\<rparr>,
        \<lparr>pc_path = 10, pc_capacity_bytes = 1000, pc_residual_bytes = 700\<rparr>]\<rparr>,
     rq_qos = \<lparr>qos_id = 3, qos_generation = 13, qos_service_class = kControlled, qos_priority = kNormal,
       qos_required_residual_bytes = 200, qos_max_latency_nanos = 0\<rparr>,
     rq_policy = sample_policy,
     rq_evidence = \<lparr>ev_id = 0, ev_generation = 0, ev_entries = []\<rparr>,
     rq_incumbent = None, rq_occupied_failure_domains = [30],
     rq_expected = \<lparr>ex_path_authority = 5, ex_candidate_set = 11, ex_capacity = 12, ex_policy = 14,
       ex_qos = 13, ex_fabric_epoch = 6, ex_evidence = 0\<rparr>,
     rq_provenance = \<lparr>pv_producer = ''p'', pv_producer_version = ''1'', pv_source_sequence = 1,
       pv_observer_unix_nanos = 0\<rparr>,
     rq_attempt = 77\<rparr>"

lemmas sample_defs = sample_request_def sample_path_def sample_attributes_def sample_policy_def

lemma sample_wf: "wf_request sample_request default_Limits"
  by (simp add: wf_request_def wf_enums_def wf_ids_def wf_bounds_def wf_facts_def wf_candidate_def
      wf_policy_def wf_feasible_def sample_defs default_Limits_def)

lemma sample_fresh: "fresh sample_request"
  by (simp add: fresh_def sample_defs)

lemma sample_legal:
  "legal_paths (Prepare sample_request default_Limits) = [sample_path 20 30, sample_path 10 40]"
proof -
  have "cv_legal (Evaluate (Prepare sample_request default_Limits) p)"
    if "p \<in> {sample_path 20 30, sample_path 10 40}" for p
    unfolding Evaluate_legal_iff [OF sample_wf] find_all_reasons(1) [symmetric]
    using that by (auto simp: all_reasons_def sample_defs capacity_entry_def relaxable_def uses_congestion_def)
  then show ?thesis by (simp add: legal_paths_def sample_request_def)
qed

abbreviation sample_prepared :: PreparedRequest where
  "sample_prepared \<equiv> Prepare sample_request default_Limits"

lemma sample_ranking:
  "ranking sample_prepared = [entry_of sample_prepared (sample_path 20 30), entry_of sample_prepared (sample_path 10 40)]"
  unfolding ranking_def sample_legal
  by (simp add: RankLess_def entry_of_def BuildRankEntry_def objective_key_def objective_value_def Let_def
      sample_defs)

lemma sample_chosen: "chosen sample_prepared = entry_of sample_prepared (sample_path 20 30)"
  by (simp add: chosen_def churn_index_def retained_def sample_ranking) (simp add: sample_request_def)

lemma sample_diversity: "\<not> diversity_unmet sample_prepared (summarised sample_request default_Limits)"
proof -
  have "sc_legal_domains (scan_candidates sample_prepared) = [20, 10]"
    by (simp add: scan_candidates_simps sample_legal) (simp add: sample_path_def sample_attributes_def valid_id_def)
  then show ?thesis
    by (simp add: diversity_unmet_def summarised_def) (simp add: sample_defs)
qed

lemma sample_placeable: "placeable sample_request default_Limits"
  unfolding placeable_def move_deferred_def is_moving_def gate_closed_def Let_def
  by (simp add: sample_wf sample_fresh sample_legal sample_diversity) (simp add: sample_defs)

lemma sample_intent:
  "de_intent (Place default_Limits sample_request) = Some (Place_intent sample_prepared (chosen sample_prepared))"
  by (simp add: Place_placeable [OF sample_placeable])

lemma sample_placed: "placed (Place default_Limits sample_request)"
  by (simp add: Place_placeable [OF sample_placeable])

text \<open>The same facts supplied in another order.\<close>

definition sample_reordered :: PlacementRequest where
  "sample_reordered = sample_request\<lparr>
     rq_candidates := (rq_candidates sample_request)\<lparr>cs_paths := [sample_path 10 40, sample_path 20 30]\<rparr>,
     rq_policy := sample_policy\<lparr>pp_forbidden_labels := [9, 8]\<rparr>\<rparr>"

lemma sample_same_facts: "same_facts sample_request sample_reordered"
proof -
  have "same_policy_facts (rq_policy sample_request) (rq_policy sample_reordered)"
    unfolding same_policy_facts_def
    by (intro conjI exI [of _ "[kPremium, kStandard]"] exI [of _ "[7]"] exI [of _ "[9, 8]"] exI [of _ "[]"])
       (simp_all add: sample_reordered_def sample_request_def sample_policy_def add_mset_commute)
  moreover have "\<exists>ps cs es os pol.
        sample_reordered = sample_request\<lparr>rq_candidates := (rq_candidates sample_request)\<lparr>cs_paths := ps\<rparr>,
               rq_capacity := (rq_capacity sample_request)\<lparr>cap_entries := cs\<rparr>,
               rq_evidence := (rq_evidence sample_request)\<lparr>ev_entries := es\<rparr>,
               rq_occupied_failure_domains := os, rq_policy := pol\<rparr>"
    by (intro exI [of _ "[sample_path 10 40, sample_path 20 30]"] exI [of _ "cap_entries (rq_capacity sample_request)"]
        exI [of _ "[]"] exI [of _ "[30]"] exI [of _ "sample_policy\<lparr>pp_forbidden_labels := [9, 8]\<rparr>"])
       (simp add: sample_reordered_def sample_request_def)
  ultimately show ?thesis
    by (auto simp: same_facts_def sample_reordered_def sample_request_def add_mset_commute)
qed

text \<open>A request whose only candidate lacks capacity.\<close>

definition sample_starved :: PlacementRequest where
  "sample_starved = sample_request\<lparr>
     rq_candidates := (rq_candidates sample_request)\<lparr>cs_paths := [sample_path 20 30]\<rparr>,
     rq_qos := (rq_qos sample_request)\<lparr>qos_required_residual_bytes := 600\<rparr>\<rparr>"

lemma sample_starved_wf: "wf_request sample_starved default_Limits" and sample_starved_fresh: "fresh sample_starved"
  by (simp_all add: wf_request_def wf_enums_def wf_ids_def wf_bounds_def wf_facts_def wf_candidate_def
      wf_policy_def wf_feasible_def fresh_def sample_starved_def sample_defs default_Limits_def)

lemma sample_starved_violation:
  "first_violation sample_starved (sample_path 20 30) = Some ExclusionReason.kCapacityInsufficient"
  by (simp add: first_violation_def all_reasons_def sample_starved_def sample_defs capacity_entry_def)

lemma sample_starved_none: "legal_paths (Prepare sample_starved default_Limits) = []"
  unfolding legal_paths_eq [OF sample_starved_wf]
  using sample_starved_violation by (simp add: sample_starved_def sample_request_def)

lemma default_reasons: "18 \<le> unat (max_exclusion_reasons default_Limits)"
  by (simp add: default_Limits_def)

text \<open>
  A request whose policy prefers two reservations, both carried by the only candidate; \<open>rs\<close> is the
  order in which the candidate lists them.
\<close>

definition ref_a :: ReservationRef where "ref_a = ReservationRef 1 1"
definition ref_b :: ReservationRef where "ref_b = ReservationRef 2 1"

definition reserved_path :: "ReservationRef list \<Rightarrow> CandidatePath" where
  "reserved_path rs = \<lparr>cp_id = 20, cp_authority = 5,
     cp_attributes = (sample_attributes 30 20)\<lparr>pa_reservations := rs\<rparr>\<rparr>"

definition sample_reserved :: "ReservationRef list \<Rightarrow> PlacementRequest" where
  "sample_reserved rs = sample_request\<lparr>
     rq_candidates := (rq_candidates sample_request)\<lparr>cs_paths := [reserved_path rs]\<rparr>,
     rq_policy := sample_policy\<lparr>pp_reservation_affinity := \<lparr>ra_required = False, ra_refs = [ref_a, ref_b]\<rparr>\<rparr>\<rparr>"

lemmas reserved_defs = sample_reserved_def reserved_path_def ref_a_def ref_b_def sample_defs

lemma sample_reserved_wf:
  assumes "rs \<in> {[ref_a, ref_b], [ref_b, ref_a]}"
  shows "wf_request (sample_reserved rs) default_Limits"
  using assms
  by (auto simp: wf_request_def wf_enums_def wf_ids_def wf_bounds_def wf_facts_def wf_candidate_def
      wf_policy_def wf_feasible_def reserved_defs default_Limits_def ReservationRef_valid_def valid_id_def)

lemma sample_reserved_legal:
  assumes "rs \<in> {[ref_a, ref_b], [ref_b, ref_a]}"
  shows "legal_paths (Prepare (sample_reserved rs) default_Limits) = [reserved_path rs]"
proof -
  have "first_violation (sample_reserved rs) (reserved_path rs) = None"
    using assms
    by (auto simp: first_violation_def all_reasons_def reserved_defs capacity_entry_def relaxable_def
        uses_congestion_def)
  then show ?thesis
    unfolding legal_paths_eq [OF sample_reserved_wf [OF assms]] by (simp add: sample_reserved_def sample_request_def)
qed

lemma sample_reserved_chosen:
  assumes "rs \<in> {[ref_a, ref_b], [ref_b, ref_a]}"
  defines "P \<equiv> Prepare (sample_reserved rs) default_Limits"
  shows "chosen P = entry_of P (reserved_path rs)"
proof -
  have "ranking P = [entry_of P (reserved_path rs)]"
    unfolding P_def ranking_def sample_reserved_legal [OF assms(1)] by simp
  then show ?thesis by (simp add: chosen_def churn_index_def retained_def P_def) (simp add: sample_reserved_def sample_request_def)
qed

lemma sample_reserved_placeable:
  assumes "rs \<in> {[ref_a, ref_b], [ref_b, ref_a]}"
  shows "placeable (sample_reserved rs) default_Limits"
proof -
  have "sc_legal_domains (scan_candidates (Prepare (sample_reserved rs) default_Limits)) = [20]"
    by (simp add: scan_candidates_simps sample_reserved_legal [OF assms])
       (simp add: reserved_path_def sample_attributes_def valid_id_def)
  then have div: "\<not> diversity_unmet (Prepare (sample_reserved rs) default_Limits)
      (summarised (sample_reserved rs) default_Limits)"
    by (simp add: diversity_unmet_def summarised_def) (simp add: reserved_defs)
  have fresh: "fresh (sample_reserved rs)" by (simp add: fresh_def reserved_defs)
  show ?thesis
    unfolding placeable_def move_deferred_def is_moving_def gate_closed_def Let_def
    by (simp add: sample_reserved_wf [OF assms] fresh sample_reserved_legal [OF assms] div) (simp add: reserved_defs)
qed

lemma sample_reserved_reservation:
  assumes "rs \<in> {[ref_a, ref_b], [ref_b, ref_a]}"
  shows "map_option in_reservation (de_intent (Place default_Limits (sample_reserved rs))) = Some (hd rs)"
proof -
  let ?P = "Prepare (sample_reserved rs) default_Limits"
  have "pr_affinity_refs ?P = sort [ref_a, ref_b]" by (simp add: sample_reserved_def)
  then have "chosen_reservation ?P (reserved_path rs) = hd rs"
    using assms
    by (auto simp: chosen_reservation_def Let_def) (auto simp: reserved_path_def ref_a_def ref_b_def
        ReservationRef_valid_def valid_id_def)
  then show ?thesis
    using Place_placeable [OF sample_reserved_placeable [OF assms]] sample_reserved_chosen [OF assms]
    by (simp add: Place_intent_def Let_def)
qed

end
