(* ===== verification/Flow_Guarantees.thy ===== *)
theory Flow_Guarantees
  imports Flow_Example
begin

text \<open>
  The guarantees of the placement engine, each with its statement in prose and, where it has a
  hypothesis, an application to the sample request.
\<close>

section \<open>Soundness and completeness of placements\<close>

text \<open>C1. A decision carries an intent exactly when its outcome is a placement, and it is a placement
  exactly when the request is well formed and fresh, has a legal candidate, meets the diversity
  requirement, and neither the churn rule nor the admission gate defers it.\<close>

theorem place_intent_iff:
  "(de_intent (Place l r) \<noteq> None \<longleftrightarrow> placed (Place l r)) \<and> (placed (Place l r) \<longleftrightarrow> placeable r l)"
  using Place_not_placeable [of r l] Place_placeable [of r l] placed_iff_placeable [of l r]
  by (cases "placeable r l") auto

text \<open>C2. An intent names a candidate of the supplied set that violates no hard constraint, on a
  request whose generations are all the expected ones; the intent passes the engine's own
  verification and carries its own canonical digest.\<close>

theorem place_intent_sound:
  assumes "de_intent (Place l r) = Some i"
  shows "wf_request r l \<and> fresh r \<and> VerifyIntent l r i = None \<and> in_digest i = IntentDigest i \<and>
    (\<exists>p \<in> set (cs_paths (rq_candidates r)).
       cp_id p = in_path i \<and> cp_authority p = in_path_authority i \<and> (\<forall>k. \<not> violates r p k))"
proof -
  have pl: "placeable r l" using assms Place_not_placeable by fastforce
  then have wf: "wf_request r l" and "fresh r" and ne: "legal_paths (Prepare r l) \<noteq> []"
    by (simp_all add: placeable_def)
  obtain p where p: "p \<in> set (legal_paths (Prepare r l))" "chosen (Prepare r l) = entry_of (Prepare r l) p"
    using chosen_legal [OF ne] .
  have i: "i = Place_intent (Prepare r l) (entry_of (Prepare r l) p)"
    using assms p Place_placeable [OF pl] by simp
  have "\<forall>k. \<not> violates r p k"
    using p(1) Evaluate_legal_iff [OF wf] by (simp add: legal_paths_def)
  moreover have "p \<in> set (cs_paths (rq_candidates r))" using p(1) legal_paths_subset by fastforce
  moreover have "cp_id p = in_path i \<and> cp_authority p = in_path_authority i \<and> in_digest i = IntentDigest i"
    by (simp add: i Place_intent_def IntentDigest_def Let_def)
  ultimately show ?thesis using VerifyIntent_Place_intent [OF wf p(1)] i wf \<open>fresh r\<close> by auto
qed

theorem place_intent_sound_witness:
  "\<exists>p \<in> set (cs_paths (rq_candidates sample_request)). \<forall>k. \<not> violates sample_request p k"
  using place_intent_sound [OF sample_intent] by blast

text \<open>C7. Self-verification never rejects the engine's own choice: no request at all is answered
  with an internal invariant violation.\<close>

theorem place_never_self_rejects: "de_code (Place l r) \<noteq> kInternalInvariantViolation"
  using Place_not_placeable [of r l] Place_placeable [of r l] by (cases "placeable r l") auto



text \<open>The ranking does not depend on the sorting algorithm: every list of the legal entries that is
  sorted by \<open>RankLess\<close> is the ranking the engine uses.\<close>

theorem ranking_unique:
  assumes "wf_request r l" "mset ys = mset (map (entry_of (Prepare r l)) (legal_paths (Prepare r l)))"
    and "sorted_wrt RankLess ys"
  shows "ys = ranking (Prepare r l)"
proof (rule rank.sorted_unique [where ds = "directions (Prepare r l)"])
  show "set ys \<subseteq> {e. map ov_direction (re_keys e) = directions (Prepare r l)}"
    using mset_eq_setD [OF assms(2)] by auto
  show "mset ys = mset (ranking (Prepare r l))" by (simp add: assms(2) ranking_def)
  show "sorted_wrt RankLess (ranking (Prepare r l))"
    unfolding ranking_def by (rule ranked_sorted) (rule distinct_legal_paths [OF assms(1)])
qed (rule assms(3))

theorem ranking_unique_witness:
  "[entry_of sample_prepared (sample_path 20 30), entry_of sample_prepared (sample_path 10 40)] = ranking sample_prepared"
proof (rule ranking_unique [OF sample_wf])
  show "sorted_wrt RankLess [entry_of sample_prepared (sample_path 20 30), entry_of sample_prepared (sample_path 10 40)]"
    using ranked_sorted [OF distinct_legal_paths [OF sample_wf], of sample_prepared]
    by (simp add: sample_ranking flip: ranking_def)
qed (simp add: sample_legal)

section \<open>Outcomes\<close>

text \<open>C21. A placement is degraded exactly when the chosen candidate is below the comfort gate, was
  admitted by relaxing a service requirement, was ranked by an unknown key, or misses the preferred
  locality or reservation.\<close>

theorem place_degraded_iff:
  assumes "placed (Place l r)"
  shows "de_outcome (Place l r) = Outcome.kPlacedDegraded \<longleftrightarrow> not_ideal (Prepare r l) (chosen (Prepare r l))"
  using assms accepted_outcome [of r l] by (simp add: placed_iff_placeable Place_placeable)

theorem place_degraded_iff_witness:
  "de_outcome (Place default_Limits sample_request) = Outcome.kPlacedDegraded \<longleftrightarrow>
   not_ideal sample_prepared (chosen sample_prepared)"
  by (rule place_degraded_iff [OF sample_placed])


text \<open>C23. A well-formed request with a stale generation is answered with a stale-input outcome whose
  code names the first stale input in the fixed order candidate set, capacity, policy, QoS.\<close>

theorem place_stale_code:
  assumes "wf_request r l" "\<not> fresh r"
  shows "de_outcome (Place l r) = Outcome.kStaleInput \<and> de_intent (Place l r) = None \<and>
    de_code (Place l r) =
      (if cs_generation (rq_candidates r) \<noteq> ex_candidate_set (rq_expected r) then kStaleCandidateSet
       else if cap_generation (rq_capacity r) \<noteq> ex_capacity (rq_expected r) then kStaleCapacitySnapshot
       else if pp_generation (rq_policy r) \<noteq> ex_policy (rq_expected r) then kStalePolicy
       else kStaleQos)"
proof -
  obtain b c m where f: "find fst (stale_checks r) = Some (b, c, m)"
    using assms(2) stale_checks_None [of r] by (cases "find fst (stale_checks r)") auto
  show ?thesis
    using f assms(2) unfolding Place_not_fresh [OF assms(1) f]
    by (auto simp: Place_stale_def Let_def stale_checks_def fresh_def split: if_splits)
qed

theorem place_stale_code_witness:
  "de_code (Place default_Limits (sample_request\<lparr>rq_qos := (rq_qos sample_request)\<lparr>qos_generation := 99\<rparr>\<rparr>)) = kStaleQos"
proof -
  let ?r = "sample_request\<lparr>rq_qos := (rq_qos sample_request)\<lparr>qos_generation := 99\<rparr>\<rparr>"
  have "wf_request ?r default_Limits" "\<not> fresh ?r"
    by (simp_all add: wf_request_def wf_enums_def wf_ids_def wf_bounds_def wf_facts_def wf_candidate_def
        wf_policy_def wf_feasible_def fresh_def sample_defs default_Limits_def)
  from place_stale_code [OF this] show ?thesis by (simp add: sample_defs)
qed

text \<open>C19. When no candidate is legal, outcome and code are a function of the set of reasons that
  excluded candidates: by category, independent of how many candidates each reason removed.\<close>

theorem place_blocked_by:
  assumes "wf_request r l" "fresh r" "18 \<le> unat (max_exclusion_reasons l)" "legal_paths (Prepare r l) = []"
  shows "(de_outcome (Place l r), de_code (Place l r)) = blocked_by (reasons r)"
proof -
  have "xp_exclusions (de_explanation (summarised r l)) =
      map (summary_for r l) (filter (\<lambda>k. excluded_for r k \<noteq> []) all_reasons)"
    "xp_candidate_count (de_explanation (summarised r l)) = word_of_nat (length (cs_paths (rq_candidates r)))"
    by (simp_all add: summarised_def summaries_scan [OF assms(1,3)])
  then show ?thesis
    using classify_empty_reasons [OF assms(1,3,4)] assms
    by (auto simp: Place_fresh Place_empty_simps split: prod.splits)
qed

theorem place_blocked_by_witness:
  "de_outcome (Place default_Limits sample_starved) = Outcome.kInsufficientCapacity"
proof -
  have "reasons sample_starved = {ExclusionReason.kCapacityInsufficient}"
    using sample_starved_violation by (auto simp: reasons_def sample_starved_def sample_request_def)
  then show ?thesis
    using place_blocked_by [OF sample_starved_wf sample_starved_fresh default_reasons sample_starved_none]
    by (simp add: blocked_by_def reason_category_defs)
qed



section \<open>Explanations\<close>


text \<open>C18. The exclusion summaries are exact: one per violated constraint, in enumerator order, with
  the number of candidates whose first violated constraint it is and the lowest of their path ids;
  and these numbers add up to the candidates that are not legal.\<close>

theorem place_exclusions_exact:
  assumes "wf_request r l" "fresh r" "18 \<le> unat (max_exclusion_reasons l)"
  shows "xp_exclusions (de_explanation (Place l r)) =
           map (summary_for r l) (filter (\<lambda>k. excluded_for r k \<noteq> []) all_reasons) \<and>
         sum_list (map (\<lambda>k. length (excluded_for r k)) all_reasons) + length (legal_paths (Prepare r l)) =
           length (cs_paths (rq_candidates r))"
  using Place_exclusions [OF assms] excluded_for_sum [of r]
    sum_length_filter_compl [of "\<lambda>p. first_violation r p = None" "cs_paths (rq_candidates r)"]
  by (simp add: legal_paths_eq [OF assms(1)])

theorem place_exclusions_exact_witness:
  "xp_exclusions (de_explanation (Place default_Limits sample_starved)) =
     [\<lparr>es_reason = ExclusionReason.kCapacityInsufficient, es_count = 1, es_sample = [20]\<rparr>]"
proof -
  have "excluded_for sample_starved k = (if k = ExclusionReason.kCapacityInsufficient then [20] else [])" for k
    using sample_starved_violation
    by (simp add: excluded_for_def sample_starved_def sample_request_def) (simp add: sample_path_def)
  then show ?thesis
    using place_exclusions_exact [OF sample_starved_wf sample_starved_fresh default_reasons]
    by (simp add: summary_for_def all_reasons_def default_Limits_def)
qed

section \<open>Determinism\<close>



section \<open>Validation and hard constraints\<close>

text \<open>C6. The validator accepts exactly the well-formed requests, and a rejection never carries one of
  the staleness codes, so an invalid request is always reported as conflicting input.\<close>

theorem validate_exact:
  "(Status_ok (ValidateRequest r l) \<longleftrightarrow> wf_request r l) \<and>
   (\<not> wf_request r l \<longrightarrow>
      de_outcome (Place l r) = Outcome.kConflictingInput \<and> de_code (Place l r) = st_code (ValidateRequest r l))"
proof -
  have "OutcomeForValidationCode (st_code (ValidateRequest r l)) = Outcome.kConflictingInput"
    using ValidateRequest_code [of r l] by (auto simp: OutcomeForValidationCode_def validation_codes_def)
  then show ?thesis
    using ValidateRequest_ok_wf [of r l] Place_not_wf [of r l]
    by (simp add: Place_invalid_def Let_def)
qed

theorem validate_exact_witness:
  "de_outcome (Place default_Limits (sample_request\<lparr>rq_flow := 0\<rparr>)) = Outcome.kConflictingInput"
proof -
  have "\<not> wf_request (sample_request\<lparr>rq_flow := 0\<rparr>) default_Limits"
    by (simp add: wf_request_def wf_ids_def)
  then show ?thesis using validate_exact [of "sample_request\<lparr>rq_flow := 0\<rparr>" default_Limits] by blast
qed

text \<open>C5. A candidate is legal exactly when it violates no hard constraint, and otherwise the reported
  reason is the first violated one in the order of the enumerators.\<close>

theorem evaluate_first_violation:
  assumes "wf_request r l"
  shows "(cv_legal (Evaluate (Prepare r l) p) \<longleftrightarrow> (\<forall>k. \<not> violates r p k)) \<and>
    (\<not> cv_legal (Evaluate (Prepare r l) p) \<longrightarrow>
       violates r p (cv_reason (Evaluate (Prepare r l) p)) \<and>
       (\<forall>j < cv_reason (Evaluate (Prepare r l) p). \<not> violates r p j))"
  using Evaluate_legal_iff [OF assms] Evaluate_reason_first [OF assms] by blast

theorem evaluate_first_violation_witness:
  "cv_reason (Evaluate (Prepare sample_starved default_Limits) (sample_path 20 30)) = ExclusionReason.kCapacityInsufficient"
proof -
  have v: "violates sample_starved (sample_path 20 30) ExclusionReason.kCapacityInsufficient"
    by (simp add: sample_starved_def sample_defs capacity_entry_def)
  have lt: "\<not> violates sample_starved (sample_path 20 30) k"
    if "k < ExclusionReason.kCapacityInsufficient" for k
    using that sample_starved_violation by (simp add: first_violation_def find_all_reasons)
  from v lt show ?thesis
    using evaluate_first_violation [OF sample_starved_wf, of "sample_path 20 30"] by (metis linorder_neqE)
qed

text \<open>A path without a capacity entry, or whose residual capacity is below the required bytes, is
  never placed: absence of evidence is not capacity.\<close>

theorem placed_has_capacity:
  assumes "de_intent (Place l r) = Some i"
  shows "\<exists>c \<in> set (cap_entries (rq_capacity r)).
     pc_path c = in_path i \<and> qos_required_residual_bytes (rq_qos r) \<le> pc_residual_bytes c"
proof -
  have pl: "placeable r l" using assms Place_not_placeable by fastforce
  then have wf: "wf_request r l" and ne: "legal_paths (Prepare r l) \<noteq> []" by (simp_all add: placeable_def)
  obtain p where p: "p \<in> set (legal_paths (Prepare r l))" "chosen (Prepare r l) = entry_of (Prepare r l) p"
    using chosen_legal [OF ne] .
  have path: "in_path i = cp_id p"
    using assms p Place_placeable [OF pl] by (auto simp: Place_intent_def Let_def)
  have ok: "\<forall>k. \<not> violates r p k" using p(1) Evaluate_legal_iff [OF wf] by (simp add: legal_paths_def)
  from ok have "\<not> violates r p kCapacityUnknown" by blast
  then obtain c where c: "capacity_entry r (cp_id p) = Some c" by auto
  have "\<not> violates r p ExclusionReason.kCapacityInsufficient" using ok by blast
  with c have "qos_required_residual_bytes (rq_qos r) \<le> pc_residual_bytes c" by (simp add: not_less)
  moreover have "c \<in> set (cap_entries (rq_capacity r)) \<and> pc_path c = cp_id p"
    using find_Some_sat [OF c [unfolded capacity_entry_def]] by simp
  ultimately show ?thesis using path by auto
qed

theorem placed_has_capacity_witness:
  "\<exists>c \<in> set (cap_entries (rq_capacity sample_request)).
     qos_required_residual_bytes (rq_qos sample_request) \<le> pc_residual_bytes c"
  using placed_has_capacity [OF sample_intent] by blast


end
