(* ===== verification/Flow_Codec.thy ===== *)
theory Flow_Codec
  imports Flow_Explain "HOL-Library.Monad_Syntax"
begin

text \<open>
  The payload codecs (\<^verbatim>\<open>src/codec.cpp\<close>): every writer as the bytes it appends, every reader as a
  partial function on the remaining bytes, and every public decoder as a function into
  \<open>Status + value\<close> with the source's code and message on each early return. The round-trip laws are
  stated through the locale \<open>codec\<close>.
\<close>

section \<open>Casts to enumerations\<close>

text \<open>\<^verbatim>\<open>static_cast\<close> from the underlying type; the readers check the range first.\<close>

definition ServiceClass_of :: "u8 \<Rightarrow> ServiceClass" where
  "ServiceClass_of v = (if unat v < 4 then [ServiceClass.kBestEffort, ServiceClass.kControlled, ServiceClass.kAssured, ServiceClass.kReserved] ! unat v
     else ServiceClass_raw (unat v - 4))"

definition PriorityClass_of :: "u8 \<Rightarrow> PriorityClass" where
  "PriorityClass_of v = (if unat v < 4 then [PriorityClass.kLow, PriorityClass.kNormal, PriorityClass.kHigh, PriorityClass.kCritical] ! unat v
     else PriorityClass_raw (unat v - 4))"

definition PathTier_of :: "u8 \<Rightarrow> PathTier" where
  "PathTier_of v = (if unat v < 3 then [PathTier.kPremium, PathTier.kStandard, PathTier.kEconomy] ! unat v
     else PathTier_raw (unat v - 3))"

definition LocalityScope_of :: "u8 \<Rightarrow> LocalityScope" where
  "LocalityScope_of v = (if unat v < 5 then [LocalityScope.kNode, LocalityScope.kRack, LocalityScope.kZone, LocalityScope.kRegion, LocalityScope.kGlobal] ! unat v
     else LocalityScope_raw (unat v - 5))"

definition ObjectiveKind_of :: "u8 \<Rightarrow> ObjectiveKind" where
  "ObjectiveKind_of v = (if unat v < 9 then [ObjectiveKind.kCost, ObjectiveKind.kLatency, ObjectiveKind.kResidualCapacity, ObjectiveKind.kHopCount, ObjectiveKind.kCongestionUtilization, ObjectiveKind.kTier, ObjectiveKind.kLocalityAffinity, ObjectiveKind.kReservationAffinity, ObjectiveKind.kIncumbentStability] ! unat v
     else ObjectiveKind_raw (unat v - 9))"

definition Direction_of :: "u8 \<Rightarrow> Direction" where
  "Direction_of v = (if unat v < 2 then [Direction.kMinimize, Direction.kMaximize] ! unat v
     else Direction_raw (unat v - 2))"

definition EvidencePolicyMode_of :: "u8 \<Rightarrow> EvidencePolicyMode" where
  "EvidencePolicyMode_of v = (if unat v < 2 then [EvidencePolicyMode.kRankWorst, EvidencePolicyMode.kHardExclude] ! unat v
     else EvidencePolicyMode_raw (unat v - 2))"

definition GateAction_of :: "u8 \<Rightarrow> GateAction" where
  "GateAction_of v = (if unat v < 2 then [GateAction.kPlace, GateAction.kDefer] ! unat v
     else GateAction_raw (unat v - 2))"

definition ChurnAction_of :: "u8 \<Rightarrow> ChurnAction" where
  "ChurnAction_of v = (if unat v < 2 then [ChurnAction.kAllowMove, ChurnAction.kDefer] ! unat v
     else ChurnAction_raw (unat v - 2))"

definition Outcome_of :: "u8 \<Rightarrow> Outcome" where
  "Outcome_of v = [Outcome.kPlaced, Outcome.kPlacedDegraded, Outcome.kDeferred,
     Outcome.kNoLegalPath, Outcome.kInsufficientCapacity, Outcome.kPolicyRejected,
     Outcome.kStaleInput, Outcome.kConflictingInput] ! unat v"

definition ExclusionReason_of :: "u8 \<Rightarrow> ExclusionReason" where
  "ExclusionReason_of v = [ExclusionReason.kPathAuthorityStale, ExclusionReason.kTierNotAllowed, ExclusionReason.kForbiddenLabel,
     ExclusionReason.kMissingRequiredLabel, ExclusionReason.kForbiddenLocality, ExclusionReason.kLocalityMismatch,
     ExclusionReason.kForbiddenFailureDomain, ExclusionReason.kRequiredFailureDomainMismatch, ExclusionReason.kFailureDomainOccupied,
     ExclusionReason.kCapacityUnknown, ExclusionReason.kCapacityInsufficient, ExclusionReason.kServiceHeadroomUnmet,
     ExclusionReason.kServiceReservationUnmet, ExclusionReason.kReservationAffinityUnsatisfied, ExclusionReason.kLatencyBudgetExceeded,
     ExclusionReason.kEvidenceMissing, ExclusionReason.kEvidenceStale, ExclusionReason.kDuplicatePathEntry] ! unat v"

definition DegradationFlag_of :: "u8 \<Rightarrow> DegradationFlag" where
  "DegradationFlag_of v = [DegradationFlag.kIncumbentSuperseded, DegradationFlag.kIncumbentStale, DegradationFlag.kServiceRelaxed,
     DegradationFlag.kHeadroomBelowComfort, DegradationFlag.kLocalityPreferenceUnmet, DegradationFlag.kReservationPreferenceUnmet,
     DegradationFlag.kEvidenceUnknown, DegradationFlag.kChurnSuppressed, DegradationFlag.kNoIncumbent] ! unat v"

definition IncumbentDelta_of :: "u8 \<Rightarrow> IncumbentDelta" where
  "IncumbentDelta_of v = [IncumbentDelta.kNoIncumbent, IncumbentDelta.kKept, IncumbentDelta.kMoved,
     IncumbentDelta.kReplacedStale] ! unat v"

text \<open>\<^verbatim>\<open>static_cast<std::uint8_t>\<close> of an enumeration value.\<close>

definition enum_u8 :: "nat \<Rightarrow> u8" where "enum_u8 v = word_of_nat v"

lemma unat_enum_u8 [simp]: "v < 256 \<Longrightarrow> unat (enum_u8 v) = v"
  by (simp add: enum_u8_def unat_of_nat)

lemma ServiceClass_of_value [simp]: "ServiceClass_value x < 4 \<Longrightarrow> ServiceClass_of (enum_u8 (ServiceClass_value x)) = x"
  by (cases x) (simp_all add: ServiceClass_of_def)

lemma PriorityClass_of_value [simp]: "PriorityClass_value x < 4 \<Longrightarrow> PriorityClass_of (enum_u8 (PriorityClass_value x)) = x"
  by (cases x) (simp_all add: PriorityClass_of_def)

lemma PathTier_of_value [simp]: "PathTier_value x < 3 \<Longrightarrow> PathTier_of (enum_u8 (PathTier_value x)) = x"
  by (cases x) (simp_all add: PathTier_of_def)

lemma LocalityScope_of_value [simp]: "LocalityScope_value x < 5 \<Longrightarrow> LocalityScope_of (enum_u8 (LocalityScope_value x)) = x"
  by (cases x) (simp_all add: LocalityScope_of_def)

lemma ObjectiveKind_of_value [simp]: "ObjectiveKind_value x < 9 \<Longrightarrow> ObjectiveKind_of (enum_u8 (ObjectiveKind_value x)) = x"
  by (cases x) (simp_all add: ObjectiveKind_of_def)

lemma Direction_of_value [simp]: "Direction_value x < 2 \<Longrightarrow> Direction_of (enum_u8 (Direction_value x)) = x"
  by (cases x) (simp_all add: Direction_of_def)

lemma EvidencePolicyMode_of_value [simp]: "EvidencePolicyMode_value x < 2 \<Longrightarrow> EvidencePolicyMode_of (enum_u8 (EvidencePolicyMode_value x)) = x"
  by (cases x) (simp_all add: EvidencePolicyMode_of_def)

lemma GateAction_of_value [simp]: "GateAction_value x < 2 \<Longrightarrow> GateAction_of (enum_u8 (GateAction_value x)) = x"
  by (cases x) (simp_all add: GateAction_of_def)

lemma ChurnAction_of_value [simp]: "ChurnAction_value x < 2 \<Longrightarrow> ChurnAction_of (enum_u8 (ChurnAction_value x)) = x"
  by (cases x) (simp_all add: ChurnAction_of_def)

lemma Outcome_of_value [simp]: "Outcome_of (enum_u8 (Outcome_value x)) = x"
  by (cases x) (simp_all add: Outcome_of_def)

lemma Outcome_value_bound [simp]: "Outcome_value x \<le> 7"
  by (cases x) simp_all

lemma ExclusionReason_of_value [simp]: "ExclusionReason_of (enum_u8 (ExclusionReason_value x)) = x"
  by (cases x) (simp_all add: ExclusionReason_of_def)

lemma ExclusionReason_value_bound [simp]: "ExclusionReason_value x \<le> 17"
  by (cases x) simp_all

lemma DegradationFlag_of_value [simp]: "DegradationFlag_of (enum_u8 (DegradationFlag_value x)) = x"
  by (cases x) (simp_all add: DegradationFlag_of_def)

lemma DegradationFlag_value_bound [simp]: "DegradationFlag_value x \<le> 8"
  by (cases x) simp_all

lemma IncumbentDelta_of_value [simp]: "IncumbentDelta_of (enum_u8 (IncumbentDelta_value x)) = x"
  by (cases x) (simp_all add: IncumbentDelta_of_def)

lemma IncumbentDelta_value_bound [simp]: "IncumbentDelta_value x \<le> 3"
  by (cases x) simp_all

section \<open>Shared readers and writers\<close>

definition kMaxNotesOnDecode :: u32 where "kMaxNotesOnDecode = 64"
definition kMaxMessageLength :: u32 where "kMaxMessageLength = 1024"

definition ReadEnumU8 :: "u8 \<Rightarrow> ByteReader \<Rightarrow> (u8 \<times> ByteReader) option" where
  "ReadEnumU8 max_value r =
     do { (raw, r) \<leftarrow> ByteReader_U8 r; if raw > max_value then None else Some (raw, r) }"

definition WriteBool :: "bool \<Rightarrow> byte list" where
  "WriteBool b = ByteWriter_U8 (if b then 1 else 0)"

definition ReadBool :: "ByteReader \<Rightarrow> (bool \<times> ByteReader) option" where
  "ReadBool r =
     do { (raw, r) \<leftarrow> ByteReader_U8 r; if raw > 1 then None else Some (raw \<noteq> 0, r) }"

text \<open>A run of 64-bit fields, and the \<^verbatim>\<open>values[n]\<close> loop that reads it back.\<close>

definition WriteU64s :: "u64 list \<Rightarrow> byte list" where
  "WriteU64s vs = concat (map ByteWriter_U64 vs)"

text \<open>A counted sequence: the 32-bit size, then the elements; the reader refuses a count above its limit.\<close>

definition WriteVector :: "('a \<Rightarrow> byte list) \<Rightarrow> 'a list \<Rightarrow> byte list" where
  "WriteVector write xs = ByteWriter_U32 (word_of_nat (length xs)) @ concat (map write xs)"

definition ReadVector ::
  "u64 \<Rightarrow> (ByteReader \<Rightarrow> ('a \<times> ByteReader) option) \<Rightarrow> ByteReader \<Rightarrow> ('a list \<times> ByteReader) option" where
  "ReadVector max_count read r =
     do { (n, r) \<leftarrow> ByteReader_U32 r;
          if ucast n > max_count then None else read_n read (unat n) r }"

definition WriteReservation :: "ReservationRef \<Rightarrow> byte list" where
  "WriteReservation ref = ByteWriter_U64 (rr_id ref) @ ByteWriter_U64 (rr_generation ref)"

definition ReadReservation :: "ByteReader \<Rightarrow> (ReservationRef \<times> ByteReader) option" where
  "ReadReservation r =
     do { (i, r) \<leftarrow> ByteReader_U64 r; (generation, r) \<leftarrow> ByteReader_U64 r;
          Some (ReservationRef i generation, r) }"

text \<open>\<^verbatim>\<open>WriteIdList\<close>, \<^verbatim>\<open>WriteIdVector\<close> and their readers differ in the id type only. The limit of the
  readers is the 64-bit limit clamped to 32 bits.\<close>

definition clamp32 :: "u64 \<Rightarrow> u32" where "clamp32 limit = ucast (min limit 0xFFFFFFFF)"

definition WriteIdVector :: "u64 list \<Rightarrow> byte list" where
  "WriteIdVector ids = WriteVector ByteWriter_U64 ids"

definition ReadIdVector :: "u32 \<Rightarrow> ByteReader \<Rightarrow> (u64 list \<times> ByteReader) option" where
  "ReadIdVector max_count r = ReadVector (ucast max_count) ByteReader_U64 r"

text \<open>An optional id is written through its raw value, 0 standing for absence.\<close>

definition WriteOptionalId :: "u64 option \<Rightarrow> byte list" where
  "WriteOptionalId v =
     (let raw = (case v of None \<Rightarrow> 0 | Some x \<Rightarrow> x) in
      ByteWriter_U8 (if raw \<noteq> 0 then 1 else 0) @ (if raw \<noteq> 0 then ByteWriter_U64 raw else []))"

definition ReadOptionalId :: "ByteReader \<Rightarrow> (u64 option \<times> ByteReader) option" where
  "ReadOptionalId r =
     do { (present, r) \<leftarrow> ByteReader_U8 r;
          if present > 1 then None
          else if present = 0 then Some (None, r)
          else do { (raw, r) \<leftarrow> ByteReader_U64 r; Some (if raw \<noteq> 0 then Some raw else None, r) } }"

section \<open>Authority, provenance and incumbent\<close>

definition WriteExpected :: "AuthorityExpectation \<Rightarrow> byte list" where
  "WriteExpected v =
     WriteU64s [ex_path_authority v, ex_candidate_set v, ex_capacity v, ex_policy v, ex_qos v,
                ex_fabric_epoch v, ex_evidence v]"

definition ReadExpected :: "ByteReader \<Rightarrow> (AuthorityExpectation \<times> ByteReader) option" where
  "ReadExpected r =
     do { (values, r) \<leftarrow> read_n ByteReader_U64 7 r;
          Some (\<lparr>ex_path_authority = values ! 0, ex_candidate_set = values ! 1, ex_capacity = values ! 2,
                 ex_policy = values ! 3, ex_qos = values ! 4, ex_fabric_epoch = values ! 5,
                 ex_evidence = values ! 6\<rparr>, r) }"

definition WriteProvenance :: "Provenance \<Rightarrow> byte list" where
  "WriteProvenance v =
     ByteWriter_String (pv_producer v) @ ByteWriter_String (pv_producer_version v) @
     ByteWriter_U64 (pv_source_sequence v) @ ByteWriter_I64 (pv_observer_unix_nanos v)"

definition ReadProvenance :: "ByteReader \<Rightarrow> (Provenance \<times> ByteReader) option" where
  "ReadProvenance r =
     do { (producer, r) \<leftarrow> ByteReader_String (word_of_nat kMaxProvenanceFieldLength) r;
          (version, r) \<leftarrow> ByteReader_String (word_of_nat kMaxProvenanceFieldLength) r;
          (sequence, r) \<leftarrow> ByteReader_U64 r;
          (nanos, r) \<leftarrow> ByteReader_I64 r;
          Some (\<lparr>pv_producer = producer, pv_producer_version = version, pv_source_sequence = sequence,
                 pv_observer_unix_nanos = nanos\<rparr>, r) }"

definition WriteIncumbent :: "IncumbentPlacement \<Rightarrow> byte list" where
  "WriteIncumbent v =
     WriteU64s [inc_id v, inc_generation v, inc_path v, inc_path_authority v,
                inc_candidate_set_generation v, inc_capacity_generation v, inc_policy_generation v,
                inc_qos_generation v, inc_fabric_epoch v] @ WriteReservation (inc_reservation v)"

definition ReadIncumbent :: "ByteReader \<Rightarrow> (IncumbentPlacement \<times> ByteReader) option" where
  "ReadIncumbent r =
     do { (values, r) \<leftarrow> read_n ByteReader_U64 9 r;
          (reservation, r) \<leftarrow> ReadReservation r;
          Some (\<lparr>inc_id = values ! 0, inc_generation = values ! 1, inc_path = values ! 2,
                 inc_path_authority = values ! 3, inc_candidate_set_generation = values ! 4,
                 inc_capacity_generation = values ! 5, inc_policy_generation = values ! 6,
                 inc_qos_generation = values ! 7, inc_fabric_epoch = values ! 8,
                 inc_reservation = reservation\<rparr>, r) }"

definition WriteAuthorityVector :: "AuthorityVector \<Rightarrow> byte list" where
  "WriteAuthorityVector v =
     WriteU64s [av_path_authority v, av_candidate_set v, av_candidate_set_generation v, av_capacity v,
                av_capacity_generation v, av_policy v, av_policy_generation v, av_qos v,
                av_qos_generation v, av_evidence v, av_evidence_generation v, av_fabric_epoch v]"

definition ReadAuthorityVector :: "ByteReader \<Rightarrow> (AuthorityVector \<times> ByteReader) option" where
  "ReadAuthorityVector r =
     do { (values, r) \<leftarrow> read_n ByteReader_U64 12 r;
          Some (\<lparr>av_path_authority = values ! 0, av_candidate_set = values ! 1,
                 av_candidate_set_generation = values ! 2, av_capacity = values ! 3,
                 av_capacity_generation = values ! 4, av_policy = values ! 5,
                 av_policy_generation = values ! 6, av_qos = values ! 7, av_qos_generation = values ! 8,
                 av_evidence = values ! 9, av_evidence_generation = values ! 10,
                 av_fabric_epoch = values ! 11\<rparr>, r) }"

section \<open>Intents\<close>

definition WriteIntent :: "PlacementIntent \<Rightarrow> byte list" where
  "WriteIntent v =
     WriteU64s [in_flow v, in_flow_generation v, in_path v, in_path_authority v, in_candidate_set v,
                in_candidate_set_generation v, in_capacity v, in_capacity_generation v, in_policy v,
                in_policy_generation v, in_qos v, in_qos_generation v, in_evidence v,
                in_evidence_generation v, in_fabric_epoch v] @
     WriteReservation (in_reservation v) @ ByteWriter_U64 (in_attempt v) @
     ByteWriter_U64 (in_revalidate_after_nanos v) @
     ByteWriter_U64 (dg_hi (in_digest v)) @ ByteWriter_U64 (dg_lo (in_digest v))"

definition ReadIntent :: "ByteReader \<Rightarrow> (PlacementIntent \<times> ByteReader) option" where
  "ReadIntent r =
     do { (values, r) \<leftarrow> read_n ByteReader_U64 15 r;
          (reservation, r) \<leftarrow> ReadReservation r;
          (attempt, r) \<leftarrow> ByteReader_U64 r;
          (nanos, r) \<leftarrow> ByteReader_U64 r;
          (hi, r) \<leftarrow> ByteReader_U64 r;
          (lo, r) \<leftarrow> ByteReader_U64 r;
          Some (\<lparr>in_flow = values ! 0, in_flow_generation = values ! 1, in_path = values ! 2,
                 in_path_authority = values ! 3, in_candidate_set = values ! 4,
                 in_candidate_set_generation = values ! 5, in_capacity = values ! 6,
                 in_capacity_generation = values ! 7, in_policy = values ! 8,
                 in_policy_generation = values ! 9, in_qos = values ! 10, in_qos_generation = values ! 11,
                 in_evidence = values ! 12, in_evidence_generation = values ! 13,
                 in_fabric_epoch = values ! 14, in_reservation = reservation, in_attempt = attempt,
                 in_revalidate_after_nanos = nanos, in_digest = \<lparr>dg_hi = hi, dg_lo = lo\<rparr>\<rparr>, r) }"

section \<open>Policies\<close>

definition WriteObjective :: "Objective \<Rightarrow> byte list" where
  "WriteObjective objective =
     ByteWriter_U8 (enum_u8 (ObjectiveKind_value (ob_kind objective))) @
     ByteWriter_U8 (enum_u8 (Direction_value (ob_direction objective)))"

definition ReadObjective :: "ByteReader \<Rightarrow> (Objective \<times> ByteReader) option" where
  "ReadObjective r =
     do { (kind, r) \<leftarrow> ReadEnumU8 8 r; (direction, r) \<leftarrow> ReadEnumU8 1 r;
          Some (\<lparr>ob_kind = ObjectiveKind_of kind, ob_direction = Direction_of direction\<rparr>, r) }"

definition ReadTier :: "ByteReader \<Rightarrow> (PathTier \<times> ByteReader) option" where
  "ReadTier r = do { (tier, r) \<leftarrow> ReadEnumU8 2 r; Some (PathTier_of tier, r) }"

definition WritePolicy :: "PlacementPolicy \<Rightarrow> byte list" where
  "WritePolicy v =
     ByteWriter_U64 (pp_id v) @ ByteWriter_U64 (pp_generation v) @
     WriteVector WriteObjective (pp_objectives v) @
     WriteVector (\<lambda>tier. ByteWriter_U8 (enum_u8 (PathTier_value tier))) (pp_allowed_tiers v) @
     WriteIdVector (pp_required_labels v) @ WriteIdVector (pp_forbidden_labels v) @
     WriteOptionalId (lc_required_locality (pp_locality v)) @
     WriteOptionalId (lc_preferred_locality (pp_locality v)) @
     WriteIdVector (lc_forbidden_localities (pp_locality v)) @
     WriteOptionalId (fd_required_domain (pp_failure_domains v)) @
     WriteIdVector (fd_forbidden_domains (pp_failure_domains v)) @
     WriteBool (fd_avoid_occupied_domains (pp_failure_domains v)) @
     ByteWriter_U32 (fd_min_distinct_domains (pp_failure_domains v)) @
     WriteBool (ra_required (pp_reservation_affinity v)) @
     WriteVector WriteReservation (ra_refs (pp_reservation_affinity v)) @
     ByteWriter_U64 (ag_min_residual_headroom_bytes (pp_admission v)) @
     ByteWriter_U8 (enum_u8 (GateAction_value (ag_on_below (pp_admission v)))) @
     WriteBool (sp_allow_degraded (pp_service v)) @
     ByteWriter_U8 (sp_max_relaxation_steps (pp_service v)) @
     ByteWriter_U8 (enum_u8 (ChurnAction_value (ch_on_move (pp_churn v)))) @
     WriteBool (ch_prefer_incumbent (pp_churn v)) @
     ByteWriter_U64 (ch_move_improvement_threshold (pp_churn v)) @
     ByteWriter_U32 (ch_threshold_objective_index (pp_churn v)) @
     ByteWriter_U8 (enum_u8 (EvidencePolicyMode_value (ep_on_missing (pp_evidence v)))) @
     ByteWriter_U8 (enum_u8 (EvidencePolicyMode_value (ep_on_stale (pp_evidence v)))) @
     ByteWriter_U64 (pp_revalidate_after_nanos v)"

definition ReadPolicy :: "Limits \<Rightarrow> ByteReader \<Rightarrow> (PlacementPolicy \<times> ByteReader) option" where
  "ReadPolicy limits r =
     do { (policy_id, r) \<leftarrow> ByteReader_U64 r;
          (generation, r) \<leftarrow> ByteReader_U64 r;
          (objectives, r) \<leftarrow> ReadVector (max_objectives limits) ReadObjective r;
          if objectives = [] then None
          else do {
          (tiers, r) \<leftarrow> ReadVector 3 ReadTier r;
          (required_labels, r) \<leftarrow> ReadIdVector (clamp32 (max_policy_id_lists limits)) r;
          (forbidden_labels, r) \<leftarrow> ReadIdVector (clamp32 (max_policy_id_lists limits)) r;
          (required_locality, r) \<leftarrow> ReadOptionalId r;
          (preferred_locality, r) \<leftarrow> ReadOptionalId r;
          (forbidden_localities, r) \<leftarrow> ReadIdVector (clamp32 (max_policy_id_lists limits)) r;
          (required_domain, r) \<leftarrow> ReadOptionalId r;
          (forbidden_domains, r) \<leftarrow> ReadIdVector (clamp32 (max_policy_id_lists limits)) r;
          (avoid, r) \<leftarrow> ReadBool r;
          (min_domains, r) \<leftarrow> ByteReader_U32 r;
          (affinity_required, r) \<leftarrow> ReadBool r;
          (refs, r) \<leftarrow> ReadVector (max_affinity_refs limits) ReadReservation r;
          (headroom, r) \<leftarrow> ByteReader_U64 r;
          (gate, r) \<leftarrow> ReadEnumU8 1 r;
          (allow_degraded, r) \<leftarrow> ReadBool r;
          (steps, r) \<leftarrow> ByteReader_U8 r;
          if steps > 2 then None
          else do {
          (churn, r) \<leftarrow> ReadEnumU8 1 r;
          (prefer, r) \<leftarrow> ReadBool r;
          (threshold, r) \<leftarrow> ByteReader_U64 r;
          (index, r) \<leftarrow> ByteReader_U32 r;
          (on_missing, r) \<leftarrow> ReadEnumU8 1 r;
          (on_stale, r) \<leftarrow> ReadEnumU8 1 r;
          (nanos, r) \<leftarrow> ByteReader_U64 r;
          Some (\<lparr>pp_id = policy_id, pp_generation = generation, pp_objectives = objectives,
            pp_allowed_tiers = tiers, pp_required_labels = required_labels,
            pp_forbidden_labels = forbidden_labels,
            pp_locality = \<lparr>lc_required_locality = required_locality,
              lc_preferred_locality = preferred_locality, lc_forbidden_localities = forbidden_localities\<rparr>,
            pp_failure_domains = \<lparr>fd_required_domain = required_domain,
              fd_forbidden_domains = forbidden_domains, fd_avoid_occupied_domains = avoid,
              fd_min_distinct_domains = min_domains\<rparr>,
            pp_reservation_affinity = \<lparr>ra_required = affinity_required, ra_refs = refs\<rparr>,
            pp_admission = \<lparr>ag_min_residual_headroom_bytes = headroom, ag_on_below = GateAction_of gate\<rparr>,
            pp_service = \<lparr>sp_allow_degraded = allow_degraded, sp_max_relaxation_steps = steps\<rparr>,
            pp_churn = \<lparr>ch_on_move = ChurnAction_of churn, ch_prefer_incumbent = prefer,
              ch_move_improvement_threshold = threshold, ch_threshold_objective_index = index\<rparr>,
            pp_evidence = \<lparr>ep_on_missing = EvidencePolicyMode_of on_missing,
              ep_on_stale = EvidencePolicyMode_of on_stale\<rparr>,
            pp_revalidate_after_nanos = nanos\<rparr>, r) } } }"

section \<open>Explanations\<close>

definition WriteObjectiveValue :: "ObjectiveValue \<Rightarrow> byte list" where
  "WriteObjectiveValue key =
     ByteWriter_U8 (enum_u8 (ObjectiveKind_value (ov_kind key))) @
     ByteWriter_U8 (enum_u8 (Direction_value (ov_direction key))) @
     WriteBool (ov_known key) @ ByteWriter_U64 (ov_value key)"

definition ReadObjectiveValue :: "ByteReader \<Rightarrow> (ObjectiveValue \<times> ByteReader) option" where
  "ReadObjectiveValue r =
     do { (kind, r) \<leftarrow> ReadEnumU8 8 r; (direction, r) \<leftarrow> ReadEnumU8 1 r;
          (known, r) \<leftarrow> ReadBool r; (v, r) \<leftarrow> ByteReader_U64 r;
          Some (\<lparr>ov_kind = ObjectiveKind_of kind, ov_direction = Direction_of direction,
                 ov_known = known, ov_value = v\<rparr>, r) }"

definition WriteRankedCandidate :: "RankedCandidate \<Rightarrow> byte list" where
  "WriteRankedCandidate ranked =
     ByteWriter_U64 (rc_path ranked) @ ByteWriter_U64 (rc_authority ranked) @
     ByteWriter_U32 (rc_rank ranked) @ WriteBool (rc_is_incumbent ranked) @
     WriteVector WriteObjectiveValue (rc_keys ranked)"

definition ReadRankedCandidate :: "Limits \<Rightarrow> ByteReader \<Rightarrow> (RankedCandidate \<times> ByteReader) option" where
  "ReadRankedCandidate limits r =
     do { (path_id, r) \<leftarrow> ByteReader_U64 r; (authority, r) \<leftarrow> ByteReader_U64 r;
          (rank, r) \<leftarrow> ByteReader_U32 r; (is_incumbent, r) \<leftarrow> ReadBool r;
          (keys, r) \<leftarrow> ReadVector (max_objectives limits) ReadObjectiveValue r;
          Some (\<lparr>rc_path = path_id, rc_authority = authority, rc_rank = rank,
                 rc_is_incumbent = is_incumbent, rc_keys = keys\<rparr>, r) }"

definition WriteExclusionSummary :: "ExclusionSummary \<Rightarrow> byte list" where
  "WriteExclusionSummary summary =
     ByteWriter_U8 (enum_u8 (ExclusionReason_value (es_reason summary))) @
     ByteWriter_U64 (es_count summary) @ WriteVector ByteWriter_U64 (es_sample summary)"

definition ReadExclusionSummary :: "Limits \<Rightarrow> ByteReader \<Rightarrow> (ExclusionSummary \<times> ByteReader) option" where
  "ReadExclusionSummary limits r =
     do { (reason, r) \<leftarrow> ReadEnumU8 17 r; (n, r) \<leftarrow> ByteReader_U64 r;
          (sample, r) \<leftarrow> ReadVector (max_exclusion_samples limits) ByteReader_U64 r;
          Some (\<lparr>es_reason = ExclusionReason_of reason, es_count = n, es_sample = sample\<rparr>, r) }"

definition ReadDegradation :: "ByteReader \<Rightarrow> (DegradationFlag \<times> ByteReader) option" where
  "ReadDegradation r = do { (flag, r) \<leftarrow> ReadEnumU8 8 r; Some (DegradationFlag_of flag, r) }"

definition WriteBinding :: "BindingConstraint \<Rightarrow> byte list" where
  "WriteBinding binding =
     ByteWriter_U8 (enum_u8 (ExclusionReason_value (bc_kind binding))) @
     ByteWriter_U64 (bc_path binding) @ ByteWriter_U64 (bc_required binding) @
     ByteWriter_U64 (bc_available binding) @ ByteWriter_String (bc_label binding)"

definition ReadBinding :: "Limits \<Rightarrow> ByteReader \<Rightarrow> (BindingConstraint \<times> ByteReader) option" where
  "ReadBinding limits r =
     do { (kind, r) \<leftarrow> ReadEnumU8 17 r; (path, r) \<leftarrow> ByteReader_U64 r;
          (required, r) \<leftarrow> ByteReader_U64 r; (available, r) \<leftarrow> ByteReader_U64 r;
          (label, r) \<leftarrow> ByteReader_String (clamp32 (max_string_length limits)) r;
          Some (\<lparr>bc_kind = ExclusionReason_of kind, bc_path = path, bc_required = required,
                 bc_available = available, bc_label = label\<rparr>, r) }"

definition WriteExplanation :: "Explanation \<Rightarrow> byte list" where
  "WriteExplanation v =
     WriteBool (xp_truncated v) @
     WriteU64s [xp_candidate_count v, xp_legal_candidate_count v, xp_excluded_candidate_count v,
                xp_unknown_evidence_count v, xp_distinct_failure_domains v] @
     WriteVector WriteRankedCandidate (xp_ranked v) @
     WriteVector WriteExclusionSummary (xp_exclusions v) @
     WriteVector (\<lambda>flag. ByteWriter_U8 (enum_u8 (DegradationFlag_value flag))) (xp_degradations v) @
     WriteVector WriteBinding (xp_binding v) @
     WriteVector ByteWriter_String (xp_notes v)"

text \<open>The note length is \<^verbatim>\<open>static_cast<std::uint32_t>(limits.max_string_length)\<close>, unlike the clamped
  length of a binding's label.\<close>

definition ReadExplanation :: "Limits \<Rightarrow> ByteReader \<Rightarrow> (Explanation \<times> ByteReader) option" where
  "ReadExplanation limits r =
     do { (truncated, r) \<leftarrow> ReadBool r;
          (counts, r) \<leftarrow> read_n ByteReader_U64 5 r;
          (ranked, r) \<leftarrow> ReadVector (max_ranked_explained limits) (ReadRankedCandidate limits) r;
          (exclusions, r) \<leftarrow> ReadVector (max_exclusion_reasons limits) (ReadExclusionSummary limits) r;
          (degradations, r) \<leftarrow> ReadVector 9 ReadDegradation r;
          (binding, r) \<leftarrow> ReadVector 32 (ReadBinding limits) r;
          (notes, r) \<leftarrow> ReadVector (ucast kMaxNotesOnDecode)
                          (ByteReader_String (ucast (max_string_length limits))) r;
          Some (\<lparr>xp_truncated = truncated, xp_candidate_count = counts ! 0,
                 xp_legal_candidate_count = counts ! 1, xp_excluded_candidate_count = counts ! 2,
                 xp_unknown_evidence_count = counts ! 3, xp_distinct_failure_domains = counts ! 4,
                 xp_ranked = ranked, xp_exclusions = exclusions, xp_degradations = degradations,
                 xp_binding = binding, xp_notes = notes\<rparr>, r) }"

section \<open>Round trips of the readers and writers\<close>

definition vec_ok :: "u64 \<Rightarrow> 'a list \<Rightarrow> bool" where
  "vec_ok limit xs \<longleftrightarrow> length xs \<le> unat limit \<and> length xs < 2 ^ 32"

lemma unat_widen [simp]: "unat (ucast (w :: u32) :: u64) = unat w"
proof -
  have "unat w < 2 ^ 32" using unsigned_less [where 'a = nat, of w] by simp
  then show ?thesis by (simp add: unsigned_ucast_eq take_bit_nat_eq_self)
qed

context codec
begin

lemma vector: "codec (WriteVector enc) (ReadVector m dec) (\<lambda>xs. vec_ok m xs \<and> (\<forall>x \<in> set xs. wf x))"
proof
  fix xs r assume h: "vec_ok m xs \<and> (\<forall>x \<in> set xs. wf x)"
  then have len: "unat (word_of_nat (length xs) :: u32) = length xs"
    by (simp add: vec_ok_def unat_of_nat)
  then have "\<not> m < ucast (word_of_nat (length xs) :: u32)"
    using h by (simp add: vec_ok_def word_less_nat_alt)
  then show "ReadVector m dec (WriteVector enc xs @ r) = Some (xs, r)"
    using h by (simp add: ReadVector_def WriteVector_def u32_codec.dec_enc len read_n_concat)
qed

lemma optional:
  "codec (\<lambda>v. WriteBool (v \<noteq> None) @ (case v of None \<Rightarrow> [] | Some x \<Rightarrow> enc x))
     (\<lambda>r. do { (b, r) \<leftarrow> ReadBool r; if b then do { (x, r) \<leftarrow> dec r; Some (Some x, r) } else Some (None, r) })
     (\<lambda>v. \<forall>x. v = Some x \<longrightarrow> wf x)"
  by unfold_locales (auto simp: ReadBool_def WriteBool_def u8_codec.dec_enc dec_enc split: option.split)

end

text \<open>An enumeration survives when its value is one the reader's bound admits.\<close>

lemma ReadEnumU8_enum [codec_laws]:
  "v \<le> unat m \<Longrightarrow> ReadEnumU8 m (ByteWriter_U8 (enum_u8 v) @ r) = Some (enum_u8 v, r)"
  using unsigned_less [where 'a = nat, of m]
  by (simp add: ReadEnumU8_def u8_codec.dec_enc word_less_nat_alt)

interpretation bool_codec: codec WriteBool ReadBool "\<lambda>_. True"
  by unfold_locales (simp add: WriteBool_def ReadBool_def u8_codec.dec_enc)

interpretation reservation_codec: codec WriteReservation ReadReservation "\<lambda>_. True"
  by unfold_locales (simp add: WriteReservation_def ReadReservation_def codec_laws)

interpretation u64_vector_codec: codec "WriteVector ByteWriter_U64" "ReadVector m ByteReader_U64" "vec_ok m" for m
  using u64_codec.vector by simp

interpretation reservation_vector_codec:
  codec "WriteVector WriteReservation" "ReadVector m ReadReservation" "vec_ok m" for m
  using reservation_codec.vector by simp

interpretation id_vector_codec: codec WriteIdVector "ReadIdVector m" "vec_ok (ucast m)" for m
  using u64_vector_codec.codec_axioms [of "ucast m"] by (simp add: WriteIdVector_def [abs_def] ReadIdVector_def [abs_def])

interpretation optional_id_codec: codec WriteOptionalId ReadOptionalId "\<lambda>v. v \<noteq> Some 0"
  by unfold_locales
    (auto simp: WriteOptionalId_def ReadOptionalId_def codec_laws Let_def split: option.split)

lemma read_WriteU64s [codec_laws]:
  "n = length vs \<Longrightarrow> read_n ByteReader_U64 n (WriteU64s vs @ r) = Some (vs, r)"
  by (simp add: WriteU64s_def u64_codec.read_n_concat)

lemmas basic_codecs [codec_laws] =
  bool_codec.dec_enc reservation_codec.dec_enc u64_vector_codec.dec_enc reservation_vector_codec.dec_enc
  id_vector_codec.dec_enc optional_id_codec.dec_enc string_codec.dec_enc

interpretation expected_codec: codec WriteExpected ReadExpected "\<lambda>_. True"
  by unfold_locales (simp add: WriteExpected_def ReadExpected_def codec_laws)

interpretation incumbent_codec: codec WriteIncumbent ReadIncumbent "\<lambda>_. True"
  by unfold_locales (simp add: WriteIncumbent_def ReadIncumbent_def codec_laws)

interpretation authority_codec: codec WriteAuthorityVector ReadAuthorityVector "\<lambda>_. True"
  by unfold_locales (simp add: WriteAuthorityVector_def ReadAuthorityVector_def codec_laws)

interpretation intent_codec: codec WriteIntent ReadIntent "\<lambda>_. True"
  by unfold_locales (simp add: WriteIntent_def ReadIntent_def codec_laws)

interpretation provenance_codec: codec WriteProvenance ReadProvenance
  "\<lambda>v. length (pv_producer v) \<le> 128 \<and> length (pv_producer_version v) \<le> 128"
  by unfold_locales (simp add: WriteProvenance_def ReadProvenance_def kMaxProvenanceFieldLength_def codec_laws)

lemma unat_clamp32: "unat (clamp32 m) = min (unat m) (2 ^ 32 - 1)"
proof -
  have "unat (min m 0xFFFFFFFF) = min (unat m) (2 ^ 32 - 1)"
    by (simp add: min_def word_le_nat_alt)
  then show ?thesis by (simp add: clamp32_def unsigned_ucast_eq take_bit_nat_eq_self)
qed

lemma vec_ok_clamp32 [simp]: "vec_ok (ucast (clamp32 m)) xs \<longleftrightarrow> vec_ok m xs"
  by (auto simp: vec_ok_def unat_clamp32)

interpretation objective_codec: codec WriteObjective ReadObjective
  "\<lambda>v. ObjectiveKind_value (ob_kind v) < 9 \<and> Direction_value (ob_direction v) < 2"
  by unfold_locales (simp add: WriteObjective_def ReadObjective_def codec_laws)

interpretation tier_codec: codec "\<lambda>tier. ByteWriter_U8 (enum_u8 (PathTier_value tier))" ReadTier
  "\<lambda>v. PathTier_value v < 3"
  by unfold_locales (simp add: ReadTier_def codec_laws)

lemmas policy_vectors [codec_laws] =
  codec.dec_enc [OF objective_codec.vector] codec.dec_enc [OF tier_codec.vector]

definition codec_policy :: "Limits \<Rightarrow> PlacementPolicy \<Rightarrow> bool" where
  "codec_policy limits p \<longleftrightarrow>
     pp_objectives p \<noteq> [] \<and> vec_ok (max_objectives limits) (pp_objectives p) \<and>
     (\<forall>b \<in> set (pp_objectives p). ObjectiveKind_value (ob_kind b) < 9 \<and> Direction_value (ob_direction b) < 2) \<and>
     vec_ok 3 (pp_allowed_tiers p) \<and> (\<forall>t \<in> set (pp_allowed_tiers p). PathTier_value t < 3) \<and>
     vec_ok (max_policy_id_lists limits) (pp_required_labels p) \<and>
     vec_ok (max_policy_id_lists limits) (pp_forbidden_labels p) \<and>
     vec_ok (max_policy_id_lists limits) (lc_forbidden_localities (pp_locality p)) \<and>
     vec_ok (max_policy_id_lists limits) (fd_forbidden_domains (pp_failure_domains p)) \<and>
     vec_ok (max_affinity_refs limits) (ra_refs (pp_reservation_affinity p)) \<and>
     lc_required_locality (pp_locality p) \<noteq> Some 0 \<and> lc_preferred_locality (pp_locality p) \<noteq> Some 0 \<and>
     fd_required_domain (pp_failure_domains p) \<noteq> Some 0 \<and>
     GateAction_value (ag_on_below (pp_admission p)) < 2 \<and> ChurnAction_value (ch_on_move (pp_churn p)) < 2 \<and>
     EvidencePolicyMode_value (ep_on_missing (pp_evidence p)) < 2 \<and>
     EvidencePolicyMode_value (ep_on_stale (pp_evidence p)) < 2 \<and>
     sp_max_relaxation_steps (pp_service p) \<le> 2"

interpretation policy_codec: codec WritePolicy "ReadPolicy limits" "codec_policy limits" for limits
  by unfold_locales (simp add: codec_policy_def WritePolicy_def ReadPolicy_def codec_laws not_less)

interpretation value_codec: codec WriteObjectiveValue ReadObjectiveValue
  "\<lambda>v. ObjectiveKind_value (ov_kind v) < 9 \<and> Direction_value (ov_direction v) < 2"
  by unfold_locales (simp add: WriteObjectiveValue_def ReadObjectiveValue_def codec_laws)

definition codec_ranked :: "Limits \<Rightarrow> RankedCandidate \<Rightarrow> bool" where
  "codec_ranked limits c \<longleftrightarrow> vec_ok (max_objectives limits) (rc_keys c) \<and>
     (\<forall>v \<in> set (rc_keys c). ObjectiveKind_value (ov_kind v) < 9 \<and> Direction_value (ov_direction v) < 2)"

interpretation ranked_codec: codec WriteRankedCandidate "ReadRankedCandidate limits" "codec_ranked limits" for limits
  by unfold_locales
    (simp add: codec_ranked_def WriteRankedCandidate_def ReadRankedCandidate_def codec_laws
      codec.dec_enc [OF value_codec.vector])

interpretation summary_codec: codec WriteExclusionSummary "ReadExclusionSummary limits"
  "\<lambda>s. vec_ok (max_exclusion_samples limits) (es_sample s)" for limits
  by unfold_locales (simp add: WriteExclusionSummary_def ReadExclusionSummary_def codec_laws)

interpretation degradation_codec: codec "\<lambda>flag. ByteWriter_U8 (enum_u8 (DegradationFlag_value flag))" ReadDegradation
  "\<lambda>_. True"
  by unfold_locales (simp add: ReadDegradation_def codec_laws)

interpretation binding_codec: codec WriteBinding "ReadBinding limits"
  "\<lambda>b. length (bc_label b) \<le> unat (clamp32 (max_string_length limits))" for limits
  by unfold_locales (simp add: WriteBinding_def ReadBinding_def codec_laws)

definition codec_explanation :: "Limits \<Rightarrow> Explanation \<Rightarrow> bool" where
  "codec_explanation limits v \<longleftrightarrow>
     vec_ok (max_ranked_explained limits) (xp_ranked v) \<and> (\<forall>c \<in> set (xp_ranked v). codec_ranked limits c) \<and>
     vec_ok (max_exclusion_reasons limits) (xp_exclusions v) \<and>
     (\<forall>s \<in> set (xp_exclusions v). vec_ok (max_exclusion_samples limits) (es_sample s)) \<and>
     vec_ok 9 (xp_degradations v) \<and>
     vec_ok 32 (xp_binding v) \<and>
     (\<forall>b \<in> set (xp_binding v). length (bc_label b) \<le> unat (clamp32 (max_string_length limits))) \<and>
     vec_ok (ucast kMaxNotesOnDecode) (xp_notes v) \<and>
     (\<forall>note \<in> set (xp_notes v). length note \<le> unat (ucast (max_string_length limits) :: u32))"

lemmas explanation_vectors [codec_laws] =
  codec.dec_enc [OF ranked_codec.vector] codec.dec_enc [OF summary_codec.vector]
  codec.dec_enc [OF degradation_codec.vector] codec.dec_enc [OF binding_codec.vector]
  codec.dec_enc [OF string_codec.vector]

interpretation explanation_codec: codec WriteExplanation "ReadExplanation limits" "codec_explanation limits" for limits
  by unfold_locales (simp add: codec_explanation_def WriteExplanation_def ReadExplanation_def codec_laws)

lemmas payload_codecs [codec_laws] =
  expected_codec.dec_enc incumbent_codec.dec_enc authority_codec.dec_enc intent_codec.dec_enc
  provenance_codec.dec_enc policy_codec.dec_enc explanation_codec.dec_enc

end
