(* ===== verification/Flow_Payload.thy ===== *)
theory Flow_Payload
  imports Flow_Codec Flow_Validate
begin

text \<open>
  The public codecs of \<^verbatim>\<open>src/codec.cpp\<close>: requests, decisions, intents, authority vectors and the
  durable records of \<^verbatim>\<open>include/flowplace/store.hpp\<close>. A decoder returns the value with the bytes left
  over, or the status of the early return it takes: \<open>need\<close> turns a failed read into that status and
  \<open>bindR\<close> sequences the reads. The decoders of the whole payload also check that nothing is left over.
\<close>

section \<open>Sequencing\<close>

definition need :: "StatusCode \<Rightarrow> string \<Rightarrow> 'a option \<Rightarrow> 'a Result" where
  "need code message v = (case v of None \<Rightarrow> Inl (mk_Status code message) | Some x \<Rightarrow> Inr x)"

definition bindR :: "'a Result \<Rightarrow> ('a \<Rightarrow> 'b Result) \<Rightarrow> 'b Result" where
  "bindR v f = (case v of Inl s \<Rightarrow> Inl s | Inr x \<Rightarrow> f x)"

definition guardR :: "bool \<Rightarrow> StatusCode \<Rightarrow> string \<Rightarrow> 'a Result \<Rightarrow> 'a Result" where
  "guardR failed code message v = (if failed then Inl (mk_Status code message) else v)"

fun decode_n :: "(ByteReader \<Rightarrow> ('a \<times> ByteReader) Result) \<Rightarrow> nat \<Rightarrow> ByteReader \<Rightarrow> ('a list \<times> ByteReader) Result" where
  "decode_n dec 0 r = Inr ([], r)"
| "decode_n dec (Suc n) r =
     bindR (dec r) (\<lambda>(x, r). bindR (decode_n dec n r) (\<lambda>(xs, r). Inr (x # xs, r)))"

definition finish :: "string \<Rightarrow> ('a \<times> ByteReader) Result \<Rightarrow> 'a Result" where
  "finish message v =
     bindR v (\<lambda>(x, r). guardR (\<not> ByteReader_AtEnd r) kWireMalformed message (Inr x))"

section \<open>Authority and intents\<close>

definition EncodeAuthorityExpectation :: "AuthorityExpectation \<Rightarrow> byte list" where
  "EncodeAuthorityExpectation v = WriteExpected v"

definition DecodeAuthorityExpectation :: "ByteReader \<Rightarrow> AuthorityExpectation Result" where
  "DecodeAuthorityExpectation r =
     finish ''trailing bytes after the expectation''
       (need kWireMalformed ''truncated expectation'' (ReadExpected r))"

definition EncodeAuthorityVector :: "AuthorityVector \<Rightarrow> byte list" where
  "EncodeAuthorityVector v = WriteAuthorityVector v"

definition DecodeAuthorityVector :: "ByteReader \<Rightarrow> AuthorityVector Result" where
  "DecodeAuthorityVector r =
     finish ''trailing bytes after the authority vector''
       (need kWireMalformed ''truncated authority vector'' (ReadAuthorityVector r))"

definition EncodeIntent :: "PlacementIntent \<Rightarrow> byte list" where
  "EncodeIntent v = WriteIntent v"

definition DecodeIntent :: "ByteReader \<Rightarrow> PlacementIntent Result" where
  "DecodeIntent r =
     finish ''trailing bytes after the intent'' (need kWireMalformed ''truncated intent'' (ReadIntent r))"

section \<open>Requests\<close>

definition WriteAttributes :: "PathAttributes \<Rightarrow> byte list" where
  "WriteAttributes v =
     ByteWriter_U8 (enum_u8 (PathTier_value (pa_tier v))) @ ByteWriter_U64 (pa_locality v) @
     ByteWriter_U8 (enum_u8 (LocalityScope_value (pa_locality_scope v))) @
     ByteWriter_U64 (pa_failure_domain v) @ ByteWriter_U64 (pa_cost_micro v) @
     ByteWriter_U64 (pa_latency_nanos v) @ ByteWriter_U16 (pa_hop_count v) @
     WriteIdVector (pa_labels v) @ WriteVector WriteReservation (pa_reservations v)"

definition EncodeCandidate :: "CandidatePath \<Rightarrow> byte list" where
  "EncodeCandidate path =
     ByteWriter_U64 (cp_id path) @ ByteWriter_U64 (cp_authority path) @ WriteAttributes (cp_attributes path)"

definition EncodeCapacityEntry :: "PathCapacity \<Rightarrow> byte list" where
  "EncodeCapacityEntry entry =
     ByteWriter_U64 (pc_path entry) @ ByteWriter_U64 (pc_capacity_bytes entry) @
     ByteWriter_U64 (pc_residual_bytes entry)"

definition EncodeEvidenceEntry :: "CongestionEvidenceEntry \<Rightarrow> byte list" where
  "EncodeEvidenceEntry entry = ByteWriter_U64 (ce_path entry) @ ByteWriter_U32 (ce_utilization_ppb entry)"

definition EncodeQos :: "QosProfile \<Rightarrow> byte list" where
  "EncodeQos v =
     ByteWriter_U64 (qos_id v) @ ByteWriter_U64 (qos_generation v) @
     ByteWriter_U8 (enum_u8 (ServiceClass_value (qos_service_class v))) @
     ByteWriter_U8 (enum_u8 (PriorityClass_value (qos_priority v))) @
     ByteWriter_U64 (qos_required_residual_bytes v) @ ByteWriter_U64 (qos_max_latency_nanos v)"

definition EncodeRequest :: "PlacementRequest \<Rightarrow> byte list" where
  "EncodeRequest v =
     ByteWriter_U64 (rq_flow v) @ ByteWriter_U64 (rq_flow_generation v) @
     ByteWriter_U64 (cs_id (rq_candidates v)) @ ByteWriter_U64 (cs_generation (rq_candidates v)) @
     WriteVector EncodeCandidate (cs_paths (rq_candidates v)) @
     ByteWriter_U64 (cap_id (rq_capacity v)) @ ByteWriter_U64 (cap_generation (rq_capacity v)) @
     WriteVector EncodeCapacityEntry (cap_entries (rq_capacity v)) @
     EncodeQos (rq_qos v) @
     ByteWriter_U64 (ev_id (rq_evidence v)) @ ByteWriter_U64 (ev_generation (rq_evidence v)) @
     WriteVector EncodeEvidenceEntry (ev_entries (rq_evidence v)) @
     WritePolicy (rq_policy v) @
     WriteBool (rq_incumbent v \<noteq> None) @
     (case rq_incumbent v of None \<Rightarrow> [] | Some inc \<Rightarrow> WriteIncumbent inc) @
     WriteIdVector (rq_occupied_failure_domains v) @
     WriteExpected (rq_expected v) @ WriteProvenance (rq_provenance v) @ ByteWriter_U64 (rq_attempt v)"

text \<open>A counted loop of the request decoder: the count, its limit check, the elements.\<close>

definition DecodeVector ::
  "string \<Rightarrow> u64 \<Rightarrow> string \<Rightarrow> (ByteReader \<Rightarrow> ('a \<times> ByteReader) Result) \<Rightarrow> ByteReader \<Rightarrow> ('a list \<times> ByteReader) Result" where
  "DecodeVector truncated limit oversize dec r =
     bindR (need kWireMalformed truncated (ByteReader_U32 r)) (\<lambda>(n, r).
     guardR (ucast n > limit) kOversizeRequest oversize (decode_n dec (unat n) r))"

definition DecodeCandidate :: "Limits \<Rightarrow> ByteReader \<Rightarrow> (CandidatePath \<times> ByteReader) Result" where
  "DecodeCandidate limits r =
     bindR (need kWireMalformed ''truncated path id'' (ByteReader_U64 r)) (\<lambda>(i, r).
     bindR (need kWireMalformed ''truncated path authority'' (ByteReader_U64 r)) (\<lambda>(authority, r).
     bindR (need kWireMalformed ''malformed path attributes'' (ReadEnumU8 2 r)) (\<lambda>(tier, r).
     bindR (need kWireMalformed ''malformed path attributes'' (ByteReader_U64 r)) (\<lambda>(locality, r).
     bindR (need kWireMalformed ''malformed locality scope'' (ReadEnumU8 4 r)) (\<lambda>(scope, r).
     bindR (need kWireMalformed ''truncated failure domain'' (ByteReader_U64 r)) (\<lambda>(domain, r).
     bindR (need kWireMalformed ''truncated path metrics'' (ByteReader_U64 r)) (\<lambda>(cost, r).
     bindR (need kWireMalformed ''truncated path metrics'' (ByteReader_U64 r)) (\<lambda>(latency, r).
     bindR (need kWireMalformed ''truncated path metrics'' (ByteReader_U16 r)) (\<lambda>(hops, r).
     bindR (need kOversizeRequest ''encoded path label count exceeds the limit''
              (ReadIdVector (clamp32 (max_path_labels limits)) r)) (\<lambda>(labels, r).
     bindR (DecodeVector ''truncated reservation count'' (max_path_reservations limits)
              ''encoded reservation count exceeds the limit''
              (\<lambda>r. need kWireMalformed ''truncated reservation'' (ReadReservation r)) r) (\<lambda>(reservations, r).
     Inr (\<lparr>cp_id = i, cp_authority = authority,
           cp_attributes = \<lparr>pa_tier = PathTier_of tier, pa_locality = locality,
             pa_locality_scope = LocalityScope_of scope, pa_failure_domain = domain,
             pa_cost_micro = cost, pa_latency_nanos = latency, pa_hop_count = hops,
             pa_labels = labels, pa_reservations = reservations\<rparr>\<rparr>, r))))))))))))"

definition DecodeCapacityEntry :: "ByteReader \<Rightarrow> (PathCapacity \<times> ByteReader) Result" where
  "DecodeCapacityEntry r =
     bindR (need kWireMalformed ''truncated capacity path'' (ByteReader_U64 r)) (\<lambda>(path, r).
     bindR (need kWireMalformed ''truncated capacity entry'' (ByteReader_U64 r)) (\<lambda>(capacity, r).
     bindR (need kWireMalformed ''truncated capacity entry'' (ByteReader_U64 r)) (\<lambda>(residual, r).
     Inr (\<lparr>pc_path = path, pc_capacity_bytes = capacity, pc_residual_bytes = residual\<rparr>, r))))"

definition DecodeQos :: "ByteReader \<Rightarrow> (QosProfile \<times> ByteReader) Result" where
  "DecodeQos r =
     bindR (need kWireMalformed ''truncated qos id'' (ByteReader_U64 r)) (\<lambda>(i, r).
     bindR (need kWireMalformed ''truncated qos generation'' (ByteReader_U64 r)) (\<lambda>(generation, r).
     bindR (need kWireMalformed ''malformed qos class'' (ReadEnumU8 3 r)) (\<lambda>(service_class, r).
     bindR (need kWireMalformed ''malformed qos class'' (ReadEnumU8 3 r)) (\<lambda>(priority, r).
     bindR (need kWireMalformed ''truncated qos requirement'' (ByteReader_U64 r)) (\<lambda>(residual, r).
     bindR (need kWireMalformed ''truncated qos requirement'' (ByteReader_U64 r)) (\<lambda>(latency, r).
     Inr (\<lparr>qos_id = i, qos_generation = generation, qos_service_class = ServiceClass_of service_class,
           qos_priority = PriorityClass_of priority, qos_required_residual_bytes = residual,
           qos_max_latency_nanos = latency\<rparr>, r)))))))"

definition DecodeEvidenceEntry :: "ByteReader \<Rightarrow> (CongestionEvidenceEntry \<times> ByteReader) Result" where
  "DecodeEvidenceEntry r =
     bindR (need kWireMalformed ''truncated evidence path'' (ByteReader_U64 r)) (\<lambda>(path, r).
     bindR (need kWireMalformed ''truncated evidence utilization'' (ByteReader_U32 r)) (\<lambda>(ppb, r).
     guardR (ppb > 1000000000) kInvalidFieldValue ''evidence utilization above 1e9 ppb''
       (Inr (\<lparr>ce_path = path, ce_utilization_ppb = ppb\<rparr>, r))))"

definition DecodeIncumbent :: "ByteReader \<Rightarrow> (IncumbentPlacement option \<times> ByteReader) Result" where
  "DecodeIncumbent r =
     bindR (need kWireMalformed ''truncated incumbent flag'' (ReadBool r)) (\<lambda>(has_incumbent, r).
     if has_incumbent
     then bindR (need kWireMalformed ''truncated incumbent'' (ReadIncumbent r)) (\<lambda>(inc, r). Inr (Some inc, r))
     else Inr (None, r))"

definition DecodeRequest :: "ByteReader \<Rightarrow> Limits \<Rightarrow> PlacementRequest Result" where
  "DecodeRequest r limits = finish ''trailing bytes after request payload'' (
     bindR (need kWireMalformed ''truncated request header'' (ByteReader_U64 r)) (\<lambda>(flow, r).
     bindR (need kWireMalformed ''truncated flow generation'' (ByteReader_U64 r)) (\<lambda>(flow_generation, r).
     bindR (need kWireMalformed ''truncated candidate set id'' (ByteReader_U64 r)) (\<lambda>(candidates, r).
     bindR (need kWireMalformed ''truncated candidate set generation'' (ByteReader_U64 r)) (\<lambda>(candidates_generation, r).
     bindR (DecodeVector ''truncated path count'' (max_candidate_paths limits)
              ''encoded candidate path count exceeds the limit'' (DecodeCandidate limits) r) (\<lambda>(paths, r).
     bindR (need kWireMalformed ''truncated capacity id'' (ByteReader_U64 r)) (\<lambda>(capacity, r).
     bindR (need kWireMalformed ''truncated capacity generation'' (ByteReader_U64 r)) (\<lambda>(capacity_generation, r).
     bindR (DecodeVector ''truncated capacity count'' (max_capacity_entries limits)
              ''encoded capacity entry count exceeds the limit'' DecodeCapacityEntry r) (\<lambda>(entries, r).
     bindR (DecodeQos r) (\<lambda>(qos, r).
     bindR (need kWireMalformed ''truncated evidence id'' (ByteReader_U64 r)) (\<lambda>(evidence, r).
     bindR (need kWireMalformed ''truncated evidence generation'' (ByteReader_U64 r)) (\<lambda>(evidence_generation, r).
     bindR (DecodeVector ''truncated evidence count'' (max_evidence_entries limits)
              ''encoded evidence entry count exceeds the limit'' DecodeEvidenceEntry r) (\<lambda>(observations, r).
     bindR (need kWireMalformed ''malformed policy'' (ReadPolicy limits r)) (\<lambda>(policy, r).
     bindR (DecodeIncumbent r) (\<lambda>(incumbent, r).
     bindR (need kOversizeRequest ''encoded occupied domain count exceeds the limit''
              (ReadIdVector (clamp32 (max_occupied_failure_domains limits)) r)) (\<lambda>(occupied, r).
     bindR (need kWireMalformed ''truncated expectation'' (ReadExpected r)) (\<lambda>(expected, r).
     bindR (need kWireMalformed ''truncated provenance'' (ReadProvenance r)) (\<lambda>(provenance, r).
     bindR (need kWireMalformed ''truncated attempt id'' (ByteReader_U64 r)) (\<lambda>(attempt, r).
     Inr (\<lparr>rq_flow = flow, rq_flow_generation = flow_generation,
           rq_candidates = \<lparr>cs_id = candidates, cs_generation = candidates_generation, cs_paths = paths\<rparr>,
           rq_capacity = \<lparr>cap_id = capacity, cap_generation = capacity_generation, cap_entries = entries\<rparr>,
           rq_qos = qos, rq_policy = policy,
           rq_evidence = \<lparr>ev_id = evidence, ev_generation = evidence_generation, ev_entries = observations\<rparr>,
           rq_incumbent = incumbent, rq_occupied_failure_domains = occupied, rq_expected = expected,
           rq_provenance = provenance, rq_attempt = attempt\<rparr>, r))))))))))))))))))))"

section \<open>Decisions\<close>

definition EncodeDecision :: "PlacementDecision \<Rightarrow> byte list" where
  "EncodeDecision v =
     ByteWriter_U8 (enum_u8 (Outcome_value (de_outcome v))) @
     ByteWriter_U16 (StatusCode_value (de_code v)) @
     WriteBool (de_intent v \<noteq> None) @
     (case de_intent v of None \<Rightarrow> [] | Some intent \<Rightarrow> WriteIntent intent) @
     WriteAuthorityVector (de_authority v) @
     ByteWriter_U8 (enum_u8 (IncumbentDelta_value (de_delta v))) @
     WriteExplanation (de_explanation v) @
     ByteWriter_U64 (dg_hi (de_digest v)) @ ByteWriter_U64 (dg_lo (de_digest v)) @
     ByteWriter_U16 (StatusCode_value (st_code (de_validation v))) @
     ByteWriter_String (st_message (de_validation v))"

text \<open>A status code: 16 bits, then \<^verbatim>\<open>IsKnownStatusCode\<close>, then the cast.\<close>

definition DecodeStatusCode ::
  "StatusCode \<Rightarrow> string \<Rightarrow> string \<Rightarrow> ByteReader \<Rightarrow> (StatusCode \<times> ByteReader) Result" where
  "DecodeStatusCode err truncated unknown r =
     bindR (need err truncated (ByteReader_U16 r)) (\<lambda>(code, r).
     guardR (\<not> IsKnownStatusCode code) err unknown (Inr (the (StatusCode_of code), r)))"

definition DecodeIntentFlag :: "ByteReader \<Rightarrow> (PlacementIntent option \<times> ByteReader) Result" where
  "DecodeIntentFlag r =
     bindR (need kWireMalformed ''truncated intent flag'' (ReadBool r)) (\<lambda>(has_intent, r).
     if has_intent
     then bindR (need kWireMalformed ''truncated intent'' (ReadIntent r)) (\<lambda>(intent, r). Inr (Some intent, r))
     else Inr (None, r))"

definition DecodeDecision :: "ByteReader \<Rightarrow> Limits \<Rightarrow> PlacementDecision Result" where
  "DecodeDecision r limits = finish ''trailing bytes after decision payload'' (
     bindR (need kWireMalformed ''malformed outcome'' (ReadEnumU8 7 r)) (\<lambda>(outcome, r).
     bindR (DecodeStatusCode kWireMalformed ''truncated decision code'' ''unknown decision status code'' r) (\<lambda>(code, r).
     bindR (DecodeIntentFlag r) (\<lambda>(intent, r).
     bindR (need kWireMalformed ''truncated authority vector'' (ReadAuthorityVector r)) (\<lambda>(authority, r).
     bindR (need kWireMalformed ''malformed delta'' (ReadEnumU8 3 r)) (\<lambda>(delta, r).
     bindR (need kWireMalformed ''malformed explanation'' (ReadExplanation limits r)) (\<lambda>(explanation, r).
     bindR (need kWireMalformed ''truncated decision digest'' (ByteReader_U64 r)) (\<lambda>(hi, r).
     bindR (need kWireMalformed ''truncated decision digest'' (ByteReader_U64 r)) (\<lambda>(lo, r).
     bindR (DecodeStatusCode kWireMalformed ''truncated validation code'' ''unknown validation status code'' r) (\<lambda>(validation, r).
     bindR (need kWireMalformed ''truncated validation message'' (ByteReader_String kMaxMessageLength r)) (\<lambda>(message, r).
     Inr (\<lparr>de_outcome = Outcome_of outcome, de_code = code, de_intent = intent,
           de_authority = authority, de_delta = IncumbentDelta_of delta, de_explanation = explanation,
           de_digest = \<lparr>dg_hi = hi, dg_lo = lo\<rparr>, de_validation = mk_Status validation message\<rparr>, r))))))))))))"

section \<open>Durable records\<close>

datatype (plugins only: code size) AttemptPhase = kStarted | kCommitted | kRejected | kCancelled | kFenced

primrec AttemptPhase_value :: "AttemptPhase \<Rightarrow> nat" where
  "AttemptPhase_value AttemptPhase.kStarted = 0"
| "AttemptPhase_value AttemptPhase.kCommitted = 1"
| "AttemptPhase_value AttemptPhase.kRejected = 2"
| "AttemptPhase_value AttemptPhase.kCancelled = 3"
| "AttemptPhase_value AttemptPhase.kFenced = 4"

primrec AttemptPhaseName :: "AttemptPhase \<Rightarrow> string" where
  "AttemptPhaseName AttemptPhase.kStarted = ''STARTED''"
| "AttemptPhaseName AttemptPhase.kCommitted = ''COMMITTED''"
| "AttemptPhaseName AttemptPhase.kRejected = ''REJECTED''"
| "AttemptPhaseName AttemptPhase.kCancelled = ''CANCELLED''"
| "AttemptPhaseName AttemptPhase.kFenced = ''FENCED''"

definition ParseAttemptPhase :: "string \<Rightarrow> AttemptPhase option" where
  "ParseAttemptPhase v =
     (if v = ''STARTED'' then Some AttemptPhase.kStarted
      else if v = ''COMMITTED'' then Some AttemptPhase.kCommitted
      else if v = ''REJECTED'' then Some AttemptPhase.kRejected
      else if v = ''CANCELLED'' then Some AttemptPhase.kCancelled
      else if v = ''FENCED'' then Some AttemptPhase.kFenced
      else None)"

definition AttemptPhase_of :: "u8 \<Rightarrow> AttemptPhase" where
  "AttemptPhase_of v = [AttemptPhase.kStarted, AttemptPhase.kCommitted, AttemptPhase.kRejected,
     AttemptPhase.kCancelled, AttemptPhase.kFenced] ! unat v"

record AttemptRecord =
  ar_attempt :: AttemptId
  ar_incarnation :: u64
  ar_epoch :: FabricEpoch
  ar_flow :: FlowId
  ar_phase :: AttemptPhase
  ar_code :: StatusCode
  ar_request_digest :: Digest
  ar_sequence :: u64
  ar_observed_unix_nanos :: i64

record PlacementRecord =
  pr_id :: PlacementId
  pr_generation :: Gen
  pr_intent :: PlacementIntent
  pr_delta :: IncumbentDelta
  pr_decision_digest :: Digest
  pr_committed_by :: u64
  pr_commit_epoch :: FabricEpoch
  pr_sequence :: u64
  pr_supersedes_generation :: u64
  pr_commit_unix_nanos :: i64
  pr_requires_revalidation :: bool

record RecoveryReport =
  rp_liveness_restored :: bool
  rp_truncated_tail :: bool
  rp_snapshot_loaded :: bool
  rp_bytes_discarded :: u64
  rp_records_valid :: u64
  rp_placements_total :: u64
  rp_attempts_total :: u64
  rp_committed_attempts :: u64
  rp_rejected_attempts :: u64
  rp_cancelled_attempts :: u64
  rp_fenced_attempts :: u64
  rp_unfinished_attempts :: u64
  rp_superseded_placements :: u64
  rp_placements_requiring_revalidation :: u64
  rp_retired_attempts :: u64
  rp_max_sequence :: u64
  rp_last_epoch :: FabricEpoch
  rp_last_incarnation :: u64
  rp_latest_by_flow :: "PlacementRecord list"
  rp_unfinished :: "AttemptRecord list"
  rp_detail :: string

definition EncodeAttemptRecord :: "AttemptRecord \<Rightarrow> byte list" where
  "EncodeAttemptRecord v =
     ByteWriter_U64 (ar_attempt v) @ ByteWriter_U64 (ar_incarnation v) @ ByteWriter_U64 (ar_epoch v) @
     ByteWriter_U64 (ar_flow v) @ ByteWriter_U8 (enum_u8 (AttemptPhase_value (ar_phase v))) @
     ByteWriter_U16 (StatusCode_value (ar_code v)) @
     ByteWriter_U64 (dg_hi (ar_request_digest v)) @ ByteWriter_U64 (dg_lo (ar_request_digest v)) @
     ByteWriter_U64 (ar_sequence v) @ ByteWriter_I64 (ar_observed_unix_nanos v)"

definition DecodeAttemptRecord :: "ByteReader \<Rightarrow> (AttemptRecord \<times> ByteReader) Result" where
  "DecodeAttemptRecord r =
     bindR (need kStoreCorrupt ''truncated attempt record'' (ByteReader_U64 r)) (\<lambda>(attempt, r).
     bindR (need kStoreCorrupt ''truncated attempt incarnation'' (ByteReader_U64 r)) (\<lambda>(incarnation, r).
     bindR (need kStoreCorrupt ''truncated attempt epoch'' (ByteReader_U64 r)) (\<lambda>(epoch, r).
     bindR (need kStoreCorrupt ''truncated attempt flow'' (ByteReader_U64 r)) (\<lambda>(flow, r).
     bindR (need kStoreCorrupt ''malformed attempt phase'' (ReadEnumU8 4 r)) (\<lambda>(phase, r).
     bindR (DecodeStatusCode kStoreCorrupt ''truncated attempt code'' ''unknown attempt status code'' r) (\<lambda>(code, r).
     bindR (need kStoreCorrupt ''truncated attempt digest'' (ByteReader_U64 r)) (\<lambda>(hi, r).
     bindR (need kStoreCorrupt ''truncated attempt digest'' (ByteReader_U64 r)) (\<lambda>(lo, r).
     bindR (need kStoreCorrupt ''truncated attempt trailer'' (ByteReader_U64 r)) (\<lambda>(sequence, r).
     bindR (need kStoreCorrupt ''truncated attempt trailer'' (ByteReader_I64 r)) (\<lambda>(nanos, r).
     Inr (\<lparr>ar_attempt = attempt, ar_incarnation = incarnation, ar_epoch = epoch, ar_flow = flow,
           ar_phase = AttemptPhase_of phase, ar_code = code, ar_request_digest = \<lparr>dg_hi = hi, dg_lo = lo\<rparr>,
           ar_sequence = sequence, ar_observed_unix_nanos = nanos\<rparr>, r)))))))))))"

definition EncodePlacementRecord :: "PlacementRecord \<Rightarrow> byte list" where
  "EncodePlacementRecord v =
     ByteWriter_U64 (pr_id v) @ ByteWriter_U64 (pr_generation v) @ WriteIntent (pr_intent v) @
     ByteWriter_U8 (enum_u8 (IncumbentDelta_value (pr_delta v))) @
     ByteWriter_U64 (dg_hi (pr_decision_digest v)) @ ByteWriter_U64 (dg_lo (pr_decision_digest v)) @
     ByteWriter_U64 (pr_committed_by v) @ ByteWriter_U64 (pr_commit_epoch v) @
     ByteWriter_U64 (pr_sequence v) @ ByteWriter_U64 (pr_supersedes_generation v) @
     ByteWriter_I64 (pr_commit_unix_nanos v)"

definition DecodePlacementRecord :: "ByteReader \<Rightarrow> (PlacementRecord \<times> ByteReader) Result" where
  "DecodePlacementRecord r =
     bindR (need kStoreCorrupt ''truncated placement record'' (ByteReader_U64 r)) (\<lambda>(i, r).
     bindR (need kStoreCorrupt ''truncated placement generation'' (ByteReader_U64 r)) (\<lambda>(generation, r).
     bindR (need kStoreCorrupt ''truncated placement intent'' (ReadIntent r)) (\<lambda>(intent, r).
     bindR (need kStoreCorrupt ''malformed placement delta'' (ReadEnumU8 3 r)) (\<lambda>(delta, r).
     bindR (need kStoreCorrupt ''truncated placement digest'' (ByteReader_U64 r)) (\<lambda>(hi, r).
     bindR (need kStoreCorrupt ''truncated placement digest'' (ByteReader_U64 r)) (\<lambda>(lo, r).
     bindR (need kStoreCorrupt ''truncated placement incarnation'' (ByteReader_U64 r)) (\<lambda>(committed_by, r).
     bindR (need kStoreCorrupt ''truncated placement epoch'' (ByteReader_U64 r)) (\<lambda>(epoch, r).
     bindR (need kStoreCorrupt ''truncated placement trailer'' (ByteReader_U64 r)) (\<lambda>(sequence, r).
     bindR (need kStoreCorrupt ''truncated placement trailer'' (ByteReader_U64 r)) (\<lambda>(supersedes, r).
     bindR (need kStoreCorrupt ''truncated placement trailer'' (ByteReader_I64 r)) (\<lambda>(nanos, r).
     Inr (\<lparr>pr_id = i, pr_generation = generation, pr_intent = intent, pr_delta = IncumbentDelta_of delta,
           pr_decision_digest = \<lparr>dg_hi = hi, dg_lo = lo\<rparr>, pr_committed_by = committed_by,
           pr_commit_epoch = epoch, pr_sequence = sequence, pr_supersedes_generation = supersedes,
           pr_commit_unix_nanos = nanos, pr_requires_revalidation = True\<rparr>, r))))))))))))"

definition EncodeRecoveryReport :: "RecoveryReport \<Rightarrow> byte list" where
  "EncodeRecoveryReport v =
     WriteBool (rp_liveness_restored v) @ WriteBool (rp_truncated_tail v) @ WriteBool (rp_snapshot_loaded v) @
     WriteU64s [rp_bytes_discarded v, rp_records_valid v, rp_placements_total v, rp_attempts_total v,
                rp_committed_attempts v, rp_rejected_attempts v, rp_cancelled_attempts v,
                rp_fenced_attempts v, rp_unfinished_attempts v, rp_superseded_placements v,
                rp_placements_requiring_revalidation v, rp_retired_attempts v, rp_max_sequence v] @
     ByteWriter_U64 (rp_last_epoch v) @ ByteWriter_U64 (rp_last_incarnation v) @
     WriteVector EncodePlacementRecord (rp_latest_by_flow v) @
     WriteVector EncodeAttemptRecord (rp_unfinished v) @
     ByteWriter_String (rp_detail v)"

definition DecodeRecoveryReport :: "ByteReader \<Rightarrow> RecoveryReport Result" where
  "DecodeRecoveryReport r = finish ''trailing bytes after recovery report'' (
     bindR (need kWireMalformed ''truncated recovery flag'' (ReadBool r)) (\<lambda>(liveness, r).
     bindR (need kWireMalformed ''truncated recovery flags'' (ReadBool r)) (\<lambda>(tail, r).
     bindR (need kWireMalformed ''truncated recovery flags'' (ReadBool r)) (\<lambda>(snapshot, r).
     bindR (need kWireMalformed ''truncated recovery counter'' (read_n ByteReader_U64 13 r)) (\<lambda>(counters, r).
     bindR (need kWireMalformed ''truncated recovery authority'' (ByteReader_U64 r)) (\<lambda>(epoch, r).
     bindR (need kWireMalformed ''truncated recovery authority'' (ByteReader_U64 r)) (\<lambda>(incarnation, r).
     bindR (DecodeVector ''truncated placement list'' 1000000 ''placement list too long''
              DecodePlacementRecord r) (\<lambda>(latest, r).
     bindR (DecodeVector ''truncated attempt list'' 1000000 ''attempt list too long''
              DecodeAttemptRecord r) (\<lambda>(unfinished, r).
     bindR (need kWireMalformed ''truncated recovery detail'' (ByteReader_String kMaxMessageLength r)) (\<lambda>(detail, r).
     Inr (\<lparr>rp_liveness_restored = liveness, rp_truncated_tail = tail, rp_snapshot_loaded = snapshot,
           rp_bytes_discarded = counters ! 0, rp_records_valid = counters ! 1,
           rp_placements_total = counters ! 2, rp_attempts_total = counters ! 3,
           rp_committed_attempts = counters ! 4, rp_rejected_attempts = counters ! 5,
           rp_cancelled_attempts = counters ! 6, rp_fenced_attempts = counters ! 7,
           rp_unfinished_attempts = counters ! 8, rp_superseded_placements = counters ! 9,
           rp_placements_requiring_revalidation = counters ! 10, rp_retired_attempts = counters ! 11,
           rp_max_sequence = counters ! 12, rp_last_epoch = epoch, rp_last_incarnation = incarnation,
           rp_latest_by_flow = latest, rp_unfinished = unfinished, rp_detail = detail\<rparr>, r)))))))))))"

section \<open>Round trips\<close>

text \<open>The contract of a decoder with error statuses, from which the vectors inherit.\<close>

locale result_codec =
  fixes enc :: "'a \<Rightarrow> byte list"
    and dec :: "ByteReader \<Rightarrow> ('a \<times> ByteReader) Result"
    and wf :: "'a \<Rightarrow> bool"
  assumes decode_encode: "wf x \<Longrightarrow> dec (enc x @ r) = Inr (x, r)"
begin

lemma decode_n_concat:
  "\<forall>x \<in> set xs. wf x \<Longrightarrow> decode_n dec (length xs) (concat (map enc xs) @ r) = Inr (xs, r)"
  by (induction xs) (simp_all add: decode_encode bindR_def)

lemma decode_vector:
  assumes "vec_ok m xs" and "\<forall>x \<in> set xs. wf x"
  shows "DecodeVector t m e dec (WriteVector enc xs @ r) = Inr (xs, r)"
proof -
  have len: "unat (word_of_nat (length xs) :: u32) = length xs"
    using assms by (simp add: vec_ok_def unat_of_nat)
  then have "\<not> m < ucast (word_of_nat (length xs) :: u32)"
    using assms by (simp add: vec_ok_def word_less_nat_alt)
  then show ?thesis
    using assms by (simp add: DecodeVector_def WriteVector_def u32_codec.dec_enc len need_def
        bindR_def guardR_def decode_n_concat)
qed

end

sublocale codec \<subseteq> needed: result_codec enc "\<lambda>r. need code message (dec r)" wf for code message
  by unfold_locales (simp add: dec_enc need_def)

lemma sequencing_simps [simp]:
  "need c m (Some x) = Inr x" "need c m None = Inl (mk_Status c m)"
  "bindR (Inr x) f = f x" "bindR (Inl s) f = Inl s"
  "guardR False c m v = v" "guardR True c m v = Inl (mk_Status c m)"
  "finish m (Inr (x, r)) = (if r = [] then Inr x else Inl (mk_Status kWireMalformed m))"
  "finish m (Inl s) = Inl s"
  by (simp_all add: need_def bindR_def guardR_def finish_def ByteReader_AtEnd_def)

lemma need_Inr_iff: "need c m v = Inr x \<longleftrightarrow> v = Some x"
  by (cases v) simp_all

lemma bindR_Inr_iff: "bindR v f = Inr y \<longleftrightarrow> (\<exists>x. v = Inr x \<and> f x = Inr y)"
  by (cases v) simp_all

lemma guardR_Inr_iff: "guardR b c m v = Inr y \<longleftrightarrow> \<not> b \<and> v = Inr y"
  by (simp add: guardR_def)

lemma AttemptPhase_of_value [simp]: "AttemptPhase_of (enum_u8 (AttemptPhase_value x)) = x"
  by (cases x) (simp_all add: AttemptPhase_of_def)

lemma AttemptPhase_value_bound [simp]: "AttemptPhase_value x \<le> 4"
  by (cases x) simp_all

lemma ParseAttemptPhase_name: "ParseAttemptPhase (AttemptPhaseName p) = Some p"
  by (cases p) (simp_all add: ParseAttemptPhase_def)

interpretation status_codec: result_codec "\<lambda>c. ByteWriter_U16 (StatusCode_value c)"
  "DecodeStatusCode err t u" "\<lambda>_. True" for err t u
  by unfold_locales (simp add: DecodeStatusCode_def codec_laws)

interpretation attempt_codec: result_codec EncodeAttemptRecord DecodeAttemptRecord "\<lambda>_. True"
  by unfold_locales
    (simp add: EncodeAttemptRecord_def DecodeAttemptRecord_def codec_laws status_codec.decode_encode)

text \<open>The revalidation mark is not persisted: every placement read back carries it.\<close>

interpretation placement_codec: result_codec EncodePlacementRecord DecodePlacementRecord pr_requires_revalidation
  by unfold_locales
    (simp add: EncodePlacementRecord_def DecodePlacementRecord_def codec_laws)

interpretation capacity_codec: result_codec EncodeCapacityEntry DecodeCapacityEntry "\<lambda>_. True"
  by unfold_locales (simp add: EncodeCapacityEntry_def DecodeCapacityEntry_def codec_laws)

interpretation evidence_codec: result_codec EncodeEvidenceEntry DecodeEvidenceEntry
  "\<lambda>e. ce_utilization_ppb e \<le> 1000000000"
  by unfold_locales (simp add: EncodeEvidenceEntry_def DecodeEvidenceEntry_def codec_laws guardR_def not_less)

interpretation qos_codec: result_codec EncodeQos DecodeQos
  "\<lambda>v. ServiceClass_value (qos_service_class v) < 4 \<and> PriorityClass_value (qos_priority v) < 4"
  by unfold_locales (simp add: EncodeQos_def DecodeQos_def codec_laws)

definition codec_candidate :: "Limits \<Rightarrow> CandidatePath \<Rightarrow> bool" where
  "codec_candidate limits p \<longleftrightarrow>
     PathTier_value (pa_tier (cp_attributes p)) < 3 \<and> LocalityScope_value (pa_locality_scope (cp_attributes p)) < 5 \<and>
     vec_ok (max_path_labels limits) (pa_labels (cp_attributes p)) \<and>
     vec_ok (max_path_reservations limits) (pa_reservations (cp_attributes p))"

interpretation candidate_codec: result_codec EncodeCandidate "DecodeCandidate limits" "codec_candidate limits" for limits
  by unfold_locales
    (simp add: codec_candidate_def EncodeCandidate_def WriteAttributes_def DecodeCandidate_def codec_laws
      reservation_codec.needed.decode_vector)

definition codec_request :: "Limits \<Rightarrow> PlacementRequest \<Rightarrow> bool" where
  "codec_request limits v \<longleftrightarrow>
     vec_ok (max_candidate_paths limits) (cs_paths (rq_candidates v)) \<and>
     (\<forall>p \<in> set (cs_paths (rq_candidates v)). codec_candidate limits p) \<and>
     vec_ok (max_capacity_entries limits) (cap_entries (rq_capacity v)) \<and>
     vec_ok (max_evidence_entries limits) (ev_entries (rq_evidence v)) \<and>
     (\<forall>e \<in> set (ev_entries (rq_evidence v)). ce_utilization_ppb e \<le> 1000000000) \<and>
     ServiceClass_value (qos_service_class (rq_qos v)) < 4 \<and> PriorityClass_value (qos_priority (rq_qos v)) < 4 \<and>
     codec_policy limits (rq_policy v) \<and>
     vec_ok (max_occupied_failure_domains limits) (rq_occupied_failure_domains v) \<and>
     length (pv_producer (rq_provenance v)) \<le> 128 \<and> length (pv_producer_version (rq_provenance v)) \<le> 128"

lemma DecodeIncumbent_encode:
  "DecodeIncumbent (WriteBool (v \<noteq> None) @ (case v of None \<Rightarrow> [] | Some inc \<Rightarrow> WriteIncumbent inc) @ r)
   = Inr (v, r)"
  by (cases v) (simp_all add: DecodeIncumbent_def codec_laws)

lemma DecodeIntentFlag_encode:
  "DecodeIntentFlag (WriteBool (v \<noteq> None) @ (case v of None \<Rightarrow> [] | Some i \<Rightarrow> WriteIntent i) @ r)
   = Inr (v, r)"
  by (cases v) (simp_all add: DecodeIntentFlag_def codec_laws)

lemmas request_parts =
  candidate_codec.decode_vector capacity_codec.decode_vector evidence_codec.decode_vector
  qos_codec.decode_encode DecodeIncumbent_encode

lemma DecodeRequest_encode:
  assumes "codec_request limits v"
  shows "DecodeRequest (EncodeRequest v @ r) limits =
         (if r = [] then Inr v else Inl (mk_Status kWireMalformed ''trailing bytes after request payload''))"
  using assms
  by (simp add: codec_request_def EncodeRequest_def DecodeRequest_def codec_laws request_parts del: not_None_eq)

definition codec_decision :: "Limits \<Rightarrow> PlacementDecision \<Rightarrow> bool" where
  "codec_decision limits v \<longleftrightarrow>
     codec_explanation limits (de_explanation v) \<and> length (st_message (de_validation v)) \<le> 1024"

lemma DecodeDecision_encode:
  assumes "codec_decision limits v"
  shows "DecodeDecision (EncodeDecision v @ r) limits =
         (if r = [] then Inr v else Inl (mk_Status kWireMalformed ''trailing bytes after decision payload''))"
  using assms
  by (simp add: codec_decision_def EncodeDecision_def DecodeDecision_def codec_laws
      status_codec.decode_encode DecodeIntentFlag_encode kMaxMessageLength_def mk_Status_def del: not_None_eq)

lemma DecodeRecoveryReport_encode:
  assumes "vec_ok 1000000 (rp_latest_by_flow v)" "vec_ok 1000000 (rp_unfinished v)"
    and "\<forall>p \<in> set (rp_latest_by_flow v). pr_requires_revalidation p"
    and "length (rp_detail v) \<le> 1024"
  shows "DecodeRecoveryReport (EncodeRecoveryReport v) = Inr v"
proof -
  have "DecodeRecoveryReport (EncodeRecoveryReport v @ []) = Inr v"
    using assms
    by (simp add: EncodeRecoveryReport_def DecodeRecoveryReport_def codec_laws
        placement_codec.decode_vector attempt_codec.decode_vector kMaxMessageLength_def del: append_Nil2)
  then show ?thesis by simp
qed

end
