(* ===== verification/Flow_Replies.thy ===== *)
theory Flow_Replies
  imports Flow_Payload Flow_Decision
begin

text \<open>
  The engine and the codec together: what a caller sends reaches the engine unchanged, and what the
  engine answers reaches the caller unchanged. A request the validator accepts meets the reader's
  limits, and a decision on it never outgrows them, texts included.
\<close>

section \<open>Requests\<close>

definition wire_limits :: "Limits \<Rightarrow> bool" where
  "wire_limits l \<longleftrightarrow>
     (\<forall>m \<in> {max_candidate_paths l, max_capacity_entries l, max_evidence_entries l,
            max_occupied_failure_domains l, max_objectives l, max_path_labels l, max_path_reservations l,
            max_policy_id_lists l, max_affinity_refs l, max_string_length l, max_ranked_explained l,
            max_exclusion_samples l, max_exclusion_reasons l}. unat m < 2 ^ 32)"

lemma wire_default_Limits: "wire_limits default_Limits"
  by (simp add: wire_limits_def default_Limits_def)

definition no_zero_ids :: "PlacementPolicy \<Rightarrow> bool" where
  "no_zero_ids p \<longleftrightarrow>
     lc_required_locality (pp_locality p) \<noteq> Some 0 \<and> lc_preferred_locality (pp_locality p) \<noteq> Some 0 \<and>
     fd_required_domain (pp_failure_domains p) \<noteq> Some 0"

lemma wf_policy_codec:
  assumes "wf_enums r" "wf_bounds r l" "wf_policy (rq_policy r)" "wire_limits l" "no_zero_ids (rq_policy r)"
  shows "codec_policy l (rq_policy r)"
proof -
  have "sp_max_relaxation_steps (pp_service (rq_policy r)) \<le> (if sp_allow_degraded (pp_service (rq_policy r)) then 2 else 0)"
    using assms(3) by (simp only: wf_policy_def)
  then have "sp_max_relaxation_steps (pp_service (rq_policy r)) \<le> 2" by (cases "sp_allow_degraded (pp_service (rq_policy r))") auto
  then show ?thesis
    using assms(1,2,4,5)
    by (simp add: codec_policy_def wf_enums_def wf_bounds_def wire_limits_def no_zero_ids_def vec_ok_def)
qed

lemma wf_request_codec:
  assumes "wf_request r l" "wire_limits l" "no_zero_ids (rq_policy r)"
  shows "codec_request l r"
proof -
  have "codec_policy l (rq_policy r)"
    using wf_policy_codec assms by (simp add: wf_request_def)
  moreover have "codec_candidate l p" if "p \<in> set (cs_paths (rq_candidates r))" for p
  proof -
    have "wf_candidate l p" using assms(1) that by (simp add: wf_request_def wf_facts_def)
    moreover have "PathTier_value (pa_tier (cp_attributes p)) < 3 \<and> LocalityScope_value (pa_locality_scope (cp_attributes p)) < 5"
      using assms(1) that by (simp add: wf_request_def wf_enums_def)
    ultimately show ?thesis
      using assms(2) by (simp add: codec_candidate_def wf_candidate_def wire_limits_def vec_ok_def)
  qed
  ultimately show ?thesis
    using assms(1,2)
    by (simp add: codec_request_def wf_request_def wf_enums_def wf_bounds_def wf_facts_def wire_limits_def vec_ok_def)
qed

section \<open>Decisions\<close>

lemma length_to_string: "n < 10 ^ Suc k \<Longrightarrow> length (to_string n) \<le> Suc k"
proof (induction k arbitrary: n)
  case 0
  then show ?case by (simp add: to_string.simps [of n])
next
  case (Suc k)
  then have "n div 10 < 10 ^ Suc k" by auto
  from Suc.IH [OF this] show ?case by (simp add: to_string.simps [of n])
qed

lemma length_to_string_unat: "length (to_string (unat (w :: 'a::len word))) \<le> 20" if "LENGTH('a) \<le> 64"
proof -
  have "unat w < 2 ^ LENGTH('a)" by (rule unsigned_less)
  also have "(2 :: nat) ^ LENGTH('a) \<le> 2 ^ 64" using that by (intro power_increasing) auto
  also have "(2 :: nat) ^ 64 < 10 ^ Suc 19" by simp
  finally show ?thesis using length_to_string [of "unat w" 19] by simp
qed

definition wire_texts :: "Objective list \<Rightarrow> Explanation \<Rightarrow> bool" where
  "wire_texts objectives x \<longleftrightarrow>
     (\<forall>n \<in> set (xp_notes x). length n \<le> 200) \<and> (\<forall>b \<in> set (xp_binding x). length (bc_label b) \<le> 200) \<and>
     distinct (xp_degradations x) \<and>
     (\<forall>c \<in> set (xp_ranked x). map (\<lambda>k. \<lparr>ob_kind = ov_kind k, ob_direction = ov_direction k\<rparr>) (rc_keys c) = objectives)"

lemma wire_texts_adds [simp]:
  "wire_texts bs x \<Longrightarrow> length n \<le> 200 \<Longrightarrow> wire_texts bs (AddNote n x)"
  "wire_texts bs x \<Longrightarrow> length lb \<le> 200 \<Longrightarrow> wire_texts bs (AddBinding k p q a lb x)"
  "wire_texts bs x \<Longrightarrow> wire_texts bs (AddDegradation f x)"
  by (auto simp: wire_texts_def AddNote_def AddBinding_def AddDegradation_def)

lemma wire_texts_initial [simp]: "wire_texts bs (de_explanation (initial_decision r))"
  by (simp add: initial_decision_def wire_texts_def)

lemma short_numbers [simp]:
  "20 \<le> n \<Longrightarrow> length (id_str a) \<le> n"
  "40 \<le> n \<Longrightarrow> length (id_str a) + length (id_str b) \<le> n"
  "40 \<le> n \<Longrightarrow> length (id_str a) + length (to_string (unat (v :: u32))) \<le> n"
  using length_to_string_unat [of a] length_to_string_unat [of b] length_to_string_unat [of v]
  by (simp_all add: id_str_def)

lemma classify_empty_text: "length (snd (snd (classify_empty s n xs))) \<le> 200"
  by (simp add: classify_empty_def)

lemma stale_checks_text: "find fst (stale_checks r) = Some (b, c, m) \<Longrightarrow> length m \<le> 200"
  by (auto simp: stale_checks_def Let_def split: if_splits)

lemma wire_texts_summarised [simp]: "wire_texts bs (de_explanation (summarised r l))"
proof -
  have "wire_texts bs (x\<lparr>xp_unknown_evidence_count := a, xp_distinct_failure_domains := b,
      xp_legal_candidate_count := c, xp_excluded_candidate_count := e,
      xp_exclusions := f, xp_truncated := t\<rparr>)" if "wire_texts bs x" for x a b c e f t
    using that by (simp add: wire_texts_def)
  then show ?thesis by (simp add: summarised_def Place_summarise_def Let_def)
qed

lemma wire_texts_stages:
  "wire_texts bs (de_explanation d) \<Longrightarrow> wire_texts bs (de_explanation (snd (Place_churn P legal d)))"
  "wire_texts bs (de_explanation d) \<Longrightarrow> wire_texts bs (de_explanation (Place_flags P e d))"
  "wire_texts bs (de_explanation d) \<Longrightarrow> wire_texts bs (de_explanation (Place_delta P e d))"
  "wire_texts bs (de_explanation d) \<Longrightarrow> wire_texts bs (de_explanation (admitted P e d))"
  "wire_texts bs (de_explanation d) \<Longrightarrow> wire_texts bs (de_explanation (gate_deferred P e d))"
  "wire_texts bs (de_explanation d) \<Longrightarrow> wire_texts bs (de_explanation (Place_accept P e i d))"
  "wire_texts bs (de_explanation d) \<Longrightarrow> wire_texts bs (de_explanation (Place_diversity P d))"
  "wire_texts bs (de_explanation d) \<Longrightarrow> wire_texts bs (de_explanation (Place_move_deferred P d))"
  "wire_texts bs (de_explanation d) \<Longrightarrow> length n \<le> 200 \<Longrightarrow> wire_texts bs (de_explanation (Place_stale c n d))"
  by (simp_all add: Place_churn_def Place_flags_def Place_delta_def admitted_def gate_deferred_def
      Place_accept_def Place_diversity_def Place_move_deferred_def Place_stale_def Let_def
      split: option.split prod.split)

lemma wire_texts_empty:
  "wire_texts bs (de_explanation d) \<Longrightarrow> wire_texts bs (de_explanation (Place_empty s d))"
  using classify_empty_text [of "sc_exclusions s" "xp_candidate_count (de_explanation d)" "xp_exclusions (de_explanation d)"]
  by (auto simp: Place_empty_def Let_def split: option.split prod.split)

lemma objective_eta [simp]: "\<lparr>ob_kind = ob_kind b, ob_direction = ob_direction b\<rparr> = (b :: Objective)"
  by simp

lemma wire_texts_ranked:
  assumes "wire_texts bs (de_explanation d)" "xp_ranked (de_explanation d) = []" "bs = pp_objectives (rq_policy (pr_request P))"
  shows "wire_texts bs (de_explanation (Place_ranked P (ranking P) d))"
proof -
  have "map (\<lambda>k. \<lparr>ob_kind = ov_kind k, ob_direction = ov_direction k\<rparr>) (rc_keys (ranked_candidate (i, e))) = bs"
    if "e \<in> set (ranking P)" for i e
    using that assms(3)
    by (auto simp: ranked_candidate_def entry_of_def BuildRankEntry_def objective_key_def Let_def comp_def)
  then show ?thesis
    using assms(1,2) by (auto simp: wire_texts_def Place_ranked_def Let_def dest!: set_zip_rightD in_set_takeD)
qed

lemma Place_wire_texts:
  assumes "wf_request r l"
  shows "wire_texts (pp_objectives (rq_policy r)) (de_explanation (Place l r))"
proof (cases rule: Place_branches [of r l])
  case (stale b c m)
  then show ?thesis by (simp add: wire_texts_stages stale_checks_text)
next
  case legal
  have "wire_texts (pp_objectives (rq_policy r))
      (de_explanation (Place_ranked (Prepare r l) (ranking (Prepare r l)) (summarised r l)))"
    by (rule wire_texts_ranked) simp_all
  then show ?thesis
    unfolding legal(5) Place_legal_eq [OF legal(1,3)] Let_def Place_admission_eq
    by (simp add: wire_texts_stages)
qed (use assms in \<open>simp_all add: wire_texts_stages wire_texts_empty\<close>)

lemma validation_stages:
  "de_validation (Place_empty s d) = de_validation d"
  "de_validation (Place_diversity P d) = de_validation d"
  "de_validation (Place_ranked P legal d) = de_validation d"
  "de_validation (snd (Place_churn P legal d)) = de_validation d"
  "de_validation (Place_move_deferred P d) = de_validation d"
  "de_validation (gate_deferred P e d) = de_validation d"
  "de_validation (admitted P e d) = de_validation d"
  "de_validation (Place_flags P e d) = de_validation d"
  "de_validation (Place_delta P e d) = de_validation d"
  "de_validation (Place_accept P e i d) = de_validation d"
  "de_validation (summarised r l) = Status_Ok"
  by (simp_all add: Place_empty_def Place_diversity_def Place_ranked_def Place_churn_def
      Place_move_deferred_def gate_deferred_def admitted_def Place_flags_def Place_delta_def Place_accept_def
      summarised_def Place_summarise_def initial_decision_def Let_def
      split: option.split prod.split)

lemma Place_validation_text:
  assumes "wf_request r l"
  shows "length (st_message (de_validation (Place l r))) \<le> 200"
proof (cases rule: Place_branches [of r l])
  case (stale b c m)
  then show ?thesis by (simp add: Place_stale_def Let_def stale_checks_text)
next
  case legal
  then show ?thesis
    unfolding legal(5) Place_legal_eq [OF legal(1,3)] Let_def Place_admission_eq
    by (simp add: validation_stages Status_Ok_def)
qed (use assms in \<open>simp_all add: validation_stages Status_Ok_def\<close>)

lemma distinct_flags_length:
  assumes "distinct (xs :: DegradationFlag list)"
  shows "length xs \<le> 9"
proof -
  have "DegradationFlag_value ` set xs \<subseteq> {..8}" by auto
  then have "card (DegradationFlag_value ` set xs) \<le> 9" using card_mono [of "{..8}"] by fastforce
  moreover have "inj_on DegradationFlag_value (set xs)"
    by (rule inj_onI) (metis DegradationFlag_of_value)
  ultimately show ?thesis using assms by (simp add: card_image distinct_card)
qed

lemma wire_texts_codec:
  assumes "wire_texts bs x" "bounded l x" "wire_limits l" "200 \<le> unat (max_string_length l)"
    and "18 \<le> unat (max_exclusion_reasons l)" "length bs \<le> unat (max_objectives l)"
    and ok: "\<And>b. b \<in> set bs \<Longrightarrow> ObjectiveKind_value (ob_kind b) < 9 \<and> Direction_value (ob_direction b) < 2"
  shows "codec_explanation l x"
proof -
  have "codec_ranked l c" if "c \<in> set (xp_ranked x)" for c
  proof -
    have c: "map (\<lambda>k. \<lparr>ob_kind = ov_kind k, ob_direction = ov_direction k\<rparr>) (rc_keys c) = bs"
      using assms(1) that by (simp add: wire_texts_def)
    have "ObjectiveKind_value (ov_kind k) < 9 \<and> Direction_value (ov_direction k) < 2" if "k \<in> set (rc_keys c)" for k
      using ok [of "\<lparr>ob_kind = ov_kind k, ob_direction = ov_direction k\<rparr>"] that
      by (auto simp: image_iff simp flip: c)
    moreover have "length (rc_keys c) = length bs" using c by (metis length_map)
    ultimately show ?thesis
      using assms(3,6) by (simp add: codec_ranked_def vec_ok_def wire_limits_def)
  qed
  moreover have "vec_ok (max_exclusion_samples l) (es_sample s)" if "s \<in> set (xp_exclusions x)" for s
  proof -
    have "length (es_sample s) \<le> unat (max_exclusion_samples l)"
      using assms(2) that by (simp add: bounded_def)
    then show ?thesis using assms(3) by (simp add: vec_ok_def wire_limits_def)
  qed
  moreover have "length (xp_degradations x) \<le> 9"
    using assms(1) by (simp add: wire_texts_def distinct_flags_length)
  moreover have "length s \<le> unat (clamp32 (max_string_length l)) \<and> length s \<le> unat (ucast (max_string_length l) :: u32)"
    if "length s \<le> 200" for s :: string
    using that assms(3,4) by (simp add: unat_clamp32 wire_limits_def unsigned_ucast_eq take_bit_nat_eq_self)
  ultimately show ?thesis
    using assms(1-3,5) unfolding codec_explanation_def
    by (intro conjI ballI) (simp_all add: wire_texts_def bounded_def vec_ok_def wire_limits_def kMaxNotesOnDecode_def)
qed

lemma Place_codec_decision:
  assumes "wf_request r l" "wire_limits l" "200 \<le> unat (max_string_length l)" "18 \<le> unat (max_exclusion_reasons l)"
  shows "codec_decision l (Place l r)"
proof -
  have bs: "length (pp_objectives (rq_policy r)) \<le> unat (max_objectives l)"
    using assms(1) by (simp add: wf_request_def wf_bounds_def)
  have ok: "ObjectiveKind_value (ob_kind b) < 9 \<and> Direction_value (ob_direction b) < 2" if "b \<in> set (pp_objectives (rq_policy r))" for b
    using assms(1) that by (simp add: wf_request_def wf_enums_def)
  have "codec_explanation l (de_explanation (Place l r))"
    by (rule wire_texts_codec [OF Place_wire_texts [OF assms(1)] Place_bounded assms(2-4) bs ok])
  then show ?thesis
    using Place_validation_text [OF assms(1)] by (simp add: codec_decision_def)
qed

end
