(* ===== verification/Flow_Canonical.thy ===== *)
theory Flow_Canonical
  imports Flow_Payload
begin

text \<open>
  Strictness of the decoders: for intents, authority vectors, expectations and the durable records the
  decoder accepts nothing but encodings, so a stored record has one byte representation. The
  contract is the locale \<open>exact_codec\<close>, an extension of \<open>codec\<close> by the converse law.
\<close>

section \<open>Exact codecs\<close>

locale exact_codec = codec +
  assumes enc_dec: "dec r = Some (x, s) \<Longrightarrow> wf x \<and> r = enc x @ s"
begin

lemma dec_iff: "dec r = Some (x, s) \<longleftrightarrow> wf x \<and> r = enc x @ s"
  using enc_dec dec_enc by auto

lemma read_n_dec:
  "read_n dec n r = Some (xs, s) \<Longrightarrow> length xs = n \<and> (\<forall>x \<in> set xs. wf x) \<and> r = concat (map enc xs) @ s"
  by (induction n arbitrary: r xs) (auto dest!: enc_dec split: option.splits)

lemma read_n_iff:
  "read_n dec n r = Some (xs, s) \<longleftrightarrow> length xs = n \<and> (\<forall>x \<in> set xs. wf x) \<and> r = concat (map enc xs) @ s"
  using read_n_dec read_n_concat by blast

end

interpretation u8_exact: exact_codec ByteWriter_U8 ByteReader_U8 "\<lambda>_. True"
  by unfold_locales (auto simp: ByteWriter_U8_def ByteReader_U8_def Cons_nth_drop_Suc split: if_splits)

interpretation u16_exact: exact_codec ByteWriter_U16 ByteReader_U16 "\<lambda>_. True"
proof unfold_locales
  fix r x s assume h: "ByteReader_U16 r = Some (x, s)"
  then have len: "length (take 2 r) = 2" and s: "s = drop 2 r"
    and x: "x = ucast (r ! 0) OR push_bit 8 (ucast (r ! 1))"
    by (auto simp: ByteReader_U16_def split: if_splits)
  have "x = get_le 2 (take 2 r)"
    using len by (simp add: x get_le_def upt_rec numeral_2_eq_2)
  moreover have "ByteWriter_U16 x = put_le 2 x"
    by (simp add: ByteWriter_U16_def put_le_def upt_rec numeral_2_eq_2)
  ultimately have "ByteWriter_U16 x = take 2 r" using len by (simp add: put_get_le)
  then show "True \<and> r = ByteWriter_U16 x @ s" by (simp add: s)
qed

interpretation u32_exact: exact_codec ByteWriter_U32 ByteReader_U32 "\<lambda>_. True"
proof unfold_locales
  fix r x s assume h: "ByteReader_U32 r = Some (x, s)"
  then have "length (take 4 r) = 4" and s: "s = drop 4 r" and "x = get_le 4 (take 4 r)"
    using get_le_append [of "take 4 r" 4 "drop 4 r"] by (auto simp: ByteReader_U32_def split: if_splits)
  then have "ByteWriter_U32 x = take 4 r" by (simp add: ByteWriter_U32_def put_get_le)
  then show "True \<and> r = ByteWriter_U32 x @ s" by (simp add: s)
qed

interpretation u64_exact: exact_codec ByteWriter_U64 ByteReader_U64 "\<lambda>_. True"
proof unfold_locales
  fix r x s assume h: "ByteReader_U64 r = Some (x, s)"
  then have "length (take 8 r) = 8" and s: "s = drop 8 r" and "x = get_le 8 (take 8 r)"
    using get_le_append [of "take 8 r" 8 "drop 8 r"] by (auto simp: ByteReader_U64_def split: if_splits)
  then have "ByteWriter_U64 x = take 8 r" by (simp add: ByteWriter_U64_def put_get_le)
  then show "True \<and> r = ByteWriter_U64 x @ s" by (simp add: s)
qed

interpretation i64_exact: exact_codec ByteWriter_I64 ByteReader_I64 "\<lambda>_. True"
  by unfold_locales (auto simp: ByteWriter_I64_def ByteReader_I64_def u64_exact.dec_iff split: option.splits)

interpretation reservation_exact: exact_codec WriteReservation ReadReservation "\<lambda>_. True"
  by unfold_locales
    (auto simp: WriteReservation_def ReadReservation_def bind_eq_Some_conv u64_exact.dec_iff)

lemma read_WriteU64s_iff:
  "read_n ByteReader_U64 n r = Some (vs, s) \<longleftrightarrow> length vs = n \<and> r = WriteU64s vs @ s"
  by (simp add: u64_exact.read_n_iff WriteU64s_def)

lemmas exact_laws = bind_eq_Some_conv u64_exact.dec_iff i64_exact.dec_iff u16_exact.dec_iff
  u8_exact.dec_iff reservation_exact.dec_iff read_WriteU64s_iff

interpretation expected_exact: exact_codec WriteExpected ReadExpected "\<lambda>_. True"
  by unfold_locales
    (auto simp: WriteExpected_def ReadExpected_def exact_laws numeral_eq_Suc length_Suc_conv simp del: read_n.simps)

interpretation authority_exact: exact_codec WriteAuthorityVector ReadAuthorityVector "\<lambda>_. True"
  by unfold_locales
    (auto simp: WriteAuthorityVector_def ReadAuthorityVector_def exact_laws numeral_eq_Suc length_Suc_conv simp del: read_n.simps)

interpretation intent_exact: exact_codec WriteIntent ReadIntent "\<lambda>_. True"
  by unfold_locales
    (auto simp: WriteIntent_def ReadIntent_def exact_laws numeral_eq_Suc length_Suc_conv simp del: read_n.simps)

end
