(* ===== verification/Flow_Exchange.thy ===== *)
theory Flow_Exchange
  imports Flow_Replies Flow_Canonical Flow_Example
begin

text \<open>
  The properties of the payload codecs: round trips for requests, decisions and durable records, the
  exactness of the record decoders, and the one field of a policy that does not survive the wire.
\<close>

section \<open>Exactness of the record decoders\<close>

lemma finish_Inr_iff: "finish m v = Inr x \<longleftrightarrow> v = Inr (x, [])"
  by (cases v) (auto split: if_splits)

lemma ReadEnumU8_iff: "ReadEnumU8 m r = Some (v, s) \<longleftrightarrow> v \<le> m \<and> r = ByteWriter_U8 v @ s"
  by (auto simp: ReadEnumU8_def bind_eq_Some_conv u8_exact.dec_iff not_less split: if_splits)

lemma DecodeStatusCode_iff:
  "DecodeStatusCode err t u r = Inr (c, s) \<longleftrightarrow> r = ByteWriter_U16 (StatusCode_value c) @ s"
  by (auto simp: DecodeStatusCode_def bindR_Inr_iff need_Inr_iff guardR_Inr_iff u16_exact.dec_iff
      IsKnownStatusCode_iff)

lemma enum_u8_of:
  "v \<le> 4 \<Longrightarrow> enum_u8 (AttemptPhase_value (AttemptPhase_of v)) = v"
  "v \<le> 3 \<Longrightarrow> enum_u8 (IncumbentDelta_value (IncumbentDelta_of v)) = v"
proof -
  have *: "v = enum_u8 (unat v)" by (simp add: enum_u8_def)
  show "enum_u8 (AttemptPhase_value (AttemptPhase_of v)) = v" if "v \<le> 4"
  proof -
    have "unat v \<le> 4" using that by (simp add: word_le_nat_alt)
    then consider "unat v = 0" | "unat v = 1" | "unat v = 2" | "unat v = 3" | "unat v = 4" by linarith
    then show ?thesis by cases (subst (2) *, simp add: AttemptPhase_of_def)+
  qed
  show "enum_u8 (IncumbentDelta_value (IncumbentDelta_of v)) = v" if "v \<le> 3"
  proof -
    have "unat v \<le> 3" using that by (simp add: word_le_nat_alt)
    then consider "unat v = 0" | "unat v = 1" | "unat v = 2" | "unat v = 3" by linarith
    then show ?thesis by cases (subst (2) *, simp add: IncumbentDelta_of_def)+
  qed
qed

lemmas record_laws = bindR_Inr_iff need_Inr_iff guardR_Inr_iff u64_exact.dec_iff i64_exact.dec_iff
  intent_exact.dec_iff ReadEnumU8_iff DecodeStatusCode_iff

lemma DecodeAttemptRecord_iff: "DecodeAttemptRecord r = Inr (v, s) \<longleftrightarrow> r = EncodeAttemptRecord v @ s"
proof
  assume "DecodeAttemptRecord r = Inr (v, s)"
  then show "r = EncodeAttemptRecord v @ s"
    by (auto simp: DecodeAttemptRecord_def EncodeAttemptRecord_def record_laws enum_u8_of)
qed (simp add: attempt_codec.decode_encode)

lemma DecodePlacementRecord_iff:
  "DecodePlacementRecord r = Inr (v, s) \<longleftrightarrow> pr_requires_revalidation v \<and> r = EncodePlacementRecord v @ s"
proof
  assume "DecodePlacementRecord r = Inr (v, s)"
  then show "pr_requires_revalidation v \<and> r = EncodePlacementRecord v @ s"
    by (auto simp: DecodePlacementRecord_def EncodePlacementRecord_def record_laws enum_u8_of)
qed (simp add: placement_codec.decode_encode)

section \<open>Properties\<close>



text \<open>C27. Every decision on an accepted request survives the wire, explanation included: under limits
  below \<open>2 ^ 32\<close> that admit 200 characters and 18 exclusion reasons (the defaults do), the reply a
  caller decodes is the decision the engine took.\<close>

theorem decision_roundtrip:
  assumes "Status_ok (ValidateRequest r l)" "wire_limits l"
    and "200 \<le> unat (max_string_length l)" "18 \<le> unat (max_exclusion_reasons l)"
  shows "DecodeDecision (EncodeDecision (Place l r)) l = Inr (Place l r)"
  using DecodeDecision_encode [OF Place_codec_decision, of r l "[]"] assms by (simp add: ValidateRequest_ok_wf)

theorem decision_roundtrip_witness:
  "DecodeDecision (EncodeDecision (Place default_Limits sample_request)) default_Limits =
   Inr (Place default_Limits sample_request)"
  by (rule decision_roundtrip)
    (simp_all add: ValidateRequest_ok_wf sample_wf wire_default_Limits, simp_all add: default_Limits_def)

text \<open>C28. The record decoders are exact: an attempt or a placement is read from exactly its own
  encoding, one byte string per record, and a placement read back always requires revalidation.\<close>

theorem records_exact:
  "(DecodeAttemptRecord r = Inr (a, s) \<longleftrightarrow> r = EncodeAttemptRecord a @ s) \<and>
   (DecodePlacementRecord r = Inr (p, s) \<longleftrightarrow> pr_requires_revalidation p \<and> r = EncodePlacementRecord p @ s)"
  by (simp add: DecodeAttemptRecord_iff DecodePlacementRecord_iff)

text \<open>An intent is accepted from exactly its encoding: nothing shorter, nothing longer, nothing
  else.\<close>

theorem intent_decoding_exact: "DecodeIntent bs = Inr v \<longleftrightarrow> bs = EncodeIntent v"
  by (auto simp: DecodeIntent_def EncodeIntent_def finish_Inr_iff need_Inr_iff intent_exact.dec_iff)

section \<open>The field that is lost\<close>







end
