(* ===== verification/Flow_Attempt.thy ===== *)
theory Flow_Attempt
  imports Flow_Payload
begin

text \<open>
  The vocabulary of the coordinator (\<^verbatim>\<open>include/flowplace/runtime.hpp\<close>): states of an attempt, verdicts
  of a revalidation, and how a failed commit maps to a state and to a durable phase
  (\<^verbatim>\<open>src/runtime.cpp\<close>). The wire protocol carries the states, the coordinator moves between them.
\<close>

datatype (plugins only: code size) AttemptState =
  kQueued | kRunning | kCommitted | kRejected | kCancelled | kFenced | kFailed

primrec AttemptState_value :: "AttemptState \<Rightarrow> nat" where
  "AttemptState_value AttemptState.kQueued = 0"
| "AttemptState_value AttemptState.kRunning = 1"
| "AttemptState_value AttemptState.kCommitted = 2"
| "AttemptState_value AttemptState.kRejected = 3"
| "AttemptState_value AttemptState.kCancelled = 4"
| "AttemptState_value AttemptState.kFenced = 5"
| "AttemptState_value AttemptState.kFailed = 6"

primrec AttemptStateName :: "AttemptState \<Rightarrow> string" where
  "AttemptStateName AttemptState.kQueued = ''QUEUED''"
| "AttemptStateName AttemptState.kRunning = ''RUNNING''"
| "AttemptStateName AttemptState.kCommitted = ''COMMITTED''"
| "AttemptStateName AttemptState.kRejected = ''REJECTED''"
| "AttemptStateName AttemptState.kCancelled = ''CANCELLED''"
| "AttemptStateName AttemptState.kFenced = ''FENCED''"
| "AttemptStateName AttemptState.kFailed = ''FAILED''"

definition AttemptState_of :: "u8 \<Rightarrow> AttemptState" where
  "AttemptState_of v = [AttemptState.kQueued, AttemptState.kRunning, AttemptState.kCommitted,
     AttemptState.kRejected, AttemptState.kCancelled, AttemptState.kFenced, AttemptState.kFailed] ! unat v"

datatype (plugins only: code size) RevalidationVerdict =
  kUnknownFlow | kStillCurrent | kMustMove | kRejected | kStaleInput

primrec RevalidationVerdictName :: "RevalidationVerdict \<Rightarrow> string" where
  "RevalidationVerdictName RevalidationVerdict.kUnknownFlow = ''UNKNOWN_FLOW''"
| "RevalidationVerdictName RevalidationVerdict.kStillCurrent = ''STILL_CURRENT''"
| "RevalidationVerdictName RevalidationVerdict.kMustMove = ''MUST_MOVE''"
| "RevalidationVerdictName RevalidationVerdict.kRejected = ''REJECTED''"
| "RevalidationVerdictName RevalidationVerdict.kStaleInput = ''STALE_INPUT''"

record AttemptOutcome =
  oc_attempt :: AttemptId
  oc_state :: AttemptState
  oc_code :: StatusCode
  oc_decision :: PlacementDecision
  oc_placement_id :: PlacementId
  oc_placement_generation :: Gen

definition default_AttemptOutcome :: AttemptOutcome where
  "default_AttemptOutcome = \<lparr>oc_attempt = 0, oc_state = AttemptState.kQueued, oc_code = kOk,
     oc_decision = default_PlacementDecision, oc_placement_id = 0, oc_placement_generation = 0\<rparr>"

definition StateForFailure :: "StatusCode \<Rightarrow> AttemptState" where
  "StateForFailure code =
     (if code = StatusCode.kCancelled then AttemptState.kCancelled
      else if code \<in> {kFencedStaleEpoch, kFencedStaleIncarnation, kStaleAuthorityGeneration}
      then AttemptState.kFenced
      else if code = kShuttingDown then AttemptState.kCancelled
      else AttemptState.kFailed)"

definition PhaseForState :: "AttemptState \<Rightarrow> AttemptPhase" where
  "PhaseForState s =
     (case s of AttemptState.kCommitted \<Rightarrow> AttemptPhase.kCommitted
      | AttemptState.kCancelled \<Rightarrow> AttemptPhase.kCancelled
      | AttemptState.kFenced \<Rightarrow> AttemptPhase.kFenced
      | _ \<Rightarrow> AttemptPhase.kRejected)"

lemma AttemptState_of_value [simp]: "AttemptState_of (enum_u8 (AttemptState_value x)) = x"
  by (cases x) (simp_all add: AttemptState_of_def)

lemma AttemptState_value_bound [simp]: "AttemptState_value x \<le> 6"
  by (cases x) simp_all

lemma StateForFailure_terminal: "StateForFailure c \<notin> {AttemptState.kQueued, AttemptState.kRunning, AttemptState.kCommitted}"
  by (simp add: StateForFailure_def)

lemma PhaseForState_committed: "PhaseForState s = AttemptPhase.kCommitted \<longleftrightarrow> s = AttemptState.kCommitted"
  by (cases s) (simp_all add: PhaseForState_def)

lemma PhaseForState_terminal: "PhaseForState s \<noteq> AttemptPhase.kStarted"
  by (cases s) (simp_all add: PhaseForState_def)

end
