(* ===== verification/Flow_Wire.thy ===== *)
theory Flow_Wire
  imports Flow_Attempt
begin

text \<open>
  The framed wire protocol (\<^verbatim>\<open>include/flowplace/wire.hpp\<close>, \<^verbatim>\<open>src/wire.cpp\<close>): frames with their header and
  checksum, the incremental stream decoder, and the payloads of the handshake, placement, epoch and
  error frames. Buffers are byte lists; a null pointer argument has no counterpart.
\<close>

section \<open>Frame kinds\<close>

datatype (plugins only: code size) FrameKind =
  kHello | kHelloAck | kPlaceRequest | kPlaceResult | kSetEpoch | kEpochAck | kShutdown
| kShutdownAck | kError | kRecoveryQuery | kRecoveryReport | kStatsQuery | kStatsReport

primrec FrameKind_value :: "FrameKind \<Rightarrow> u16" where
  "FrameKind_value kHello = 1"
| "FrameKind_value kHelloAck = 2"
| "FrameKind_value kPlaceRequest = 3"
| "FrameKind_value kPlaceResult = 4"
| "FrameKind_value kSetEpoch = 5"
| "FrameKind_value kEpochAck = 6"
| "FrameKind_value kShutdown = 7"
| "FrameKind_value kShutdownAck = 8"
| "FrameKind_value kError = 9"
| "FrameKind_value kRecoveryQuery = 10"
| "FrameKind_value kRecoveryReport = 11"
| "FrameKind_value kStatsQuery = 12"
| "FrameKind_value kStatsReport = 13"

primrec FrameKindName :: "FrameKind \<Rightarrow> string" where
  "FrameKindName kHello = ''HELLO''"
| "FrameKindName kHelloAck = ''HELLO_ACK''"
| "FrameKindName kPlaceRequest = ''PLACE_REQUEST''"
| "FrameKindName kPlaceResult = ''PLACE_RESULT''"
| "FrameKindName kSetEpoch = ''SET_EPOCH''"
| "FrameKindName kEpochAck = ''EPOCH_ACK''"
| "FrameKindName kShutdown = ''SHUTDOWN''"
| "FrameKindName kShutdownAck = ''SHUTDOWN_ACK''"
| "FrameKindName kError = ''ERROR''"
| "FrameKindName kRecoveryQuery = ''RECOVERY_QUERY''"
| "FrameKindName kRecoveryReport = ''RECOVERY_REPORT''"
| "FrameKindName kStatsQuery = ''STATS_QUERY''"
| "FrameKindName kStatsReport = ''STATS_REPORT''"

definition ParseFrameKind :: "u16 \<Rightarrow> FrameKind option" where
  "ParseFrameKind v =
     (if v = 1 then Some kHello else if v = 2 then Some kHelloAck
      else if v = 3 then Some kPlaceRequest else if v = 4 then Some kPlaceResult
      else if v = 5 then Some kSetEpoch else if v = 6 then Some kEpochAck
      else if v = 7 then Some kShutdown else if v = 8 then Some kShutdownAck
      else if v = 9 then Some kError else if v = 10 then Some kRecoveryQuery
      else if v = 11 then Some kRecoveryReport else if v = 12 then Some kStatsQuery
      else if v = 13 then Some kStatsReport else None)"

section \<open>Frames\<close>

record Frame =
  fr_kind :: FrameKind
  fr_flags :: u16
  fr_sequence :: u64
  fr_body :: "byte list"

definition kFrameHeaderBytes :: nat where "kFrameHeaderBytes = 20"
definition kMinMaxFrameBytes :: u32 where "kMinMaxFrameBytes = 1024"
definition kDefaultMaxFrameBytes :: u32 where "kDefaultMaxFrameBytes = push_bit 20 8"
definition kMaxWireStringBytes :: u32 where "kMaxWireStringBytes = 4096"

text \<open>A write into a buffer at an offset.\<close>

definition put_at :: "nat \<Rightarrow> byte list \<Rightarrow> byte list \<Rightarrow> byte list" where
  "put_at off bs buf = take off buf @ bs @ drop (off + length bs) buf"


definition EncodeFrame :: "Frame \<Rightarrow> u32 \<Rightarrow> byte list Result" where
  "EncodeFrame frame max_frame_bytes =
     (if max_frame_bytes < kMinMaxFrameBytes
      then Inl (mk_Status kInvalidArgument ''negotiated frame bound is below the minimum'')
      else if length (fr_body frame) > unat max_frame_bytes
      then Inl (mk_Status kFrameTooLarge ''frame body exceeds the negotiated bound'')
      else
        let out = replicate (kFrameHeaderBytes + length (fr_body frame)) 0;
            out = put_at 0 (put_le 4 (word_of_nat (length (fr_body frame)) :: u32)) out;
            out = put_at 4 (put_le 4 (Crc32C_Compute (fr_body frame))) out;
            out = put_at 8 (put_le 2 (FrameKind_value (fr_kind frame))) out;
            out = put_at 10 (put_le 2 (fr_flags frame)) out;
            out = put_at 12 (put_le 8 (fr_sequence frame)) out;
            out = (if fr_body frame = [] then out else put_at kFrameHeaderBytes (fr_body frame) out)
        in Inr out)"

definition DecodeFrame :: "byte list \<Rightarrow> u32 \<Rightarrow> Frame Result" where
  "DecodeFrame data max_frame_bytes =
     (if length data < kFrameHeaderBytes
      then Inl (mk_Status kWireMalformed ''frame is shorter than its header'')
      else let declared = GetU32_at 0 data in
        if declared > max_frame_bytes
        then Inl (mk_Status kFrameTooLarge ''declared frame length exceeds the negotiated bound'')
        else if length data \<noteq> kFrameHeaderBytes + unat declared
        then Inl (mk_Status kWireMalformed ''declared frame length does not match the buffer'')
        else let body = take (unat declared) (drop kFrameHeaderBytes data) in
          if Crc32C_Compute body \<noteq> GetU32_at 4 data
          then Inl (mk_Status kFrameChecksumMismatch ''frame checksum mismatch'')
          else case ParseFrameKind (GetU16_at 8 data) of
            None \<Rightarrow> Inl (mk_Status kWireMalformed ''unknown frame kind'')
          | Some kind \<Rightarrow> Inr \<lparr>fr_kind = kind, fr_flags = GetU16_at 10 data,
                             fr_sequence = GetU64_at 12 data, fr_body = body\<rparr>)"

section \<open>The stream decoder\<close>

record FrameStream =
  fs_buffer :: "byte list"
  fs_offset :: nat
  fs_max_frame_bytes :: u32

definition FrameStream_init :: "u32 \<Rightarrow> FrameStream" where
  "FrameStream_init max_frame_bytes =
     \<lparr>fs_buffer = [], fs_offset = 0, fs_max_frame_bytes = max_frame_bytes\<rparr>"

definition FrameStream_Feed :: "byte list \<Rightarrow> FrameStream \<Rightarrow> FrameStream" where
  "FrameStream_Feed data s =
     (if length data = 0 then s else s\<lparr>fs_buffer := fs_buffer s @ data\<rparr>)"

definition FrameStream_SetMaxFrameBytes :: "u32 \<Rightarrow> FrameStream \<Rightarrow> FrameStream" where
  "FrameStream_SetMaxFrameBytes v s = s\<lparr>fs_max_frame_bytes := v\<rparr>"

definition FrameStream_buffered :: "FrameStream \<Rightarrow> nat" where
  "FrameStream_buffered s = length (fs_buffer s) - fs_offset s"

definition FrameStream_Next :: "FrameStream \<Rightarrow> Frame option Result \<times> FrameStream" where
  "FrameStream_Next s =
     (let s = (if fs_offset s \<noteq> 0 then s\<lparr>fs_buffer := drop (fs_offset s) (fs_buffer s), fs_offset := 0\<rparr> else s) in
      if length (fs_buffer s) < kFrameHeaderBytes then (Inr None, s)
      else let declared = GetU32_at 0 (fs_buffer s) in
        if declared > fs_max_frame_bytes s
        then (Inl (mk_Status kFrameTooLarge ''declared frame length exceeds the negotiated bound''), s)
        else let total = kFrameHeaderBytes + unat declared in
          if length (fs_buffer s) < total then (Inr None, s)
          else case DecodeFrame (take total (fs_buffer s)) (fs_max_frame_bytes s) of
            Inl status \<Rightarrow> (Inl status, s)
          | Inr frame \<Rightarrow> (Inr (Some frame), s\<lparr>fs_buffer := drop total (fs_buffer s)\<rparr>))"

section \<open>Payloads\<close>

record HelloPayload =
  he_protocol_version :: u32
  he_incarnation :: u64
  he_epoch :: FabricEpoch
  he_worker :: u64
  he_max_frame_bytes :: u32
  he_build :: string

record HelloAckPayload =
  ha_protocol_version :: u32
  ha_coordinator :: u64
  ha_epoch :: FabricEpoch
  ha_max_frame_bytes :: u32
  ha_worker_limit :: u32
  ha_build :: string
  ha_accepted :: bool
  ha_code :: StatusCode
  ha_message :: string

record PlaceRequestPayload =
  pq_attempt :: AttemptId
  pq_epoch :: FabricEpoch
  pq_request :: PlacementRequest

record PlaceResultPayload =
  ps_attempt :: AttemptId
  ps_state :: AttemptState
  ps_code :: StatusCode
  ps_placement_id :: PlacementId
  ps_placement_generation :: Gen
  ps_decision :: PlacementDecision

record EpochPayload =
  ey_epoch :: FabricEpoch
  ey_previous_epoch :: FabricEpoch
  ey_code :: StatusCode
  ey_message :: string

record ErrorPayload =
  er_code :: StatusCode
  er_attempt :: AttemptId
  er_message :: string

definition EncodeHello :: "HelloPayload \<Rightarrow> byte list" where
  "EncodeHello v =
     ByteWriter_U32 (he_protocol_version v) @ ByteWriter_U64 (he_incarnation v) @
     ByteWriter_U64 (he_epoch v) @ ByteWriter_U64 (he_worker v) @
     ByteWriter_U32 (he_max_frame_bytes v) @ ByteWriter_String (he_build v)"

definition DecodeHello :: "ByteReader \<Rightarrow> HelloPayload Result" where
  "DecodeHello r = finish ''trailing bytes after hello'' (
     bindR (need kWireMalformed ''truncated hello'' (ByteReader_U32 r)) (\<lambda>(version, r).
     bindR (need kWireMalformed ''truncated hello incarnation'' (ByteReader_U64 r)) (\<lambda>(incarnation, r).
     bindR (need kWireMalformed ''truncated hello epoch'' (ByteReader_U64 r)) (\<lambda>(epoch, r).
     bindR (need kWireMalformed ''truncated hello worker'' (ByteReader_U64 r)) (\<lambda>(worker, r).
     bindR (need kWireMalformed ''truncated hello bound'' (ByteReader_U32 r)) (\<lambda>(bound, r).
     guardR (bound < kMinMaxFrameBytes) kWireMalformed ''hello frame bound is below the minimum'' (
     bindR (need kWireMalformed ''truncated hello build string'' (ByteReader_String kMaxWireStringBytes r)) (\<lambda>(build, r).
     Inr (\<lparr>he_protocol_version = version, he_incarnation = incarnation, he_epoch = epoch,
           he_worker = worker, he_max_frame_bytes = bound, he_build = build\<rparr>, r)))))))))"

definition EncodeHelloAck :: "HelloAckPayload \<Rightarrow> byte list" where
  "EncodeHelloAck v =
     ByteWriter_U32 (ha_protocol_version v) @ ByteWriter_U64 (ha_coordinator v) @
     ByteWriter_U64 (ha_epoch v) @ ByteWriter_U32 (ha_max_frame_bytes v) @
     ByteWriter_U32 (ha_worker_limit v) @ ByteWriter_String (ha_build v) @
     ByteWriter_U8 (if ha_accepted v then 1 else 0) @
     ByteWriter_U16 (StatusCode_value (ha_code v)) @ ByteWriter_String (ha_message v)"

definition DecodeHelloAck :: "ByteReader \<Rightarrow> HelloAckPayload Result" where
  "DecodeHelloAck r = finish ''trailing bytes after hello ack'' (
     bindR (need kWireMalformed ''truncated hello ack'' (ByteReader_U32 r)) (\<lambda>(version, r).
     bindR (need kWireMalformed ''truncated hello ack coordinator'' (ByteReader_U64 r)) (\<lambda>(coordinator, r).
     bindR (need kWireMalformed ''truncated hello ack epoch'' (ByteReader_U64 r)) (\<lambda>(epoch, r).
     bindR (need kWireMalformed ''truncated hello ack bounds'' (ByteReader_U32 r)) (\<lambda>(bound, r).
     bindR (need kWireMalformed ''truncated hello ack bounds'' (ByteReader_U32 r)) (\<lambda>(worker_limit, r).
     guardR (bound < kMinMaxFrameBytes) kWireMalformed ''hello ack frame bound is below the minimum'' (
     bindR (need kWireMalformed ''truncated hello ack build string'' (ByteReader_String kMaxWireStringBytes r)) (\<lambda>(build, r).
     bindR (need kWireMalformed ''truncated hello ack flag'' (ByteReader_U8 r)) (\<lambda>(accepted, r).
     guardR (accepted > 1) kWireMalformed ''malformed hello ack flag'' (
     bindR (DecodeStatusCode kWireMalformed ''truncated hello ack code'' ''unknown hello ack status code'' r) (\<lambda>(code, r).
     bindR (need kWireMalformed ''truncated hello ack message'' (ByteReader_String kMaxWireStringBytes r)) (\<lambda>(message, r).
     Inr (\<lparr>ha_protocol_version = version, ha_coordinator = coordinator, ha_epoch = epoch,
           ha_max_frame_bytes = bound, ha_worker_limit = worker_limit, ha_build = build,
           ha_accepted = (accepted \<noteq> 0), ha_code = code, ha_message = message\<rparr>, r)))))))))))))"

definition EncodePlaceRequest :: "PlaceRequestPayload \<Rightarrow> byte list" where
  "EncodePlaceRequest v =
     ByteWriter_U64 (pq_attempt v) @ ByteWriter_U64 (pq_epoch v) @ EncodeRequest (pq_request v)"

definition DecodePlaceRequest :: "ByteReader \<Rightarrow> Limits \<Rightarrow> PlaceRequestPayload Result" where
  "DecodePlaceRequest r limits =
     bindR (need kWireMalformed ''truncated place request attempt'' (ByteReader_U64 r)) (\<lambda>(attempt, r).
     bindR (need kWireMalformed ''truncated place request epoch'' (ByteReader_U64 r)) (\<lambda>(epoch, r).
     bindR (DecodeRequest r limits) (\<lambda>request.
     Inr \<lparr>pq_attempt = attempt, pq_epoch = epoch, pq_request = request\<rparr>)))"

definition EncodePlaceResult :: "PlaceResultPayload \<Rightarrow> byte list" where
  "EncodePlaceResult v =
     ByteWriter_U64 (ps_attempt v) @ ByteWriter_U8 (enum_u8 (AttemptState_value (ps_state v))) @
     ByteWriter_U16 (StatusCode_value (ps_code v)) @ ByteWriter_U64 (ps_placement_id v) @
     ByteWriter_U64 (ps_placement_generation v) @ EncodeDecision (ps_decision v)"

definition DecodePlaceResult :: "ByteReader \<Rightarrow> Limits \<Rightarrow> PlaceResultPayload Result" where
  "DecodePlaceResult r limits =
     bindR (need kWireMalformed ''truncated place result attempt'' (ByteReader_U64 r)) (\<lambda>(attempt, r).
     bindR (need kWireMalformed ''malformed attempt state'' (ReadEnumU8 6 r)) (\<lambda>(st, r).
     bindR (DecodeStatusCode kWireMalformed ''truncated place result code'' ''unknown place result status code'' r) (\<lambda>(code, r).
     bindR (need kWireMalformed ''truncated place result id'' (ByteReader_U64 r)) (\<lambda>(i, r).
     bindR (need kWireMalformed ''truncated place result generation'' (ByteReader_U64 r)) (\<lambda>(generation, r).
     bindR (DecodeDecision r limits) (\<lambda>decision.
     Inr \<lparr>ps_attempt = attempt, ps_state = AttemptState_of st, ps_code = code, ps_placement_id = i,
          ps_placement_generation = generation, ps_decision = decision\<rparr>))))))"

definition EncodeEpochPayload :: "EpochPayload \<Rightarrow> byte list" where
  "EncodeEpochPayload v =
     ByteWriter_U64 (ey_epoch v) @ ByteWriter_U64 (ey_previous_epoch v) @
     ByteWriter_U16 (StatusCode_value (ey_code v)) @ ByteWriter_String (ey_message v)"

definition DecodeEpochPayload :: "ByteReader \<Rightarrow> EpochPayload Result" where
  "DecodeEpochPayload r = finish ''trailing bytes after epoch payload'' (
     bindR (need kWireMalformed ''truncated epoch'' (ByteReader_U64 r)) (\<lambda>(epoch, r).
     bindR (need kWireMalformed ''truncated previous epoch'' (ByteReader_U64 r)) (\<lambda>(previous, r).
     bindR (DecodeStatusCode kWireMalformed ''truncated epoch code'' ''unknown epoch status code'' r) (\<lambda>(code, r).
     bindR (need kWireMalformed ''truncated epoch message'' (ByteReader_String kMaxWireStringBytes r)) (\<lambda>(message, r).
     Inr (\<lparr>ey_epoch = epoch, ey_previous_epoch = previous, ey_code = code, ey_message = message\<rparr>, r))))))"

definition EncodeErrorPayload :: "ErrorPayload \<Rightarrow> byte list" where
  "EncodeErrorPayload v =
     ByteWriter_U16 (StatusCode_value (er_code v)) @ ByteWriter_U64 (er_attempt v) @
     ByteWriter_String (er_message v)"

definition DecodeErrorPayload :: "ByteReader \<Rightarrow> ErrorPayload Result" where
  "DecodeErrorPayload r = finish ''trailing bytes after error payload'' (
     bindR (DecodeStatusCode kWireMalformed ''truncated error code'' ''unknown error status code'' r) (\<lambda>(code, r).
     bindR (need kWireMalformed ''truncated error attempt'' (ByteReader_U64 r)) (\<lambda>(attempt, r).
     bindR (need kWireMalformed ''truncated error message'' (ByteReader_String kMaxWireStringBytes r)) (\<lambda>(message, r).
     Inr (\<lparr>er_code = code, er_attempt = attempt, er_message = message\<rparr>, r)))))"

end
