(* ===== verification/Flow_Frames.thy ===== *)
theory Flow_Frames
  imports Flow_Wire Flow_Replies Flow_Canonical
begin

text \<open>
  What the frame layer guarantees: a frame is accepted from exactly its encoding, a stream of encoded
  frames is decoded to those frames however the bytes are cut into reads, a damaged stream never
  yields another frame, and the payloads survive the trip.
\<close>

section \<open>Frames as byte strings\<close>

definition frame_bytes :: "Frame \<Rightarrow> byte list" where
  "frame_bytes f =
     put_le 4 (word_of_nat (length (fr_body f)) :: u32) @ put_le 4 (Crc32C_Compute (fr_body f)) @
     put_le 2 (FrameKind_value (fr_kind f)) @ put_le 2 (fr_flags f) @ put_le 8 (fr_sequence f) @ fr_body f"

lemma length_frame_bytes: "length (frame_bytes f) = kFrameHeaderBytes + length (fr_body f)"
  by (simp add: frame_bytes_def kFrameHeaderBytes_def)

lemma put_at_split:
  "length pre = off \<Longrightarrow> length mid = length bs \<Longrightarrow> put_at off bs (pre @ mid @ post) = pre @ bs @ post"
  by (simp add: put_at_def)

lemma EncodeFrame_bytes:
  assumes "\<not> m < kMinMaxFrameBytes" "length (fr_body f) \<le> unat m"
  shows "EncodeFrame f m = Inr (frame_bytes f)"
proof -
  let ?n = "length (fr_body f)" and ?z = "\<lambda>k. replicate k (0 :: byte)"
  let ?len = "put_le 4 (word_of_nat ?n :: u32)" and ?crc = "put_le 4 (Crc32C_Compute (fr_body f))"
  let ?kind = "put_le 2 (FrameKind_value (fr_kind f))" and ?flags = "put_le 2 (fr_flags f)"
  let ?seq = "put_le 8 (fr_sequence f)"
  have zeros: "replicate (kFrameHeaderBytes + ?n) (0 :: byte) = [] @ ?z 4 @ ?z (16 + ?n)"
    by (simp add: kFrameHeaderBytes_def flip: replicate_add)
  have s1: "put_at 0 ?len (replicate (kFrameHeaderBytes + ?n) 0) = ?len @ ?z 4 @ ?z (12 + ?n)"
    unfolding zeros by (subst put_at_split) (simp_all flip: replicate_add)
  have s2: "put_at 4 ?crc (?len @ ?z 4 @ ?z (12 + ?n)) = (?len @ ?crc) @ ?z 2 @ ?z (10 + ?n)"
    by (subst put_at_split) (simp_all flip: replicate_add)
  have s3: "put_at 8 ?kind ((?len @ ?crc) @ ?z 2 @ ?z (10 + ?n)) = (?len @ ?crc @ ?kind) @ ?z 2 @ ?z (8 + ?n)"
    by (subst put_at_split) (simp_all flip: replicate_add)
  have s4: "put_at 10 ?flags ((?len @ ?crc @ ?kind) @ ?z 2 @ ?z (8 + ?n)) =
      (?len @ ?crc @ ?kind @ ?flags) @ ?z 8 @ ?z ?n"
    by (subst put_at_split) (simp_all flip: replicate_add)
  have s5: "put_at 12 ?seq ((?len @ ?crc @ ?kind @ ?flags) @ ?z 8 @ ?z ?n) =
      (?len @ ?crc @ ?kind @ ?flags @ ?seq) @ ?z ?n @ []"
    by (subst put_at_split) simp_all
  have s6: "put_at kFrameHeaderBytes (fr_body f) ((?len @ ?crc @ ?kind @ ?flags @ ?seq) @ ?z ?n @ []) = frame_bytes f"
    by (subst put_at_split) (simp_all add: kFrameHeaderBytes_def frame_bytes_def)
  show ?thesis
    using assms unfolding EncodeFrame_def Let_def s1 s2 s3 s4 s5 s6 by (auto simp: frame_bytes_def not_less)
qed

lemma EncodeFrame_iff:
  "EncodeFrame f m = Inr bs \<longleftrightarrow> kMinMaxFrameBytes \<le> m \<and> length (fr_body f) \<le> unat m \<and> bs = frame_bytes f"
proof (cases "\<not> m < kMinMaxFrameBytes \<and> length (fr_body f) \<le> unat m")
  case True
  then show ?thesis using EncodeFrame_bytes [of m f] by auto
next
  case False
  then show ?thesis by (auto simp: EncodeFrame_def not_less)
qed

lemma ParseFrameKind_value [simp]: "ParseFrameKind (FrameKind_value k) = Some k"
  by (cases k) (simp_all add: ParseFrameKind_def)

lemma ParseFrameKind_Some: "ParseFrameKind v = Some k \<longleftrightarrow> v = FrameKind_value k"
proof
  assume "ParseFrameKind v = Some k"
  then show "v = FrameKind_value k" by (auto simp: ParseFrameKind_def split: if_splits)
qed simp

lemma get_at_bytes:
  assumes "length (fr_body f) < 2 ^ 32"
  shows "GetU32_at 0 (frame_bytes f @ r) = word_of_nat (length (fr_body f))"
    and "GetU32_at 4 (frame_bytes f @ r) = Crc32C_Compute (fr_body f)"
    and "GetU16_at 8 (frame_bytes f @ r) = FrameKind_value (fr_kind f)"
    and "GetU16_at 10 (frame_bytes f @ r) = fr_flags f"
    and "GetU64_at 12 (frame_bytes f @ r) = fr_sequence f"
    and "drop kFrameHeaderBytes (frame_bytes f @ r) = fr_body f @ r"
  by (simp_all add: GetU32_at_def GetU16_at_def GetU64_at_def frame_bytes_def kFrameHeaderBytes_def get_put_le)

lemma DecodeFrame_bytes:
  assumes "length (fr_body f) \<le> unat m"
  shows "DecodeFrame (frame_bytes f) m = Inr f"
proof -
  have lt: "length (fr_body f) < 2 ^ 32"
    using assms unsigned_less [where 'a = nat, of m] by simp
  then have n: "unat (word_of_nat (length (fr_body f)) :: u32) = length (fr_body f)"
    by (simp add: unat_of_nat)
  have m: "\<not> m < word_of_nat (length (fr_body f))"
    using assms by (simp add: word_less_nat_alt n)
  note g = get_at_bytes [OF lt, of "[]", simplified]
  show ?thesis
    by (simp add: DecodeFrame_def g n m length_frame_bytes Let_def)
qed

lemma DecodeFrame_exact:
  assumes "DecodeFrame bs m = Inr f"
  shows "bs = frame_bytes f \<and> length (fr_body f) \<le> unat m"
proof -
  let ?n = "unat (GetU32_at 0 bs)"
  have len: "length bs = 20 + ?n" and m: "GetU32_at 0 bs \<le> m"
    and f: "f = \<lparr>fr_kind = fr_kind f, fr_flags = GetU16_at 10 bs, fr_sequence = GetU64_at 12 bs,
              fr_body = take ?n (drop 20 bs)\<rparr>"
    and crc: "Crc32C_Compute (take ?n (drop 20 bs)) = GetU32_at 4 bs"
    and kind: "GetU16_at 8 bs = FrameKind_value (fr_kind f)"
    using assms
    by (auto simp: DecodeFrame_def Let_def kFrameHeaderBytes_def ParseFrameKind_Some not_less split: if_splits option.splits)
  have body: "fr_body f = drop 20 bs" using len by (subst f) simp
  have field: "put_le k (get_le k (drop off bs) :: 'a::len word) = take k (drop off bs)"
    if "LENGTH('a) = 8 * k" "off + k \<le> 20" for k off
    using put_get_le [where 'a = 'a, of k "take k (drop off bs)"] get_le_append [of "take k (drop off bs)" k "drop (off + k) bs", where 'a = 'a]
      that len by (simp add: add.commute flip: drop_drop)
  have "word_of_nat (length (drop 20 bs)) = GetU32_at 0 bs" using len by simp
  moreover have "Crc32C_Compute (drop 20 bs) = GetU32_at 4 bs" using crc len by simp
  moreover have "fr_flags f = GetU16_at 10 bs" "fr_sequence f = GetU64_at 12 bs" by (subst f, simp)+
  ultimately have "frame_bytes f = take 4 (drop 0 bs) @ take 4 (drop 4 bs) @ take 2 (drop 8 bs) @ take 2 (drop 10 bs) @
      take 8 (drop 12 bs) @ drop 20 bs"
    unfolding frame_bytes_def body kind [symmetric] GetU32_at_def GetU16_at_def GetU64_at_def
    by (simp add: field del: drop0)
  also have "\<dots> = bs"
    using take_drop_append [of 8 12 bs] take_drop_append [of 2 10 bs] take_drop_append [of 2 8 bs]
      take_drop_append [of 4 4 bs] take_drop_append [of 4 0 bs] by simp
  finally show ?thesis using m len by (simp add: body word_le_nat_alt)
qed

section \<open>Streams\<close>

text \<open>The receive loop: take frames until more bytes are needed or the stream is refused.\<close>

lemma Next_consumes:
  assumes "FrameStream_Next s = (Inr (Some f), s')"
  shows "length (fs_buffer s') < length (fs_buffer s)"
  using assms
  by (auto simp: FrameStream_Next_def Let_def kFrameHeaderBytes_def split: if_splits sum.splits)

function FrameStream_drain :: "FrameStream \<Rightarrow> Frame list \<times> Status option \<times> FrameStream" where
  "FrameStream_drain s =
     (case FrameStream_Next s of
        (Inl status, s') \<Rightarrow> ([], Some status, s')
      | (Inr None, s') \<Rightarrow> ([], None, s')
      | (Inr (Some f), s') \<Rightarrow> (case FrameStream_drain s' of (fs, e, s'') \<Rightarrow> (f # fs, e, s'')))"
  by pat_completeness auto
termination
  by (relation "measure (\<lambda>s. length (fs_buffer s))") (auto dest: Next_consumes [OF sym])

declare FrameStream_drain.simps [simp del]

fun FrameStream_receive :: "FrameStream \<Rightarrow> byte list list \<Rightarrow> Frame list \<times> Status option \<times> FrameStream" where
  "FrameStream_receive s [] = ([], None, s)"
| "FrameStream_receive s (c # cs) =
     (case FrameStream_drain (FrameStream_Feed c s) of
        (fs, Some status, s') \<Rightarrow> (fs, Some status, s')
      | (fs, None, s') \<Rightarrow> (case FrameStream_receive s' cs of (gs, e, s'') \<Rightarrow> (fs @ gs, e, s'')))"

abbreviation stream :: "u32 \<Rightarrow> byte list \<Rightarrow> FrameStream" where
  "stream m b \<equiv> \<lparr>fs_buffer = b, fs_offset = 0, fs_max_frame_bytes = m\<rparr>"

lemma Feed_stream [simp]: "FrameStream_Feed c (stream m b) = stream m (b @ c)"
  by (simp add: FrameStream_Feed_def)

lemma Next_stream:
  "FrameStream_Next (stream m b) =
     (if length b < 20 then (Inr None, stream m b)
      else if GetU32_at 0 b > m
      then (Inl (mk_Status kFrameTooLarge ''declared frame length exceeds the negotiated bound''), stream m b)
      else if length b < 20 + unat (GetU32_at 0 b) then (Inr None, stream m b)
      else case DecodeFrame (take (20 + unat (GetU32_at 0 b)) b) m of
             Inl status \<Rightarrow> (Inl status, stream m b)
           | Inr f \<Rightarrow> (Inr (Some f), stream m (drop (20 + unat (GetU32_at 0 b)) b)))"
  by (simp add: FrameStream_Next_def Let_def kFrameHeaderBytes_def split: sum.split)

text \<open>More bytes change neither a frame that is complete nor a refusal.\<close>

lemma Next_append:
  assumes "FrameStream_Next (stream m b) = (x, t)" "x \<noteq> Inr None"
  shows "FrameStream_Next (stream m (b @ c)) = (x, stream m (fs_buffer t @ c)) \<and> t = stream m (fs_buffer t)"
proof -
  have "\<not> length b < 20" using assms by (auto simp: Next_stream)
  then have "GetU32_at 0 (b @ c) = GetU32_at 0 b" by (simp add: GetU32_at_append)
  then show ?thesis
    using assms by (auto simp: Next_stream split: if_splits sum.splits)
qed

lemma Next_cases:
  obtains (refused) e where "FrameStream_Next (stream m b) = (Inl e, stream m b)"
  | (wait) "FrameStream_Next (stream m b) = (Inr None, stream m b)"
  | (frame) f c where "FrameStream_Next (stream m b) = (Inr (Some f), stream m c)" "length c < length b"
proof -
  obtain x u where n: "FrameStream_Next (stream m b) = (x, u)" by fastforce
  show thesis
  proof (cases x)
    case (Inl e)
    then show ?thesis using n refused by (auto simp: Next_stream split: if_splits sum.splits)
  next
    case (Inr y)
    show ?thesis
    proof (cases y)
      case None
      then show ?thesis using n Inr wait by (auto simp: Next_stream split: if_splits sum.splits)
    next
      case (Some f)
      then have "u = stream m (fs_buffer u)" using Next_append [OF n] Inr by blast
      then show ?thesis using n Inr Some frame [of f "fs_buffer u"] Next_consumes [of "stream m b" f u] by simp
    qed
  qed
qed

lemma drain_stream: "FrameStream_drain (stream m b) = (fs, e, t) \<Longrightarrow> t = stream m (fs_buffer t)"
proof (induction b arbitrary: fs rule: length_induct)
  case (1 b)
  show ?case
  proof (cases rule: Next_cases [where m = m and b = b])
    case (frame f c)
    then show ?thesis
      using 1 by (auto simp: FrameStream_drain.simps [of "stream m b"] split: prod.splits)
  qed (use 1 in \<open>auto simp: FrameStream_drain.simps [of "stream m b"]\<close>)
qed

text \<open>Draining is incremental: frames found in a part of the bytes are the first frames of the whole.\<close>

lemma drain_append:
  assumes "FrameStream_drain (stream m b) = (fs, e, stream m r)"
  shows "FrameStream_drain (stream m (b @ c)) =
    (case e of
       Some status \<Rightarrow> (fs, Some status, stream m (r @ c))
     | None \<Rightarrow> (case FrameStream_drain (stream m (r @ c)) of (gs, e', t) \<Rightarrow> (fs @ gs, e', t)))"
  using assms
proof (induction b arbitrary: fs rule: length_induct)
  case (1 b)
  show ?case
  proof (cases rule: Next_cases [where m = m and b = b])
    case (refused st)
    then show ?thesis
      using 1(2) Next_append [OF refused, of c] by (auto simp: FrameStream_drain.simps [of "stream m b"]
        FrameStream_drain.simps [of "stream m (r @ c)"])
  next
    case wait
    then show ?thesis using 1(2) by (auto simp: FrameStream_drain.simps [of "stream m b"] split: prod.splits)
  next
    case (frame f d)
    obtain gs where g: "FrameStream_drain (stream m d) = (gs, e, stream m r)" "fs = f # gs"
      using 1(2) frame(1) by (auto simp: FrameStream_drain.simps [of "stream m b"] split: prod.splits)
    have "FrameStream_drain (stream m (b @ c)) = (case FrameStream_drain (stream m (d @ c)) of (hs, e', t) \<Rightarrow> (f # hs, e', t))"
      using Next_append [OF frame(1), of c] by (simp add: FrameStream_drain.simps [of "stream m (b @ c)"])
    then show ?thesis
      using 1(1) frame(2) g by (auto split: option.splits prod.splits)
  qed
qed

lemma receive_concat:
  "fst (FrameStream_receive (stream m r) cs) = fst (FrameStream_drain (stream m (r @ concat cs))) \<and>
   fst (snd (FrameStream_receive (stream m r) cs)) = fst (snd (FrameStream_drain (stream m (r @ concat cs))))"
  if "FrameStream_drain (stream m r) = ([], None, stream m r)"
  using that
proof (induction cs arbitrary: r)
  case (Cons c cs)
  obtain fs e t where d: "FrameStream_drain (stream m (r @ c)) = (fs, e, stream m t)"
    using drain_stream by (metis prod_cases3)
  show ?case
  proof (cases e)
    case (Some st)
    then show ?thesis using d drain_append [OF d, of "concat cs"] by simp
  next
    case None
    have "FrameStream_drain (stream m t) = ([], None, stream m t)"
      using drain_append [OF d, of "[]"] d None by (auto split: prod.splits)
    from Cons.IH [OF this] show ?thesis
      using d drain_append [OF d, of "concat cs"] None by (auto split: prod.splits)
  qed
qed simp

lemma Next_frame_bytes:
  assumes "length (fr_body f) \<le> unat m"
  shows "FrameStream_Next (stream m (frame_bytes f @ r)) = (Inr (Some f), stream m r)"
proof -
  have lt: "length (fr_body f) < 2 ^ 32"
    using assms unsigned_less [where 'a = nat, of m] by fastforce
  then have n: "unat (word_of_nat (length (fr_body f)) :: u32) = length (fr_body f)" by (simp add: unat_of_nat)
  have "\<not> m < word_of_nat (length (fr_body f))" using assms by (simp add: word_less_nat_alt n)
  then show ?thesis
    using assms by (simp add: Next_stream get_at_bytes(1) [OF lt] n length_frame_bytes kFrameHeaderBytes_def DecodeFrame_bytes)
qed

lemma drain_frames:
  assumes "\<forall>f \<in> set fs. length (fr_body f) \<le> unat m"
  shows "FrameStream_drain (stream m (concat (map frame_bytes fs))) = (fs, None, stream m [])"
  using assms
proof (induction fs)
  case Nil
  then show ?case by (simp add: FrameStream_drain.simps [of "stream m []"] Next_stream)
next
  case (Cons f fs)
  then have "FrameStream_Next (stream m (frame_bytes f @ concat (map frame_bytes fs))) =
      (Inr (Some f), stream m (concat (map frame_bytes fs)))"
    by (simp add: Next_frame_bytes)
  then show ?case using Cons by (simp add: FrameStream_drain.simps)
qed

section \<open>Damage\<close>

lemma frame_bytes_fields:
  "GetU32_at 4 (frame_bytes f) = Crc32C_Compute (fr_body f)"
  "GetU32_at 0 (frame_bytes f) = word_of_nat (length (fr_body f))"
  "drop 20 (frame_bytes f) = fr_body f"
  by (simp_all add: GetU32_at_def frame_bytes_def get_put_le)

lemma damaged_frame:
  assumes "length (fr_body f) \<le> unat m" "i < length (frame_bytes f)" "4 \<le> i \<and> i < 8 \<or> 20 \<le> i"
    and "c \<noteq> frame_bytes f ! i"
  shows "DecodeFrame ((frame_bytes f)[i := c]) m = Inl (mk_Status kFrameChecksumMismatch ''frame checksum mismatch'')"
proof -
  let ?bs = "frame_bytes f" and ?n = "length (fr_body f)"
  have len: "length ?bs = 20 + ?n" by (simp add: length_frame_bytes kFrameHeaderBytes_def)
  have "?n < 2 ^ 32" using assms(1) unsigned_less [where 'a = nat, of m] by simp
  then have n: "unat (word_of_nat ?n :: u32) = ?n" by (simp add: unat_of_nat)
  have m: "\<not> m < word_of_nat ?n" using assms(1) by (simp add: word_less_nat_alt n)
  have d: "GetU32_at 0 (?bs[i := c]) = word_of_nat ?n"
    using assms(3) len get_le_update [of i 0 4 ?bs c, where 'a = 32]
    by (auto simp: GetU32_at_def simp flip: frame_bytes_fields(2))
  have "Crc32C_Compute (drop 20 (?bs[i := c])) \<noteq> GetU32_at 4 (?bs[i := c])"
  proof (cases "20 \<le> i")
    case True
    then have "GetU32_at 4 (?bs[i := c]) = Crc32C_Compute (drop 20 ?bs)"
      using len get_le_update [of i 4 4 ?bs c, where 'a = 32] frame_bytes_fields [of f] by (simp add: GetU32_at_def)
    moreover have "drop 20 (?bs[i := c]) = (drop 20 ?bs)[i - 20 := c]"
      using True by (simp add: drop_update_swap)
    ultimately show ?thesis
      using Crc32C_Compute_one_change [of "i - 20" "drop 20 ?bs" c] True assms(2,4) len by auto
  next
    case False
    then have "drop 20 (?bs[i := c]) = fr_body f" by (simp add: frame_bytes_fields(3))
    moreover have "GetU32_at 4 (?bs[i := c]) \<noteq> GetU32_at 4 ?bs"
      using False assms(3,4) len by (intro GetU32_at_changed) auto
    ultimately show ?thesis by (simp add: frame_bytes_fields(1))
  qed
  then show ?thesis
    by (simp add: DecodeFrame_def d n m len kFrameHeaderBytes_def Let_def)
qed

section \<open>Payloads\<close>

lemma DecodeHello_encode:
  "\<not> he_max_frame_bytes v < kMinMaxFrameBytes \<Longrightarrow> length (he_build v) \<le> 4096 \<Longrightarrow>
   DecodeHello (EncodeHello v @ r) = (if r = [] then Inr v else Inl (mk_Status kWireMalformed ''trailing bytes after hello''))"
  by (simp add: DecodeHello_def EncodeHello_def codec_laws kMaxWireStringBytes_def)

lemma DecodeHelloAck_encode:
  "\<not> ha_max_frame_bytes v < kMinMaxFrameBytes \<Longrightarrow> length (ha_build v) \<le> 4096 \<Longrightarrow> length (ha_message v) \<le> 4096 \<Longrightarrow>
   DecodeHelloAck (EncodeHelloAck v @ r) = (if r = [] then Inr v else Inl (mk_Status kWireMalformed ''trailing bytes after hello ack''))"
  by (cases "ha_accepted v")
    (simp_all add: DecodeHelloAck_def EncodeHelloAck_def codec_laws kMaxWireStringBytes_def status_codec.decode_encode)

lemma DecodeEpochPayload_encode:
  "length (ey_message v) \<le> 4096 \<Longrightarrow>
   DecodeEpochPayload (EncodeEpochPayload v @ r) = (if r = [] then Inr v else Inl (mk_Status kWireMalformed ''trailing bytes after epoch payload''))"
  by (simp add: DecodeEpochPayload_def EncodeEpochPayload_def codec_laws kMaxWireStringBytes_def status_codec.decode_encode)

lemma DecodeErrorPayload_encode:
  "length (er_message v) \<le> 4096 \<Longrightarrow>
   DecodeErrorPayload (EncodeErrorPayload v @ r) = (if r = [] then Inr v else Inl (mk_Status kWireMalformed ''trailing bytes after error payload''))"
  by (simp add: DecodeErrorPayload_def EncodeErrorPayload_def codec_laws kMaxWireStringBytes_def status_codec.decode_encode)

lemma DecodePlaceRequest_encode:
  "codec_request l (pq_request v) \<Longrightarrow> DecodePlaceRequest (EncodePlaceRequest v) l = Inr v"
  using DecodeRequest_encode [of l "pq_request v" "[]"]
  by (simp add: DecodePlaceRequest_def EncodePlaceRequest_def codec_laws)

lemma DecodePlaceResult_encode:
  "codec_decision l (ps_decision v) \<Longrightarrow> DecodePlaceResult (EncodePlaceResult v) l = Inr v"
  using DecodeDecision_encode [of l "ps_decision v" "[]"]
  by (simp add: DecodePlaceResult_def EncodePlaceResult_def codec_laws status_codec.decode_encode)

end
