(* ===== verification/Flow_Transport.thy ===== *)
theory Flow_Transport
  imports Flow_Frames Flow_Example
begin

text \<open>The properties of the wire protocol, each with a concrete instance.\<close>

definition sample_frame :: Frame where
  "sample_frame = \<lparr>fr_kind = kShutdown, fr_flags = 0, fr_sequence = 9, fr_body = [1, 2, 3]\<rparr>"

lemma sample_frame_encodes: "EncodeFrame sample_frame kMinMaxFrameBytes = Inr (frame_bytes sample_frame)"
  by (simp add: EncodeFrame_iff sample_frame_def kMinMaxFrameBytes_def)

text \<open>A frame is accepted from exactly its encoding: under any admissible bound, decoding a buffer
  gives a frame if and only if encoding that frame gives that buffer. So nothing shorter, longer,
  oversized, of unknown kind or with a wrong checksum is accepted.\<close>

theorem frame_exact:
  assumes "kMinMaxFrameBytes \<le> m"
  shows "DecodeFrame bs m = Inr f \<longleftrightarrow> EncodeFrame f m = Inr bs"
  using assms DecodeFrame_exact DecodeFrame_bytes by (auto simp: EncodeFrame_iff)

theorem frame_exact_witness: "DecodeFrame (frame_bytes sample_frame) kMinMaxFrameBytes = Inr sample_frame"
  using frame_exact [of kMinMaxFrameBytes "frame_bytes sample_frame" sample_frame] sample_frame_encodes by simp

text \<open>C36. The stream decoder does not depend on how the bytes arrive: whatever reads an encoded
  sequence of frames is cut into, the receive loop delivers exactly these frames, in order, without an
  error.\<close>

theorem stream_any_chunking:
  assumes "list_all2 (\<lambda>f b. EncodeFrame f m = Inr b) fs bss" and "concat chunks = concat bss"
  shows "fst (FrameStream_receive (FrameStream_init m) chunks) = fs \<and>
         fst (snd (FrameStream_receive (FrameStream_init m) chunks)) = None"
proof -
  have "bss = map frame_bytes fs \<and> (\<forall>f \<in> set fs. length (fr_body f) \<le> unat m)"
    using assms(1) by (induction rule: list_all2_induct) (auto simp: EncodeFrame_iff)
  then have "FrameStream_drain (stream m (concat chunks)) = (fs, None, stream m [])"
    using drain_frames [of fs m] assms(2) by simp
  moreover have "FrameStream_drain (stream m []) = ([], None, stream m [])"
    using drain_frames [of "[]" m] by simp
  ultimately show ?thesis
    using receive_concat [where m = m and r = "[]" and cs = chunks] by (simp add: FrameStream_init_def)
qed

theorem stream_any_chunking_witness:
  "fst (FrameStream_receive (FrameStream_init kMinMaxFrameBytes)
     [take 7 (frame_bytes sample_frame), drop 7 (frame_bytes sample_frame) @ take 3 (frame_bytes sample_frame),
      drop 3 (frame_bytes sample_frame)]) = [sample_frame, sample_frame]"
  using stream_any_chunking [of kMinMaxFrameBytes "[sample_frame, sample_frame]"
    "[frame_bytes sample_frame, frame_bytes sample_frame]"
    "[take 7 (frame_bytes sample_frame), drop 7 (frame_bytes sample_frame) @ take 3 (frame_bytes sample_frame),
      drop 3 (frame_bytes sample_frame)]"]
  by (simp add: sample_frame_encodes)

text \<open>C37. One changed byte in the checksum or anywhere in the body of a frame is always detected, and
  the stream that received it never delivers that frame nor any later one: the receive loop ends with
  the checksum error whatever bytes follow and however they are cut.\<close>

theorem damaged_frame_refused:
  assumes "EncodeFrame f m = Inr bs" and "i < length bs" and "4 \<le> i \<and> i < 8 \<or> 20 \<le> i" and "c \<noteq> bs ! i"
    and "concat chunks = bs[i := c] @ later"
  shows "DecodeFrame (bs[i := c]) m = Inl (mk_Status kFrameChecksumMismatch ''frame checksum mismatch'') \<and>
         fst (FrameStream_receive (FrameStream_init m) chunks) = [] \<and>
         fst (snd (FrameStream_receive (FrameStream_init m) chunks)) =
           Some (mk_Status kFrameChecksumMismatch ''frame checksum mismatch'')"
proof -
  let ?d = "bs[i := c]" and ?e = "mk_Status kFrameChecksumMismatch ''frame checksum mismatch''"
  have f: "bs = frame_bytes f" "length (fr_body f) \<le> unat m" using assms(1) by (auto simp: EncodeFrame_iff)
  have dec: "DecodeFrame ?d m = Inl ?e" using damaged_frame [of f m i c] assms(2-4) f by simp
  have len: "length ?d = 20 + length (fr_body f)" by (simp add: f length_frame_bytes kFrameHeaderBytes_def)
  have "length (fr_body f) < 2 ^ 32" using f(2) unsigned_less [where 'a = nat, of m] by simp
  then have n: "unat (word_of_nat (length (fr_body f)) :: u32) = length (fr_body f)" by (simp add: unat_of_nat)
  have "GetU32_at 0 ?d = word_of_nat (length (fr_body f))"
    using assms(3) len get_le_update [of i 0 4 bs c, where 'a = 32] frame_bytes_fields(2) [of f]
    by (auto simp: GetU32_at_def f)
  then have "GetU32_at 0 (?d @ later) = word_of_nat (length (fr_body f))"
    using len by (simp add: GetU32_at_append)
  moreover have "\<not> m < word_of_nat (length (fr_body f))" using f(2) by (simp add: word_less_nat_alt n)
  ultimately have "FrameStream_Next (stream m (?d @ later)) = (Inl ?e, stream m (?d @ later))"
    using dec len by (simp add: Next_stream n)
  then have "FrameStream_drain (stream m (concat chunks)) = ([], Some ?e, stream m (?d @ later))"
    by (simp add: FrameStream_drain.simps assms(5))
  moreover have "FrameStream_drain (stream m []) = ([], None, stream m [])"
    using drain_frames [of "[]" m] by simp
  ultimately show ?thesis
    using receive_concat [where m = m and r = "[]" and cs = chunks] dec by (simp add: FrameStream_init_def)
qed

theorem damaged_frame_refused_witness:
  "fst (FrameStream_receive (FrameStream_init kMinMaxFrameBytes)
     [(frame_bytes sample_frame)[21 := 7], frame_bytes sample_frame]) = []"
proof -
  have "frame_bytes sample_frame ! 21 = 2" "length (frame_bytes sample_frame) = 23"
    by (simp_all add: frame_bytes_def sample_frame_def nth_append)
  then show ?thesis
    using damaged_frame_refused [OF sample_frame_encodes, where i = 21 and c = 7 and later = "frame_bytes sample_frame"
        and chunks = "[(frame_bytes sample_frame)[21 := 7], frame_bytes sample_frame]"]
    by (simp del: FrameStream_receive.simps)
qed

text \<open>A placement exchange over the wire is faithful at both ends: the worker reads the attempt, epoch
  and request the coordinator sent, and the coordinator reads the decision the engine took on it.\<close>

theorem place_exchange:
  assumes "Status_ok (ValidateRequest r l)" "wire_limits l" "no_zero_ids (rq_policy r)"
    and "200 \<le> unat (max_string_length l)" "18 \<le> unat (max_exclusion_reasons l)"
  shows "DecodePlaceRequest (EncodePlaceRequest \<lparr>pq_attempt = a, pq_epoch = e, pq_request = r\<rparr>) l =
           Inr \<lparr>pq_attempt = a, pq_epoch = e, pq_request = r\<rparr> \<and>
         DecodePlaceResult (EncodePlaceResult \<lparr>ps_attempt = a, ps_state = st, ps_code = c, ps_placement_id = i,
             ps_placement_generation = g, ps_decision = Place l r\<rparr>) l =
           Inr \<lparr>ps_attempt = a, ps_state = st, ps_code = c, ps_placement_id = i,
             ps_placement_generation = g, ps_decision = Place l r\<rparr>"
  using assms
  by (simp add: DecodePlaceRequest_encode DecodePlaceResult_encode wf_request_codec Place_codec_decision
      ValidateRequest_ok_wf)

theorem place_exchange_witness:
  "DecodePlaceRequest (EncodePlaceRequest \<lparr>pq_attempt = 77, pq_epoch = 6, pq_request = sample_request\<rparr>) default_Limits =
     Inr \<lparr>pq_attempt = 77, pq_epoch = 6, pq_request = sample_request\<rparr>"
proof -
  have "no_zero_ids (rq_policy sample_request)" "200 \<le> unat (max_string_length default_Limits)"
    by (simp_all add: no_zero_ids_def sample_defs default_Limits_def)
  then show ?thesis
    using place_exchange [of sample_request default_Limits 77 6] sample_wf wire_default_Limits default_reasons
    by (simp add: ValidateRequest_ok_wf)
qed

end
