(* ===== verification/Flow_Journal.thy ===== *)
theory Flow_Journal
  imports Flow_Canonical Flow_Hash
begin

text \<open>
  The record format of the durable journal (\<^verbatim>\<open>src/store.cpp\<close>): the bytes \<^verbatim>\<open>AppendRecordRaw\<close> writes, the
  header parser, the reading of one record with its checks, and the scan that tells a torn tail from
  damage in the middle. The record reader accepts exactly the bytes the writer produces.
\<close>

section \<open>The format\<close>

definition kStoreFormatVersion :: u32 where "kStoreFormatVersion = 1"
definition kRecordMagic :: u32 where "kRecordMagic = 0x43525046"
definition kRecordEndMagic :: u32 where "kRecordEndMagic = 0x444E4546"
definition kSnapshotMagic :: u32 where "kSnapshotMagic = 0x4E535046"
definition kSnapshotEndMagic :: u32 where "kSnapshotEndMagic = 0x45535046"
definition kHeaderBytes :: nat where "kHeaderBytes = 28"
definition kTrailerBytes :: nat where "kTrailerBytes = 8"
definition kRecordTypePlacement :: u16 where "kRecordTypePlacement = 1"
definition kRecordTypeAttempt :: u16 where "kRecordTypeAttempt = 2"
definition kRecordTypeJournalReset :: u16 where "kRecordTypeJournalReset = 3"

lemmas format_defs = kStoreFormatVersion_def kRecordMagic_def kRecordEndMagic_def kHeaderBytes_def
  kTrailerBytes_def kRecordTypePlacement_def kRecordTypeAttempt_def kRecordTypeJournalReset_def

definition record_header :: "u16 \<Rightarrow> u64 \<Rightarrow> byte list \<Rightarrow> byte list" where
  "record_header type sequence payload =
     put_le 4 kRecordMagic @ put_le 4 kStoreFormatVersion @ put_le 2 type @ [0, 0] @
     put_le 8 sequence @ put_le 4 (word_of_nat (length payload) :: u32) @ put_le 4 (Crc32C_Compute payload)"

definition record_bytes :: "u16 \<Rightarrow> u64 \<Rightarrow> byte list \<Rightarrow> byte list" where
  "record_bytes type sequence payload =
     (let r = record_header type sequence payload @ payload
      in r @ put_le 4 (Crc32C_Compute r) @ put_le 4 kRecordEndMagic)"

record RecordHeader =
  rh_type :: u16
  rh_flags :: u16
  rh_sequence :: u64
  rh_payload_length :: u32
  rh_payload_crc :: u32

definition ParseHeader :: "byte list \<Rightarrow> u32 \<Rightarrow> RecordHeader option" where
  "ParseHeader raw copy_limit =
     (if GetU32_at 0 raw \<noteq> kRecordMagic then None
      else if GetU32_at 4 raw \<noteq> kStoreFormatVersion then None
      else let type = GetU16_at 8 raw in
        if type \<noteq> kRecordTypePlacement \<and> type \<noteq> kRecordTypeAttempt \<and> type \<noteq> kRecordTypeJournalReset then None
        else let flags = GetU16_at 10 raw in
          if flags \<noteq> 0 then None
          else let payload_length = GetU32_at 20 raw in
            if payload_length > copy_limit then None
            else Some \<lparr>rh_type = type, rh_flags = flags, rh_sequence = GetU64_at 12 raw,
                       rh_payload_length = payload_length, rh_payload_crc = GetU32_at 24 raw\<rparr>)"

text \<open>
  One record at the head of the remaining bytes, with the checks of the recovery loop and of the
  damage scan: header, payload, trailer, end magic, payload checksum, record checksum.
\<close>

definition ReadRecord :: "u32 \<Rightarrow> byte list \<Rightarrow> (RecordHeader \<times> byte list) option" where
  "ReadRecord copy_limit bs =
     (if length bs < kHeaderBytes then None
      else let header = take kHeaderBytes bs in
      case ParseHeader header copy_limit of
        None \<Rightarrow> None
      | Some parsed \<Rightarrow>
          let n = unat (rh_payload_length parsed);
              payload = take n (drop kHeaderBytes bs);
              trailer = take kTrailerBytes (drop (kHeaderBytes + n) bs) in
          if length payload < n \<or> length trailer < kTrailerBytes then None
          else if GetU32_at 4 trailer \<noteq> kRecordEndMagic \<or> Crc32C_Compute payload \<noteq> rh_payload_crc parsed then None
          else if Crc32C_value (Crc32C_Update (Crc32C_Update Crc32C_init header) payload) \<noteq> GetU32_at 0 trailer then None
          else Some (parsed, payload))"

definition record_size :: "RecordHeader \<Rightarrow> nat" where
  "record_size parsed = kHeaderBytes + unat (rh_payload_length parsed) + kTrailerBytes"

section \<open>The damage scan\<close>

text \<open>A candidate position of the scan: the magic bytes, enough room, and a record that checks.\<close>

definition kMagicBytes :: "byte list" where "kMagicBytes = [0x46, 0x50, 0x52, 0x43]"

definition candidate_at :: "u32 \<Rightarrow> byte list \<Rightarrow> nat \<Rightarrow> bool" where
  "candidate_at copy_limit journal candidate \<longleftrightarrow>
     take 4 (drop candidate journal) = kMagicBytes \<and>
     candidate + kHeaderBytes + kTrailerBytes \<le> length journal \<and>
     ReadRecord copy_limit (drop candidate journal) \<noteq> None"

definition kScanChunk :: nat where "kScanChunk = 2 ^ 20"

text \<open>
  The loop over chunks that overlap by three bytes, so that no magic is split; \<open>scan\<close> is the offset of
  the current chunk.
\<close>

function scan_loop :: "u32 \<Rightarrow> byte list \<Rightarrow> nat \<Rightarrow> bool" where
  "scan_loop copy_limit journal scan =
     (if \<not> scan + (kHeaderBytes + kTrailerBytes) \<le> length journal then False
      else let got = min kScanChunk (length journal - scan) in
        if list_ex (\<lambda>i. candidate_at copy_limit journal (scan + i)) [0..<got - 3] then True
        else scan_loop copy_limit journal (scan + got - 3))"
  by pat_completeness auto
termination
  by (relation "measure (\<lambda>(_, journal, scan). length journal - scan)")
    (auto simp: kScanChunk_def format_defs)

declare scan_loop.simps [simp del]

definition valid_record_after :: "u32 \<Rightarrow> byte list \<Rightarrow> nat \<Rightarrow> bool" where
  "valid_record_after copy_limit journal offset = scan_loop copy_limit journal (offset + 1)"

lemma range_split:
  "(\<exists>p \<ge> a. P p) \<longleftrightarrow> (\<exists>i < n. P (a + i)) \<or> (\<exists>p \<ge> a + n. P p)" for a n :: nat
proof
  assume "\<exists>p \<ge> a. P p"
  then obtain p where p: "a \<le> p" "P p" by blast
  then have "P (a + (p - a))" by simp
  then show "(\<exists>i < n. P (a + i)) \<or> (\<exists>p \<ge> a + n. P p)"
    using p by (cases "p < a + n") (force intro: exI [of _ "p - a"], auto)
next
  assume "(\<exists>i < n. P (a + i)) \<or> (\<exists>p \<ge> a + n. P p)"
  then show "\<exists>p \<ge> a. P p" by (meson le_add1 le_trans)
qed

lemma scan_loop_iff:
  "scan_loop copy_limit journal scan \<longleftrightarrow> (\<exists>p \<ge> scan. candidate_at copy_limit journal p)"
proof (induction copy_limit journal scan rule: scan_loop.induct)
  case (1 copy_limit journal scan)
  let ?got = "min kScanChunk (length journal - scan)"
  have room: "p + 36 \<le> length journal" if "candidate_at copy_limit journal p" for p
    using that by (simp add: candidate_at_def format_defs)
  show ?case
  proof (cases "scan + (kHeaderBytes + kTrailerBytes) \<le> length journal")
    case False
    then show ?thesis using room by (subst scan_loop.simps) (force simp: format_defs)
  next
    case True
    have step: "scan + ?got - 3 = scan + (?got - 3)" using True by (simp add: kScanChunk_def format_defs)
    have "(\<exists>p \<ge> scan. candidate_at copy_limit journal p) \<longleftrightarrow>
        (\<exists>i < ?got - 3. candidate_at copy_limit journal (scan + i)) \<or>
        (\<exists>p \<ge> scan + ?got - 3. candidate_at copy_limit journal p)"
      unfolding step by (rule range_split)
    then show ?thesis
      using 1 True by (subst scan_loop.simps) (simp add: list_ex_iff Bex_def Let_def, blast)
  qed
qed

text \<open>Whatever the chunking, the scan finds a record exactly when one starts after the damage.\<close>

lemma valid_record_after_iff:
  "valid_record_after copy_limit journal offset \<longleftrightarrow> (\<exists>p > offset. candidate_at copy_limit journal p)"
  by (simp add: valid_record_after_def scan_loop_iff Suc_le_eq)

section \<open>Writing and reading one record\<close>

definition header_of :: "u16 \<Rightarrow> u64 \<Rightarrow> byte list \<Rightarrow> RecordHeader" where
  "header_of type sequence payload =
     \<lparr>rh_type = type, rh_flags = 0, rh_sequence = sequence,
      rh_payload_length = word_of_nat (length payload), rh_payload_crc = Crc32C_Compute payload\<rparr>"

definition known_type :: "u16 \<Rightarrow> bool" where
  "known_type t \<longleftrightarrow> t \<in> {kRecordTypePlacement, kRecordTypeAttempt, kRecordTypeJournalReset}"

lemma known_types [simp]:
  "known_type kRecordTypePlacement" "known_type kRecordTypeAttempt" "known_type kRecordTypeJournalReset"
  by (simp_all add: known_type_def)

lemma length_record_header [simp]: "length (record_header t s p) = kHeaderBytes"
  by (simp add: record_header_def format_defs)

lemma length_record_bytes [simp]: "length (record_bytes t s p) = kHeaderBytes + length p + kTrailerBytes"
  by (simp add: record_bytes_def format_defs Let_def)

lemma header_fields:
  "GetU32_at 0 (record_header t s p @ r) = kRecordMagic"
  "GetU32_at 4 (record_header t s p @ r) = kStoreFormatVersion"
  "GetU16_at 8 (record_header t s p @ r) = t"
  "GetU16_at 10 (record_header t s p @ r) = 0"
  "GetU64_at 12 (record_header t s p @ r) = s"
  "GetU32_at 20 (record_header t s p @ r) = word_of_nat (length p)"
  "GetU32_at 24 (record_header t s p @ r) = Crc32C_Compute p"
proof -
  have zero: "[0, 0] = put_le 2 (0 :: u16)" by (simp add: put_le_def le_byte_def upt_rec numeral_2_eq_2)
  show "GetU32_at 0 (record_header t s p @ r) = kRecordMagic"
    "GetU32_at 4 (record_header t s p @ r) = kStoreFormatVersion"
    "GetU16_at 8 (record_header t s p @ r) = t"
    "GetU16_at 10 (record_header t s p @ r) = 0"
    "GetU64_at 12 (record_header t s p @ r) = s"
    "GetU32_at 20 (record_header t s p @ r) = word_of_nat (length p)"
    "GetU32_at 24 (record_header t s p @ r) = Crc32C_Compute p"
    unfolding record_header_def zero
    by (simp_all add: GetU32_at_def GetU16_at_def GetU64_at_def get_put_le)
qed

lemma ParseHeader_record:
  assumes "known_type t" "length p \<le> unat limit"
  shows "ParseHeader (record_header t s p) limit = Some (header_of t s p)"
proof -
  have "length p < 2 ^ 32" using assms(2) unsigned_less [where 'a = nat, of limit] by simp
  then have "\<not> limit < word_of_nat (length p)"
    using assms(2) by (simp add: word_less_nat_alt unat_of_nat)
  then show ?thesis
    using assms(1) header_fields [of t s p "[]"]
    by (auto simp: ParseHeader_def header_of_def known_type_def Let_def)
qed

lemma record_payload_length:
  "length p \<le> unat (limit :: u32) \<Longrightarrow> unat (rh_payload_length (header_of t s p)) = length p"
  using unsigned_less [where 'a = nat, of limit] by (simp add: header_of_def unat_of_nat)

lemma record_size_header_of:
  "length p \<le> unat (limit :: u32) \<Longrightarrow> record_size (header_of t s p) = length (record_bytes t s p)"
  by (simp add: record_size_def record_payload_length)

text \<open>The reader returns what the writer wrote, whatever follows in the journal.\<close>

lemma ReadRecord_record:
  assumes "known_type t" "length p \<le> unat limit"
  shows "ReadRecord limit (record_bytes t s p @ r) = Some (header_of t s p, p)"
proof -
  let ?h = "record_header t s p" and ?c = "put_le 4 (Crc32C_Compute (record_header t s p @ p))"
  let ?e = "put_le 4 kRecordEndMagic"
  have bs: "record_bytes t s p @ r = ?h @ p @ (?c @ ?e) @ r" by (simp add: record_bytes_def Let_def)
  have len: "length (?c @ ?e) = kTrailerBytes" by (simp add: kTrailerBytes_def)
  have "GetU32_at 0 (?c @ ?e) = Crc32C_Compute (?h @ p)" "GetU32_at 4 (?c @ ?e) = kRecordEndMagic"
    by (simp_all add: GetU32_at_def get_put_le)
      (use get_put_le [of 4 kRecordEndMagic "[]"] in simp)
  then show ?thesis
    using ParseHeader_record [OF assms] record_payload_length [OF assms(2), of t s] len
    unfolding bs ReadRecord_def
    by (simp add: Crc32C_Compute_def Let_def header_of_def flip: Crc32C_Update_append)
qed

text \<open>A record that was cut short is not a record.\<close>

lemma ReadRecord_torn:
  assumes "length p \<le> unat limit" "n < length (record_bytes t s p)"
  shows "ReadRecord limit (take n (record_bytes t s p)) = None"
proof (cases "n < kHeaderBytes")
  case True
  then show ?thesis by (simp add: ReadRecord_def)
next
  case False
  then have h: "take kHeaderBytes (take n (record_bytes t s p)) = record_header t s p"
    by (simp add: record_bytes_def Let_def min_def)
  have "unat (rh_payload_length x) = length p" if "ParseHeader (record_header t s p) limit = Some x" for x
  proof -
    have "rh_payload_length x = word_of_nat (length p)"
      using that header_fields(6) [of t s p "[]"] by (auto simp: ParseHeader_def Let_def split: if_splits)
    then show ?thesis using record_payload_length [OF assms(1), of t s] by (simp add: header_of_def)
  qed
  then show ?thesis
    using assms(2) unfolding ReadRecord_def h
    by (auto simp: Let_def split: option.splits)
qed

end
