(* ===== verification/Flow_OMap.thy ===== *)
theory Flow_OMap
  imports Main
begin

text \<open>
  \<^verbatim>\<open>std::map\<close>: an association list in ascending key order, so that iteration is the list itself.
  The clients use it through the locale \<open>key_map\<close>: what a lookup returns after an insertion, and after
  a run of insertions.
\<close>

locale key_map =
  fixes empty :: 'm
    and get :: "'m \<Rightarrow> 'k \<Rightarrow> 'v option"
    and put :: "'k \<Rightarrow> 'v \<Rightarrow> 'm \<Rightarrow> 'm"
  assumes get_empty: "get empty k = None"
    and get_put: "get (put k v m) k' = (if k' = k then Some v else get m k')"
begin

definition puts :: "('a \<Rightarrow> 'k) \<Rightarrow> ('a \<Rightarrow> 'v) \<Rightarrow> 'a list \<Rightarrow> 'm \<Rightarrow> 'm" where
  "puts key val xs m = fold (\<lambda>x. put (key x) (val x)) xs m"

text \<open>The last insertion under a key wins.\<close>

lemma get_puts:
  "get (puts key val xs m) k =
     (case find (\<lambda>x. key x = k) (rev xs) of Some x \<Rightarrow> Some (val x) | None \<Rightarrow> get m k)"
proof (induction xs arbitrary: m rule: rev_induct)
  case (snoc x xs)
  then show ?case by (simp add: puts_def get_put)
qed (simp add: puts_def)

end

type_synonym ('k, 'v) omap = "('k \<times> 'v) list"

definition omap_get :: "('k, 'v) omap \<Rightarrow> 'k \<Rightarrow> 'v option" where
  "omap_get m k = map_of m k"

fun omap_put :: "'k::linorder \<Rightarrow> 'v \<Rightarrow> ('k, 'v) omap \<Rightarrow> ('k, 'v) omap" where
  "omap_put k v [] = [(k, v)]"
| "omap_put k v ((k', v') # m) =
     (if k < k' then (k, v) # (k', v') # m
      else if k = k' then (k, v) # m else (k', v') # omap_put k v m)"

definition omap_erase :: "'k \<Rightarrow> ('k, 'v) omap \<Rightarrow> ('k, 'v) omap" where
  "omap_erase k m = filter (\<lambda>e. fst e \<noteq> k) m"

abbreviation omap_ok :: "('k::linorder, 'v) omap \<Rightarrow> bool" where
  "omap_ok m \<equiv> sorted_wrt (<) (map fst m)"

lemma omap_get_put [simp]: "omap_get (omap_put k v m) k' = (if k' = k then Some v else omap_get m k')"
  by (induction m) (auto simp: omap_get_def)

lemma omap_get_Nil [simp]: "omap_get [] k = None"
  by (simp add: omap_get_def)

lemma keys_omap_put: "set (map fst (omap_put k v m)) = insert k (set (map fst m))"
proof (induction m)
  case (Cons e m)
  then show ?case by (cases e) (simp add: insert_commute)
qed simp

lemma omap_ok_put [simp]: "omap_ok m \<Longrightarrow> omap_ok (omap_put k v m)"
proof (induction m)
  case (Cons e m)
  then show ?case using keys_omap_put [of k v m] by (cases e) (auto simp: image_iff)
qed simp

interpretation omap: key_map "[]" omap_get omap_put
  by unfold_locales simp_all

lemma omap_get_in: "omap_ok m \<Longrightarrow> omap_get m k = Some v \<longleftrightarrow> (k, v) \<in> set m"
  by (induction m) (auto simp: omap_get_def image_iff)

lemma omap_get_None: "omap_get m k = None \<longleftrightarrow> k \<notin> fst ` set m"
  by (simp add: omap_get_def map_of_eq_None_iff)

lemma omap_get_erase [simp]: "omap_get (omap_erase k m) k' = (if k' = k then None else omap_get m k')"
  by (induction m) (auto simp: omap_erase_def omap_get_def)

lemma omap_ok_erase [simp]: "omap_ok m \<Longrightarrow> omap_ok (omap_erase k m)"
  by (induction m) (auto simp: omap_erase_def)

lemma omap_ext:
  assumes "omap_ok a" "omap_ok b" "\<And>k. omap_get a k = omap_get b k"
  shows "a = b"
proof -
  have "set a = set b" using assms by (auto simp flip: omap_get_in)
  moreover have "distinct (map fst a)" "distinct (map fst b)"
    using assms by (simp_all add: strict_sorted_iff)
  ultimately show ?thesis
    using assms
    by (intro map_sorted_distinct_set_unique [where f = fst])
      (auto simp: strict_sorted_iff inj_on_def dest: eq_key_imp_eq_value)
qed

end
