(* ===== verification/Flow_Store.thy ===== *)
theory Flow_Store
  imports Flow_Journal Flow_OMap Flow_Exchange
begin

text \<open>
  The durable placement store (\<^verbatim>\<open>src/store.cpp\<close>, \<^verbatim>\<open>include/flowplace/store.hpp\<close>): its in-memory index,
  recovery from the snapshot and the journal, the appends, and compaction. The two files of a store are
  the record \<open>Disk\<close>; what the operating system answers to a write, a sync, a rename or an open is an
  argument of the operation (\<open>AppendIo\<close>, \<open>CompactIo\<close>, \<open>OpenIo\<close>), and a failed append leaves any prefix
  of its record in the file. Offsets and sizes are natural numbers, sequences and ids 64-bit words.
\<close>

section \<open>State\<close>

record StoreOptions =
  so_fsync_on_append :: bool
  so_repair_torn_tail :: bool
  so_read_only :: bool
  so_max_record_bytes :: u64
  so_max_journal_records :: u64
  so_max_total_records :: u64

definition default_StoreOptions :: StoreOptions where
  "default_StoreOptions = \<lparr>so_fsync_on_append = True, so_repair_torn_tail = True, so_read_only = False,
     so_max_record_bytes = 2 ^ 20, so_max_journal_records = 8192, so_max_total_records = 2 ^ 22\<rparr>"

record StoreStats =
  ss_journal_records :: u64
  ss_journal_bytes :: u64
  ss_snapshot_bytes :: u64
  ss_compactions :: u64
  ss_appends :: u64
  ss_syncs :: u64

definition default_StoreStats :: StoreStats where
  "default_StoreStats = \<lparr>ss_journal_records = 0, ss_journal_bytes = 0, ss_snapshot_bytes = 0,
     ss_compactions = 0, ss_appends = 0, ss_syncs = 0\<rparr>"

record Impl =
  im_placements :: "PlacementRecord list"
  im_latest_by_flow :: "(FlowId, nat) omap"
  im_attempts :: "(AttemptId, AttemptRecord) omap"
  im_commit_by_attempt :: "(AttemptId, nat) omap"
  im_next_placement_id :: u64
  im_max_sequence :: u64
  im_closed :: bool
  im_compaction_in_progress :: bool

definition default_Impl :: Impl where
  "default_Impl = \<lparr>im_placements = [], im_latest_by_flow = [], im_attempts = [], im_commit_by_attempt = [],
     im_next_placement_id = 1, im_max_sequence = 0, im_closed = False, im_compaction_in_progress = False\<rparr>"

definition Impl_Latest :: "Impl \<Rightarrow> FlowId \<Rightarrow> PlacementRecord option" where
  "Impl_Latest impl flow = map_option (\<lambda>i. im_placements impl ! i) (omap_get (im_latest_by_flow impl) flow)"

definition default_RecoveryReport :: RecoveryReport where
  "default_RecoveryReport = \<lparr>rp_liveness_restored = False, rp_truncated_tail = False, rp_snapshot_loaded = False,
     rp_bytes_discarded = 0, rp_records_valid = 0, rp_placements_total = 0, rp_attempts_total = 0,
     rp_committed_attempts = 0, rp_rejected_attempts = 0, rp_cancelled_attempts = 0, rp_fenced_attempts = 0,
     rp_unfinished_attempts = 0, rp_superseded_placements = 0, rp_placements_requiring_revalidation = 0,
     rp_retired_attempts = 0, rp_max_sequence = 0, rp_last_epoch = 0, rp_last_incarnation = 0,
     rp_latest_by_flow = [], rp_unfinished = [], rp_detail = []\<rparr>"

text \<open>The journal at \<open>path\<close> and the snapshot beside it; \<open>None\<close> is a file that does not exist.\<close>

record Disk =
  dk_snapshot :: "byte list option"
  dk_journal :: "byte list option"

record PlacementStore =
  ps_path :: string
  ps_options :: StoreOptions
  ps_recovery :: RecoveryReport
  ps_stats :: StoreStats
  ps_file :: bool
  ps_impl :: Impl
  ps_disk :: Disk

section \<open>The operating system's answers\<close>

datatype SyncOutcome = SyncDone | FlushFailed | SyncFailed

definition SyncFile :: "SyncOutcome \<Rightarrow> Status" where
  "SyncFile answer = (case answer of
     SyncDone \<Rightarrow> Status_Ok
   | FlushFailed \<Rightarrow> mk_Status kStoreIoError ''fflush failed''
   | SyncFailed \<Rightarrow> mk_Status kStoreIoError ''fsync failed'')"

definition ReplaceFileAtomically :: "bool \<Rightarrow> string \<Rightarrow> Status" where
  "ReplaceFileAtomically renamed to_path =
     (if renamed then Status_Ok else mk_Status kStoreIoError (''rename failed for '' @ to_path))"

record AppendIo =
  ai_write_ok :: bool
  ai_sync :: SyncOutcome
  ai_kept :: nat

record CompactIo =
  ci_create_snapshot :: bool
  ci_write_snapshot :: bool
  ci_sync_snapshot :: SyncOutcome
  ci_replace_snapshot :: bool
  ci_create_journal :: bool
  ci_sync_journal :: SyncOutcome
  ci_replace_journal :: bool
  ci_reopen :: bool
  ci_marker :: AppendIo

record OpenIo =
  oi_scan :: bool
  oi_truncate :: bool
  oi_append :: bool

definition AppendIo_ok :: AppendIo where
  "AppendIo_ok = \<lparr>ai_write_ok = True, ai_sync = SyncDone, ai_kept = 0\<rparr>"

definition CompactIo_ok :: CompactIo where
  "CompactIo_ok = \<lparr>ci_create_snapshot = True, ci_write_snapshot = True, ci_sync_snapshot = SyncDone,
     ci_replace_snapshot = True, ci_create_journal = True, ci_sync_journal = SyncDone,
     ci_replace_journal = True, ci_reopen = True, ci_marker = AppendIo_ok\<rparr>"

definition OpenIo_ok :: OpenIo where
  "OpenIo_ok = \<lparr>oi_scan = True, oi_truncate = True, oi_append = True\<rparr>"

definition IoError :: "string \<Rightarrow> string \<Rightarrow> Status" where
  "IoError what path = mk_Status kStoreIoError (what @ '': '' @ path)"

definition SnapshotPathFor :: "string \<Rightarrow> string" where "SnapshotPathFor path = path @ ''.snap''"
definition TempPathFor :: "string \<Rightarrow> string" where "TempPathFor path = path @ ''.tmp''"

definition FileSizeBytes :: "byte list option \<Rightarrow> u64" where
  "FileSizeBytes file = (case file of None \<Rightarrow> 0 | Some bs \<Rightarrow> word_of_nat (length bs))"

section \<open>Recovery\<close>

definition set_impl :: "(Impl \<Rightarrow> Impl) \<Rightarrow> PlacementStore \<Rightarrow> PlacementStore" where
  "set_impl f st = st\<lparr>ps_impl := f (ps_impl st)\<rparr>"

text \<open>A placement joins the index: the vector, the latest of its flow, the commit of its attempt.\<close>

definition add_placement :: "PlacementRecord \<Rightarrow> Impl \<Rightarrow> Impl" where
  "add_placement record impl =
     (let index = length (im_placements impl);
          impl = impl\<lparr>im_placements := im_placements impl @ [record],
                      im_latest_by_flow := omap_put (in_flow (pr_intent record)) index (im_latest_by_flow impl)\<rparr>
      in if in_attempt (pr_intent record) \<noteq> 0
         then impl\<lparr>im_commit_by_attempt := omap_put (in_attempt (pr_intent record)) index (im_commit_by_attempt impl)\<rparr>
         else impl)"

definition put_attempt :: "AttemptRecord \<Rightarrow> Impl \<Rightarrow> Impl" where
  "put_attempt record impl = impl\<lparr>im_attempts := omap_put (ar_attempt record) record (im_attempts impl)\<rparr>"

definition LoadSnapshot_payload :: "byte list \<Rightarrow> PlacementStore \<Rightarrow> PlacementStore Result" where
  "LoadSnapshot_payload payload st =
     bindR (need kStoreCorrupt ''snapshot payload header is truncated'' (ByteReader_U64 payload)) (\<lambda>(next_id, r).
     bindR (need kStoreCorrupt ''snapshot payload header is truncated'' (ByteReader_U64 r)) (\<lambda>(max_sequence, r).
     bindR (need kStoreCorrupt ''snapshot payload header is truncated'' (ByteReader_U64 r)) (\<lambda>(retired, r).
     bindR (need kStoreCorrupt ''snapshot payload header is truncated'' (ByteReader_U32 r)) (\<lambda>(placement_count, r).
     guardR (ucast placement_count > so_max_total_records (ps_options st)) kStoreCorrupt
       ''snapshot lists too many placements'' (
     bindR (decode_n DecodePlacementRecord (unat placement_count) r) (\<lambda>(placements, r).
     bindR (need kStoreCorrupt ''snapshot attempt list is truncated'' (ByteReader_U32 r)) (\<lambda>(attempt_count, r).
     guardR (ucast attempt_count > so_max_total_records (ps_options st)) kStoreCorrupt
       ''snapshot lists too many attempts'' (
     bindR (decode_n DecodeAttemptRecord (unat attempt_count) r) (\<lambda>(attempts, r).
     guardR (\<not> ByteReader_AtEnd r) kStoreCorrupt ''snapshot payload has trailing bytes'' (
     let impl = (ps_impl st)\<lparr>im_placements := [], im_latest_by_flow := [], im_commit_by_attempt := [],
                              im_attempts := []\<rparr>;
         impl = fold put_attempt attempts (fold add_placement placements impl)
     in Inr (st\<lparr>ps_recovery := (ps_recovery st)\<lparr>rp_retired_attempts := retired\<rparr>,
                ps_impl := impl\<lparr>im_next_placement_id := next_id, im_max_sequence := max_sequence\<rparr>\<rparr>)))))))))))"

definition LoadSnapshot :: "PlacementStore \<Rightarrow> PlacementStore Result" where
  "LoadSnapshot st = (case dk_snapshot (ps_disk st) of
     None \<Rightarrow> Inr st
   | Some bs \<Rightarrow>
       guardR (length bs < 16) kStoreCorrupt ''snapshot header is truncated'' (
       guardR (GetU32_at 0 bs \<noteq> kSnapshotMagic) kStoreCorrupt ''snapshot magic mismatch'' (
       guardR (GetU32_at 4 bs \<noteq> kStoreFormatVersion) kStoreVersionUnsupported
         ''unsupported snapshot format version'' (
       let payload_length = GetU32_at 8 bs;
           payload_crc = GetU32_at 12 bs;
           n = unat payload_length;
           payload = take n (drop 16 bs);
           trailer = take 8 (drop (16 + n) bs) in
       guardR (ucast payload_length > so_max_record_bytes (ps_options st)) kStoreCorrupt
         ''snapshot payload exceeds the configured bound'' (
       guardR (length payload \<noteq> n) kStoreCorrupt ''snapshot payload is truncated'' (
       guardR (length trailer \<noteq> 8) kStoreCorrupt ''snapshot trailer is truncated'' (
       guardR (GetU32_at 4 trailer \<noteq> kSnapshotEndMagic) kStoreCorrupt ''snapshot end magic mismatch'' (
       guardR (Crc32C_Compute payload \<noteq> payload_crc) kStoreCorrupt ''snapshot payload checksum mismatch'' (
       guardR (24 + n < length bs) kStoreCorrupt ''snapshot has trailing bytes'' (
       LoadSnapshot_payload payload st))))))))))"

text \<open>Torn tail or damage in the middle, decided by the scan for a later valid record.\<close>

definition append_detail :: "string \<Rightarrow> PlacementStore \<Rightarrow> PlacementStore" where
  "append_detail text st = st\<lparr>ps_recovery := (ps_recovery st)\<lparr>rp_detail := rp_detail (ps_recovery st) @ text\<rparr>\<rparr>"

definition record_limit :: "PlacementStore \<Rightarrow> u32" where
  "record_limit st = ucast (so_max_record_bytes (ps_options st))"

definition HandleDamage :: "OpenIo \<Rightarrow> byte list \<Rightarrow> nat \<Rightarrow> PlacementStore \<Rightarrow> PlacementStore Result" where
  "HandleDamage io journal offset st =
     (let remaining = length journal - offset in
      if \<not> oi_scan io then Inl (IoError ''cannot reopen store for damage scan'' (ps_path st))
      else if valid_record_after (record_limit st) journal offset
        then Inl (mk_Status kStoreCorrupt (''journal damage at offset '' @ to_string offset @
               '' is followed by valid records; refusing to repair''))
      else
        let report = (ps_recovery st)\<lparr>rp_truncated_tail := True,
              rp_bytes_discarded := rp_bytes_discarded (ps_recovery st) + word_of_nat remaining\<rparr>;
            st = st\<lparr>ps_recovery := report\<rparr> in
        if so_read_only (ps_options st)
          then Inr (append_detail ''read-only open: torn tail reported but not repaired; '' st)
        else if \<not> so_repair_torn_tail (ps_options st)
          then Inl (mk_Status kStoreTruncatedTail (''journal tail at offset '' @ to_string offset @ '' is torn''))
        else if \<not> oi_truncate io then Inl (IoError ''cannot truncate torn journal tail'' (ps_path st))
        else Inr (append_detail (''torn journal tail of '' @ to_string remaining @
               '' bytes was discarded at offset '' @ to_string offset @ ''; '')
               (st\<lparr>ps_disk := (ps_disk st)\<lparr>dk_journal := Some (take offset journal)\<rparr>\<rparr>)))"

text \<open>What the loop does with one record that was read: the body of the iteration.\<close>

definition accept_record :: "u64 \<Rightarrow> PlacementStore \<Rightarrow> PlacementStore" where
  "accept_record sequence st =
     (set_impl (\<lambda>impl. impl\<lparr>im_max_sequence := sequence\<rparr>) st)
       \<lparr>ps_recovery := (ps_recovery st)\<lparr>rp_records_valid := rp_records_valid (ps_recovery st) + 1\<rparr>\<rparr>"

definition load_placement :: "PlacementRecord \<Rightarrow> Impl \<Rightarrow> Impl" where
  "load_placement record impl =
     (let impl = add_placement record impl
      in if pr_id record \<ge> im_next_placement_id impl then impl\<lparr>im_next_placement_id := pr_id record + 1\<rparr> else impl)"

definition LoadJournal_record ::
  "u64 \<Rightarrow> nat \<Rightarrow> RecordHeader \<Rightarrow> byte list \<Rightarrow> PlacementStore \<Rightarrow> PlacementStore Result" where
  "LoadJournal_record snapshot_sequence offset parsed payload st =
     (let sequence = rh_sequence parsed; current = im_max_sequence (ps_impl st) in
      if rh_type parsed = kRecordTypeJournalReset then
        guardR (rh_payload_length parsed \<noteq> 8) kStoreCorrupt ''journal reset marker is malformed'' (
        guardR (GetU64_at 0 payload \<noteq> snapshot_sequence) kStoreCorrupt
          ''journal reset marker does not match the snapshot it follows'' (
        Inr (set_impl (\<lambda>impl. impl\<lparr>im_max_sequence := sequence\<rparr>) st)))
      else if sequence \<le> current then Inr st
      else if sequence \<noteq> current + 1
        then Inl (mk_Status kStoreCorrupt (''journal sequence is not contiguous at offset '' @ to_string offset))
      else if rh_type parsed = kRecordTypePlacement then
        bindR (DecodePlacementRecord payload) (\<lambda>(record, r).
        guardR (\<not> ByteReader_AtEnd r) kStoreCorrupt ''trailing bytes after a placement record'' (
        Inr (accept_record sequence (set_impl (load_placement record) st))))
      else
        bindR (DecodeAttemptRecord payload) (\<lambda>(record, r).
        guardR (\<not> ByteReader_AtEnd r) kStoreCorrupt ''trailing bytes after an attempt record'' (
        guardR (case omap_get (im_attempts (ps_impl st)) (ar_attempt record) of
                  None \<Rightarrow> False
                | Some existing \<Rightarrow> ar_phase existing \<noteq> AttemptPhase.kStarted \<and> ar_phase record = AttemptPhase.kStarted)
          kStoreCorrupt ''journal records an attempt start after its terminal record'' (
        Inr (accept_record sequence (set_impl (put_attempt record) st))))))"

function LoadJournal_loop ::
  "OpenIo \<Rightarrow> byte list \<Rightarrow> u64 \<Rightarrow> nat \<Rightarrow> u64 \<Rightarrow> PlacementStore \<Rightarrow> (u64 \<times> PlacementStore) Result" where
  "LoadJournal_loop io journal snapshot_sequence offset records_read st =
     (if \<not> offset < length journal then Inr (records_read, st)
      else case ReadRecord (record_limit st) (drop offset journal) of
        None \<Rightarrow> bindR (HandleDamage io journal offset st) (\<lambda>st. Inr (records_read, st))
      | Some (parsed, payload) \<Rightarrow>
          (case LoadJournal_record snapshot_sequence offset parsed payload st of
             Inl s \<Rightarrow> Inl s
           | Inr st \<Rightarrow> LoadJournal_loop io journal snapshot_sequence (offset + record_size parsed)
                         (records_read + 1) st))"
  by pat_completeness auto
termination
  by (relation "measure (\<lambda>(_, journal, _, offset, _). length journal - offset)")
    (auto simp: record_size_def format_defs)

declare LoadJournal_loop.simps [simp del]

definition LoadJournal :: "OpenIo \<Rightarrow> PlacementStore \<Rightarrow> PlacementStore Result" where
  "LoadJournal io st = (case dk_journal (ps_disk st) of
     None \<Rightarrow> Inr (append_detail ''journal does not exist yet; starting empty'' st)
   | Some journal \<Rightarrow>
       bindR (LoadJournal_loop io journal (im_max_sequence (ps_impl st)) 0 0 st) (\<lambda>(records_read, st).
       Inr (st\<lparr>ps_stats := (ps_stats st)\<lparr>ss_journal_records := records_read\<rparr>\<rparr>)))"

section \<open>Recovery accounting\<close>

definition resolve_attempt :: "(AttemptId, nat) omap \<Rightarrow> AttemptId \<Rightarrow> AttemptRecord \<Rightarrow> AttemptRecord" where
  "resolve_attempt commits key attempt =
     (if ar_phase attempt = AttemptPhase.kStarted \<and> omap_get commits key \<noteq> None
      then attempt\<lparr>ar_phase := AttemptPhase.kCommitted\<rparr> else attempt)"

text \<open>\<^verbatim>\<open>orphan_commit\<close>: an attempt recorded as committed without a placement.\<close>

definition orphan_attempt :: "(AttemptId, nat) omap \<Rightarrow> AttemptId \<times> AttemptRecord \<Rightarrow> bool" where
  "orphan_attempt commits = (\<lambda>(key, attempt).
     ar_phase attempt = AttemptPhase.kCommitted \<and> omap_get commits key = None)"

definition account_attempt :: "(AttemptId, nat) omap \<Rightarrow> AttemptId \<times> AttemptRecord \<Rightarrow> RecoveryReport \<Rightarrow> RecoveryReport" where
  "account_attempt commits = (\<lambda>(key, attempt) report.
     let committed = (omap_get commits key \<noteq> None);
         report = (case ar_phase attempt of
             AttemptPhase.kStarted \<Rightarrow>
               if committed then report\<lparr>rp_committed_attempts := rp_committed_attempts report + 1\<rparr>
               else report\<lparr>rp_unfinished_attempts := rp_unfinished_attempts report + 1,
                           rp_unfinished := (if length (rp_unfinished report) < 64
                             then rp_unfinished report @ [attempt] else rp_unfinished report)\<rparr>
           | AttemptPhase.kCommitted \<Rightarrow>
               if committed then report\<lparr>rp_committed_attempts := rp_committed_attempts report + 1\<rparr> else report
           | AttemptPhase.kRejected \<Rightarrow> report\<lparr>rp_rejected_attempts := rp_rejected_attempts report + 1\<rparr>
           | AttemptPhase.kCancelled \<Rightarrow> report\<lparr>rp_cancelled_attempts := rp_cancelled_attempts report + 1\<rparr>
           | AttemptPhase.kFenced \<Rightarrow> report\<lparr>rp_fenced_attempts := rp_fenced_attempts report + 1\<rparr>);
         report = (if ar_epoch attempt > rp_last_epoch report
                   then report\<lparr>rp_last_epoch := ar_epoch attempt\<rparr> else report)
     in if ar_incarnation attempt \<noteq> 0 then report\<lparr>rp_last_incarnation := ar_incarnation attempt\<rparr> else report)"

definition account_placement :: "PlacementRecord \<Rightarrow> RecoveryReport \<Rightarrow> RecoveryReport" where
  "account_placement record report =
     (let report = (if pr_commit_epoch record > rp_last_epoch report
                    then report\<lparr>rp_last_epoch := pr_commit_epoch record\<rparr> else report)
      in if pr_committed_by record \<noteq> 0 then report\<lparr>rp_last_incarnation := pr_committed_by record\<rparr> else report)"

definition recovery_accounting :: "Impl \<Rightarrow> RecoveryReport \<Rightarrow> RecoveryReport" where
  "recovery_accounting impl report =
     (let latest = map (\<lambda>e. im_placements impl ! snd e) (im_latest_by_flow impl);
          report = report\<lparr>rp_placements_total := word_of_nat (length (im_placements impl)),
            rp_attempts_total := word_of_nat (length (im_attempts impl)),
            rp_max_sequence := im_max_sequence impl,
            rp_latest_by_flow := latest,
            rp_superseded_placements := word_of_nat (length (im_placements impl)) - word_of_nat (length (im_latest_by_flow impl)),
            rp_placements_requiring_revalidation := word_of_nat (length latest)\<rparr>;
          report = fold (account_attempt (im_commit_by_attempt impl)) (im_attempts impl) report;
          report = fold account_placement (im_placements impl) report
      in report\<lparr>rp_liveness_restored := False,
          rp_detail := rp_detail report @
            (if rp_unfinished_attempts report \<noteq> 0 then ''unfinished attempts require re-driving; '' else []) @
            (if rp_placements_requiring_revalidation report \<noteq> 0
             then ''recovered placements require revalidation against current evidence'' else []) @
            (if rp_truncated_tail report then ''; torn journal tail was discarded'' else [])\<rparr>)"

text \<open>\<^verbatim>\<open>Open\<close> leaves the disk as it is after the repair even when it fails later.\<close>

definition fresh_store :: "string \<Rightarrow> StoreOptions \<Rightarrow> Disk \<Rightarrow> PlacementStore" where
  "fresh_store path options disk =
     \<lparr>ps_path = path, ps_options = options, ps_recovery = default_RecoveryReport, ps_stats = default_StoreStats,
      ps_file = False, ps_impl = default_Impl, ps_disk = disk\<rparr>"

definition Load :: "OpenIo \<Rightarrow> PlacementStore \<Rightarrow> PlacementStore Result" where
  "Load io st =
     bindR (LoadSnapshot st) (\<lambda>st.
     LoadJournal io (if dk_snapshot (ps_disk st) \<noteq> None
       then st\<lparr>ps_recovery := (ps_recovery st)\<lparr>rp_snapshot_loaded := True\<rparr>\<rparr> else st))"

definition Open_account :: "PlacementStore \<Rightarrow> PlacementStore Result" where
  "Open_account st =
     (let impl = ps_impl st;
          st = st\<lparr>ps_stats := (ps_stats st)\<lparr>ss_journal_bytes := FileSizeBytes (dk_journal (ps_disk st)),
                                          ss_snapshot_bytes := FileSizeBytes (dk_snapshot (ps_disk st))\<rparr>\<rparr> in
      if list_ex (orphan_attempt (im_commit_by_attempt impl)) (im_attempts impl)
      then Inl (mk_Status kStoreCorrupt ''store records an acknowledged attempt with no durable placement'')
      else Inr (st\<lparr>ps_recovery := recovery_accounting impl (ps_recovery st),
                   ps_impl := impl\<lparr>im_attempts := map (\<lambda>(key, attempt).
                     (key, resolve_attempt (im_commit_by_attempt impl) key attempt)) (im_attempts impl)\<rparr>\<rparr>))"

definition Open :: "OpenIo \<Rightarrow> string \<Rightarrow> StoreOptions \<Rightarrow> Disk \<Rightarrow> Disk \<times> PlacementStore Result" where
  "Open io path options disk =
     (case Load io (fresh_store path options disk) of
        Inl s \<Rightarrow> (disk, Inl s)
      | Inr st \<Rightarrow>
          if so_read_only options then (ps_disk st, Open_account st)
          else if \<not> oi_append io then (ps_disk st, Inl (IoError ''cannot open store for append'' path))
          else
            let journal = (case dk_journal (ps_disk st) of None \<Rightarrow> [] | Some bs \<Rightarrow> bs);
                st = st\<lparr>ps_file := True, ps_disk := (ps_disk st)\<lparr>dk_journal := Some journal\<rparr>\<rparr>
            in (ps_disk st, Open_account st))"

end
