(* ===== verification/Flow_Append.thy ===== *)
theory Flow_Append
  imports Flow_Store
begin

text \<open>
  The operations of an open store (\<^verbatim>\<open>src/store.cpp\<close>): appending a record, compaction, attempt records,
  commits, lookups, sync and close. Each returns the store it leaves behind with its status; the
  arguments \<open>io\<close> and \<open>cio\<close> are the operating system's answers to the append and to a compaction it
  triggers, and \<open>now\<close> is the reading of \<^verbatim>\<open>CurrentUnixNanos\<close>.
\<close>

section \<open>Appending\<close>

definition write_journal :: "byte list \<Rightarrow> PlacementStore \<Rightarrow> PlacementStore" where
  "write_journal bytes st = st\<lparr>ps_disk := (ps_disk st)
     \<lparr>dk_journal := Some ((case dk_journal (ps_disk st) of None \<Rightarrow> [] | Some bs \<Rightarrow> bs) @ bytes)\<rparr>\<rparr>"

definition appended :: "bool \<Rightarrow> u64 \<Rightarrow> byte list \<Rightarrow> PlacementStore \<Rightarrow> PlacementStore" where
  "appended synced sequence bytes st =
     (write_journal bytes (set_impl (\<lambda>impl. impl\<lparr>im_max_sequence := sequence\<rparr>) st))
       \<lparr>ps_stats := (ps_stats st)\<lparr>
          ss_syncs := ss_syncs (ps_stats st) + (if synced then 1 else 0),
          ss_appends := ss_appends (ps_stats st) + 1,
          ss_journal_records := ss_journal_records (ps_stats st) + 1,
          ss_journal_bytes := ss_journal_bytes (ps_stats st) + word_of_nat (length bytes)\<rparr>\<rparr>"

definition AppendRecordRaw :: "AppendIo \<Rightarrow> u16 \<Rightarrow> byte list \<Rightarrow> PlacementStore \<Rightarrow> PlacementStore \<times> Status" where
  "AppendRecordRaw io type payload st =
     (let impl = ps_impl st; options = ps_options st in
      if im_closed impl then (st, mk_Status kNotRunning ''store is closed'')
      else if \<not> ps_file st then (st, mk_Status kNotRunning ''store is not open for append'')
      else if length payload > unat (so_max_record_bytes options)
        then (st, mk_Status kOversizeRequest ''record payload exceeds the configured bound'')
      else if im_max_sequence impl \<ge> so_max_total_records options
        then (st, mk_Status kStoreGrowthExceeded ''durable record budget is exhausted'')
      else
        let sequence = im_max_sequence impl + 1;
            record = record_bytes type sequence payload;
            torn = write_journal (take (ai_kept io) record) st in
        if \<not> ai_write_ok io then (torn, IoError ''short write to store'' (ps_path st))
        else if so_fsync_on_append options then
          (if \<not> Status_ok (SyncFile (ai_sync io)) then (torn, SyncFile (ai_sync io))
           else (appended True sequence record st, Status_Ok))
        else if ai_sync io = FlushFailed then (torn, IoError ''fflush failed'' (ps_path st))
        else (appended False sequence record st, Status_Ok))"

section \<open>Compaction\<close>

text \<open>The attempts that have not aged out of the retained window, by attempt id.\<close>

definition retired_attempt :: "StoreOptions \<Rightarrow> Impl \<Rightarrow> AttemptRecord \<Rightarrow> bool" where
  "retired_attempt options impl attempt =
     (let retention = (if so_max_journal_records options = 0 then im_max_sequence impl
                       else so_max_journal_records options)
      in im_max_sequence impl > retention \<and> ar_sequence attempt + retention < im_max_sequence impl)"

definition retained_attempts :: "StoreOptions \<Rightarrow> Impl \<Rightarrow> AttemptRecord list" where
  "retained_attempts options impl =
     sort_key ar_attempt (filter (\<lambda>a. \<not> retired_attempt options impl a) (map snd (im_attempts impl)))"

definition latest_records :: "Impl \<Rightarrow> PlacementRecord list" where
  "latest_records impl = map (\<lambda>e. im_placements impl ! snd e) (im_latest_by_flow impl)"

definition snapshot_payload :: "PlacementStore \<Rightarrow> byte list" where
  "snapshot_payload st =
     (let impl = ps_impl st; options = ps_options st;
          retained = retained_attempts options impl;
          retired = rp_retired_attempts (ps_recovery st) +
            word_of_nat (length (filter (retired_attempt options impl) (map snd (im_attempts impl))))
      in ByteWriter_U64 (im_next_placement_id impl) @ ByteWriter_U64 (im_max_sequence impl) @
         ByteWriter_U64 retired @
         ByteWriter_U32 (word_of_nat (length (latest_records impl))) @
         concat (map EncodePlacementRecord (latest_records impl)) @
         ByteWriter_U32 (word_of_nat (length retained)) @
         concat (map EncodeAttemptRecord retained))"

definition snapshot_container :: "byte list \<Rightarrow> byte list" where
  "snapshot_container payload =
     (let c = put_le 4 kSnapshotMagic @ put_le 4 kStoreFormatVersion @
              put_le 4 (word_of_nat (length payload) :: u32) @ put_le 4 (Crc32C_Compute payload) @ payload
      in c @ put_le 4 (Crc32C_Compute c) @ put_le 4 kSnapshotEndMagic)"

definition Compact_marker :: "AppendIo \<Rightarrow> u64 \<Rightarrow> nat \<Rightarrow> PlacementStore \<Rightarrow> PlacementStore \<times> Status" where
  "Compact_marker io snapshot_covered written st =
     (let st = (set_impl (\<lambda>impl. impl\<lparr>im_max_sequence := 0\<rparr>) st)
                 \<lparr>ps_stats := (ps_stats st)\<lparr>ss_journal_records := 0\<rparr>\<rparr> in
      case AppendRecordRaw io kRecordTypeJournalReset (put_le 8 snapshot_covered) st of
        (st, status) \<Rightarrow>
          if \<not> Status_ok status then (st, status)
          else ((set_impl (\<lambda>impl. impl\<lparr>im_max_sequence := 1\<rparr>) st)
                  \<lparr>ps_stats := (ps_stats st)\<lparr>ss_compactions := ss_compactions (ps_stats st) + 1,
                     ss_journal_records := 0, ss_journal_bytes := 0, ss_snapshot_bytes := word_of_nat written\<rparr>\<rparr>,
                Status_Ok))"

definition Compact_journal :: "CompactIo \<Rightarrow> u64 \<Rightarrow> nat \<Rightarrow> PlacementStore \<Rightarrow> PlacementStore \<times> Status" where
  "Compact_journal io snapshot_covered written st =
     (let st = st\<lparr>ps_file := False\<rparr>; journal_temp = TempPathFor (ps_path st) in
      if \<not> ci_create_journal io then (st, IoError ''cannot create journal temporary file'' journal_temp)
      else if \<not> Status_ok (SyncFile (ci_sync_journal io)) then (st, SyncFile (ci_sync_journal io))
      else if \<not> Status_ok (ReplaceFileAtomically (ci_replace_journal io) (ps_path st))
        then (st, ReplaceFileAtomically (ci_replace_journal io) (ps_path st))
      else
        let st = st\<lparr>ps_disk := (ps_disk st)\<lparr>dk_journal := Some []\<rparr>\<rparr> in
        if \<not> ci_reopen io then (st, IoError ''cannot reopen journal after compaction'' (ps_path st))
        else Compact_marker (ci_marker io) snapshot_covered written (st\<lparr>ps_file := True\<rparr>))"

definition Compact_snapshot :: "CompactIo \<Rightarrow> PlacementStore \<Rightarrow> PlacementStore \<times> Status" where
  "Compact_snapshot io st =
     (let container = snapshot_container (snapshot_payload st);
          snapshot_path = SnapshotPathFor (ps_path st);
          temp_path = TempPathFor snapshot_path in
      if \<not> ci_create_snapshot io then (st, IoError ''cannot create snapshot temporary file'' temp_path)
      else if \<not> ci_write_snapshot io then (st, IoError ''short write to snapshot temporary file'' temp_path)
      else if \<not> Status_ok (SyncFile (ci_sync_snapshot io)) then (st, SyncFile (ci_sync_snapshot io))
      else if \<not> Status_ok (ReplaceFileAtomically (ci_replace_snapshot io) snapshot_path)
        then (st, ReplaceFileAtomically (ci_replace_snapshot io) snapshot_path)
      else Compact_journal io (im_max_sequence (ps_impl st)) (length container)
             (st\<lparr>ps_disk := (ps_disk st)\<lparr>dk_snapshot := Some container\<rparr>\<rparr>))"

text \<open>The guard object clears \<^verbatim>\<open>compaction_in_progress\<close> on every return.\<close>

definition Compact :: "CompactIo \<Rightarrow> PlacementStore \<Rightarrow> PlacementStore \<times> Status" where
  "Compact io st =
     (if im_closed (ps_impl st) then (st, mk_Status kNotRunning ''store is closed'')
      else if so_read_only (ps_options st) then (st, mk_Status kNotRunning ''store is read-only'')
      else if im_compaction_in_progress (ps_impl st)
        then (st, mk_Status kAlreadyExists ''compaction is already in progress'')
      else case Compact_snapshot io (set_impl (\<lambda>impl. impl\<lparr>im_compaction_in_progress := True\<rparr>) st) of
        (st, status) \<Rightarrow> (set_impl (\<lambda>impl. impl\<lparr>im_compaction_in_progress := False\<rparr>) st, status))"

definition MaybeCompact :: "CompactIo \<Rightarrow> PlacementStore \<Rightarrow> PlacementStore \<times> Status" where
  "MaybeCompact io st =
     (if im_closed (ps_impl st) \<or> so_read_only (ps_options st) then (st, Status_Ok)
      else if im_compaction_in_progress (ps_impl st) then (st, Status_Ok)
      else if so_max_journal_records (ps_options st) = 0 then (st, Status_Ok)
      else if ss_journal_records (ps_stats st) < so_max_journal_records (ps_options st) then (st, Status_Ok)
      else Compact io st)"

section \<open>Attempts\<close>

definition append_attempt :: "AppendIo \<Rightarrow> CompactIo \<Rightarrow> AttemptRecord \<Rightarrow> PlacementStore \<Rightarrow> PlacementStore \<times> Status" where
  "append_attempt io cio copy st =
     (case AppendRecordRaw io kRecordTypeAttempt (EncodeAttemptRecord copy) st of
        (st, status) \<Rightarrow>
          if \<not> Status_ok status then (st, status)
          else MaybeCompact cio (set_impl (put_attempt copy) st))"

definition has_terminal :: "PlacementStore \<Rightarrow> AttemptId \<Rightarrow> bool" where
  "has_terminal st attempt = (case omap_get (im_attempts (ps_impl st)) attempt of
     None \<Rightarrow> False | Some existing \<Rightarrow> ar_phase existing \<noteq> AttemptPhase.kStarted)"

definition AppendAttemptStart :: "AppendIo \<Rightarrow> CompactIo \<Rightarrow> AttemptRecord \<Rightarrow> PlacementStore \<Rightarrow> PlacementStore \<times> Status" where
  "AppendAttemptStart io cio record st =
     (if has_terminal st (ar_attempt record)
        then (st, mk_Status kAlreadyExists ''attempt already has a durable terminal record'')
      else if omap_get (im_commit_by_attempt (ps_impl st)) (ar_attempt record) \<noteq> None
        then (st, mk_Status kAlreadyExists ''attempt already committed a placement'')
      else append_attempt io cio
        (record\<lparr>ar_phase := AttemptPhase.kStarted, ar_sequence := im_max_sequence (ps_impl st) + 1\<rparr>) st)"

definition AppendAttemptTerminal :: "AppendIo \<Rightarrow> CompactIo \<Rightarrow> AttemptRecord \<Rightarrow> PlacementStore \<Rightarrow> PlacementStore \<times> Status" where
  "AppendAttemptTerminal io cio record st =
     (if ar_phase record = AttemptPhase.kStarted
        then (st, mk_Status kInvalidArgument ''terminal attempt record must carry a final phase'')
      else if has_terminal st (ar_attempt record)
        then (st, mk_Status kAlreadyExists ''attempt already has a terminal record'')
      else append_attempt io cio (record\<lparr>ar_sequence := im_max_sequence (ps_impl st) + 1\<rparr>) st)"

section \<open>Commits\<close>

definition new_record ::
  "PlacementIntent \<Rightarrow> IncumbentDelta \<Rightarrow> Digest \<Rightarrow> IncarnationId \<Rightarrow> FabricEpoch \<Rightarrow> i64 \<Rightarrow> Impl \<Rightarrow> PlacementRecord Result" where
  "new_record intent delta decision_digest committed_by commit_epoch now impl =
     (let record = \<lparr>pr_id = im_next_placement_id impl, pr_generation = 1, pr_intent = intent, pr_delta = delta,
            pr_decision_digest = decision_digest, pr_committed_by = committed_by, pr_commit_epoch = commit_epoch,
            pr_sequence = im_max_sequence impl + 1, pr_supersedes_generation = 0,
            pr_commit_unix_nanos = now, pr_requires_revalidation = False\<rparr> in
      case Impl_Latest impl (in_flow intent) of
        None \<Rightarrow> Inr record
      | Some previous \<Rightarrow>
          guardR (pr_generation previous = - 1) kArithmeticOverflow
            ''placement generation is exhausted for this flow'' (
          Inr (record\<lparr>pr_supersedes_generation := pr_generation previous,
                      pr_generation := pr_generation previous + 1\<rparr>)))"

definition verify_record :: "PlacementRecord \<Rightarrow> bool" where
  "verify_record record = (case DecodePlacementRecord (EncodePlacementRecord record) of
     Inl _ \<Rightarrow> False
   | Inr (decoded, _) \<Rightarrow> PlacementIntent_eq (pr_intent decoded) (pr_intent record) \<and>
       pr_id decoded = pr_id record \<and> pr_generation decoded = pr_generation record)"

definition commit_record :: "AppendIo \<Rightarrow> CompactIo \<Rightarrow> PlacementRecord \<Rightarrow> PlacementStore \<Rightarrow> PlacementStore \<times> PlacementRecord Result" where
  "commit_record io cio record st =
     (if \<not> verify_record record
        then (st, Inl (mk_Status kInternalInvariantViolation ''placement record failed encode/decode verification''))
      else case AppendRecordRaw io kRecordTypePlacement (EncodePlacementRecord record) st of
        (st, status) \<Rightarrow>
          if \<not> Status_ok status then (st, Inl status)
          else case MaybeCompact cio (set_impl (\<lambda>impl. (add_placement record impl)
                      \<lparr>im_next_placement_id := pr_id record + 1\<rparr>) st) of
            (st, compacted) \<Rightarrow> if \<not> Status_ok compacted then (st, Inl compacted) else (st, Inr record))"

definition CommitPlacement ::
  "AppendIo \<Rightarrow> CompactIo \<Rightarrow> i64 \<Rightarrow> PlacementIntent \<Rightarrow> IncumbentDelta \<Rightarrow> Digest \<Rightarrow> IncarnationId \<Rightarrow> FabricEpoch \<Rightarrow>
   PlacementStore \<Rightarrow> PlacementStore \<times> PlacementRecord Result" where
  "CommitPlacement io cio now intent delta decision_digest committed_by commit_epoch st =
     (let impl = ps_impl st in
      if im_closed impl then (st, Inl (mk_Status kNotRunning ''store is closed''))
      else if in_flow intent = 0 \<or> in_path intent = 0 \<or> in_path_authority intent = 0
        then (st, Inl (mk_Status kInvalidArgument ''intent is missing a required identity''))
      else if in_digest intent \<noteq> IntentDigest intent
        then (st, Inl (mk_Status kInconsistentAuthorityGeneration ''intent digest does not match its contents''))
      else case (if in_attempt intent \<noteq> 0 then omap_get (im_commit_by_attempt impl) (in_attempt intent) else None) of
        Some index \<Rightarrow>
          if PlacementIntent_eq (pr_intent (im_placements impl ! index)) intent
          then (st, Inr (im_placements impl ! index))
          else (st, Inl (mk_Status kDuplicateAttemptConflict ''attempt already committed a different placement intent''))
      | None \<Rightarrow>
          if im_max_sequence impl \<ge> so_max_total_records (ps_options st)
            then (st, Inl (mk_Status kStoreGrowthExceeded ''durable record budget is exhausted''))
          else case new_record intent delta decision_digest committed_by commit_epoch now impl of
            Inl s \<Rightarrow> (st, Inl s)
          | Inr record \<Rightarrow> commit_record io cio record st)"

section \<open>Lookups\<close>

definition FindLatest :: "PlacementStore \<Rightarrow> FlowId \<Rightarrow> PlacementRecord option" where
  "FindLatest st flow = Impl_Latest (ps_impl st) flow"

definition History :: "PlacementStore \<Rightarrow> FlowId \<Rightarrow> PlacementRecord list" where
  "History st flow = filter (\<lambda>record. in_flow (pr_intent record) = flow) (im_placements (ps_impl st))"

definition LatestPlacements :: "PlacementStore \<Rightarrow> PlacementRecord list" where
  "LatestPlacements st = latest_records (ps_impl st)"

text \<open>Sorted by sequence; \<^verbatim>\<open>std::sort\<close> leaves the order of equal sequences open.\<close>

definition Attempts :: "PlacementStore \<Rightarrow> AttemptRecord list" where
  "Attempts st = sort_key ar_sequence (map snd (im_attempts (ps_impl st)))"

definition FindAttempt :: "PlacementStore \<Rightarrow> AttemptId \<Rightarrow> AttemptRecord option" where
  "FindAttempt st attempt = omap_get (im_attempts (ps_impl st)) attempt"

definition FindByAttempt :: "PlacementStore \<Rightarrow> AttemptId \<Rightarrow> PlacementRecord option" where
  "FindByAttempt st attempt =
     map_option (\<lambda>i. im_placements (ps_impl st) ! i) (omap_get (im_commit_by_attempt (ps_impl st)) attempt)"

section \<open>Sync and close\<close>

definition Sync :: "SyncOutcome \<Rightarrow> PlacementStore \<Rightarrow> PlacementStore \<times> Status" where
  "Sync answer st =
     (if im_closed (ps_impl st) then (st, mk_Status kNotRunning ''store is closed'')
      else if \<not> ps_file st then (st, mk_Status kNotRunning ''store is not open for append'')
      else if Status_ok (SyncFile answer)
        then (st\<lparr>ps_stats := (ps_stats st)\<lparr>ss_syncs := ss_syncs (ps_stats st) + 1\<rparr>\<rparr>, SyncFile answer)
      else (st, SyncFile answer))"

definition Close :: "SyncOutcome \<Rightarrow> bool \<Rightarrow> PlacementStore \<Rightarrow> PlacementStore \<times> Status" where
  "Close answer closed st =
     (let st' = set_impl (\<lambda>impl. impl\<lparr>im_closed := True\<rparr>) st in
      if \<not> ps_file st then (st', Status_Ok)
      else
        let st' = st'\<lparr>ps_file := False\<rparr>;
            sync_status = (if so_read_only (ps_options st) then Status_Ok else SyncFile answer) in
        if \<not> Status_ok sync_status then (st', sync_status)
        else if \<not> closed then (st', IoError ''fclose failed'' (ps_path st))
        else (st', Status_Ok))"

end
