(* ===== verification/Flow_Recovery.thy ===== *)
theory Flow_Recovery
  imports Flow_Append
begin

text \<open>
  What recovery computes. The journal is a log of entries; recovery folds the entries over the state the
  snapshot holds. The lemmas show that the byte-level loops of \<^verbatim>\<open>LoadSnapshot\<close> and \<^verbatim>\<open>LoadJournal\<close> compute
  exactly this replay, with any bytes after the last whole record.
\<close>

section \<open>The log\<close>

datatype Entry =
  PlacementEntry PlacementRecord
| AttemptEntry AttemptRecord
| ResetEntry u64

fun entry_type :: "Entry \<Rightarrow> u16" where
  "entry_type (PlacementEntry _) = kRecordTypePlacement"
| "entry_type (AttemptEntry _) = kRecordTypeAttempt"
| "entry_type (ResetEntry _) = kRecordTypeJournalReset"

fun entry_payload :: "Entry \<Rightarrow> byte list" where
  "entry_payload (PlacementEntry p) = EncodePlacementRecord p"
| "entry_payload (AttemptEntry a) = EncodeAttemptRecord a"
| "entry_payload (ResetEntry c) = put_le 8 c"

definition entry_bytes :: "u64 \<times> Entry \<Rightarrow> byte list" where
  "entry_bytes e = record_bytes (entry_type (snd e)) (fst e) (entry_payload (snd e))"

definition journal_of :: "(u64 \<times> Entry) list \<Rightarrow> byte list" where
  "journal_of es = concat (map entry_bytes es)"

definition entry_fits :: "u32 \<Rightarrow> u64 \<times> Entry \<Rightarrow> bool" where
  "entry_fits limit e \<longleftrightarrow> length (entry_payload (snd e)) \<le> unat limit"

definition revalidate :: "PlacementRecord \<Rightarrow> PlacementRecord" where
  "revalidate p = p\<lparr>pr_requires_revalidation := True\<rparr>"

definition restarts :: "Impl \<Rightarrow> AttemptRecord \<Rightarrow> bool" where
  "restarts impl a = (case omap_get (im_attempts impl) (ar_attempt a) of
     None \<Rightarrow> False
   | Some b \<Rightarrow> ar_phase b \<noteq> AttemptPhase.kStarted \<and> ar_phase a = AttemptPhase.kStarted)"

fun apply_entry :: "u64 \<Rightarrow> u64 \<times> Entry \<Rightarrow> Impl \<Rightarrow> Impl option" where
  "apply_entry covered (s, ResetEntry c) impl = (if c = covered then Some (impl\<lparr>im_max_sequence := s\<rparr>) else None)"
| "apply_entry covered (s, PlacementEntry p) impl =
     (if s \<le> im_max_sequence impl then Some impl
      else if s \<noteq> im_max_sequence impl + 1 then None
      else Some ((load_placement (revalidate p) impl)\<lparr>im_max_sequence := s\<rparr>))"
| "apply_entry covered (s, AttemptEntry a) impl =
     (if s \<le> im_max_sequence impl then Some impl
      else if s \<noteq> im_max_sequence impl + 1 \<or> restarts impl a then None
      else Some ((put_attempt a impl)\<lparr>im_max_sequence := s\<rparr>))"

fun replay :: "u64 \<Rightarrow> (u64 \<times> Entry) list \<Rightarrow> Impl \<Rightarrow> Impl option" where
  "replay covered [] impl = Some impl"
| "replay covered (e # es) impl = Option.bind (apply_entry covered e impl) (replay covered es)"

lemma replay_append: "replay covered (es @ fs) impl = Option.bind (replay covered es impl) (replay covered fs)"
  by (induction es arbitrary: impl) (auto split: Option.bind_splits)

lemma known_entry_type [simp]: "known_type (entry_type e)"
  by (cases e) simp_all

lemma EncodePlacementRecord_revalidate [simp]: "EncodePlacementRecord (revalidate p) = EncodePlacementRecord p"
  by (simp add: EncodePlacementRecord_def revalidate_def)

lemma revalidate_fields [simp]:
  "pr_requires_revalidation (revalidate p)" "pr_intent (revalidate p) = pr_intent p"
  "pr_id (revalidate p) = pr_id p" "pr_generation (revalidate p) = pr_generation p"
  "pr_supersedes_generation (revalidate p) = pr_supersedes_generation p"
  "revalidate (revalidate p) = revalidate p"
  by (simp_all add: revalidate_def)

lemma DecodePlacementRecord_encode: "DecodePlacementRecord (EncodePlacementRecord p @ r) = Inr (revalidate p, r)"
  using placement_codec.decode_encode [of "revalidate p" r] by simp

lemma length_intent [simp]: "length (WriteIntent v) = 168"
  by (simp add: WriteIntent_def WriteReservation_def WriteU64s_def ByteWriter_U64_def)

lemma length_attempt [simp]: "length (EncodeAttemptRecord a) = 67"
  by (simp add: EncodeAttemptRecord_def ByteWriter_U64_def ByteWriter_U16_def ByteWriter_U8_def ByteWriter_I64_def)

lemma length_placement [simp]: "length (EncodePlacementRecord p) = 241"
  by (simp add: EncodePlacementRecord_def ByteWriter_U64_def ByteWriter_U8_def ByteWriter_I64_def)

section \<open>The journal loop replays the log\<close>

definition count_valid :: "u64 \<Rightarrow> PlacementStore \<Rightarrow> PlacementStore" where
  "count_valid n st = st\<lparr>ps_recovery := (ps_recovery st)\<lparr>rp_records_valid := n\<rparr>\<rparr>"

lemma count_valid_fields [simp]:
  "ps_impl (count_valid n st) = ps_impl st" "ps_disk (count_valid n st) = ps_disk st"
  "ps_options (count_valid n st) = ps_options st" "ps_path (count_valid n st) = ps_path st"
  "ps_stats (count_valid n st) = ps_stats st" "ps_file (count_valid n st) = ps_file st"
  "count_valid m (count_valid n st) = count_valid m st"
  "count_valid m (st\<lparr>ps_impl := i\<rparr>) = (count_valid m st)\<lparr>ps_impl := i\<rparr>"
  by (simp_all add: count_valid_def)

lemma some_count_valid [simp]:
  "\<exists>n. st = st\<lparr>ps_recovery := (ps_recovery st)\<lparr>rp_records_valid := n\<rparr>\<rparr>"
  "\<exists>n. st\<lparr>ps_impl := i\<rparr> = st\<lparr>ps_impl := i, ps_recovery := (ps_recovery st)\<lparr>rp_records_valid := n\<rparr>\<rparr>"
  by (rule exI [of _ "rp_records_valid (ps_recovery st)"], simp)+

lemma LoadJournal_record_entry:
  assumes "entry_fits limit e" "apply_entry covered e (ps_impl st) = Some i"
  shows "\<exists>n. LoadJournal_record covered offset
           (header_of (entry_type (snd e)) (fst e) (entry_payload (snd e))) (entry_payload (snd e)) st =
         Inr (count_valid n (st\<lparr>ps_impl := i\<rparr>))"
proof -
  obtain s x where e: "e = (s, x)" by (cases e)
  show ?thesis
  proof (cases x)
    case (PlacementEntry p)
    then show ?thesis
      using assms(2) DecodePlacementRecord_encode [of p "[]"]
      by (auto simp: e LoadJournal_record_def header_of_def accept_record_def set_impl_def count_valid_def
          format_defs bindR_def guardR_def ByteReader_AtEnd_def Let_def split: if_splits)
  next
    case (AttemptEntry a)
    then show ?thesis
      using assms(2) attempt_codec.decode_encode [of a "[]"]
      by (auto simp: e LoadJournal_record_def header_of_def accept_record_def set_impl_def count_valid_def
          restarts_def format_defs bindR_def guardR_def ByteReader_AtEnd_def Let_def split: if_splits)
  next
    case (ResetEntry c)
    then show ?thesis
      using assms(2) get_put_le [of 8 c "[]"]
      by (auto simp: e LoadJournal_record_def header_of_def set_impl_def count_valid_def GetU64_at_def
          format_defs guardR_def Let_def split: if_splits)
  qed
qed

lemma LoadJournal_record_refused:
  assumes "entry_fits limit e" "apply_entry covered e (ps_impl st) = None"
  shows "\<exists>m. LoadJournal_record covered offset
           (header_of (entry_type (snd e)) (fst e) (entry_payload (snd e))) (entry_payload (snd e)) st =
         Inl (mk_Status kStoreCorrupt m)"
proof -
  obtain s x where e: "e = (s, x)" by (cases e)
  show ?thesis
  proof (cases x)
    case (PlacementEntry p)
    then show ?thesis using assms(2)
      by (auto simp: e LoadJournal_record_def header_of_def format_defs Let_def split: if_splits)
  next
    case (AttemptEntry a)
    then show ?thesis
      using assms(2) attempt_codec.decode_encode [of a "[]"]
      by (auto simp: e LoadJournal_record_def header_of_def restarts_def format_defs bindR_def guardR_def
          ByteReader_AtEnd_def Let_def split: if_splits)
  next
    case (ResetEntry c)
    then show ?thesis
      using assms(2) get_put_le [of 8 c "[]"]
      by (auto simp: e LoadJournal_record_def header_of_def GetU64_at_def format_defs guardR_def Let_def
          split: if_splits)
  qed
qed

lemma journal_of_simps [simp]:
  "journal_of [] = []" "journal_of (e # es) = entry_bytes e @ journal_of es"
  "journal_of (es @ fs) = journal_of es @ journal_of fs"
  by (simp_all add: journal_of_def)

lemma entry_bytes_nonempty [simp]: "entry_bytes e \<noteq> []"
  by (simp add: entry_bytes_def format_defs flip: length_greater_0_conv)

lemma loop_step:
  assumes "entry_fits (record_limit st) e"
  shows "LoadJournal_loop io (pre @ entry_bytes e @ rest) covered (length pre) n st =
    (case LoadJournal_record covered (length pre)
       (header_of (entry_type (snd e)) (fst e) (entry_payload (snd e))) (entry_payload (snd e)) st of
       Inl s \<Rightarrow> Inl s
     | Inr st' \<Rightarrow> LoadJournal_loop io (pre @ entry_bytes e @ rest) covered
                    (length (pre @ entry_bytes e)) (n + 1) st')"
proof -
  have len: "length (entry_payload (snd e)) \<le> unat (record_limit st)"
    using assms by (simp add: entry_fits_def)
  have "length pre < length (pre @ entry_bytes e @ rest)" by simp
  then show ?thesis
    using ReadRecord_record [OF known_entry_type len, of "snd e" "fst e" rest]
      record_size_header_of [OF len, of "entry_type (snd e)" "fst e"]
    by (subst LoadJournal_loop.simps) (simp add: entry_bytes_def split: sum.split)
qed

lemma loop_replay:
  assumes "\<forall>e \<in> set es. entry_fits (record_limit st) e" "replay covered es (ps_impl st) = Some i"
  shows "\<exists>m. LoadJournal_loop io (pre @ journal_of es @ rest) covered (length pre) n st =
     LoadJournal_loop io (pre @ journal_of es @ rest) covered (length (pre @ journal_of es))
       (n + word_of_nat (length es)) (count_valid m (st\<lparr>ps_impl := i\<rparr>))"
  using assms
proof (induction es arbitrary: pre n st)
  case Nil
  then have "st\<lparr>ps_impl := i\<rparr> = st" by simp
  then show ?case by (simp add: count_valid_def) (rule exI [of _ "rp_records_valid (ps_recovery st)"], simp)
next
  case (Cons e es)
  obtain j where j: "apply_entry covered e (ps_impl st) = Some j" "replay covered es j = Some i"
    using Cons.prems(2) by (auto simp: bind_eq_Some_conv)
  obtain k where k: "LoadJournal_record covered (length pre)
      (header_of (entry_type (snd e)) (fst e) (entry_payload (snd e))) (entry_payload (snd e)) st =
      Inr (count_valid k (st\<lparr>ps_impl := j\<rparr>))"
    using LoadJournal_record_entry [OF _ j(1)] Cons.prems(1) by fastforce
  let ?st = "count_valid k (st\<lparr>ps_impl := j\<rparr>)"
  have lim: "record_limit ?st = record_limit st" by (simp add: record_limit_def)
  obtain m where "LoadJournal_loop io ((pre @ entry_bytes e) @ journal_of es @ rest) covered
      (length (pre @ entry_bytes e)) (n + 1) ?st =
    LoadJournal_loop io ((pre @ entry_bytes e) @ journal_of es @ rest) covered
      (length ((pre @ entry_bytes e) @ journal_of es)) (n + 1 + word_of_nat (length es))
      (count_valid m (?st\<lparr>ps_impl := i\<rparr>))"
    using Cons.IH [of ?st "pre @ entry_bytes e" "n + 1"] Cons.prems(1) j(2) lim by auto
  moreover have "(?st\<lparr>ps_impl := i\<rparr>) = count_valid k (st\<lparr>ps_impl := i\<rparr>)" by (simp add: count_valid_def)
  ultimately show ?case
    using loop_step [of st e io pre "journal_of es @ rest" covered n] Cons.prems(1) k
    by (simp add: add.assoc) blast
qed

section \<open>The end of the journal\<close>

text \<open>Every record whole: the loop ends with the replayed state and has read every record.\<close>

lemma loop_whole:
  assumes "\<forall>e \<in> set es. entry_fits (record_limit st) e" "replay covered es (ps_impl st) = Some i"
  shows "\<exists>m. LoadJournal_loop io (journal_of es) covered 0 0 st =
     Inr (word_of_nat (length es), count_valid m (st\<lparr>ps_impl := i\<rparr>))"
proof -
  have "LoadJournal_loop io (journal_of es) covered (length (journal_of es)) n st' = Inr (n, st')" for n st'
    by (subst LoadJournal_loop.simps) simp
  then show ?thesis using loop_replay [OF assms, of io "[]" "[]" 0] by simp
qed

text \<open>Bytes that are no record: the replayed state goes through \<open>HandleDamage\<close>.\<close>

lemma loop_damaged:
  assumes "\<forall>e \<in> set es. entry_fits (record_limit st) e" "replay covered es (ps_impl st) = Some i"
    and "junk \<noteq> []" "ReadRecord (record_limit st) junk = None"
  shows "\<exists>m. LoadJournal_loop io (journal_of es @ junk) covered 0 0 st =
     bindR (HandleDamage io (journal_of es @ junk) (length (journal_of es)) (count_valid m (st\<lparr>ps_impl := i\<rparr>)))
       (\<lambda>st. Inr (word_of_nat (length es), st))"
proof -
  have lim: "record_limit (count_valid m (st\<lparr>ps_impl := i\<rparr>)) = record_limit st" for m
    by (simp add: record_limit_def)
  have "LoadJournal_loop io (journal_of es @ junk) covered (length (journal_of es)) n (count_valid m (st\<lparr>ps_impl := i\<rparr>)) =
     bindR (HandleDamage io (journal_of es @ junk) (length (journal_of es)) (count_valid m (st\<lparr>ps_impl := i\<rparr>)))
       (\<lambda>st. Inr (n, st))" for n m
    using assms(3,4) by (subst LoadJournal_loop.simps) (simp add: lim del: count_valid_fields)
  then show ?thesis using loop_replay [OF assms(1,2), of io "[]" junk 0] by simp
qed

text \<open>A log that does not replay is refused as corrupt, whatever follows it.\<close>

lemma loop_refused:
  assumes "\<forall>e \<in> set es. entry_fits (record_limit st) e" "replay covered es (ps_impl st) = None"
  shows "\<exists>m. LoadJournal_loop io (pre @ journal_of es @ rest) covered (length pre) n st = Inl (mk_Status kStoreCorrupt m)"
  using assms
proof (induction es arbitrary: pre n st)
  case (Cons e es)
  have fits: "entry_fits (record_limit st) e" using Cons.prems(1) by simp
  show ?case
  proof (cases "apply_entry covered e (ps_impl st)")
    case None
    then show ?thesis
      using loop_step [OF fits, of io pre "journal_of es @ rest" covered n]
        LoadJournal_record_refused [OF fits None, of "length pre"] by auto
  next
    case (Some j)
    obtain k where k: "LoadJournal_record covered (length pre)
        (header_of (entry_type (snd e)) (fst e) (entry_payload (snd e))) (entry_payload (snd e)) st =
        Inr (count_valid k (st\<lparr>ps_impl := j\<rparr>))"
      using LoadJournal_record_entry [OF fits Some] by blast
    let ?st = "count_valid k (st\<lparr>ps_impl := j\<rparr>)"
    have lim: "record_limit ?st = record_limit st" by (simp add: record_limit_def)
    obtain m where "LoadJournal_loop io ((pre @ entry_bytes e) @ journal_of es @ rest) covered
        (length (pre @ entry_bytes e)) (n + 1) ?st = Inl (mk_Status kStoreCorrupt m)"
      using Cons.IH [of ?st "pre @ entry_bytes e" "n + 1"] Cons.prems Some lim by auto
    then show ?thesis
      using loop_step [OF fits, of io pre "journal_of es @ rest" covered n] k by auto
  qed
qed simp

section \<open>The snapshot\<close>

text \<open>What a snapshot holds: next id, covered sequence, retired count, placements, attempts.\<close>

record Image =
  sn_next_id :: u64
  sn_covered :: u64
  sn_retired :: u64
  sn_placements :: "PlacementRecord list"
  sn_attempts :: "AttemptRecord list"

definition image_payload :: "Image \<Rightarrow> byte list" where
  "image_payload sn =
     ByteWriter_U64 (sn_next_id sn) @ ByteWriter_U64 (sn_covered sn) @ ByteWriter_U64 (sn_retired sn) @
     ByteWriter_U32 (word_of_nat (length (sn_placements sn))) @
     concat (map EncodePlacementRecord (sn_placements sn)) @
     ByteWriter_U32 (word_of_nat (length (sn_attempts sn))) @
     concat (map EncodeAttemptRecord (sn_attempts sn))"

definition image_fits :: "StoreOptions \<Rightarrow> Image \<Rightarrow> bool" where
  "image_fits options sn \<longleftrightarrow>
     length (sn_placements sn) \<le> unat (so_max_total_records options) \<and>
     length (sn_attempts sn) \<le> unat (so_max_total_records options) \<and>
     length (image_payload sn) \<le> unat (so_max_record_bytes options) \<and>
     length (image_payload sn) < 2 ^ 32"

definition image_impl :: "Image \<Rightarrow> Impl" where
  "image_impl sn =
     (fold put_attempt (sn_attempts sn) (fold add_placement (map revalidate (sn_placements sn)) default_Impl))
       \<lparr>im_next_placement_id := sn_next_id sn, im_max_sequence := sn_covered sn\<rparr>"

lemma length_image_payload:
  "length (image_payload sn) = 32 + 241 * length (sn_placements sn) + 67 * length (sn_attempts sn)"
  by (simp add: image_payload_def ByteWriter_U64_def ByteWriter_U32_def length_concat comp_def
      sum_list_triv)

lemma LoadSnapshot_payload_image:
  assumes "image_fits (ps_options st) sn" "ps_impl st = default_Impl"
  shows "LoadSnapshot_payload (image_payload sn) st =
     Inr (st\<lparr>ps_recovery := (ps_recovery st)\<lparr>rp_retired_attempts := sn_retired sn\<rparr>, ps_impl := image_impl sn\<rparr>)"
proof -
  let ?ps = "sn_placements sn" and ?as = "sn_attempts sn"
  have small: "length ?ps < 2 ^ 32" "length ?as < 2 ^ 32"
    using assms(1) by (simp_all add: image_fits_def length_image_payload)
  then have un: "unat (word_of_nat (length ?ps) :: u32) = length ?ps" "unat (word_of_nat (length ?as) :: u32) = length ?as"
    by (simp_all add: unat_of_nat)
  have lim: "\<not> so_max_total_records (ps_options st) < ucast (word_of_nat n :: u32)"
    if "n < 2 ^ 32" "n \<le> unat (so_max_total_records (ps_options st))" for n
    using that by (simp add: word_less_nat_alt unat_of_nat)
  have ps: "decode_n DecodePlacementRecord (length ?ps) (concat (map EncodePlacementRecord ?ps) @ r) =
      Inr (map revalidate ?ps, r)" for r
    using placement_codec.decode_n_concat [of "map revalidate ?ps" r] by (simp add: comp_def)
  have as: "decode_n DecodeAttemptRecord (length ?as) (concat (map EncodeAttemptRecord ?as)) = Inr (?as, [])"
    using attempt_codec.decode_n_concat [of ?as "[]"] by simp
  have default: "default_Impl\<lparr>im_placements := [], im_latest_by_flow := [], im_commit_by_attempt := [],
      im_attempts := []\<rparr> = default_Impl" by (simp add: default_Impl_def)
  show ?thesis
    using lim [of "length ?ps"] lim [of "length ?as"] small assms
    by (simp add: LoadSnapshot_payload_def image_payload_def need_def bindR_def guardR_def image_fits_def
        u64_codec.dec_enc u32_codec.dec_enc un ps as default image_impl_def ByteReader_AtEnd_def Let_def)
qed

lemma LoadSnapshot_image:
  assumes "image_fits (ps_options st) sn" "ps_impl st = default_Impl"
    and "dk_snapshot (ps_disk st) = Some (snapshot_container (image_payload sn))"
  shows "LoadSnapshot st =
     Inr (st\<lparr>ps_recovery := (ps_recovery st)\<lparr>rp_retired_attempts := sn_retired sn\<rparr>, ps_impl := image_impl sn\<rparr>)"
proof -
  let ?p = "image_payload sn" and ?n = "word_of_nat (length (image_payload sn)) :: u32"
  define c where "c = put_le 4 kSnapshotMagic @ put_le 4 kStoreFormatVersion @ put_le 4 ?n @ put_le 4 (Crc32C_Compute ?p)"
  define t where "t = put_le 4 (Crc32C_Compute (c @ ?p)) @ put_le 4 kSnapshotEndMagic"
  have bs: "snapshot_container ?p = c @ ?p @ t" by (simp add: snapshot_container_def c_def t_def Let_def)
  have len: "length c = 16" "length t = 8" by (simp_all add: c_def t_def)
  have un: "unat ?n = length ?p" using assms(1) by (simp add: image_fits_def unat_of_nat)
  have fields: "GetU32_at 0 (c @ r) = kSnapshotMagic" "GetU32_at 4 (c @ r) = kStoreFormatVersion"
    "GetU32_at 8 (c @ r) = ?n" "GetU32_at 12 (c @ r) = Crc32C_Compute ?p"
    "GetU32_at 4 t = kSnapshotEndMagic" for r
    using get_put_le [of 4 kSnapshotEndMagic "[]"] by (simp_all add: c_def t_def GetU32_at_def get_put_le)
  have "\<not> so_max_record_bytes (ps_options st) < ucast ?n"
    using assms(1) by (simp add: image_fits_def word_less_nat_alt un)
  then show ?thesis
    using assms(3) LoadSnapshot_payload_image [OF assms(1,2)] len
    by (simp add: LoadSnapshot_def bs fields un guardR_def Let_def)
qed

end
