(* ===== verification/Flow_Ledger.thy ===== *)
theory Flow_Ledger
  imports Flow_Recovery
begin

text \<open>
  The in-memory index of the store: its well-formedness, and the relation between the index that
  recovery rebuilds and the index of the process that wrote the files. Every append, the compaction and
  the reopening keep both.
\<close>

section \<open>Searching a vector from its end\<close>

abbreviation flow_of :: "PlacementRecord \<Rightarrow> FlowId" where "flow_of p \<equiv> in_flow (pr_intent p)"
abbreviation attempt_of :: "PlacementRecord \<Rightarrow> AttemptId" where "attempt_of p \<equiv> in_attempt (pr_intent p)"

definition last_with :: "('a \<Rightarrow> 'k) \<Rightarrow> 'a list \<Rightarrow> 'k \<Rightarrow> 'a option" where
  "last_with key xs k = find (\<lambda>x. key x = k) (rev xs)"

lemma last_with_Nil [simp]: "last_with key [] k = None"
  by (simp add: last_with_def)

lemma last_with_snoc [simp]: "last_with key (xs @ [x]) k = (if key x = k then Some x else last_with key xs k)"
  by (simp add: last_with_def)

lemma last_with_SomeD: "last_with key xs k = Some x \<Longrightarrow> x \<in> set xs \<and> key x = k"
  unfolding last_with_def find_Some_iff by (metis nth_mem length_rev set_rev)

lemma last_with_None: "last_with key xs k = None \<longleftrightarrow> k \<notin> key ` set xs"
  by (auto simp: last_with_def find_None_iff)

lemma last_with_unique:
  assumes "distinct (map key xs)"
  shows "last_with key xs k = Some x \<longleftrightarrow> x \<in> set xs \<and> key x = k"
proof
  assume x: "x \<in> set xs \<and> key x = k"
  then have "last_with key xs k \<noteq> None" by (simp add: last_with_None image_iff) blast
  then obtain y where y: "last_with key xs k = Some y" by blast
  then have "y = x" using assms x last_with_SomeD [OF y] by (metis distinct_map inj_onD)
  then show "last_with key xs k = Some x" using y by simp
qed (rule last_with_SomeD)

lemma last_with_map [simp]: "last_with key (map g xs) k = map_option g (last_with (\<lambda>x. key (g x)) xs k)"
  by (induction xs rule: rev_induct) simp_all

section \<open>The index\<close>

definition Impl_Commit :: "Impl \<Rightarrow> AttemptId \<Rightarrow> PlacementRecord option" where
  "Impl_Commit impl a = map_option (\<lambda>i. im_placements impl ! i) (omap_get (im_commit_by_attempt impl) a)"

text \<open>Successive generations of one flow.\<close>

definition succeeds :: "PlacementRecord \<Rightarrow> PlacementRecord \<Rightarrow> bool" where
  "succeeds p q \<longleftrightarrow>
     unat (pr_generation q) = Suc (unat (pr_generation p)) \<and> pr_supersedes_generation q = pr_generation p"

definition flow_history :: "PlacementRecord list \<Rightarrow> FlowId \<Rightarrow> PlacementRecord list" where
  "flow_history ps f = filter (\<lambda>p. flow_of p = f) ps"

definition index_ok :: "Impl \<Rightarrow> bool" where
  "index_ok impl \<longleftrightarrow>
     omap_ok (im_latest_by_flow impl) \<and> omap_ok (im_commit_by_attempt impl) \<and> omap_ok (im_attempts impl) \<and>
     (\<forall>f i. omap_get (im_latest_by_flow impl) f = Some i \<longrightarrow> i < length (im_placements impl)) \<and>
     (\<forall>a i. omap_get (im_commit_by_attempt impl) a = Some i \<longrightarrow> i < length (im_placements impl)) \<and>
     (\<forall>a r. omap_get (im_attempts impl) a = Some r \<longrightarrow> ar_attempt r = a)"

definition wf_impl :: "Impl \<Rightarrow> bool" where
  "wf_impl impl \<longleftrightarrow>
     index_ok impl \<and>
     (\<forall>f. Impl_Latest impl f = last_with flow_of (im_placements impl) f) \<and>
     (\<forall>a. Impl_Commit impl a = (if a = 0 then None else last_with attempt_of (im_placements impl) a)) \<and>
     distinct (map attempt_of (filter (\<lambda>p. attempt_of p \<noteq> 0) (im_placements impl))) \<and>
     (\<forall>f. successively succeeds (flow_history (im_placements impl) f))"

lemma wf_impl_default: "wf_impl default_Impl"
  by (simp add: wf_impl_def index_ok_def default_Impl_def Impl_Latest_def Impl_Commit_def flow_history_def)

lemma wf_implD:
  assumes "wf_impl impl"
  shows "Impl_Latest impl f = last_with flow_of (im_placements impl) f"
    and "Impl_Commit impl a = (if a = 0 then None else last_with attempt_of (im_placements impl) a)"
    and "omap_get (im_attempts impl) k = Some r \<Longrightarrow> ar_attempt r = k"
    and "index_ok impl"
  using assms by (auto simp: wf_impl_def index_ok_def)

text \<open>Fields the index does not depend on.\<close>

lemma wf_impl_update [simp]:
  "wf_impl (impl\<lparr>im_max_sequence := s\<rparr>) = wf_impl impl"
  "wf_impl (impl\<lparr>im_next_placement_id := n\<rparr>) = wf_impl impl"
  "wf_impl (impl\<lparr>im_closed := b\<rparr>) = wf_impl impl"
  "wf_impl (impl\<lparr>im_compaction_in_progress := b\<rparr>) = wf_impl impl"
  by (simp_all add: wf_impl_def index_ok_def Impl_Latest_def Impl_Commit_def)

lemma Impl_lookup_update [simp]:
  "Impl_Latest (impl\<lparr>im_max_sequence := s\<rparr>) = Impl_Latest impl"
  "Impl_Latest (impl\<lparr>im_next_placement_id := n\<rparr>) = Impl_Latest impl"
  "Impl_Latest (impl\<lparr>im_attempts := as\<rparr>) = Impl_Latest impl"
  "Impl_Latest (impl\<lparr>im_closed := b\<rparr>) = Impl_Latest impl"
  "Impl_Latest (impl\<lparr>im_compaction_in_progress := b\<rparr>) = Impl_Latest impl"
  "Impl_Commit (impl\<lparr>im_max_sequence := s\<rparr>) = Impl_Commit impl"
  "Impl_Commit (impl\<lparr>im_next_placement_id := n\<rparr>) = Impl_Commit impl"
  "Impl_Commit (impl\<lparr>im_attempts := as\<rparr>) = Impl_Commit impl"
  "Impl_Commit (impl\<lparr>im_closed := b\<rparr>) = Impl_Commit impl"
  "Impl_Commit (impl\<lparr>im_compaction_in_progress := b\<rparr>) = Impl_Commit impl"
  by (simp_all add: fun_eq_iff Impl_Latest_def Impl_Commit_def)

lemma Impl_Commit_None: "omap_get (im_commit_by_attempt impl) a = None \<longleftrightarrow> Impl_Commit impl a = None"
  by (simp add: Impl_Commit_def)

section \<open>Adding to the index\<close>

lemma add_placement_fields [simp]:
  "im_placements (add_placement p impl) = im_placements impl @ [p]"
  "im_attempts (add_placement p impl) = im_attempts impl"
  "im_next_placement_id (add_placement p impl) = im_next_placement_id impl"
  "im_max_sequence (add_placement p impl) = im_max_sequence impl"
  "im_closed (add_placement p impl) = im_closed impl"
  "im_compaction_in_progress (add_placement p impl) = im_compaction_in_progress impl"
  by (simp_all add: add_placement_def Let_def)

lemma nth_below: "index_ok impl \<Longrightarrow> omap_get (im_latest_by_flow impl) f = Some i \<Longrightarrow>
    (im_placements impl @ ps) ! i = im_placements impl ! i"
  "index_ok impl \<Longrightarrow> omap_get (im_commit_by_attempt impl) a = Some i \<Longrightarrow>
    (im_placements impl @ ps) ! i = im_placements impl ! i"
  by (auto simp: index_ok_def nth_append)

lemma add_placement_lookup:
  assumes "index_ok impl"
  shows "Impl_Latest (add_placement p impl) f = (if f = flow_of p then Some p else Impl_Latest impl f)"
    and "Impl_Commit (add_placement p impl) a =
           (if a = attempt_of p \<and> a \<noteq> 0 then Some p else Impl_Commit impl a)"
  using nth_below [OF assms]
  by (auto simp: Impl_Latest_def Impl_Commit_def add_placement_def Let_def intro!: option.map_cong0
      split: option.splits)

lemma index_ok_add: "index_ok impl \<Longrightarrow> index_ok (add_placement p impl)"
  by (auto simp: index_ok_def add_placement_def Let_def less_SucI split: if_splits)

lemma flow_history_last: "flow_history ps f = [] \<longleftrightarrow> last_with flow_of ps f = None"
  "flow_history ps f \<noteq> [] \<Longrightarrow> last_with flow_of ps f = Some (last (flow_history ps f))"
proof -
  show "flow_history ps f = [] \<longleftrightarrow> last_with flow_of ps f = None"
    by (auto simp: flow_history_def last_with_None filter_empty_conv)
  show "flow_history ps f \<noteq> [] \<Longrightarrow> last_with flow_of ps f = Some (last (flow_history ps f))"
    by (induction ps rule: rev_induct) (auto simp: flow_history_def)
qed

lemma wf_impl_add:
  assumes wf: "wf_impl impl"
    and fresh: "attempt_of p = 0 \<or> Impl_Commit impl (attempt_of p) = None"
    and gen: "\<And>q. Impl_Latest impl (flow_of p) = Some q \<Longrightarrow> succeeds q p"
  shows "wf_impl (add_placement p impl)"
proof -
  have "attempt_of p \<notin> attempt_of ` set (im_placements impl)" if "attempt_of p \<noteq> 0"
    using fresh that wf_implD(2) [OF wf] by (simp add: last_with_None)
  then have "distinct (map attempt_of (filter (\<lambda>p. attempt_of p \<noteq> 0) (im_placements impl @ [p])))"
    using wf by (auto simp: wf_impl_def)
  moreover have "successively succeeds (flow_history (im_placements impl @ [p]) f)" for f
    using wf gen wf_implD(1) [OF wf] flow_history_last [of "im_placements impl" f]
    by (auto simp: wf_impl_def flow_history_def successively_append_iff)
  ultimately show ?thesis
    using wf index_ok_add [of impl p] by (simp add: wf_impl_def add_placement_lookup)
qed

lemma put_attempt_fields [simp]:
  "im_placements (put_attempt a impl) = im_placements impl"
  "im_latest_by_flow (put_attempt a impl) = im_latest_by_flow impl"
  "im_commit_by_attempt (put_attempt a impl) = im_commit_by_attempt impl"
  "omap_get (im_attempts (put_attempt a impl)) k = (if k = ar_attempt a then Some a else omap_get (im_attempts impl) k)"
  "im_next_placement_id (put_attempt a impl) = im_next_placement_id impl"
  "im_max_sequence (put_attempt a impl) = im_max_sequence impl"
  "im_closed (put_attempt a impl) = im_closed impl"
  "im_compaction_in_progress (put_attempt a impl) = im_compaction_in_progress impl"
  "Impl_Latest (put_attempt a impl) = Impl_Latest impl" "Impl_Commit (put_attempt a impl) = Impl_Commit impl"
  by (simp_all add: put_attempt_def)

lemma wf_impl_put [simp]: "wf_impl impl \<Longrightarrow> wf_impl (put_attempt a impl)"
  by (auto simp: wf_impl_def index_ok_def put_attempt_def)

section \<open>The recovered index\<close>

text \<open>
  \<open>i\<close> is what recovery rebuilds from the files of a process whose index is \<open>m\<close>: the same next id, the
  same sequence, the latest placement of every flow (to be revalidated), every attempt (a start whose
  placement was found may already count as committed in \<open>m\<close>), and the commits of the latest placements.
\<close>

definition recovered :: "Impl \<Rightarrow> Impl \<Rightarrow> bool" where
  "recovered i m \<longleftrightarrow>
     im_next_placement_id i = im_next_placement_id m \<and> im_max_sequence i = im_max_sequence m \<and>
     (\<forall>f. Impl_Latest i f = map_option revalidate (Impl_Latest m f)) \<and>
     (\<forall>k. omap_get (im_attempts m) k = omap_get (im_attempts i) k \<or>
          omap_get (im_attempts m) k =
            map_option (resolve_attempt (im_commit_by_attempt i) k) (omap_get (im_attempts i) k)) \<and>
     (\<forall>a p. Impl_Commit i a = Some p \<longrightarrow> (\<exists>q. Impl_Commit m a = Some q \<and> p = revalidate q)) \<and>
     (\<forall>f p. Impl_Latest m f = Some p \<and> attempt_of p \<noteq> 0 \<longrightarrow> Impl_Commit i (attempt_of p) \<noteq> None) \<and>
     (\<forall>p \<in> set (im_placements i). revalidate p = p)"

lemma recoveredD:
  assumes "recovered i m"
  shows "im_next_placement_id i = im_next_placement_id m" "im_max_sequence i = im_max_sequence m"
    and "Impl_Latest i f = map_option revalidate (Impl_Latest m f)"
    and "omap_get (im_attempts m) k = omap_get (im_attempts i) k \<or>
          omap_get (im_attempts m) k =
            map_option (resolve_attempt (im_commit_by_attempt i) k) (omap_get (im_attempts i) k)"
    and "Impl_Commit i a = Some p \<Longrightarrow> \<exists>q. Impl_Commit m a = Some q \<and> p = revalidate q"
    and "Impl_Latest m f = Some p \<Longrightarrow> attempt_of p \<noteq> 0 \<Longrightarrow> Impl_Commit i (attempt_of p) \<noteq> None"
    and "p \<in> set (im_placements i) \<Longrightarrow> revalidate p = p"
  using assms unfolding recovered_def by (auto simp del: not_None_eq)

lemma recovered_uncommitted: "recovered i m \<Longrightarrow> Impl_Commit m a = None \<Longrightarrow> Impl_Commit i a = None"
  using recoveredD(5) [of i m a] by (cases "Impl_Commit i a") auto

lemma resolve_attempt_uncommitted [simp]:
  "Impl_Commit i k = None \<Longrightarrow> resolve_attempt (im_commit_by_attempt i) k a = a"
  by (simp add: resolve_attempt_def Impl_Commit_None)

lemma resolve_attempt_cong:
  "(Impl_Commit i k = None \<longleftrightarrow> Impl_Commit j k = None) \<Longrightarrow>
    resolve_attempt (im_commit_by_attempt i) k = resolve_attempt (im_commit_by_attempt j) k"
  by (simp add: fun_eq_iff resolve_attempt_def flip: Impl_Commit_None)

definition committed_placement :: "PlacementRecord \<Rightarrow> u64 \<Rightarrow> Impl \<Rightarrow> Impl" where
  "committed_placement p s impl = (add_placement p impl)\<lparr>im_next_placement_id := pr_id p + 1, im_max_sequence := s\<rparr>"

lemma recovered_placement:
  assumes rec: "recovered i m" and wf: "wf_impl i" "wf_impl m"
    and fresh: "attempt_of p = 0 \<or> Impl_Commit m (attempt_of p) = None"
    and gen: "\<And>q. Impl_Latest m (flow_of p) = Some q \<Longrightarrow> succeeds q p"
    and id: "pr_id p = im_next_placement_id m"
  shows "recovered (committed_placement (revalidate p) s i) (committed_placement p s m) \<and>
         wf_impl (committed_placement (revalidate p) s i) \<and> wf_impl (committed_placement p s m)"
proof (intro conjI)
  have fresh_i: "attempt_of p = 0 \<or> Impl_Commit i (attempt_of p) = None"
    using fresh recovered_uncommitted [OF rec, of "attempt_of p"] by argo
  have gen_i: "succeeds q (revalidate p)" if "Impl_Latest i (flow_of p) = Some q" for q
    using that gen recoveredD(3) [OF rec, of "flow_of p"] by (auto simp: succeeds_def)
  show "wf_impl (committed_placement (revalidate p) s i)"
    using wf_impl_add [OF wf(1), of "revalidate p"] fresh_i gen_i by (simp add: committed_placement_def)
  show "wf_impl (committed_placement p s m)"
    using wf_impl_add [OF wf(2) fresh gen] by (simp add: committed_placement_def)
  let ?i = "committed_placement (revalidate p) s i" and ?m = "committed_placement p s m"
  note look = add_placement_lookup [OF wf_implD(4) [OF wf(1)]] add_placement_lookup [OF wf_implD(4) [OF wf(2)]]
  have att: "omap_get (im_attempts m) k = omap_get (im_attempts i) k \<or> omap_get (im_attempts m) k =
      map_option (resolve_attempt (im_commit_by_attempt ?i) k) (omap_get (im_attempts i) k)" for k
  proof (cases "Impl_Commit i k = None \<and> Impl_Commit ?i k \<noteq> None")
    case True
    then show ?thesis using recoveredD(4) [OF rec, of k] by (cases "omap_get (im_attempts i) k") auto
  next
    case False
    then have "Impl_Commit ?i k = None \<longleftrightarrow> Impl_Commit i k = None"
      by (auto simp: committed_placement_def look)
    then show ?thesis using recoveredD(4) [OF rec, of k] resolve_attempt_cong [of ?i k i] by simp
  qed
  have "Impl_Commit ?i (attempt_of q) \<noteq> None" if "Impl_Latest ?m f = Some q" "attempt_of q \<noteq> 0" for f q
    using that recoveredD(6) [OF rec] by (auto simp: committed_placement_def look split: if_splits)
  then show "recovered ?i ?m"
    using rec att unfolding recovered_def by (auto simp: committed_placement_def look)
qed

lemma recovered_attempt:
  assumes rec: "recovered i m" and live: "\<And>b. omap_get (im_attempts m) (ar_attempt a) = Some b \<Longrightarrow> ar_phase b = AttemptPhase.kStarted"
  shows "\<not> restarts i a"
    and "recovered ((put_attempt a i)\<lparr>im_max_sequence := s\<rparr>) ((put_attempt a m)\<lparr>im_max_sequence := s\<rparr>)"
proof -
  have "ar_phase b = AttemptPhase.kStarted" if "omap_get (im_attempts i) (ar_attempt a) = Some b" for b
    using that live recoveredD(4) [OF rec, of "ar_attempt a"]
    by (auto simp: resolve_attempt_def split: if_splits)
  then show "\<not> restarts i a" by (auto simp: restarts_def split: option.splits)
  show "recovered ((put_attempt a i)\<lparr>im_max_sequence := s\<rparr>) ((put_attempt a m)\<lparr>im_max_sequence := s\<rparr>)"
    using rec unfolding recovered_def by auto
qed

section \<open>Reopening\<close>

definition resolved :: "Impl \<Rightarrow> Impl" where
  "resolved impl = impl\<lparr>im_attempts := map (\<lambda>(key, attempt).
     (key, resolve_attempt (im_commit_by_attempt impl) key attempt)) (im_attempts impl)\<rparr>"

lemma omap_get_map: "omap_get (map (\<lambda>(k, v). (k, f k v)) m) k = map_option (f k) (omap_get m k)"
  by (induction m) (auto simp: omap_get_def)

lemma resolve_attempt_id [simp]: "ar_attempt (resolve_attempt c k a) = ar_attempt a"
  by (simp add: resolve_attempt_def)

lemma wf_resolved: "wf_impl impl \<Longrightarrow> wf_impl (resolved impl)"
  by (auto simp: wf_impl_def index_ok_def resolved_def omap_get_map comp_def case_prod_beta)

lemma revalidated_lookup:
  assumes "wf_impl i" "\<forall>p \<in> set (im_placements i). revalidate p = p"
  shows "map_option revalidate (Impl_Latest i f) = Impl_Latest i f"
    and "Impl_Commit i a = Some p \<Longrightarrow> revalidate p = p"
proof -
  show "map_option revalidate (Impl_Latest i f) = Impl_Latest i f"
    using assms(2) last_with_SomeD [of flow_of "im_placements i" f]
    by (cases "Impl_Latest i f") (auto simp: wf_implD(1) [OF assms(1)])
  show "Impl_Commit i a = Some p \<Longrightarrow> revalidate p = p"
    using assms(2) last_with_SomeD [of attempt_of "im_placements i" a p]
    by (auto simp: wf_implD(2) [OF assms(1)] split: if_splits)
qed

lemma latest_committed:
  assumes "wf_impl i" "Impl_Latest i f = Some p" "attempt_of p \<noteq> 0"
  shows "Impl_Commit i (attempt_of p) \<noteq> None"
  using assms(2,3) last_with_SomeD [of flow_of "im_placements i" f p]
  by (auto simp: wf_implD(1,2) [OF assms(1)] last_with_None)

lemma resolved_lookup:
  "Impl_Latest (resolved i) = Impl_Latest i" "Impl_Commit (resolved i) = Impl_Commit i"
  "im_next_placement_id (resolved i) = im_next_placement_id i" "im_max_sequence (resolved i) = im_max_sequence i"
  "omap_get (im_attempts (resolved i)) k =
     map_option (resolve_attempt (im_commit_by_attempt i) k) (omap_get (im_attempts i) k)"
  by (simp_all add: resolved_def omap_get_map)

lemma recovered_resolved:
  assumes "recovered i m" "wf_impl i"
  shows "recovered i (resolved i)"
proof -
  have flagged: "\<forall>p \<in> set (im_placements i). revalidate p = p" using assms(1) by (simp add: recovered_def)
  have "\<forall>a p. Impl_Commit i a = Some p \<longrightarrow> (\<exists>q. Impl_Commit i a = Some q \<and> p = revalidate q)"
    using revalidated_lookup(2) [OF assms(2) flagged] by metis
  then show ?thesis
    unfolding recovered_def resolved_lookup revalidated_lookup(1) [OF assms(2) flagged]
    using flagged latest_committed [OF assms(2)] by blast
qed

section \<open>Compaction\<close>

lemma fold_add_placement:
  assumes "distinct (map flow_of ps)" "distinct (map attempt_of (filter (\<lambda>p. attempt_of p \<noteq> 0) ps))"
  shows "wf_impl (fold add_placement ps default_Impl) \<and> im_placements (fold add_placement ps default_Impl) = ps \<and>
         im_attempts (fold add_placement ps default_Impl) = []"
  using assms
proof (induction ps rule: rev_induct)
  case (snoc p ps)
  let ?i = "fold add_placement ps default_Impl"
  have i: "wf_impl ?i" "im_placements ?i = ps" "im_attempts ?i = []"
    using snoc by auto
  have "attempt_of p = 0 \<or> Impl_Commit ?i (attempt_of p) = None"
    using snoc.prems(2) by (auto simp: wf_implD(2) [OF i(1)] i(2) last_with_None)
  moreover have "Impl_Latest ?i (flow_of p) = None"
    using snoc.prems(1) by (auto simp: wf_implD(1) [OF i(1)] i(2) last_with_None)
  ultimately show ?case using wf_impl_add [OF i(1), of p] i by simp
qed (simp add: wf_impl_default, simp add: default_Impl_def)

lemma fold_put_attempt:
  "im_attempts (fold put_attempt as impl) = omap.puts ar_attempt (\<lambda>a. a) as (im_attempts impl)"
  "wf_impl impl \<Longrightarrow> wf_impl (fold put_attempt as impl)"
  "Impl_Latest (fold put_attempt as impl) = Impl_Latest impl" "Impl_Commit (fold put_attempt as impl) = Impl_Commit impl"
  "im_placements (fold put_attempt as impl) = im_placements impl"
  by (induction as arbitrary: impl) (simp_all add: omap.puts_def put_attempt_def [THEN arg_cong, of im_attempts])

lemma omap_get_puts:
  "omap_get (omap.puts ar_attempt (\<lambda>a. a) as m) k =
     (case last_with ar_attempt as k of Some a \<Rightarrow> Some a | None \<Rightarrow> omap_get m k)"
  by (simp add: omap.get_puts last_with_def)

lemma option_eqI: "(\<And>x. a = Some x \<longleftrightarrow> b = Some x) \<Longrightarrow> a = b"
  by (cases a; cases b) auto

lemma latest_records_flow:
  assumes "wf_impl m" "(f, i) \<in> set (im_latest_by_flow m)"
  shows "Impl_Latest m f = Some (im_placements m ! i) \<and> flow_of (im_placements m ! i) = f \<and>
         im_placements m ! i \<in> set (im_placements m)"
proof -
  have "omap_get (im_latest_by_flow m) f = Some i"
    using assms by (simp add: omap_get_in wf_impl_def index_ok_def)
  then have l: "Impl_Latest m f = Some (im_placements m ! i)" by (simp add: Impl_Latest_def)
  then show ?thesis using last_with_SomeD [of flow_of "im_placements m" f] by (simp add: wf_implD(1) [OF assms(1)])
qed

lemma latest_records_facts:
  assumes wf: "wf_impl m"
  shows "map flow_of (latest_records m) = map fst (im_latest_by_flow m)"
    and "distinct (map flow_of (latest_records m))"
    and "distinct (map attempt_of (filter (\<lambda>p. attempt_of p \<noteq> 0) (latest_records m)))"
    and "last_with flow_of (latest_records m) f = Impl_Latest m f"
    and "set (latest_records m) \<subseteq> set (im_placements m)"
proof -
  have ok: "omap_ok (im_latest_by_flow m)" using wf by (simp add: wf_impl_def index_ok_def)
  show flows: "map flow_of (latest_records m) = map fst (im_latest_by_flow m)"
    using latest_records_flow [OF wf] by (auto simp: latest_records_def)
  show d: "distinct (map flow_of (latest_records m))"
    unfolding flows using ok by (simp add: strict_sorted_iff)
  show sub: "set (latest_records m) \<subseteq> set (im_placements m)"
    using latest_records_flow [OF wf] by (auto simp: latest_records_def)
  have "inj_on attempt_of (set (filter (\<lambda>p. attempt_of p \<noteq> 0) (im_placements m)))"
    using wf by (simp add: wf_impl_def distinct_map)
  then have "inj_on attempt_of (set (filter (\<lambda>p. attempt_of p \<noteq> 0) (latest_records m)))"
    by (rule inj_on_subset) (use sub in auto)
  then show "distinct (map attempt_of (filter (\<lambda>p. attempt_of p \<noteq> 0) (latest_records m)))"
    using d by (simp add: distinct_map)
  show "last_with flow_of (latest_records m) f = Impl_Latest m f"
  proof (rule option_eqI)
    fix p
    have "p \<in> set (latest_records m) \<and> flow_of p = f \<longleftrightarrow> Impl_Latest m f = Some p"
      using latest_records_flow [OF wf] omap_get_in [OF ok, of f]
      by (auto simp: latest_records_def Impl_Latest_def image_iff) force
    then show "last_with flow_of (latest_records m) f = Some p \<longleftrightarrow> Impl_Latest m f = Some p"
      by (simp add: last_with_unique [OF d])
  qed
qed

lemma retained_lookup:
  assumes wf: "wf_impl m" and none: "\<forall>a \<in> snd ` set (im_attempts m). \<not> retired_attempt options m a"
  shows "last_with ar_attempt (retained_attempts options m) k = omap_get (im_attempts m) k"
proof -
  have ok: "omap_ok (im_attempts m)" and keys: "\<And>k r. omap_get (im_attempts m) k = Some r \<Longrightarrow> ar_attempt r = k"
    using wf by (simp_all add: wf_impl_def index_ok_def)
  have all: "filter (\<lambda>a. \<not> retired_attempt options m a) (map snd (im_attempts m)) = map snd (im_attempts m)"
    using none by (auto intro!: filter_True)
  have fsts: "map ar_attempt (map snd (im_attempts m)) = map fst (im_attempts m)"
    using keys omap_get_in [OF ok] by auto
  have d: "distinct (map ar_attempt (retained_attempts options m))"
  proof -
    have "distinct (map ar_attempt (map snd (im_attempts m)))"
      unfolding fsts using ok by (simp add: strict_sorted_iff)
    then show ?thesis unfolding retained_attempts_def all
      by (metis distinct_map distinct_sort set_sort)
  qed
  show ?thesis
  proof (rule option_eqI)
    fix a
    have "a \<in> set (map snd (im_attempts m)) \<and> ar_attempt a = k \<longleftrightarrow> omap_get (im_attempts m) k = Some a"
      using keys omap_get_in [OF ok] by (auto simp: image_iff) force
    then show "last_with ar_attempt (retained_attempts options m) k = Some a \<longleftrightarrow> omap_get (im_attempts m) k = Some a"
      unfolding last_with_unique [OF d] by (simp add: retained_attempts_def all del: set_map)
  qed
qed

lemma image_lookup:
  assumes wf: "wf_impl m" and sn: "sn_placements sn = latest_records m"
  shows "wf_impl (image_impl sn)" "im_placements (image_impl sn) = map revalidate (latest_records m)"
    and "Impl_Latest (image_impl sn) f = map_option revalidate (Impl_Latest m f)"
    and "Impl_Commit (image_impl sn) a =
      (if a = 0 then None else map_option revalidate (last_with attempt_of (latest_records m) a))"
    and "omap_get (im_attempts (image_impl sn)) k = last_with ar_attempt (sn_attempts sn) k"
proof -
  let ?ps = "map revalidate (latest_records m)"
  let ?b = "fold add_placement ?ps default_Impl"
  have b: "wf_impl ?b" "im_placements ?b = ?ps" "im_attempts ?b = []"
    using fold_add_placement [of ?ps] latest_records_facts [OF wf] by (auto simp: comp_def filter_map)
  then show "wf_impl (image_impl sn)"
    by (simp add: image_impl_def sn fold_put_attempt)
  show "im_placements (image_impl sn) = ?ps"
    by (simp add: image_impl_def sn fold_put_attempt b(2))
  show "Impl_Latest (image_impl sn) f = map_option revalidate (Impl_Latest m f)"
    using latest_records_facts(4) [OF wf, of f]
    by (simp add: image_impl_def sn fold_put_attempt wf_implD(1) [OF b(1)] b(2))
  show "Impl_Commit (image_impl sn) a =
      (if a = 0 then None else map_option revalidate (last_with attempt_of (latest_records m) a))"
    by (simp add: image_impl_def sn fold_put_attempt wf_implD(2) [OF b(1)] b(2))
  show "omap_get (im_attempts (image_impl sn)) k = last_with ar_attempt (sn_attempts sn) k"
    using b(3) by (simp add: image_impl_def sn fold_put_attempt omap_get_puts split: option.split)
qed

lemma recovered_image:
  assumes wf: "wf_impl m" and sn: "sn_next_id sn = im_next_placement_id m" "sn_placements sn = latest_records m"
    and att: "\<And>k. last_with ar_attempt (sn_attempts sn) k = omap_get (im_attempts m) k"
  shows "recovered ((image_impl sn)\<lparr>im_max_sequence := s\<rparr>) (m\<lparr>im_max_sequence := s\<rparr>)"
proof -
  note look = image_lookup [OF wf sn(2)]
  have same: "last_with attempt_of (latest_records m) a = Some q \<Longrightarrow> a \<noteq> 0 \<Longrightarrow> Impl_Commit m a = Some q" for a q
  proof -
    assume q: "last_with attempt_of (latest_records m) a = Some q" and "a \<noteq> 0"
    let ?f = "filter (\<lambda>p. attempt_of p \<noteq> 0) (im_placements m)"
    have qin: "q \<in> set (im_placements m)" "attempt_of q = a"
      using last_with_SomeD [OF q] latest_records_facts(5) [OF wf] by auto
    then obtain r where r: "last_with attempt_of (im_placements m) a = Some r"
      by (metis image_eqI last_with_None not_None_eq)
    have "inj_on attempt_of (set ?f)" using wf by (simp add: wf_impl_def distinct_map)
    moreover have "q \<in> set ?f" "r \<in> set ?f" using qin last_with_SomeD [OF r] \<open>a \<noteq> 0\<close> by auto
    ultimately have "r = q" using qin last_with_SomeD [OF r] by (auto dest: inj_onD)
    then show "Impl_Commit m a = Some q" using r \<open>a \<noteq> 0\<close> by (simp add: wf_implD(2) [OF wf])
  qed
  have "\<forall>a p. Impl_Commit (image_impl sn) a = Some p \<longrightarrow> (\<exists>q. Impl_Commit m a = Some q \<and> p = revalidate q)"
    using same by (auto simp: look(4) split: if_splits)
  moreover have "Impl_Commit (image_impl sn) (attempt_of p) \<noteq> None"
    if p: "Impl_Latest m f = Some p" "attempt_of p \<noteq> 0" for f p
  proof -
    have "Impl_Latest (image_impl sn) f = Some (revalidate p)" using look(3) p by simp
    from latest_committed [OF look(1) this] p(2) show ?thesis by simp
  qed
  moreover have "omap_get (im_attempts (image_impl sn)) k = omap_get (im_attempts m) k" for k
    by (simp add: look(5) att)
  moreover have "\<forall>p \<in> set (im_placements (image_impl sn)). revalidate p = p"
    by (auto simp: look(2))
  moreover have "im_next_placement_id (image_impl sn) = im_next_placement_id m"
    by (simp add: image_impl_def sn)
  ultimately show "recovered ((image_impl sn)\<lparr>im_max_sequence := s\<rparr>) (m\<lparr>im_max_sequence := s\<rparr>)"
    using look(3) unfolding recovered_def by simp blast
qed

end
