(* ===== verification/Flow_Durability.thy ===== *)
theory Flow_Durability
  imports Flow_Ledger
begin

text \<open>
  Durability: the files of a running store always replay to its index. The invariant is kept by every
  append, by compaction, and by reopening after a clean stop or a torn write.
\<close>

section \<open>The invariant\<close>

text \<open>Options under which the store is run: writable, repairing, 32-bit record bound.\<close>

definition options_ok :: "StoreOptions \<Rightarrow> bool" where
  "options_ok o' \<longleftrightarrow> \<not> so_read_only o' \<and> so_repair_torn_tail o' \<and> unat (so_max_record_bytes o') < 2 ^ 32 \<and>
     0 < so_max_total_records o' \<and> unat (so_max_journal_records o') < 2 ^ 63"

definition snapshot_holds :: "StoreOptions \<Rightarrow> byte list option \<Rightarrow> Impl \<Rightarrow> bool" where
  "snapshot_holds options snap base \<longleftrightarrow>
     snap = None \<and> base = default_Impl \<or>
     (\<exists>sn. snap = Some (snapshot_container (image_payload sn)) \<and> image_fits options sn \<and> base = image_impl sn)"

text \<open>The log \<open>es\<close> over the snapshot state \<open>base\<close> replays to \<open>i\<close>, which recovers the index in memory.\<close>

definition logged :: "PlacementStore \<Rightarrow> (u64 \<times> Entry) list \<Rightarrow> Impl \<Rightarrow> Impl \<Rightarrow> bool" where
  "logged st es base i \<longleftrightarrow>
     dk_journal (ps_disk st) = Some (journal_of es) \<and> (\<forall>e \<in> set es. entry_fits (record_limit st) e) \<and>
     snapshot_holds (ps_options st) (dk_snapshot (ps_disk st)) base \<and>
     replay (im_max_sequence base) es base = Some i \<and>
     wf_impl i \<and> \<not> im_closed i \<and> \<not> im_compaction_in_progress i \<and> recovered i (ps_impl st)"

text \<open>
  The counters: the sequence is the number of records in the journal, which exceeds the compaction
  threshold by at most \<open>k\<close>; no attempt is old enough to be retired.
\<close>

definition counted :: "nat \<Rightarrow> PlacementStore \<Rightarrow> (u64 \<times> Entry) list \<Rightarrow> bool" where
  "counted k st es \<longleftrightarrow>
     length es = unat (im_max_sequence (ps_impl st)) \<and>
     unat (ss_journal_records (ps_stats st)) \<le> length es \<and>
     length es \<le> Suc (unat (ss_journal_records (ps_stats st))) \<and>
     (so_max_journal_records (ps_options st) \<noteq> 0 \<longrightarrow> length es \<le> unat (so_max_journal_records (ps_options st)) + k)"

definition young :: "PlacementStore \<Rightarrow> bool" where
  "young st \<longleftrightarrow> (\<forall>a r. omap_get (im_attempts (ps_impl st)) a = Some r \<longrightarrow>
     ar_sequence r \<noteq> 0 \<and> (so_max_journal_records (ps_options st) \<noteq> 0 \<longrightarrow>
       unat (ar_sequence r) \<le> Suc (unat (so_max_journal_records (ps_options st)))))"

definition store_inv :: "nat \<Rightarrow> PlacementStore \<Rightarrow> bool" where
  "store_inv k st \<longleftrightarrow> options_ok (ps_options st) \<and> wf_impl (ps_impl st) \<and>
     \<not> im_compaction_in_progress (ps_impl st) \<and> young st \<and>
     (\<exists>es base i. logged st es base i \<and> counted k st es)"

definition snapshot_fits :: "PlacementStore \<Rightarrow> bool" where
  "snapshot_fits st \<longleftrightarrow>
     32 + 241 * length (im_latest_by_flow (ps_impl st)) + 67 * length (im_attempts (ps_impl st))
       \<le> unat (so_max_record_bytes (ps_options st)) \<and>
     length (im_latest_by_flow (ps_impl st)) \<le> unat (so_max_total_records (ps_options st)) \<and>
     length (im_attempts (ps_impl st)) \<le> unat (so_max_total_records (ps_options st))"

section \<open>Appends\<close>

definition healthy :: "AppendIo \<Rightarrow> bool" where
  "healthy io \<longleftrightarrow> ai_write_ok io \<and> ai_sync io = SyncDone"

definition healthy_compaction :: "CompactIo \<Rightarrow> bool" where
  "healthy_compaction io \<longleftrightarrow> ci_create_snapshot io \<and> ci_write_snapshot io \<and> ci_sync_snapshot io = SyncDone \<and>
     ci_replace_snapshot io \<and> ci_create_journal io \<and> ci_sync_journal io = SyncDone \<and>
     ci_replace_journal io \<and> ci_reopen io \<and> healthy (ci_marker io)"

lemma SyncFile_ok [simp]: "Status_ok (SyncFile answer) \<longleftrightarrow> answer = SyncDone" "SyncFile SyncDone = Status_Ok"
  by (cases answer) (simp_all add: SyncFile_def)

lemma AppendRecordRaw_cases:
  assumes "healthy io" "AppendRecordRaw io t p st = (st', s)"
  obtains (refused) "st' = st" "\<not> Status_ok s"
  | (written) b where "s = Status_Ok" "st' = appended b (im_max_sequence (ps_impl st) + 1)
        (record_bytes t (im_max_sequence (ps_impl st) + 1) p) st"
      "\<not> im_closed (ps_impl st)" "ps_file st" "length p \<le> unat (so_max_record_bytes (ps_options st))"
      "im_max_sequence (ps_impl st) < so_max_total_records (ps_options st)"
  using assms by (auto simp: AppendRecordRaw_def healthy_def IoError_def Let_def not_less split: if_splits)

lemma appended_fields [simp]:
  "ps_path (appended b s bs st) = ps_path st" "ps_options (appended b s bs st) = ps_options st"
  "ps_recovery (appended b s bs st) = ps_recovery st" "ps_file (appended b s bs st) = ps_file st"
  "ps_impl (appended b s bs st) = (ps_impl st)\<lparr>im_max_sequence := s\<rparr>"
  "ss_journal_records (ps_stats (appended b s bs st)) = ss_journal_records (ps_stats st) + 1"
  "dk_snapshot (ps_disk (appended b s bs st)) = dk_snapshot (ps_disk st)"
  "dk_journal (ps_disk st) = Some js \<Longrightarrow> dk_journal (ps_disk (appended b s bs st)) = Some (js @ bs)"
  by (simp_all add: appended_def write_journal_def set_impl_def)

lemma unat_Suc_below: "s < (t :: u64) \<Longrightarrow> unat (s + 1) = Suc (unat s)"
proof -
  assume "s < t"
  then have "unat s < unat t" by (simp add: word_less_nat_alt)
  then have "unat s + 1 < 2 ^ 64" using unsigned_less [where 'a = nat, of t] by simp
  then show ?thesis by (simp add: unat_word_ariths)
qed

text \<open>
  The core of every append: the entry that was written replays to the index that was updated.
\<close>

lemma logged_append:
  assumes log: "logged st es base i" and cnt: "counted 0 st es" and opt: "options_ok (ps_options st)"
    and len: "length (entry_payload x) \<le> unat (so_max_record_bytes (ps_options st))"
    and room: "im_max_sequence (ps_impl st) < so_max_total_records (ps_options st)"
    and s: "s = im_max_sequence (ps_impl st) + 1"
    and app: "apply_entry (im_max_sequence base) (s, x) i = Some j"
    and j: "wf_impl j" "\<not> im_closed j" "\<not> im_compaction_in_progress j" "recovered j m"
    and m: "im_max_sequence m = s"
    and st': "st' = set_impl (\<lambda>_. m) (appended b s (record_bytes (entry_type x) s (entry_payload x)) st)"
  shows "logged st' (es @ [(s, x)]) base j \<and> counted 1 st' (es @ [(s, x)])"
proof
  have lim: "record_limit st' = record_limit st" by (simp add: st' record_limit_def set_impl_def)
  have "unat (record_limit st) = unat (so_max_record_bytes (ps_options st))"
    using opt by (simp add: record_limit_def options_ok_def unsigned_ucast_eq take_bit_nat_eq_self)
  then have "entry_fits (record_limit st) (s, x)" using len by (simp add: entry_fits_def)
  then show "logged st' (es @ [(s, x)]) base j"
    using log app j unfolding logged_def lim
    by (simp add: st' set_impl_def replay_append entry_bytes_def)
  have "unat s = Suc (unat (im_max_sequence (ps_impl st)))" using room by (simp add: s unat_Suc_below)
  moreover have "ss_journal_records (ps_stats st) \<le> im_max_sequence (ps_impl st)"
    using cnt by (simp add: counted_def word_le_nat_alt)
  then have "unat (ss_journal_records (ps_stats st) + 1) = Suc (unat (ss_journal_records (ps_stats st)))"
    using room by (intro unat_Suc_below) (rule le_less_trans)
  ultimately show "counted 1 st' (es @ [(s, x)])"
    using cnt m by (auto simp: counted_def st' set_impl_def)
qed

section \<open>Compaction\<close>

definition image_of :: "PlacementStore \<Rightarrow> Image" where
  "image_of st = \<lparr>sn_next_id = im_next_placement_id (ps_impl st), sn_covered = im_max_sequence (ps_impl st),
     sn_retired = rp_retired_attempts (ps_recovery st) + word_of_nat (length (filter
       (retired_attempt (ps_options st) (ps_impl st)) (map snd (im_attempts (ps_impl st))))),
     sn_placements = latest_records (ps_impl st), sn_attempts = retained_attempts (ps_options st) (ps_impl st)\<rparr>"

lemma snapshot_payload_image: "snapshot_payload st = image_payload (image_of st)"
  by (simp add: snapshot_payload_def image_payload_def image_of_def Let_def)

lemma image_of_fits:
  assumes "snapshot_fits st" "options_ok (ps_options st)"
  shows "image_fits (ps_options st) (image_of st)"
proof -
  have "length (latest_records (ps_impl st)) = length (im_latest_by_flow (ps_impl st))"
    "length (retained_attempts (ps_options st) (ps_impl st)) \<le> length (im_attempts (ps_impl st))"
    by (simp_all add: latest_records_def retained_attempts_def)
  then show ?thesis
    using assms by (simp add: snapshot_fits_def options_ok_def image_fits_def length_image_payload image_of_def)
qed

text \<open>Attempts never age out of the window: the sequence restarts at every compaction.\<close>

lemma never_retired:
  assumes "young st" "counted 1 st es" "options_ok (ps_options st)"
    and "omap_get (im_attempts (ps_impl st)) k = Some a"
  shows "\<not> retired_attempt (ps_options st) (ps_impl st) a"
proof (cases "so_max_journal_records (ps_options st) = 0")
  case False
  let ?J = "so_max_journal_records (ps_options st)"
  have a: "ar_sequence a \<noteq> 0" "unat (ar_sequence a) \<le> Suc (unat ?J)"
    using assms(1,4) False by (auto simp: young_def)
  have "unat (im_max_sequence (ps_impl st)) \<le> Suc (unat ?J)" using assms(2) False by (simp add: counted_def)
  moreover have "unat (ar_sequence a + ?J) = unat (ar_sequence a) + unat ?J"
    using a(2) assms(3) by (simp add: unat_word_ariths options_ok_def)
  moreover have "0 < unat (ar_sequence a)" using a(1) by (simp add: unat_gt_0)
  ultimately show ?thesis using False by (simp add: retired_attempt_def word_less_nat_alt)
qed (simp add: retired_attempt_def)

lemma Compact_healthy:
  assumes "healthy_compaction cio" "options_ok (ps_options st)" "8 \<le> unat (so_max_record_bytes (ps_options st))"
    and "\<not> im_closed (ps_impl st)" "\<not> im_compaction_in_progress (ps_impl st)"
    and "Compact cio st = (st', r)"
  shows "r = Status_Ok" "ps_options st' = ps_options st" "ps_path st' = ps_path st" "ps_file st'"
    and "ps_impl st' = (ps_impl st)\<lparr>im_max_sequence := 1\<rparr>" "ss_journal_records (ps_stats st') = 0"
    and "dk_snapshot (ps_disk st') = Some (snapshot_container (snapshot_payload st))"
    and "dk_journal (ps_disk st') = Some (journal_of [(1, ResetEntry (im_max_sequence (ps_impl st)))])"
proof -
  have same: "snapshot_payload (set_impl (\<lambda>impl. impl\<lparr>im_compaction_in_progress := b\<rparr>) st) = snapshot_payload st" for b
  proof -
    have "retired_attempt o' (impl\<lparr>im_compaction_in_progress := b\<rparr>) = retired_attempt o' impl" for o' impl
      by (simp add: fun_eq_iff retired_attempt_def)
    then show ?thesis
      by (simp add: snapshot_payload_def set_impl_def latest_records_def retained_attempts_def Let_def)
  qed
  have idle: "(ps_impl st)\<lparr>im_compaction_in_progress := False\<rparr> = ps_impl st" using assms(5) by simp
  have "0 < unat (so_max_total_records (ps_options st))" using assms(2) by (simp add: options_ok_def word_less_nat_alt)
  then have pos: "\<not> so_max_total_records (ps_options st) \<le> 0" by (simp add: word_le_nat_alt)
  note defs = Compact_def Compact_snapshot_def Compact_journal_def Compact_marker_def ReplaceFileAtomically_def
    AppendRecordRaw_def healthy_compaction_def healthy_def set_impl_def appended_def write_journal_def
  show "r = Status_Ok" "ps_options st' = ps_options st" "ps_path st' = ps_path st" "ps_file st'"
    "ss_journal_records (ps_stats st') = 0"
    "ps_impl st' = (ps_impl st)\<lparr>im_max_sequence := 1\<rparr>"
    using assms pos idle by (auto simp: defs options_ok_def Let_def split: if_splits)
  show "dk_snapshot (ps_disk st') = Some (snapshot_container (snapshot_payload st))"
    using assms pos same by (auto simp: defs options_ok_def Let_def split: if_splits)
  show "dk_journal (ps_disk st') = Some (journal_of [(1, ResetEntry (im_max_sequence (ps_impl st)))])"
    using assms pos by (auto simp: defs options_ok_def Let_def entry_bytes_def split: if_splits)
qed

lemma image_impl_flags:
  "\<not> im_closed (image_impl sn)" "\<not> im_compaction_in_progress (image_impl sn)"
  "im_max_sequence (image_impl sn) = sn_covered sn"
proof -
  have a: "im_closed (fold put_attempt as b) = im_closed b \<and>
      im_compaction_in_progress (fold put_attempt as b) = im_compaction_in_progress b" for as b
    by (induction as arbitrary: b) simp_all
  have p: "im_closed (fold add_placement ps b) = im_closed b \<and>
      im_compaction_in_progress (fold add_placement ps b) = im_compaction_in_progress b" for ps b
    by (induction ps arbitrary: b) simp_all
  show "\<not> im_closed (image_impl sn)" "\<not> im_compaction_in_progress (image_impl sn)"
    "im_max_sequence (image_impl sn) = sn_covered sn"
    by (simp_all add: image_impl_def a p) (simp_all add: default_Impl_def)
qed

lemma Compact_logged:
  assumes inv: "store_inv 1 st" and open': "\<not> im_closed (ps_impl st)" and io: "healthy_compaction cio"
    and c: "Compact cio st = (st', r)" and fits: "snapshot_fits st"
    and e: "e = (1, ResetEntry (im_max_sequence (ps_impl st)))" and i: "i = image_impl (image_of st)"
  shows "logged st' [e] i (i\<lparr>im_max_sequence := 1\<rparr>) \<and> counted 0 st' [e] \<and> store_inv 0 st' \<and>
    (\<forall>k. omap_get (im_attempts i) k = omap_get (im_attempts (ps_impl st)) k)"
proof -
  obtain es where cnt: "counted 1 st es"
    using inv by (auto simp: store_inv_def)
  have opt: "options_ok (ps_options st)" and wf: "wf_impl (ps_impl st)" and y: "young st"
    and idle: "\<not> im_compaction_in_progress (ps_impl st)"
    using inv by (simp_all add: store_inv_def)
  have "8 \<le> unat (so_max_record_bytes (ps_options st))" using fits by (simp add: snapshot_fits_def)
  note c' = Compact_healthy [OF io opt this open' idle c]
  let ?m = "ps_impl st"
  have "\<forall>a \<in> snd ` set (im_attempts ?m). \<not> retired_attempt (ps_options st) ?m a"
    using never_retired [OF y cnt opt] wf omap_get_in [of "im_attempts ?m"]
    by (auto simp: wf_impl_def index_ok_def)
  then have att: "last_with ar_attempt (sn_attempts (image_of st)) k = omap_get (im_attempts ?m) k" for k
    using retained_lookup [OF wf] by (simp add: image_of_def)
  then have rec: "recovered (i\<lparr>im_max_sequence := 1\<rparr>) (?m\<lparr>im_max_sequence := 1\<rparr>)"
    using recovered_image [OF wf, of "image_of st"] by (simp add: i image_of_def)
  have look: "wf_impl i" "\<forall>k. omap_get (im_attempts i) k = omap_get (im_attempts ?m) k"
    using image_lookup(1,5) [OF wf, of "image_of st"] att by (simp_all add: i image_of_def)
  have flags: "\<not> im_closed i" "\<not> im_compaction_in_progress i" "im_max_sequence i = im_max_sequence ?m"
    by (simp_all add: i image_impl_flags image_of_def)
  have "unat (record_limit st') = unat (so_max_record_bytes (ps_options st))"
    using opt by (simp add: c' record_limit_def options_ok_def unsigned_ucast_eq take_bit_nat_eq_self)
  then have "entry_fits (record_limit st') e"
    using fits by (simp add: e entry_fits_def snapshot_fits_def)
  moreover have "snapshot_holds (ps_options st') (dk_snapshot (ps_disk st')) i"
    using image_of_fits [OF fits opt] by (auto simp: i snapshot_holds_def c' snapshot_payload_image)
  ultimately have "logged st' [e] i (i\<lparr>im_max_sequence := 1\<rparr>)"
    using rec look flags by (simp add: e logged_def c')
  moreover have "counted 0 st' [e]"
    by (simp add: counted_def c' Suc_le_eq unat_gt_0)
  moreover have "young st'" using y by (simp add: young_def c')
  ultimately show ?thesis using opt wf idle look(2) by (auto simp: store_inv_def c')
qed

lemmas Compact_inv = Compact_logged [OF _ _ _ _ _ refl refl, THEN conjunct2, THEN conjunct2, THEN conjunct1]

lemma store_inv_mono: "store_inv 0 st \<Longrightarrow> store_inv 1 st"
  by (fastforce simp: store_inv_def counted_def)

lemma Compact_sizes:
  assumes "healthy_compaction cio" "store_inv k st" "Compact cio st = (st', r)"
    and "8 \<le> unat (so_max_record_bytes (ps_options st))"
  shows "snapshot_fits st' \<longleftrightarrow> snapshot_fits st"
proof (cases "im_closed (ps_impl st)")
  case True
  then show ?thesis using assms(3) by (auto simp: Compact_def)
next
  case False
  have "options_ok (ps_options st)" "\<not> im_compaction_in_progress (ps_impl st)"
    using assms(2) by (simp_all add: store_inv_def)
  from Compact_healthy [OF assms(1) this(1) assms(4) False this(2) assms(3)]
  show ?thesis by (simp add: snapshot_fits_def)
qed

text \<open>After an append: compaction when the journal is long enough, else nothing.\<close>

lemma MaybeCompact_inv:
  assumes inv: "store_inv 1 st" and open': "\<not> im_closed (ps_impl st)" and io: "healthy_compaction cio"
    and c: "MaybeCompact cio st = (st', r)"
    and fits: "so_max_journal_records (ps_options st) = 0 \<or> snapshot_fits st"
  shows "store_inv 0 st'"
proof -
  have rw: "\<not> so_read_only (ps_options st)" "\<not> im_compaction_in_progress (ps_impl st)"
    using inv by (simp_all add: store_inv_def options_ok_def)
  show ?thesis
  proof (cases "so_max_journal_records (ps_options st) = 0 \<or>
      ss_journal_records (ps_stats st) < so_max_journal_records (ps_options st)")
    case True
    then have "st' = st" using c rw open' by (auto simp: MaybeCompact_def split: if_splits)
    moreover have "counted 0 st es" if "counted 1 st es" for es
      using that True by (auto simp: counted_def word_less_nat_alt)
    ultimately show ?thesis using inv by (auto simp: store_inv_def)
  next
    case False
    then have "Compact cio st = (st', r)" "snapshot_fits st"
      using c rw open' fits by (auto simp: MaybeCompact_def)
    then show ?thesis using Compact_inv [OF inv open' io] by blast
  qed
qed

section \<open>The operations keep the invariant\<close>

lemma append_attempt_inv:
  assumes inv: "store_inv 0 st" and io: "healthy io" "healthy_compaction cio"
    and live: "\<not> has_terminal st (ar_attempt a)" and s: "ar_sequence a = im_max_sequence (ps_impl st) + 1"
    and r: "append_attempt io cio a st = (st', r)"
    and fits: "so_max_journal_records (ps_options st) = 0 \<or>
      snapshot_fits (set_impl (\<lambda>_. put_attempt a (ps_impl st)) st)"
  shows "store_inv 0 st'"
proof -
  obtain st1 q where q: "AppendRecordRaw io kRecordTypeAttempt (EncodeAttemptRecord a) st = (st1, q)" by fastforce
  show ?thesis
    using io(1) q
  proof (cases rule: AppendRecordRaw_cases)
    case refused
    then show ?thesis using r q inv by (simp add: append_attempt_def)
  next
    case (written b)
    let ?s = "im_max_sequence (ps_impl st) + 1"
    let ?m = "(put_attempt a (ps_impl st))\<lparr>im_max_sequence := ?s\<rparr>"
    let ?st2 = "set_impl (\<lambda>_. ?m) (appended b ?s (record_bytes kRecordTypeAttempt ?s (EncodeAttemptRecord a)) st)"
    obtain es base i where log: "logged st es base i" and cnt: "counted 0 st es"
      using inv by (auto simp: store_inv_def)
    have opt: "options_ok (ps_options st)" and wf: "wf_impl (ps_impl st)" and y: "young st"
      and idle: "\<not> im_compaction_in_progress (ps_impl st)"
      using inv by (simp_all add: store_inv_def)
    have rec: "recovered i (ps_impl st)" "im_max_sequence i = im_max_sequence (ps_impl st)"
      and i: "wf_impl i" "\<not> im_closed i" "\<not> im_compaction_in_progress i"
      using log recoveredD(2) by (auto simp: logged_def)
    have phase: "ar_phase b = AttemptPhase.kStarted"
      if "omap_get (im_attempts (ps_impl st)) (ar_attempt a) = Some b" for b
      using live that by (simp add: has_terminal_def)
    have lt: "\<not> ?s \<le> im_max_sequence (ps_impl st)"
      using unat_Suc_below [OF written(6)] by (simp add: word_le_nat_alt)
    have app: "apply_entry (im_max_sequence base) (?s, AttemptEntry a) i = Some ((put_attempt a i)\<lparr>im_max_sequence := ?s\<rparr>)"
      using recovered_attempt(1) [OF rec(1) phase] rec(2) lt by simp
    have "logged ?st2 (es @ [(?s, AttemptEntry a)]) base ((put_attempt a i)\<lparr>im_max_sequence := ?s\<rparr>) \<and>
        counted 1 ?st2 (es @ [(?s, AttemptEntry a)])"
      by (rule logged_append [OF log cnt opt _ written(6) refl app])
        (use written(5) i recovered_attempt(2) [OF rec(1) phase] in simp_all)
    moreover have "young ?st2"
    proof -
      have "so_max_journal_records (ps_options st) \<noteq> 0 \<longrightarrow>
          unat ?s \<le> Suc (unat (so_max_journal_records (ps_options st)))"
        using cnt unat_Suc_below [OF written(6)] by (auto simp: counted_def)
      moreover have "?s \<noteq> 0" using lt by auto
      ultimately show ?thesis using y s by (auto simp: young_def set_impl_def)
    qed
    ultimately have "store_inv 1 ?st2"
      using opt wf idle by (auto simp: store_inv_def set_impl_def)
    moreover have "set_impl (put_attempt a) st1 = ?st2"
      by (simp add: written(2) set_impl_def put_attempt_def)
    then have "MaybeCompact cio ?st2 = (st', r)" using r q written(1) by (simp add: append_attempt_def)
    ultimately show ?thesis
      using MaybeCompact_inv [of ?st2 cio st' r] io(2) written(3) fits
      by (simp add: set_impl_def snapshot_fits_def)
  qed
qed

lemma verify_record_always: "verify_record p"
  using DecodePlacementRecord_encode [of p "[]"] by (simp add: verify_record_def PlacementIntent_eq_def)

lemma new_record_facts:
  assumes "new_record intent delta digest who epoch now impl = Inr p"
  shows "pr_intent p = intent" "pr_id p = im_next_placement_id impl"
    "pr_sequence p = im_max_sequence impl + 1"
    and "Impl_Latest impl (flow_of p) = Some q \<Longrightarrow> succeeds q p"
proof -
  show *: "pr_intent p = intent" "pr_id p = im_next_placement_id impl" "pr_sequence p = im_max_sequence impl + 1"
    using assms by (auto simp: new_record_def guardR_def Let_def split: option.splits if_splits)
  assume q: "Impl_Latest impl (flow_of p) = Some q"
  then have "pr_generation q \<noteq> - 1" "pr_generation p = pr_generation q + 1"
    "pr_supersedes_generation p = pr_generation q"
    using assms * by (cases p; auto simp: new_record_def guardR_def Let_def split: if_splits)+
  moreover from this have "unat (pr_generation q + 1) = Suc (unat (pr_generation q))"
    by (intro unat_Suc_below [of _ "- 1"]) (simp add: word_order.not_eq_extremum)
  ultimately show "succeeds q p" by (simp add: succeeds_def)
qed

lemma commit_record_inv:
  assumes inv: "store_inv 0 st" and io: "healthy io" "healthy_compaction cio"
    and p: "new_record intent delta digest who epoch now (ps_impl st) = Inr p"
    and fresh: "in_attempt intent = 0 \<or> Impl_Commit (ps_impl st) (in_attempt intent) = None"
    and r: "commit_record io cio p st = (st', r)"
    and fits: "so_max_journal_records (ps_options st) = 0 \<or>
      snapshot_fits (set_impl (\<lambda>_. add_placement p (ps_impl st)) st)"
  shows "store_inv 0 st'"
proof -
  obtain st1 q where q: "AppendRecordRaw io kRecordTypePlacement (EncodePlacementRecord p) st = (st1, q)" by fastforce
  show ?thesis
    using io(1) q
  proof (cases rule: AppendRecordRaw_cases)
    case refused
    then show ?thesis using r q inv by (simp add: commit_record_def verify_record_always)
  next
    case (written b)
    let ?s = "im_max_sequence (ps_impl st) + 1"
    let ?m = "committed_placement p ?s (ps_impl st)"
    let ?st2 = "set_impl (\<lambda>_. ?m) (appended b ?s (record_bytes kRecordTypePlacement ?s (EncodePlacementRecord p)) st)"
    obtain es base i where log: "logged st es base i" and cnt: "counted 0 st es"
      using inv by (auto simp: store_inv_def)
    have opt: "options_ok (ps_options st)" and wf: "wf_impl (ps_impl st)" and y: "young st"
      and idle: "\<not> im_compaction_in_progress (ps_impl st)"
      using inv by (simp_all add: store_inv_def)
    have rec: "recovered i (ps_impl st)" "im_max_sequence i = im_max_sequence (ps_impl st)"
        "im_next_placement_id i = im_next_placement_id (ps_impl st)"
      and i: "wf_impl i" "\<not> im_closed i" "\<not> im_compaction_in_progress i"
      using log recoveredD(1,2) by (auto simp: logged_def)
    note f = new_record_facts [OF p]
    have lt: "\<not> ?s \<le> im_max_sequence (ps_impl st)"
      using unat_Suc_below [OF written(6)] by (simp add: word_le_nat_alt)
    have app: "apply_entry (im_max_sequence base) (?s, PlacementEntry p) i = Some (committed_placement (revalidate p) ?s i)"
      using lt rec f(2) by (simp add: load_placement_def committed_placement_def)
    have both: "recovered (committed_placement (revalidate p) ?s i) ?m \<and>
        wf_impl (committed_placement (revalidate p) ?s i) \<and> wf_impl ?m"
      by (rule recovered_placement [OF rec(1) i(1) wf]) (use fresh f in auto)
    have "logged ?st2 (es @ [(?s, PlacementEntry p)]) base (committed_placement (revalidate p) ?s i) \<and>
        counted 1 ?st2 (es @ [(?s, PlacementEntry p)])"
      by (rule logged_append [OF log cnt opt _ written(6) refl app])
        (use written(5) i both in \<open>simp_all add: committed_placement_def\<close>)
    moreover have "young ?st2" using y by (simp add: young_def set_impl_def committed_placement_def)
    ultimately have "store_inv 1 ?st2"
      using opt both idle by (auto simp: store_inv_def set_impl_def committed_placement_def)
    moreover have "set_impl (\<lambda>impl. (add_placement p impl)\<lparr>im_next_placement_id := pr_id p + 1\<rparr>) st1 = ?st2"
      by (simp add: written(2) set_impl_def committed_placement_def add_placement_def Let_def)
    then obtain r' where "MaybeCompact cio ?st2 = (st', r')"
      using r q written(1) by (auto simp: commit_record_def verify_record_always split: prod.splits if_splits)
    ultimately show ?thesis
      using MaybeCompact_inv [of ?st2 cio st' r'] io(2) written(3) fits
      by (simp add: set_impl_def snapshot_fits_def committed_placement_def)
  qed
qed

text \<open>Room in the snapshot for one more flow and one more attempt.\<close>

definition snapshot_room :: "PlacementStore \<Rightarrow> bool" where
  "snapshot_room st \<longleftrightarrow>
     340 + 241 * length (im_latest_by_flow (ps_impl st)) + 67 * length (im_attempts (ps_impl st))
       \<le> unat (so_max_record_bytes (ps_options st)) \<and>
     length (im_latest_by_flow (ps_impl st)) < unat (so_max_total_records (ps_options st)) \<and>
     length (im_attempts (ps_impl st)) < unat (so_max_total_records (ps_options st))"

lemma length_omap_put: "length (omap_put k v m) \<le> Suc (length m)"
  by (induction k v m rule: omap_put.induct) auto

lemma snapshot_room:
  assumes "snapshot_room st"
  shows "snapshot_fits st" "snapshot_fits (set_impl (\<lambda>_. put_attempt a (ps_impl st)) st)"
    "snapshot_fits (set_impl (\<lambda>_. add_placement p (ps_impl st)) st)"
  using assms length_omap_put [of "ar_attempt a" a "im_attempts (ps_impl st)"]
    length_omap_put [of "flow_of p" "length (im_placements (ps_impl st))" "im_latest_by_flow (ps_impl st)"]
  by (simp_all add: snapshot_room_def snapshot_fits_def set_impl_def put_attempt_def add_placement_def Let_def)

section \<open>Reopening\<close>

text \<open>
  What follows the last whole record: nothing, or bytes that are no record and contain none.
\<close>

definition torn_tail :: "u32 \<Rightarrow> byte list \<Rightarrow> byte list \<Rightarrow> bool" where
  "torn_tail limit journal junk \<longleftrightarrow>
     junk = [] \<or> ReadRecord limit junk = None \<and> \<not> valid_record_after limit (journal @ junk) (length journal)"

lemma LoadSnapshot_holds:
  assumes "snapshot_holds options (dk_snapshot disk) base"
  shows "\<exists>n. LoadSnapshot (fresh_store path options disk) =
     Inr ((fresh_store path options disk)\<lparr>ps_recovery := default_RecoveryReport\<lparr>rp_retired_attempts := n\<rparr>, ps_impl := base\<rparr>)"
proof (cases "dk_snapshot disk")
  case None
  then have "base = default_Impl" using assms by (auto simp: snapshot_holds_def)
  then show ?thesis using None
    by (intro exI [of _ 0]) (simp add: LoadSnapshot_def fresh_store_def default_RecoveryReport_def)
next
  case (Some bs)
  then obtain sn where sn: "bs = snapshot_container (image_payload sn)" "image_fits options sn" "base = image_impl sn"
    using assms by (auto simp: snapshot_holds_def)
  then show ?thesis
    using LoadSnapshot_image [of "fresh_store path options disk" sn] Some by (auto simp: fresh_store_def)
qed

lemma Load_snapshot:
  assumes "snapshot_holds options (dk_snapshot disk) base"
  obtains st0 where "Load io (fresh_store path options disk) = LoadJournal io st0" "ps_impl st0 = base"
    "ps_options st0 = options" "ps_path st0 = path" "ps_disk st0 = disk" "rp_truncated_tail (ps_recovery st0) = False"
    "record_limit st0 = ucast (so_max_record_bytes options)"
proof -
  obtain n where n: "LoadSnapshot (fresh_store path options disk) =
     Inr ((fresh_store path options disk)\<lparr>ps_recovery := default_RecoveryReport\<lparr>rp_retired_attempts := n\<rparr>, ps_impl := base\<rparr>)"
    using LoadSnapshot_holds [OF assms] by blast
  define st0 where "st0 = (let st = (fresh_store path options disk)
      \<lparr>ps_recovery := default_RecoveryReport\<lparr>rp_retired_attempts := n\<rparr>, ps_impl := base\<rparr> in
    if dk_snapshot disk \<noteq> None then st\<lparr>ps_recovery := (ps_recovery st)\<lparr>rp_snapshot_loaded := True\<rparr>\<rparr> else st)"
  have "Load io (fresh_store path options disk) = LoadJournal io st0"
    unfolding Load_def n bindR_def by (simp add: st0_def fresh_store_def Let_def)
  then show thesis
    by (rule that) (simp_all add: st0_def fresh_store_def Let_def default_RecoveryReport_def record_limit_def)
qed

lemma Load_logged:
  assumes snap: "snapshot_holds options (dk_snapshot disk) base"
    and j: "dk_journal disk = Some (journal_of es @ junk)" "\<forall>e \<in> set es. entry_fits (ucast (so_max_record_bytes options)) e"
    and rep: "replay (im_max_sequence base) es base = Some i"
    and junk: "torn_tail (ucast (so_max_record_bytes options)) (journal_of es) junk"
    and opt: "options_ok options" and io: "oi_scan io" "oi_truncate io"
  shows "\<exists>st. Load io (fresh_store path options disk) = Inr st \<and> ps_impl st = i \<and> ps_options st = options \<and>
     ps_path st = path \<and> ps_disk st = disk\<lparr>dk_journal := Some (journal_of es)\<rparr> \<and>
     ss_journal_records (ps_stats st) = word_of_nat (length es) \<and> rp_truncated_tail (ps_recovery st) = (junk \<noteq> [])"
proof -
  obtain st0 where load: "Load io (fresh_store path options disk) = LoadJournal io st0"
    and st0: "ps_impl st0 = base" "ps_options st0 = options" "ps_path st0 = path" "ps_disk st0 = disk"
      "rp_truncated_tail (ps_recovery st0) = False" and lim: "record_limit st0 = ucast (so_max_record_bytes options)"
    using Load_snapshot [OF snap] by metis
  show ?thesis
  proof (cases "junk = []")
    case True
    then obtain m where "LoadJournal_loop io (journal_of es) (im_max_sequence base) 0 0 st0 =
        Inr (word_of_nat (length es), count_valid m (st0\<lparr>ps_impl := i\<rparr>))"
      using loop_whole [of es st0 "im_max_sequence base" i io] j(2) rep lim st0 by auto
    then show ?thesis
      using True j(1) unfolding load
      by (simp add: LoadJournal_def st0 bindR_def) (simp add: count_valid_def st0)
  next
    case False
    then have none: "ReadRecord (record_limit st0) junk = None"
        and after: "\<not> valid_record_after (record_limit st0) (journal_of es @ junk) (length (journal_of es))"
      using junk by (auto simp: torn_tail_def lim)
    obtain m where m: "LoadJournal_loop io (journal_of es @ junk) (im_max_sequence base) 0 0 st0 =
        bindR (HandleDamage io (journal_of es @ junk) (length (journal_of es)) (count_valid m (st0\<lparr>ps_impl := i\<rparr>)))
          (\<lambda>st. Inr (word_of_nat (length es), st))"
      using loop_damaged [of es st0 "im_max_sequence base" i junk io] False none j(2) rep lim st0 by auto
    have "record_limit (count_valid m (st0\<lparr>ps_impl := i\<rparr>)) = record_limit st0" by (simp add: record_limit_def)
    then obtain st1 where "HandleDamage io (journal_of es @ junk) (length (journal_of es)) (count_valid m (st0\<lparr>ps_impl := i\<rparr>)) =
        Inr st1 \<and> ps_impl st1 = i \<and> ps_options st1 = options \<and> ps_path st1 = path \<and>
        ps_disk st1 = disk\<lparr>dk_journal := Some (journal_of es)\<rparr> \<and> rp_truncated_tail (ps_recovery st1)"
      using after opt io st0
      by (simp add: HandleDamage_def append_detail_def options_ok_def Let_def)
    then show ?thesis
      using False j(1) m unfolding load by (simp add: LoadJournal_def st0 bindR_def)
  qed
qed

definition orphaned :: "Impl \<Rightarrow> bool" where
  "orphaned i \<longleftrightarrow> (\<exists>k a. omap_get (im_attempts i) k = Some a \<and> ar_phase a = AttemptPhase.kCommitted \<and> Impl_Commit i k = None)"

lemma orphaned_iff: "wf_impl i \<Longrightarrow> list_ex (orphan_attempt (im_commit_by_attempt i)) (im_attempts i) \<longleftrightarrow> orphaned i"
  by (auto simp: orphaned_def orphan_attempt_def list_ex_iff Impl_Commit_None omap_get_in wf_impl_def index_ok_def
      Bex_def)

definition healthy_open :: "OpenIo \<Rightarrow> bool" where
  "healthy_open io \<longleftrightarrow> oi_scan io \<and> oi_truncate io \<and> oi_append io"

text \<open>Reopening the files, with or without a torn tail: the recovered index, unless an orphan is found.\<close>

lemma Open_logged:
  assumes inv: "store_inv 0 st" and log: "logged st es base i" "counted 0 st es"
    and junk: "torn_tail (record_limit st) (journal_of es) junk" and io: "healthy_open io"
    and disk: "disk = (ps_disk st)\<lparr>dk_journal := Some (journal_of es @ junk)\<rparr>"
  shows "fst (Open io (ps_path st) (ps_options st) disk) = ps_disk st"
    and "orphaned i \<Longrightarrow> snd (Open io (ps_path st) (ps_options st) disk) =
      Inl (mk_Status kStoreCorrupt ''store records an acknowledged attempt with no durable placement'')"
    and "\<not> orphaned i \<Longrightarrow> \<exists>st'. snd (Open io (ps_path st) (ps_options st) disk) = Inr st' \<and> store_inv 0 st' \<and>
      ps_impl st' = resolved i \<and> ps_disk st' = ps_disk st \<and> ps_options st' = ps_options st \<and> ps_path st' = ps_path st \<and>
      ps_file st'"
proof -
  have opt: "options_ok (ps_options st)" and wf: "wf_impl i" and rec: "recovered i (ps_impl st)" and y: "young st"
    and j: "dk_journal (ps_disk st) = Some (journal_of es)"
    and flags: "\<not> im_closed i" "\<not> im_compaction_in_progress i"
    using inv log by (auto simp: store_inv_def logged_def)
  obtain st1 where st1: "Load io (fresh_store (ps_path st) (ps_options st) disk) = Inr st1" "ps_impl st1 = i"
      "ps_options st1 = ps_options st" "ps_path st1 = ps_path st" "ps_disk st1 = disk\<lparr>dk_journal := Some (journal_of es)\<rparr>"
      "ss_journal_records (ps_stats st1) = word_of_nat (length es)"
    using Load_logged [of "ps_options st" disk base es junk i io "ps_path st"] log junk io opt
    by (auto simp: logged_def disk record_limit_def healthy_open_def)
  have d: "ps_disk st1 = ps_disk st" using j by (simp add: st1 disk)
  define st2 where "st2 = st1\<lparr>ps_file := True, ps_disk := ps_disk st\<rparr>"
  have same: "(ps_disk st)\<lparr>dk_journal := Some (journal_of es)\<rparr> = ps_disk st" using j by simp
  have st2: "ps_impl st2 = i" "ps_options st2 = ps_options st" "ps_path st2 = ps_path st" "ps_disk st2 = ps_disk st"
      "ss_journal_records (ps_stats st2) = word_of_nat (length es)"
    using st1(2-4,6) d by (simp_all add: st2_def)
  have open': "Open io (ps_path st) (ps_options st) disk = (ps_disk st, Open_account st2)"
    using st1(1) d j io opt by (simp add: same Open_def healthy_open_def options_ok_def st2_def Let_def)
  show "fst (Open io (ps_path st) (ps_options st) disk) = ps_disk st" by (simp add: open')
  show "orphaned i \<Longrightarrow> snd (Open io (ps_path st) (ps_options st) disk) =
      Inl (mk_Status kStoreCorrupt ''store records an acknowledged attempt with no durable placement'')"
    by (simp add: open' Open_account_def st2 orphaned_iff [OF wf] Let_def)
  assume "\<not> orphaned i"
  then obtain st' where st': "Open_account st2 = Inr st'" "ps_impl st' = resolved i" "ps_disk st' = ps_disk st"
      "ps_options st' = ps_options st" "ps_path st' = ps_path st" "ps_file st'"
      "ss_journal_records (ps_stats st') = word_of_nat (length es)"
    by (simp add: Open_account_def st2 orphaned_iff [OF wf] Let_def resolved_def) (simp add: st2_def)
  have "logged st' es base i"
    using log(1) recovered_resolved [OF rec wf] by (simp add: logged_def st' record_limit_def)
  moreover have "counted 0 st' es"
  proof -
    have "length es = unat (im_max_sequence i)" using log(2) recoveredD(2) [OF rec] by (simp add: counted_def)
    then have "unat (word_of_nat (length es) :: u64) = length es" by simp
    then show ?thesis using log(2) recoveredD(2) [OF rec] by (auto simp: counted_def st' resolved_lookup)
  qed
  moreover have "young st'"
    unfolding young_def st' resolved_lookup
  proof (intro allI impI)
    fix k r assume "map_option (resolve_attempt (im_commit_by_attempt i) k) (omap_get (im_attempts i) k) = Some r"
    then obtain a where a: "omap_get (im_attempts i) k = Some a" "ar_sequence r = ar_sequence a"
      by (auto simp: resolve_attempt_def)
    then obtain b where "omap_get (im_attempts (ps_impl st)) k = Some b" "ar_sequence b = ar_sequence a"
      using recoveredD(4) [OF rec, of k] by (auto simp: resolve_attempt_def split: if_splits)
    then show "ar_sequence r \<noteq> 0 \<and> (so_max_journal_records (ps_options st) \<noteq> 0 \<longrightarrow>
        unat (ar_sequence r) \<le> Suc (unat (so_max_journal_records (ps_options st))))"
      using y a(2) unfolding young_def by metis
  qed
  ultimately have "store_inv 0 st'"
    using opt wf_resolved [OF wf] flags by (auto simp: store_inv_def st' resolved_def)
  then show "\<exists>st'. snd (Open io (ps_path st) (ps_options st) disk) = Inr st' \<and> store_inv 0 st' \<and>
      ps_impl st' = resolved i \<and> ps_disk st' = ps_disk st \<and> ps_options st' = ps_options st \<and> ps_path st' = ps_path st \<and>
      ps_file st'"
    using st' by (auto simp: open')
qed

lemma Open_empty:
  assumes "options_ok options" "healthy_open io"
  shows "\<exists>st. Open io path options \<lparr>dk_snapshot = None, dk_journal = None\<rparr> =
           (\<lparr>dk_snapshot = None, dk_journal = Some []\<rparr>, Inr st) \<and> store_inv 0 st \<and> ps_options st = options \<and>
           ps_path st = path \<and> ps_file st \<and> ps_impl st = default_Impl \<and> ps_disk st = \<lparr>dk_snapshot = None, dk_journal = Some []\<rparr>"
proof -
  let ?d = "\<lparr>dk_snapshot = None, dk_journal = Some []\<rparr>"
  obtain st where st: "Open io path options \<lparr>dk_snapshot = None, dk_journal = None\<rparr> = (?d, Inr st)"
    "ps_impl st = default_Impl" "ps_disk st = ?d" "ps_options st = options" "ps_path st = path" "ps_file st"
    "ss_journal_records (ps_stats st) = 0"
    using assms
    by (simp add: Open_def Load_def LoadSnapshot_def LoadJournal_def fresh_store_def append_detail_def bindR_def
        Open_account_def healthy_open_def options_ok_def default_Impl_def default_StoreStats_def Let_def)
  have "recovered default_Impl default_Impl"
    by (simp add: recovered_def default_Impl_def Impl_Latest_def Impl_Commit_def)
  then have "logged st [] default_Impl default_Impl"
    using wf_impl_default by (simp add: logged_def st snapshot_holds_def) (simp add: default_Impl_def)
  moreover have "counted 0 st []" by (simp add: counted_def st) (simp add: default_Impl_def)
  ultimately have "store_inv 0 st"
    using assms(1) wf_impl_default by (auto simp: store_inv_def st young_def) (simp_all add: default_Impl_def)
  then show ?thesis using st by blast
qed

section \<open>Runs of a store\<close>

text \<open>
  A store that is created, used and reopened. The operating system answers its writes; a crash may tear
  the record being written (any strict prefix of it reaches the file, with no complete record inside).
  The premises \<open>snapshot_room\<close> say that the state still fits a snapshot, for stores that compact.
\<close>

abbreviation may_compact :: "PlacementStore \<Rightarrow> bool" where
  "may_compact st \<equiv> so_max_journal_records (ps_options st) = 0 \<or> snapshot_room st"

inductive running :: "string \<Rightarrow> StoreOptions \<Rightarrow> PlacementStore \<Rightarrow> bool" for path options where
  create: "healthy_open io \<Longrightarrow> Open io path options \<lparr>dk_snapshot = None, dk_journal = None\<rparr> = (d, Inr st) \<Longrightarrow>
    running path options st"
| start: "running path options st \<Longrightarrow> may_compact st \<Longrightarrow> healthy io \<Longrightarrow> healthy_compaction cio \<Longrightarrow>
    running path options (fst (AppendAttemptStart io cio a st))"
| terminal: "running path options st \<Longrightarrow> may_compact st \<Longrightarrow> healthy io \<Longrightarrow> healthy_compaction cio \<Longrightarrow>
    running path options (fst (AppendAttemptTerminal io cio a st))"
| commit: "running path options st \<Longrightarrow> may_compact st \<Longrightarrow> healthy io \<Longrightarrow> healthy_compaction cio \<Longrightarrow>
    running path options (fst (CommitPlacement io cio now intent delta digest who epoch st))"
| compact: "running path options st \<Longrightarrow> snapshot_room st \<Longrightarrow> healthy_compaction cio \<Longrightarrow>
    running path options (fst (Compact cio st))"
| sync: "running path options st \<Longrightarrow> running path options (fst (Sync answer st))"
| close: "running path options st \<Longrightarrow> running path options (fst (Close answer closed st))"
| reopen: "running path options st \<Longrightarrow> healthy_open io \<Longrightarrow> dk_journal (ps_disk st) = Some journal \<Longrightarrow>
    torn_tail (record_limit st) journal torn \<Longrightarrow>
    Open io path options ((ps_disk st)\<lparr>dk_journal := Some (journal @ torn)\<rparr>) = (d, Inr st') \<Longrightarrow>
    running path options st'"

inductive_cases runningE: "running path options st"

definition store_ok :: "string \<Rightarrow> StoreOptions \<Rightarrow> PlacementStore \<Rightarrow> bool" where
  "store_ok path options st \<longleftrightarrow> store_inv 0 st \<and> ps_path st = path \<and> ps_options st = options"

lemma store_inv_stats:
  assumes "store_inv 0 st" "ps_impl st' = (ps_impl st)\<lparr>im_closed := b\<rparr>" "ps_options st' = ps_options st"
    "ps_disk st' = ps_disk st" "ss_journal_records (ps_stats st') = ss_journal_records (ps_stats st)"
  shows "store_inv 0 st'"
proof -
  obtain es base i where "logged st es base i" "counted 0 st es" using assms(1) by (auto simp: store_inv_def)
  moreover have "recovered i' (m\<lparr>im_closed := b\<rparr>) = recovered i' m" for i' m by (simp add: recovered_def)
  ultimately have "logged st' es base i" "counted 0 st' es"
    using assms(2-) by (auto simp: logged_def counted_def record_limit_def)
  then show ?thesis using assms by (auto simp: store_inv_def young_def)
qed

text \<open>The operations leave the path and the options alone.\<close>

lemma same_store:
  "ps_options (fst (AppendRecordRaw io t p st)) = ps_options st" "ps_path (fst (AppendRecordRaw io t p st)) = ps_path st"
  "ps_options (fst (Compact cio st)) = ps_options st" "ps_path (fst (Compact cio st)) = ps_path st"
  "ps_options (fst (MaybeCompact cio st)) = ps_options st" "ps_path (fst (MaybeCompact cio st)) = ps_path st"
proof -
  show raw: "ps_options (fst (AppendRecordRaw io t p st)) = ps_options st" "ps_path (fst (AppendRecordRaw io t p st)) = ps_path st"
    for io t p st by (simp_all add: AppendRecordRaw_def write_journal_def Let_def)
  have m: "ps_options (fst (Compact_marker io c n st)) = ps_options st \<and> ps_path (fst (Compact_marker io c n st)) = ps_path st"
    for io c n st
    using raw [of io kRecordTypeJournalReset "put_le 8 c"]
    by (simp add: Compact_marker_def set_impl_def case_prod_beta Let_def)
  have j: "ps_options (fst (Compact_journal io c n st)) = ps_options st \<and> ps_path (fst (Compact_journal io c n st)) = ps_path st"
    for io c n st using m by (simp add: Compact_journal_def Let_def)
  show comp: "ps_options (fst (Compact cio st)) = ps_options st" "ps_path (fst (Compact cio st)) = ps_path st"
    using j by (simp_all add: Compact_def Compact_snapshot_def set_impl_def case_prod_beta Let_def)
  show "ps_options (fst (MaybeCompact cio st)) = ps_options st" "ps_path (fst (MaybeCompact cio st)) = ps_path st"
    using comp by (simp_all add: MaybeCompact_def)
qed

lemma append_attempt_same:
  "ps_options (fst (append_attempt io cio a st)) = ps_options st \<and> ps_path (fst (append_attempt io cio a st)) = ps_path st"
  using same_store(1,2) [of io kRecordTypeAttempt "EncodeAttemptRecord a" st] same_store(5,6) [of cio]
  by (simp add: append_attempt_def case_prod_beta set_impl_def)

lemma commit_record_same:
  "ps_options (fst (commit_record io cio p st)) = ps_options st \<and> ps_path (fst (commit_record io cio p st)) = ps_path st"
  using same_store(1,2) [of io kRecordTypePlacement "EncodePlacementRecord p" st] same_store(5,6) [of cio]
  by (simp add: commit_record_def case_prod_beta set_impl_def)

lemma AppendAttemptStart_inv:
  assumes "store_ok path options st" "may_compact st" "healthy io" "healthy_compaction cio"
  shows "store_ok path options (fst (AppendAttemptStart io cio a st))"
proof -
  let ?a = "a\<lparr>ar_phase := AttemptPhase.kStarted, ar_sequence := im_max_sequence (ps_impl st) + 1\<rparr>"
  have "store_ok path options (fst (append_attempt io cio ?a st))" if "\<not> has_terminal st (ar_attempt a)"
    using append_attempt_inv [of st io cio ?a "fst (append_attempt io cio ?a st)"] assms that
      append_attempt_same [of io cio ?a st] snapshot_room(2) by (auto simp: store_ok_def prod_eq_iff)
  then show ?thesis using assms(1) by (simp add: AppendAttemptStart_def)
qed

lemma AppendAttemptTerminal_inv:
  assumes "store_ok path options st" "may_compact st" "healthy io" "healthy_compaction cio"
  shows "store_ok path options (fst (AppendAttemptTerminal io cio a st))"
proof -
  let ?a = "a\<lparr>ar_sequence := im_max_sequence (ps_impl st) + 1\<rparr>"
  have "store_ok path options (fst (append_attempt io cio ?a st))" if "\<not> has_terminal st (ar_attempt a)"
    using append_attempt_inv [of st io cio ?a "fst (append_attempt io cio ?a st)"] assms that
      append_attempt_same [of io cio ?a st] snapshot_room(2) by (auto simp: store_ok_def prod_eq_iff)
  then show ?thesis using assms(1) by (simp add: AppendAttemptTerminal_def)
qed

lemma CommitPlacement_inv:
  assumes "store_ok path options st" "may_compact st" "healthy io" "healthy_compaction cio"
  shows "store_ok path options (fst (CommitPlacement io cio now intent delta digest who epoch st))"
proof -
  have "store_ok path options (fst (commit_record io cio p st))"
    if "new_record intent delta digest who epoch now (ps_impl st) = Inr p"
      "in_attempt intent = 0 \<or> Impl_Commit (ps_impl st) (in_attempt intent) = None" for p
    using commit_record_inv [of st io cio intent delta digest who epoch now p "fst (commit_record io cio p st)"]
      assms that commit_record_same [of io cio p st] snapshot_room(3) by (auto simp: store_ok_def prod_eq_iff)
  then show ?thesis
    using assms(1)
    by (auto simp: CommitPlacement_def Let_def Impl_Commit_None split: option.splits sum.splits if_splits)
qed

lemma running_ok: "running path options st \<Longrightarrow> options_ok options \<Longrightarrow> store_ok path options st"
proof (induction rule: running.induct)
  case (create io d st)
  then show ?case using Open_empty [OF create(3,1), of path] by (auto simp: store_ok_def)
next
  case (compact st cio)
  then have st: "store_ok path options st" by simp
  show ?case
  proof (cases "im_closed (ps_impl st)")
    case True
    then show ?thesis using st by (simp add: Compact_def)
  next
    case False
    then have "store_inv 0 (fst (Compact cio st))"
      using Compact_inv [of st cio "fst (Compact cio st)" "snd (Compact cio st)"] st compact(2,3)
        store_inv_mono snapshot_room(1) by (simp add: store_ok_def)
    then show ?thesis using st same_store(3,4) by (simp add: store_ok_def)
  qed
next
  case (sync st answer)
  then show ?case
    using store_inv_stats [of st "fst (Sync answer st)" "im_closed (ps_impl st)"] by (auto simp: store_ok_def Sync_def)
next
  case (close st answer closed)
  then show ?case
    using store_inv_stats [of st "fst (Close answer closed st)" True]
    by (auto simp: store_ok_def Close_def set_impl_def Let_def)
next
  case (reopen st io journal torn d st')
  then have st: "store_inv 0 st" "ps_path st = path" "ps_options st = options" by (auto simp: store_ok_def)
  obtain es base i where log: "logged st es base i" "counted 0 st es" using st(1) by (auto simp: store_inv_def)
  then have j: "journal = journal_of es" using reopen(3) by (simp add: logged_def)
  note o' = Open_logged [OF st(1) log reopen(4) [unfolded j] reopen(2) refl, unfolded st(2,3)]
  show ?case using o' reopen(5) by (cases "orphaned i") (auto simp: store_ok_def j)
qed (simp_all add: AppendAttemptStart_inv AppendAttemptTerminal_inv CommitPlacement_inv)

end
