(* ===== verification/Flow_Index.thy ===== *)
theory Flow_Index
  imports Flow_Durability
begin

text \<open>
  What the operations of the store keep of its index: the placements, the lookups by flow and by attempt.
  Only a commit changes it, and only by adding its record.
\<close>

text \<open>Appending a record and compaction, whatever their outcome, leave the placements and the lookups in memory alone.\<close>

definition same_index :: "Impl \<Rightarrow> Impl \<Rightarrow> bool" where
  "same_index a b \<longleftrightarrow> im_placements a = im_placements b \<and> im_latest_by_flow a = im_latest_by_flow b \<and>
     im_commit_by_attempt a = im_commit_by_attempt b \<and> im_attempts a = im_attempts b \<and>
     im_next_placement_id a = im_next_placement_id b \<and> im_closed a = im_closed b"

lemma same_index_simps [simp]:
  "same_index a a" "same_index (a\<lparr>im_max_sequence := s\<rparr>) b = same_index a b"
  "same_index (a\<lparr>im_compaction_in_progress := c\<rparr>) b = same_index a b"
  "same_index a (b\<lparr>im_max_sequence := s\<rparr>) = same_index a b"
  "same_index a (b\<lparr>im_compaction_in_progress := c\<rparr>) = same_index a b"
  by (simp_all add: same_index_def)

lemma same_index_commit: "same_index a b \<Longrightarrow> Impl_Commit a = Impl_Commit b"
  by (simp add: fun_eq_iff same_index_def Impl_Commit_def)

lemma AppendRecordRaw_index: "same_index (ps_impl (fst (AppendRecordRaw io t p st))) (ps_impl st)"
  by (simp add: AppendRecordRaw_def write_journal_def Let_def)

lemma Compact_index: "same_index (ps_impl (fst (Compact cio st))) (ps_impl st)"
proof -
  have raw: "same_index (ps_impl (fst (AppendRecordRaw io t p st))) j" if "same_index (ps_impl st) j" for io t p st j
    using AppendRecordRaw_index [of io t p st] that by (simp add: same_index_def)
  have m: "same_index (ps_impl (fst (Compact_marker io c n st))) j" if "same_index (ps_impl st) j" for io c n st j
    using that by (simp add: Compact_marker_def set_impl_def case_prod_beta Let_def raw)
  have "same_index (ps_impl (fst (Compact_journal io c n st))) j" if "same_index (ps_impl st) j" for io c n st j
    using that by (simp add: Compact_journal_def Let_def m)
  then show ?thesis
    by (simp add: Compact_def Compact_snapshot_def set_impl_def case_prod_beta Let_def)
qed

lemma MaybeCompact_index: "same_index (ps_impl (fst (MaybeCompact cio st))) (ps_impl st)"
  by (simp add: MaybeCompact_def Compact_index)


text \<open>The part of the index that placements are looked up in.\<close>

definition same_ledger :: "Impl \<Rightarrow> Impl \<Rightarrow> bool" where
  "same_ledger a b \<longleftrightarrow> im_placements a = im_placements b \<and> im_latest_by_flow a = im_latest_by_flow b \<and>
     im_commit_by_attempt a = im_commit_by_attempt b"

lemma same_ledger_refl [simp]: "same_ledger a a"
  by (simp add: same_ledger_def)

lemma same_ledger_trans: "same_ledger a b \<Longrightarrow> same_ledger b c \<Longrightarrow> same_ledger a c"
  by (simp add: same_ledger_def)

lemma same_index_ledger: "same_index a b \<Longrightarrow> same_ledger a b"
  by (simp add: same_ledger_def same_index_def)

lemma same_ledger_lookup: "same_ledger a b \<Longrightarrow> Impl_Latest a f = Impl_Latest b f"
  by (simp add: same_ledger_def Impl_Latest_def)

lemma append_attempt_ledger: "same_ledger (ps_impl (fst (append_attempt io cio a st))) (ps_impl st)"
proof -
  define st1 where "st1 = fst (AppendRecordRaw io kRecordTypeAttempt (EncodeAttemptRecord a) st)"
  have "same_ledger (ps_impl st1) (ps_impl st)"
    by (simp add: st1_def AppendRecordRaw_index same_index_ledger)
  moreover from this have "same_ledger (ps_impl (set_impl (put_attempt a) st1)) (ps_impl st)"
    by (simp add: same_ledger_def set_impl_def)
  moreover have "same_ledger (ps_impl (fst (MaybeCompact cio st2))) (ps_impl st2)" for st2
    by (simp add: MaybeCompact_index same_index_ledger)
  ultimately show ?thesis
    by (auto simp: append_attempt_def case_prod_beta simp flip: st1_def intro: same_ledger_trans)
qed

lemma attempt_records_ledger:
  "same_ledger (ps_impl (fst (AppendAttemptStart io cio a st))) (ps_impl st)"
  "same_ledger (ps_impl (fst (AppendAttemptTerminal io cio a st))) (ps_impl st)"
  by (simp_all add: AppendAttemptStart_def AppendAttemptTerminal_def append_attempt_ledger)

lemma Close_ledger: "same_ledger (ps_impl (fst (Close answer closed st))) (ps_impl st)"
  by (simp add: Close_def Let_def same_ledger_def set_impl_def)

text \<open>A commit leaves the index alone, or adds the record it built.\<close>

lemma commit_record_ledger:
  "same_ledger (ps_impl (fst (commit_record io cio p st))) (ps_impl st) \<or>
   same_ledger (ps_impl (fst (commit_record io cio p st))) (add_placement p (ps_impl st))"
proof -
  define st1 where "st1 = fst (AppendRecordRaw io kRecordTypePlacement (EncodePlacementRecord p) st)"
  let ?f = "\<lambda>impl. (add_placement p impl)\<lparr>im_next_placement_id := pr_id p + 1\<rparr>"
  have s1: "same_ledger (ps_impl st1) (ps_impl st)"
    by (simp add: st1_def AppendRecordRaw_index same_index_ledger)
  then have "same_ledger (ps_impl (set_impl ?f st1)) (add_placement p (ps_impl st))"
    by (simp add: same_ledger_def set_impl_def add_placement_def Let_def)
  with MaybeCompact_index [of cio "set_impl ?f st1"]
  have "same_ledger (ps_impl (fst (MaybeCompact cio (set_impl ?f st1)))) (add_placement p (ps_impl st))"
    using same_index_ledger same_ledger_trans by blast
  with s1 show ?thesis
    by (auto simp: commit_record_def case_prod_beta simp flip: st1_def)
qed

lemma CommitPlacement_ledger:
  "same_ledger (ps_impl (fst (CommitPlacement io cio now i delta d who epoch st))) (ps_impl st) \<or>
   (\<exists>p. new_record i delta d who epoch now (ps_impl st) = Inr p \<and>
     same_ledger (ps_impl (fst (CommitPlacement io cio now i delta d who epoch st))) (add_placement p (ps_impl st)))"
  using commit_record_ledger [of io cio _ st]
  by (auto simp: CommitPlacement_def Let_def split: option.split sum.split)

end
