(* ===== verification/Flow_Persistence.thy ===== *)
theory Flow_Persistence
  imports Flow_Index
begin

text \<open>
  The properties of the durable store: what reopening returns, what it refuses, how generations grow,
  that commits are idempotent, and the compaction that loses an acknowledged attempt.
\<close>

section \<open>Facts for the properties\<close>

lemma running_log:
  assumes "running path options st" "options_ok options"
  obtains es base i where "store_inv 0 st" "ps_path st = path" "ps_options st = options"
    "logged st es base i" "counted 0 st es" "wf_impl (ps_impl st)" "recovered i (ps_impl st)" "wf_impl i"
proof -
  have st: "store_inv 0 st" "ps_path st = path" "ps_options st = options"
    using running_ok [OF assms] by (simp_all add: store_ok_def)
  then obtain es base i where log: "logged st es base i" "counted 0 st es" by (auto simp: store_inv_def)
  show thesis
    by (rule that [OF st log]) (use st(1) log(1) in \<open>simp_all add: store_inv_def logged_def\<close>)
qed



lemma HandleDamage_refused:
  "valid_record_after (record_limit st) journal offset \<Longrightarrow>
    \<exists>s. HandleDamage io journal offset st = Inl s \<and> (oi_scan io \<longrightarrow> st_code s = kStoreCorrupt)"
  by (cases "oi_scan io") (simp_all add: HandleDamage_def Let_def)


section \<open>A sample run\<close>

text \<open>
  A store that never compacts on its own: attempt 1 is started, commits a placement of flow 7 and is
  journalled as committed; then attempt 2 commits another placement of the same flow.
\<close>

definition run_options :: StoreOptions where
  "run_options = default_StoreOptions\<lparr>so_max_journal_records := 0\<rparr>"

definition run_intent :: "AttemptId \<Rightarrow> PlacementIntent" where
  "run_intent attempt =
     (let bare = \<lparr>in_flow = 7, in_flow_generation = 1, in_path = 3, in_path_authority = 1, in_candidate_set = 1,
            in_candidate_set_generation = 1, in_capacity = 1, in_capacity_generation = 1, in_policy = 1,
            in_policy_generation = 1, in_qos = 1, in_qos_generation = 1, in_evidence = 1,
            in_evidence_generation = 1, in_fabric_epoch = 1, in_reservation = ReservationRef_none,
            in_attempt = attempt, in_revalidate_after_nanos = 0, in_digest = Digest_zero\<rparr>
      in bare\<lparr>in_digest := IntentDigest bare\<rparr>)"

definition run_attempt :: "AttemptPhase \<Rightarrow> AttemptRecord" where
  "run_attempt phase = \<lparr>ar_attempt = 1, ar_incarnation = 5, ar_epoch = 1, ar_flow = 7, ar_phase = phase,
     ar_code = kOk, ar_request_digest = Digest_zero, ar_sequence = 0, ar_observed_unix_nanos = 0\<rparr>"

definition run0 :: PlacementStore where
  "run0 = projr (snd (Open OpenIo_ok ''store'' run_options \<lparr>dk_snapshot = None, dk_journal = None\<rparr>))"

definition run1 :: PlacementStore where
  "run1 = fst (AppendAttemptStart AppendIo_ok CompactIo_ok (run_attempt AttemptPhase.kStarted) run0)"

definition run2 :: PlacementStore where
  "run2 = fst (CommitPlacement AppendIo_ok CompactIo_ok 0 (run_intent 1) IncumbentDelta.kNoIncumbent Digest_zero 5 1 run1)"

definition run3 :: PlacementStore where
  "run3 = fst (AppendAttemptTerminal AppendIo_ok CompactIo_ok (run_attempt AttemptPhase.kCommitted) run2)"

definition run4 :: PlacementStore where
  "run4 = fst (CommitPlacement AppendIo_ok CompactIo_ok 0 (run_intent 2) IncumbentDelta.kNoIncumbent Digest_zero 5 1 run3)"

definition run_placement :: "AttemptId \<Rightarrow> u64 \<Rightarrow> u64 \<Rightarrow> u64 \<Rightarrow> PlacementRecord" where
  "run_placement attempt n sequence supersedes = \<lparr>pr_id = n, pr_generation = n, pr_intent = run_intent attempt,
     pr_delta = IncumbentDelta.kNoIncumbent, pr_decision_digest = Digest_zero, pr_committed_by = 5,
     pr_commit_epoch = 1, pr_sequence = sequence, pr_supersedes_generation = supersedes,
     pr_commit_unix_nanos = 0, pr_requires_revalidation = False\<rparr>"

lemma healthy_ok [simp]: "healthy AppendIo_ok" "healthy_compaction CompactIo_ok" "healthy_open OpenIo_ok"
  by (simp_all add: healthy_def healthy_compaction_def healthy_open_def AppendIo_ok_def CompactIo_ok_def OpenIo_ok_def)

lemma run_options_ok: "options_ok run_options"
  by (simp add: options_ok_def run_options_def default_StoreOptions_def)

lemma run_intent_fields [simp]:
  "in_flow (run_intent a) = 7" "in_path (run_intent a) = 3" "in_path_authority (run_intent a) = 1"
  "in_attempt (run_intent a) = a" "in_digest (run_intent a) = IntentDigest (run_intent a)"
  by (simp_all add: run_intent_def Let_def) (simp add: IntentDigest_def)

definition run_ready :: "PlacementStore \<Rightarrow> bool" where
  "run_ready st \<longleftrightarrow> ps_options st = run_options \<and> ps_file st \<and> \<not> im_closed (ps_impl st) \<and>
     unat (im_max_sequence (ps_impl st)) < 100"

lemma run_append:
  assumes "run_ready st" "length p \<le> 241"
  shows "AppendRecordRaw AppendIo_ok t p st =
    (appended True (im_max_sequence (ps_impl st) + 1) (record_bytes t (im_max_sequence (ps_impl st) + 1) p) st, Status_Ok)"
proof -
  have "unat (im_max_sequence (ps_impl st)) < unat (so_max_total_records run_options)"
    using assms(1) by (simp add: run_ready_def run_options_def default_StoreOptions_def)
  then have "\<not> so_max_total_records run_options \<le> im_max_sequence (ps_impl st)" by (simp add: word_le_nat_alt)
  then show ?thesis
    using assms by (simp add: AppendRecordRaw_def run_ready_def AppendIo_ok_def)
      (simp add: run_options_def default_StoreOptions_def Let_def)
qed

lemma run_no_compaction: "ps_options st = run_options \<Longrightarrow> MaybeCompact cio st = (st, Status_Ok)"
  by (simp add: MaybeCompact_def run_options_def)

lemma run_attempt_step:
  assumes "run_ready st"
  shows "ps_impl (fst (append_attempt AppendIo_ok CompactIo_ok a st)) =
      (put_attempt a (ps_impl st))\<lparr>im_max_sequence := im_max_sequence (ps_impl st) + 1\<rparr>"
    and "ps_options (fst (append_attempt AppendIo_ok CompactIo_ok a st)) = run_options"
    and "ps_file (fst (append_attempt AppendIo_ok CompactIo_ok a st))"
  using assms run_append [OF assms, of "EncodeAttemptRecord a" kRecordTypeAttempt]
  by (simp_all add: append_attempt_def run_no_compaction set_impl_def run_ready_def put_attempt_def)

lemma run_commit_step:
  assumes "run_ready st"
  shows "ps_impl (fst (commit_record AppendIo_ok CompactIo_ok p st)) =
      committed_placement p (im_max_sequence (ps_impl st) + 1) (ps_impl st)"
    and "ps_options (fst (commit_record AppendIo_ok CompactIo_ok p st)) = run_options"
    and "ps_file (fst (commit_record AppendIo_ok CompactIo_ok p st))"
    and "snd (commit_record AppendIo_ok CompactIo_ok p st) = Inr p"
  using assms run_append [OF assms, of "EncodePlacementRecord p" kRecordTypePlacement]
  by (simp_all add: commit_record_def verify_record_always run_no_compaction set_impl_def run_ready_def
      committed_placement_def add_placement_def Let_def)

lemma run0_facts: "run_ready run0" "ps_impl run0 = default_Impl" "running ''store'' run_options run0"
proof -
  obtain st where st: "Open OpenIo_ok ''store'' run_options \<lparr>dk_snapshot = None, dk_journal = None\<rparr> =
      (\<lparr>dk_snapshot = None, dk_journal = Some []\<rparr>, Inr st)" "ps_options st = run_options" "ps_file st" "ps_impl st = default_Impl"
    using Open_empty [OF run_options_ok healthy_ok(3), of "''store''"] by blast
  then have "run0 = st" by (simp add: run0_def)
  then show "run_ready run0" "ps_impl run0 = default_Impl" "running ''store'' run_options run0"
    using st running.create [OF healthy_ok(3) st(1)] by (simp_all add: run_ready_def) (simp add: default_Impl_def)
qed

lemmas run_eval = default_Impl_def put_attempt_def committed_placement_def add_placement_def Let_def
  run_attempt_def Impl_Latest_def omap_get_def

lemma run1_facts: "run_ready run1" "running ''store'' run_options run1"
  "ps_impl run1 = (put_attempt ((run_attempt AttemptPhase.kStarted)\<lparr>ar_sequence := 1\<rparr>) default_Impl)\<lparr>im_max_sequence := 1\<rparr>"
proof -
  let ?a = "(run_attempt AttemptPhase.kStarted)\<lparr>ar_sequence := 1\<rparr>"
  have same: "?a\<lparr>ar_phase := AttemptPhase.kStarted\<rparr> = ?a" by (simp add: run_attempt_def)
  have "AppendAttemptStart AppendIo_ok CompactIo_ok (run_attempt AttemptPhase.kStarted) run0 =
      append_attempt AppendIo_ok CompactIo_ok ?a run0"
    by (simp add: AppendAttemptStart_def has_terminal_def run0_facts) (simp add: default_Impl_def run_attempt_def)
  then have r: "run1 = fst (append_attempt AppendIo_ok CompactIo_ok ?a run0)" by (simp add: run1_def)
  then show impl: "ps_impl run1 = (put_attempt ?a default_Impl)\<lparr>im_max_sequence := 1\<rparr>"
    using run_attempt_step(1) [OF run0_facts(1), of ?a] by (simp add: run0_facts) (simp add: default_Impl_def)
  have "ps_options run1 = run_options" "ps_file run1" using run_attempt_step(2,3) [OF run0_facts(1)] by (simp_all add: r)
  then show "run_ready run1"
    using run0_facts(1) by (simp add: run_ready_def impl put_attempt_def committed_placement_def) (simp add: default_Impl_def)
  show "running ''store'' run_options run1"
    unfolding run1_def using run0_facts
    by (intro running.start) (simp_all add: run_ready_def run_options_def)
qed

lemma run2_facts:
  shows "run_ready run2" "running ''store'' run_options run2"
  "ps_impl run2 = committed_placement (run_placement 1 1 2 0) 2 (ps_impl run1)"
  and run2_result: "snd (CommitPlacement AppendIo_ok CompactIo_ok 0 (run_intent 1) IncumbentDelta.kNoIncumbent Digest_zero 5 1 run1) =
    Inr (run_placement 1 1 2 0)"
proof -
  have new: "new_record (run_intent 1) IncumbentDelta.kNoIncumbent Digest_zero 5 1 0 (ps_impl run1) = Inr (run_placement 1 1 2 0)"
    by (simp add: new_record_def run1_facts(3) run_eval run_placement_def)
  have "\<not> so_max_total_records run_options \<le> 1" by (simp add: run_options_def default_StoreOptions_def word_le_nat_alt)
  then have "CommitPlacement AppendIo_ok CompactIo_ok 0 (run_intent 1) IncumbentDelta.kNoIncumbent Digest_zero 5 1 run1 =
      commit_record AppendIo_ok CompactIo_ok (run_placement 1 1 2 0) run1"
    using new run1_facts(1)
    by (simp add: CommitPlacement_def run_ready_def Let_def) (simp add: run1_facts(3) run_eval)
  then have r: "run2 = fst (commit_record AppendIo_ok CompactIo_ok (run_placement 1 1 2 0) run1)"
    and "snd (CommitPlacement AppendIo_ok CompactIo_ok 0 (run_intent 1) IncumbentDelta.kNoIncumbent Digest_zero 5 1 run1) =
      Inr (run_placement 1 1 2 0)"
    using run_commit_step(4) [OF run1_facts(1)] by (simp_all add: run2_def)
  then show "snd (CommitPlacement AppendIo_ok CompactIo_ok 0 (run_intent 1) IncumbentDelta.kNoIncumbent Digest_zero 5 1 run1) =
      Inr (run_placement 1 1 2 0)" by simp
  from r show impl: "ps_impl run2 = committed_placement (run_placement 1 1 2 0) 2 (ps_impl run1)"
    using run_commit_step(1) [OF run1_facts(1), of "run_placement 1 1 2 0"] by (simp add: run1_facts(3))
  have "ps_options run2 = run_options" "ps_file run2" using run_commit_step(2,3) [OF run1_facts(1)] by (simp_all add: r)
  then show "run_ready run2"
    using run1_facts(1) by (simp add: run_ready_def impl put_attempt_def committed_placement_def)
  show "running ''store'' run_options run2"
    unfolding run2_def using run1_facts
    by (intro running.commit) (simp_all add: run_ready_def run_options_def)
qed

lemma run3_facts: "run_ready run3" "running ''store'' run_options run3"
  "ps_impl run3 = (put_attempt ((run_attempt AttemptPhase.kCommitted)\<lparr>ar_sequence := 3\<rparr>) (ps_impl run2))\<lparr>im_max_sequence := 3\<rparr>"
proof -
  let ?a = "(run_attempt AttemptPhase.kCommitted)\<lparr>ar_sequence := 3\<rparr>"
  have "AppendAttemptTerminal AppendIo_ok CompactIo_ok (run_attempt AttemptPhase.kCommitted) run2 =
      append_attempt AppendIo_ok CompactIo_ok ?a run2"
    by (simp add: AppendAttemptTerminal_def has_terminal_def run2_facts(3) run1_facts(3) run_eval run_placement_def)
  then have r: "run3 = fst (append_attempt AppendIo_ok CompactIo_ok ?a run2)" by (simp add: run3_def)
  then show impl: "ps_impl run3 = (put_attempt ?a (ps_impl run2))\<lparr>im_max_sequence := 3\<rparr>"
    using run_attempt_step(1) [OF run2_facts(1), of ?a] by (simp add: run2_facts(3) committed_placement_def)
  have "ps_options run3 = run_options" "ps_file run3" using run_attempt_step(2,3) [OF run2_facts(1)] by (simp_all add: r)
  then show "run_ready run3"
    using run2_facts(1) by (simp add: run_ready_def impl put_attempt_def committed_placement_def)
  show "running ''store'' run_options run3"
    unfolding run3_def using run2_facts
    by (intro running.terminal) (simp_all add: run_ready_def run_options_def)
qed

lemma run4_facts: "run_ready run4" "running ''store'' run_options run4"
  "ps_impl run4 = committed_placement (run_placement 2 2 4 1) 4 (ps_impl run3)"
proof -
  note impls = run3_facts(3) run2_facts(3) run1_facts(3)
  have new: "new_record (run_intent 2) IncumbentDelta.kNoIncumbent Digest_zero 5 1 0 (ps_impl run3) = Inr (run_placement 2 2 4 1)"
    by (simp add: new_record_def impls run_eval run_placement_def guardR_def)
  have "\<not> so_max_total_records run_options \<le> 3" by (simp add: run_options_def default_StoreOptions_def word_le_nat_alt)
  then have "CommitPlacement AppendIo_ok CompactIo_ok 0 (run_intent 2) IncumbentDelta.kNoIncumbent Digest_zero 5 1 run3 =
      commit_record AppendIo_ok CompactIo_ok (run_placement 2 2 4 1) run3"
    using new run3_facts(1)
    by (simp add: CommitPlacement_def run_ready_def Let_def) (simp add: impls run_eval run_placement_def)
  then have r: "run4 = fst (commit_record AppendIo_ok CompactIo_ok (run_placement 2 2 4 1) run3)" by (simp add: run4_def)
  then show impl: "ps_impl run4 = committed_placement (run_placement 2 2 4 1) 4 (ps_impl run3)"
    using run_commit_step(1) [OF run3_facts(1), of "run_placement 2 2 4 1"] by (simp add: run3_facts(3))
  have "ps_options run4 = run_options" "ps_file run4" using run_commit_step(2,3) [OF run3_facts(1)] by (simp_all add: r)
  then show "run_ready run4"
    using run3_facts(1) by (simp add: run_ready_def impl put_attempt_def committed_placement_def)
  show "running ''store'' run_options run4"
    unfolding run4_def using run3_facts
    by (intro running.commit) (simp_all add: run_ready_def run_options_def)
qed


lemma run4_lookup:
  "FindAttempt run4 k = (if k = 1 then Some ((run_attempt AttemptPhase.kCommitted)\<lparr>ar_sequence := 3\<rparr>) else None)"
  "FindLatest run4 f = (if f = 7 then Some (run_placement 2 2 4 1) else None)"
  "snapshot_room run4"
proof -
  note impls = run4_facts(3) run3_facts(3) run2_facts(3) run1_facts(3)
  show "FindAttempt run4 k = (if k = 1 then Some ((run_attempt AttemptPhase.kCommitted)\<lparr>ar_sequence := 3\<rparr>) else None)"
    "FindLatest run4 f = (if f = 7 then Some (run_placement 2 2 4 1) else None)"
    by (simp_all add: FindAttempt_def FindLatest_def impls run_eval run_placement_def)
  have "ps_options run4 = run_options" using run4_facts(1) by (simp add: run_ready_def)
  moreover have "length (im_latest_by_flow (ps_impl run4)) = 1" "length (im_attempts (ps_impl run4)) = 1"
    by (simp_all add: impls run_eval run_placement_def)
  ultimately show "snapshot_room run4"
    by (simp add: snapshot_room_def) (simp add: run_options_def default_StoreOptions_def)
qed


section \<open>Properties\<close>



text \<open>C31. Damage is refused, never repaired away: when the bytes after the whole records of a journal are
  not a record but a valid record starts somewhere behind them, opening the store fails and leaves both
  files as they are, whatever the options; unless the scan itself cannot read the file, the status is
  \<open>kStoreCorrupt\<close>.\<close>

theorem damage_refused:
  assumes "dk_journal disk = Some (journal_of es @ damaged)" "snapshot_holds options (dk_snapshot disk) base"
    and "limit = ucast (so_max_record_bytes options)" "\<forall>e \<in> set es. entry_fits limit e"
    and "ReadRecord limit damaged = None" "0 < p" "candidate_at limit (journal_of es @ damaged) (length (journal_of es) + p)"
  shows "\<exists>s. Open io path options disk = (disk, Inl s) \<and> (oi_scan io \<longrightarrow> st_code s = kStoreCorrupt)"
proof -
  obtain st0 where load: "Load io (fresh_store path options disk) = LoadJournal io st0"
    and st0: "ps_impl st0 = base" "ps_disk st0 = disk" "record_limit st0 = limit"
    using Load_snapshot [OF assms(2)] assms(3) by metis
  have after: "valid_record_after limit (journal_of es @ damaged) (length (journal_of es))"
    unfolding valid_record_after_iff using assms(6,7) by (intro exI [of _ "length (journal_of es) + p"]) simp
  have "damaged \<noteq> []" using assms(7) by (auto simp: candidate_at_def kMagicBytes_def)
  have "\<exists>s. LoadJournal_loop io (journal_of es @ damaged) (im_max_sequence base) 0 0 st0 = Inl s \<and>
      (oi_scan io \<longrightarrow> st_code s = kStoreCorrupt)"
  proof (cases "replay (im_max_sequence base) es base")
    case None
    then show ?thesis
      using loop_refused [of es st0 "im_max_sequence base" io "[]" damaged 0] assms(4) st0 by auto
  next
    case (Some i)
    obtain m where m: "LoadJournal_loop io (journal_of es @ damaged) (im_max_sequence base) 0 0 st0 =
        bindR (HandleDamage io (journal_of es @ damaged) (length (journal_of es)) (count_valid m (st0\<lparr>ps_impl := i\<rparr>)))
          (\<lambda>st. Inr (word_of_nat (length es), st))"
      using loop_damaged [of es st0 "im_max_sequence base" i damaged io] \<open>damaged \<noteq> []\<close> Some assms(4,5) st0 by auto
    have "record_limit (count_valid m (st0\<lparr>ps_impl := i\<rparr>)) = limit" using st0(3) by (simp add: record_limit_def)
    from HandleDamage_refused [of "count_valid m (st0\<lparr>ps_impl := i\<rparr>)", unfolded this, OF after, of io]
    show ?thesis using m by (auto simp: bindR_def)
  qed
  then obtain s where s: "LoadJournal_loop io (journal_of es @ damaged) (im_max_sequence base) 0 0 st0 = Inl s"
    "oi_scan io \<longrightarrow> st_code s = kStoreCorrupt" by blast
  then have "Load io (fresh_store path options disk) = Inl s"
    using assms(1) st0 by (simp add: load LoadJournal_def bindR_def)
  then show ?thesis using s(2) by (simp add: Open_def)
qed

theorem damage_refused_witness:
  "\<exists>s. Open OpenIo_ok ''store'' run_options
      \<lparr>dk_snapshot = None, dk_journal = Some (0 # record_bytes kRecordTypeAttempt 2 (EncodeAttemptRecord (run_attempt AttemptPhase.kStarted)))\<rparr> =
     (\<lparr>dk_snapshot = None, dk_journal = Some (0 # record_bytes kRecordTypeAttempt 2 (EncodeAttemptRecord (run_attempt AttemptPhase.kStarted)))\<rparr>, Inl s) \<and>
     st_code s = kStoreCorrupt"
proof -
  let ?r = "record_bytes kRecordTypeAttempt 2 (EncodeAttemptRecord (run_attempt AttemptPhase.kStarted))"
  let ?d = "\<lparr>dk_snapshot = None, dk_journal = Some (journal_of [] @ 0 # ?r)\<rparr>"
  let ?limit = "ucast (so_max_record_bytes run_options) :: u32"
  have limit: "unat ?limit = 2 ^ 20" by (simp add: run_options_def default_StoreOptions_def)
  have magic: "take 4 ?r = kMagicBytes"
    by (simp add: record_bytes_def record_header_def Let_def kMagicBytes_def kRecordMagic_def put_le_def le_byte_def upt_rec)
  have head: "GetU32_at 0 (0 # ?r) \<noteq> kRecordMagic"
  proof
    assume "GetU32_at 0 (0 # ?r) = kRecordMagic"
    then have "get_le 4 (take 4 (0 # ?r)) = kRecordMagic" by (simp only: GetU32_at_def get_le_take drop_0)
    moreover have "put_le 4 (get_le 4 (take 4 (0 # ?r)) :: u32) = take 4 (0 # ?r)"
      by (rule put_get_le) simp_all
    ultimately have "put_le 4 kRecordMagic = take 4 (0 # ?r)" by metis
    then show False by (simp add: put_le_def le_byte_def kRecordMagic_def upt_rec)
  qed
  have "GetU32_at 0 (take kHeaderBytes (0 # ?r)) = GetU32_at 0 (0 # ?r)"
    unfolding GetU32_at_def drop_0
    by (subst (1 2) get_le_take [symmetric]) (simp only: take_take kHeaderBytes_def, simp)
  then have "ReadRecord ?limit (0 # ?r) = None"
    using head by (simp only: ReadRecord_def ParseHeader_def Let_def) simp
  moreover have "candidate_at ?limit (journal_of [] @ 0 # ?r) (length (journal_of []) + 1)"
    using ReadRecord_record [of kRecordTypeAttempt "EncodeAttemptRecord (run_attempt AttemptPhase.kStarted)" ?limit 2 "[]"] limit magic
    by (simp add: candidate_at_def kHeaderBytes_def kTrailerBytes_def)
  ultimately have "\<exists>s. Open OpenIo_ok ''store'' run_options ?d = (?d, Inl s) \<and> (oi_scan OpenIo_ok \<longrightarrow> st_code s = kStoreCorrupt)"
    by (intro damage_refused [of ?d "[]" "0 # ?r" run_options default_Impl ?limit 1])
      (simp_all add: snapshot_holds_def)
  then show ?thesis by (simp add: OpenIo_ok_def)
qed



section \<open>Commits\<close>

lemma commit_record_done:
  assumes "index_ok (ps_impl st)" "commit_record io cio p st = (st', Inr q)"
  shows "q = p" "Impl_Commit (ps_impl st') a = (if a = attempt_of p \<and> a \<noteq> 0 then Some p else Impl_Commit (ps_impl st) a)"
    "im_closed (ps_impl st') = im_closed (ps_impl st)"
proof -
  define st1 where "st1 = fst (AppendRecordRaw io kRecordTypePlacement (EncodePlacementRecord p) st)"
  let ?f = "\<lambda>impl. (add_placement p impl)\<lparr>im_next_placement_id := pr_id p + 1\<rparr>"
  have s1: "same_index (ps_impl st1) (ps_impl st)" by (simp add: st1_def AppendRecordRaw_index)
  have st': "st' = fst (MaybeCompact cio (set_impl ?f st1))" "q = p"
    using assms(2) by (auto simp: commit_record_def verify_record_always case_prod_beta st1_def split: if_splits)
  then show "q = p" by simp
  have s2: "same_index (ps_impl st') (?f (ps_impl st1))"
    using MaybeCompact_index [of cio "set_impl ?f st1"] by (simp add: st' set_impl_def)
  then show "im_closed (ps_impl st') = im_closed (ps_impl st)" using s1 by (simp add: same_index_def)
  have "index_ok (ps_impl st1)" using s1 assms(1) by (simp add: same_index_def index_ok_def)
  from add_placement_lookup(2) [OF this, of p a]
  show "Impl_Commit (ps_impl st') a = (if a = attempt_of p \<and> a \<noteq> 0 then Some p else Impl_Commit (ps_impl st) a)"
    unfolding same_index_commit [OF s2] Impl_lookup_update same_index_commit [OF s1] .
qed

lemma PlacementIntent_eq_refl [simp]: "PlacementIntent_eq i i"
  by (simp add: PlacementIntent_eq_def)

lemma CommitPlacement_committed:
  assumes "Impl_Commit (ps_impl st) (in_attempt intent) = Some p" "in_attempt intent \<noteq> 0" "\<not> im_closed (ps_impl st)"
    and "in_flow intent \<noteq> 0" "in_path intent \<noteq> 0" "in_path_authority intent \<noteq> 0" "in_digest intent = IntentDigest intent"
  shows "CommitPlacement io cio now intent delta digest who epoch st =
    (st, if PlacementIntent_eq (pr_intent p) intent then Inr p
         else Inl (mk_Status kDuplicateAttemptConflict ''attempt already committed a different placement intent''))"
  using assms by (auto simp: CommitPlacement_def Impl_Commit_def)

lemma CommitPlacement_done:
  assumes "wf_impl (ps_impl st)" "CommitPlacement io cio now intent delta digest who epoch st = (st', Inr p)"
  shows "\<not> im_closed (ps_impl st')" "in_flow intent \<noteq> 0" "in_path intent \<noteq> 0" "in_path_authority intent \<noteq> 0"
    "in_digest intent = IntentDigest intent" "PlacementIntent_eq (pr_intent p) intent"
    and "in_attempt intent \<noteq> 0 \<Longrightarrow> Impl_Commit (ps_impl st') (in_attempt intent) = Some p"
proof -
  have guards: "\<not> im_closed (ps_impl st)" "in_flow intent \<noteq> 0" "in_path intent \<noteq> 0" "in_path_authority intent \<noteq> 0"
    "in_digest intent = IntentDigest intent"
    using assms(2) by (auto simp: CommitPlacement_def Let_def split: if_splits)
  then show "in_flow intent \<noteq> 0" "in_path intent \<noteq> 0" "in_path_authority intent \<noteq> 0" "in_digest intent = IntentDigest intent"
    by simp_all
  have "\<not> im_closed (ps_impl st') \<and> PlacementIntent_eq (pr_intent p) intent \<and>
    (in_attempt intent \<noteq> 0 \<longrightarrow> Impl_Commit (ps_impl st') (in_attempt intent) = Some p)"
  proof (cases "in_attempt intent \<noteq> 0 \<and> Impl_Commit (ps_impl st) (in_attempt intent) \<noteq> None")
    case True
    then show ?thesis
      using CommitPlacement_committed [of st intent _ io cio now delta digest who epoch] guards assms(2)
      by (auto split: if_splits)
  next
    case False
    then have "(if in_attempt intent \<noteq> 0 then omap_get (im_commit_by_attempt (ps_impl st)) (in_attempt intent) else None) = None"
      by (auto simp: Impl_Commit_None)
    then obtain q where q: "new_record intent delta digest who epoch now (ps_impl st) = Inr q"
      "commit_record io cio q st = (st', Inr p)"
      using assms(2) guards by (auto simp: CommitPlacement_def Let_def split: sum.splits if_splits)
    have ok: "index_ok (ps_impl st)" using assms(1) by (rule wf_implD)
    show ?thesis
      using commit_record_done [OF ok q(2)] new_record_facts(1) [OF q(1)] guards(1) by auto
  qed
  then show "\<not> im_closed (ps_impl st')" "PlacementIntent_eq (pr_intent p) intent"
    "in_attempt intent \<noteq> 0 \<Longrightarrow> Impl_Commit (ps_impl st') (in_attempt intent) = Some p" by simp_all
qed

text \<open>C33. Commits are idempotent by attempt: once an attempt has committed, committing the same intent
  again returns the very record and changes nothing, on disk or in memory, and a different intent under
  the same attempt is refused with \<open>kDuplicateAttemptConflict\<close>.\<close>

theorem commit_idempotent:
  assumes "running path options st" "options_ok options" "in_attempt intent \<noteq> 0"
    and "CommitPlacement io cio now intent delta digest who epoch st = (st', Inr p)"
  shows "CommitPlacement io' cio' now' intent delta' digest' who' epoch' st' = (st', Inr p) \<and>
    (in_attempt other = in_attempt intent \<and> \<not> PlacementIntent_eq intent other \<and>
     in_flow other \<noteq> 0 \<and> in_path other \<noteq> 0 \<and> in_path_authority other \<noteq> 0 \<and> in_digest other = IntentDigest other \<longrightarrow>
     CommitPlacement io' cio' now' other delta' digest' who' epoch' st' =
       (st', Inl (mk_Status kDuplicateAttemptConflict ''attempt already committed a different placement intent'')))"
proof -
  have wf: "wf_impl (ps_impl st)" using running_log [OF assms(1,2)] by metis
  note c = CommitPlacement_done [OF wf assms(4)]
  have "PlacementIntent_eq (pr_intent p) other \<longleftrightarrow> PlacementIntent_eq intent other"
    using c(6) by (auto simp: PlacementIntent_eq_def)
  then show ?thesis
    using c(1-6) CommitPlacement_committed [of st' intent p] CommitPlacement_committed [of st' other p] c(7) assms(3)
    by auto
qed

theorem commit_idempotent_witness:
  "CommitPlacement AppendIo_ok CompactIo_ok 9 (run_intent 1) IncumbentDelta.kNoIncumbent Digest_zero 5 1 run2 =
     (run2, Inr (run_placement 1 1 2 0))"
proof -
  have "CommitPlacement AppendIo_ok CompactIo_ok 0 (run_intent 1) IncumbentDelta.kNoIncumbent Digest_zero 5 1 run1 =
      (run2, Inr (run_placement 1 1 2 0))"
    using run2_result by (simp add: prod_eq_iff run2_def)
  from commit_idempotent [OF run1_facts(2) run_options_ok _ this] show ?thesis by simp
qed

section \<open>What compaction forgets\<close>

text \<open>C34. Compaction can make a store unreadable. It keeps every attempt record but only the latest
  placement of each flow; when an attempt journalled as committed has been superseded on its flow, the
  compaction succeeds, and the next opening of the store is refused with \<open>kStoreCorrupt\<close> because the
  attempt no longer has its placement.\<close>

theorem compaction_orphans:
  assumes "running path options st" "options_ok options" "healthy_compaction cio" "healthy_open io"
    and "snapshot_room st" "\<not> im_closed (ps_impl st)"
    and "FindAttempt st k = Some a" "ar_phase a = AttemptPhase.kCommitted"
    and "\<And>f p. FindLatest st f = Some p \<Longrightarrow> attempt_of p \<noteq> k"
  shows "snd (Compact cio st) = Status_Ok \<and>
    snd (Open io path options (ps_disk (fst (Compact cio st)))) =
      Inl (mk_Status kStoreCorrupt ''store records an acknowledged attempt with no durable placement'')"
proof -
  let ?st = "fst (Compact cio st)"
  obtain es base i where st: "store_inv 0 st" "ps_path st = path" "ps_options st = options" and wf: "wf_impl (ps_impl st)"
    using running_log [OF assms(1,2)] by metis
  have c: "Compact cio st = (?st, snd (Compact cio st))" by simp
  define e where "e = (1 :: u64, ResetEntry (im_max_sequence (ps_impl st)))"
  define j where "j = image_impl (image_of st)"
  have fits: "snapshot_fits st" using assms(5) by (rule snapshot_room)
  from Compact_logged [OF store_inv_mono [OF st(1)] assms(6,3) c this e_def j_def]
  have log: "logged ?st [e] j (j\<lparr>im_max_sequence := 1\<rparr>)" "counted 0 ?st [e]" "store_inv 0 ?st"
    and att: "omap_get (im_attempts j) k = Some a"
    using assms(7) by (auto simp: FindAttempt_def)
  have "8 \<le> unat (so_max_record_bytes (ps_options st))" using fits by (simp add: snapshot_fits_def)
  moreover have "options_ok (ps_options st)" "\<not> im_compaction_in_progress (ps_impl st)"
    using st(1) by (simp_all add: store_inv_def)
  ultimately have h: "snd (Compact cio st) = Status_Ok" "ps_options ?st = options" "ps_path ?st = path"
    using Compact_healthy [OF assms(3) _ _ assms(6) _ c] st by simp_all
  have "last_with attempt_of (latest_records (ps_impl st)) k = None"
    unfolding last_with_None
  proof
    assume "k \<in> attempt_of ` set (latest_records (ps_impl st))"
    then obtain p where p: "p \<in> set (latest_records (ps_impl st))" "attempt_of p = k" by blast
    have "FindLatest st (flow_of p) = Some p"
      using latest_records_facts(2,4) [OF wf] p(1) unfolding FindLatest_def
      by (metis last_with_unique)
    then show False using assms(9) p(2) by blast
  qed
  then have "Impl_Commit j k = None"
    using image_lookup(4) [OF wf, of "image_of st" k] by (simp add: j_def image_of_def)
  then have orph: "orphaned (j\<lparr>im_max_sequence := 1\<rparr>)"
    using att assms(8) by (auto simp: orphaned_def)
  have "ps_disk ?st = (ps_disk ?st)\<lparr>dk_journal := Some (journal_of [e] @ [])\<rparr>"
    using log(1) by (simp add: logged_def)
  from Open_logged(2) [OF log(3,1,2) _ assms(4) this orph]
  show ?thesis using h by (simp add: torn_tail_def)
qed

theorem compaction_orphans_witness:
  "snd (Compact CompactIo_ok run4) = Status_Ok \<and>
   snd (Open OpenIo_ok ''store'' run_options (ps_disk (fst (Compact CompactIo_ok run4)))) =
     Inl (mk_Status kStoreCorrupt ''store records an acknowledged attempt with no durable placement'')"
proof (rule compaction_orphans [OF run4_facts(2) run_options_ok healthy_ok(2,3) run4_lookup(3)])
  show "\<not> im_closed (ps_impl run4)" using run4_facts(1) by (simp add: run_ready_def)
  show "FindAttempt run4 1 = Some ((run_attempt AttemptPhase.kCommitted)\<lparr>ar_sequence := 3\<rparr>)" by (simp add: run4_lookup)
  show "ar_phase ((run_attempt AttemptPhase.kCommitted)\<lparr>ar_sequence := 3\<rparr>) = AttemptPhase.kCommitted" by (simp add: run_attempt_def)
  show "\<And>f p. FindLatest run4 f = Some p \<Longrightarrow> attempt_of p \<noteq> 1"
    by (auto simp: run4_lookup run_placement_def split: if_splits)
qed



end
