(* ===== verification/Flow_Coordinator.thy ===== *)
theory Flow_Coordinator
  imports Flow_Append Flow_Attempt
begin

text \<open>
  The coordinator (\<^verbatim>\<open>src/runtime.cpp\<close>): its state and its critical sections. A slot is a shared object
  that outlives its entry in the table, so slots live on a heap (\<open>cs_heap\<close>) and the table and the
  threads hold references. Every definition below is one critical section of the code, or the code between
  two of them; \<^verbatim>\<open>Flow_Threads\<close> interleaves them. Condition variables only wake waiters and have no state.
\<close>

section \<open>State\<close>

record Slot =
  sl_attempt :: AttemptId
  sl_request :: PlacementRequest
  sl_request_digest :: Digest
  sl_terminal :: bool
  sl_commit_boundary_crossed :: bool
  sl_cancel_requested :: bool
  sl_running :: bool
  sl_in_worker :: bool
  sl_journalled_start :: bool
  sl_pending_terminal :: bool
  sl_pending_phase :: AttemptPhase
  sl_pending_code :: StatusCode
  sl_outcome :: AttemptOutcome

datatype (plugins only: code size) RunState = kRunning | kShuttingDown | kStopped

record CoordinatorOptions =
  co_limits :: Limits
  co_store :: StoreOptions
  co_store_path :: string
  co_worker_threads :: u32
  co_queue_capacity :: u64
  co_max_retained_attempts :: u64
  co_initial_epoch :: FabricEpoch
  co_incarnation :: IncarnationId
  co_seed :: u64

record CoordinatorStats =
  cn_submitted :: u64
  cn_accepted :: u64
  cn_duplicate_replays :: u64
  cn_duplicate_conflicts :: u64
  cn_rejected_queue_full :: u64
  cn_rejected_shutting_down :: u64
  cn_placed :: u64
  cn_rejected :: u64
  cn_cancelled :: u64
  cn_fenced :: u64
  cn_failed :: u64
  cn_queued :: u64
  cn_active :: u64
  cn_completed :: u64

definition default_CoordinatorStats :: CoordinatorStats where
  "default_CoordinatorStats = \<lparr>cn_submitted = 0, cn_accepted = 0, cn_duplicate_replays = 0,
     cn_duplicate_conflicts = 0, cn_rejected_queue_full = 0, cn_rejected_shutting_down = 0, cn_placed = 0,
     cn_rejected = 0, cn_cancelled = 0, cn_fenced = 0, cn_failed = 0, cn_queued = 0, cn_active = 0,
     cn_completed = 0\<rparr>"

record CoordinatorState =
  cs_options :: CoordinatorOptions
  cs_store :: "PlacementStore option"
  cs_authority :: AuthorityExpectation
  cs_epoch :: FabricEpoch
  cs_incarnation :: IncarnationId
  cs_state :: RunState
  cs_queue :: "AttemptId list"
  cs_slot_order :: "AttemptId list"
  cs_queue_depth :: u64
  cs_active :: u64
  cs_slots :: "(AttemptId, nat) omap"
  cs_heap :: "Slot list"
  cs_stats :: CoordinatorStats
  cs_next_placement_id :: u64
  cs_latest_in_memory :: "(FlowId, PlacementRecord) omap"
  cs_worker_count :: u32

text \<open>What the environment answers to one access of the store, and the clock.\<close>

record Env =
  ev_io :: AppendIo
  ev_cio :: CompactIo
  ev_now :: i64

abbreviation slot_at :: "CoordinatorState \<Rightarrow> nat \<Rightarrow> Slot" where
  "slot_at st r \<equiv> cs_heap st ! r"

definition set_slot :: "nat \<Rightarrow> (Slot \<Rightarrow> Slot) \<Rightarrow> CoordinatorState \<Rightarrow> CoordinatorState" where
  "set_slot r f st = st\<lparr>cs_heap := (cs_heap st)[r := f (cs_heap st ! r)]\<rparr>"

definition bump :: "(CoordinatorStats \<Rightarrow> CoordinatorStats) \<Rightarrow> CoordinatorState \<Rightarrow> CoordinatorState" where
  "bump f st = st\<lparr>cs_stats := f (cs_stats st)\<rparr>"

section \<open>Reaping\<close>

text \<open>Whether the attempt a queue entry names is finished; a missing entry has no slot.\<close>

definition reapable :: "CoordinatorState \<Rightarrow> AttemptId \<Rightarrow> bool option" where
  "reapable st attempt = map_option (\<lambda>r. sl_terminal (slot_at st r)) (omap_get (cs_slots st) attempt)"

function reap_loop :: "nat \<Rightarrow> (AttemptId \<Rightarrow> bool option) \<Rightarrow> nat \<Rightarrow> AttemptId list \<Rightarrow> (AttemptId, nat) omap \<Rightarrow>
    AttemptId list \<times> (AttemptId, nat) omap" where
  "reap_loop limit status scanned order slots =
     (if \<not> (limit < length slots \<and> order \<noteq> [] \<and> scanned < length order) then (order, slots)
      else let oldest = hd order; order = tl order in
        case (if omap_get slots oldest = None then None else status oldest) of
          None \<Rightarrow> reap_loop limit status (scanned + 1) order slots
        | Some False \<Rightarrow> reap_loop limit status (scanned + 1) (order @ [oldest]) slots
        | Some True \<Rightarrow> reap_loop limit status 0 order (omap_erase oldest slots))"
  by pat_completeness auto
termination
  by (relation "inv_image (less_than <*lex*> less_than)
      (\<lambda>(_, _, scanned, order, _). (length order, length order - scanned))")
    (auto simp: Suc_diff_Suc)

declare reap_loop.simps [simp del]

definition ReapRetainedSlots :: "CoordinatorState \<Rightarrow> CoordinatorState" where
  "ReapRetainedSlots st =
     (case reap_loop (unat (co_max_retained_attempts (cs_options st))) (reapable st) 0 (cs_slot_order st) (cs_slots st) of
        (order, slots) \<Rightarrow> st\<lparr>cs_slot_order := order, cs_slots := slots\<rparr>)"

section \<open>Outcomes\<close>

definition count_outcome :: "AttemptState \<Rightarrow> CoordinatorStats \<Rightarrow> CoordinatorStats" where
  "count_outcome state s =
     (let s = (case state of
          AttemptState.kCommitted \<Rightarrow> s\<lparr>cn_placed := cn_placed s + 1\<rparr>
        | AttemptState.kRejected \<Rightarrow> s\<lparr>cn_rejected := cn_rejected s + 1\<rparr>
        | AttemptState.kCancelled \<Rightarrow> s\<lparr>cn_cancelled := cn_cancelled s + 1\<rparr>
        | AttemptState.kFenced \<Rightarrow> s\<lparr>cn_fenced := cn_fenced s + 1\<rparr>
        | AttemptState.kFailed \<Rightarrow> s\<lparr>cn_failed := cn_failed s + 1\<rparr>
        | _ \<Rightarrow> s)
      in s\<lparr>cn_completed := cn_completed s + 1\<rparr>)"

definition FinalizeLocked :: "nat \<Rightarrow> AttemptState \<Rightarrow> StatusCode \<Rightarrow> CoordinatorState \<Rightarrow> CoordinatorState" where
  "FinalizeLocked r state code st =
     (if sl_terminal (slot_at st r) then st
      else bump (count_outcome state) (set_slot r (\<lambda>s. s\<lparr>sl_terminal := True,
             sl_outcome := (sl_outcome s)\<lparr>oc_state := state, oc_code := code\<rparr>\<rparr>) st))"

definition FinalizeShutdownSlot :: "nat \<Rightarrow> CoordinatorState \<times> AttemptId list \<Rightarrow> CoordinatorState \<times> AttemptId list" where
  "FinalizeShutdownSlot r = (\<lambda>(st, journal_cancelled).
     let st = set_slot r (\<lambda>s. s\<lparr>sl_cancel_requested := True\<rparr>) st;
         st = FinalizeLocked r AttemptState.kCancelled StatusCode.kShuttingDown st in
     if sl_journalled_start (slot_at st r) then (st, journal_cancelled @ [sl_attempt (slot_at st r)])
     else (set_slot r (\<lambda>s. s\<lparr>sl_pending_terminal := True, sl_pending_phase := AttemptPhase.kCancelled,
             sl_pending_code := StatusCode.kShuttingDown\<rparr>) st, journal_cancelled))"

section \<open>Durable records\<close>

definition attempt_record :: "Env \<Rightarrow> CoordinatorState \<Rightarrow> nat \<Rightarrow> AttemptPhase \<Rightarrow> StatusCode \<Rightarrow> AttemptRecord" where
  "attempt_record env st r phase code =
     (let slot = slot_at st r in
      \<lparr>ar_attempt = sl_attempt slot, ar_incarnation = cs_incarnation st,
       ar_epoch = ex_fabric_epoch (rq_expected (sl_request slot)), ar_flow = rq_flow (sl_request slot),
       ar_phase = phase, ar_code = code, ar_request_digest = sl_request_digest slot, ar_sequence = 0,
       ar_observed_unix_nanos = ev_now env\<rparr>)"

definition JournalTerminal :: "Env \<Rightarrow> nat \<Rightarrow> AttemptPhase \<Rightarrow> StatusCode \<Rightarrow> CoordinatorState \<Rightarrow> CoordinatorState" where
  "JournalTerminal env r phase code st = (case cs_store st of
     None \<Rightarrow> st
   | Some store \<Rightarrow>
       let record = attempt_record env st r phase code in
       st\<lparr>cs_store := Some (fst (if phase = AttemptPhase.kStarted
          then AppendAttemptStart (ev_io env) (ev_cio env) record store
          else AppendAttemptTerminal (ev_io env) (ev_cio env) record store))\<rparr>)"

definition CommitRecord ::
  "Env \<Rightarrow> PlacementIntent \<Rightarrow> IncumbentDelta \<Rightarrow> Digest \<Rightarrow> FabricEpoch \<Rightarrow> CoordinatorState \<Rightarrow> CoordinatorState \<times> PlacementRecord Result" where
  "CommitRecord env intent delta decision_digest commit_epoch st = (case cs_store st of
     Some store \<Rightarrow>
       (case CommitPlacement (ev_io env) (ev_cio env) (ev_now env) intent delta decision_digest
               (cs_incarnation st) commit_epoch store of
          (store, result) \<Rightarrow> (st\<lparr>cs_store := Some store\<rparr>, result))
   | None \<Rightarrow>
       let existing = omap_get (cs_latest_in_memory st) (in_flow intent);
           record = \<lparr>pr_id = cs_next_placement_id st, pr_generation = 1, pr_intent = intent, pr_delta = delta,
             pr_decision_digest = decision_digest, pr_committed_by = cs_incarnation st,
             pr_commit_epoch = commit_epoch, pr_sequence = 0, pr_supersedes_generation = 0,
             pr_commit_unix_nanos = ev_now env, pr_requires_revalidation = False\<rparr>;
           keep = (\<lambda>record st. (st\<lparr>cs_latest_in_memory := omap_put (in_flow intent) record (cs_latest_in_memory st)\<rparr>, Inr record)) in
       if cs_next_placement_id st = - 1
         then (st, Inl (mk_Status kArithmeticOverflow ''in-memory placement identity exhausted''))
       else
         let st = st\<lparr>cs_next_placement_id := cs_next_placement_id st + 1\<rparr> in
         case existing of
           None \<Rightarrow> keep record st
         | Some previous \<Rightarrow>
             if pr_generation previous = - 1
             then (st, Inl (mk_Status kArithmeticOverflow ''placement generation exhausted''))
             else keep (record\<lparr>pr_supersedes_generation := pr_generation previous,
                               pr_generation := pr_generation previous + 1\<rparr>) st)"

section \<open>The commit boundary\<close>

definition AuthorityMatches :: "AuthorityExpectation \<Rightarrow> AuthorityExpectation \<Rightarrow> bool" where
  "AuthorityMatches current expected \<longleftrightarrow>
     \<not> (ex_path_authority current \<noteq> 0 \<and> ex_path_authority current \<noteq> ex_path_authority expected) \<and>
     \<not> (ex_candidate_set current \<noteq> 0 \<and> ex_candidate_set current \<noteq> ex_candidate_set expected) \<and>
     \<not> (ex_capacity current \<noteq> 0 \<and> ex_capacity current \<noteq> ex_capacity expected) \<and>
     \<not> (ex_policy current \<noteq> 0 \<and> ex_policy current \<noteq> ex_policy expected) \<and>
     \<not> (ex_qos current \<noteq> 0 \<and> ex_qos current \<noteq> ex_qos expected) \<and>
     \<not> (ex_evidence current \<noteq> 0 \<and> ex_evidence current \<noteq> ex_evidence expected)"

text \<open>The first critical section of \<^verbatim>\<open>CommitSlot\<close>: the checks, and the crossing.\<close>

definition CommitSlot_check :: "nat \<Rightarrow> CoordinatorState \<Rightarrow> CoordinatorState \<times> Status" where
  "CommitSlot_check r st =
     (let slot = slot_at st r; expected = rq_expected (sl_request slot) in
      if sl_terminal slot
        then (st, mk_Status kAlreadyCommitted ''attempt already reached a terminal state'')
      else if sl_cancel_requested slot
        then (st, mk_Status StatusCode.kCancelled ''cancellation was observed before the commit boundary'')
      else if cs_state st \<noteq> RunState.kRunning
        then (st, mk_Status StatusCode.kShuttingDown ''coordinator is shutting down'')
      else if ex_fabric_epoch expected \<noteq> cs_epoch st
        then (st, mk_Status kFencedStaleEpoch ''fabric epoch advanced after this attempt was admitted'')
      else if \<not> AuthorityMatches (cs_authority st) expected
        then (st, mk_Status kStaleAuthorityGeneration ''authority advanced after this attempt was admitted'')
      else (set_slot r (\<lambda>s. s\<lparr>sl_commit_boundary_crossed := True\<rparr>) st, Status_Ok))"

text \<open>The durable commit of the decision that was read inside the boundary.\<close>

definition CommitSlot_store :: "Env \<Rightarrow> nat \<Rightarrow> PlacementDecision \<Rightarrow> CoordinatorState \<Rightarrow> CoordinatorState \<times> PlacementRecord Result" where
  "CommitSlot_store env r decision st = (case de_intent decision of
     None \<Rightarrow> (st, Inl (mk_Status kInternalInvariantViolation ''commit without a placement intent''))
   | Some intent \<Rightarrow> CommitRecord env intent (de_delta decision) (de_digest decision)
       (ex_fabric_epoch (rq_expected (sl_request (slot_at st r)))) st)"

definition CommitSlot_note :: "nat \<Rightarrow> PlacementRecord \<Rightarrow> CoordinatorState \<Rightarrow> CoordinatorState" where
  "CommitSlot_note r record = set_slot r (\<lambda>s. s\<lparr>sl_outcome := (sl_outcome s)
     \<lparr>oc_placement_id := pr_id record, oc_placement_generation := pr_generation record\<rparr>\<rparr>)"

section \<open>Deciding\<close>

definition failed_decision :: "string \<Rightarrow> PlacementDecision" where
  "failed_decision note =
     (let decision = default_PlacementDecision\<lparr>de_outcome := Outcome.kConflictingInput,
            de_code := kInternalInvariantViolation,
            de_explanation := default_Explanation\<lparr>xp_notes := [note]\<rparr>\<rparr>
      in decision\<lparr>de_digest := DecisionDigest decision\<rparr>)"

definition ComputeDecision :: "CoordinatorState \<Rightarrow> nat \<Rightarrow> PlacementDecision" where
  "ComputeDecision st r =
     (let limits = co_limits (cs_options st); request = sl_request (slot_at st r);
          decision = Place limits request in
      if placed decision then
        (case VerifyIntent limits request (the (de_intent decision)) of
           None \<Rightarrow> decision
         | Some reason \<Rightarrow> failed_decision (''pre-commit self-verification failed: '' @ reason))
      else decision)"

definition store_decision :: "nat \<Rightarrow> PlacementDecision \<Rightarrow> CoordinatorState \<Rightarrow> CoordinatorState" where
  "store_decision r decision = set_slot r (\<lambda>s. s\<lparr>sl_outcome := (sl_outcome s)\<lparr>oc_decision := decision\<rparr>\<rparr>)"

section \<open>Registration\<close>

definition new_slot :: "PlacementRequest \<Rightarrow> AttemptId \<Rightarrow> Digest \<Rightarrow> Slot" where
  "new_slot request attempt digest =
     \<lparr>sl_attempt = attempt, sl_request = request, sl_request_digest = digest, sl_terminal = False,
      sl_commit_boundary_crossed = False, sl_cancel_requested = False, sl_running = False,
      sl_in_worker = False, sl_journalled_start = False, sl_pending_terminal = False,
      sl_pending_phase = AttemptPhase.kCancelled, sl_pending_code = StatusCode.kCancelled,
      sl_outcome = default_AttemptOutcome\<lparr>oc_attempt := attempt, oc_state := AttemptState.kQueued\<rparr>\<rparr>"

definition admit_slot :: "PlacementRequest \<Rightarrow> AttemptId \<Rightarrow> Digest \<Rightarrow> CoordinatorState \<Rightarrow> CoordinatorState" where
  "admit_slot request attempt digest st =
     (let r = length (cs_heap st);
          st = st\<lparr>cs_heap := cs_heap st @ [new_slot request attempt digest],
                  cs_slots := omap_put attempt r (cs_slots st),
                  cs_slot_order := cs_slot_order st @ [attempt]\<rparr>
      in ReapRetainedSlots (bump (\<lambda>s. s\<lparr>cn_accepted := cn_accepted s + 1\<rparr>) st))"

text \<open>The checks before the lock and the first critical section; \<open>Inr\<close> is the reference of the new slot.\<close>

definition RegisterAttempt_admit :: "PlacementRequest \<Rightarrow> AttemptId \<Rightarrow> bool \<Rightarrow> CoordinatorState \<Rightarrow> CoordinatorState \<times> nat Result" where
  "RegisterAttempt_admit request attempt enforce_queue_capacity st =
     (let limits = co_limits (cs_options st); validation = ValidateRequest request limits in
      if attempt = 0 then (st, Inl (mk_Status kInvalidId ''attempt id must be non-zero''))
      else if rq_attempt request \<noteq> 0 \<and> rq_attempt request \<noteq> attempt
        then (st, Inl (mk_Status kInvalidArgument ''request attempt id does not match the submitted attempt id''))
      else if \<not> Status_ok validation then (st, Inl validation)
      else
        let request = request\<lparr>rq_attempt := attempt\<rparr>;
            digest = RequestDigest request limits;
            st = bump (\<lambda>s. s\<lparr>cn_submitted := cn_submitted s + 1\<rparr>) st in
        if cs_state st \<noteq> RunState.kRunning
          then (bump (\<lambda>s. s\<lparr>cn_rejected_shutting_down := cn_rejected_shutting_down s + 1\<rparr>) st,
                Inl (mk_Status StatusCode.kShuttingDown ''coordinator is shutting down''))
        else if ex_fabric_epoch (rq_expected request) \<noteq> cs_epoch st
          then (st, Inl (mk_Status kStaleFabricEpoch ''request is bound to a fabric epoch that is not current''))
        else case omap_get (cs_slots st) attempt of
          Some r \<Rightarrow>
            if sl_request_digest (slot_at st r) = digest
            then (bump (\<lambda>s. s\<lparr>cn_duplicate_replays := cn_duplicate_replays s + 1\<rparr>) st,
                  Inl (mk_Status kAlreadyExists ''attempt was already admitted with an identical request''))
            else (bump (\<lambda>s. s\<lparr>cn_duplicate_conflicts := cn_duplicate_conflicts s + 1\<rparr>) st,
                  Inl (mk_Status kDuplicateAttemptConflict ''attempt was already admitted with a different request''))
        | None \<Rightarrow>
            if enforce_queue_capacity \<and> cs_queue_depth st \<ge> co_queue_capacity (cs_options st)
            then (bump (\<lambda>s. s\<lparr>cn_rejected_queue_full := cn_rejected_queue_full s + 1\<rparr>) st,
                  Inl (mk_Status kQueueFull ''placement queue is full''))
            else (admit_slot request attempt digest st, Inr (length (cs_heap st))))"

text \<open>Journalling the start under \<^verbatim>\<open>store_mu\<close>; a refusal finalizes the slot.\<close>

definition RegisterAttempt_journal :: "Env \<Rightarrow> nat \<Rightarrow> CoordinatorState \<Rightarrow> CoordinatorState \<times> Status" where
  "RegisterAttempt_journal env r st = (case cs_store st of
     None \<Rightarrow> (st, Status_Ok)
   | Some store \<Rightarrow>
       (case AppendAttemptStart (ev_io env) (ev_cio env) (attempt_record env st r AttemptPhase.kStarted kOk) store of
          (store, status) \<Rightarrow>
            let st = st\<lparr>cs_store := Some store\<rparr> in
            if Status_ok status then (st, Status_Ok)
            else
              let st = FinalizeLocked r AttemptState.kRejected (st_code status) st in
              (if st_code status = kAlreadyExists
               then bump (\<lambda>s. s\<lparr>cn_duplicate_replays := cn_duplicate_replays s + 1\<rparr>) st else st, status)))"

definition RegisterAttempt_mark :: "nat \<Rightarrow> CoordinatorState \<Rightarrow> CoordinatorState \<times> (AttemptPhase \<times> StatusCode) option" where
  "RegisterAttempt_mark r st =
     (let st = set_slot r (\<lambda>s. s\<lparr>sl_journalled_start := True\<rparr>) st; slot = slot_at st r in
      if sl_pending_terminal slot
      then (set_slot r (\<lambda>s. s\<lparr>sl_pending_terminal := False\<rparr>) st, Some (sl_pending_phase slot, sl_pending_code slot))
      else (st, None))"

section \<open>Workers and queue\<close>

definition Submit_enqueue :: "nat \<Rightarrow> CoordinatorState \<Rightarrow> CoordinatorState \<times> Status" where
  "Submit_enqueue r st =
     (if cs_state st \<noteq> RunState.kRunning
      then (FinalizeLocked r AttemptState.kCancelled StatusCode.kShuttingDown
              (bump (\<lambda>s. s\<lparr>cn_rejected_shutting_down := cn_rejected_shutting_down s + 1\<rparr>) st),
            mk_Status StatusCode.kShuttingDown ''coordinator is shutting down'')
      else (st\<lparr>cs_queue := cs_queue st @ [sl_attempt (slot_at st r)], cs_queue_depth := cs_queue_depth st + 1\<rparr>,
            Status_Ok))"

definition worker_pick :: "CoordinatorState \<Rightarrow> CoordinatorState \<times> nat option" where
  "worker_pick st = (case cs_queue st of
     [] \<Rightarrow> (st, None)
   | attempt # queue \<Rightarrow>
       let st = st\<lparr>cs_queue := queue, cs_queue_depth := cs_queue_depth st - 1\<rparr> in
       case omap_get (cs_slots st) attempt of
         None \<Rightarrow> (st, None)
       | Some r \<Rightarrow>
           if sl_terminal (slot_at st r) then (st, None)
           else ((set_slot r (\<lambda>s. s\<lparr>sl_in_worker := True,
                    sl_outcome := (sl_outcome s)\<lparr>oc_state := AttemptState.kRunning\<rparr>\<rparr>) st)
                  \<lparr>cs_active := cs_active st + 1\<rparr>, Some r))"

definition worker_done :: "nat \<Rightarrow> CoordinatorState \<Rightarrow> CoordinatorState" where
  "worker_done r st =
     (let st = set_slot r (\<lambda>s. s\<lparr>sl_in_worker := False\<rparr>) st
      in if cs_active st > 0 then st\<lparr>cs_active := cs_active st - 1\<rparr> else st)"

section \<open>Two-phase placement\<close>

record PreparedAttempt =
  pd_attempt :: AttemptId
  pd_request :: PlacementRequest
  pd_decision :: PlacementDecision

definition Prepare_begin :: "nat \<Rightarrow> CoordinatorState \<Rightarrow> CoordinatorState \<times> Status" where
  "Prepare_begin r st =
     (let slot = slot_at st r in
      if sl_terminal slot
      then (st, mk_Status (if oc_state (sl_outcome slot) = AttemptState.kCommitted then kAlreadyCommitted else kAlreadyExists)
              ''attempt already reached a terminal state'')
      else (set_slot r (\<lambda>s. s\<lparr>sl_running := True,
              sl_outcome := (sl_outcome s)\<lparr>oc_state := AttemptState.kRunning\<rparr>\<rparr>) st, Status_Ok))"

text \<open>\<^verbatim>\<open>Commit\<close> of a decision that did not place: the attempt is rejected unless it is terminal already.\<close>

definition Commit_reject :: "nat \<Rightarrow> PlacementDecision \<Rightarrow> CoordinatorState \<Rightarrow> CoordinatorState \<times> bool" where
  "Commit_reject r decision st =
     (if sl_terminal (slot_at st r) then (st, False)
      else (FinalizeLocked r AttemptState.kRejected (de_code decision) (store_decision r decision st), True))"

datatype CommitStep = CommitReturns AttemptOutcome | CommitRefused Status | CommitProceeds

definition Commit_admit :: "nat \<Rightarrow> PlacementDecision \<Rightarrow> CoordinatorState \<Rightarrow> CommitStep" where
  "Commit_admit r decision st =
     (let slot = slot_at st r in
      if sl_terminal slot then CommitReturns (sl_outcome slot)
      else if de_digest (oc_decision (sl_outcome slot)) \<noteq> de_digest decision
        then CommitRefused (mk_Status kInvalidArgument ''prepared decision does not match the decision computed for this attempt'')
      else CommitProceeds)"

text \<open>After a failed boundary: finalize unless somebody else did; \<open>True\<close> when finalized here.\<close>

definition Commit_fail :: "nat \<Rightarrow> StatusCode \<Rightarrow> CoordinatorState \<Rightarrow> CoordinatorState \<times> bool" where
  "Commit_fail r code st =
     (if sl_terminal (slot_at st r) then (st, False)
      else (FinalizeLocked r (StateForFailure code) code st, True))"

section \<open>Control\<close>

definition Await_finish :: "nat \<Rightarrow> CoordinatorState \<Rightarrow> CoordinatorState" where
  "Await_finish r st =
     (if \<not> sl_terminal (slot_at st r) then FinalizeLocked r AttemptState.kFailed StatusCode.kShuttingDown st else st)"

text \<open>\<open>Inr True\<close> asks the caller to journal the cancellation.\<close>

definition Cancel_section :: "AttemptId \<Rightarrow> CoordinatorState \<Rightarrow> CoordinatorState \<times> (nat \<times> bool) Result" where
  "Cancel_section attempt st = (case omap_get (cs_slots st) attempt of
     None \<Rightarrow> (st, Inl (mk_Status kUnknownAttempt ''no such attempt is known to this coordinator''))
   | Some r \<Rightarrow>
       let slot = slot_at st r in
       if sl_terminal slot
         then (st, Inl (mk_Status (if oc_state (sl_outcome slot) = AttemptState.kCommitted then kAlreadyCommitted else kAlreadyExists)
                 ''attempt already reached a terminal state''))
       else if sl_commit_boundary_crossed slot
         then (st, Inl (mk_Status kAlreadyCommitted ''the commit boundary was already crossed; the placement stands''))
       else
         let st = set_slot r (\<lambda>s. s\<lparr>sl_cancel_requested := True\<rparr>) st in
         if \<not> sl_running slot \<and> \<not> sl_in_worker slot then
           let st = FinalizeLocked r AttemptState.kCancelled StatusCode.kCancelled st in
           if sl_journalled_start slot then (st, Inr (r, True))
           else (set_slot r (\<lambda>s. s\<lparr>sl_pending_terminal := True, sl_pending_phase := AttemptPhase.kCancelled,
                   sl_pending_code := StatusCode.kCancelled\<rparr>) st, Inr (r, False))
         else (st, Inr (r, False)))"

definition AdvanceEpoch :: "CoordinatorState \<Rightarrow> CoordinatorState \<times> Status" where
  "AdvanceEpoch st = (case Advance (cs_epoch st) of
     (False, _) \<Rightarrow> (st, mk_Status kArithmeticOverflow ''fabric epoch is exhausted'')
   | (True, epoch) \<Rightarrow> (st\<lparr>cs_epoch := epoch, cs_authority := (cs_authority st)\<lparr>ex_fabric_epoch := epoch\<rparr>\<rparr>, Status_Ok))"

definition SetAuthority :: "AuthorityExpectation \<Rightarrow> CoordinatorState \<Rightarrow> CoordinatorState \<times> Status" where
  "SetAuthority expected st =
     (if ex_fabric_epoch expected < cs_epoch st
      then (st, mk_Status kStaleFabricEpoch ''authority view is bound to a superseded fabric epoch'')
      else (st\<lparr>cs_epoch := ex_fabric_epoch expected, cs_authority := expected\<rparr>, Status_Ok))"

section \<open>Shutdown\<close>

definition shutdown_queued :: "AttemptId \<Rightarrow> CoordinatorState \<times> AttemptId list \<Rightarrow> CoordinatorState \<times> AttemptId list" where
  "shutdown_queued attempt acc = (case omap_get (cs_slots (fst acc)) attempt of
     None \<Rightarrow> acc
   | Some r \<Rightarrow> if sl_terminal (slot_at (fst acc) r) then acc else FinalizeShutdownSlot r acc)"

definition shutdown_slot :: "bool \<Rightarrow> nat \<Rightarrow> CoordinatorState \<times> AttemptId list \<Rightarrow> CoordinatorState \<times> AttemptId list" where
  "shutdown_slot cancel_active r acc =
     (let slot = slot_at (fst acc) r in
      if sl_terminal slot \<or> sl_in_worker slot \<or> sl_commit_boundary_crossed slot then acc
      else if \<not> sl_running slot \<or> cancel_active then FinalizeShutdownSlot r acc else acc)"

text \<open>The first critical section of \<^verbatim>\<open>ShutdownInternal\<close>; \<open>None\<close> when another thread owns the teardown.\<close>

definition Shutdown_begin :: "bool \<Rightarrow> CoordinatorState \<Rightarrow> (CoordinatorState \<times> AttemptId list) option" where
  "Shutdown_begin cancel_active st =
     (if cs_state st \<noteq> RunState.kRunning then None
      else
        let acc = fold shutdown_queued (cs_queue st) (st\<lparr>cs_state := RunState.kShuttingDown\<rparr>, []);
            acc = ((fst acc)\<lparr>cs_queue := [], cs_queue_depth := 0\<rparr>, snd acc)
        in Some (fold (\<lambda>e. shutdown_slot cancel_active (snd e)) (cs_slots (fst acc)) acc))"

definition Shutdown_stop :: "CoordinatorState \<Rightarrow> CoordinatorState" where
  "Shutdown_stop st = st\<lparr>cs_state := RunState.kStopped\<rparr>"

definition Shutdown_close :: "SyncOutcome \<Rightarrow> bool \<Rightarrow> CoordinatorState \<Rightarrow> CoordinatorState \<times> Status" where
  "Shutdown_close answer closed st = (case cs_store st of
     None \<Rightarrow> (st, Status_Ok)
   | Some store \<Rightarrow> (case Close answer closed store of (store, status) \<Rightarrow> (st\<lparr>cs_store := Some store\<rparr>, status)))"

section \<open>Starting\<close>

definition kMaxWorkerThreads :: u32 where "kMaxWorkerThreads = 64"
definition kMaxQueueCapacity :: u64 where "kMaxQueueCapacity = 2 ^ 20"

definition AllocateIncarnation :: "u64 \<Rightarrow> i64 \<Rightarrow> u64 \<Rightarrow> IncarnationId" where
  "AllocateIncarnation process_id now seed =
     (let h = AddTag ''incarnation'' CanonicalHasher_init;
          h = AddU64 process_id h;
          h = AddI64 now h;
          h = AddU64 seed h;
          digest = OfCanonical h;
          v = dg_lo digest XOR dg_hi digest
      in if v = 0 then 1 else v)"

definition bound_options :: "CoordinatorOptions \<Rightarrow> CoordinatorOptions" where
  "bound_options options = options\<lparr>
     co_worker_threads := max 1 (min (co_worker_threads options) kMaxWorkerThreads),
     co_queue_capacity := max 1 (min (co_queue_capacity options) kMaxQueueCapacity),
     co_store := (co_store options)\<lparr>so_max_total_records := max 1 (so_max_total_records (co_store options))\<rparr>,
     co_max_retained_attempts := max 16 (min (co_max_retained_attempts options) kMaxQueueCapacity)\<rparr>"

text \<open>\<^verbatim>\<open>Start\<close>, with the incarnation the process would allocate and the answers of the file system.\<close>

definition Start :: "OpenIo \<Rightarrow> Disk \<Rightarrow> IncarnationId \<Rightarrow> CoordinatorOptions \<Rightarrow> CoordinatorState Result" where
  "Start io disk allocated options =
     (let opts = bound_options options;
          epoch = (if co_initial_epoch options \<noteq> 0 then co_initial_epoch options else 1);
          st = \<lparr>cs_options = opts, cs_store = None,
                cs_authority = \<lparr>ex_path_authority = 0, ex_candidate_set = 0, ex_capacity = 0, ex_policy = 0,
                  ex_qos = 0, ex_fabric_epoch = epoch, ex_evidence = 0\<rparr>,
                cs_epoch = epoch,
                cs_incarnation = (if co_incarnation options \<noteq> 0 then co_incarnation options else allocated),
                cs_state = RunState.kRunning, cs_queue = [], cs_slot_order = [], cs_queue_depth = 0, cs_active = 0,
                cs_slots = [], cs_heap = [], cs_stats = default_CoordinatorStats, cs_next_placement_id = 1,
                cs_latest_in_memory = [], cs_worker_count = co_worker_threads opts\<rparr> in
      if co_store_path opts = [] then Inr st
      else case snd (Open io (co_store_path opts) (co_store opts) disk) of
        Inl s \<Rightarrow> Inl s
      | Inr store \<Rightarrow> Inr (st\<lparr>cs_store := Some store\<rparr>))"

section \<open>Queries\<close>

record RevalidationResult =
  rv_verdict :: RevalidationVerdict
  rv_decision :: PlacementDecision
  rv_previous :: "PlacementRecord option"

definition latest_record :: "CoordinatorState \<Rightarrow> FlowId \<Rightarrow> PlacementRecord option" where
  "latest_record st flow = (case cs_store st of
     Some store \<Rightarrow> FindLatest store flow
   | None \<Rightarrow> omap_get (cs_latest_in_memory st) flow)"

definition Revalidate :: "PlacementRequest \<Rightarrow> CoordinatorState \<Rightarrow> RevalidationResult Result" where
  "Revalidate request st =
     (let limits = co_limits (cs_options st); validation = ValidateRequest request limits in
      if \<not> Status_ok validation then Inl validation
      else
        let decision = Place limits request; previous = latest_record st (rq_flow request);
            verdict = (case previous of
                None \<Rightarrow> RevalidationVerdict.kUnknownFlow
              | Some p \<Rightarrow>
                  if de_outcome decision = Outcome.kStaleInput then RevalidationVerdict.kStaleInput
                  else if \<not> placed decision then RevalidationVerdict.kRejected
                  else if in_path (the (de_intent decision)) = in_path (pr_intent p) \<and>
                          in_path_authority (the (de_intent decision)) = in_path_authority (pr_intent p)
                    then RevalidationVerdict.kStillCurrent
                  else RevalidationVerdict.kMustMove)
        in Inr \<lparr>rv_verdict = verdict, rv_decision = decision, rv_previous = previous\<rparr>)"

definition Coordinator_LatestPlacements :: "CoordinatorState \<Rightarrow> PlacementRecord list" where
  "Coordinator_LatestPlacements st = (case cs_store st of
     Some store \<Rightarrow> LatestPlacements store
   | None \<Rightarrow> map snd (cs_latest_in_memory st))"

definition Coordinator_recovery :: "CoordinatorState \<Rightarrow> RecoveryReport" where
  "Coordinator_recovery st = (case cs_store st of
     Some store \<Rightarrow> ps_recovery store
   | None \<Rightarrow> default_RecoveryReport\<lparr>rp_liveness_restored := False,
       rp_detail := ''in-memory coordination: no durable state exists to recover''\<rparr>)"

definition Coordinator_stats :: "CoordinatorState \<Rightarrow> CoordinatorStats" where
  "Coordinator_stats st = (cs_stats st)\<lparr>cn_queued := cs_queue_depth st, cn_active := cs_active st\<rparr>"

end
