(* ===== verification/Flow_Threads.thy ===== *)
theory Flow_Threads
  imports Flow_Coordinator
begin

text \<open>
  The threads of the coordinator (\<^verbatim>\<open>src/runtime.cpp\<close>). A task is a thread between two critical sections:
  what it will do next, with the slot it holds. \<open>run_task\<close> executes the next section; it is \<open>None\<close> while the
  thread waits for \<^verbatim>\<open>commit_mu\<close> or for a condition. \<open>begin_call\<close> is the first section of a public
  operation or of a worker iteration. Any task may run next, so every interleaving of the sections is a run.
\<close>

section \<open>Tasks\<close>

text \<open>Who runs the commit, and what a registration is for.\<close>

datatype Runner = Worker | Caller
datatype Purpose = ForQueue | ForPrepare

datatype Task =
  JournalStart nat Purpose
| MarkStarted nat Purpose
| JournalPending nat AttemptPhase StatusCode Purpose
| Enqueue nat
| PrepareBegin nat
| PrepareDecide nat
| CommitStart nat PlacementDecision
| WorkerDecide nat
| WorkerReject nat PlacementDecision
| Boundary nat Runner
| InBoundary nat Runner
| StoreCommit nat Runner PlacementDecision
| NoteCommit nat Runner PlacementRecord
| JournalCommit nat Runner
| FinishCommit nat Runner
| FailedCommit nat Runner StatusCode
| JournalOutcome nat Runner AttemptPhase StatusCode
| WorkerDone nat
| AwaitOutcome nat
| ShutdownJournal "AttemptId list"
| ShutdownJoin
| ShutdownClose SyncOutcome bool
| ShutdownWait
| DrainWait

text \<open>What the thread does after registering, and after its commit is over.\<close>

fun registered :: "nat \<Rightarrow> Purpose \<Rightarrow> Task list" where
  "registered r ForQueue = [Enqueue r]"
| "registered r ForPrepare = [PrepareBegin r]"

fun finished :: "nat \<Rightarrow> Runner \<Rightarrow> Task list" where
  "finished r Worker = [WorkerDone r]"
| "finished r Caller = []"

section \<open>One critical section\<close>

fun run_task :: "Env \<Rightarrow> Task \<Rightarrow> CoordinatorState \<Rightarrow> bool \<Rightarrow> (CoordinatorState \<times> bool \<times> Task list) option" where
  "run_task env (JournalStart r for) st held =
     (case RegisterAttempt_journal env r st of (st, status) \<Rightarrow>
        Some (st, held, if Status_ok status then (if cs_store st = None then registered r for else [MarkStarted r for]) else []))"
| "run_task env (MarkStarted r for) st held =
     (case RegisterAttempt_mark r st of (st, pending) \<Rightarrow>
        Some (st, held, case pending of None \<Rightarrow> registered r for
                        | Some (phase, code) \<Rightarrow> [JournalPending r phase code for]))"
| "run_task env (JournalPending r phase code for) st held =
     Some (JournalTerminal env r phase code st, held, registered r for)"
| "run_task env (Enqueue r) st held = Some (fst (Submit_enqueue r st), held, [])"
| "run_task env (PrepareBegin r) st held =
     (case Prepare_begin r st of (st, status) \<Rightarrow> Some (st, held, if Status_ok status then [PrepareDecide r] else []))"
| "run_task env (PrepareDecide r) st held = Some (store_decision r (ComputeDecision st r) st, held, [])"
| "run_task env (CommitStart r decision) st held =
     (if \<not> placed decision then
        (case Commit_reject r decision st of (st, here) \<Rightarrow>
           Some (st, held, if here then [JournalOutcome r Caller AttemptPhase.kRejected (de_code decision)] else []))
      else case Commit_admit r decision st of
        CommitProceeds \<Rightarrow> Some (st, held, [Boundary r Caller])
      | _ \<Rightarrow> Some (st, held, []))"
| "run_task env (WorkerDecide r) st held =
     (let decision = ComputeDecision st r in
      if sl_terminal (slot_at st r) then Some (st, held, [WorkerDone r])
      else Some (store_decision r decision st, held,
             if placed decision then [Boundary r Worker] else [WorkerReject r decision]))"
| "run_task env (WorkerReject r decision) st held =
     Some (FinalizeLocked r AttemptState.kRejected (de_code decision) st, held,
           [JournalOutcome r Worker AttemptPhase.kRejected (de_code decision)])"
| "run_task env (Boundary r who) st held =
     (if held then None
      else case CommitSlot_check r st of (st, status) \<Rightarrow>
        if Status_ok status then Some (st, True, [InBoundary r who])
        else Some (st, False, [FailedCommit r who (st_code status)]))"
| "run_task env (InBoundary r who) st held =
     Some (st, held, [StoreCommit r who (oc_decision (sl_outcome (slot_at st r)))])"
| "run_task env (StoreCommit r who decision) st held =
     (case CommitSlot_store env r decision st of
        (st, Inr record) \<Rightarrow> Some (st, held, [NoteCommit r who record])
      | (st, Inl status) \<Rightarrow> Some (st, False, [FailedCommit r who (st_code status)]))"
| "run_task env (NoteCommit r who record) st held = Some (CommitSlot_note r record st, held, [JournalCommit r who])"
| "run_task env (JournalCommit r who) st held =
     Some (JournalTerminal env r AttemptPhase.kCommitted kOk st, held, [FinishCommit r who])"
| "run_task env (FinishCommit r who) st held =
     Some (FinalizeLocked r AttemptState.kCommitted kOk st, False, finished r who)"
| "run_task env (FailedCommit r who code) st held =
     (case Commit_fail r code st of (st, here) \<Rightarrow>
        Some (st, held, if here \<or> who = Worker
                        then [JournalOutcome r who (PhaseForState (StateForFailure code)) code] else []))"
| "run_task env (JournalOutcome r who phase code) st held =
     Some (JournalTerminal env r phase code st, held, finished r who)"
| "run_task env (WorkerDone r) st held = Some (worker_done r st, held, [])"
| "run_task env (AwaitOutcome r) st held =
     (if sl_terminal (slot_at st r) \<or> cs_state st = RunState.kStopped then Some (Await_finish r st, held, []) else None)"
| "run_task env (ShutdownJournal []) st held = Some (st, held, [ShutdownJoin])"
| "run_task env (ShutdownJournal (attempt # rest)) st held =
     Some (case omap_get (cs_slots st) attempt of
             None \<Rightarrow> st
           | Some r \<Rightarrow> JournalTerminal env r AttemptPhase.kCancelled StatusCode.kShuttingDown st,
           held, [ShutdownJournal rest])"
| "run_task env ShutdownJoin st held =
     (if cs_active st = 0 then Some (Shutdown_stop st, held, [ShutdownClose (ai_sync (ev_io env)) (ai_write_ok (ev_io env))]) else None)"
| "run_task env (ShutdownClose answer closed) st held = Some (fst (Shutdown_close answer closed st), held, [])"
| "run_task env ShutdownWait st held = (if cs_state st = RunState.kStopped then Some (st, held, []) else None)"
| "run_task env DrainWait st held = (if cs_queue_depth st = 0 \<and> cs_active st = 0 then Some (st, held, []) else None)"

text \<open>The public operations. \<open>Pick\<close> is a worker that takes an entry of the queue.\<close>

datatype Call =
  DoSubmit PlacementRequest AttemptId
| DoPrepare PlacementRequest AttemptId
| DoCommit PreparedAttempt
| DoCancel AttemptId
| DoAwait AttemptId
| DoAdvanceEpoch
| DoSetAuthority AuthorityExpectation
| DoShutdown bool
| DoDrain
| Pick

definition register_tasks :: "Purpose \<Rightarrow> nat Result \<Rightarrow> Task list" where
  "register_tasks for result = (case result of Inl _ \<Rightarrow> [] | Inr r \<Rightarrow> [JournalStart r for])"

fun begin_call :: "Call \<Rightarrow> CoordinatorState \<Rightarrow> bool \<Rightarrow> (CoordinatorState \<times> Task list) option" where
  "begin_call (DoSubmit request attempt) st held =
     (case RegisterAttempt_admit request attempt True st of (st, result) \<Rightarrow> Some (st, register_tasks ForQueue result))"
| "begin_call (DoPrepare request attempt) st held =
     (case RegisterAttempt_admit request attempt False st of (st, result) \<Rightarrow> Some (st, register_tasks ForPrepare result))"
| "begin_call (DoCommit prepared) st held =
     (case omap_get (cs_slots st) (pd_attempt prepared) of
        None \<Rightarrow> Some (st, [])
      | Some r \<Rightarrow> Some (st, [CommitStart r (pd_decision prepared)]))"
| "begin_call (DoCancel attempt) st held =
     (case Cancel_section attempt st of
        (st, Inr (r, True)) \<Rightarrow> Some (st, [JournalOutcome r Caller AttemptPhase.kCancelled StatusCode.kCancelled])
      | (st, _) \<Rightarrow> Some (st, []))"
| "begin_call (DoAwait attempt) st held =
     (case omap_get (cs_slots st) attempt of None \<Rightarrow> Some (st, []) | Some r \<Rightarrow> Some (st, [AwaitOutcome r]))"
| "begin_call DoAdvanceEpoch st held = (if held then None else Some (fst (AdvanceEpoch st), []))"
| "begin_call (DoSetAuthority expected) st held = (if held then None else Some (fst (SetAuthority expected st), []))"
| "begin_call (DoShutdown cancel_active) st held =
     (case Shutdown_begin cancel_active st of
        None \<Rightarrow> Some (st, if cs_state st = RunState.kStopped then [] else [ShutdownWait])
      | Some (st, cancelled) \<Rightarrow> Some (st, [ShutdownJournal cancelled]))"
| "begin_call DoDrain st held = Some (st, [DrainWait])"
| "begin_call Pick st held =
     (if cs_queue st = [] \<or> \<not> unat (cs_active st) < unat (cs_worker_count st) then None
      else case worker_pick st of (st, picked) \<Rightarrow>
        Some (st, case picked of None \<Rightarrow> [] | Some r \<Rightarrow> [WorkerDecide r]))"

section \<open>Runs\<close>

record Machine =
  mc_state :: CoordinatorState
  mc_commit_held :: bool
  mc_tasks :: "Task list"

inductive step :: "Machine \<Rightarrow> Machine \<Rightarrow> bool" where
  call: "begin_call c (mc_state m) (mc_commit_held m) = Some (st, ts) \<Longrightarrow>
    step m (m\<lparr>mc_state := st, mc_tasks := mc_tasks m @ ts\<rparr>)"
| task: "mc_tasks m = before @ t # after \<Longrightarrow> run_task env t (mc_state m) (mc_commit_held m) = Some (st, held, ts) \<Longrightarrow>
    step m \<lparr>mc_state = st, mc_commit_held = held, mc_tasks = before @ ts @ after\<rparr>"

inductive reachable :: "Machine \<Rightarrow> bool" where
  start: "Start io disk allocated options = Inr st \<Longrightarrow>
    reachable \<lparr>mc_state = st, mc_commit_held = False, mc_tasks = []\<rparr>"
| step: "reachable m \<Longrightarrow> step m m' \<Longrightarrow> reachable m'"

inductive_cases stepE: "step m m'"

end
