(* ===== verification/Flow_Slots.thy ===== *)
theory Flow_Slots
  imports Flow_Threads
begin

text \<open>
  What the critical sections of the coordinator may do to the slots. The relation \<open>change\<close> lists the
  elementary updates with their guards; every section is a sequence of them (\<open>run_task_changes\<close>,
  \<open>begin_call_changes\<close>), so an invariant of the slots is proved once per elementary update.
\<close>

section \<open>Elementary updates\<close>

text \<open>An update that leaves the fate of the slot alone; it may mark it running.\<close>

definition quiet :: "Slot \<Rightarrow> Slot \<Rightarrow> bool" where
  "quiet s s' \<longleftrightarrow> sl_attempt s' = sl_attempt s \<and> sl_request s' = sl_request s \<and>
     sl_request_digest s' = sl_request_digest s \<and> sl_terminal s' = sl_terminal s \<and>
     sl_commit_boundary_crossed s' = sl_commit_boundary_crossed s \<and>
     sl_cancel_requested s' = sl_cancel_requested s \<and> (sl_running s \<longrightarrow> sl_running s') \<and>
     oc_attempt (sl_outcome s') = oc_attempt (sl_outcome s) \<and> oc_code (sl_outcome s') = oc_code (sl_outcome s) \<and>
     oc_decision (sl_outcome s') = oc_decision (sl_outcome s) \<and>
     (oc_state (sl_outcome s') = oc_state (sl_outcome s) \<or>
      \<not> sl_terminal s \<and> oc_state (sl_outcome s') = AttemptState.kRunning)"

definition tallies :: "CoordinatorStats \<Rightarrow> u64 list" where
  "tallies s = [cn_accepted s, cn_completed s, cn_placed s, cn_rejected s, cn_cancelled s, cn_fenced s, cn_failed s]"

text \<open>The part of the state that slots, fences and counters are about.\<close>

definition same_slots :: "CoordinatorState \<Rightarrow> CoordinatorState \<Rightarrow> bool" where
  "same_slots st st' \<longleftrightarrow> cs_heap st' = cs_heap st \<and> cs_slots st' = cs_slots st \<and>
     cs_slot_order st' = cs_slot_order st \<and> cs_options st' = cs_options st \<and> cs_epoch st' = cs_epoch st \<and>
     cs_authority st' = cs_authority st \<and> cs_worker_count st' = cs_worker_count st \<and>
     tallies (cs_stats st') = tallies (cs_stats st)"

definition may_cross :: "CoordinatorState \<Rightarrow> nat \<Rightarrow> bool" where
  "may_cross st r \<longleftrightarrow> \<not> sl_terminal (slot_at st r) \<and> \<not> sl_cancel_requested (slot_at st r) \<and>
     cs_state st = RunState.kRunning \<and> ex_fabric_epoch (rq_expected (sl_request (slot_at st r))) = cs_epoch st \<and>
     AuthorityMatches (cs_authority st) (rq_expected (sl_request (slot_at st r)))"

inductive change :: "CoordinatorState \<Rightarrow> CoordinatorState \<Rightarrow> bool" where
  quiet: "r < length (cs_heap st) \<Longrightarrow> quiet (slot_at st r) (f (slot_at st r)) \<Longrightarrow> change st (set_slot r f st)"
| cancel: "r < length (cs_heap st) \<Longrightarrow> change st (set_slot r (\<lambda>s. s\<lparr>sl_cancel_requested := True\<rparr>) st)"
| final: "r < length (cs_heap st) \<Longrightarrow> state \<noteq> AttemptState.kQueued \<Longrightarrow> state \<noteq> AttemptState.kRunning \<Longrightarrow>
    (state = AttemptState.kCommitted \<Longrightarrow> sl_commit_boundary_crossed (slot_at st r)) \<Longrightarrow>
    change st (FinalizeLocked r state code st)"
| decide: "r < length (cs_heap st) \<Longrightarrow> change st (store_decision r (ComputeDecision st r) st)"
| reject: "r < length (cs_heap st) \<Longrightarrow> \<not> placed d \<Longrightarrow> change st (fst (Commit_reject r d st))"
| cross: "r < length (cs_heap st) \<Longrightarrow> may_cross st r \<Longrightarrow>
    change st (set_slot r (\<lambda>s. s\<lparr>sl_commit_boundary_crossed := True\<rparr>) st)"
| admit: "attempt \<noteq> 0 \<Longrightarrow> rq_attempt request = attempt \<Longrightarrow> omap_get (cs_slots st) attempt = None \<Longrightarrow>
    change st (admit_slot request attempt digest st)"
| other: "same_slots st st' \<Longrightarrow> change st st'"

abbreviation changes :: "CoordinatorState \<Rightarrow> CoordinatorState \<Rightarrow> bool" where
  "changes \<equiv> change\<^sup>*\<^sup>*"

lemmas changes_one = r_into_rtranclp [of change]

lemma changes_refl [simp, intro]: "changes st st"
  by simp

lemma changes_then: "changes st st1 \<Longrightarrow> change st1 st2 \<Longrightarrow> changes st st2"
  by (rule rtranclp.rtrancl_into_rtrancl)

lemma same_slots_refl [simp]: "same_slots st st"
  by (simp add: same_slots_def)

lemma changes_other: "same_slots st st' \<Longrightarrow> changes st st'"
  by (blast intro: changes_one change.other)

section \<open>Every section is a sequence of elementary updates\<close>

lemma length_set_slot [simp]: "length (cs_heap (set_slot r f st)) = length (cs_heap st)"
  by (simp add: set_slot_def)

lemma set_slot_at [simp]: "r < length (cs_heap st) \<Longrightarrow> slot_at (set_slot r f st) r = f (slot_at st r)"
  by (simp add: set_slot_def)

lemma set_slot_fields [simp]:
  "cs_slots (set_slot r f st) = cs_slots st" "cs_slot_order (set_slot r f st) = cs_slot_order st"
  "cs_options (set_slot r f st) = cs_options st" "cs_epoch (set_slot r f st) = cs_epoch st"
  "cs_authority (set_slot r f st) = cs_authority st" "cs_worker_count (set_slot r f st) = cs_worker_count st"
  "cs_stats (set_slot r f st) = cs_stats st" "cs_state (set_slot r f st) = cs_state st"
  "cs_store (set_slot r f st) = cs_store st" "cs_latest_in_memory (set_slot r f st) = cs_latest_in_memory st"
  "cs_queue (set_slot r f st) = cs_queue st" "cs_queue_depth (set_slot r f st) = cs_queue_depth st"
  "cs_active (set_slot r f st) = cs_active st" "cs_incarnation (set_slot r f st) = cs_incarnation st"
  "cs_next_placement_id (set_slot r f st) = cs_next_placement_id st"
  by (simp_all add: set_slot_def)

lemma bump_fields [simp]:
  "cs_heap (bump f st) = cs_heap st" "cs_slots (bump f st) = cs_slots st"
  "cs_slot_order (bump f st) = cs_slot_order st"
  "cs_options (bump f st) = cs_options st" "cs_epoch (bump f st) = cs_epoch st"
  "cs_authority (bump f st) = cs_authority st" "cs_worker_count (bump f st) = cs_worker_count st"
  "cs_stats (bump f st) = f (cs_stats st)" "cs_state (bump f st) = cs_state st"
  "cs_store (bump f st) = cs_store st" "cs_latest_in_memory (bump f st) = cs_latest_in_memory st"
  "cs_queue (bump f st) = cs_queue st" "cs_queue_depth (bump f st) = cs_queue_depth st"
  "cs_active (bump f st) = cs_active st" "cs_incarnation (bump f st) = cs_incarnation st"
  by (simp_all add: bump_def)

lemma ReapRetainedSlots_fields [simp]:
  "cs_heap (ReapRetainedSlots st) = cs_heap st" "cs_options (ReapRetainedSlots st) = cs_options st"
  "cs_epoch (ReapRetainedSlots st) = cs_epoch st" "cs_authority (ReapRetainedSlots st) = cs_authority st"
  "cs_worker_count (ReapRetainedSlots st) = cs_worker_count st" "cs_stats (ReapRetainedSlots st) = cs_stats st"
  "cs_state (ReapRetainedSlots st) = cs_state st" "cs_store (ReapRetainedSlots st) = cs_store st"
  "cs_latest_in_memory (ReapRetainedSlots st) = cs_latest_in_memory st"
  "cs_queue (ReapRetainedSlots st) = cs_queue st" "cs_queue_depth (ReapRetainedSlots st) = cs_queue_depth st"
  "cs_active (ReapRetainedSlots st) = cs_active st"
  by (simp_all add: ReapRetainedSlots_def split: prod.split)

lemma FinalizeLocked_fields [simp]:
  "length (cs_heap (FinalizeLocked r s c st)) = length (cs_heap st)"
  "cs_slots (FinalizeLocked r s c st) = cs_slots st" "cs_slot_order (FinalizeLocked r s c st) = cs_slot_order st"
  "cs_options (FinalizeLocked r s c st) = cs_options st" "cs_epoch (FinalizeLocked r s c st) = cs_epoch st"
  "cs_authority (FinalizeLocked r s c st) = cs_authority st"
  "cs_worker_count (FinalizeLocked r s c st) = cs_worker_count st" "cs_state (FinalizeLocked r s c st) = cs_state st"
  "cs_store (FinalizeLocked r s c st) = cs_store st"
  "cs_latest_in_memory (FinalizeLocked r s c st) = cs_latest_in_memory st"
  "cs_queue (FinalizeLocked r s c st) = cs_queue st" "cs_queue_depth (FinalizeLocked r s c st) = cs_queue_depth st"
  "cs_active (FinalizeLocked r s c st) = cs_active st"
  by (simp_all add: FinalizeLocked_def)

lemma store_decision_fields [simp]:
  "length (cs_heap (store_decision r d st)) = length (cs_heap st)"
  "cs_slots (store_decision r d st) = cs_slots st" "cs_state (store_decision r d st) = cs_state st"
  "cs_epoch (store_decision r d st) = cs_epoch st" "cs_authority (store_decision r d st) = cs_authority st"
  "cs_store (store_decision r d st) = cs_store st"
  "cs_latest_in_memory (store_decision r d st) = cs_latest_in_memory st"
  "cs_queue (store_decision r d st) = cs_queue st" "cs_queue_depth (store_decision r d st) = cs_queue_depth st"
  "cs_active (store_decision r d st) = cs_active st"
  by (simp_all add: store_decision_def)

lemma quietI:
  "r < length (cs_heap st) \<Longrightarrow> quiet (slot_at st r) (f (slot_at st r)) \<Longrightarrow> changes st (set_slot r f st)"
  by (blast intro: changes_one change.quiet)

lemma JournalTerminal_same [simp]: "same_slots st (JournalTerminal env r phase code st)"
  by (simp add: JournalTerminal_def same_slots_def Let_def split: option.split)

lemma CommitRecord_same [simp]: "same_slots st (fst (CommitRecord env intent delta d e st))"
  by (simp add: CommitRecord_def same_slots_def Let_def split: option.split prod.split)

lemma CommitSlot_store_same [simp]: "same_slots st (fst (CommitSlot_store env r d st))"
  by (simp add: CommitSlot_store_def split: option.split)

lemma Shutdown_close_same [simp]: "same_slots st (fst (Shutdown_close answer closed st))"
  by (simp add: Shutdown_close_def same_slots_def split: option.split prod.split)

lemma Shutdown_stop_same [simp]: "same_slots st (Shutdown_stop st)"
  by (simp add: Shutdown_stop_def same_slots_def)

lemma Finalize_changes:
  assumes "r < length (cs_heap st)" "state \<notin> {AttemptState.kQueued, AttemptState.kRunning, AttemptState.kCommitted}"
  shows "changes st (FinalizeLocked r state code st)"
  using assms by (auto intro!: changes_one change.final)

lemma FinalizeShutdownSlot_changes:
  assumes "r < length (cs_heap st)"
  shows "changes st (fst (FinalizeShutdownSlot r (st, journal)))"
    and "length (cs_heap (fst (FinalizeShutdownSlot r (st, journal)))) = length (cs_heap st)"
    and "cs_slots (fst (FinalizeShutdownSlot r (st, journal))) = cs_slots st"
proof -
  let ?st1 = "set_slot r (\<lambda>s. s\<lparr>sl_cancel_requested := True\<rparr>) st"
  let ?st2 = "FinalizeLocked r AttemptState.kCancelled StatusCode.kShuttingDown ?st1"
  have "changes st ?st1" using assms by (blast intro: changes_one change.cancel)
  also have "changes ?st1 ?st2" using assms by (simp add: Finalize_changes)
  finally have "changes st ?st2" .
  moreover have "changes ?st2 (set_slot r (\<lambda>s. s\<lparr>sl_pending_terminal := True,
      sl_pending_phase := AttemptPhase.kCancelled, sl_pending_code := StatusCode.kShuttingDown\<rparr>) ?st2)"
    using assms by (intro quietI) (simp_all add: quiet_def)
  ultimately show "changes st (fst (FinalizeShutdownSlot r (st, journal)))"
    by (auto simp: FinalizeShutdownSlot_def Let_def intro: rtranclp_trans)
qed (simp_all add: FinalizeShutdownSlot_def Let_def)

text \<open>The sections that the public operations and the tasks run.\<close>

definition refs_ok :: "CoordinatorState \<Rightarrow> bool" where
  "refs_ok st \<longleftrightarrow> (\<forall>e \<in> set (cs_slots st). snd e < length (cs_heap st))"

lemma refs_okD: "refs_ok st \<Longrightarrow> omap_get (cs_slots st) a = Some r \<Longrightarrow> r < length (cs_heap st)"
  by (force simp: refs_ok_def omap_get_def dest: map_of_SomeD)

lemma shutdown_queued_changes:
  assumes "refs_ok (fst acc)"
  shows "changes (fst acc) (fst (shutdown_queued a acc)) \<and> cs_slots (fst (shutdown_queued a acc)) = cs_slots (fst acc) \<and>
    length (cs_heap (fst (shutdown_queued a acc))) = length (cs_heap (fst acc))"
  using assms FinalizeShutdownSlot_changes [of _ "fst acc" "snd acc"]
  by (auto simp: shutdown_queued_def dest: refs_okD split: option.split)

lemma shutdown_slot_changes:
  assumes "r < length (cs_heap (fst acc))"
  shows "changes (fst acc) (fst (shutdown_slot c r acc)) \<and> cs_slots (fst (shutdown_slot c r acc)) = cs_slots (fst acc) \<and>
    length (cs_heap (fst (shutdown_slot c r acc))) = length (cs_heap (fst acc))"
  using assms FinalizeShutdownSlot_changes [of r "fst acc" "snd acc"]
  by (auto simp: shutdown_slot_def Let_def)

lemma shutdown_fold_queue:
  assumes "refs_ok (fst acc)"
  shows "changes (fst acc) (fst (fold shutdown_queued q acc)) \<and>
    cs_slots (fst (fold shutdown_queued q acc)) = cs_slots (fst acc) \<and>
    length (cs_heap (fst (fold shutdown_queued q acc))) = length (cs_heap (fst acc))"
  using assms
proof (induction q arbitrary: acc)
  case (Cons a q)
  have "refs_ok (fst (shutdown_queued a acc))"
    using Cons.prems shutdown_queued_changes [OF Cons.prems, of a] by (simp add: refs_ok_def)
  from Cons.IH [OF this] shutdown_queued_changes [OF Cons.prems, of a] show ?case
    by (auto intro: rtranclp_trans)
qed simp

lemma shutdown_fold_slots:
  assumes "\<forall>e \<in> set m. snd e < length (cs_heap (fst acc))"
  shows "changes (fst acc) (fst (fold (\<lambda>e. shutdown_slot c (snd e)) m acc)) \<and>
    cs_slots (fst (fold (\<lambda>e. shutdown_slot c (snd e)) m acc)) = cs_slots (fst acc) \<and>
    length (cs_heap (fst (fold (\<lambda>e. shutdown_slot c (snd e)) m acc))) = length (cs_heap (fst acc))"
  using assms
proof (induction m arbitrary: acc)
  case (Cons e m)
  let ?acc = "shutdown_slot c (snd e) acc"
  from Cons.prems have "snd e < length (cs_heap (fst acc))" by simp
  note 1 = shutdown_slot_changes [OF this, of c]
  from Cons.IH [of ?acc] 1 Cons.prems show ?case by (auto intro: rtranclp_trans)
qed simp

lemma Shutdown_begin_changes:
  assumes "refs_ok st" "Shutdown_begin c st = Some (st', cancelled)"
  shows "changes st st'"
proof -
  define a0 where "a0 = (st\<lparr>cs_state := RunState.kShuttingDown\<rparr>, [] :: AttemptId list)"
  define a1 where "a1 = fold shutdown_queued (cs_queue st) a0"
  define a2 where "a2 = ((fst a1)\<lparr>cs_queue := [], cs_queue_depth := 0\<rparr>, snd a1)"
  from assms(1) have "refs_ok (fst a0)" by (simp add: refs_ok_def a0_def)
  note q = shutdown_fold_queue [OF this, of "cs_queue st", folded a1_def]
  have 0: "changes st (fst a0)" by (rule changes_other) (simp add: same_slots_def a0_def)
  have 1: "changes (fst a0) (fst a1)" using q by blast
  have 2: "changes (fst a1) (fst a2)" by (rule changes_other) (simp add: same_slots_def a2_def)
  have "\<forall>e \<in> set (cs_slots (fst a2)). snd e < length (cs_heap (fst a2))"
    using q assms(1) by (simp add: refs_ok_def a2_def a0_def)
  from shutdown_fold_slots [OF this]
  have 3: "changes (fst a2) (fst (fold (\<lambda>e. shutdown_slot c (snd e)) (cs_slots (fst a2)) a2))" by blast
  have "fold (\<lambda>e. shutdown_slot c (snd e)) (cs_slots (fst a2)) a2 = (st', cancelled)"
    using assms(2) by (simp add: Shutdown_begin_def Let_def a0_def a1_def a2_def split: if_splits)
  with 0 1 2 3 show ?thesis by (metis fst_conv rtranclp_trans)
qed

lemma Cancel_section_changes:
  assumes "refs_ok st"
  shows "changes st (fst (Cancel_section a st))"
proof (cases "omap_get (cs_slots st) a")
  case (Some r)
  with assms have r: "r < length (cs_heap st)" by (rule refs_okD)
  let ?st1 = "set_slot r (\<lambda>s. s\<lparr>sl_cancel_requested := True\<rparr>) st"
  let ?st2 = "FinalizeLocked r AttemptState.kCancelled StatusCode.kCancelled ?st1"
  have 1: "changes st ?st1" using r by (blast intro: changes_one change.cancel)
  moreover have "changes ?st1 ?st2" using r by (simp add: Finalize_changes)
  ultimately have 2: "changes st ?st2" by (rule rtranclp_trans)
  moreover have "changes ?st2 (set_slot r (\<lambda>s. s\<lparr>sl_pending_terminal := True,
      sl_pending_phase := AttemptPhase.kCancelled, sl_pending_code := StatusCode.kCancelled\<rparr>) ?st2)"
    using r by (intro quietI) (simp_all add: quiet_def)
  ultimately have "changes st (set_slot r (\<lambda>s. s\<lparr>sl_pending_terminal := True,
      sl_pending_phase := AttemptPhase.kCancelled, sl_pending_code := StatusCode.kCancelled\<rparr>) ?st2)"
    by (rule rtranclp_trans)
  with Some 1 2 show ?thesis by (simp add: Cancel_section_def Let_def)
qed (simp add: Cancel_section_def)

lemma worker_pick_changes:
  assumes "refs_ok st"
  shows "changes st (fst (worker_pick st))"
proof (cases "cs_queue st")
  case (Cons a q)
  let ?st1 = "st\<lparr>cs_queue := q, cs_queue_depth := cs_queue_depth st - 1\<rparr>"
  let ?f = "\<lambda>s. s\<lparr>sl_in_worker := True, sl_outcome := (sl_outcome s)\<lparr>oc_state := AttemptState.kRunning\<rparr>\<rparr>"
  have 1: "changes st ?st1" by (rule changes_other) (simp add: same_slots_def)
  have "changes st ((set_slot r ?f ?st1)\<lparr>cs_active := cs_active st + 1\<rparr>)"
    if "omap_get (cs_slots st) a = Some r" "\<not> sl_terminal (slot_at st r)" for r
  proof -
    note 1
    also have "changes ?st1 (set_slot r ?f ?st1)"
      using that refs_okD [OF assms that(1)] by (intro quietI) (simp_all add: quiet_def)
    also have "changes (set_slot r ?f ?st1) ((set_slot r ?f ?st1)\<lparr>cs_active := cs_active st + 1\<rparr>)"
      by (rule changes_other) (simp add: same_slots_def)
    finally show ?thesis .
  qed
  with 1 Cons show ?thesis by (auto simp: worker_pick_def Let_def split: option.split)
qed (simp add: worker_pick_def)

lemma RegisterAttempt_admit_changes:
  "changes st (fst (RegisterAttempt_admit request a enforce st))"
proof -
  let ?rq = "request\<lparr>rq_attempt := a\<rparr>"
  let ?st1 = "bump (\<lambda>s. s\<lparr>cn_submitted := cn_submitted s + 1\<rparr>) st"
  have bumped: "changes st (bump f st)" "changes st (bump g (bump f st))"
    if "\<And>s. tallies (f s) = tallies s" "\<And>s. tallies (g s) = tallies s" for f g
    using that by (auto intro!: changes_other simp: same_slots_def)
  have "changes st (admit_slot ?rq a d ?st1)" if "a \<noteq> 0" "omap_get (cs_slots st) a = None" for d
  proof -
    have "changes st ?st1" by (rule bumped(1)) (simp_all add: tallies_def)
    moreover have "change ?st1 (admit_slot ?rq a d ?st1)" using that by (intro change.admit) simp_all
    ultimately show ?thesis by (rule changes_then)
  qed
  then show ?thesis
    by (simp add: RegisterAttempt_admit_def Let_def tallies_def bumped split: option.split)
qed

section \<open>Tasks and calls\<close>

fun task_refs :: "Task \<Rightarrow> nat set" where
  "task_refs (JournalStart r for) = {r}"
| "task_refs (MarkStarted r for) = {r}"
| "task_refs (JournalPending r phase code for) = {r}"
| "task_refs (Enqueue r) = {r}"
| "task_refs (PrepareBegin r) = {r}"
| "task_refs (PrepareDecide r) = {r}"
| "task_refs (CommitStart r decision) = {r}"
| "task_refs (WorkerDecide r) = {r}"
| "task_refs (WorkerReject r decision) = {r}"
| "task_refs (Boundary r who) = {r}"
| "task_refs (InBoundary r who) = {r}"
| "task_refs (StoreCommit r who decision) = {r}"
| "task_refs (NoteCommit r who record) = {r}"
| "task_refs (JournalCommit r who) = {r}"
| "task_refs (FinishCommit r who) = {r}"
| "task_refs (FailedCommit r who code) = {r}"
| "task_refs (JournalOutcome r who phase code) = {r}"
| "task_refs (WorkerDone r) = {r}"
| "task_refs (AwaitOutcome r) = {r}"
| "task_refs (ShutdownJournal attempts) = {}"
| "task_refs ShutdownJoin = {}"
| "task_refs (ShutdownClose answer closed) = {}"
| "task_refs ShutdownWait = {}"
| "task_refs DrainWait = {}"

text \<open>The program points between the crossing and the end of \<^verbatim>\<open>CommitSlot\<close>, where \<^verbatim>\<open>commit_mu\<close> is held.\<close>

fun in_region :: "Task \<Rightarrow> bool" where
  "in_region (InBoundary r who) = True"
| "in_region (StoreCommit r who decision) = True"
| "in_region (NoteCommit r who record) = True"
| "in_region (JournalCommit r who) = True"
| "in_region (FinishCommit r who) = True"
| "in_region _ = False"

lemma CommitSlot_check_changes:
  assumes "r < length (cs_heap st)"
  shows "changes st (fst (CommitSlot_check r st))"
proof -
  have "changes st (set_slot r (\<lambda>s. s\<lparr>sl_commit_boundary_crossed := True\<rparr>) st)" if "may_cross st r"
    using assms that by (intro changes_one change.cross)
  then show ?thesis by (simp add: CommitSlot_check_def may_cross_def Let_def)
qed

lemma store_decision_changes:
  assumes "r < length (cs_heap st)"
  shows "changes st (store_decision r (ComputeDecision st r) st)"
  using assms by (intro changes_one change.decide)

lemma RegisterAttempt_journal_changes:
  assumes "r < length (cs_heap st)"
  shows "changes st (fst (RegisterAttempt_journal env r st))"
proof -
  have "changes st (FinalizeLocked r AttemptState.kRejected code (st\<lparr>cs_store := store\<rparr>))" for code store
  proof -
    have "changes st (st\<lparr>cs_store := store\<rparr>)" by (rule changes_other) (simp add: same_slots_def)
    also have "changes (st\<lparr>cs_store := store\<rparr>) (FinalizeLocked r AttemptState.kRejected code (st\<lparr>cs_store := store\<rparr>))"
      using assms by (intro Finalize_changes) simp_all
    finally show ?thesis .
  qed
  moreover have "changes st (st\<lparr>cs_store := store\<rparr>)" for store
    by (rule changes_other) (simp add: same_slots_def)
  moreover have "changes st (bump (\<lambda>s. s\<lparr>cn_duplicate_replays := cn_duplicate_replays s + 1\<rparr>) st1)"
    if "changes st st1" for st1
    using that by (rule changes_then) (rule change.other, simp add: same_slots_def tallies_def)
  ultimately show ?thesis
    by (auto simp: RegisterAttempt_journal_def Let_def split: option.split prod.split)
qed

lemma RegisterAttempt_mark_changes:
  assumes "r < length (cs_heap st)"
  shows "changes st (fst (RegisterAttempt_mark r st))"
proof -
  let ?st1 = "set_slot r (\<lambda>s. s\<lparr>sl_journalled_start := True\<rparr>) st"
  have 1: "changes st ?st1" using assms by (intro quietI) (simp_all add: quiet_def)
  moreover have "changes ?st1 (set_slot r (\<lambda>s. s\<lparr>sl_pending_terminal := False\<rparr>) ?st1)"
    using assms by (intro quietI) (simp_all add: quiet_def)
  ultimately have "changes st (set_slot r (\<lambda>s. s\<lparr>sl_pending_terminal := False\<rparr>) ?st1)" by (rule rtranclp_trans)
  with 1 show ?thesis by (simp add: RegisterAttempt_mark_def Let_def)
qed

lemma Submit_enqueue_changes:
  assumes "r < length (cs_heap st)"
  shows "changes st (fst (Submit_enqueue r st))"
proof -
  let ?st1 = "bump (\<lambda>s. s\<lparr>cn_rejected_shutting_down := cn_rejected_shutting_down s + 1\<rparr>) st"
  have "changes st ?st1" by (rule changes_other) (simp add: same_slots_def tallies_def)
  also have "changes ?st1 (FinalizeLocked r AttemptState.kCancelled StatusCode.kShuttingDown ?st1)"
    using assms by (intro Finalize_changes) simp_all
  finally have "changes st (FinalizeLocked r AttemptState.kCancelled StatusCode.kShuttingDown ?st1)" .
  moreover have "changes st (st\<lparr>cs_queue := q, cs_queue_depth := n\<rparr>)" for q n
    by (rule changes_other) (simp add: same_slots_def)
  ultimately show ?thesis by (simp add: Submit_enqueue_def)
qed

lemma Prepare_begin_changes:
  assumes "r < length (cs_heap st)"
  shows "changes st (fst (Prepare_begin r st))"
proof -
  have "changes st (set_slot r (\<lambda>s. s\<lparr>sl_running := True,
      sl_outcome := (sl_outcome s)\<lparr>oc_state := AttemptState.kRunning\<rparr>\<rparr>) st)" if "\<not> sl_terminal (slot_at st r)"
    using assms that by (intro quietI) (simp_all add: quiet_def)
  then show ?thesis by (simp add: Prepare_begin_def Let_def)
qed

lemma Commit_reject_changes:
  assumes "r < length (cs_heap st)" "\<not> placed d"
  shows "changes st (fst (Commit_reject r d st))"
  using assms by (intro changes_one change.reject)

lemma worker_done_changes:
  assumes "r < length (cs_heap st)"
  shows "changes st (worker_done r st)"
proof -
  let ?st1 = "set_slot r (\<lambda>s. s\<lparr>sl_in_worker := False\<rparr>) st"
  have 1: "changes st ?st1" using assms by (intro quietI) (simp_all add: quiet_def)
  moreover have "changes ?st1 (?st1\<lparr>cs_active := n\<rparr>)" for n
    by (rule changes_other) (simp add: same_slots_def)
  ultimately have "changes st (?st1\<lparr>cs_active := n\<rparr>)" for n by (rule rtranclp_trans)
  with 1 show ?thesis by (simp add: worker_done_def Let_def)
qed

lemma failure_changes:
  assumes "r < length (cs_heap st)"
  shows "changes st (fst (Commit_fail r code st))" "changes st (Await_finish r st)"
    "changes st (FinalizeLocked r AttemptState.kRejected code st)"
  using assms StateForFailure_terminal [of code] by (simp_all add: Commit_fail_def Await_finish_def Finalize_changes)

lemmas section_changes = CommitSlot_check_changes store_decision_changes RegisterAttempt_journal_changes RegisterAttempt_mark_changes
  Submit_enqueue_changes Prepare_begin_changes Commit_reject_changes worker_done_changes failure_changes

theorem run_task_changes:
  assumes "run_task env t st held = Some (st', held', ts)" and "\<forall>r \<in> task_refs t. r < length (cs_heap st)"
    and "\<forall>r \<in> task_refs t. in_region t \<longrightarrow> sl_commit_boundary_crossed (slot_at st r)"
  shows "changes st st'"
proof (cases t)
  case (NoteCommit r who p)
  with assms have "changes st (CommitSlot_note r p st)"
    unfolding CommitSlot_note_def by (intro quietI) (simp_all add: quiet_def)
  with NoteCommit assms(1) show ?thesis by simp
next
  case (FinishCommit r who)
  with assms have "changes st (FinalizeLocked r AttemptState.kCommitted kOk st)"
    by (intro changes_one change.final) simp_all
  with FinishCommit assms(1) show ?thesis by simp
next
  case (ShutdownJournal attempts)
  with assms(1) show ?thesis
    by (cases attempts) (auto simp: changes_other split: option.split)
qed (use assms in \<open>auto simp: Let_def case_prod_beta section_changes changes_other split: if_splits CommitStep.splits sum.splits\<close>)

text \<open>Only a change of the epoch or of the authority view is not such a sequence; it needs \<^verbatim>\<open>commit_mu\<close>.\<close>

definition refenced :: "CoordinatorState \<Rightarrow> CoordinatorState \<Rightarrow> bool" where
  "refenced st st' \<longleftrightarrow> (\<exists>epoch authority. st' = st\<lparr>cs_epoch := epoch, cs_authority := authority\<rparr>)"

lemma refenced_calls: "refenced st (fst (AdvanceEpoch st))" "refenced st (fst (SetAuthority expected st))"
proof -
  have "refenced st st" unfolding refenced_def by (intro exI [of _ "cs_epoch st"] exI [of _ "cs_authority st"]) simp
  then show "refenced st (fst (AdvanceEpoch st))" "refenced st (fst (SetAuthority expected st))"
    by (auto simp: refenced_def AdvanceEpoch_def SetAuthority_def split: prod.split bool.split)
qed

theorem begin_call_changes:
  assumes "begin_call c st held = Some (st', ts)" "refs_ok st"
  shows "changes st st' \<or> \<not> held \<and> ts = [] \<and> refenced st st'"
proof (cases c)
  case (DoShutdown b)
  with assms show ?thesis
    by (auto split: option.splits intro: Shutdown_begin_changes)
next
  case (DoCancel a)
  with assms Cancel_section_changes [OF assms(2), of a] show ?thesis
    by (cases "Cancel_section a st") (auto split: sum.splits prod.splits bool.splits)
next
  case Pick
  with assms worker_pick_changes [OF assms(2)] show ?thesis
    by (cases "worker_pick st") (auto split: if_splits)
next
  case (DoSubmit request a)
  with assms(1) RegisterAttempt_admit_changes [of st request a True] show ?thesis
    by (auto simp: case_prod_beta)
next
  case (DoPrepare request a)
  with assms(1) RegisterAttempt_admit_changes [of st request a False] show ?thesis
    by (auto simp: case_prod_beta)
qed (use assms(1) refenced_calls in \<open>auto split: option.splits if_splits\<close>)

end
