(* ===== verification/Flow_Fates.thy ===== *)
theory Flow_Fates
  imports Flow_Slots
begin

text \<open>
  The invariants of the slots: what one slot satisfies (\<open>slot_ok\<close>), how a slot may evolve (\<open>evolves\<close>), what
  the counters count (\<open>tally\<close>), and how the table of attempts, its insertion order and its reaping fit
  together (\<open>table_ok\<close>). Each is kept by every elementary update, hence by every critical section.
\<close>

section \<open>Reaping\<close>

text \<open>Only finished attempts leave the table; afterwards it is within its bound or holds no finished one.\<close>

lemma reap_loop_facts:
  assumes "reap_loop limit status k order slots = (order', slots')"
    and "omap_ok slots" "mset order = mset (map fst slots)" "\<And>e. e \<in> set slots \<Longrightarrow> status (fst e) \<noteq> None"
    and "k \<le> length order" "\<And>a. a \<in> set (drop (length order - k) order) \<Longrightarrow> status a = Some False"
  shows "omap_ok slots' \<and> mset order' = mset (map fst slots') \<and> set slots' \<subseteq> set slots \<and>
    (\<forall>e \<in> set slots - set slots'. status (fst e) = Some True) \<and>
    (length slots' \<le> limit \<or> (\<forall>e \<in> set slots'. status (fst e) = Some False))"
  using assms
proof (induction limit status k order slots arbitrary: order' slots' rule: reap_loop.induct)
  case (1 limit status k order slots)
  have keys: "set order = fst ` set slots" using 1(6) by (metis list.set_map mset_eq_setD)
  show ?case
  proof (cases "limit < length slots \<and> order \<noteq> [] \<and> k < length order")
    case False
    then have same: "order' = order" "slots' = slots" using 1(4) by (auto simp: reap_loop.simps [of limit])
    have "length slots \<le> limit \<or> (\<forall>e \<in> set slots. status (fst e) = Some False)"
    proof (cases "order = [] \<or> k = length order")
      case True
      then have "\<forall>a \<in> set order. status a = Some False" using 1(9) by auto
      then show ?thesis using keys by auto
    qed (use False 1(8) in auto)
    with same 1(5,6) show ?thesis by auto
  next
    case True
    obtain oldest rest where o: "order = oldest # rest" using True by (cases order) auto
    from keys o obtain v where v: "(oldest, v) \<in> set slots" by force
    then have found: "omap_get slots oldest = Some v" using 1(5) by (simp add: omap_get_in)
    obtain b where b: "status oldest = Some b" using 1(7) v by force
    have go: "\<not> \<not> (limit < length slots \<and> order \<noteq> [] \<and> k < length order)" "oldest = hd order" "rest = tl order"
      "(if omap_get slots oldest = None then None else status oldest) = Some b"
      using True o found b by simp_all
    have k: "k \<le> length rest" "length order - k = Suc (length rest - k)" using True o by auto
    show ?thesis
    proof (cases b)
      case False
      have step: "reap_loop limit status (k + 1) (rest @ [oldest]) slots = (order', slots')"
        using 1(4) True b False found by (simp add: reap_loop.simps [of limit status k] o)
      have m: "mset (rest @ [oldest]) = mset (map fst slots)" using 1(6) by (simp add: o)
      have suf: "status a = Some False" if "a \<in> set (drop (length (rest @ [oldest]) - (k + 1)) (rest @ [oldest]))" for a
      proof (cases "a = oldest")
        case False
        then have "a \<in> set (drop (length rest - k) rest)" using that by simp
        then show ?thesis using 1(9) [of a] k(2) by (simp add: o)
      qed (use b False in simp)
      have "b = False" using False by simp
      from 1(3) [OF go this step 1(5) m 1(7) _ suf] k(1) show ?thesis by simp
    next
      case True
      have step: "reap_loop limit status 0 rest (omap_erase oldest slots) = (order', slots')"
        using 1(4) go(1) b True found by (simp add: reap_loop.simps [of limit status k] o)
      have "distinct (oldest # rest)" using 1(5,6) o by (metis strict_sorted_iff mset_eq_imp_distinct_iff)
      then have rest: "filter (\<lambda>a. a \<noteq> oldest) order = rest" unfolding o by (auto simp: filter_id_conv)
      have "map fst (omap_erase oldest slots) = filter (\<lambda>a. a \<noteq> oldest) (map fst slots)"
        by (simp add: omap_erase_def filter_map comp_def)
      then have m: "mset rest = mset (map fst (omap_erase oldest slots))"
        unfolding rest [symmetric] by (simp only: mset_filter 1(6))
      have sub: "set (omap_erase oldest slots) = {e \<in> set slots. fst e \<noteq> oldest}" by (auto simp: omap_erase_def)
      have some: "status (fst e) \<noteq> None" if "e \<in> set (omap_erase oldest slots)" for e using that 1(7) sub by blast
      have "b = True" using True by simp
      from 1(2) [OF go this step omap_ok_erase [OF 1(5)] m some] have
        ih: "omap_ok slots' \<and> mset order' = mset (map fst slots') \<and> set slots' \<subseteq> set (omap_erase oldest slots) \<and>
          (\<forall>e \<in> set (omap_erase oldest slots) - set slots'. status (fst e) = Some True) \<and>
          (length slots' \<le> limit \<or> (\<forall>e \<in> set slots'. status (fst e) = Some False))" by simp
      have "status (fst e) = Some True" if "e \<in> set slots - set slots'" for e
        using ih that sub b True by (cases "fst e = oldest") simp_all
      with ih sub show ?thesis by blast
    qed
  qed
qed

section \<open>One slot\<close>

definition engine_decision :: "Limits \<Rightarrow> PlacementRequest \<Rightarrow> PlacementDecision \<Rightarrow> bool" where
  "engine_decision limits request d \<longleftrightarrow>
     (placed d \<longrightarrow> d = Place limits request \<and> VerifyIntent limits request (the (de_intent d)) = None)"

text \<open>A decision that places is the engine's own. One that does not place carries an intent only when the
  caller of \<^verbatim>\<open>Commit\<close> supplied it, and then the attempt is rejected.\<close>

definition slot_ok :: "Limits \<Rightarrow> Slot \<Rightarrow> bool" where
  "slot_ok limits s \<longleftrightarrow>
     (sl_terminal s \<longleftrightarrow> oc_state (sl_outcome s) \<notin> {AttemptState.kQueued, AttemptState.kRunning}) \<and>
     (oc_state (sl_outcome s) = AttemptState.kCommitted \<longrightarrow> sl_commit_boundary_crossed s) \<and>
     engine_decision limits (sl_request s) (oc_decision (sl_outcome s)) \<and>
     (de_intent (oc_decision (sl_outcome s)) \<noteq> None \<longrightarrow>
        placed (oc_decision (sl_outcome s)) \<or> oc_state (sl_outcome s) = AttemptState.kRejected) \<and>
     oc_attempt (sl_outcome s) = sl_attempt s \<and> rq_attempt (sl_request s) = sl_attempt s"

text \<open>An outcome is final, the crossing and a cancellation are never taken back, and a cancelled slot that
  has not crossed never will.\<close>

definition evolves :: "Slot \<Rightarrow> Slot \<Rightarrow> bool" where
  "evolves s s' \<longleftrightarrow> sl_attempt s' = sl_attempt s \<and> sl_request s' = sl_request s \<and>
     sl_request_digest s' = sl_request_digest s \<and>
     (sl_terminal s \<longrightarrow> sl_terminal s' \<and> oc_state (sl_outcome s') = oc_state (sl_outcome s) \<and>
        oc_code (sl_outcome s') = oc_code (sl_outcome s)) \<and>
     (sl_commit_boundary_crossed s \<longrightarrow> sl_commit_boundary_crossed s') \<and>
     (sl_cancel_requested s \<longrightarrow> sl_cancel_requested s') \<and> (sl_running s \<longrightarrow> sl_running s') \<and>
     (sl_cancel_requested s \<and> \<not> sl_commit_boundary_crossed s \<longrightarrow> \<not> sl_commit_boundary_crossed s')"

lemma evolves_refl [simp]: "evolves s s"
  by (simp add: evolves_def)

lemma evolves_trans: "evolves s s1 \<Longrightarrow> evolves s1 s2 \<Longrightarrow> evolves s s2"
  by (auto simp: evolves_def)

definition heap_evolves :: "CoordinatorState \<Rightarrow> CoordinatorState \<Rightarrow> bool" where
  "heap_evolves st st' \<longleftrightarrow> length (cs_heap st) \<le> length (cs_heap st') \<and>
     (\<forall>r < length (cs_heap st). evolves (slot_at st r) (slot_at st' r))"

lemma heap_evolves_refl [simp]: "heap_evolves st st"
  by (simp add: heap_evolves_def)

lemma heap_evolves_trans: "heap_evolves st st1 \<Longrightarrow> heap_evolves st1 st2 \<Longrightarrow> heap_evolves st st2"
  unfolding heap_evolves_def by (meson evolves_trans le_trans less_le_trans)

lemma heap_evolves_set_slot:
  "evolves (slot_at st r) (f (slot_at st r)) \<Longrightarrow> heap_evolves st (set_slot r f st)"
  by (cases "r < length (cs_heap st)") (auto simp: heap_evolves_def set_slot_def nth_list_update)

lemma change_evolves: "change st st' \<Longrightarrow> heap_evolves st st'"
proof (induction rule: change.induct)
  case (quiet r st f)
  then show ?case by (intro heap_evolves_set_slot) (auto simp: quiet_def evolves_def)
next
  case (final r st state code)
  have "heap_evolves st (set_slot r (\<lambda>s. s\<lparr>sl_terminal := True,
      sl_outcome := (sl_outcome s)\<lparr>oc_state := state, oc_code := code\<rparr>\<rparr>) st)" if "\<not> sl_terminal (slot_at st r)"
    using that by (intro heap_evolves_set_slot) (simp add: evolves_def)
  then show ?case by (simp add: FinalizeLocked_def heap_evolves_def)
next
  case (reject r st d)
  have "heap_evolves st (set_slot r (\<lambda>s. s\<lparr>sl_terminal := True, sl_outcome := (sl_outcome s)
      \<lparr>oc_decision := d, oc_state := AttemptState.kRejected, oc_code := de_code d\<rparr>\<rparr>) st)"
    if "\<not> sl_terminal (slot_at st r)"
    using that by (intro heap_evolves_set_slot) (simp add: evolves_def)
  with reject.hyps(1) show ?case
    by (simp add: Commit_reject_def FinalizeLocked_def store_decision_def heap_evolves_def set_slot_def)
next
  case (admit attempt request st digest)
  then show ?case by (simp add: admit_slot_def Let_def heap_evolves_def nth_append)
next
  case (other st st')
  then show ?case by (simp add: same_slots_def heap_evolves_def)
qed (auto intro!: heap_evolves_set_slot simp: evolves_def may_cross_def store_decision_def)

lemma changes_evolve: "changes st st' \<Longrightarrow> heap_evolves st st'"
  by (induction rule: rtranclp_induct) (auto intro: heap_evolves_trans change_evolves)

lemma ComputeDecision_placed:
  assumes "placed (ComputeDecision st r)"
  shows "ComputeDecision st r = Place (co_limits (cs_options st)) (sl_request (slot_at st r))"
    "VerifyIntent (co_limits (cs_options st)) (sl_request (slot_at st r)) (the (de_intent (ComputeDecision st r))) = None"
  using assms by (auto simp: ComputeDecision_def Let_def failed_decision_def placed_def split: if_splits option.splits)

lemma ComputeDecision_intent: "de_intent (ComputeDecision st r) \<noteq> None \<Longrightarrow> placed (ComputeDecision st r)"
  using Place_not_placeable [of "sl_request (slot_at st r)"] placed_iff_placeable
  by (auto simp: ComputeDecision_def Let_def failed_decision_def default_PlacementDecision_def split: if_splits option.splits)

definition slots_ok :: "CoordinatorState \<Rightarrow> bool" where
  "slots_ok st \<longleftrightarrow> (\<forall>s \<in> set (cs_heap st). slot_ok (co_limits (cs_options st)) s)"

lemma slots_ok_nth: "slots_ok st \<Longrightarrow> r < length (cs_heap st) \<Longrightarrow> slot_ok (co_limits (cs_options st)) (slot_at st r)"
  by (simp add: slots_ok_def)

lemma slots_ok_set_slot:
  assumes "slots_ok st" "slot_ok (co_limits (cs_options st)) (f (slot_at st r))"
  shows "slots_ok (set_slot r f st)"
  using assms set_update_subset_insert [of "cs_heap st" r] by (auto simp: slots_ok_def set_slot_def)

lemma quiet_slot_ok:
  assumes "quiet s s'" "slot_ok limits s"
  shows "slot_ok limits s'"
proof (cases "oc_state (sl_outcome s') = oc_state (sl_outcome s)")
  case True
  with assms show ?thesis by (simp add: quiet_def slot_ok_def)
next
  case False
  with assms have "\<not> sl_terminal s" "oc_state (sl_outcome s') = AttemptState.kRunning" by (simp_all add: quiet_def)
  with assms show ?thesis by (auto simp: quiet_def slot_ok_def)
qed

lemma change_slots_ok: "change st st' \<Longrightarrow> slots_ok st \<Longrightarrow> slots_ok st'"
proof (induction rule: change.induct)
  case (quiet r st f)
  from quiet.prems quiet_slot_ok [OF quiet.hyps(2) slots_ok_nth [OF quiet.prems quiet.hyps(1)]]
  show ?case by (rule slots_ok_set_slot)
next
  case (cancel r st)
  then show ?case using slots_ok_nth [OF cancel.prems cancel.hyps] by (intro slots_ok_set_slot) (simp_all add: slot_ok_def)
next
  case (final r st state code)
  let ?f = "\<lambda>s. s\<lparr>sl_terminal := True, sl_outcome := (sl_outcome s)\<lparr>oc_state := state, oc_code := code\<rparr>\<rparr>"
  have "slots_ok (set_slot r ?f st)" if "\<not> sl_terminal (slot_at st r)"
    using that final slots_ok_nth [OF final.prems final.hyps(1)] by (intro slots_ok_set_slot) (auto simp: slot_ok_def)
  with final.prems show ?case by (simp add: FinalizeLocked_def slots_ok_def)
next
  case (decide r st)
  have "engine_decision (co_limits (cs_options st)) (sl_request (slot_at st r)) (ComputeDecision st r)"
    using ComputeDecision_placed [of st r] unfolding engine_decision_def by blast
  with slots_ok_nth [OF decide.prems decide.hyps] ComputeDecision_intent [of st r] decide.prems show ?case
    unfolding store_decision_def by (intro slots_ok_set_slot) (auto simp: slot_ok_def)
next
  case (reject r st d)
  let ?f = "\<lambda>s. s\<lparr>sl_terminal := True,
    sl_outcome := (sl_outcome s)\<lparr>oc_decision := d, oc_state := AttemptState.kRejected, oc_code := de_code d\<rparr>\<rparr>"
  have "slots_ok (set_slot r ?f st)"
    using reject slots_ok_nth [OF reject.prems reject.hyps(1)] by (intro slots_ok_set_slot) (simp_all add: slot_ok_def engine_decision_def)
  with reject show ?case
    by (simp add: Commit_reject_def FinalizeLocked_def store_decision_def slots_ok_def set_slot_def)
next
  case (cross r st)
  then show ?case using slots_ok_nth [OF cross.prems cross.hyps(1)] by (intro slots_ok_set_slot) (simp_all add: slot_ok_def)
next
  case (admit attempt request st digest)
  then have "slot_ok l (new_slot request attempt digest)" for l
    by (simp add: slot_ok_def new_slot_def default_AttemptOutcome_def default_PlacementDecision_def placed_def engine_decision_def)
  with admit show ?case by (simp add: admit_slot_def Let_def slots_ok_def)
next
  case (other st st')
  then show ?case by (simp add: slots_ok_def same_slots_def)
qed

section \<open>The counters\<close>

definition ended_as :: "AttemptState \<Rightarrow> Slot \<Rightarrow> bool" where
  "ended_as state s \<longleftrightarrow> sl_terminal s \<and> oc_state (sl_outcome s) = state"

definition number :: "('a \<Rightarrow> bool) \<Rightarrow> 'a list \<Rightarrow> u64" where
  "number P xs = word_of_nat (length (filter P xs))"

definition tally :: "CoordinatorState \<Rightarrow> bool" where
  "tally st \<longleftrightarrow> cn_accepted (cs_stats st) = word_of_nat (length (cs_heap st)) \<and>
     cn_completed (cs_stats st) = number sl_terminal (cs_heap st) \<and>
     cn_placed (cs_stats st) = number (ended_as AttemptState.kCommitted) (cs_heap st) \<and>
     cn_rejected (cs_stats st) = number (ended_as AttemptState.kRejected) (cs_heap st) \<and>
     cn_cancelled (cs_stats st) = number (ended_as AttemptState.kCancelled) (cs_heap st) \<and>
     cn_fenced (cs_stats st) = number (ended_as AttemptState.kFenced) (cs_heap st) \<and>
     cn_failed (cs_stats st) = number (ended_as AttemptState.kFailed) (cs_heap st)"

lemma number_append [simp]: "number P (xs @ ys) = number P xs + number P ys"
  by (simp add: number_def)

lemma number_simps [simp]: "number P [] = 0" "number P (x # xs) = (if P x then 1 else 0) + number P xs"
  by (simp_all add: number_def)

lemma number_update:
  assumes "r < length xs"
  shows "number P (xs[r := y]) = number P xs - (if P (xs ! r) then 1 else 0) + (if P y then 1 else 0)"
  by (subst (2) id_take_nth_drop [OF assms]) (simp add: upd_conv_take_nth_drop [OF assms] algebra_simps)

lemma tally_same:
  assumes "tally st" "tallies (cs_stats st') = tallies (cs_stats st)" "cs_heap st' = cs_heap st"
  shows "tally st'"
  using assms by (simp add: tally_def tallies_def)

lemma tally_set_slot:
  assumes "tally st" "r < length (cs_heap st)" "sl_terminal (f (slot_at st r)) = sl_terminal (slot_at st r)"
    "sl_terminal (slot_at st r) \<Longrightarrow> oc_state (sl_outcome (f (slot_at st r))) = oc_state (sl_outcome (slot_at st r))"
  shows "tally (set_slot r f st)"
proof -
  have "ended_as state (f (slot_at st r)) = ended_as state (slot_at st r)" for state
    using assms(3,4) by (auto simp: ended_as_def)
  with assms(1-3) show ?thesis
    by (simp add: tally_def set_slot_def number_update)
qed

lemma tally_FinalizeLocked:
  assumes "tally st" "r < length (cs_heap st)" "state \<noteq> AttemptState.kQueued" "state \<noteq> AttemptState.kRunning"
  shows "tally (FinalizeLocked r state code st)"
proof (cases "sl_terminal (slot_at st r)")
  case False
  then have "\<not> ended_as s (slot_at st r)" for s by (simp add: ended_as_def)
  with False assms show ?thesis
    by (cases state) (simp_all add: tally_def FinalizeLocked_def set_slot_def bump_def number_update count_outcome_def
        ended_as_def)
qed (use assms in \<open>simp add: FinalizeLocked_def\<close>)

lemma change_tally: "change st st' \<Longrightarrow> tally st \<Longrightarrow> tally st'"
proof (induction rule: change.induct)
  case (quiet r st f)
  then show ?case by (intro tally_set_slot) (auto simp: quiet_def)
next
  case (final r st state code)
  then show ?case by (intro tally_FinalizeLocked)
next
  case (reject r st d)
  then have "tally (store_decision r d st)" unfolding store_decision_def by (intro tally_set_slot) simp_all
  with reject show ?case by (simp add: Commit_reject_def tally_FinalizeLocked)
next
  case (admit attempt request st digest)
  then show ?case
    by (simp add: admit_slot_def Let_def tally_def ended_as_def new_slot_def)
next
  case (other st st')
  show ?case by (rule tally_same [OF other.prems]) (use other.hyps in \<open>simp_all add: same_slots_def\<close>)
qed (simp_all add: store_decision_def tally_set_slot)

text \<open>Every finished attempt is counted in exactly one of the five outcomes.\<close>

lemma number_terminal:
  assumes "\<forall>s \<in> set h. slot_ok l s"
  shows "number sl_terminal h = number (ended_as AttemptState.kCommitted) h + number (ended_as AttemptState.kRejected) h +
    number (ended_as AttemptState.kCancelled) h + number (ended_as AttemptState.kFenced) h +
    number (ended_as AttemptState.kFailed) h"
  using assms
proof (induction h)
  case (Cons s h)
  have "sl_terminal s \<Longrightarrow> oc_state (sl_outcome s) \<in> {AttemptState.kCommitted, AttemptState.kRejected,
      AttemptState.kCancelled, AttemptState.kFenced, AttemptState.kFailed}"
    using Cons.prems by (cases "oc_state (sl_outcome s)") (auto simp: slot_ok_def)
  then show ?case using Cons by (auto simp: ended_as_def)
qed simp

section \<open>The table of attempts\<close>

definition table_ok :: "CoordinatorState \<Rightarrow> bool" where
  "table_ok st \<longleftrightarrow> omap_ok (cs_slots st) \<and> mset (cs_slot_order st) = mset (map fst (cs_slots st)) \<and>
     (\<forall>e \<in> set (cs_slots st). snd e < length (cs_heap st) \<and> sl_attempt (slot_at st (snd e)) = fst e)"

lemma table_refs: "table_ok st \<Longrightarrow> refs_ok st"
  by (simp add: table_ok_def refs_ok_def)

lemma table_find:
  assumes "table_ok st" "omap_get (cs_slots st) a = Some r"
  shows "r < length (cs_heap st)" "sl_attempt (slot_at st r) = a"
  using assms by (auto simp: table_ok_def omap_get_in)

lemma table_same:
  assumes "table_ok st" "cs_slots st' = cs_slots st" "cs_slot_order st' = cs_slot_order st" "heap_evolves st st'"
  shows "table_ok st'"
  using assms unfolding table_ok_def heap_evolves_def evolves_def by (metis less_le_trans)

text \<open>Reaping, with the status it reads from the slots themselves.\<close>

lemma ReapRetainedSlots_facts:
  assumes "table_ok st"
  shows "table_ok (ReapRetainedSlots st)" "set (cs_slots (ReapRetainedSlots st)) \<subseteq> set (cs_slots st)"
    "\<And>e. e \<in> set (cs_slots st) - set (cs_slots (ReapRetainedSlots st)) \<Longrightarrow> sl_terminal (slot_at st (snd e))"
    "length (cs_slots (ReapRetainedSlots st)) \<le> unat (co_max_retained_attempts (cs_options st)) \<or>
     (\<forall>e \<in> set (cs_slots (ReapRetainedSlots st)). \<not> sl_terminal (slot_at st (snd e)))"
proof -
  let ?status = "reapable st"
  have status: "?status (fst e) = Some (sl_terminal (slot_at st (snd e)))" if "e \<in> set (cs_slots st)" for e
  proof -
    have "omap_get (cs_slots st) (fst e) = Some (snd e)" using assms that by (simp add: table_ok_def omap_get_in)
    then show ?thesis by (simp add: reapable_def)
  qed
  obtain order slots where loop: "reap_loop (unat (co_max_retained_attempts (cs_options st))) ?status 0
      (cs_slot_order st) (cs_slots st) = (order, slots)" by fastforce
  note facts = reap_loop_facts [OF loop]
  have f: "omap_ok slots \<and> mset order = mset (map fst slots) \<and> set slots \<subseteq> set (cs_slots st) \<and>
    (\<forall>e \<in> set (cs_slots st) - set slots. ?status (fst e) = Some True) \<and>
    (length slots \<le> unat (co_max_retained_attempts (cs_options st)) \<or> (\<forall>e \<in> set slots. ?status (fst e) = Some False))"
    using assms status by (intro facts) (simp_all add: table_ok_def)
  have r: "cs_slots (ReapRetainedSlots st) = slots" "cs_slot_order (ReapRetainedSlots st) = order"
    using loop by (simp_all add: ReapRetainedSlots_def)
  from f r assms show "table_ok (ReapRetainedSlots st)" by (auto simp: table_ok_def)
  from f r show sub: "set (cs_slots (ReapRetainedSlots st)) \<subseteq> set (cs_slots st)" by simp
  from f r status show "e \<in> set (cs_slots st) - set (cs_slots (ReapRetainedSlots st)) \<Longrightarrow> sl_terminal (slot_at st (snd e))"
    for e by auto
  from f r status sub show "length (cs_slots (ReapRetainedSlots st)) \<le> unat (co_max_retained_attempts (cs_options st)) \<or>
     (\<forall>e \<in> set (cs_slots (ReapRetainedSlots st)). \<not> sl_terminal (slot_at st (snd e)))" by fastforce
qed

lemma table_admit:
  assumes "table_ok st" "omap_get (cs_slots st) a = None"
  shows "table_ok (st\<lparr>cs_heap := cs_heap st @ [new_slot request a digest],
    cs_slots := omap_put a (length (cs_heap st)) (cs_slots st), cs_slot_order := cs_slot_order st @ [a]\<rparr>)"
proof -
  let ?slots = "omap_put a (length (cs_heap st)) (cs_slots st)"
  have ok: "omap_ok (cs_slots st)" "omap_ok ?slots" using assms(1) by (simp_all add: table_ok_def)
  have mem: "e \<in> set ?slots \<longleftrightarrow> e = (a, length (cs_heap st)) \<or> e \<in> set (cs_slots st)" for e
    using omap_get_in [OF ok(1), of "fst e" "snd e"] omap_get_in [OF ok(2), of "fst e" "snd e"] assms(2)
    by (cases e) (auto split: if_splits)
  have "mset (map fst ?slots) = add_mset a (mset (map fst (cs_slots st)))"
  proof -
    have "a \<notin> fst ` set (cs_slots st)" using assms(2) by (simp add: omap_get_None)
    then have "distinct (a # map fst (cs_slots st))" "distinct (map fst ?slots)"
      using ok by (simp_all add: strict_sorted_iff)
    moreover have "set (map fst ?slots) = set (a # map fst (cs_slots st))" by (simp only: keys_omap_put list.set)
    ultimately show ?thesis by (metis mset.simps(2) set_eq_iff_mset_eq_distinct)
  qed
  with assms(1) ok mem show ?thesis
    by (auto simp: table_ok_def nth_append new_slot_def)
qed

lemma admit_slot_facts:
  assumes "table_ok st" "omap_get (cs_slots st) a = None"
  shows "table_ok (admit_slot request a digest st)"
    "omap_get (cs_slots (admit_slot request a digest st)) a = Some (length (cs_heap st))"
    "length (cs_slots (admit_slot request a digest st)) \<le> unat (co_max_retained_attempts (cs_options st)) \<or>
     (\<forall>e \<in> set (cs_slots (admit_slot request a digest st)). \<not> sl_terminal (slot_at (admit_slot request a digest st) (snd e)))"
    "\<And>b r. omap_get (cs_slots st) b = Some r \<Longrightarrow> \<not> sl_terminal (slot_at st r) \<Longrightarrow>
       omap_get (cs_slots (admit_slot request a digest st)) b = Some r"
proof -
  define st1 where "st1 = bump (\<lambda>s. s\<lparr>cn_accepted := cn_accepted s + 1\<rparr>) (st\<lparr>cs_heap := cs_heap st @ [new_slot request a digest],
    cs_slots := omap_put a (length (cs_heap st)) (cs_slots st), cs_slot_order := cs_slot_order st @ [a]\<rparr>)"
  have admit: "admit_slot request a digest st = ReapRetainedSlots st1" by (simp add: admit_slot_def Let_def st1_def)
  have "table_ok st1" unfolding st1_def
    by (rule table_same [OF table_admit [OF assms, of request digest]]) (simp_all add: heap_evolves_def)
  note r = ReapRetainedSlots_facts [OF this]
  from r(1) show "table_ok (admit_slot request a digest st)" by (simp add: admit)
  have kept: "omap_get (cs_slots (ReapRetainedSlots st1)) b = Some r'"
    if "omap_get (cs_slots st1) b = Some r'" "\<not> sl_terminal (slot_at st1 r')" for b r'
  proof -
    have "(b, r') \<in> set (cs_slots st1)" using that(1) \<open>table_ok st1\<close> by (simp add: table_ok_def omap_get_in)
    with r(3) [of "(b, r')"] that(2) have "(b, r') \<in> set (cs_slots (ReapRetainedSlots st1))" by auto
    with r(1) show ?thesis by (simp add: table_ok_def omap_get_in)
  qed
  show "omap_get (cs_slots (admit_slot request a digest st)) a = Some (length (cs_heap st))"
    unfolding admit by (rule kept) (simp_all add: st1_def new_slot_def)
  from r(4) show "length (cs_slots (admit_slot request a digest st)) \<le> unat (co_max_retained_attempts (cs_options st)) \<or>
     (\<forall>e \<in> set (cs_slots (admit_slot request a digest st)). \<not> sl_terminal (slot_at (admit_slot request a digest st) (snd e)))"
    by (simp add: admit st1_def)
  show "omap_get (cs_slots (admit_slot request a digest st)) b = Some r'"
    if "omap_get (cs_slots st) b = Some r'" "\<not> sl_terminal (slot_at st r')" for b r'
    unfolding admit using that assms table_find(1) [OF assms(1) that(1)]
    by (intro kept) (auto simp: st1_def nth_append)
qed

lemma change_table: "change st st' \<Longrightarrow> table_ok st \<Longrightarrow> table_ok st'"
proof -
  assume c: "change st st'" and t: "table_ok st"
  have "cs_slots st' = cs_slots st \<and> cs_slot_order st' = cs_slot_order st \<or> table_ok st'"
    using c t by cases (simp_all add: store_decision_def same_slots_def admit_slot_facts(1) Commit_reject_def)
  then show ?thesis using t change_evolves [OF c] by (blast intro: table_same)
qed

end
