(* ===== verification/Flow_Machine.thy ===== *)
theory Flow_Machine
  imports Flow_Fates Flow_Index
begin

text \<open>
  Invariants of the interleaved coordinator: the slots (\<^verbatim>\<open>Flow_Fates\<close>), the references the threads hold,
  the commit mutex and the fence inside it, and the count of busy workers. \<open>machine_ok\<close> collects them and
  holds in every reachable machine.
\<close>

section \<open>What a task leaves behind\<close>

lemma continuations:
  "t \<in> set (registered r purpose) \<Longrightarrow> task_refs t = {r} \<and> \<not> in_region t"
  "t \<in> set (finished r who) \<Longrightarrow> task_refs t = {r} \<and> \<not> in_region t"
  by (cases purpose; simp) (cases who; simp)

lemma run_task_refs:
  assumes "run_task env t st held = Some (st', held', ts)" "t' \<in> set ts"
  shows "task_refs t' \<subseteq> task_refs t"
proof (cases t)
  case (ShutdownJournal attempts)
  with assms show ?thesis by (cases attempts) auto
qed (use assms in \<open>auto simp: Let_def dest: continuations split: prod.splits if_splits CommitStep.splits sum.splits option.splits\<close>)

text \<open>The mutex is held exactly while a task is inside the boundary.\<close>

abbreviation regions :: "Task list \<Rightarrow> nat" where
  "regions ts \<equiv> length (filter in_region ts)"

lemma region_continuations [simp]: "filter in_region (registered r purpose) = []" "filter in_region (finished r who) = []"
  by (cases purpose; simp) (cases who; simp)

lemma run_task_region:
  assumes "run_task env t st held = Some (st', held', ts)" "in_region t \<Longrightarrow> held"
  shows "regions ts + (if held \<and> \<not> in_region t then 1 else 0) = (if held' then 1 else 0)"
proof (cases t)
  case (ShutdownJournal attempts)
  with assms show ?thesis by (cases attempts) auto
qed (use assms in \<open>auto simp: Let_def split: prod.splits if_splits CommitStep.splits sum.splits option.splits\<close>)

definition fenced :: "CoordinatorState \<Rightarrow> nat \<Rightarrow> bool" where
  "fenced st r \<longleftrightarrow> sl_commit_boundary_crossed (slot_at st r) \<and>
     ex_fabric_epoch (rq_expected (sl_request (slot_at st r))) = cs_epoch st \<and>
     AuthorityMatches (cs_authority st) (rq_expected (sl_request (slot_at st r)))"

lemma CommitSlot_check_fenced:
  assumes "CommitSlot_check r st = (st', status)" "Status_ok status" "r < length (cs_heap st)"
  shows "fenced st' r"
  using assms by (auto simp: CommitSlot_check_def fenced_def Let_def split: if_splits)

lemma run_task_fence:
  assumes "run_task env t st held = Some (st', held', ts)" "t' \<in> set ts" "in_region t'"
    and "\<forall>r \<in> task_refs t. r < length (cs_heap st)"
  shows "in_region t \<and> task_refs t' = task_refs t \<or> (\<forall>r \<in> task_refs t'. fenced st' r)"
proof (cases t)
  case (Boundary r who)
  with assms show ?thesis by (auto split: prod.splits if_splits intro: CommitSlot_check_fenced)
next
  case (ShutdownJournal attempts)
  with assms show ?thesis by (cases attempts) auto
qed (use assms in \<open>auto simp: Let_def dest: continuations split: prod.splits if_splits CommitStep.splits sum.splits option.splits\<close>)

section \<open>Busy workers\<close>

fun worker_owned :: "Task \<Rightarrow> bool" where
  "worker_owned (WorkerDecide r) = True"
| "worker_owned (WorkerReject r decision) = True"
| "worker_owned (Boundary r who) = (who = Worker)"
| "worker_owned (InBoundary r who) = (who = Worker)"
| "worker_owned (StoreCommit r who decision) = (who = Worker)"
| "worker_owned (NoteCommit r who record) = (who = Worker)"
| "worker_owned (JournalCommit r who) = (who = Worker)"
| "worker_owned (FinishCommit r who) = (who = Worker)"
| "worker_owned (FailedCommit r who code) = (who = Worker)"
| "worker_owned (JournalOutcome r who phase code) = (who = Worker)"
| "worker_owned (WorkerDone r) = True"
| "worker_owned _ = False"

abbreviation busy :: "Task list \<Rightarrow> nat" where
  "busy ts \<equiv> length (filter worker_owned ts)"

lemma worker_continuations [simp]: "filter worker_owned (registered r purpose) = []"
  "filter worker_owned (finished r who) = (if who = Worker then [WorkerDone r] else [])"
  by (cases purpose; simp) (cases who; simp)

lemma active_unchanged [simp]:
  "cs_active (JournalTerminal env r phase code st) = cs_active st"
  "cs_active (fst (CommitRecord env intent delta d e st)) = cs_active st"
  "cs_active (fst (CommitSlot_check r st)) = cs_active st"
  "cs_active (CommitSlot_note r p st) = cs_active st"
  "cs_active (fst (RegisterAttempt_journal env r st)) = cs_active st"
  "cs_active (fst (RegisterAttempt_mark r st)) = cs_active st"
  "cs_active (fst (Submit_enqueue r st)) = cs_active st"
  "cs_active (fst (Prepare_begin r st)) = cs_active st"
  "cs_active (fst (Commit_reject r decision st)) = cs_active st"
  "cs_active (fst (Commit_fail r code st)) = cs_active st"
  "cs_active (Await_finish r st) = cs_active st"
  "cs_active (Shutdown_stop st) = cs_active st"
  "cs_active (fst (Shutdown_close answer closed st)) = cs_active st"
  by (simp_all add: JournalTerminal_def CommitRecord_def CommitSlot_check_def CommitSlot_note_def
      RegisterAttempt_journal_def RegisterAttempt_mark_def Submit_enqueue_def Prepare_begin_def Commit_reject_def
      Commit_fail_def Await_finish_def Shutdown_stop_def Shutdown_close_def Let_def split: option.split prod.split)

lemma CommitSlot_store_active [simp]: "cs_active (fst (CommitSlot_store env r d st)) = cs_active st"
  by (simp add: CommitSlot_store_def split: option.split)

lemma worker_done_active: "cs_active (worker_done r st) = (if cs_active st > 0 then cs_active st - 1 else cs_active st)"
  by (simp add: worker_done_def Let_def)

lemma run_task_active:
  assumes "run_task env t st held = Some (st', held', ts)"
  shows "if \<exists>r. t = WorkerDone r then ts = [] \<and> cs_active st' = (if cs_active st > 0 then cs_active st - 1 else cs_active st)
    else busy ts = busy [t] \<and> cs_active st' = cs_active st"
proof (cases t)
  case (ShutdownJournal attempts)
  with assms show ?thesis by (cases attempts) (auto split: option.splits)
next
  case (StoreCommit r who d)
  with assms CommitSlot_store_active [of env r d st] show ?thesis
    by (auto simp del: CommitSlot_store_active split: prod.splits sum.splits)
qed (use assms in \<open>auto simp: Let_def case_prod_beta worker_done_active split: if_splits CommitStep.splits option.splits\<close>)

section \<open>What a call leaves behind\<close>

lemma fold_keeps:
  assumes "\<And>x acc. g (f x acc) = g acc"
  shows "g (fold f xs acc) = g acc"
  using assms by (induction xs arbitrary: acc) simp_all

lemma shutdown_active [simp]:
  "cs_active (fst (FinalizeShutdownSlot r acc)) = cs_active (fst acc)"
  "cs_active (fst (shutdown_queued a acc)) = cs_active (fst acc)"
  "cs_active (fst (shutdown_slot c r acc)) = cs_active (fst acc)"
  by (simp_all add: FinalizeShutdownSlot_def shutdown_queued_def shutdown_slot_def case_prod_beta Let_def split: option.split)

lemma shutdown_folds_active [simp]:
  "cs_active (fst (fold shutdown_queued q acc)) = cs_active (fst acc)"
  "cs_active (fst (fold (\<lambda>e. shutdown_slot c (snd e)) m acc)) = cs_active (fst acc)"
  by (rule fold_keeps, simp)+

lemma Shutdown_begin_active: "Shutdown_begin c st = Some (st', cancelled) \<Longrightarrow> cs_active st' = cs_active st"
  by (auto simp: Shutdown_begin_def Let_def dest!: arg_cong [where f = fst] split: if_splits)

lemma call_active [simp]:
  "cs_active (fst (RegisterAttempt_admit request a enforce st)) = cs_active st"
  "cs_active (fst (Cancel_section a st)) = cs_active st"
  "cs_active (fst (AdvanceEpoch st)) = cs_active st" "cs_active (fst (SetAuthority expected st)) = cs_active st"
  by (simp_all add: RegisterAttempt_admit_def admit_slot_def Cancel_section_def AdvanceEpoch_def SetAuthority_def Let_def
      split: option.split prod.split bool.split)

lemma worker_pick_active:
  "cs_active (fst (worker_pick st)) = cs_active st + (if snd (worker_pick st) = None then 0 else 1)"
  by (simp add: worker_pick_def Let_def split: list.split option.split)

lemma worker_pick_ref: "worker_pick st = (st', Some r) \<Longrightarrow> refs_ok st \<Longrightarrow> r < length (cs_heap st')"
  by (auto simp: worker_pick_def Let_def dest: refs_okD split: list.splits option.splits if_splits)

lemma RegisterAttempt_admit_ref: "RegisterAttempt_admit request a enforce st = (st', Inr r) \<Longrightarrow> r < length (cs_heap st')"
  by (auto simp: RegisterAttempt_admit_def Let_def admit_slot_def split: option.splits if_splits)

lemma Cancel_section_ref:
  "Cancel_section a st = (st', Inr (r, b)) \<Longrightarrow> refs_ok st \<Longrightarrow> r < length (cs_heap st')"
  by (auto simp: Cancel_section_def Let_def dest: refs_okD split: option.splits if_splits)

lemma begin_call_tasks:
  assumes "begin_call c st held = Some (st', ts)" "refs_ok st" "t \<in> set ts"
  shows "\<not> in_region t \<and> (\<forall>r \<in> task_refs t. r < length (cs_heap st'))"
proof (cases c)
  case (DoSubmit request a)
  with assms show ?thesis
    by (auto simp: register_tasks_def split: prod.splits sum.splits dest: RegisterAttempt_admit_ref)
next
  case (DoPrepare request a)
  with assms show ?thesis
    by (auto simp: register_tasks_def split: prod.splits sum.splits dest: RegisterAttempt_admit_ref)
next
  case (DoCancel a)
  with assms show ?thesis
    by (auto split: prod.splits sum.splits bool.splits dest: Cancel_section_ref)
next
  case Pick
  with assms show ?thesis
    by (auto split: prod.splits option.splits if_splits dest: worker_pick_ref)
qed (use assms in \<open>auto split: option.splits if_splits dest: refs_okD\<close>)

lemma begin_call_active:
  assumes "begin_call c st held = Some (st', ts)"
  shows "cs_active st' = cs_active st + word_of_nat (busy ts) \<and>
    (busy ts = 0 \<or> busy ts = 1 \<and> unat (cs_active st) < unat (cs_worker_count st))"
proof (cases c)
  case (DoSubmit request a)
  with assms show ?thesis
    by (auto simp: register_tasks_def case_prod_beta split: sum.splits)
next
  case (DoPrepare request a)
  with assms show ?thesis
    by (auto simp: register_tasks_def case_prod_beta split: sum.splits)
next
  case (DoCancel a)
  with assms call_active(2) [of a st] show ?thesis
    by (auto simp del: call_active(2) split: prod.splits sum.splits bool.splits)
next
  case Pick
  with assms worker_pick_active [of st] show ?thesis
    by (auto simp: case_prod_beta split: option.splits if_splits)
qed (use assms in \<open>auto split: option.splits if_splits dest: Shutdown_begin_active\<close>)

section \<open>The invariant\<close>

definition fence_ok :: "Machine \<Rightarrow> bool" where
  "fence_ok m \<longleftrightarrow> regions (mc_tasks m) = (if mc_commit_held m then 1 else 0) \<and>
     (\<forall>t \<in> set (mc_tasks m). in_region t \<longrightarrow> (\<forall>r \<in> task_refs t. fenced (mc_state m) r))"

definition held_refs :: "Machine \<Rightarrow> bool" where
  "held_refs m \<longleftrightarrow> (\<forall>t \<in> set (mc_tasks m). \<forall>r \<in> task_refs t. r < length (cs_heap (mc_state m)))"

definition workers_ok :: "Machine \<Rightarrow> bool" where
  "workers_ok m \<longleftrightarrow> cs_active (mc_state m) = word_of_nat (busy (mc_tasks m)) \<and>
     busy (mc_tasks m) \<le> unat (cs_worker_count (mc_state m)) \<and>
     0 < cs_worker_count (mc_state m) \<and> cs_worker_count (mc_state m) \<le> kMaxWorkerThreads"

definition machine_ok :: "Machine \<Rightarrow> bool" where
  "machine_ok m \<longleftrightarrow> slots_ok (mc_state m) \<and> tally (mc_state m) \<and> table_ok (mc_state m) \<and>
     fence_ok m \<and> held_refs m \<and> workers_ok m"

lemma change_frame: "change st st' \<Longrightarrow> cs_options st' = cs_options st \<and> cs_epoch st' = cs_epoch st \<and>
    cs_authority st' = cs_authority st \<and> cs_worker_count st' = cs_worker_count st"
  by (induction rule: change.induct)
    (simp_all add: store_decision_def Commit_reject_def admit_slot_def Let_def same_slots_def)

lemma changes_frame: "changes st st' \<Longrightarrow> cs_options st' = cs_options st \<and> cs_epoch st' = cs_epoch st \<and>
    cs_authority st' = cs_authority st \<and> cs_worker_count st' = cs_worker_count st"
  by (induction rule: rtranclp_induct) (simp_all add: change_frame)

lemma changes_inv:
  assumes "changes st st'"
  shows "slots_ok st \<Longrightarrow> slots_ok st'" "tally st \<Longrightarrow> tally st'" "table_ok st \<Longrightarrow> table_ok st'"
  using assms by (induction rule: rtranclp_induct) (auto intro: change_slots_ok change_tally change_table)

lemma changes_fenced:
  assumes "changes st st'" "fenced st r" "r < length (cs_heap st)"
  shows "fenced st' r"
  using assms changes_evolve [OF assms(1)] changes_frame [OF assms(1)]
  by (auto simp: fenced_def heap_evolves_def evolves_def)

lemma held_refs_mono:
  assumes "\<forall>t \<in> set ts. \<forall>r \<in> task_refs t. r < length (cs_heap st)" "heap_evolves st st'" "t \<in> set ts" "r \<in> task_refs t"
  shows "r < length (cs_heap st')"
  using assms by (auto simp: heap_evolves_def intro: less_le_trans)

lemma small_count: "0 < n \<Longrightarrow> n \<le> 64 \<Longrightarrow> (word_of_nat n :: u64) \<noteq> 0"
  by (simp add: word_of_nat_eq_0_iff nat_dvd_not_less)

text \<open>A task step.\<close>

lemma run_task_ok:
  assumes ok: "machine_ok m" and m: "mc_tasks m = before @ t # after"
    and run: "run_task env t (mc_state m) (mc_commit_held m) = Some (st, held, ts)"
  shows "changes (mc_state m) st" "machine_ok \<lparr>mc_state = st, mc_commit_held = held, mc_tasks = before @ ts @ after\<rparr>"
proof -
  let ?m = "\<lparr>mc_state = st, mc_commit_held = held, mc_tasks = before @ ts @ after\<rparr>"
  from ok have inv: "slots_ok (mc_state m)" "tally (mc_state m)" "table_ok (mc_state m)" "fence_ok m" "held_refs m"
    "workers_ok m" by (simp_all add: machine_ok_def)
  have t: "\<forall>r \<in> task_refs t. r < length (cs_heap (mc_state m))" using inv(5) by (simp add: held_refs_def m)
  have f: "\<forall>r \<in> task_refs t. in_region t \<longrightarrow> fenced (mc_state m) r" using inv(4) by (simp add: fence_ok_def m)
  show c: "changes (mc_state m) st" using run t f by (intro run_task_changes) (auto simp: fenced_def)
  note evolve = changes_evolve [OF c]
  have refs: "held_refs ?m"
  proof -
    have "r < length (cs_heap st)" if "u \<in> set (before @ ts @ after)" "r \<in> task_refs u" for u r
    proof (cases "u \<in> set ts")
      case True
      then have "r \<in> task_refs t" using run_task_refs [OF run] that(2) by blast
      with t evolve show ?thesis by (auto simp: heap_evolves_def intro: less_le_trans)
    next
      case False
      with that inv(5) evolve show ?thesis
        by (intro held_refs_mono [of "mc_tasks m" "mc_state m"]) (auto simp: held_refs_def m)
    qed
    then show ?thesis by (auto simp: held_refs_def)
  qed
  have "in_region t \<Longrightarrow> mc_commit_held m" using inv(4) by (auto simp: fence_ok_def m split: if_splits)
  note region = run_task_region [OF run this]
  have "fence_ok ?m"
  proof -
    have "regions (before @ ts @ after) = (if held then 1 else 0)"
      using region inv(4) by (auto simp: fence_ok_def m split: if_splits)
    moreover have "fenced st r" if "u \<in> set (before @ ts @ after)" "in_region u" "r \<in> task_refs u" for u r
    proof (cases "u \<in> set ts")
      case True
      from run_task_fence [OF run True that(2) t] show ?thesis
        using that(3) f t c by (auto intro: changes_fenced)
    next
      case False
      with that inv(4,5) c show ?thesis
        by (auto simp: fence_ok_def held_refs_def m intro!: changes_fenced [OF c])
    qed
    ultimately show ?thesis by (auto simp: fence_ok_def)
  qed
  moreover have "workers_ok ?m"
  proof -
    from inv(6) have w: "cs_active (mc_state m) = word_of_nat (busy (before @ t # after))"
      "busy (before @ t # after) \<le> unat (cs_worker_count (mc_state m))" "unat (cs_worker_count (mc_state m)) \<le> 64"
      by (auto simp: workers_ok_def m kMaxWorkerThreads_def word_le_nat_alt)
    have "cs_active st = word_of_nat (busy (before @ ts @ after)) \<and>
      busy (before @ ts @ after) \<le> busy (before @ t # after)"
    proof (cases "\<exists>r. t = WorkerDone r")
      case True
      then have "busy (before @ t # after) = Suc (busy (before @ ts @ after))"
        using run_task_active [OF run] by auto
      moreover from this w(2,3) have "cs_active (mc_state m) \<noteq> 0"
        unfolding w(1) by (intro small_count) linarith+
      ultimately show ?thesis using True run_task_active [OF run] w(1) by (auto simp: word_gt_0)
    next
      case False
      then show ?thesis using run_task_active [OF run] w(1) by (auto split: if_splits)
    qed
    with w inv(6) changes_frame [OF c] show ?thesis by (auto simp: workers_ok_def)
  qed
  ultimately show "machine_ok ?m"
    using refs changes_inv [OF c] inv by (simp add: machine_ok_def)
qed

text \<open>A call.\<close>

lemma refenced_inv:
  assumes "refenced st st'"
  shows "slots_ok st' = slots_ok st" "tally st' = tally st" "table_ok st' = table_ok st" "heap_evolves st st'"
    "cs_worker_count st' = cs_worker_count st"
proof -
  from assms obtain e a where "st' = st\<lparr>cs_epoch := e, cs_authority := a\<rparr>" unfolding refenced_def by blast
  then show "slots_ok st' = slots_ok st" "tally st' = tally st" "table_ok st' = table_ok st" "heap_evolves st st'"
    "cs_worker_count st' = cs_worker_count st"
    by (simp_all add: slots_ok_def tally_def table_ok_def heap_evolves_def)
qed

lemma begin_call_ok:
  assumes ok: "machine_ok m" and run: "begin_call c (mc_state m) (mc_commit_held m) = Some (st, ts)"
  shows "heap_evolves (mc_state m) st" "machine_ok (m\<lparr>mc_state := st, mc_tasks := mc_tasks m @ ts\<rparr>)"
proof -
  let ?m = "m\<lparr>mc_state := st, mc_tasks := mc_tasks m @ ts\<rparr>"
  from ok have inv: "slots_ok (mc_state m)" "tally (mc_state m)" "table_ok (mc_state m)" "fence_ok m" "held_refs m"
    "workers_ok m" by (simp_all add: machine_ok_def)
  note refs = table_refs [OF inv(3)]
  have cases: "changes (mc_state m) st \<or> \<not> mc_commit_held m \<and> refenced (mc_state m) st"
    using begin_call_changes [OF run refs] by blast
  then show evolve: "heap_evolves (mc_state m) st" using changes_evolve refenced_inv(4) by blast
  have slots: "slots_ok st" "tally st" "table_ok st" "cs_worker_count st = cs_worker_count (mc_state m)"
    using cases by (elim disjE conjE; simp add: changes_inv changes_frame refenced_inv inv)+
  note new = begin_call_tasks [OF run refs]
  have "held_refs ?m"
  proof -
    have "r < length (cs_heap st)" if "u \<in> set (mc_tasks m)" "r \<in> task_refs u" for u r
      using that inv(5) evolve by (intro held_refs_mono [of "mc_tasks m" "mc_state m"]) (auto simp: held_refs_def)
    with new show ?thesis by (auto simp: held_refs_def)
  qed
  moreover have "fence_ok ?m"
  proof -
    have none: "filter in_region ts = []" using new by (simp add: filter_empty_conv)
    have "fenced st r" if "u \<in> set (mc_tasks m)" "in_region u" "r \<in> task_refs u" for u r
    proof -
      have "mc_commit_held m" using inv(4) that(1,2)
        by (auto simp: fence_ok_def filter_empty_conv split: if_splits)
      then have "changes (mc_state m) st" using cases by simp
      then show ?thesis by (rule changes_fenced) (use inv(4,5) that in \<open>auto simp: fence_ok_def held_refs_def\<close>)
    qed
    with none inv(4) new show ?thesis by (auto simp: fence_ok_def)
  qed
  moreover have "workers_ok ?m"
  proof -
    from inv(6) have b: "busy (mc_tasks m) \<le> 64" by (simp add: workers_ok_def kMaxWorkerThreads_def word_le_nat_alt)
    then have "unat (cs_active (mc_state m)) = busy (mc_tasks m)"
      using inv(6) by (simp add: workers_ok_def unat_of_nat take_bit_nat_eq_self)
    with inv(6) slots(4) begin_call_active [OF run] show ?thesis by (auto simp: workers_ok_def)
  qed
  ultimately show "machine_ok ?m" using slots by (simp add: machine_ok_def)
qed

lemma step_ok:
  assumes "step m m'" "machine_ok m"
  shows "machine_ok m'" "heap_evolves (mc_state m) (mc_state m')"
  using assms by (cases, auto simp: run_task_ok begin_call_ok changes_evolve)+

lemma Start_ok:
  assumes "Start io disk allocated options = Inr st"
  shows "machine_ok \<lparr>mc_state = st, mc_commit_held = False, mc_tasks = []\<rparr>"
proof -
  have st: "cs_heap st = []" "cs_slots st = []" "cs_slot_order st = []" "cs_active st = 0"
    "cs_stats st = default_CoordinatorStats" "cs_worker_count st = co_worker_threads (bound_options options)"
    using assms by (auto simp: Start_def Let_def split: if_splits sum.splits)
  have "0 < co_worker_threads (bound_options options)" "co_worker_threads (bound_options options) \<le> kMaxWorkerThreads"
    by (auto simp: bound_options_def kMaxWorkerThreads_def word_less_nat_alt word_le_nat_alt max_def min_def)
  then show ?thesis
    by (simp add: machine_ok_def slots_ok_def tally_def table_ok_def fence_ok_def held_refs_def workers_ok_def st
        default_CoordinatorStats_def)
qed

theorem reachable_ok: "reachable m \<Longrightarrow> machine_ok m"
  by (induction rule: reachable.induct) (auto intro: Start_ok step_ok)

end
