(* ===== verification/Flow_Fencing.thy ===== *)
theory Flow_Fencing
  imports Flow_Machine
begin

text \<open>
  Which placements the coordinator commits. Only the store access inside the commit boundary adds a
  placement record, the decision it commits was read inside the boundary, and the slot it belongs to is
  still within the current epoch and authority view.
\<close>

section \<open>Placement records\<close>

text \<open>The records of the open store, or the latest record per flow of an in-memory coordinator.\<close>

definition records :: "CoordinatorState \<Rightarrow> PlacementRecord set" where
  "records st = (case cs_store st of
     Some store \<Rightarrow> set (im_placements (ps_impl store))
   | None \<Rightarrow> snd ` set (cs_latest_in_memory st))"

lemma records_store: "records st = set (im_placements (ps_impl store))" if "cs_store st = Some store"
  using that by (simp add: records_def)

lemma records_cong: "cs_store st' = cs_store st \<Longrightarrow> cs_latest_in_memory st' = cs_latest_in_memory st \<Longrightarrow> records st' = records st"
  by (simp add: records_def split: option.split)

lemma records_replaced:
  "cs_store st = Some store \<Longrightarrow> same_ledger (ps_impl store') (ps_impl store) \<Longrightarrow>
   records (st\<lparr>cs_store := Some store'\<rparr>) = records st"
  by (simp add: records_def same_ledger_def)

lemma records_updates [simp]:
  "records (set_slot r f st) = records st" "records (bump g st) = records st"
  "records (FinalizeLocked r state code st) = records st" "records (store_decision r d st) = records st"
  "records (ReapRetainedSlots st) = records st" "records (CommitSlot_note r p st) = records st"
  "records (Shutdown_stop st) = records st" "records (worker_done r st) = records st"
  "records (fst (AdvanceEpoch st)) = records st" "records (fst (SetAuthority expected st)) = records st"
  by (rule records_cong; simp add: CommitSlot_note_def Shutdown_stop_def worker_done_def Let_def AdvanceEpoch_def
      SetAuthority_def split: prod.split bool.split)+

lemma records_fields [simp]:
  "records (st\<lparr>cs_queue := q, cs_queue_depth := n\<rparr>) = records st" "records (st\<lparr>cs_active := a\<rparr>) = records st"
  "records (st\<lparr>cs_state := s\<rparr>) = records st"
  "records (st\<lparr>cs_heap := h, cs_slots := m, cs_slot_order := order\<rparr>) = records st"
  by (rule records_cong; simp)+

lemma records_journal [simp]: "records (JournalTerminal env r phase code st) = records st"
  by (simp add: JournalTerminal_def Let_def records_replaced attempt_records_ledger split: option.split)

lemma records_register [simp]: "records (fst (RegisterAttempt_journal env r st)) = records st"
proof (cases "cs_store st")
  case (Some store)
  have "records (st\<lparr>cs_store := Some (fst (AppendAttemptStart io cio a store))\<rparr>) = records st" for io cio a
    using Some by (rule records_replaced) (rule attempt_records_ledger)
  with Some show ?thesis by (simp add: RegisterAttempt_journal_def Let_def case_prod_beta)
qed (simp add: RegisterAttempt_journal_def)

lemma records_close [simp]: "records (fst (Shutdown_close answer closed st)) = records st"
  by (simp add: Shutdown_close_def case_prod_beta records_replaced Close_ledger split: option.split)

lemma records_sections [simp]:
  "records (fst (RegisterAttempt_mark r st)) = records st" "records (fst (Submit_enqueue r st)) = records st"
  "records (fst (Prepare_begin r st)) = records st" "records (fst (Commit_reject r d st)) = records st"
  "records (fst (Commit_fail r code st)) = records st" "records (Await_finish r st) = records st"
  "records (fst (CommitSlot_check r st)) = records st"
  "records (fst (RegisterAttempt_admit request a enforce st)) = records st"
  "records (fst (Cancel_section a st)) = records st" "records (fst (worker_pick st)) = records st"
  by (simp_all add: RegisterAttempt_mark_def Submit_enqueue_def Prepare_begin_def Commit_reject_def Commit_fail_def
      Await_finish_def CommitSlot_check_def RegisterAttempt_admit_def admit_slot_def Cancel_section_def worker_pick_def
      Let_def split: option.split list.split)

lemma records_shutdown [simp]:
  "records (fst (FinalizeShutdownSlot r acc)) = records (fst acc)"
  "records (fst (shutdown_queued a acc)) = records (fst acc)"
  "records (fst (shutdown_slot c r acc)) = records (fst acc)"
  by (simp_all add: FinalizeShutdownSlot_def shutdown_queued_def shutdown_slot_def case_prod_beta Let_def split: option.split)

lemma records_shutdown_folds [simp]:
  "records (fst (fold shutdown_queued q acc)) = records (fst acc)"
  "records (fst (fold (\<lambda>e. shutdown_slot c (snd e)) m acc)) = records (fst acc)"
  by (rule fold_keeps, simp)+

lemma Shutdown_begin_records: "Shutdown_begin c st = Some (st', cancelled) \<Longrightarrow> records st' = records st"
  by (auto simp: Shutdown_begin_def Let_def dest!: arg_cong [where f = fst] split: if_splits)

text \<open>A commit adds at most one record, built from the intent it was given.\<close>

lemma set_omap_put: "set (omap_put k v m) \<subseteq> insert (k, v) (set m)"
  by (induction m) (auto split: if_splits)

lemma CommitRecord_records:
  assumes "p \<in> records (fst (CommitRecord env intent delta digest epoch st))" "p \<notin> records st"
  shows "pr_intent p = intent \<and> pr_delta p = delta \<and> pr_decision_digest p = digest \<and> pr_commit_epoch p = epoch \<and>
    pr_committed_by p = cs_incarnation st"
proof (cases "cs_store st")
  case None
  have sub: "snd ` set (omap_put f q m) \<subseteq> insert q (snd ` set m)" for f q and m :: "(FlowId, PlacementRecord) omap"
    using set_omap_put [of f q m] by force
  from None assms show ?thesis
    by (auto simp: CommitRecord_def records_def Let_def split: if_splits option.splits dest!: subsetD [OF sub])
next
  case (Some store)
  let ?s = "fst (CommitPlacement (ev_io env) (ev_cio env) (ev_now env) intent delta digest (cs_incarnation st) epoch store)"
  from Some assms have p: "p \<in> set (im_placements (ps_impl ?s))" "p \<notin> set (im_placements (ps_impl store))"
    by (simp_all add: CommitRecord_def records_def case_prod_beta)
  with CommitPlacement_ledger [of "ev_io env" "ev_cio env" "ev_now env" intent delta digest "cs_incarnation st" epoch store]
  obtain q where q: "new_record intent delta digest (cs_incarnation st) epoch (ev_now env) (ps_impl store) = Inr q"
    "im_placements (ps_impl ?s) = im_placements (ps_impl store) @ [q]"
    by (auto simp: same_ledger_def)
  with p have "p = q" by auto
  with q(1) show ?thesis by (auto simp: new_record_def guardR_def Let_def split: option.splits if_splits)
qed

lemma run_task_records:
  assumes "run_task env t st held = Some (st', held', ts)" "p \<in> records st'" "p \<notin> records st"
  obtains r who d where "t = StoreCommit r who d" "de_intent d = Some (pr_intent p)"
    "pr_commit_epoch p = ex_fabric_epoch (rq_expected (sl_request (slot_at st r)))"
    "pr_decision_digest p = de_digest d" "pr_committed_by p = cs_incarnation st"
proof (cases t)
  case (StoreCommit r who d)
  with assms(1) have st': "st' = fst (CommitSlot_store env r d st)" by (auto split: prod.splits sum.splits)
  then obtain i where i: "de_intent d = Some i" using assms(2,3) by (cases "de_intent d") (simp_all add: CommitSlot_store_def)
  with st' assms(2,3) CommitRecord_records [of p env i "de_delta d" "de_digest d" _ st]
  show ?thesis using that [OF StoreCommit] by (simp add: CommitSlot_store_def)
next
  case (ShutdownJournal attempts)
  with assms show ?thesis by (cases attempts) (auto split: option.splits)
qed (use assms in \<open>auto simp: Let_def case_prod_beta split: if_splits CommitStep.splits\<close>)

lemma begin_call_records:
  assumes "begin_call c st held = Some (st', ts)"
  shows "records st' = records st"
proof (cases c)
  case (DoCancel a)
  with assms records_sections(9) [of a st] show ?thesis
    by (auto simp del: records_sections(9) split: prod.splits sum.splits bool.splits)
qed (use assms in \<open>auto simp: case_prod_beta split: option.splits if_splits dest: Shutdown_begin_records\<close>)

section \<open>The decision inside the boundary\<close>

text \<open>The decision a commit carries is the engine's, unless the attempt was rejected behind its back.\<close>

definition commit_ok :: "CoordinatorState \<Rightarrow> nat \<Rightarrow> PlacementDecision \<Rightarrow> bool" where
  "commit_ok st r d \<longleftrightarrow> engine_decision (co_limits (cs_options st)) (sl_request (slot_at st r)) d \<and>
     (de_intent d \<noteq> None \<longrightarrow> placed d \<or> ended_as AttemptState.kRejected (slot_at st r))"

definition commits_ok :: "Machine \<Rightarrow> bool" where
  "commits_ok m \<longleftrightarrow> (\<forall>r who d. StoreCommit r who d \<in> set (mc_tasks m) \<longrightarrow> commit_ok (mc_state m) r d)"

lemma commit_ok_mono:
  assumes "commit_ok st r d" "heap_evolves st st'" "cs_options st' = cs_options st" "r < length (cs_heap st)"
  shows "commit_ok st' r d"
  using assms unfolding commit_ok_def heap_evolves_def evolves_def ended_as_def by metis

lemma run_task_commit:
  assumes "run_task env t st held = Some (st', held', ts)" "StoreCommit r who d \<in> set ts"
  shows "t = InBoundary r who \<and> d = oc_decision (sl_outcome (slot_at st r)) \<and> st' = st"
proof (cases t)
  case (ShutdownJournal attempts)
  with assms show ?thesis by (cases attempts) auto
qed (use assms in \<open>auto simp: Let_def dest: continuations split: prod.splits if_splits CommitStep.splits sum.splits option.splits\<close>)

lemma begin_call_commit: "begin_call c st held = Some (st', ts) \<Longrightarrow> refs_ok st \<Longrightarrow> StoreCommit r who d \<notin> set ts"
  using begin_call_tasks [of c st held st' ts "StoreCommit r who d"] by auto

lemma options_kept:
  assumes "step m m'" "machine_ok m"
  shows "cs_options (mc_state m') = cs_options (mc_state m)"
  using assms(1)
proof cases
  case (call c st ts)
  with begin_call_changes [OF call(2)] assms(2) show ?thesis
    by (auto simp: machine_ok_def table_refs refenced_def dest: changes_frame)
next
  case (task before t "after" env st held ts)
  with run_task_ok(1) [OF assms(2) task(2,3)] show ?thesis by (auto dest: changes_frame)
qed

lemma step_commits_ok:
  assumes "step m m'" "machine_ok m" "commits_ok m"
  shows "commits_ok m'"
proof -
  note o = options_kept [OF assms(1,2)] and e = step_ok(2) [OF assms(1,2)]
  have old: "commit_ok (mc_state m') r d" if "StoreCommit r who d \<in> set (mc_tasks m)" for r who d
    using that assms(2,3) o e
    by (intro commit_ok_mono [OF _ e o]) (auto simp: commits_ok_def machine_ok_def held_refs_def)
  from assms(1) show ?thesis
  proof cases
    case (call c st ts)
    with begin_call_commit [OF call(2)] assms(2) old show ?thesis
      by (auto simp: commits_ok_def machine_ok_def table_refs)
  next
    case (task before t "after" env st held ts)
    have "commit_ok st r d" if "StoreCommit r who d \<in> set ts" for r who d
    proof -
      from run_task_commit [OF task(3) that]
      have t: "t = InBoundary r who" "d = oc_decision (sl_outcome (slot_at (mc_state m) r))" "st = mc_state m" by simp_all
      have "r < length (cs_heap (mc_state m))" using assms(2) task(2) t(1) by (auto simp: machine_ok_def held_refs_def)
      then have "slot_ok (co_limits (cs_options (mc_state m))) (slot_at (mc_state m) r)"
        using assms(2) by (simp add: machine_ok_def slots_ok_nth)
      then show ?thesis by (auto simp: slot_ok_def commit_ok_def ended_as_def t(2,3))
    qed
    with old task show ?thesis by (auto simp: commits_ok_def)
  qed
qed

lemma reachable_commits_ok: "reachable m \<Longrightarrow> commits_ok m"
proof (induction rule: reachable.induct)
  case (step m m')
  then show ?case using reachable_ok step_commits_ok by blast
qed (simp add: commits_ok_def)

text \<open>What an acknowledged cancellation leaves in the slot.\<close>

lemma FinalizeLocked_flags:
  assumes "r < length (cs_heap st)"
  shows "sl_cancel_requested (slot_at (FinalizeLocked r state code st) r) = sl_cancel_requested (slot_at st r)"
    "sl_commit_boundary_crossed (slot_at (FinalizeLocked r state code st) r) = sl_commit_boundary_crossed (slot_at st r)"
  using assms by (simp_all add: FinalizeLocked_def)

lemma Cancel_section_marks:
  assumes "Cancel_section a st = (st', Inr (r, journal))" "refs_ok st"
  shows "sl_cancel_requested (slot_at st' r) \<and> \<not> sl_commit_boundary_crossed (slot_at st' r)"
proof -
  from assms(1) have "omap_get (cs_slots st) a = Some r"
    by (auto simp: Cancel_section_def Let_def split: option.splits if_splits)
  with assms refs_okD [OF assms(2), of a r] show ?thesis
    by (auto simp: Cancel_section_def Let_def FinalizeLocked_flags split: if_splits)
qed

section \<open>Runs\<close>

lemma steps_ok:
  assumes "step\<^sup>*\<^sup>* m m'" "machine_ok m"
  shows "machine_ok m' \<and> heap_evolves (mc_state m) (mc_state m')"
  using assms by (induction rule: rtranclp_induct) (auto intro: step_ok heap_evolves_trans)

end
