(* ===== verification/Flow_Demo.thy ===== *)
theory Flow_Demo
  imports Flow_Fencing Flow_Example
begin

text \<open>
  A concrete run of an in-memory coordinator on the sample request: start, prepare, commit. Its machines
  are reachable, and the properties of the coordinator are exercised on them.
\<close>

definition demo_options :: CoordinatorOptions where
  "demo_options = \<lparr>co_limits = default_Limits, co_store = default_StoreOptions, co_store_path = [],
     co_worker_threads = 2, co_queue_capacity = 8, co_max_retained_attempts = 16, co_initial_epoch = 6,
     co_incarnation = 9, co_seed = 0\<rparr>"

definition demo_start :: CoordinatorState where
  "demo_start = \<lparr>cs_options = bound_options demo_options, cs_store = None,
     cs_authority = \<lparr>ex_path_authority = 0, ex_candidate_set = 0, ex_capacity = 0, ex_policy = 0, ex_qos = 0,
       ex_fabric_epoch = 6, ex_evidence = 0\<rparr>,
     cs_epoch = 6, cs_incarnation = 9, cs_state = RunState.kRunning, cs_queue = [], cs_slot_order = [],
     cs_queue_depth = 0, cs_active = 0, cs_slots = [], cs_heap = [], cs_stats = default_CoordinatorStats,
     cs_next_placement_id = 1, cs_latest_in_memory = [], cs_worker_count = 2\<rparr>"

lemma demo_Start: "Start io disk allocated demo_options = Inr demo_start"
  by (simp add: Start_def demo_start_def demo_options_def bound_options_def Let_def kMaxWorkerThreads_def)

lemma demo_limits [simp]: "co_limits (cs_options demo_start) = default_Limits"
  by (simp add: demo_start_def bound_options_def demo_options_def)

lemma demo_fields [simp]: "cs_store demo_start = None" "cs_epoch demo_start = 6" "cs_state demo_start = RunState.kRunning"
  "cs_latest_in_memory demo_start = []" "cs_incarnation demo_start = 9" "cs_next_placement_id demo_start = 1"
  "cs_slots demo_start = []" "cs_heap demo_start = []" "cs_slot_order demo_start = []" "cs_queue demo_start = []"
  "cs_active demo_start = 0" "cs_worker_count demo_start = 2" "cs_stats demo_start = default_CoordinatorStats"
  "cs_queue_depth demo_start = 0" "co_max_retained_attempts (cs_options demo_start) = 16"
  "co_queue_capacity (cs_options demo_start) = 8"
  by (simp_all add: demo_start_def bound_options_def demo_options_def kMaxQueueCapacity_def)

lemma demo_authority [simp]: "AuthorityMatches (cs_authority demo_start) expected"
  by (simp add: demo_start_def AuthorityMatches_def)

text \<open>The coordinator once the sample attempt is in its table, with its slot as a parameter.\<close>

definition demo :: "Slot \<Rightarrow> CoordinatorState" where
  "demo s = demo_start\<lparr>cs_heap := [s], cs_slots := [(77, 0)], cs_slot_order := [77],
     cs_stats := default_CoordinatorStats\<lparr>cn_submitted := 1, cn_accepted := 1\<rparr>\<rparr>"

abbreviation demo_machine :: "Slot \<Rightarrow> bool \<Rightarrow> Task list \<Rightarrow> Machine" where
  "demo_machine s held ts \<equiv> \<lparr>mc_state = demo s, mc_commit_held = held, mc_tasks = ts\<rparr>"

abbreviation demo_decision :: PlacementDecision where
  "demo_decision \<equiv> Place default_Limits sample_request"

definition slot_new :: Slot where
  "slot_new = new_slot sample_request 77 (RequestDigest sample_request default_Limits)"

definition slot_running :: Slot where
  "slot_running = slot_new\<lparr>sl_running := True, sl_outcome := (sl_outcome slot_new)\<lparr>oc_state := AttemptState.kRunning\<rparr>\<rparr>"

definition slot_decided :: Slot where
  "slot_decided = slot_running\<lparr>sl_outcome := (sl_outcome slot_running)\<lparr>oc_decision := demo_decision\<rparr>\<rparr>"

definition slot_crossed :: Slot where
  "slot_crossed = slot_decided\<lparr>sl_commit_boundary_crossed := True\<rparr>"

lemma demo_slot_fields [simp]:
  "sl_request slot_new = sample_request" "sl_request slot_running = sample_request"
  "sl_request slot_decided = sample_request" "sl_request slot_crossed = sample_request"
  "sl_terminal slot_new = False" "sl_terminal slot_running = False" "sl_terminal slot_decided = False"
  "sl_terminal slot_crossed = False" "sl_cancel_requested slot_decided = False" "sl_attempt slot_new = 77"
  "sl_commit_boundary_crossed slot_decided = False" "sl_running slot_decided = True"
  "oc_decision (sl_outcome slot_decided) = demo_decision" "oc_decision (sl_outcome slot_crossed) = demo_decision"
  "sl_cancel_requested slot_new = False" "sl_commit_boundary_crossed slot_new = False"
  "sl_running slot_new = False" "sl_in_worker slot_new = False" "sl_journalled_start slot_new = False"
  by (simp_all add: slot_new_def slot_running_def slot_decided_def slot_crossed_def new_slot_def)

lemma demo_state_fields [simp]:
  "cs_heap (demo s) = [s]" "cs_slots (demo s) = [(77, 0)]" "cs_store (demo s) = None" "cs_epoch (demo s) = 6"
  "cs_state (demo s) = RunState.kRunning" "cs_authority (demo s) = cs_authority demo_start"
  "cs_options (demo s) = cs_options demo_start" "cs_latest_in_memory (demo s) = []" "cs_incarnation (demo s) = 9"
  "cs_next_placement_id (demo s) = 1" "cs_queue (demo s) = []" "cs_active (demo s) = 0" "cs_worker_count (demo s) = 2"
  "cs_queue_depth (demo s) = 0"
  by (simp_all add: demo_def)

lemma demo_set_slot [simp]: "set_slot 0 f (demo s) = demo (f s)"
  by (simp add: set_slot_def demo_def)

lemma demo_get [simp]: "omap_get [(77 :: u64, 0 :: nat)] 77 = Some 0"
  by (simp add: omap_get_def)

lemma sample_attempt [simp]: "sample_request\<lparr>rq_attempt := 77\<rparr> = sample_request" "rq_attempt sample_request = 77"
  "ex_fabric_epoch (rq_expected sample_request) = 6"
  by (simp_all add: sample_request_def)

lemma demo_verified: "VerifyIntent default_Limits sample_request (the (de_intent demo_decision)) = None"
  using VerifyIntent_Place_intent [OF sample_wf, of "sample_path 20 30"]
  by (simp add: sample_intent sample_chosen sample_legal)

lemma demo_Compute [simp]: "sl_request s = sample_request \<Longrightarrow> ComputeDecision (demo s) 0 = demo_decision"
  by (simp add: ComputeDecision_def Let_def demo_verified)

section \<open>The steps\<close>

lemma head_step:
  assumes "run_task env t st held = Some (st', held', ts)"
  shows "step \<lparr>mc_state = st, mc_commit_held = held, mc_tasks = t # rest\<rparr>
    \<lparr>mc_state = st', mc_commit_held = held', mc_tasks = ts @ rest\<rparr>"
  using step.task [of "\<lparr>mc_state = st, mc_commit_held = held, mc_tasks = t # rest\<rparr>" "[]" t rest env st' held' ts] assms
  by simp

lemma by_call:
  assumes "reachable m" "begin_call c (mc_state m) (mc_commit_held m) = Some (st, ts)"
  shows "reachable (m\<lparr>mc_state := st, mc_tasks := mc_tasks m @ ts\<rparr>)"
  using assms by (blast intro: reachable.step step.call)

lemma by_head:
  assumes "reachable \<lparr>mc_state = st, mc_commit_held = held, mc_tasks = t # rest\<rparr>"
    "run_task env t st held = Some (st', held', ts)"
  shows "reachable \<lparr>mc_state = st', mc_commit_held = held', mc_tasks = ts @ rest\<rparr>"
  using assms by (blast intro: reachable.step head_step)

lemma demo0: "reachable \<lparr>mc_state = demo_start, mc_commit_held = False, mc_tasks = []\<rparr>"
  by (rule reachable.start [OF demo_Start])

lemma demo_admit: "RegisterAttempt_admit sample_request 77 enforce demo_start = (demo slot_new, Inr 0)"
proof -
  have "ReapRetainedSlots (demo s) = demo s" for s
    by (simp add: ReapRetainedSlots_def reap_loop.simps demo_def)
  then have "admit_slot sample_request 77 (RequestDigest sample_request default_Limits)
      (bump (\<lambda>s. s\<lparr>cn_submitted := cn_submitted s + 1\<rparr>) demo_start) = demo slot_new"
    by (simp add: admit_slot_def Let_def slot_new_def bump_def demo_def default_CoordinatorStats_def)
  moreover have "Status_ok (ValidateRequest sample_request default_Limits)"
    by (simp add: ValidateRequest_ok_wf sample_wf)
  ultimately show ?thesis by (simp add: RegisterAttempt_admit_def Let_def)
qed

lemma demo1: "reachable (demo_machine slot_new False [JournalStart 0 ForPrepare])"
  using by_call [OF demo0, of "DoPrepare sample_request 77"] by (simp add: demo_admit register_tasks_def)

lemma demo2: "reachable (demo_machine slot_new False [PrepareBegin 0])"
  using by_head [OF demo1, where held' = False] by (simp add: RegisterAttempt_journal_def)

lemma demo3: "reachable (demo_machine slot_running False [PrepareDecide 0])"
  using by_head [OF demo2, where held' = False] by (simp add: Prepare_begin_def slot_running_def)

lemma demo4: "reachable (demo_machine slot_decided False [])"
  using by_head [OF demo3, where held' = False] by (simp add: store_decision_def slot_decided_def)

text \<open>The caller commits the decision it was given.\<close>

definition demo_prepared :: PreparedAttempt where
  "demo_prepared = \<lparr>pd_attempt = 77, pd_request = sample_request, pd_decision = demo_decision\<rparr>"

lemma demo5: "reachable (demo_machine slot_decided False [CommitStart 0 demo_decision])"
  using by_call [OF demo4, of "DoCommit demo_prepared"] by (simp add: demo_prepared_def)

lemma demo6: "reachable (demo_machine slot_decided False [Boundary 0 Caller])"
  using by_head [OF demo5, where held' = False] by (simp add: sample_placed Commit_admit_def Let_def)

lemma demo7: "reachable (demo_machine slot_crossed True [InBoundary 0 Caller])"
  using by_head [OF demo6, where held' = True] by (simp add: CommitSlot_check_def slot_crossed_def Let_def)

lemma demo8: "reachable (demo_machine slot_crossed True [StoreCommit 0 Caller demo_decision])"
  using by_head [OF demo7, where held' = True] by simp

definition demo_record :: "PlacementIntent \<Rightarrow> PlacementDecision \<Rightarrow> PlacementRecord" where
  "demo_record i d = \<lparr>pr_id = 1, pr_generation = 1, pr_intent = i, pr_delta = de_delta d,
     pr_decision_digest = de_digest d, pr_committed_by = 9, pr_commit_epoch = 6, pr_sequence = 0,
     pr_supersedes_generation = 0, pr_commit_unix_nanos = 0, pr_requires_revalidation = False\<rparr>"

text \<open>The store access of a commit whose decision carries the intent \<open>i\<close>, at time 0.\<close>

definition demo_committed :: "Slot \<Rightarrow> PlacementIntent \<Rightarrow> PlacementDecision \<Rightarrow> CoordinatorState" where
  "demo_committed s i d = (demo s)\<lparr>cs_next_placement_id := 2, cs_latest_in_memory := [(in_flow i, demo_record i d)]\<rparr>"

lemma demo_store:
  assumes "de_intent d = Some i" "sl_request s = sample_request" "ev_now env = 0"
  shows "CommitSlot_store env 0 d (demo s) = (demo_committed s i d, Inr (demo_record i d))"
  using assms by (simp add: CommitSlot_store_def CommitRecord_def demo_committed_def demo_record_def Let_def)

lemma demo_records [simp]: "records (demo s) = {}" "records (demo_committed s i d) = {demo_record i d}"
  by (simp_all add: records_def demo_committed_def)

definition demo_noted :: "Slot \<Rightarrow> PlacementIntent \<Rightarrow> PlacementDecision \<Rightarrow> Machine" where
  "demo_noted s i d = \<lparr>mc_state = demo_committed s i d, mc_commit_held = True,
     mc_tasks = [NoteCommit 0 Caller (demo_record i d)]\<rparr>"

lemma demo_commit:
  assumes "de_intent d = Some i" "sl_request s = sample_request"
  shows "step (demo_machine s True [StoreCommit 0 Caller d]) (demo_noted s i d)"
proof -
  obtain env :: Env where env: "ev_now env = 0" by (metis Env.select_convs(3))
  have "run_task env (StoreCommit 0 Caller d) (demo s) True =
      Some (demo_committed s i d, True, [NoteCommit 0 Caller (demo_record i d)])"
    by (simp add: demo_store [OF assms env])
  from head_step [OF this] show ?thesis by (simp add: demo_noted_def)
qed

section \<open>Cancellation\<close>

text \<open>A cancellation before the caller commits.\<close>

definition slot_cancelling :: Slot where
  "slot_cancelling = slot_decided\<lparr>sl_cancel_requested := True\<rparr>"

lemma slot_cancelling_fields [simp]: "oc_state (sl_outcome slot_cancelling) = AttemptState.kRunning"
  "sl_terminal slot_cancelling = False" "sl_request slot_cancelling = sample_request"
  by (simp_all add: slot_cancelling_def slot_decided_def slot_running_def slot_new_def new_slot_def)

text \<open>The cancelled attempt, once its commit has been refused.\<close>

definition slot_cancelled :: Slot where
  "slot_cancelled = slot_cancelling\<lparr>sl_terminal := True,
     sl_outcome := (sl_outcome slot_cancelling)\<lparr>oc_state := AttemptState.kCancelled, oc_code := StatusCode.kCancelled\<rparr>\<rparr>"

definition demo_ended :: CoordinatorState where
  "demo_ended = bump (count_outcome AttemptState.kCancelled) (demo slot_cancelled)"

lemma demo_cancelled:
  "reachable \<lparr>mc_state = demo_ended, mc_commit_held = False,
     mc_tasks = [JournalOutcome 0 Caller AttemptPhase.kCancelled StatusCode.kCancelled]\<rparr>"
proof -
  have c: "reachable (demo_machine slot_cancelling False [])"
    using by_call [OF demo4, of "DoCancel 77"] by (simp add: Cancel_section_def Let_def slot_cancelling_def)
  then have "reachable (demo_machine slot_cancelling False [CommitStart 0 demo_decision])"
    using by_call [OF c, of "DoCommit demo_prepared"] by (simp add: demo_prepared_def)
  note by_head [OF this, where held' = False]
  then have "reachable (demo_machine slot_cancelling False [Boundary 0 Caller])"
    by (simp add: sample_placed Commit_admit_def Let_def slot_cancelling_def)
  note by_head [OF this, where held' = False]
  then have "reachable (demo_machine slot_cancelling False [FailedCommit 0 Caller StatusCode.kCancelled])"
    by (simp add: CommitSlot_check_def Let_def slot_cancelling_def)
  note by_head [OF this, where held' = False]
  then show ?thesis
    by (simp add: Commit_fail_def FinalizeLocked_def StateForFailure_def PhaseForState_def slot_cancelled_def demo_ended_def)
qed

section \<open>Two commits of one attempt\<close>

definition slot_raced :: "PlacementDecision \<Rightarrow> Slot" where
  "slot_raced d = slot_crossed\<lparr>sl_terminal := True, sl_outcome := (sl_outcome slot_crossed)
     \<lparr>oc_decision := d, oc_state := AttemptState.kRejected, oc_code := de_code d\<rparr>\<rparr>"

definition demo_raced :: "PlacementDecision \<Rightarrow> CoordinatorState" where
  "demo_raced d = bump (count_outcome AttemptState.kRejected) (demo (slot_raced d))"

lemma demo_race_run:
  assumes "\<not> placed d" "de_intent d = Some i"
  shows "\<exists>m. reachable m \<and> demo_record i d \<in> records (mc_state m)"
proof -
  let ?env = "\<lparr>ev_io = undefined, ev_cio = undefined, ev_now = 0\<rparr> :: Env"
  let ?j = "JournalOutcome 0 Caller AttemptPhase.kRejected (de_code d)"
  have "reachable (demo_machine slot_crossed True [InBoundary 0 Caller, CommitStart 0 d])"
    using by_call [OF demo7, of "DoCommit \<lparr>pd_attempt = 77, pd_request = sample_request, pd_decision = d\<rparr>"] by simp
  moreover have "run_task ?env (CommitStart 0 d) (demo slot_crossed) True = Some (demo_raced d, True, [?j])"
    using assms(1) by (simp add: Commit_reject_def store_decision_def FinalizeLocked_def demo_raced_def slot_raced_def)
  ultimately have r: "reachable \<lparr>mc_state = demo_raced d, mc_commit_held = True, mc_tasks = [InBoundary 0 Caller, ?j]\<rparr>"
    using reachable.step step.task [of "demo_machine slot_crossed True [InBoundary 0 Caller, CommitStart 0 d]"
      "[InBoundary 0 Caller]" "CommitStart 0 d" "[]"] by fastforce
  have "reachable \<lparr>mc_state = demo_raced d, mc_commit_held = True, mc_tasks = [StoreCommit 0 Caller d, ?j]\<rparr>"
    using by_head [OF r, where held' = True] by (simp add: demo_raced_def slot_raced_def)
  moreover have "run_task ?env (StoreCommit 0 Caller d) (demo_raced d) True =
    Some (fst (CommitSlot_store ?env 0 d (demo_raced d)), True, [NoteCommit 0 Caller (demo_record i d)])"
    "demo_record i d \<in> records (fst (CommitSlot_store ?env 0 d (demo_raced d)))"
    using assms(2)
    by (simp_all add: CommitSlot_store_def CommitRecord_def records_def demo_raced_def slot_raced_def Let_def demo_record_def bump_def demo_def demo_start_def)
  ultimately show ?thesis using by_head by fastforce
qed

end
