(* ===== verification/Flow_Progress.thy ===== *)
theory Flow_Progress
  imports Flow_Fencing
begin

text \<open>
  Progress of the coordinator. An internal step is a thread that continues, or a worker that takes an entry
  of the queue: a step that needs no new call. Every internal step does some of the remaining work
  (\<open>work\<close>), so internal runs are bounded; and a machine in which no internal step is possible is settled:
  nobody waits for a lock, no shutdown is half done, and every attempt has its outcome unless it was
  prepared and its caller has not committed it yet.
\<close>

section \<open>Work\<close>

fun weight :: "Task \<Rightarrow> nat" where
  "weight (JournalStart r purpose) = 13"
| "weight (MarkStarted r purpose) = 12"
| "weight (JournalPending r phase code purpose) = 11"
| "weight (Enqueue r) = 10"
| "weight (PrepareBegin r) = 2"
| "weight (PrepareDecide r) = 1"
| "weight (CommitStart r decision) = 8"
| "weight (WorkerDecide r) = 8"
| "weight (WorkerReject r decision) = 3"
| "weight (Boundary r who) = 7"
| "weight (InBoundary r who) = 6"
| "weight (StoreCommit r who decision) = 5"
| "weight (NoteCommit r who p) = 4"
| "weight (JournalCommit r who) = 3"
| "weight (FinishCommit r who) = 2"
| "weight (FailedCommit r who code) = 3"
| "weight (JournalOutcome r who phase code) = 2"
| "weight (WorkerDone r) = 1"
| "weight (AwaitOutcome r) = 1"
| "weight (ShutdownJournal attempts) = length attempts + 3"
| "weight ShutdownJoin = 2"
| "weight (ShutdownClose answer closed) = 1"
| "weight ShutdownWait = 1"
| "weight DrainWait = 1"

definition work :: "Machine \<Rightarrow> nat" where
  "work m = sum_list (map weight (mc_tasks m)) + 9 * length (cs_queue (mc_state m))"

inductive internal :: "Machine \<Rightarrow> Machine \<Rightarrow> bool" where
  pick: "begin_call Pick (mc_state m) (mc_commit_held m) = Some (st, ts) \<Longrightarrow>
    internal m (m\<lparr>mc_state := st, mc_tasks := mc_tasks m @ ts\<rparr>)"
| task: "mc_tasks m = before @ t # after \<Longrightarrow> run_task env t (mc_state m) (mc_commit_held m) = Some (st, held, ts) \<Longrightarrow>
    internal m \<lparr>mc_state = st, mc_commit_held = held, mc_tasks = before @ ts @ after\<rparr>"

lemma internal_step: "internal m m' \<Longrightarrow> step m m'"
  by (induction rule: internal.induct) (auto intro: step.call step.task simp del: begin_call.simps)

section \<open>Queue and run state\<close>

definition control :: "CoordinatorState \<Rightarrow> AttemptId list \<times> u64 \<times> RunState \<times> nat" where
  "control st = (cs_queue st, cs_queue_depth st, cs_state st, length (cs_heap st))"

lemma control_cong: "cs_queue st' = cs_queue st \<Longrightarrow> cs_queue_depth st' = cs_queue_depth st \<Longrightarrow> cs_state st' = cs_state st \<Longrightarrow>
    length (cs_heap st') = length (cs_heap st) \<Longrightarrow> control st' = control st"
  by (simp add: control_def)

lemma control_updates [simp]:
  "control (set_slot r f st) = control st" "control (bump g st) = control st"
  "control (FinalizeLocked r state code st) = control st" "control (store_decision r d st) = control st"
  "control (ReapRetainedSlots st) = control st" "control (CommitSlot_note r p st) = control st"
  "control (worker_done r st) = control st"
  "control (fst (AdvanceEpoch st)) = control st" "control (fst (SetAuthority expected st)) = control st"
  "control (JournalTerminal env r phase code st) = control st"
  "control (fst (CommitRecord env intent delta digest epoch st)) = control st"
  "control (fst (RegisterAttempt_journal env r st)) = control st"
  "control (fst (RegisterAttempt_mark r st)) = control st" "control (fst (Prepare_begin r st)) = control st"
  "control (fst (Commit_reject r d st)) = control st" "control (fst (Commit_fail r code st)) = control st"
  "control (Await_finish r st) = control st" "control (fst (CommitSlot_check r st)) = control st"
  "control (fst (Cancel_section a st)) = control st" "control (fst (Shutdown_close answer closed st)) = control st"
  by (rule control_cong; simp add: CommitSlot_note_def worker_done_def AdvanceEpoch_def SetAuthority_def JournalTerminal_def
      CommitRecord_def RegisterAttempt_journal_def RegisterAttempt_mark_def Prepare_begin_def Commit_reject_def
      Commit_fail_def Await_finish_def CommitSlot_check_def Cancel_section_def
      Shutdown_close_def Let_def split: prod.split bool.split option.split)+

lemma CommitSlot_store_control [simp]: "control (fst (CommitSlot_store env r d st)) = control st"
  by (simp add: CommitSlot_store_def split: option.split)

lemma run_task_control:
  assumes "run_task env t st held = Some (st', held', ts)"
  shows "control st' = control st \<or>
    (\<exists>r. t = Enqueue r \<and> ts = [] \<and> cs_state st = RunState.kRunning \<and>
       control st' = (cs_queue st @ [sl_attempt (slot_at st r)], cs_queue_depth st + 1, RunState.kRunning, length (cs_heap st))) \<or>
    t = ShutdownJoin \<and> cs_active st = 0 \<and> control st' = (cs_queue st, cs_queue_depth st, RunState.kStopped, length (cs_heap st))"
proof (cases t)
  case (Enqueue r)
  with assms show ?thesis by (auto simp: Submit_enqueue_def control_def split: if_splits)
next
  case ShutdownJoin
  with assms show ?thesis by (auto simp: Shutdown_stop_def control_def split: if_splits)
next
  case (ShutdownJournal attempts)
  with assms show ?thesis by (cases attempts) (auto split: option.splits)
next
  case (StoreCommit r who d)
  with assms CommitSlot_store_control [of env r d st] show ?thesis
    by (auto simp del: CommitSlot_store_control split: prod.splits sum.splits)
qed (use assms in \<open>auto simp: Let_def case_prod_beta split: if_splits CommitStep.splits\<close>)

lemma weight_continuations [simp]:
  "sum_list (map weight (registered r purpose)) = (if purpose = ForQueue then 10 else 2)"
  "sum_list (map weight (finished r who)) = (if who = Worker then 1 else 0)"
  by (cases purpose; simp) (cases who; simp)

lemma run_task_weight:
  assumes "run_task env t st held = Some (st', held', ts)"
  shows "sum_list (map weight ts) + (if \<exists>r. t = Enqueue r then 9 else 0) < weight t"
proof (cases t)
  case (ShutdownJournal attempts)
  with assms show ?thesis by (cases attempts) auto
qed (use assms in \<open>auto simp: Let_def split: prod.splits if_splits CommitStep.splits sum.splits option.splits\<close>)

lemma Pick_cases:
  assumes "begin_call Pick st held = Some (st', ts)"
  obtains a q where "cs_queue st = a # q" "control st' = (q, cs_queue_depth st - 1, cs_state st, length (cs_heap st))"
    "ts = [] \<or> (\<exists>r. ts = [WorkerDecide r])"
    "\<forall>r. omap_get (cs_slots st) a = Some r \<longrightarrow> \<not> sl_terminal (slot_at st r) \<longrightarrow> ts = [WorkerDecide r]"
  using assms
  by (cases "cs_queue st") (auto simp: worker_pick_def Let_def control_def split: if_splits option.splits)

theorem internal_work: "internal m m' \<Longrightarrow> work m' < work m"
proof (induction rule: internal.induct)
  case (pick m st ts)
  then show ?case by (elim Pick_cases) (auto simp: work_def control_def)
next
  case (task m before t "after" env st held ts)
  from run_task_weight [OF task(2)] run_task_control [OF task(2)] task(1) show ?case
    by (auto simp: work_def control_def simp del: sum_list_eq_0_iff split: if_splits)
qed

section \<open>Nobody is forgotten\<close>

text \<open>The tasks that will end a slot, hand it to the queue or to its caller.\<close>

fun drives :: "Task \<Rightarrow> nat set" where
  "drives (JournalStart r purpose) = {r}"
| "drives (MarkStarted r purpose) = {r}"
| "drives (JournalPending r phase code purpose) = {r}"
| "drives (Enqueue r) = {r}"
| "drives (PrepareBegin r) = {r}"
| "drives (WorkerDecide r) = {r}"
| "drives (WorkerReject r decision) = {r}"
| "drives (Boundary r who) = (if who = Worker then {r} else {})"
| "drives (InBoundary r who) = (if who = Worker then {r} else {})"
| "drives (StoreCommit r who decision) = (if who = Worker then {r} else {})"
| "drives (NoteCommit r who p) = (if who = Worker then {r} else {})"
| "drives (JournalCommit r who) = (if who = Worker then {r} else {})"
| "drives (FinishCommit r who) = (if who = Worker then {r} else {})"
| "drives (FailedCommit r who code) = (if who = Worker then {r} else {})"
| "drives _ = {}"

lemma drives_refs: "drives t \<subseteq> task_refs t"
  by (cases t) auto

lemma FinalizeLocked_terminal: "r < length (cs_heap st) \<Longrightarrow> sl_terminal (slot_at (FinalizeLocked r state code st) r)"
  by (simp add: FinalizeLocked_def)

lemma drives_registered: "\<exists>t \<in> set (registered r purpose). r \<in> drives t"
  by (cases purpose) simp_all

lemma run_task_drives:
  assumes "run_task env t st held = Some (st', held', ts)" "r \<in> drives t" "r < length (cs_heap st)"
  shows "sl_terminal (slot_at st' r) \<or> sl_running (slot_at st' r) \<or> (\<exists>t' \<in> set ts. r \<in> drives t') \<or>
    sl_attempt (slot_at st r) \<in> set (cs_queue st')"
proof (cases t)
  case (JournalStart r' purpose)
  with assms drives_registered [of r purpose] show ?thesis
    by (auto simp: RegisterAttempt_journal_def Let_def FinalizeLocked_terminal split: option.splits prod.splits if_splits)
next
  case (MarkStarted r' purpose)
  with assms drives_registered [of r purpose] show ?thesis by (auto split: prod.splits option.splits)
next
  case (JournalPending r' phase code purpose)
  with assms drives_registered [of r purpose] show ?thesis by auto
next
  case (Enqueue r')
  with assms show ?thesis by (auto simp: Submit_enqueue_def FinalizeLocked_terminal split: if_splits)
next
  case (PrepareBegin r')
  with assms show ?thesis by (auto simp: Prepare_begin_def Let_def split: if_splits)
next
  case (FailedCommit r' who code)
  with assms show ?thesis by (auto simp: Commit_fail_def FinalizeLocked_terminal split: if_splits)
qed (use assms in \<open>auto simp: Let_def FinalizeLocked_terminal split: prod.splits if_splits sum.splits\<close>)

text \<open>Every attempt in flight is in the table.\<close>

definition listed :: "CoordinatorState \<Rightarrow> bool" where
  "listed st \<longleftrightarrow> (\<forall>r < length (cs_heap st). \<not> sl_terminal (slot_at st r) \<longrightarrow>
     omap_get (cs_slots st) (sl_attempt (slot_at st r)) = Some r)"

lemma listed_same:
  assumes "listed st" "cs_slots st' = cs_slots st" "length (cs_heap st') = length (cs_heap st)" "heap_evolves st st'"
  shows "listed st'"
  using assms unfolding listed_def heap_evolves_def evolves_def by metis

lemma change_listed:
  assumes "change st st'" "listed st" "table_ok st"
  shows "listed st'"
proof -
  have "cs_slots st' = cs_slots st \<and> length (cs_heap st') = length (cs_heap st) \<or> listed st'"
    using assms
  proof cases
    case (admit attempt request digest)
    note facts = admit_slot_facts [OF assms(3) admit(4), where request = request and digest = digest]
    have heap: "cs_heap st' = cs_heap st @ [new_slot request attempt digest]"
      by (simp add: admit(1) admit_slot_def Let_def)
    have "omap_get (cs_slots st') (sl_attempt (slot_at st' r)) = Some r"
      if "r < length (cs_heap st')" "\<not> sl_terminal (slot_at st' r)" for r
    proof (cases "r = length (cs_heap st)")
      case True
      then show ?thesis using facts(2) [folded admit(1)] by (simp add: heap new_slot_def)
    next
      case False
      then have "r < length (cs_heap st)" "slot_at st' r = slot_at st r" using that(1) by (simp_all add: heap nth_append)
      with that(2) assms(2) facts(4) show ?thesis by (simp add: listed_def admit(1))
    qed
    then show ?thesis by (simp add: listed_def)
  qed (simp_all add: store_decision_def same_slots_def Commit_reject_def)
  then show ?thesis using assms(2) change_evolves [OF assms(1)] by (blast intro: listed_same)
qed

lemma changes_listed:
  assumes "changes st st'" "listed st" "table_ok st"
  shows "listed st'"
proof -
  have "listed st' \<and> table_ok st'" using assms
    by (induction rule: rtranclp_induct) (auto intro: change_listed change_table)
  then show ?thesis ..
qed

lemma RegisterAttempt_admit_control:
  assumes "RegisterAttempt_admit request a enforce st = (st', result)"
  shows "cs_queue st' = cs_queue st \<and> cs_queue_depth st' = cs_queue_depth st \<and> cs_state st' = cs_state st \<and>
    (case result of Inl _ \<Rightarrow> length (cs_heap st') = length (cs_heap st)
     | Inr r \<Rightarrow> r = length (cs_heap st) \<and> length (cs_heap st') = Suc (length (cs_heap st)))"
  using assms by (auto simp: RegisterAttempt_admit_def admit_slot_def Let_def split: if_splits option.splits)

text \<open>Shutting down ends every queued attempt.\<close>

lemma shutdown_control [simp]:
  "control (fst (FinalizeShutdownSlot r acc)) = control (fst acc)"
  "control (fst (shutdown_queued a acc)) = control (fst acc)"
  "control (fst (shutdown_slot c r acc)) = control (fst acc)"
  by (simp_all add: FinalizeShutdownSlot_def shutdown_queued_def shutdown_slot_def case_prod_beta Let_def split: option.split)

lemma shutdown_folds_control [simp]:
  "control (fst (fold shutdown_queued q acc)) = control (fst acc)"
  "control (fst (fold (\<lambda>e. shutdown_slot c (snd e)) m acc)) = control (fst acc)"
  by (rule fold_keeps, simp)+

lemma shutdown_queued_terminal:
  assumes "refs_ok (fst acc)" "omap_get (cs_slots (fst acc)) a = Some r"
  shows "sl_terminal (slot_at (fst (shutdown_queued a acc)) r)"
proof -
  have r: "r < length (cs_heap (fst acc))" using assms by (rule refs_okD)
  let ?st = "set_slot r (\<lambda>s. s\<lparr>sl_cancel_requested := True\<rparr>) (fst acc)"
  have "sl_terminal (slot_at (FinalizeLocked r AttemptState.kCancelled StatusCode.kShuttingDown ?st) r)"
    using r by (simp add: FinalizeLocked_terminal)
  then show ?thesis using r assms(2)
    by (cases acc) (simp add: shutdown_queued_def FinalizeShutdownSlot_def Let_def)
qed

lemma shutdown_queue_terminal:
  assumes "refs_ok (fst acc)" "omap_get (cs_slots (fst acc)) a = Some r" "a \<in> set q"
  shows "sl_terminal (slot_at (fst (fold shutdown_queued q acc)) r)"
  using assms
proof (induction q arbitrary: acc)
  case (Cons b q)
  let ?acc = "shutdown_queued b acc"
  note c = shutdown_queued_changes [OF Cons.prems(1), of b]
  have refs: "refs_ok (fst ?acc)" using Cons.prems(1) c by (simp add: refs_ok_def)
  have r: "r < length (cs_heap (fst ?acc))" using c refs_okD [OF Cons.prems(1,2)] by simp
  show ?case
  proof (cases "a = b")
    case True
    then have "sl_terminal (slot_at (fst ?acc) r)" using shutdown_queued_terminal [OF Cons.prems(1,2)] by simp
    with changes_evolve [OF conjunct1 [OF shutdown_fold_queue [OF refs, of q]]] r show ?thesis
      by (simp add: heap_evolves_def evolves_def)
  qed (use Cons c refs in auto)
qed simp

lemma Shutdown_begin_facts:
  assumes "Shutdown_begin c st = Some (st', cancelled)" "refs_ok st"
  shows "control st' = ([], 0, RunState.kShuttingDown, length (cs_heap st))"
    and "\<And>a r. omap_get (cs_slots st) a = Some r \<Longrightarrow> a \<in> set (cs_queue st) \<Longrightarrow> sl_terminal (slot_at st' r)"
proof -
  define a0 where "a0 = (st\<lparr>cs_state := RunState.kShuttingDown\<rparr>, [] :: AttemptId list)"
  define a1 where "a1 = fold shutdown_queued (cs_queue st) a0"
  define a2 where "a2 = ((fst a1)\<lparr>cs_queue := [], cs_queue_depth := 0\<rparr>, snd a1)"
  have st': "fold (\<lambda>e. shutdown_slot c (snd e)) (cs_slots (fst a2)) a2 = (st', cancelled)"
    using assms(1) by (simp add: Shutdown_begin_def Let_def a0_def a1_def a2_def split: if_splits)
  have 1: "control (fst a1) = control (fst a0)" by (simp add: a1_def)
  have "control st' = control (fst a2)" using arg_cong [OF st', of "\<lambda>acc. control (fst acc)"] by simp
  with 1 show "control st' = ([], 0, RunState.kShuttingDown, length (cs_heap st))"
    by (simp add: control_def a2_def a0_def)
  have refs: "refs_ok (fst a0)" using assms(2) by (simp add: refs_ok_def a0_def)
  note q = shutdown_fold_queue [OF refs, of "cs_queue st", folded a1_def]
  show "sl_terminal (slot_at st' r)" if "omap_get (cs_slots st) a = Some r" "a \<in> set (cs_queue st)" for a r
  proof -
    have t: "sl_terminal (slot_at (fst a2) r)"
      using shutdown_queue_terminal [OF refs, of a r "cs_queue st", folded a1_def] that by (simp add: a0_def a2_def)
    have r: "r < length (cs_heap (fst a2))" using refs_okD [OF assms(2) that(1)] q by (simp add: a0_def a2_def)
    have "\<forall>e \<in> set (cs_slots (fst a2)). snd e < length (cs_heap (fst a2))"
      using q assms(2) by (simp add: refs_ok_def a2_def a0_def)
    from changes_evolve [OF conjunct1 [OF shutdown_fold_slots [OF this, of c]]] t r st' show ?thesis
      by (simp add: heap_evolves_def evolves_def)
  qed
qed

section \<open>The invariant\<close>

fun shutting :: "Task \<Rightarrow> bool" where
  "shutting (ShutdownJournal attempts) = True"
| "shutting ShutdownJoin = True"
| "shutting _ = False"

definition attended :: "Machine \<Rightarrow> nat \<Rightarrow> bool" where
  "attended m r \<longleftrightarrow> sl_terminal (slot_at (mc_state m) r) \<or> sl_running (slot_at (mc_state m) r) \<or>
     (\<exists>t \<in> set (mc_tasks m). r \<in> drives t) \<or> sl_attempt (slot_at (mc_state m) r) \<in> set (cs_queue (mc_state m))"

definition progress_ok :: "Machine \<Rightarrow> bool" where
  "progress_ok m \<longleftrightarrow> listed (mc_state m) \<and> (\<forall>r < length (cs_heap (mc_state m)). attended m r) \<and>
     cs_queue_depth (mc_state m) = word_of_nat (length (cs_queue (mc_state m))) \<and>
     (cs_state (mc_state m) = RunState.kShuttingDown \<longrightarrow> (\<exists>t \<in> set (mc_tasks m). shutting t)) \<and>
     (ShutdownWait \<in> set (mc_tasks m) \<longrightarrow> cs_state (mc_state m) \<noteq> RunState.kRunning)"

lemma run_task_shutting:
  assumes "run_task env t st held = Some (st', held', ts)"
  shows "shutting t \<Longrightarrow> t = ShutdownJoin \<or> (\<exists>u \<in> set ts. shutting u)" "ShutdownWait \<notin> set ts"
proof -
  show "t = ShutdownJoin \<or> (\<exists>u \<in> set ts. shutting u)" if "shutting t"
  proof (cases t)
    case (ShutdownJournal attempts)
    with assms show ?thesis by (cases attempts) auto
  qed (use that in simp_all)
  have w: "ShutdownWait \<notin> set (registered r purpose)" "ShutdownWait \<notin> set (finished r who)" for r purpose who
    by (cases purpose; simp) (cases who; simp)
  show "ShutdownWait \<notin> set ts"
  proof (cases t)
    case (ShutdownJournal attempts)
    with assms show ?thesis by (cases attempts) auto
  qed (use assms in \<open>auto simp: Let_def w split: prod.splits if_splits CommitStep.splits sum.splits option.splits\<close>)
qed

lemma task_progress_ok:
  assumes ok: "machine_ok m" "progress_ok m" and m: "mc_tasks m = before @ t # after"
    and run: "run_task env t (mc_state m) (mc_commit_held m) = Some (st, held, ts)"
  shows "progress_ok \<lparr>mc_state = st, mc_commit_held = held, mc_tasks = before @ ts @ after\<rparr>"
proof -
  let ?m = "\<lparr>mc_state = st, mc_commit_held = held, mc_tasks = before @ ts @ after\<rparr>"
  note c = run_task_ok(1) [OF ok(1) m run]
  have l: "listed st" using changes_listed [OF c] ok by (simp add: machine_ok_def progress_ok_def)
  have q: "set (cs_queue (mc_state m)) \<subseteq> set (cs_queue st)" "length (cs_heap st) = length (cs_heap (mc_state m))"
    "cs_queue_depth st = word_of_nat (length (cs_queue st))"
    using run_task_control [OF run] ok(2) by (auto simp: control_def progress_ok_def)
  have "attended ?m r" if r: "r < length (cs_heap st)" for r
  proof -
    have r: "r < length (cs_heap (mc_state m))" using r q(2) by simp
    have e: "evolves (slot_at (mc_state m) r) (slot_at st r)" using changes_evolve [OF c] r by (simp add: heap_evolves_def)
    from ok(2) r have "attended m r" by (simp add: progress_ok_def)
    then consider "sl_terminal (slot_at st r) \<or> sl_running (slot_at st r)" | "r \<in> drives t"
      | u where "u \<in> set (before @ after)" "r \<in> drives u"
      | "sl_attempt (slot_at (mc_state m) r) \<in> set (cs_queue (mc_state m))"
      using e by (auto simp: attended_def m evolves_def)
    then show ?thesis
    proof cases
      case 2
      from run_task_drives [OF run 2 r] e show ?thesis by (auto simp: attended_def evolves_def)
    next
      case 4
      with q(1) e show ?thesis by (auto simp: attended_def evolves_def)
    qed (auto simp: attended_def)
  qed
  moreover have "cs_state st = RunState.kShuttingDown \<longrightarrow> (\<exists>t \<in> set (before @ ts @ after). shutting t)"
  proof
    assume s: "cs_state st = RunState.kShuttingDown"
    then have "cs_state (mc_state m) = RunState.kShuttingDown" using run_task_control [OF run] by (auto simp: control_def)
    with ok(2) obtain u where u: "u \<in> set (before @ t # after)" "shutting u" by (auto simp: progress_ok_def m)
    have "t \<noteq> ShutdownJoin" using s run by (auto simp: Shutdown_stop_def split: if_splits)
    with run_task_shutting(1) [OF run] u show "\<exists>t \<in> set (before @ ts @ after). shutting t" by auto
  qed
  moreover have "ShutdownWait \<in> set (before @ ts @ after) \<longrightarrow> cs_state st \<noteq> RunState.kRunning"
    using run_task_control [OF run] run_task_shutting(2) [OF run] ok(2) by (auto simp: control_def progress_ok_def m)
  ultimately show ?thesis using l q(3) by (simp add: progress_ok_def)
qed

lemma call_control:
  assumes "begin_call c st held = Some (st', ts)"
  shows "c = Pick \<or> (\<exists>b. c = DoShutdown b) \<or>
    cs_queue st' = cs_queue st \<and> cs_queue_depth st' = cs_queue_depth st \<and> cs_state st' = cs_state st \<and>
    ShutdownWait \<notin> set ts \<and>
    (length (cs_heap st') = length (cs_heap st) \<or>
     length (cs_heap st') = Suc (length (cs_heap st)) \<and> (\<exists>purpose. ts = [JournalStart (length (cs_heap st)) purpose]))"
proof (cases c)
  case (DoSubmit request a)
  with assms RegisterAttempt_admit_control [of request a True st] show ?thesis
    by (auto simp: register_tasks_def split: prod.splits sum.splits)
next
  case (DoPrepare request a)
  with assms RegisterAttempt_admit_control [of request a False st] show ?thesis
    by (auto simp: register_tasks_def split: prod.splits sum.splits)
next
  case (DoCancel a)
  with assms control_updates(19) [of a st] show ?thesis
    by (auto simp: control_def simp del: control_updates split: prod.splits sum.splits bool.splits)
next
  case DoAdvanceEpoch
  with assms control_updates(8) [of st] show ?thesis
    by (auto simp: control_def simp del: control_updates split: if_splits)
next
  case (DoSetAuthority expected)
  with assms control_updates(9) [of expected st] show ?thesis
    by (auto simp: control_def simp del: control_updates split: if_splits)
qed (use assms in \<open>auto split: option.splits\<close>)

lemma attended_mono:
  assumes "attended m r" "evolves (slot_at (mc_state m) r) (slot_at (mc_state m') r)"
    "set (mc_tasks m) \<subseteq> set (mc_tasks m')"
    "sl_attempt (slot_at (mc_state m) r) \<in> set (cs_queue (mc_state m)) \<Longrightarrow> attended m' r"
  shows "attended m' r"
  using assms unfolding attended_def evolves_def by (metis subsetD)

lemma call_progress_ok:
  assumes ok: "machine_ok m" "progress_ok m"
    and run: "begin_call c (mc_state m) (mc_commit_held m) = Some (st, ts)"
  shows "progress_ok (m\<lparr>mc_state := st, mc_tasks := mc_tasks m @ ts\<rparr>)"
proof -
  let ?m = "m\<lparr>mc_state := st, mc_tasks := mc_tasks m @ ts\<rparr>"
  have t: "table_ok (mc_state m)" and p: "listed (mc_state m)" "\<And>r. r < length (cs_heap (mc_state m)) \<Longrightarrow> attended m r"
    "cs_queue_depth (mc_state m) = word_of_nat (length (cs_queue (mc_state m)))"
    using ok by (simp_all add: machine_ok_def progress_ok_def)
  note refs = table_refs [OF t]
  have l: "listed st"
    using begin_call_changes [OF run refs]
  proof
    assume "\<not> mc_commit_held m \<and> ts = [] \<and> refenced (mc_state m) st"
    then show ?thesis using p(1) by (auto simp: refenced_def listed_def)
  qed (use changes_listed p(1) t in blast)
  note e = begin_call_ok(1) [OF ok(1) run]
  have old: "attended ?m r" if "r < length (cs_heap (mc_state m))"
    "sl_attempt (slot_at (mc_state m) r) \<in> set (cs_queue (mc_state m)) \<Longrightarrow> attended ?m r" for r
  proof (rule attended_mono [of m r ?m])
    show "attended m r" using that(1) by (rule p(2))
    show "evolves (slot_at (mc_state m) r) (slot_at (mc_state ?m) r)" using e that(1) by (simp add: heap_evolves_def)
  qed (use that(2) in simp_all)
  have attempt: "sl_attempt (slot_at st r) = sl_attempt (slot_at (mc_state m) r)"
    if "r < length (cs_heap (mc_state m))" for r using e that by (simp add: heap_evolves_def evolves_def)
  have entry: "omap_get (cs_slots (mc_state m)) (sl_attempt (slot_at (mc_state m) r)) = Some r"
    if "r < length (cs_heap (mc_state m))" "\<not> sl_terminal (slot_at st r)" for r
    using p(1) that e by (auto simp: listed_def heap_evolves_def evolves_def)
  consider (pick) "c = Pick" | (down) b where "c = DoShutdown b"
    | (same) "cs_queue st = cs_queue (mc_state m)" "cs_queue_depth st = cs_queue_depth (mc_state m)"
      "cs_state st = cs_state (mc_state m)" "ShutdownWait \<notin> set ts"
      "length (cs_heap st) = length (cs_heap (mc_state m)) \<or>
       length (cs_heap st) = Suc (length (cs_heap (mc_state m))) \<and> (\<exists>purpose. ts = [JournalStart (length (cs_heap (mc_state m))) purpose])"
    using call_control [OF run] by blast
  then show ?thesis
  proof cases
    case pick
    from run [unfolded pick] obtain a q where a: "cs_queue (mc_state m) = a # q"
      "control st = (q, cs_queue_depth (mc_state m) - 1, cs_state (mc_state m), length (cs_heap (mc_state m)))"
      "ts = [] \<or> (\<exists>r. ts = [WorkerDecide r])"
      "\<forall>r. omap_get (cs_slots (mc_state m)) a = Some r \<longrightarrow> \<not> sl_terminal (slot_at (mc_state m) r) \<longrightarrow> ts = [WorkerDecide r]"
      by (rule Pick_cases)
    have "attended ?m r" if r: "r < length (cs_heap (mc_state m))" for r
    proof (cases "sl_terminal (slot_at st r) \<or> sl_attempt (slot_at (mc_state m) r) \<in> set q")
      case True
      then show ?thesis using a(2) attempt [OF r] by (auto simp: attended_def control_def)
    next
      case False
      then have nt: "\<not> sl_terminal (slot_at (mc_state m) r)" using e r by (auto simp: heap_evolves_def evolves_def)
      have "attended ?m r" if "sl_attempt (slot_at (mc_state m) r) \<in> set (cs_queue (mc_state m))"
      proof -
        have "omap_get (cs_slots (mc_state m)) a = Some r" using that False a(1) entry [OF r] by auto
        with a(4) nt have "ts = [WorkerDecide r]" by blast
        then show ?thesis by (simp add: attended_def)
      qed
      then show ?thesis by (rule old [OF r])
    qed
    with l a p(3) ok(2) show ?thesis by (auto simp: progress_ok_def control_def)
  next
    case down
    show ?thesis
    proof (cases "Shutdown_begin b (mc_state m)")
      case None
      with run down have r: "st = mc_state m" "ts = (if cs_state st = RunState.kStopped then [] else [ShutdownWait])"
        by auto
      have "cs_state st \<noteq> RunState.kRunning" using None by (simp add: Shutdown_begin_def r(1) Let_def split: if_splits)
      then show ?thesis using ok(2) old by (auto simp: progress_ok_def r attended_def split: if_splits)
    next
      case (Some x)
      then obtain cancelled where s: "Shutdown_begin b (mc_state m) = Some (st, cancelled)" "ts = [ShutdownJournal cancelled]"
        using run down by (cases x) auto
      note f = Shutdown_begin_facts [OF s(1) refs]
      have "attended ?m r" if r: "r < length (cs_heap (mc_state m))" for r
      proof (cases "sl_terminal (slot_at st r)")
        case False
        from entry [OF r this] f(2) False have "sl_attempt (slot_at (mc_state m) r) \<notin> set (cs_queue (mc_state m))" by blast
        then show ?thesis using old [OF r] by blast
      qed (simp add: attended_def)
      with l f(1) s(2) show ?thesis by (simp add: progress_ok_def control_def)
    qed
  next
    case same
    have "attended ?m r" if "r < length (cs_heap st)" for r
    proof (cases "r < length (cs_heap (mc_state m))")
      case True
      with attempt same(1) show ?thesis using old [OF True] by (simp add: attended_def)
    next
      case False
      with that same(5) show ?thesis by (auto simp: attended_def less_Suc_eq)
    qed
    with l same p(3) ok(2) show ?thesis by (auto simp: progress_ok_def)
  qed
qed

lemma reachable_progress: "reachable m \<Longrightarrow> progress_ok m"
proof (induction rule: reachable.induct)
  case (start io disk allocated options st)
  then have "cs_heap st = []" "cs_queue st = []" "cs_queue_depth st = 0" "cs_state st = RunState.kRunning"
    by (auto simp: Start_def Let_def split: if_splits sum.splits)
  then show ?case by (simp add: progress_ok_def listed_def)
next
  case (step m m')
  from step.hyps(2) show ?case
  proof cases
    case (call c st ts)
    then show ?thesis using step call_progress_ok reachable_ok by metis
  next
    case (task before t "after" env st held ts)
    then show ?thesis using step task_progress_ok reachable_ok by metis
  qed
qed

section \<open>Settled machines\<close>

definition settled :: "Machine \<Rightarrow> bool" where
  "settled m \<longleftrightarrow> cs_queue (mc_state m) = [] \<and> cs_active (mc_state m) = 0 \<and> \<not> mc_commit_held m \<and>
     cs_state (mc_state m) \<noteq> RunState.kShuttingDown \<and>
     (\<forall>t \<in> set (mc_tasks m). \<exists>r. t = AwaitOutcome r \<and> \<not> sl_terminal (slot_at (mc_state m) r) \<and>
        cs_state (mc_state m) = RunState.kRunning) \<and>
     (\<forall>r < length (cs_heap (mc_state m)). sl_terminal (slot_at (mc_state m) r) \<or> sl_running (slot_at (mc_state m) r))"

lemma region_runs: "in_region t \<Longrightarrow> run_task env t st held \<noteq> None"
  by (cases t) (auto split: prod.split sum.split)

lemma blocked:
  assumes "\<And>env. run_task env t st held = None"
  shows "(\<exists>r who. t = Boundary r who) \<and> held \<or>
    (\<exists>r. t = AwaitOutcome r \<and> \<not> sl_terminal (slot_at st r) \<and> cs_state st \<noteq> RunState.kStopped) \<or>
    t = ShutdownJoin \<and> cs_active st \<noteq> 0 \<or> t = ShutdownWait \<and> cs_state st \<noteq> RunState.kStopped \<or>
    t = DrainWait \<and> \<not> (cs_queue_depth st = 0 \<and> cs_active st = 0)"
proof (cases t)
  case (ShutdownJournal attempts)
  with assms show ?thesis by (cases attempts) auto
next
  case (StoreCommit r who d)
  with assms region_runs [of t undefined st held] show ?thesis by simp
qed (use assms in \<open>auto simp: Let_def case_prod_beta split: if_splits CommitStep.splits\<close>)

theorem stuck_settled:
  assumes "machine_ok m" "progress_ok m" "\<nexists>m'. internal m m'"
  shows "settled m"
proof -
  let ?st = "mc_state m"
  have stuck: "run_task env t ?st (mc_commit_held m) = None" if mem: "t \<in> set (mc_tasks m)" for env t
  proof (rule ccontr)
    assume "run_task env t ?st (mc_commit_held m) \<noteq> None"
    moreover obtain before "after" where "mc_tasks m = before @ t # after" using split_list [OF mem] by blast
    ultimately show False using assms(3) internal.task by (metis option.exhaust prod.exhaust)
  qed
  note block = blocked [OF stuck]
  have free: "\<not> mc_commit_held m"
  proof
    assume "mc_commit_held m"
    then have "filter in_region (mc_tasks m) \<noteq> []" using assms(1) by (auto simp: machine_ok_def fence_ok_def)
    then obtain t where "t \<in> set (mc_tasks m)" "in_region t" by (auto simp: filter_empty_conv)
    with stuck region_runs show False by blast
  qed
  then have "filter worker_owned (mc_tasks m) = []" using block by (fastforce simp: filter_empty_conv)
  then have idle: "cs_active ?st = 0" "0 < cs_worker_count ?st" using assms(1) by (simp_all add: machine_ok_def workers_ok_def)
  have queue: "cs_queue ?st = []"
  proof (rule ccontr)
    assume "cs_queue ?st \<noteq> []"
    then have "begin_call Pick ?st (mc_commit_held m) \<noteq> None"
      using idle by (simp add: word_less_nat_alt split: prod.split)
    then show False using assms(3) internal.pick by (metis option.exhaust prod.exhaust)
  qed
  then have "cs_queue_depth ?st = 0" using assms(2) by (simp add: progress_ok_def)
  with block free idle have rest: "(\<exists>r. t = AwaitOutcome r \<and> \<not> sl_terminal (slot_at ?st r) \<and> cs_state ?st \<noteq> RunState.kStopped) \<or>
      t = ShutdownWait \<and> cs_state ?st \<noteq> RunState.kStopped" if "t \<in> set (mc_tasks m)" for t
    using that by blast
  have "\<not> shutting t" if "t \<in> set (mc_tasks m)" for t using rest [OF that] by auto
  then have state: "cs_state ?st \<noteq> RunState.kShuttingDown" using assms(2) by (auto simp: progress_ok_def)
  then have run: "cs_state ?st = RunState.kRunning" if "cs_state ?st \<noteq> RunState.kStopped"
    using that by (cases "cs_state ?st") simp_all
  have wait: "ShutdownWait \<in> set (mc_tasks m) \<Longrightarrow> cs_state ?st = RunState.kStopped"
    using assms(2) run by (auto simp: progress_ok_def)
  have await: "\<exists>r. t = AwaitOutcome r \<and> \<not> sl_terminal (slot_at ?st r) \<and> cs_state ?st = RunState.kRunning"
    if "t \<in> set (mc_tasks m)" for t
    using rest [OF that] wait run that by blast
  have "drives t = {}" if "t \<in> set (mc_tasks m)" for t using await [OF that] by auto
  then have "sl_terminal (slot_at ?st r) \<or> sl_running (slot_at ?st r)" if "r < length (cs_heap ?st)" for r
    using assms(2) that queue by (auto simp: progress_ok_def attended_def)
  with queue idle free state await show ?thesis by (auto simp: settled_def)
qed

lemma internal_run:
  assumes "(internal ^^ n) m m'"
  shows "n + work m' \<le> work m \<and> step\<^sup>*\<^sup>* m m'"
  using assms
proof (induction n arbitrary: m')
  case (Suc n)
  then obtain m1 where "(internal ^^ n) m m1" "internal m1 m'" by (auto elim: relpowp_Suc_E)
  with Suc.IH [of m1] internal_work [of m1 m'] internal_step [of m1 m'] show ?case by (auto intro: rtranclp.rtrancl_into_rtrancl)
qed simp

lemma steps_reachable: "step\<^sup>*\<^sup>* m m' \<Longrightarrow> reachable m \<Longrightarrow> reachable m'"
  by (induction rule: rtranclp_induct) (auto intro: reachable.step)

end
