(* ===== verification/Flow_Coordination.thy ===== *)
theory Flow_Coordination
  imports Flow_Demo Flow_Progress
begin

text \<open>
  What the coordinator guarantees in every interleaving of its threads: which placements become visible,
  what a cancellation promises, that outcomes are final, what the counters count and what the table of
  attempts retains.
\<close>

section \<open>Commits\<close>

text \<open>C8. Fencing and verification. A placement record that appears in a step was written by a thread inside
  the commit boundary, for an attempt whose expected epoch is the current one and whose expected
  generations match the current authority view, and it is stamped with that epoch. Its intent is the one
  the engine computes for the attempt's own request and passes the engine's verification, unless another
  thread rejected the same attempt while its commit was under way.\<close>

theorem commit_verified:
  assumes "reachable m" "step m m'" "p \<in> records (mc_state m')" "p \<notin> records (mc_state m)"
  shows "\<exists>r who d. StoreCommit r who d \<in> set (mc_tasks m) \<and> mc_commit_held m \<and>
    pr_commit_epoch p = cs_epoch (mc_state m) \<and>
    ex_fabric_epoch (rq_expected (sl_request (slot_at (mc_state m) r))) = cs_epoch (mc_state m) \<and>
    AuthorityMatches (cs_authority (mc_state m)) (rq_expected (sl_request (slot_at (mc_state m) r))) \<and>
    (d = Place (co_limits (cs_options (mc_state m))) (sl_request (slot_at (mc_state m) r)) \<and>
     de_intent d = Some (pr_intent p) \<and>
     VerifyIntent (co_limits (cs_options (mc_state m))) (sl_request (slot_at (mc_state m) r)) (pr_intent p) = None \<or>
     ended_as AttemptState.kRejected (slot_at (mc_state m) r))"
proof -
  from assms(1) have ok: "machine_ok m" "commits_ok m" by (simp_all add: reachable_ok reachable_commits_ok)
  from assms(2) show ?thesis
  proof cases
    case (call c st ts)
    then show ?thesis using assms(3,4) by (simp add: begin_call_records)
  next
    case (task before t "after" env st held ts)
    with assms(3) have p: "p \<in> records st" by simp
    from run_task_records [OF task(3) p assms(4)] obtain r who d where t: "t = StoreCommit r who d"
      and i: "de_intent d = Some (pr_intent p)"
      and e: "pr_commit_epoch p = ex_fabric_epoch (rq_expected (sl_request (slot_at (mc_state m) r)))" by metis
    have mem: "StoreCommit r who d \<in> set (mc_tasks m)" by (simp add: task(2) t)
    have "mc_commit_held m" and f: "fenced (mc_state m) r"
      using ok(1) by (auto simp: machine_ok_def fence_ok_def task(2) t split: if_splits)
    moreover have "engine_decision (co_limits (cs_options (mc_state m))) (sl_request (slot_at (mc_state m) r)) d"
      "placed d \<or> ended_as AttemptState.kRejected (slot_at (mc_state m) r)"
      using ok(2) mem i by (auto simp: commits_ok_def commit_ok_def)
    ultimately show ?thesis using mem i e
      by (intro exI [of _ r] exI [of _ who] exI [of _ d]) (auto simp: fenced_def engine_decision_def)
  qed
qed

theorem commit_verified_witness:
  "pr_intent (demo_record (the (de_intent demo_decision)) demo_decision) = the (de_intent demo_decision) \<and>
   VerifyIntent default_Limits sample_request (pr_intent (demo_record (the (de_intent demo_decision)) demo_decision)) = None"
proof -
  let ?i = "the (de_intent demo_decision)"
  have i: "de_intent demo_decision = Some ?i" by (simp add: sample_intent)
  from demo_commit [OF i] have "step (demo_machine slot_crossed True [StoreCommit 0 Caller demo_decision])
      (demo_noted slot_crossed ?i demo_decision)" by simp
  from commit_verified [OF demo8 this, of "demo_record ?i demo_decision"]
  show ?thesis by (auto simp: demo_noted_def ended_as_def demo_record_def)
qed

section \<open>Outcomes\<close>

text \<open>C11. Outcomes are final: once an attempt is terminal, no later step of any thread changes its state or
  its code.\<close>

theorem outcome_final:
  assumes "reachable m" "step\<^sup>*\<^sup>* m m'" "r < length (cs_heap (mc_state m))" "sl_terminal (slot_at (mc_state m) r)"
  shows "sl_terminal (slot_at (mc_state m') r) \<and>
    oc_state (sl_outcome (slot_at (mc_state m') r)) = oc_state (sl_outcome (slot_at (mc_state m) r)) \<and>
    oc_code (sl_outcome (slot_at (mc_state m') r)) = oc_code (sl_outcome (slot_at (mc_state m) r))"
  using steps_ok [OF assms(2) reachable_ok [OF assms(1)]] assms(3,4) by (simp add: heap_evolves_def evolves_def)

theorem outcome_final_witness:
  "oc_state (sl_outcome (slot_at (fst (AdvanceEpoch demo_ended)) 0)) = AttemptState.kCancelled"
proof -
  let ?m = "\<lparr>mc_state = demo_ended, mc_commit_held = False,
    mc_tasks = [JournalOutcome 0 Caller AttemptPhase.kCancelled StatusCode.kCancelled]\<rparr>"
  have s: "step ?m (?m\<lparr>mc_state := fst (AdvanceEpoch demo_ended), mc_tasks := mc_tasks ?m @ []\<rparr>)"
    by (rule step.call [where c = DoAdvanceEpoch]) simp
  have "slot_at demo_ended 0 = slot_cancelled" "0 < length (cs_heap demo_ended)" by (simp_all add: demo_ended_def)
  with outcome_final [OF demo_cancelled r_into_rtranclp [of step, OF s], of 0] show ?thesis by (simp add: slot_cancelled_def)
qed

text \<open>C10. A cancellation that is acknowledged holds: the attempt never crosses the commit boundary, no
  thread ever writes a placement for it, and its outcome is never committed.\<close>

theorem cancel_prevents_commit:
  assumes "reachable m" "Cancel_section a (mc_state m) = (st, Inr (r, journal))"
    and "step\<^sup>*\<^sup>* (m\<lparr>mc_state := st, mc_tasks := mc_tasks m @ ts\<rparr>) m'"
    and "begin_call (DoCancel a) (mc_state m) (mc_commit_held m) = Some (st, ts)"
  shows "\<not> sl_commit_boundary_crossed (slot_at (mc_state m') r) \<and>
    (\<forall>who d. StoreCommit r who d \<notin> set (mc_tasks m')) \<and>
    oc_state (sl_outcome (slot_at (mc_state m') r)) \<noteq> AttemptState.kCommitted"
proof -
  let ?m = "m\<lparr>mc_state := st, mc_tasks := mc_tasks m @ ts\<rparr>"
  have "machine_ok ?m" using begin_call_ok(2) [OF reachable_ok [OF assms(1)] assms(4)] .
  note ok = steps_ok [OF assms(3) this]
  have refs: "refs_ok (mc_state m)" using reachable_ok [OF assms(1)] by (simp add: machine_ok_def table_refs)
  have r: "r < length (cs_heap st)" using Cancel_section_ref [OF assms(2) refs] .
  have "sl_cancel_requested (slot_at st r) \<and> \<not> sl_commit_boundary_crossed (slot_at st r)"
    using Cancel_section_marks [OF assms(2) refs] .
  with ok r have not: "\<not> sl_commit_boundary_crossed (slot_at (mc_state m') r)" and
    r': "r < length (cs_heap (mc_state m'))" by (auto simp: heap_evolves_def evolves_def)
  moreover have "StoreCommit r who d \<notin> set (mc_tasks m')" for who d
    using ok not by (auto simp: machine_ok_def fence_ok_def fenced_def)
  moreover have "oc_state (sl_outcome (slot_at (mc_state m') r)) \<noteq> AttemptState.kCommitted"
    using ok not slots_ok_nth [OF _ r'] by (auto simp: machine_ok_def slot_ok_def)
  ultimately show ?thesis by blast
qed

theorem cancel_prevents_commit_witness:
  "Cancel_section 77 (demo slot_decided) = (demo slot_cancelling, Inr (0, False)) \<and>
   oc_state (sl_outcome slot_cancelling) \<noteq> AttemptState.kCommitted"
proof -
  have c: "Cancel_section 77 (demo slot_decided) = (demo slot_cancelling, Inr (0, False))"
    by (simp add: Cancel_section_def Let_def slot_cancelling_def)
  have "step\<^sup>*\<^sup>* ((demo_machine slot_decided False [])\<lparr>mc_state := demo slot_cancelling, mc_tasks := [] @ []\<rparr>)
      (demo_machine slot_cancelling False [CommitStart 0 demo_decision])"
    using step.call [of "DoCommit demo_prepared" "demo_machine slot_cancelling False []"]
    by (intro r_into_rtranclp) (simp add: demo_prepared_def)
  from cancel_prevents_commit [OF demo4, of 77 "demo slot_cancelling" 0 False "[]"] this c show ?thesis by simp
qed

section \<open>Counters\<close>

text \<open>C12. The counters are exact: the number of accepted attempts is the number of slots ever created, each
  outcome counter is the number of attempts that ended that way, and the outcomes add up to the completed
  attempts, all modulo the width of the counters.\<close>

theorem accounting_exact:
  assumes "reachable m"
  defines "h \<equiv> cs_heap (mc_state m)" and "s \<equiv> cs_stats (mc_state m)"
  shows "cn_accepted s = word_of_nat (length h) \<and>
    cn_placed s = number (ended_as AttemptState.kCommitted) h \<and>
    cn_rejected s = number (ended_as AttemptState.kRejected) h \<and>
    cn_cancelled s = number (ended_as AttemptState.kCancelled) h \<and>
    cn_fenced s = number (ended_as AttemptState.kFenced) h \<and>
    cn_failed s = number (ended_as AttemptState.kFailed) h \<and>
    cn_completed s = cn_placed s + cn_rejected s + cn_cancelled s + cn_fenced s + cn_failed s"
proof -
  from assms(1) have "tally (mc_state m)" "slots_ok (mc_state m)" using reachable_ok by (simp_all add: machine_ok_def)
  then show ?thesis using number_terminal [of h "co_limits (cs_options (mc_state m))"]
    by (simp add: tally_def slots_ok_def h_def s_def)
qed

theorem accounting_exact_witness:
  "cn_accepted (cs_stats demo_ended) = 1 \<and> cn_cancelled (cs_stats demo_ended) = 1 \<and> cn_completed (cs_stats demo_ended) = 1"
  using accounting_exact [OF demo_cancelled]
  by (auto simp: demo_ended_def slot_cancelled_def ended_as_def)

section \<open>Retention\<close>

text \<open>C13. Admission registers the attempt, never drops an attempt that is still in flight, and leaves the
  table within its bound unless every attempt in it is still in flight.\<close>

theorem retention_bounded:
  assumes "reachable m" "RegisterAttempt_admit request a enforce (mc_state m) = (st, Inr r)"
  shows "omap_get (cs_slots st) a = Some r \<and> sl_attempt (slot_at st r) = a \<and> \<not> sl_terminal (slot_at st r) \<and>
    (\<forall>b r'. omap_get (cs_slots (mc_state m)) b = Some r' \<longrightarrow> \<not> sl_terminal (slot_at (mc_state m) r') \<longrightarrow>
       omap_get (cs_slots st) b = Some r') \<and>
    (length (cs_slots st) \<le> unat (co_max_retained_attempts (cs_options (mc_state m))) \<or>
     (\<forall>e \<in> set (cs_slots st). \<not> sl_terminal (slot_at st (snd e))))"
proof -
  let ?st1 = "bump (\<lambda>s. s\<lparr>cn_submitted := cn_submitted s + 1\<rparr>) (mc_state m)"
  let ?rq = "request\<lparr>rq_attempt := a\<rparr>"
  let ?d = "RequestDigest ?rq (co_limits (cs_options (mc_state m)))"
  from assms(2) have st: "st = admit_slot ?rq a ?d ?st1" "r = length (cs_heap (mc_state m))"
    "omap_get (cs_slots ?st1) a = None"
    by (auto simp: RegisterAttempt_admit_def Let_def split: if_splits option.splits)
  have t: "table_ok ?st1" using reachable_ok [OF assms(1)]
    by (auto simp: machine_ok_def intro!: table_same [of "mc_state m" ?st1] simp: heap_evolves_def)
  note facts = admit_slot_facts [OF t st(3), where request = ?rq and digest = ?d, folded st(1)]
  have "slot_at st r = new_slot ?rq a ?d" by (simp add: st(1,2) admit_slot_def Let_def)
  then have "sl_attempt (slot_at st r) = a" "\<not> sl_terminal (slot_at st r)" by (simp_all add: new_slot_def)
  moreover have "omap_get (cs_slots st) b = Some r'"
    if "omap_get (cs_slots (mc_state m)) b = Some r'" "\<not> sl_terminal (slot_at (mc_state m) r')" for b r'
    using facts(4) [of b r'] that by simp
  ultimately show ?thesis using facts(2,3) st(2) by simp
qed

theorem retention_bounded_witness: "omap_get (cs_slots (demo slot_new)) 77 = Some 0 \<and> length (cs_slots (demo slot_new)) \<le> 16"
  using retention_bounded [OF demo0, of sample_request 77 True "demo slot_new" 0] demo_admit by auto

section \<open>Progress\<close>

text \<open>C9. The coordinator settles without outside help: from every reachable machine, a run in which the
  threads only continue and the workers only take queued work has at most \<open>work m\<close> steps, and as long as it
  can be continued it is not stuck: where it ends the queue is empty, no worker is busy, the commit mutex is
  free, no shutdown is half done, and every attempt ever admitted has its outcome unless it was prepared
  and its caller has not committed it.\<close>

theorem coordinator_settles:
  assumes "reachable m" "(internal ^^ n) m m'"
  shows "n \<le> work m \<and> ((\<exists>m''. internal m' m'') \<or> settled m')"
proof -
  note run = internal_run [OF assms(2)]
  then have "reachable m'" using assms(1) steps_reachable by blast
  then have "machine_ok m'" "progress_ok m'" by (simp_all add: reachable_ok reachable_progress)
  with run stuck_settled [of m'] show ?thesis by auto
qed

theorem coordinator_settles_witness: "settled (demo_machine slot_decided False [])"
proof -
  have "\<not> internal (demo_machine slot_decided False []) m''" for m''
    by (auto elim: internal.cases)
  with coordinator_settles [OF demo4, of 0 "demo_machine slot_decided False []"] show ?thesis by auto
qed

section \<open>A race\<close>


end
