(* ===== verification/Flow_Sockets.thy ===== *)
theory Flow_Sockets
  imports Flow_Frames
begin

text \<open>
  The framed transport over TCP (\<^verbatim>\<open>include/flowplace/transport.hpp\<close>, \<^verbatim>\<open>src/transport.cpp\<close>), in its
  POSIX form. What the operating system answers to each call is an argument: the result of every
  \<^verbatim>\<open>send\<close>, the sequence of results of \<^verbatim>\<open>recv\<close>, and the text \<^verbatim>\<open>strerror\<close> gives. A socket is its
  descriptor, \<open>-1\<close> when closed.
\<close>

section \<open>Connections\<close>

record TcpConnection =
  tc_socket :: int
  tc_stream :: FrameStream
  tc_max_frame_bytes :: u32

definition default_TcpConnection :: TcpConnection where
  "default_TcpConnection = \<lparr>tc_socket = -1, tc_stream = FrameStream_init kDefaultMaxFrameBytes,
     tc_max_frame_bytes = kDefaultMaxFrameBytes\<rparr>"

definition Connection_valid :: "TcpConnection \<Rightarrow> bool" where
  "Connection_valid c \<longleftrightarrow> tc_socket c \<ge> 0"

definition Connection_SetMaxFrameBytes :: "u32 \<Rightarrow> TcpConnection \<Rightarrow> TcpConnection" where
  "Connection_SetMaxFrameBytes v c =
     c\<lparr>tc_max_frame_bytes := v, tc_stream := FrameStream_SetMaxFrameBytes v (tc_stream c)\<rparr>"

definition LastSocketError :: "string \<Rightarrow> string \<Rightarrow> Status" where
  "LastSocketError what error = mk_Status kSocketError (what @ '' failed: '' @ error)"

text \<open>The second component is the descriptor the operating system is asked to close.\<close>

definition Connection_Close :: "TcpConnection \<Rightarrow> TcpConnection \<times> int option" where
  "Connection_Close c = (if tc_socket c < 0 then (c, None) else (c\<lparr>tc_socket := -1\<rparr>, Some (tc_socket c)))"

text \<open>The move constructor: a new stream of the same bound, without the bytes the old one had buffered.\<close>

definition Connection_move :: "TcpConnection \<Rightarrow> TcpConnection \<times> TcpConnection" where
  "Connection_move other =
     (\<lparr>tc_socket = tc_socket other, tc_stream = FrameStream_init (tc_max_frame_bytes other),
       tc_max_frame_bytes = tc_max_frame_bytes other\<rparr>,
      other\<lparr>tc_socket := -1\<rparr>)"

text \<open>Move assignment between distinct objects: it keeps the stream of the target.\<close>

definition Connection_assign :: "TcpConnection \<Rightarrow> TcpConnection \<Rightarrow> TcpConnection \<times> TcpConnection \<times> int option" where
  "Connection_assign this other =
     (case Connection_Close this of (this, closed) \<Rightarrow>
        (\<lparr>tc_socket = tc_socket other, tc_stream = FrameStream_SetMaxFrameBytes (tc_max_frame_bytes other) (tc_stream this),
          tc_max_frame_bytes = tc_max_frame_bytes other\<rparr>,
         other\<lparr>tc_socket := -1\<rparr>, closed))"

text \<open>\<^verbatim>\<open>Connect\<close>: the outcome of \<^verbatim>\<open>socket\<close>, \<^verbatim>\<open>inet_pton\<close> and \<^verbatim>\<open>connect\<close>.\<close>

record ConnectIo =
  ci_init_result :: int
  ci_socket :: int
  ci_host_is_ipv4 :: bool
  ci_connect :: int
  ci_error :: string

definition Connect :: "ConnectIo \<Rightarrow> u32 \<Rightarrow> TcpConnection Result" where
  "Connect io max_frame_bytes =
     (if ci_init_result io \<noteq> 0 then Inl (mk_Status kSocketError ''socket subsystem is not available'')
      else if ci_socket io = -1 then Inl (LastSocketError ''socket'' (ci_error io))
      else if \<not> ci_host_is_ipv4 io then Inl (mk_Status kInvalidArgument ''connect host must be an IPv4 address'')
      else if ci_connect io \<noteq> 0 then Inl (LastSocketError ''connect'' (ci_error io))
      else Inr (Connection_SetMaxFrameBytes max_frame_bytes (default_TcpConnection\<lparr>tc_socket := ci_socket io\<rparr>)))"

section \<open>Sending\<close>

text \<open>The answer to one call of \<^verbatim>\<open>send\<close>: the number it returns and the error text.\<close>

record SendAnswer =
  sa_chunk :: int
  sa_error :: string

text \<open>The loop of \<^verbatim>\<open>SendFrame\<close> over the bytes that are left; the second component is what reached the socket.\<close>

function send_loop :: "(nat \<Rightarrow> SendAnswer) \<Rightarrow> nat \<Rightarrow> byte list \<Rightarrow> Status \<times> byte list" where
  "send_loop os k rest =
     (if rest = [] then (Status_Ok, [])
      else if sa_chunk (os k) \<le> 0 then (LastSocketError ''send'' (sa_error (os k)), [])
      else let n = nat (sa_chunk (os k)) in
        case send_loop os (k + 1) (drop n rest) of (status, sent) \<Rightarrow> (status, take n rest @ sent))"
  by pat_completeness auto
termination
  by (relation "measure (\<lambda>(_, _, rest). length rest)") auto

declare send_loop.simps [simp del]

definition SendFrame :: "(nat \<Rightarrow> SendAnswer) \<Rightarrow> Frame \<Rightarrow> TcpConnection \<Rightarrow> Status \<times> byte list" where
  "SendFrame os frame c =
     (if tc_socket c < 0 then (mk_Status kConnectionClosed ''connection is closed'', [])
      else case EncodeFrame frame (tc_max_frame_bytes c) of
        Inl status \<Rightarrow> (status, [])
      | Inr encoded \<Rightarrow> send_loop os 0 encoded)"

section \<open>Receiving\<close>

text \<open>The answer to one call of \<^verbatim>\<open>recv\<close>; no bytes means that the peer closed the connection.\<close>

datatype RecvAnswer = Received "byte list" | RecvFailed string

text \<open>The loop of \<^verbatim>\<open>ReceiveFrame\<close>; \<open>None\<close> while it is blocked in \<^verbatim>\<open>recv\<close>.\<close>

function receive_loop :: "FrameStream \<Rightarrow> RecvAnswer list \<Rightarrow> (Frame Result \<times> FrameStream \<times> RecvAnswer list) option" where
  "receive_loop s answers = (case FrameStream_Next s of
     (Inl status, s) \<Rightarrow> Some (Inl status, s, answers)
   | (Inr (Some frame), s) \<Rightarrow> Some (Inr frame, s, answers)
   | (Inr None, s) \<Rightarrow>
       (case answers of
          [] \<Rightarrow> None
        | RecvFailed error # rest \<Rightarrow> Some (Inl (LastSocketError ''recv'' error), s, rest)
        | Received data # rest \<Rightarrow>
            if data = [] then Some (Inl (mk_Status kConnectionClosed ''peer closed the connection''), s, rest)
            else receive_loop (FrameStream_Feed data s) rest))"
  by pat_completeness auto
termination
  by (relation "measure (\<lambda>(_, answers). length answers)") auto

declare receive_loop.simps [simp del]

definition ReceiveFrame :: "RecvAnswer list \<Rightarrow> TcpConnection \<Rightarrow> (Frame Result \<times> TcpConnection \<times> RecvAnswer list) option" where
  "ReceiveFrame answers c =
     (if tc_socket c < 0 then Some (Inl (mk_Status kConnectionClosed ''connection is closed''), c, answers)
      else map_option (\<lambda>(result, s, rest). (result, c\<lparr>tc_stream := s\<rparr>, rest)) (receive_loop (tc_stream c) answers))"

text \<open>\<^verbatim>\<open>answer\<close> is what \<^verbatim>\<open>setsockopt\<close> returns.\<close>

definition SetNoDelay :: "int \<Rightarrow> string \<Rightarrow> TcpConnection \<Rightarrow> Status" where
  "SetNoDelay answer error c =
     (if tc_socket c < 0 then mk_Status kConnectionClosed ''connection is closed''
      else if answer \<noteq> 0 then LastSocketError ''setsockopt(TCP_NODELAY)'' error
      else Status_Ok)"

section \<open>Listeners\<close>

record TcpListener =
  tl_socket :: int
  tl_port :: u16

record BindIo =
  bi_init_result :: int
  bi_socket :: int
  bi_address_is_ipv4 :: bool
  bi_bind :: int
  bi_listen :: int
  bi_getsockname :: int
  bi_bound_port :: u16
  bi_error :: string

definition Bind :: "BindIo \<Rightarrow> TcpListener Result" where
  "Bind io =
     (if bi_init_result io \<noteq> 0 then Inl (mk_Status kSocketError ''socket subsystem is not available'')
      else if bi_socket io = -1 then Inl (LastSocketError ''socket'' (bi_error io))
      else if \<not> bi_address_is_ipv4 io then Inl (mk_Status kInvalidArgument ''listen address must be an IPv4 address'')
      else if bi_bind io \<noteq> 0 then Inl (LastSocketError ''bind'' (bi_error io))
      else if bi_listen io \<noteq> 0 then Inl (LastSocketError ''listen'' (bi_error io))
      else if bi_getsockname io \<noteq> 0 then Inl (LastSocketError ''getsockname'' (bi_error io))
      else Inr \<lparr>tl_socket = bi_socket io, tl_port = bi_bound_port io\<rparr>)"

definition Listener_Close :: "TcpListener \<Rightarrow> TcpListener \<times> int option" where
  "Listener_Close l = (if tl_socket l < 0 then (l, None) else (l\<lparr>tl_socket := -1\<rparr>, Some (tl_socket l)))"

definition Listener_move :: "TcpListener \<Rightarrow> TcpListener \<times> TcpListener" where
  "Listener_move other = (other, other\<lparr>tl_socket := -1, tl_port := 0\<rparr>)"

definition Listener_assign :: "TcpListener \<Rightarrow> TcpListener \<Rightarrow> TcpListener \<times> TcpListener \<times> int option" where
  "Listener_assign this other = (other, other\<lparr>tl_socket := -1, tl_port := 0\<rparr>, snd (Listener_Close this))"

text \<open>The answer to \<^verbatim>\<open>select\<close> and to \<^verbatim>\<open>accept\<close>: the number returned and the error text.\<close>

definition WaitReadable :: "int \<Rightarrow> string \<Rightarrow> TcpListener \<Rightarrow> bool Result" where
  "WaitReadable selected error l =
     (if tl_socket l < 0 then Inl (mk_Status kNotRunning ''listener is closed'')
      else if selected < 0 then Inl (LastSocketError ''select'' error)
      else Inr (selected > 0))"

definition Accept :: "int \<Rightarrow> string \<Rightarrow> TcpListener \<Rightarrow> TcpConnection Result" where
  "Accept peer error l =
     (if tl_socket l < 0 then Inl (mk_Status kNotRunning ''listener is closed'')
      else if peer = -1 then Inl (LastSocketError ''accept'' error)
      else Inr (Connection_SetMaxFrameBytes kDefaultMaxFrameBytes (default_TcpConnection\<lparr>tc_socket := peer\<rparr>)))"

section \<open>What the transport guarantees\<close>

text \<open>However the operating system cuts a frame into \<^verbatim>\<open>send\<close> calls, a success means that the whole encoding
  was written, and nothing but a prefix of it was written otherwise.\<close>

lemma send_loop_prefix: "\<exists>left. bytes = snd (send_loop os k bytes) @ left \<and> (Status_ok (fst (send_loop os k bytes)) \<longleftrightarrow> left = [])"
proof (induction os k bytes rule: send_loop.induct)
  case (1 os k rest)
  show ?case
  proof (cases "rest = [] \<or> sa_chunk (os k) \<le> 0")
    case True
    then show ?thesis by (auto simp: send_loop.simps [of os k rest] LastSocketError_def Status_ok_def)
  next
    case False
    then obtain left where "drop (nat (sa_chunk (os k))) rest = snd (send_loop os (k + 1) (drop (nat (sa_chunk (os k))) rest)) @ left"
      "Status_ok (fst (send_loop os (k + 1) (drop (nat (sa_chunk (os k))) rest))) \<longleftrightarrow> left = []"
      using 1 by blast
    then show ?thesis
      using False append_take_drop_id [of "nat (sa_chunk (os k))" rest]
      by (auto simp: send_loop.simps [of os k rest] Let_def case_prod_beta intro!: exI [of _ left])
  qed
qed

text \<open>Every call takes at least one byte.\<close>

definition willing :: "(nat \<Rightarrow> SendAnswer) \<Rightarrow> bool" where
  "willing os \<longleftrightarrow> (\<forall>i. 0 < sa_chunk (os i))"

lemma send_loop_willing: "willing os \<Longrightarrow> send_loop os k bytes = (Status_Ok, bytes)"
proof (induction os k bytes rule: send_loop.induct)
  case (1 os k rest)
  from 1(2) have "\<not> sa_chunk (os k) \<le> 0" by (simp add: willing_def not_le)
  with 1 show ?case by (simp add: send_loop.simps [of os k rest] Let_def)
qed

lemma SendFrame_ok:
  assumes "Status_ok (fst (SendFrame os f c))"
  shows "snd (SendFrame os f c) = frame_bytes f \<and> length (fr_body f) \<le> unat (tc_max_frame_bytes c) \<and>
    kMinMaxFrameBytes \<le> tc_max_frame_bytes c \<and> 0 \<le> tc_socket c"
proof -
  from assms obtain bs where bs: "EncodeFrame f (tc_max_frame_bytes c) = Inr bs" "0 \<le> tc_socket c"
    by (auto simp: SendFrame_def Status_ok_def EncodeFrame_def Let_def split: if_splits sum.splits)
  then have "SendFrame os f c = send_loop os 0 bs" by (simp add: SendFrame_def)
  with send_loop_prefix [of bs os 0] assms bs show ?thesis by (auto simp: EncodeFrame_iff)
qed

lemma SendFrame_willing:
  assumes "willing os" "0 \<le> tc_socket c" "kMinMaxFrameBytes \<le> tc_max_frame_bytes c"
    and "length (fr_body f) \<le> unat (tc_max_frame_bytes c)"
  shows "SendFrame os f c = (Status_Ok, frame_bytes f)"
  using assms EncodeFrame_bytes [of "tc_max_frame_bytes c" f] by (simp add: SendFrame_def send_loop_willing)

text \<open>A connection between two frames: open, with the bytes it has buffered and its bound.\<close>

definition at_rest :: "byte list \<Rightarrow> u32 \<Rightarrow> TcpConnection \<Rightarrow> bool" where
  "at_rest pending m c \<longleftrightarrow> 0 \<le> tc_socket c \<and> tc_max_frame_bytes c = m \<and> tc_stream c = stream m pending"

lemma receive_loop_frame:
  assumes "length (fr_body f) \<le> unat m" "[] \<notin> set chunks" "pending @ concat chunks = frame_bytes f @ later"
  shows "\<exists>k rest. receive_loop (stream m pending) (map Received chunks @ tail) =
      Some (Inr f, stream m rest, map Received (drop k chunks) @ tail) \<and> rest @ concat (drop k chunks) = later"
  using assms(2,3)
proof (induction chunks arbitrary: pending)
  case Nil
  then show ?case
    using Next_frame_bytes [OF assms(1), of later] by (auto simp: receive_loop.simps [of "stream m _"])
next
  case (Cons c cs)
  have all: "FrameStream_Next (stream m (pending @ c @ concat cs)) = (Inr (Some f), stream m later)"
    using Next_frame_bytes [OF assms(1), of later] Cons.prems(2) by simp
  obtain x t where n: "FrameStream_Next (stream m pending) = (x, t)" by fastforce
  show ?case
  proof (cases "x = Inr None")
    case True
    then have "t = stream m pending" using n by (cases rule: Next_cases [where m = m and b = pending]) auto
    then have "receive_loop (stream m pending) (map Received (c # cs) @ tail) =
        receive_loop (stream m (pending @ c)) (map Received cs @ tail)"
      using True n Cons.prems(1) by (auto simp: receive_loop.simps [of "stream m pending"])
    moreover obtain k rest where "receive_loop (stream m (pending @ c)) (map Received cs @ tail) =
        Some (Inr f, stream m rest, map Received (drop k cs) @ tail)" "rest @ concat (drop k cs) = later"
      using Cons.IH [of "pending @ c"] Cons.prems by auto
    ultimately show ?thesis by (intro exI [of _ "Suc k"]) auto
  next
    case False
    from Next_append [OF n False, of "c @ concat cs"] all
    have "x = Inr (Some f)" "t = stream m (fs_buffer t)" "fs_buffer t @ c @ concat cs = later" by simp_all
    then show ?thesis
      using n by (intro exI [of _ 0]) (auto simp: receive_loop.simps [of "stream m pending"])
  qed
qed

lemma ReceiveFrame_frame:
  assumes "at_rest pending m c" "length (fr_body f) \<le> unat m" "[] \<notin> set chunks"
    and "pending @ concat chunks = frame_bytes f @ later"
  shows "\<exists>k rest. ReceiveFrame (map Received chunks @ tail) c =
      Some (Inr f, c\<lparr>tc_stream := stream m rest\<rparr>, map Received (drop k chunks) @ tail) \<and>
      rest @ concat (drop k chunks) = later"
  using receive_loop_frame [OF assms(2-4), of tail] assms(1) by (auto simp: ReceiveFrame_def at_rest_def)

section \<open>The link between two ends\<close>

text \<open>What a client of the transport relies on. \<open>rest\<close> holds of an open end with the bytes it has buffered and its
  bound.\<close>

locale frame_link =
  fixes send :: "'o \<Rightarrow> Frame \<Rightarrow> 'c \<Rightarrow> Status \<times> byte list"
    and receive :: "RecvAnswer list \<Rightarrow> 'c \<Rightarrow> (Frame Result \<times> 'c \<times> RecvAnswer list) option"
    and rest :: "byte list \<Rightarrow> u32 \<Rightarrow> 'c \<Rightarrow> bool"
  assumes send_whole: "rest b m c \<Longrightarrow> Status_ok (fst (send os f c)) \<Longrightarrow>
      snd (send os f c) = frame_bytes f \<and> length (fr_body f) \<le> unat m"
    and receive_first: "rest b m c \<Longrightarrow> length (fr_body f) \<le> unat m \<Longrightarrow> [] \<notin> set chunks \<Longrightarrow>
      b @ concat chunks = frame_bytes f @ later \<Longrightarrow>
      \<exists>c' k b'. receive (map Received chunks @ tail) c = Some (Inr f, c', map Received (drop k chunks) @ tail) \<and>
        rest b' m c' \<and> b' @ concat (drop k chunks) = later"
begin

text \<open>One frame, sent with success by an end whose bound is not larger than the receiver's, arrives whatever the cuts.\<close>

lemma delivered:
  assumes "rest b m c" "Status_ok (fst (send os f c))" "rest [] m' c'" "m \<le> m'"
    and "[] \<notin> set chunks" "concat chunks = snd (send os f c)"
  shows "\<exists>c''. receive (map Received chunks) c' = Some (Inr f, c'', []) \<and> rest [] m' c''"
proof -
  have f: "snd (send os f c) = frame_bytes f" "length (fr_body f) \<le> unat m'"
    using send_whole [OF assms(1,2)] assms(4) by (auto simp: word_le_nat_alt)
  from receive_first [OF assms(3) f(2) assms(5), where tail = "[]" and later = "[]"] assms(6) f(1)
  obtain c'' k b' where r: "receive (map Received chunks) c' = Some (Inr f, c'', map Received (drop k chunks))"
    "rest b' m' c''" "b' @ concat (drop k chunks) = []" by auto
  have "[] \<notin> set (drop k chunks)" using assms(5) in_set_dropD by fastforce
  then have "drop k chunks = []" using r(3) by (cases "drop k chunks") auto
  with r show ?thesis by auto
qed

text \<open>All frames of a sequence arrive in order; \<open>received\<close> collects them by repeated receives.\<close>

primrec received :: "nat \<Rightarrow> RecvAnswer list \<Rightarrow> 'c \<Rightarrow> Frame list" where
  "received 0 answers c = []"
| "received (Suc n) answers c = (case receive answers c of
     Some (Inr f, c', answers') \<Rightarrow> f # received n answers' c' | _ \<Rightarrow> [])"

lemma received_all:
  assumes "rest b m c" "\<forall>f \<in> set fs. length (fr_body f) \<le> unat m" "[] \<notin> set chunks"
    and "b @ concat chunks = concat (map frame_bytes fs)"
  shows "received (length fs) (map Received chunks) c = fs"
  using assms
proof (induction fs arbitrary: b c chunks)
  case (Cons f fs)
  obtain c' k b' where r: "receive (map Received chunks) c = Some (Inr f, c', map Received (drop k chunks))"
    "rest b' m c'" "b' @ concat (drop k chunks) = concat (map frame_bytes fs)"
    using receive_first [OF Cons.prems(1), where tail = "[]" and f = f and chunks = chunks] Cons.prems by auto
  moreover have "[] \<notin> set (drop k chunks)" using Cons.prems(3) in_set_dropD by fastforce
  ultimately show ?case using Cons.IH [of b' c' "drop k chunks"] Cons.prems(2) by simp
qed simp

end

interpretation tcp: frame_link SendFrame ReceiveFrame at_rest
proof
  show "snd (SendFrame os f c) = frame_bytes f \<and> length (fr_body f) \<le> unat m"
    if "at_rest b m c" "Status_ok (fst (SendFrame os f c))" for b m c os f
    using SendFrame_ok [OF that(2)] that(1) by (simp add: at_rest_def)
next
  show "\<exists>c' k b'. ReceiveFrame (map Received chunks @ tail) c = Some (Inr f, c', map Received (drop k chunks) @ tail) \<and>
      at_rest b' m c' \<and> b' @ concat (drop k chunks) = later"
    if "at_rest b m c" "length (fr_body f) \<le> unat m" "[] \<notin> set chunks" "b @ concat chunks = frame_bytes f @ later"
    for b m c f chunks later tail
    using ReceiveFrame_frame [OF that, of tail] that(1) by (fastforce simp: at_rest_def)
qed

end
