(* ===== verification/Flow_Calls.thy ===== *)
theory Flow_Calls
  imports Flow_Fencing
begin

text \<open>
  The synchronous operations of the coordinator as their caller sees them, with the values they return
  (\<^verbatim>\<open>src/runtime.cpp\<close>): registration, \<^verbatim>\<open>Prepare\<close>, \<^verbatim>\<open>Commit\<close> and \<^verbatim>\<open>PlaceNow\<close>. An operation
  is the sequence of its critical sections. A \<open>World\<close> gives, for the gap before each section, what the other
  threads do to the state and what the environment answers; in a \<open>quiet_world\<close> the caller is alone.
\<close>

record World =
  wd_env :: "nat \<Rightarrow> Env"
  wd_others :: "nat \<Rightarrow> CoordinatorState \<Rightarrow> CoordinatorState"

definition quiet_world :: "World \<Rightarrow> bool" where
  "quiet_world w \<longleftrightarrow> (\<forall>k. wd_others w k = id)"

lemma quiet_others [simp]: "quiet_world w \<Longrightarrow> wd_others w k st = st"
  by (simp add: quiet_world_def)

section \<open>The operations\<close>

definition RegisterAttempt :: "World \<Rightarrow> PlacementRequest \<Rightarrow> AttemptId \<Rightarrow> bool \<Rightarrow> CoordinatorState \<Rightarrow> CoordinatorState \<times> nat Result" where
  "RegisterAttempt w request attempt enforce_queue_capacity st =
     (case RegisterAttempt_admit request attempt enforce_queue_capacity st of
        (st, Inl status) \<Rightarrow> (st, Inl status)
      | (st, Inr r) \<Rightarrow>
          if cs_store st = None then (st, Inr r)
          else case RegisterAttempt_journal (wd_env w 0) r (wd_others w 0 st) of (st, status) \<Rightarrow>
            if \<not> Status_ok status then (st, Inl status)
            else case RegisterAttempt_mark r (wd_others w 1 st) of
              (st, None) \<Rightarrow> (st, Inr r)
            | (st, Some (phase, code)) \<Rightarrow> (JournalTerminal (wd_env w 2) r phase code (wd_others w 2 st), Inr r))"

definition Coordinator_Prepare :: "World \<Rightarrow> PlacementRequest \<Rightarrow> AttemptId \<Rightarrow> CoordinatorState \<Rightarrow> CoordinatorState \<times> PreparedAttempt Result" where
  "Coordinator_Prepare w request attempt st =
     (case RegisterAttempt w request attempt False st of
        (st, Inl status) \<Rightarrow> (st, Inl status)
      | (st, Inr r) \<Rightarrow>
          case Prepare_begin r (wd_others w 3 st) of (st, status) \<Rightarrow>
            if \<not> Status_ok status then (st, Inl status)
            else
              let decision = ComputeDecision st r;
                  st = store_decision r decision (wd_others w 4 st);
                  st = wd_others w 5 st
              in (st, Inr \<lparr>pd_attempt = attempt, pd_request = sl_request (slot_at st r),
                           pd_decision = oc_decision (sl_outcome (slot_at st r))\<rparr>))"

definition CommitSlot :: "World \<Rightarrow> nat \<Rightarrow> CoordinatorState \<Rightarrow> CoordinatorState \<times> Status" where
  "CommitSlot w r st =
     (case CommitSlot_check r st of (st, status) \<Rightarrow>
        if \<not> Status_ok status then (st, status)
        else
          let st = wd_others w 8 st; decision = oc_decision (sl_outcome (slot_at st r)) in
          case CommitSlot_store (wd_env w 9) r decision (wd_others w 9 st) of
            (st, Inl status) \<Rightarrow> (st, status)
          | (st, Inr record) \<Rightarrow>
              let st = CommitSlot_note r record (wd_others w 10 st);
                  st = JournalTerminal (wd_env w 11) r AttemptPhase.kCommitted kOk (wd_others w 11 st)
              in (FinalizeLocked r AttemptState.kCommitted kOk (wd_others w 12 st), Status_Ok))"

text \<open>The value \<^verbatim>\<open>Commit\<close> returns last: the outcome of the slot, read under the lock.\<close>

definition final_outcome :: "World \<Rightarrow> nat \<Rightarrow> CoordinatorState \<Rightarrow> CoordinatorState \<times> AttemptOutcome Result" where
  "final_outcome w r st = (let st = wd_others w 15 st in (st, Inr (sl_outcome (slot_at st r))))"

definition Coordinator_Commit :: "World \<Rightarrow> PreparedAttempt \<Rightarrow> CoordinatorState \<Rightarrow> CoordinatorState \<times> AttemptOutcome Result" where
  "Coordinator_Commit w prepared st =
     (case omap_get (cs_slots st) (pd_attempt prepared) of
        None \<Rightarrow> (st, Inl (mk_Status kUnknownAttempt ''no such attempt is known to this coordinator''))
      | Some r \<Rightarrow>
          let st = wd_others w 6 st; decision = pd_decision prepared in
          if \<not> placed decision then
            (case Commit_reject r decision st of (st, finalized_here) \<Rightarrow>
               final_outcome w r (if finalized_here
                 then JournalTerminal (wd_env w 14) r AttemptPhase.kRejected (de_code decision) (wd_others w 14 st) else st))
          else case Commit_admit r decision st of
            CommitReturns outcome \<Rightarrow> (st, Inr outcome)
          | CommitRefused status \<Rightarrow> (st, Inl status)
          | CommitProceeds \<Rightarrow>
              (case CommitSlot w r (wd_others w 7 st) of (st, status) \<Rightarrow>
                 if Status_ok status then final_outcome w r st
                 else case Commit_fail r (st_code status) (wd_others w 13 st) of (st, finalized_here) \<Rightarrow>
                   final_outcome w r (if finalized_here
                     then JournalTerminal (wd_env w 14) r (PhaseForState (StateForFailure (st_code status))) (st_code status)
                            (wd_others w 14 st) else st)))"

definition PlaceNow :: "World \<Rightarrow> PlacementRequest \<Rightarrow> AttemptId \<Rightarrow> CoordinatorState \<Rightarrow> CoordinatorState \<times> AttemptOutcome Result" where
  "PlaceNow w request attempt st =
     (case Coordinator_Prepare w request attempt st of
        (st, Inl status) \<Rightarrow> (st, Inl status)
      | (st, Inr prepared) \<Rightarrow> Coordinator_Commit w prepared (wd_others w 16 st))"

section \<open>A caller alone\<close>

text \<open>The store holds no placement of the attempt.\<close>

definition uncommitted :: "CoordinatorState \<Rightarrow> AttemptId \<Rightarrow> bool" where
  "uncommitted st a \<longleftrightarrow> (case cs_store st of None \<Rightarrow> True
     | Some store \<Rightarrow> omap_get (im_commit_by_attempt (ps_impl store)) a = None)"

text \<open>The attempt of the caller between two sections: in the table, not ended, not cancelled.\<close>

definition at_work :: "CoordinatorState \<Rightarrow> nat \<Rightarrow> PlacementRequest \<Rightarrow> bool" where
  "at_work st r request \<longleftrightarrow> r < length (cs_heap st) \<and> omap_get (cs_slots st) (rq_attempt request) = Some r \<and>
     \<not> sl_terminal (slot_at st r) \<and> \<not> sl_cancel_requested (slot_at st r) \<and> \<not> sl_pending_terminal (slot_at st r) \<and>
     sl_request (slot_at st r) = request \<and> oc_attempt (sl_outcome (slot_at st r)) = rq_attempt request \<and>
     cs_state st = RunState.kRunning \<and> ex_fabric_epoch (rq_expected request) = cs_epoch st \<and>
     uncommitted st (rq_attempt request)"

text \<open>What the sections of a caller never touch.\<close>

definition view :: "CoordinatorState \<Rightarrow> CoordinatorOptions \<times> FabricEpoch \<times> AuthorityExpectation \<times> RunState \<times> IncarnationId" where
  "view st = (cs_options st, cs_epoch st, cs_authority st, cs_state st, cs_incarnation st)"

lemma view_updates [simp]:
  "view (set_slot r f st) = view st" "view (bump g st) = view st" "view (store_decision r d st) = view st"
  "view (CommitSlot_note r p st) = view st" "view (FinalizeLocked r s c st) = view st"
  "view (JournalTerminal env r phase code st) = view st" "view (fst (CommitRecord env i delta dg e st)) = view st"
  "view (ReapRetainedSlots st) = view st" "view (st\<lparr>cs_store := x\<rparr>) = view st"
  "view (st\<lparr>cs_heap := h, cs_slots := m, cs_slot_order := order\<rparr>) = view st"
  by (simp_all add: view_def set_slot_def bump_def store_decision_def CommitSlot_note_def FinalizeLocked_def
      JournalTerminal_def CommitRecord_def ReapRetainedSlots_def Let_def split: option.split prod.split)

lemma at_work_store:
  "cs_store st = Some store \<Longrightarrow> same_ledger (ps_impl store') (ps_impl store) \<Longrightarrow>
   at_work (st\<lparr>cs_store := Some store'\<rparr>) r request = at_work st r request"
  by (simp add: at_work_def uncommitted_def same_ledger_def)

lemma at_work_set_slot:
  assumes "at_work st r request"
    and "sl_terminal (f (slot_at st r)) = False" "sl_cancel_requested (f (slot_at st r)) = False"
    and "sl_pending_terminal (f (slot_at st r)) = False" "sl_request (f (slot_at st r)) = request"
    and "oc_attempt (sl_outcome (f (slot_at st r))) = rq_attempt request"
  shows "at_work (set_slot r f st) r request"
  using assms by (simp add: at_work_def set_slot_def uncommitted_def)

definition admissible :: "CoordinatorState \<Rightarrow> PlacementRequest \<Rightarrow> bool" where
  "admissible st request \<longleftrightarrow> table_ok st \<and> rq_attempt request \<noteq> 0 \<and> omap_get (cs_slots st) (rq_attempt request) = None \<and>
     Status_ok (ValidateRequest request (co_limits (cs_options st))) \<and> cs_state st = RunState.kRunning \<and>
     ex_fabric_epoch (rq_expected request) = cs_epoch st \<and> uncommitted st (rq_attempt request)"

lemma admit_alone:
  assumes "admissible st request"
  shows "\<exists>st1. RegisterAttempt_admit request (rq_attempt request) False st = (st1, Inr (length (cs_heap st))) \<and>
    at_work st1 (length (cs_heap st)) request \<and> view st1 = view st \<and> records st1 = records st \<and> cs_store st1 = cs_store st \<and>
    cs_next_placement_id st1 = cs_next_placement_id st \<and> cs_latest_in_memory st1 = cs_latest_in_memory st"
proof -
  let ?a = "rq_attempt request" and ?n = "length (cs_heap st)"
  let ?d = "RequestDigest request (co_limits (cs_options st))"
  define st0 where "st0 = bump (\<lambda>s. s\<lparr>cn_submitted := cn_submitted s + 1\<rparr>) st"
  define st1 where "st1 = admit_slot request ?a ?d st0"
  have same: "request\<lparr>rq_attempt := ?a\<rparr> = request" by simp
  have t: "table_ok st0" "omap_get (cs_slots st0) ?a = None"
    using assms by (simp_all add: admissible_def st0_def bump_def table_ok_def)
  have "RegisterAttempt_admit request ?a False st = (st1, Inr ?n)"
    using assms t(2) same by (simp add: RegisterAttempt_admit_def Let_def admissible_def st1_def st0_def bump_def)
  moreover have heap: "cs_heap st1 = cs_heap st @ [new_slot request ?a ?d]"
    by (simp add: st1_def st0_def admit_slot_def Let_def ReapRetainedSlots_def bump_def split: prod.split)
  moreover have "omap_get (cs_slots st1) ?a = Some ?n"
    using admit_slot_facts(2) [OF t, of request ?d] by (simp add: st1_def st0_def bump_def)
  moreover have "view st1 = view st" by (simp add: st1_def st0_def admit_slot_def Let_def)
  moreover have "cs_store st1 = cs_store st \<and> cs_next_placement_id st1 = cs_next_placement_id st \<and>
      cs_latest_in_memory st1 = cs_latest_in_memory st"
    by (simp add: st1_def st0_def admit_slot_def Let_def ReapRetainedSlots_def bump_def split: prod.split)
  moreover have "records st1 = records st"
    by (simp add: st1_def st0_def admit_slot_def Let_def)
  ultimately show ?thesis
    using assms by (auto simp: at_work_def admissible_def new_slot_def view_def uncommitted_def)
qed

lemma RegisterAttempt_alone:
  assumes "quiet_world w" "admissible st request" "RegisterAttempt w request (rq_attempt request) False st = (st1, res)"
  shows "view st1 = view st \<and> records st1 = records st \<and>
    (case res of Inl _ \<Rightarrow> cs_store st \<noteq> None | Inr r \<Rightarrow> at_work st1 r request) \<and>
    (cs_store st = None \<longrightarrow> cs_store st1 = None \<and> cs_next_placement_id st1 = cs_next_placement_id st \<and>
       cs_latest_in_memory st1 = cs_latest_in_memory st)"
proof -
  let ?n = "length (cs_heap st)"
  obtain st0 where st0: "RegisterAttempt_admit request (rq_attempt request) False st = (st0, Inr ?n)"
    "at_work st0 ?n request" "view st0 = view st" "records st0 = records st" "cs_store st0 = cs_store st"
    "cs_next_placement_id st0 = cs_next_placement_id st" "cs_latest_in_memory st0 = cs_latest_in_memory st"
    using admit_alone [OF assms(2)] by blast
  show ?thesis
  proof (cases "cs_store st")
    case None
    then show ?thesis using assms(3) st0 by (auto simp: RegisterAttempt_def)
  next
    case (Some store)
    obtain st2 status where j: "RegisterAttempt_journal (wd_env w 0) ?n st0 = (st2, status)" by fastforce
    have v: "view st2 = view st0" using j Some st0(5)
      by (auto simp: RegisterAttempt_journal_def Let_def split: prod.splits if_splits)
    have rec: "records st2 = records st0" using records_register [of "wd_env w 0" ?n st0] by (simp add: j)
    show ?thesis
    proof (cases "Status_ok status")
      case False
      then show ?thesis using assms(1,3) st0 j v rec Some by (auto simp: RegisterAttempt_def)
    next
      case True
      have "\<exists>s. st2 = st0\<lparr>cs_store := Some s\<rparr> \<and> same_ledger (ps_impl s) (ps_impl store)"
        using j True Some st0(5) attempt_records_ledger(1) [of "ev_io (wd_env w 0)" "ev_cio (wd_env w 0)" _ store]
        by (auto simp: RegisterAttempt_journal_def Let_def case_prod_beta split: if_splits)
      then have w2: "at_work st2 ?n request" using st0(2,5) Some by (auto simp: at_work_store)
      define st3 where "st3 = set_slot ?n (\<lambda>s. s\<lparr>sl_journalled_start := True\<rparr>) st2"
      have w3: "at_work st3 ?n request" unfolding st3_def
        by (rule at_work_set_slot [OF w2]) (use w2 in \<open>simp_all add: at_work_def\<close>)
      then have "RegisterAttempt_mark ?n st2 = (st3, None)"
        by (simp add: RegisterAttempt_mark_def Let_def at_work_def flip: st3_def)
      with assms(1,3) st0(1,5) Some j True have "st1 = st3 \<and> res = Inr ?n" by (simp add: RegisterAttempt_def)
      moreover have "view st3 = view st"
        by (simp add: st3_def v st0(3))
      moreover have "records st3 = records st" by (simp add: st3_def rec st0(4))
      ultimately show ?thesis using w3 Some by simp
    qed
  qed
qed

text \<open>The self-check of \<^verbatim>\<open>ComputeDecision\<close> never replaces the engine's decision.\<close>

lemma ComputeDecision_engine: "ComputeDecision st r = Place (co_limits (cs_options st)) (sl_request (slot_at st r))"
proof -
  let ?l = "co_limits (cs_options st)" and ?q = "sl_request (slot_at st r)"
  have "VerifyIntent ?l ?q (the (de_intent (Place ?l ?q))) = None" if "placed (Place ?l ?q)"
  proof -
    have pl: "placeable ?q ?l" using that placed_iff_placeable by blast
    then have wf: "wf_request ?q ?l" and ne: "legal_paths (Prepare ?q ?l) \<noteq> []" by (simp_all add: placeable_def)
    obtain p where "p \<in> set (legal_paths (Prepare ?q ?l))" "chosen (Prepare ?q ?l) = entry_of (Prepare ?q ?l) p"
      using chosen_legal [OF ne] .
    then show ?thesis using VerifyIntent_Place_intent [OF wf] Place_placeable [OF pl] by simp
  qed
  then show ?thesis by (simp add: ComputeDecision_def Let_def)
qed

lemma Prepare_alone:
  assumes "quiet_world w" "admissible st request"
    and "Coordinator_Prepare w request (rq_attempt request) st = (st1, res)"
  shows "view st1 = view st \<and> records st1 = records st \<and>
    (case res of Inl _ \<Rightarrow> cs_store st \<noteq> None
     | Inr p \<Rightarrow> \<exists>r. at_work st1 r request \<and> pd_attempt p = rq_attempt request \<and>
         pd_decision p = Place (co_limits (cs_options st)) request \<and>
         oc_decision (sl_outcome (slot_at st1 r)) = Place (co_limits (cs_options st)) request \<and>
         oc_state (sl_outcome (slot_at st1 r)) = AttemptState.kRunning) \<and>
    (cs_store st = None \<longrightarrow> cs_store st1 = None \<and> cs_next_placement_id st1 = cs_next_placement_id st \<and>
       cs_latest_in_memory st1 = cs_latest_in_memory st)"
proof -
  obtain st0 res0 where reg: "RegisterAttempt w request (rq_attempt request) False st = (st0, res0)" by fastforce
  note a = RegisterAttempt_alone [OF assms(1,2) reg]
  show ?thesis
  proof (cases res0)
    case (Inl s)
    then show ?thesis using assms(3) reg a by (auto simp: Coordinator_Prepare_def)
  next
    case (Inr r)
    let ?D = "Place (co_limits (cs_options st)) request"
    define sb where "sb = set_slot r (\<lambda>s. s\<lparr>sl_running := True,
      sl_outcome := (sl_outcome s)\<lparr>oc_state := AttemptState.kRunning\<rparr>\<rparr>) st0"
    define sd where "sd = store_decision r ?D sb"
    have w0: "at_work st0 r request" using a Inr by simp
    have wb: "at_work sb r request" unfolding sb_def
      by (rule at_work_set_slot [OF w0]) (use w0 in \<open>simp_all add: at_work_def\<close>)
    have wd: "at_work sd r request" unfolding sd_def store_decision_def
      by (rule at_work_set_slot [OF wb]) (use wb in \<open>simp_all add: at_work_def\<close>)
    have "Prepare_begin r st0 = (sb, Status_Ok)" using w0 by (simp add: Prepare_begin_def at_work_def sb_def)
    moreover have v: "view sd = view st"
      using a by (simp add: sd_def sb_def)
    moreover have "cs_options sb = cs_options st" using a by (simp add: sb_def view_def)
    then have "ComputeDecision sb r = ?D" using wb by (simp add: ComputeDecision_engine at_work_def)
    moreover have "oc_decision (sl_outcome (slot_at sd r)) = ?D \<and> oc_state (sl_outcome (slot_at sd r)) = AttemptState.kRunning"
      using w0 by (simp add: sd_def sb_def store_decision_def set_slot_def at_work_def)
    moreover have "records sd = records st" using a by (simp add: sd_def sb_def)
    moreover have "cs_store sd = cs_store st0 \<and> cs_next_placement_id sd = cs_next_placement_id st0 \<and>
        cs_latest_in_memory sd = cs_latest_in_memory st0"
      by (simp add: sd_def sb_def store_decision_def set_slot_def)
    ultimately show ?thesis
      using assms(1,3) reg Inr a wd by (auto simp: Coordinator_Prepare_def Let_def sd_def [symmetric])
  qed
qed

section \<open>The commit of a caller alone\<close>

text \<open>A record the commit returns is one of the durable records, unless the index of attempts points outside them.\<close>

lemma commit_record_stored:
  assumes "commit_record io cio p store = (store', Inr q)"
  shows "q = p \<and> p \<in> set (im_placements (ps_impl store'))"
proof -
  define s1 where "s1 = fst (AppendRecordRaw io kRecordTypePlacement (EncodePlacementRecord p) store)"
  let ?s = "set_impl (\<lambda>impl. (add_placement p impl)\<lparr>im_next_placement_id := pr_id p + 1\<rparr>) s1"
  from assms have q: "q = p" "store' = fst (MaybeCompact cio ?s)"
    by (auto simp: commit_record_def case_prod_beta s1_def [symmetric] split: if_splits)
  have "p \<in> set (im_placements (ps_impl ?s))" by (simp add: set_impl_def add_placement_def Let_def)
  with q MaybeCompact_index [of cio ?s] show ?thesis by (simp add: same_index_def)
qed

lemma CommitRecord_result:
  assumes "CommitRecord env i delta digest epoch st = (st', Inr p)" "uncommitted st (in_attempt i)"
  shows "pr_intent p = i \<and> p \<in> records st'"
proof (cases "cs_store st")
  case None
  have "omap_get (omap_put k v m) k = Some v \<Longrightarrow> v \<in> snd ` set (omap_put k v m)" for k v and m :: "(FlowId, PlacementRecord) omap"
    by (force simp: omap_get_def dest: map_of_SomeD)
  then have in_put: "v \<in> snd ` set (omap_put k v m)" for k v and m :: "(FlowId, PlacementRecord) omap" by simp
  from None assms(1) show ?thesis
    by (auto simp: CommitRecord_def records_def Let_def in_put split: if_splits option.splits)
next
  case (Some store)
  obtain store' where c: "CommitPlacement (ev_io env) (ev_cio env) (ev_now env) i delta digest (cs_incarnation st) epoch store
      = (store', Inr p)" "st' = st\<lparr>cs_store := Some store'\<rparr>"
    using assms(1) Some by (auto simp: CommitRecord_def split: prod.splits)
  with assms(2) Some obtain q where q: "new_record i delta digest (cs_incarnation st) epoch (ev_now env) (ps_impl store) = Inr q"
    "commit_record (ev_io env) (ev_cio env) q store = (store', Inr p)"
    by (auto simp: CommitPlacement_def Let_def uncommitted_def split: if_splits sum.splits)
  have "pr_intent q = i" using q(1) by (auto simp: new_record_def guardR_def Let_def split: option.splits if_splits)
  with commit_record_stored [OF q(2)] c(2) show ?thesis by (simp add: records_def)
qed

text \<open>What the caller may rely on when \<^verbatim>\<open>PlaceNow\<close> answers with an outcome.\<close>

definition room_in_memory :: "CoordinatorState \<Rightarrow> FlowId \<Rightarrow> bool" where
  "room_in_memory st flow \<longleftrightarrow> cs_store st = None \<and> cs_next_placement_id st \<noteq> - 1 \<and>
     (\<forall>p. omap_get (cs_latest_in_memory st) flow = Some p \<longrightarrow> pr_generation p \<noteq> - 1)"

definition answered :: "CoordinatorState \<Rightarrow> PlacementRequest \<Rightarrow> CoordinatorState \<Rightarrow> AttemptOutcome \<Rightarrow> bool" where
  "answered st request st' out \<longleftrightarrow>
     (let D = Place (co_limits (cs_options st)) request;
          current = AuthorityMatches (cs_authority st) (rq_expected request) in
      oc_attempt out = rq_attempt request \<and> oc_decision out = D \<and>
      (\<not> placed D \<longrightarrow> oc_state out = AttemptState.kRejected \<and> oc_code out = de_code D \<and> records st' = records st) \<and>
      (placed D \<and> \<not> current \<longrightarrow>
         oc_state out = AttemptState.kFenced \<and> oc_code out = kStaleAuthorityGeneration \<and> records st' = records st) \<and>
      (oc_state out = AttemptState.kCommitted \<longrightarrow> placed D \<and> current \<and>
         (\<exists>p \<in> records st'. de_intent D = Some (pr_intent p) \<and> pr_id p = oc_placement_id out \<and>
            pr_generation p = oc_placement_generation out)) \<and>
      (placed D \<and> current \<and> room_in_memory st (rq_flow request) \<longrightarrow> oc_state out = AttemptState.kCommitted))"

lemma JournalTerminal_fields [simp]:
  "cs_heap (JournalTerminal env r phase code st) = cs_heap st" "cs_slots (JournalTerminal env r phase code st) = cs_slots st"
  by (simp_all add: JournalTerminal_def Let_def split: option.split)

lemma CommitRecord_heap [simp]: "cs_heap (fst (CommitRecord env i d dg e st)) = cs_heap st"
  by (simp add: CommitRecord_def Let_def split: option.split prod.split)

lemma CommitRecord_room:
  "room_in_memory st (in_flow i) \<Longrightarrow> \<exists>st' p. CommitRecord env i d dg e st = (st', Inr p)"
  by (auto simp: room_in_memory_def CommitRecord_def Let_def split: option.split)

lemma CommitSlot_alone:
  assumes "quiet_world w" "at_work st r request" "oc_decision (sl_outcome (slot_at st r)) = D"
    and "de_intent D = Some i" "in_attempt i = rq_attempt request"
    and "CommitSlot w r st = (st', status)"
  shows "view st' = view st \<and> r < length (cs_heap st') \<and>
    (if AuthorityMatches (cs_authority st) (rq_expected request)
     then Status_ok status \<and> sl_terminal (slot_at st' r) \<and>
            (\<exists>p \<in> records st'. pr_intent p = i \<and>
              sl_outcome (slot_at st' r) = \<lparr>oc_attempt = rq_attempt request, oc_state = AttemptState.kCommitted, oc_code = kOk,
                oc_decision = D, oc_placement_id = pr_id p, oc_placement_generation = pr_generation p\<rparr>) \<or>
          \<not> room_in_memory st (in_flow i) \<and> \<not> sl_terminal (slot_at st' r) \<and> oc_attempt (sl_outcome (slot_at st' r)) = rq_attempt request \<and>
            oc_decision (sl_outcome (slot_at st' r)) = D \<and> oc_state (sl_outcome (slot_at st' r)) = oc_state (sl_outcome (slot_at st r))
     else st' = st \<and> \<not> Status_ok status \<and> st_code status = kStaleAuthorityGeneration)"
proof (cases "AuthorityMatches (cs_authority st) (rq_expected request)")
  case False
  then show ?thesis using assms by (auto simp: CommitSlot_def CommitSlot_check_def Let_def at_work_def Status_ok_def split: if_splits)
next
  case True
  define sx where "sx = set_slot r (\<lambda>s. s\<lparr>sl_commit_boundary_crossed := True\<rparr>) st"
  have check: "CommitSlot_check r st = (sx, Status_Ok)"
    using assms(2) True by (simp add: CommitSlot_check_def Let_def at_work_def sx_def)
  have x: "r < length (cs_heap sx)" "oc_decision (sl_outcome (slot_at sx r)) = D" "sl_request (slot_at sx r) = request"
    "\<not> sl_terminal (slot_at sx r)" "sl_outcome (slot_at sx r) = sl_outcome (slot_at st r)"
    using assms(2,3) by (simp_all add: sx_def set_slot_def at_work_def)
  have un: "uncommitted sx (in_attempt i)" and room: "room_in_memory sx (in_flow i) = room_in_memory st (in_flow i)"
    using assms(2,5) by (simp_all add: sx_def set_slot_def at_work_def uncommitted_def room_in_memory_def)
  obtain sc res where c: "CommitRecord (wd_env w 9) i (de_delta D) (de_digest D) (ex_fabric_epoch (rq_expected request)) sx = (sc, res)"
    by fastforce
  have heap: "cs_heap sc = cs_heap sx"
    using CommitRecord_heap [of "wd_env w 9" i "de_delta D" "de_digest D" "ex_fabric_epoch (rq_expected request)" sx] c by simp
  have view: "view sc = view st"
    using arg_cong [OF c, of "\<lambda>x. view (fst x)"] by (simp add: sx_def)
  show ?thesis
  proof (cases res)
    case (Inl s)
    then have "st' = sc" using assms(1,4,6) check x c by (simp add: CommitSlot_def Let_def CommitSlot_store_def)
    moreover have "\<not> room_in_memory st (in_flow i)" using CommitRecord_room [of sx i "wd_env w 9" "de_delta D" "de_digest D" "ex_fabric_epoch (rq_expected request)"] room c Inl by fastforce
    ultimately show ?thesis using True view heap x assms(2) by (simp add: at_work_def)
  next
    case (Inr p)
    define sn where "sn = JournalTerminal (wd_env w 11) r AttemptPhase.kCommitted kOk (CommitSlot_note r p sc)"
    have st': "st' = FinalizeLocked r AttemptState.kCommitted kOk sn" "status = Status_Ok"
      using assms(1,4,6) check x c Inr by (simp_all add: CommitSlot_def Let_def CommitSlot_store_def sn_def)
    have sn: "cs_heap sn = (cs_heap sc)[r := (slot_at sc r)\<lparr>sl_outcome := (sl_outcome (slot_at sc r))
        \<lparr>oc_placement_id := pr_id p, oc_placement_generation := pr_generation p\<rparr>\<rparr>]"
      by (simp add: sn_def CommitSlot_note_def set_slot_def)
    have "view st' = view st" by (simp add: st'(1) sn_def view)
    moreover have "pr_intent p = i \<and> p \<in> records st'"
      using CommitRecord_result [of "wd_env w 9" i _ _ _ sx sc p] c Inr un by (simp add: st' sn_def)
    moreover have "r < length (cs_heap st') \<and> sl_terminal (slot_at st' r) \<and> sl_outcome (slot_at st' r) =
      \<lparr>oc_attempt = rq_attempt request, oc_state = AttemptState.kCommitted, oc_code = kOk, oc_decision = D,
       oc_placement_id = pr_id p, oc_placement_generation = pr_generation p\<rparr>"
      using x heap assms(2) by (cases "sl_outcome (slot_at st r)") (simp add: st' FinalizeLocked_def sn set_slot_def bump_def at_work_def)
    ultimately show ?thesis using True st'(2) by auto
  qed
qed

lemma Commit_alone:
  assumes "quiet_world w" "at_work st r request" "oc_decision (sl_outcome (slot_at st r)) = D"
    and "D = Place (co_limits (cs_options st)) request"
    and "pd_attempt p = rq_attempt request" "pd_decision p = D" "oc_state (sl_outcome (slot_at st r)) = AttemptState.kRunning"
  shows "\<exists>st' out. Coordinator_Commit w p st = (st', Inr out) \<and> view st' = view st \<and> answered st request st' out"
proof -
  have r: "omap_get (cs_slots st) (pd_attempt p) = Some r" "r < length (cs_heap st)" "\<not> sl_terminal (slot_at st r)"
    "oc_attempt (sl_outcome (slot_at st r)) = rq_attempt request"
    using assms(2,5) by (simp_all add: at_work_def)
  show ?thesis
  proof (cases "placed D")
    case False
    let ?s = "FinalizeLocked r AttemptState.kRejected (de_code D) (store_decision r D st)"
    let ?j = "JournalTerminal (wd_env w 14) r AttemptPhase.kRejected (de_code D) ?s"
    have "Coordinator_Commit w p st = (?j, Inr (sl_outcome (slot_at ?j r)))"
      using False r assms(1,6) by (simp add: Coordinator_Commit_def Commit_reject_def final_outcome_def Let_def)
    moreover have "view ?j = view st" by simp
    moreover have "sl_outcome (slot_at ?j r) = (sl_outcome (slot_at st r))\<lparr>oc_decision := D,
        oc_state := AttemptState.kRejected, oc_code := de_code D\<rparr>"
      using r by (simp add: FinalizeLocked_def store_decision_def set_slot_def bump_def)
    then have "answered st request ?j (sl_outcome (slot_at ?j r))"
      using False r unfolding answered_def Let_def assms(4) [symmetric] by simp
    ultimately show ?thesis by blast
  next
    case True
    then obtain i where i: "de_intent D = Some i" "in_attempt i = rq_attempt request" "in_flow i = rq_flow request"
      using placed_iff_placeable Place_placeable [of request "co_limits (cs_options st)"]
      by (fastforce simp: assms(4) Place_intent_def Let_def)
    obtain sc status where c: "CommitSlot w r st = (sc, status)" by fastforce
    note a = CommitSlot_alone [OF assms(1-3) i(1,2) c]
    have "Commit_admit r D st = CommitProceeds" using r assms(3) by (simp add: Commit_admit_def Let_def)
    then have co: "Coordinator_Commit w p st = (if Status_ok status then final_outcome w r sc
        else case Commit_fail r (st_code status) sc of (st, here) \<Rightarrow> final_outcome w r (if here
          then JournalTerminal (wd_env w 14) r (PhaseForState (StateForFailure (st_code status))) (st_code status) st else st))"
      using True r assms(1,6) c by (simp add: Coordinator_Commit_def Let_def case_prod_beta)
    let ?fail = "JournalTerminal (wd_env w 14) r (PhaseForState (StateForFailure (st_code status))) (st_code status)
      (FinalizeLocked r (StateForFailure (st_code status)) (st_code status) sc)"
    have fail: "Coordinator_Commit w p st = (?fail, Inr ((sl_outcome (slot_at sc r))
        \<lparr>oc_state := StateForFailure (st_code status), oc_code := st_code status\<rparr>))"
      if "\<not> Status_ok status" "\<not> sl_terminal (slot_at sc r)"
      using that a assms(1) by (simp add: co Commit_fail_def final_outcome_def FinalizeLocked_def set_slot_def bump_def)
    have ok: "Coordinator_Commit w p st = (sc, Inr (sl_outcome (slot_at sc r)))" if "Status_ok status"
      using that assms(1) by (simp add: co final_outcome_def)
    have nc: "StateForFailure c \<noteq> AttemptState.kCommitted" for c using StateForFailure_terminal [of c] by simp
    have ans: "answered st request st' out \<longleftrightarrow>
        oc_attempt out = rq_attempt request \<and> oc_decision out = D \<and>
        (\<not> AuthorityMatches (cs_authority st) (rq_expected request) \<longrightarrow> oc_state out = AttemptState.kFenced \<and>
           oc_code out = kStaleAuthorityGeneration \<and> records st' = records st) \<and>
        (oc_state out = AttemptState.kCommitted \<longrightarrow> AuthorityMatches (cs_authority st) (rq_expected request) \<and>
           (\<exists>p \<in> records st'. i = pr_intent p \<and> pr_id p = oc_placement_id out \<and> pr_generation p = oc_placement_generation out)) \<and>
        (AuthorityMatches (cs_authority st) (rq_expected request) \<and> room_in_memory st (in_flow i) \<longrightarrow>
           oc_state out = AttemptState.kCommitted)" for st' out
      unfolding answered_def Let_def assms(4) [symmetric] using True i by auto
    consider (stale) "\<not> AuthorityMatches (cs_authority st) (rq_expected request)"
      | (committed) "AuthorityMatches (cs_authority st) (rq_expected request)" "Status_ok status" "sl_terminal (slot_at sc r)"
      | (failed) "AuthorityMatches (cs_authority st) (rq_expected request)" "\<not> sl_terminal (slot_at sc r)"
      using a by (auto split: if_splits)
    then show ?thesis
    proof cases
      case stale
      with a r assms(3) fail show ?thesis by (simp add: ans StateForFailure_def)
    next
      case committed
      with a ok show ?thesis by (auto simp: ans)
    next
      case failed
      with a ok fail r assms(3,7) nc show ?thesis by (cases "Status_ok status") (auto simp: ans)
    qed
  qed
qed

text \<open>\<^verbatim>\<open>PlaceNow\<close> for a caller alone: an admissible request is answered with the engine's decision, or refused
  by the store before anything was decided.\<close>

lemma PlaceNow_alone:
  assumes "quiet_world w" "admissible st request" "PlaceNow w request (rq_attempt request) st = (st', res)"
  shows "view st' = view st \<and> (case res of Inl _ \<Rightarrow> cs_store st \<noteq> None \<and> records st' = records st
    | Inr out \<Rightarrow> answered st request st' out)"
proof -
  obtain s1 res1 where p: "Coordinator_Prepare w request (rq_attempt request) st = (s1, res1)" by fastforce
  note a = Prepare_alone [OF assms(1,2) p]
  show ?thesis
  proof (cases res1)
    case (Inl s)
    then show ?thesis using assms(3) a p by (auto simp: PlaceNow_def)
  next
    case (Inr q)
    then obtain r where r: "at_work s1 r request" "pd_attempt q = rq_attempt request"
      "pd_decision q = Place (co_limits (cs_options st)) request"
      "oc_decision (sl_outcome (slot_at s1 r)) = Place (co_limits (cs_options st)) request"
      "oc_state (sl_outcome (slot_at s1 r)) = AttemptState.kRunning"
      using a by auto
    have v: "cs_options s1 = cs_options st" "cs_authority s1 = cs_authority st" using a by (simp_all add: view_def)
    from Commit_alone [OF assms(1) r(1,4) _ r(2,3,5)] v
    obtain s2 out where c: "Coordinator_Commit w q s1 = (s2, Inr out)" "view s2 = view s1" "answered s1 request s2 out" by auto
    have kept: "records s1 = records st" using a by blast
    have "room_in_memory st (rq_flow request) \<longrightarrow> room_in_memory s1 (rq_flow request)"
      using a by (simp add: room_in_memory_def)
    with c(3) have "answered st request s2 out" unfolding answered_def Let_def v kept by blast
    moreover have "st' = s2 \<and> res = Inr out" using assms(1,3) p Inr c(1) by (simp add: PlaceNow_def)
    ultimately show ?thesis using a c(2) by simp
  qed
qed

end
