(* ===== verification/Flow_Server.thy ===== *)
theory Flow_Server
  imports Flow_Sockets Flow_Calls
begin

text \<open>
  The coordinator server (\<^verbatim>\<open>include/flowplace/server.hpp\<close>, \<^verbatim>\<open>src/server.cpp\<close>): the handshake, the handler
  of every frame kind, the loop of one connection, the accept loop, and the client side of the handshake. The
  coordinator is the state of \<^verbatim>\<open>Flow_Coordinator\<close>; between two accesses of a handler the other threads may
  change it (\<open>wd_others\<close>). The log is left out.
\<close>

section \<open>Options and counters\<close>

record ServerOptions =
  sv_address :: string
  sv_port :: u16
  sv_store_path :: string
  sv_worker_threads :: u32
  sv_queue_capacity :: u64
  sv_max_connections :: u32
  sv_max_frame_bytes :: u32
  sv_epoch :: FabricEpoch
  sv_max_requests :: u64
  sv_ready_file :: string
  sv_log_file :: string

record ServerResult =
  sr_port :: u16
  sr_requests_served :: u64
  sr_connections :: u64
  sr_rejected_handshakes :: u64
  sr_protocol_errors :: u64
  sr_fenced_requests :: u64
  sr_committed :: u64
  sr_clean_shutdown :: bool

record ServerContext =
  sx_options :: ServerOptions
  sx_requests_served :: u64
  sx_connections :: u64
  sx_rejected_handshakes :: u64
  sx_protocol_errors :: u64
  sx_fenced_requests :: u64
  sx_committed :: u64
  sx_live_connections :: u64
  sx_stop :: bool

definition kWireProtocolVersion :: u32 where "kWireProtocolVersion = 1"
definition kProjectName :: string where "kProjectName = ''flowplace''"
definition kVersionString :: string where "kVersionString = ''1.0.0''"

section \<open>Replies\<close>

definition error_frame :: "StatusCode \<Rightarrow> AttemptId \<Rightarrow> string \<Rightarrow> u64 \<Rightarrow> Frame" where
  "error_frame code attempt message sequence =
     \<lparr>fr_kind = kError, fr_flags = 0, fr_sequence = sequence,
      fr_body = EncodeErrorPayload \<lparr>er_code = code, er_attempt = attempt, er_message = message\<rparr>\<rparr>"

definition SendError :: "(nat \<Rightarrow> SendAnswer) \<Rightarrow> TcpConnection \<Rightarrow> StatusCode \<Rightarrow> AttemptId \<Rightarrow> string \<Rightarrow> u64 \<Rightarrow> Status \<times> byte list" where
  "SendError os connection code attempt message sequence = SendFrame os (error_frame code attempt message sequence) connection"

definition result_frame :: "AttemptOutcome \<Rightarrow> u64 \<Rightarrow> Frame" where
  "result_frame outcome sequence =
     \<lparr>fr_kind = kPlaceResult, fr_flags = 0, fr_sequence = sequence,
      fr_body = EncodePlaceResult \<lparr>ps_attempt = oc_attempt outcome, ps_state = oc_state outcome, ps_code = oc_code outcome,
        ps_placement_id = oc_placement_id outcome, ps_placement_generation = oc_placement_generation outcome,
        ps_decision = oc_decision outcome\<rparr>\<rparr>"

definition SendPlaceResult :: "(nat \<Rightarrow> SendAnswer) \<Rightarrow> TcpConnection \<Rightarrow> AttemptOutcome \<Rightarrow> u64 \<Rightarrow> Status \<times> byte list" where
  "SendPlaceResult os connection outcome sequence = SendFrame os (result_frame outcome sequence) connection"

section \<open>The thread of one connection\<close>

text \<open>Where the thread is: before the first frame, at the test of \<^verbatim>\<open>stop\<close>, in the receive of the loop, at the
  test of \<^verbatim>\<open>max_requests\<close>, returned from \<^verbatim>\<open>ServeConnection\<close>, and after the guard released its place.\<close>

datatype Phase = Handshaking | Testing | Receiving | Checking | Returned | Released

text \<open>A connection with its thread. \<open>ck_replies\<close> records the frames handed to \<^verbatim>\<open>SendFrame\<close>, \<open>ck_bytes\<close> what
  reached the socket.\<close>

record Conn =
  ck_connection :: TcpConnection
  ck_sequence :: u64
  ck_phase :: Phase
  ck_done :: bool
  ck_replies :: "Frame list"
  ck_bytes :: "byte list"

text \<open>Hands a frame to \<^verbatim>\<open>SendFrame\<close> and goes on at the phase chosen by the status.\<close>

definition reply :: "(nat \<Rightarrow> SendAnswer) \<Rightarrow> Frame \<Rightarrow> (Status \<Rightarrow> Phase) \<Rightarrow> Conn \<Rightarrow> Conn" where
  "reply os frame next_phase k =
     (case SendFrame os frame (ck_connection k) of (status, bytes) \<Rightarrow>
        k\<lparr>ck_sequence := fr_sequence frame, ck_phase := next_phase status, ck_replies := ck_replies k @ [frame],
          ck_bytes := ck_bytes k @ bytes\<rparr>)"

definition reply_error :: "(nat \<Rightarrow> SendAnswer) \<Rightarrow> StatusCode \<Rightarrow> AttemptId \<Rightarrow> string \<Rightarrow> Phase \<Rightarrow> Conn \<Rightarrow> Conn" where
  "reply_error os code attempt message phase k =
     reply os (error_frame code attempt message (ck_sequence k + 1)) (\<lambda>_. phase) k"

text \<open>Replies whose failure to send ends the connection.\<close>

definition reply_or_return :: "(nat \<Rightarrow> SendAnswer) \<Rightarrow> FrameKind \<Rightarrow> byte list \<Rightarrow> Conn \<Rightarrow> Conn" where
  "reply_or_return os kind body k =
     reply os \<lparr>fr_kind = kind, fr_flags = 0, fr_sequence = ck_sequence k + 1, fr_body = body\<rparr>
       (\<lambda>status. if Status_ok status then Testing else Returned) k"

subsection \<open>The handshake\<close>

definition hello_ack :: "HelloPayload \<Rightarrow> ServerOptions \<Rightarrow> CoordinatorState \<Rightarrow> HelloAckPayload" where
  "hello_ack hello options st =
     (let ack = \<lparr>ha_protocol_version = kWireProtocolVersion, ha_coordinator = cs_incarnation st, ha_epoch = cs_epoch st,
            ha_max_frame_bytes = min (he_max_frame_bytes hello) (sv_max_frame_bytes options),
            ha_worker_limit = sv_max_connections options, ha_build = kProjectName @ '' '' @ kVersionString,
            ha_accepted = True, ha_code = kOk, ha_message = []\<rparr> in
      if he_protocol_version hello \<noteq> kWireProtocolVersion
      then ack\<lparr>ha_accepted := False, ha_code := kProtocolMismatch, ha_message := ''wire protocol version mismatch''\<rparr>
      else if he_epoch hello \<noteq> ha_epoch ack
      then ack\<lparr>ha_accepted := False, ha_code := kStaleFabricEpoch, ha_message := ''worker epoch is not the coordinator epoch''\<rparr>
      else ack)"

definition handshake_counters :: "HelloPayload \<Rightarrow> CoordinatorState \<Rightarrow> ServerContext \<Rightarrow> ServerContext" where
  "handshake_counters hello st context =
     (if he_protocol_version hello \<noteq> kWireProtocolVersion
      then context\<lparr>sx_rejected_handshakes := sx_rejected_handshakes context + 1\<rparr>
      else if he_epoch hello \<noteq> cs_epoch st
      then context\<lparr>sx_rejected_handshakes := sx_rejected_handshakes context + 1,
                   sx_fenced_requests := sx_fenced_requests context + 1\<rparr>
      else context)"

text \<open>From the result of the first receive; the phase is \<open>Testing\<close> exactly when the connection is served.\<close>

definition ServeConnection_handshake ::
  "(nat \<Rightarrow> SendAnswer) \<Rightarrow> CoordinatorState \<Rightarrow> Frame Result \<Rightarrow> ServerContext \<Rightarrow> Conn \<Rightarrow> ServerContext \<times> Conn" where
  "ServeConnection_handshake os st first context k = (case first of
     Inl _ \<Rightarrow> (context\<lparr>sx_rejected_handshakes := sx_rejected_handshakes context + 1\<rparr>, k\<lparr>ck_phase := Returned\<rparr>)
   | Inr frame \<Rightarrow>
       if fr_kind frame \<noteq> kHello
       then (context\<lparr>sx_protocol_errors := sx_protocol_errors context + 1\<rparr>,
             reply_error os kWireMalformed 0 ''first frame must be HELLO'' Returned k)
       else case DecodeHello (fr_body frame) of
         Inl status \<Rightarrow> (context\<lparr>sx_protocol_errors := sx_protocol_errors context + 1\<rparr>,
                         reply_error os (st_code status) 0 (st_message status) Returned k)
       | Inr hello \<Rightarrow>
           let ack = hello_ack hello (sx_options context) st;
               k = k\<lparr>ck_connection := Connection_SetMaxFrameBytes (ha_max_frame_bytes ack) (ck_connection k)\<rparr>;
               context = handshake_counters hello st context;
               k = reply os \<lparr>fr_kind = kHelloAck, fr_flags = 0, fr_sequence = ck_sequence k + 1, fr_body = EncodeHelloAck ack\<rparr>
                     (\<lambda>status. if Status_ok status \<and> ha_accepted ack then Testing else Returned) k
           in (if ck_phase k = Testing then context\<lparr>sx_connections := sx_connections context + 1\<rparr> else context, k))"

subsection \<open>The handlers\<close>

definition HandlePlaceRequest ::
  "World \<Rightarrow> (nat \<Rightarrow> SendAnswer) \<Rightarrow> byte list \<Rightarrow> ServerContext \<Rightarrow> CoordinatorState \<Rightarrow> Conn \<Rightarrow> ServerContext \<times> CoordinatorState \<times> Conn" where
  "HandlePlaceRequest w os body context st k =
     (case DecodePlaceRequest body (co_limits (cs_options st)) of
        Inl status \<Rightarrow> (context\<lparr>sx_protocol_errors := sx_protocol_errors context + 1\<rparr>, st,
                        reply_error os (st_code status) 0 (st_message status) Returned k)
      | Inr payload \<Rightarrow>
          let st = wd_others w 20 st in
          if pq_epoch payload \<noteq> cs_epoch st
          then (context\<lparr>sx_fenced_requests := sx_fenced_requests context + 1\<rparr>, st,
                reply_error os kFencedStaleEpoch (pq_attempt payload)
                  ''request is bound to a superseded fabric epoch'' Testing k)
          else
            let request = pq_request payload;
                request = (if rq_attempt request = 0 then request\<lparr>rq_attempt := pq_attempt payload\<rparr> else request) in
            case PlaceNow w request (pq_attempt payload) (wd_others w 21 st) of
              (st, Inl status) \<Rightarrow> (context, st, reply_error os (st_code status) (pq_attempt payload) (st_message status) Testing k)
            | (st, Inr outcome) \<Rightarrow>
                let context = (if oc_state outcome = AttemptState.kCommitted
                               then context\<lparr>sx_committed := sx_committed context + 1\<rparr> else context);
                    k = reply os (result_frame outcome (ck_sequence k + 1))
                          (\<lambda>status. if Status_ok status then Checking else Returned) k
                in (context\<lparr>sx_requests_served := sx_requests_served context + 1\<rparr>, st, k))"

definition HandleSetEpoch ::
  "World \<Rightarrow> (nat \<Rightarrow> SendAnswer) \<Rightarrow> byte list \<Rightarrow> ServerContext \<Rightarrow> CoordinatorState \<Rightarrow> Conn \<Rightarrow> ServerContext \<times> CoordinatorState \<times> Conn" where
  "HandleSetEpoch w os body context st k =
     (case DecodeEpochPayload body of
        Inl status \<Rightarrow> (context\<lparr>sx_protocol_errors := sx_protocol_errors context + 1\<rparr>, st,
                        reply_error os (st_code status) 0 (st_message status) Returned k)
      | Inr payload \<Rightarrow>
          let authority = cs_authority st;
              st = wd_others w 22 st;
              previous = cs_epoch st in
          case SetAuthority (authority\<lparr>ex_fabric_epoch := ey_epoch payload\<rparr>) (wd_others w 23 st) of (st, status) \<Rightarrow>
            let st = wd_others w 24 st;
                answer = \<lparr>ey_epoch = cs_epoch st, ey_previous_epoch = previous,
                  ey_code = (if Status_ok status then kOk else st_code status),
                  ey_message = (if Status_ok status then ''epoch updated'' else st_message status)\<rparr>
            in (context, st, reply_or_return os kEpochAck (EncodeEpochPayload answer) k))"

definition stats_values :: "CoordinatorStats \<Rightarrow> u64 list" where
  "stats_values s = [cn_submitted s, cn_accepted s, cn_duplicate_replays s, cn_duplicate_conflicts s,
     cn_rejected_queue_full s, cn_rejected_shutting_down s, cn_placed s, cn_rejected s, cn_cancelled s, cn_fenced s,
     cn_failed s, cn_queued s, cn_active s, cn_completed s]"

definition HandleShutdown :: "(nat \<Rightarrow> SendAnswer) \<Rightarrow> ServerContext \<Rightarrow> CoordinatorState \<Rightarrow> Conn \<Rightarrow> ServerContext \<times> Conn" where
  "HandleShutdown os context st k =
     (context\<lparr>sx_stop := True\<rparr>,
      reply os \<lparr>fr_kind = kShutdownAck, fr_flags = 0, fr_sequence = ck_sequence k + 1,
        fr_body = EncodeEpochPayload \<lparr>ey_epoch = cs_epoch st, ey_previous_epoch = cs_epoch st, ey_code = kOk,
          ey_message = ''shutting down''\<rparr>\<rparr> (\<lambda>_. Returned) k)"

text \<open>The dispatch on the kind of a received frame.\<close>

definition HandleFrame ::
  "World \<Rightarrow> (nat \<Rightarrow> SendAnswer) \<Rightarrow> Frame \<Rightarrow> ServerContext \<Rightarrow> CoordinatorState \<Rightarrow> Conn \<Rightarrow> ServerContext \<times> CoordinatorState \<times> Conn" where
  "HandleFrame w os frame context st k =
     (case fr_kind frame of
        kPlaceRequest \<Rightarrow> HandlePlaceRequest w os (fr_body frame) context st k
      | kSetEpoch \<Rightarrow> HandleSetEpoch w os (fr_body frame) context st k
      | kRecoveryQuery \<Rightarrow>
          (context, st, reply_or_return os kRecoveryReport (EncodeRecoveryReport (Coordinator_recovery st)) k)
      | kStatsQuery \<Rightarrow>
          (context, st, reply_or_return os kStatsReport (WriteU64s (stats_values (Coordinator_stats st))) k)
      | kShutdown \<Rightarrow> (case HandleShutdown os context st k of (context, k) \<Rightarrow> (context, st, k))
      | _ \<Rightarrow> (context\<lparr>sx_protocol_errors := sx_protocol_errors context + 1\<rparr>, st,
              reply_error os kWireMalformed 0 ''unexpected frame kind from worker'' Returned k))"

text \<open>The next section of the thread; \<open>None\<close> while it is blocked in \<^verbatim>\<open>recv\<close> or has nothing left to do. The last
  component is what the socket still has to give.\<close>

definition ServeConnection_next ::
  "World \<Rightarrow> (nat \<Rightarrow> SendAnswer) \<Rightarrow> RecvAnswer list \<Rightarrow> ServerContext \<Rightarrow> CoordinatorState \<Rightarrow> Conn \<Rightarrow>
   (ServerContext \<times> CoordinatorState \<times> Conn \<times> RecvAnswer list) option" where
  "ServeConnection_next w os answers context st k = (case ck_phase k of
     Handshaking \<Rightarrow>
       (case ReceiveFrame answers (ck_connection k) of
          None \<Rightarrow> None
        | Some (first, connection, rest) \<Rightarrow>
            (case ServeConnection_handshake os st first context (k\<lparr>ck_connection := connection\<rparr>) of
               (context, k) \<Rightarrow> Some (context, st, k, rest)))
   | Testing \<Rightarrow> Some (context, st, k\<lparr>ck_phase := (if sx_stop context then Returned else Receiving)\<rparr>, answers)
   | Receiving \<Rightarrow>
       (case ReceiveFrame answers (ck_connection k) of
          None \<Rightarrow> None
        | Some (Inl _, connection, rest) \<Rightarrow> Some (context, st, k\<lparr>ck_connection := connection, ck_phase := Returned\<rparr>, rest)
        | Some (Inr frame, connection, rest) \<Rightarrow>
            (case HandleFrame w os frame context st (k\<lparr>ck_connection := connection\<rparr>) of
               (context, st, k) \<Rightarrow> Some (context, st, k, rest)))
   | Checking \<Rightarrow>
       (if sv_max_requests (sx_options context) \<noteq> 0 \<and> sv_max_requests (sx_options context) \<le> sx_requests_served context
        then Some (context\<lparr>sx_stop := True\<rparr>, st, k\<lparr>ck_phase := Returned\<rparr>, answers)
        else Some (context, st, k\<lparr>ck_phase := Testing\<rparr>, answers))
   | Returned \<Rightarrow>
       Some (context\<lparr>sx_live_connections := sx_live_connections context - 1\<rparr>, st, k\<lparr>ck_phase := Released\<rparr>, answers)
   | Released \<Rightarrow> (if ck_done k then None else Some (context, st, k\<lparr>ck_done := True\<rparr>, answers)))"

section \<open>The accept loop\<close>

record Server =
  sm_context :: ServerContext
  sm_coordinator :: CoordinatorState
  sm_listener :: TcpListener
  sm_entries :: "Conn list"
  sm_accepting :: bool

definition default_CoordinatorOptions :: CoordinatorOptions where
  "default_CoordinatorOptions = \<lparr>co_limits = default_Limits, co_store = default_StoreOptions, co_store_path = [],
     co_worker_threads = 4, co_queue_capacity = 1024, co_max_retained_attempts = 4096, co_initial_epoch = 1,
     co_incarnation = 0, co_seed = 0\<rparr>"

definition new_context :: "ServerOptions \<Rightarrow> ServerContext" where
  "new_context options = \<lparr>sx_options = options, sx_requests_served = 0, sx_connections = 0, sx_rejected_handshakes = 0,
     sx_protocol_errors = 0, sx_fenced_requests = 0, sx_committed = 0, sx_live_connections = 0, sx_stop = False\<rparr>"

text \<open>\<^verbatim>\<open>RunServer\<close> up to its loop: \<open>ready\<close> tells whether the announcement file could be created.\<close>

definition RunServer_start :: "BindIo \<Rightarrow> OpenIo \<Rightarrow> Disk \<Rightarrow> IncarnationId \<Rightarrow> bool \<Rightarrow> ServerOptions \<Rightarrow> Server Result" where
  "RunServer_start bio oio disk allocated ready options =
     (if bi_init_result bio \<noteq> 0 then Inl (mk_Status kSocketError ''socket subsystem initialization failed'')
      else bindR (Bind bio) (\<lambda>listener.
        bindR (Start oio disk allocated (default_CoordinatorOptions\<lparr>co_store_path := sv_store_path options,
                 co_worker_threads := sv_worker_threads options, co_queue_capacity := sv_queue_capacity options,
                 co_initial_epoch := sv_epoch options\<rparr>)) (\<lambda>coordinator.
        if sv_ready_file options \<noteq> [] \<and> \<not> ready
        then Inl (mk_Status kIoError (''cannot create ready file '' @ sv_ready_file options))
        else Inr \<lparr>sm_context = new_context options, sm_coordinator = coordinator, sm_listener = listener,
                  sm_entries = [], sm_accepting = True\<rparr>)))"

definition new_conn :: "TcpConnection \<Rightarrow> Conn" where
  "new_conn connection = \<lparr>ck_connection = connection, ck_sequence = 0, ck_phase = Handshaking, ck_done = False,
     ck_replies = [], ck_bytes = []\<rparr>"

text \<open>What \<^verbatim>\<open>select\<close> and \<^verbatim>\<open>accept\<close> answer in one iteration.\<close>

record AcceptIo =
  ao_select :: int
  ao_accept :: int
  ao_error :: string

text \<open>One iteration of the loop: reap, wait, accept, and refuse or admit. The reply to a refused connection is the
  second component.\<close>

definition RunServer_iteration :: "AcceptIo \<Rightarrow> (nat \<Rightarrow> SendAnswer) \<Rightarrow> Server \<Rightarrow> Server \<times> byte list" where
  "RunServer_iteration io os s =
     (let context = sm_context s in
      if sx_stop context then (s\<lparr>sm_accepting := False\<rparr>, [])
      else
        let s = s\<lparr>sm_entries := filter (\<lambda>k. \<not> ck_done k) (sm_entries s)\<rparr> in
        case WaitReadable (ao_select io) (ao_error io) (sm_listener s) of
          Inl _ \<Rightarrow> (s\<lparr>sm_accepting := False\<rparr>, [])
        | Inr readable \<Rightarrow>
            if \<not> readable then (s, [])
            else case Accept (ao_accept io) (ao_error io) (sm_listener s) of
              Inl _ \<Rightarrow> (s\<lparr>sm_accepting := False\<rparr>, [])
            | Inr connection \<Rightarrow>
                if sx_live_connections context \<ge> ucast (sv_max_connections (sx_options context))
                then (s\<lparr>sm_context := context\<lparr>sx_rejected_handshakes := sx_rejected_handshakes context + 1\<rparr>\<rparr>,
                      snd (SendError os connection kWorkerLimitExceeded 0 ''connection limit reached'' 1))
                else (s\<lparr>sm_context := context\<lparr>sx_live_connections := sx_live_connections context + 1\<rparr>,
                        sm_entries := sm_entries s @ [new_conn (fst (Connection_move connection))]\<rparr>, []))"

section \<open>Stopping\<close>

text \<open>\<^verbatim>\<open>Shutdown\<close> of the coordinator for a caller that owns the teardown.\<close>

definition Coordinator_Shutdown :: "World \<Rightarrow> CoordinatorState \<Rightarrow> CoordinatorState \<times> Status" where
  "Coordinator_Shutdown w st = (case Shutdown_begin False st of
     None \<Rightarrow> (wd_others w 25 st, Status_Ok)
   | Some (st, cancelled) \<Rightarrow>
       let st = fold (\<lambda>(i, attempt) st. case omap_get (cs_slots st) attempt of
                   None \<Rightarrow> st
                 | Some r \<Rightarrow> JournalTerminal (wd_env w i) r AttemptPhase.kCancelled StatusCode.kShuttingDown st)
                 (enumerate 30 cancelled) (wd_others w 26 st);
           st = Shutdown_stop (wd_others w 27 st);
           env = wd_env w 28
       in Shutdown_close (ai_sync (ev_io env)) (ai_write_ok (ev_io env)) (wd_others w 28 st))"

text \<open>After the loop: every open connection is closed.\<close>

definition RunServer_interrupt :: "Server \<Rightarrow> Server" where
  "RunServer_interrupt s = s\<lparr>sm_context := (sm_context s)\<lparr>sx_stop := True\<rparr>,
     sm_entries := map (\<lambda>k. k\<lparr>ck_connection := fst (Connection_Close (ck_connection k))\<rparr>) (sm_entries s)\<rparr>"

text \<open>When all threads are joined: the result. \<open>None\<close> while a thread is still running.\<close>

definition RunServer_finish :: "World \<Rightarrow> Server \<Rightarrow> (Server \<times> ServerResult Result) option" where
  "RunServer_finish w s =
     (if \<not> list_all ck_done (sm_entries s) then None
      else
        let context = sm_context s; port = tl_port (sm_listener s) in
        case Coordinator_Shutdown w (sm_coordinator s) of (st, shutdown) \<Rightarrow>
          Some (s\<lparr>sm_entries := [], sm_listener := fst (Listener_Close (sm_listener s)), sm_coordinator := st\<rparr>,
            if \<not> Status_ok shutdown then Inl shutdown
            else Inr \<lparr>sr_port = port, sr_requests_served = sx_requests_served context, sr_connections = sx_connections context,
                   sr_rejected_handshakes = sx_rejected_handshakes context, sr_protocol_errors = sx_protocol_errors context,
                   sr_fenced_requests = sx_fenced_requests context, sr_committed = sx_committed context,
                   sr_clean_shutdown = Status_ok shutdown\<rparr>))"

section \<open>Runs of the server\<close>

text \<open>The main thread iterates until it stops accepting, then interrupts the connections; every connection thread
  runs its next section at any time; the coordinator may change through its own threads.\<close>

inductive serve :: "Server \<Rightarrow> Server \<Rightarrow> bool" where
  main: "sm_accepting s \<Longrightarrow> serve s (fst (RunServer_iteration io os s))"
| interrupt: "\<not> sm_accepting s \<Longrightarrow> serve s (RunServer_interrupt s)"
| thread: "sm_entries s = before @ k # after \<Longrightarrow>
    ServeConnection_next w os answers (sm_context s) (sm_coordinator s) k = Some (context, st, k', rest) \<Longrightarrow>
    serve s (s\<lparr>sm_context := context, sm_coordinator := st, sm_entries := before @ k' # after\<rparr>)"
| coordinator: "serve s (s\<lparr>sm_coordinator := st\<rparr>)"

inductive served :: "Server \<Rightarrow> bool" where
  start: "RunServer_start bio oio disk allocated ready options = Inr s \<Longrightarrow> served s"
| step: "served s \<Longrightarrow> serve s s' \<Longrightarrow> served s'"

section \<open>The client side\<close>

record WorkerOptions =
  wo_address :: string
  wo_port :: u16
  wo_epoch :: FabricEpoch
  wo_worker :: WorkerId
  wo_max_frame_bytes :: u32
  wo_connect_attempts :: u64
  wo_connect_retry_millis :: u64

record WorkerResult =
  wr_handshake_accepted :: bool
  wr_handshake_code :: StatusCode
  wr_handshake_message :: string
  wr_coordinator :: IncarnationId
  wr_coordinator_epoch :: FabricEpoch
  wr_placements_committed :: u64
  wr_placements_rejected :: u64
  wr_responses_fenced :: u64
  wr_responses_other :: u64

definition default_WorkerResult :: WorkerResult where
  "default_WorkerResult = \<lparr>wr_handshake_accepted = False, wr_handshake_code = kOk, wr_handshake_message = [],
     wr_coordinator = 0, wr_coordinator_epoch = 0, wr_placements_committed = 0, wr_placements_rejected = 0,
     wr_responses_fenced = 0, wr_responses_other = 0\<rparr>"

text \<open>The bounded attempts to connect; the connection stays closed when none succeeds.\<close>

fun connect_loop :: "(nat \<Rightarrow> ConnectIo) \<Rightarrow> u32 \<Rightarrow> nat \<Rightarrow> nat \<Rightarrow> Status \<Rightarrow> TcpConnection \<times> Status" where
  "connect_loop ios max_frame_bytes 0 k last_status = (default_TcpConnection, last_status)"
| "connect_loop ios max_frame_bytes (Suc n) k last_status = (case Connect (ios k) max_frame_bytes of
     Inr candidate \<Rightarrow> (fst (Connection_assign default_TcpConnection candidate), last_status)
   | Inl status \<Rightarrow> connect_loop ios max_frame_bytes n (k + 1) status)"

definition hello_of :: "u64 \<Rightarrow> WorkerOptions \<Rightarrow> HelloPayload" where
  "hello_of process_id options = \<lparr>he_protocol_version = kWireProtocolVersion, he_incarnation = process_id,
     he_epoch = wo_epoch options, he_worker = wo_worker options, he_max_frame_bytes = wo_max_frame_bytes options,
     he_build = kProjectName @ '' '' @ kVersionString\<rparr>"

definition worker_hello :: "u64 \<Rightarrow> WorkerOptions \<Rightarrow> Frame" where
  "worker_hello process_id options =
     \<lparr>fr_kind = kHello, fr_flags = 0, fr_sequence = 1, fr_body = EncodeHello (hello_of process_id options)\<rparr>"

text \<open>The end of \<^verbatim>\<open>ConnectWorker\<close>, from the reply to the hello. The connection is returned by value, so its
  stream is a fresh one.\<close>

definition ConnectWorker_reply :: "WorkerOptions \<Rightarrow> Frame \<Rightarrow> TcpConnection \<Rightarrow> TcpConnection Result \<times> WorkerResult" where
  "ConnectWorker_reply options frame connection =
     (if fr_kind frame \<noteq> kHelloAck then (Inl (mk_Status kWireMalformed ''expected HELLO_ACK''), default_WorkerResult)
      else case DecodeHelloAck (fr_body frame) of
        Inl status \<Rightarrow> (Inl status, default_WorkerResult)
      | Inr ack \<Rightarrow>
          let out = default_WorkerResult\<lparr>wr_handshake_accepted := ha_accepted ack, wr_handshake_code := ha_code ack,
                wr_handshake_message := ha_message ack, wr_coordinator := ha_coordinator ack,
                wr_coordinator_epoch := ha_epoch ack\<rparr>;
              connection = Connection_SetMaxFrameBytes (min (wo_max_frame_bytes options) (ha_max_frame_bytes ack)) connection in
          if \<not> ha_accepted ack
          then (Inl (mk_Status (if ha_code ack = kOk then kProtocolMismatch else ha_code ack)
                       (if ha_message ack = [] then ''handshake rejected'' else ha_message ack)), out)
          else (Inr (fst (Connection_move connection)), out))"

text \<open>\<open>None\<close> while the reply has not arrived; the last component is what was sent.\<close>

definition ConnectWorker ::
  "(nat \<Rightarrow> ConnectIo) \<Rightarrow> u64 \<Rightarrow> (nat \<Rightarrow> SendAnswer) \<Rightarrow> RecvAnswer list \<Rightarrow> WorkerOptions \<Rightarrow>
   (TcpConnection Result \<times> WorkerResult \<times> byte list) option" where
  "ConnectWorker ios process_id os answers options =
     (case connect_loop ios (wo_max_frame_bytes options) (unat (max 1 (wo_connect_attempts options))) 0
             (mk_Status kIoError ''connect was not attempted'') of (connection, last_status) \<Rightarrow>
        if \<not> Connection_valid connection then Some (Inl last_status, default_WorkerResult, [])
        else case SendFrame os (worker_hello process_id options) connection of (sent, bytes) \<Rightarrow>
          if \<not> Status_ok sent then Some (Inl sent, default_WorkerResult, bytes)
          else case ReceiveFrame answers connection of
            None \<Rightarrow> None
          | Some (Inl status, _, _) \<Rightarrow> Some (Inl status, default_WorkerResult, bytes)
          | Some (Inr frame, connection, _) \<Rightarrow>
              (case ConnectWorker_reply options frame connection of (result, out) \<Rightarrow> Some (result, out, bytes)))"

end
