(* ===== verification/Flow_Sessions.thy ===== *)
theory Flow_Sessions
  imports Flow_Server
begin

text \<open>
  What holds in every run of the server: the replies of a connection are numbered in order, nothing is served
  before an accepted handshake, and the connections in service never exceed the limit.
\<close>

section \<open>One connection\<close>

text \<open>A greeting the server accepted.\<close>

definition greeting :: "Frame \<Rightarrow> bool" where
  "greeting f \<longleftrightarrow> (\<exists>ack. fr_kind f = kHelloAck \<and> fr_body f = EncodeHelloAck ack \<and> ha_accepted ack \<and>
     ha_protocol_version ack = kWireProtocolVersion)"

definition numbered :: "Frame list \<Rightarrow> bool" where
  "numbered fs \<longleftrightarrow> map fr_sequence fs = map word_of_nat [1 ..< Suc (length fs)]"

definition conn_ok :: "Conn \<Rightarrow> bool" where
  "conn_ok k \<longleftrightarrow> numbered (ck_replies k) \<and> ck_sequence k = word_of_nat (length (ck_replies k)) \<and>
     (ck_phase k = Handshaking \<longrightarrow> ck_replies k = []) \<and>
     (ck_phase k \<in> {Testing, Receiving, Checking} \<or> 1 < length (ck_replies k) \<longrightarrow>
        ck_replies k \<noteq> [] \<and> greeting (hd (ck_replies k))) \<and>
     (ck_replies k \<noteq> [] \<longrightarrow> fr_kind (hd (ck_replies k)) \<in> {kHelloAck, kError}) \<and>
     (ck_done k \<longrightarrow> ck_phase k = Released)"

lemma numbered_Nil [simp]: "numbered []"
  by (simp add: numbered_def)

lemma numbered_snoc: "numbered (fs @ [f]) \<longleftrightarrow> numbered fs \<and> fr_sequence f = word_of_nat (length fs) + 1"
  by (auto simp: numbered_def add.commute)

lemma reply_fields [simp]:
  "ck_replies (reply os f p k) = ck_replies k @ [f]" "ck_sequence (reply os f p k) = fr_sequence f"
  "ck_done (reply os f p k) = ck_done k" "ck_connection (reply os f p k) = ck_connection k"
  "ck_phase (reply os f p k) = p (fst (SendFrame os f (ck_connection k)))"
  "ck_bytes (reply os f p k) = ck_bytes k @ snd (SendFrame os f (ck_connection k))"
  by (simp_all add: reply_def split: prod.split)

text \<open>A reply inside the loop keeps the invariant.\<close>

lemma conn_ok_reply:
  assumes "conn_ok k" "ck_phase k = Receiving" "fr_sequence f = ck_sequence k + 1" "\<And>s. p s \<noteq> Handshaking"
  shows "conn_ok (reply os f p k)"
  using assms by (auto simp: conn_ok_def numbered_snoc)

text \<open>A handler answers a frame with one reply, under the next number, and leaves the connection count alone.\<close>

definition replied :: "(nat \<Rightarrow> SendAnswer) \<Rightarrow> Conn \<Rightarrow> Conn \<Rightarrow> bool" where
  "replied os k k' \<longleftrightarrow> (\<exists>f p. k' = reply os f p k \<and> fr_sequence f = ck_sequence k + 1 \<and>
     (\<forall>s. p s \<in> {Testing, Checking, Returned}))"

lemma repliedI: "fr_sequence f = ck_sequence k + 1 \<Longrightarrow> (\<And>s. p s \<in> {Testing, Checking, Returned}) \<Longrightarrow> replied os k (reply os f p k)"
  by (auto simp: replied_def)

lemma replied_error: "p \<in> {Testing, Checking, Returned} \<Longrightarrow> replied os k (reply_error os c a m p k)"
  by (auto simp: reply_error_def error_frame_def intro!: repliedI)

lemma replied_or_return: "replied os k (reply_or_return os kind body k)"
  by (auto simp: reply_or_return_def intro!: repliedI)

lemma replied_result: "replied os k (reply os (result_frame out (ck_sequence k + 1)) (\<lambda>s. if Status_ok s then Checking else Returned) k)"
  by (auto simp: result_frame_def intro!: repliedI)

lemmas replied_intros = replied_error replied_or_return replied_result

definition admits :: "ServerContext \<Rightarrow> ServerContext \<Rightarrow> bool" where
  "admits context context' \<longleftrightarrow> sx_options context' = sx_options context \<and>
     sx_live_connections context' = sx_live_connections context"

lemma HandlePlaceRequest_replied:
  "replied os k (snd (snd (HandlePlaceRequest w os body context st k))) \<and>
   admits context (fst (HandlePlaceRequest w os body context st k))"
  by (simp add: HandlePlaceRequest_def Let_def replied_intros admits_def split: sum.split prod.split)

lemma HandleFrame_replied:
  assumes "HandleFrame w os frame context st k = (context', st', k')"
  shows "replied os k k' \<and> admits context context'"
proof -
  have "replied os k (snd (snd (HandleFrame w os frame context st k))) \<and>
      admits context (fst (HandleFrame w os frame context st k))"
    using HandlePlaceRequest_replied [of os k w "fr_body frame" "context" st]
    by (cases "fr_kind frame")
      (simp_all add: HandleFrame_def HandleSetEpoch_def HandleShutdown_def Let_def replied_intros admits_def repliedI
        split: sum.split prod.split)
  then show ?thesis by (simp add: assms)
qed

lemma handshake_ok:
  assumes "conn_ok k" "ck_phase k = Handshaking" "ServeConnection_handshake os st first context k = (context', k')"
  shows "conn_ok k' \<and> admits context context' \<and> ck_phase k' \<in> {Testing, Returned}"
proof -
  have k: "ck_replies k = []" "ck_sequence k = 0" "\<not> ck_done k" using assms(1,2) by (auto simp: conn_ok_def)
  have e: "conn_ok (reply_error os c a m Returned k)" for c a m
    using k by (simp add: conn_ok_def reply_error_def error_frame_def numbered_def)
  show ?thesis
  proof (cases first)
    case (Inl status)
    then show ?thesis using assms(3) k by (auto simp: ServeConnection_handshake_def conn_ok_def admits_def)
  next
    case (Inr frame)
    show ?thesis
    proof (cases "fr_kind frame = kHello \<and> (\<exists>hello. DecodeHello (fr_body frame) = Inr hello)")
      case False
      then show ?thesis using assms(3) Inr e
        by (auto simp: ServeConnection_handshake_def admits_def reply_error_def split: sum.splits if_splits)
    next
      case True
      then obtain hello where h: "fr_kind frame = kHello" "DecodeHello (fr_body frame) = Inr hello" by blast
      let ?ack = "hello_ack hello (sx_options context) st"
      let ?f = "\<lparr>fr_kind = kHelloAck, fr_flags = 0, fr_sequence = ck_sequence k + 1, fr_body = EncodeHelloAck ?ack\<rparr>"
      let ?k = "k\<lparr>ck_connection := Connection_SetMaxFrameBytes (ha_max_frame_bytes ?ack) (ck_connection k)\<rparr>"
      have k': "k' = reply os ?f (\<lambda>status. if Status_ok status \<and> ha_accepted ?ack then Testing else Returned) ?k"
        using assms(3) Inr h by (simp add: ServeConnection_handshake_def Let_def)
      have "ha_protocol_version ?ack = kWireProtocolVersion" by (simp add: hello_ack_def Let_def)
      then have "greeting ?f" if "ha_accepted ?ack" using that unfolding greeting_def by (intro exI [of _ ?ack]) simp
      then have "conn_ok k'" unfolding k' using k by (simp add: conn_ok_def numbered_def)
      moreover have "admits context context'"
        using assms(3) Inr h by (auto simp: ServeConnection_handshake_def Let_def admits_def handshake_counters_def split: if_splits)
      ultimately show ?thesis by (simp add: k')
    qed
  qed
qed

lemma next_ok:
  assumes "conn_ok k" "ServeConnection_next w os answers context st k = Some (context', st', k', rest)"
  shows "conn_ok k' \<and> sx_options context' = sx_options context \<and>
    sx_live_connections context' = (if ck_phase k = Returned then sx_live_connections context - 1 else sx_live_connections context) \<and>
    (ck_phase k' = Released \<longleftrightarrow> ck_phase k \<in> {Returned, Released})"
proof -
  have d: "ck_done k \<longrightarrow> ck_phase k = Released" using assms(1) by (simp add: conn_ok_def)
  have conn: "conn_ok (k\<lparr>ck_connection := c\<rparr>)" for c using assms(1) by (simp add: conn_ok_def)
  show ?thesis
  proof (cases "ck_phase k")
    case Handshaking
    then obtain first c r where "ServeConnection_handshake os st first context (k\<lparr>ck_connection := c\<rparr>) = (context', k')"
      using assms(2) by (auto simp: ServeConnection_next_def split: option.splits prod.splits)
    from handshake_ok [OF conn _ this] Handshaking show ?thesis by (auto simp: admits_def)
  next
    case Testing
    then show ?thesis using assms by (auto simp: ServeConnection_next_def conn_ok_def split: if_splits)
  next
    case Receiving
    then consider c where "k' = k\<lparr>ck_connection := c, ck_phase := Returned\<rparr>" "context' = context"
      | frame c where "HandleFrame w os frame context st (k\<lparr>ck_connection := c\<rparr>) = (context', st', k')"
      using assms(2) by (auto simp: ServeConnection_next_def split: option.splits prod.splits sum.splits)
    then show ?thesis
    proof cases
      case 1
      then show ?thesis using assms(1) Receiving d by (auto simp: conn_ok_def)
    next
      case 2
      then obtain f p where f: "k' = reply os f p (k\<lparr>ck_connection := c\<rparr>)" "fr_sequence f = ck_sequence k + 1"
        "\<forall>s. p s \<in> {Testing, Checking, Returned}" "admits context context'"
        using HandleFrame_replied [OF 2] by (auto simp: replied_def)
      have "\<And>s. p s \<noteq> Handshaking" using f(3) by (metis Phase.distinct insert_iff singletonD)
      then have "conn_ok k'" using conn_ok_reply [OF conn, of c f p os] Receiving f(1,2) by simp
      moreover have "ck_phase k' \<noteq> Released" using f(1) spec [OF f(3)] by (metis Phase.distinct insert_iff reply_fields(5) singletonD)
      ultimately show ?thesis using f(4) Receiving by (simp add: admits_def)
    qed
  next
    case Checking
    then show ?thesis using assms by (auto simp: ServeConnection_next_def conn_ok_def split: if_splits)
  next
    case Returned
    then show ?thesis using assms by (auto simp: ServeConnection_next_def conn_ok_def)
  next
    case Released
    then show ?thesis using assms by (auto simp: ServeConnection_next_def conn_ok_def split: if_splits)
  qed
qed

section \<open>All connections\<close>

abbreviation holds_place :: "Conn \<Rightarrow> bool" where
  "holds_place k \<equiv> ck_phase k \<noteq> Released"

definition server_ok :: "Server \<Rightarrow> bool" where
  "server_ok s \<longleftrightarrow> (\<forall>k \<in> set (sm_entries s). conn_ok k) \<and>
     unat (sx_live_connections (sm_context s)) = length (filter holds_place (sm_entries s)) \<and>
     length (filter holds_place (sm_entries s)) \<le> unat (sv_max_connections (sx_options (sm_context s)))"

lemma conn_ok_new [simp]: "conn_ok (new_conn c)"
  by (simp add: conn_ok_def new_conn_def)

lemma holds_place_new [simp]: "holds_place (new_conn c)"
  by (simp add: new_conn_def)

lemma filter_reaped:
  assumes "\<forall>k \<in> set ks. conn_ok k"
  shows "filter holds_place (filter (\<lambda>k. \<not> ck_done k) ks) = filter holds_place ks"
  using assms by (auto simp: conn_ok_def intro!: filter_cong)

lemma iteration_ok:
  assumes "server_ok s"
  shows "server_ok (fst (RunServer_iteration io os s))"
proof -
  let ?c = "sm_context s" and ?held = "length (filter holds_place (sm_entries s))"
  have ok: "\<forall>k \<in> set (sm_entries s). conn_ok k" and live: "unat (sx_live_connections ?c) = ?held"
    and max: "?held \<le> unat (sv_max_connections (sx_options ?c))"
    using assms by (simp_all add: server_ok_def)
  note reaped = filter_reaped [OF ok]
  have room: "?held < unat (sv_max_connections (sx_options ?c)) \<and> unat (sx_live_connections ?c + 1) = ?held + 1"
    if "\<not> ucast (sv_max_connections (sx_options ?c)) \<le> sx_live_connections ?c"
  proof -
    have "unat (ucast (sv_max_connections (sx_options ?c)) :: u64) = unat (sv_max_connections (sx_options ?c))"
      by (simp add: unsigned_ucast_eq take_bit_nat_eq_self_iff)
    then have lt: "?held < unat (sv_max_connections (sx_options ?c))"
      using that live by (simp add: word_le_nat_alt)
    then have "unat (sx_live_connections ?c) + 1 < 2 ^ 64"
      using live unsigned_less [where 'a = nat, of "sv_max_connections (sx_options ?c)"] by simp
    then show ?thesis using lt live by (simp add: unat_word_ariths)
  qed
  show ?thesis
    using ok live max reaped room
    by (auto simp: RunServer_iteration_def Let_def server_ok_def split: sum.split)
qed

lemma thread_ok:
  assumes "server_ok s" "sm_entries s = xs @ k # ys"
    and "ServeConnection_next w os answers (sm_context s) (sm_coordinator s) k = Some (c', st', k', rest)"
  shows "server_ok (s\<lparr>sm_context := c', sm_coordinator := st', sm_entries := xs @ k' # ys\<rparr>)"
proof -
  have "conn_ok k" using assms(1,2) by (simp add: server_ok_def)
  note n = next_ok [OF this assms(3)]
  have live: "unat (sx_live_connections (sm_context s)) =
      length (filter holds_place xs) + (if holds_place k then 1 else 0) + length (filter holds_place ys)"
    using assms(1,2) by (simp add: server_ok_def)
  have "unat (sx_live_connections c') =
      length (filter holds_place xs) + (if holds_place k' then 1 else 0) + length (filter holds_place ys)"
  proof (cases "ck_phase k = Returned")
    case True
    then have "sx_live_connections (sm_context s) \<noteq> 0" using live by auto
    then show ?thesis using True n live by (simp add: unat_minus_one)
  next
    case False
    then show ?thesis using n live by auto
  qed
  then show ?thesis using assms(1,2) n live by (auto simp: server_ok_def split: if_splits)
qed

lemma interrupt_ok: "server_ok s \<Longrightarrow> server_ok (RunServer_interrupt s)"
proof -
  have "conn_ok (k\<lparr>ck_connection := c\<rparr>) = conn_ok k" for k c by (simp add: conn_ok_def)
  moreover have "filter holds_place (map (\<lambda>k. k\<lparr>ck_connection := f k\<rparr>) ks) =
      map (\<lambda>k. k\<lparr>ck_connection := f k\<rparr>) (filter holds_place ks)" for f ks
    by (simp add: filter_map comp_def)
  ultimately show "server_ok s \<Longrightarrow> server_ok (RunServer_interrupt s)"
    by (simp add: server_ok_def RunServer_interrupt_def)
qed

lemma served_ok: "served s \<Longrightarrow> server_ok s"
proof (induction rule: served.induct)
  case (start bio oio disk allocated ready options s)
  then show ?case
    by (auto simp: RunServer_start_def server_ok_def new_context_def bindR_def split: if_splits sum.splits)
next
  case (step s s')
  from step(2,3) show ?case
  proof cases
    case (main io os)
    then show ?thesis using step.IH iteration_ok by simp
  next
    case interrupt
    then show ?thesis using step.IH interrupt_ok by simp
  next
    case (thread xs k ys w os answers c st k' rest)
    then show ?thesis using step.IH thread_ok by simp
  next
    case (coordinator st)
    then show ?thesis using step.IH by (simp add: server_ok_def)
  qed
qed

end
