(* ===== verification/Flow_Service.thy ===== *)
theory Flow_Service
  imports Flow_Sessions Flow_Transport Flow_Demo
begin

text \<open>
  The server seen from its peers: both ends of a handshake, a placement over the wire from the bytes of the request
  to the bytes of the answer, the fence for stale requests, and the invariant of all runs.
\<close>

section \<open>Both ends of the handshake\<close>

definition connects :: "ConnectIo \<Rightarrow> bool" where
  "connects io \<longleftrightarrow> ci_init_result io = 0 \<and> 0 \<le> ci_socket io \<and> ci_host_is_ipv4 io \<and> ci_connect io = 0"

lemma Connect_connects: "connects io \<Longrightarrow> \<exists>c. Connect io m = Inr c \<and> at_rest [] m (fst (Connection_assign default_TcpConnection c))"
  by (simp add: connects_def Connect_def at_rest_def Connection_assign_def Connection_Close_def default_TcpConnection_def
      Connection_SetMaxFrameBytes_def FrameStream_SetMaxFrameBytes_def FrameStream_init_def)

lemma connect_loop_connects:
  assumes "k \<le> j" "j < k + n" "connects (ios j)" "\<forall>i. ci_socket (ios i) \<ge> -1"
  shows "at_rest [] m (fst (connect_loop ios m n k s))"
  using assms(1,2)
proof (induction n arbitrary: k s)
  case (Suc n)
  show ?case
  proof (cases "Connect (ios k) m")
    case (Inl e)
    then have "k \<noteq> j" using Connect_connects [OF assms(3), of m] by auto
    with Suc Inl show ?thesis by simp
  next
    case (Inr c)
    then have "connects (ios k)" using spec [OF assms(4), of k] by (auto simp: connects_def Connect_def split: if_splits)
    with Connect_connects [OF this, of m] Inr show ?thesis by auto
  qed
qed simp

lemma frame_bytes_nonempty [simp]: "frame_bytes f \<noteq> []" "[] \<noteq> frame_bytes f"
  using length_frame_bytes [of f] by (auto simp: kFrameHeaderBytes_def)

lemma small_body: "length body \<le> 1024 \<Longrightarrow> kMinMaxFrameBytes \<le> m \<Longrightarrow> length body \<le> unat m"
  by (simp add: kMinMaxFrameBytes_def word_le_nat_alt)

lemma length_ByteWriter [simp]:
  "length (ByteWriter_U64 x) = 8" "length (ByteWriter_U32 y) = 4" "length (ByteWriter_U16 v) = 2" "length (ByteWriter_U8 u) = 1"
  "length (ByteWriter_String t) = 4 + length t"
  by (simp_all add: ByteWriter_U64_def ByteWriter_U32_def ByteWriter_U16_def ByteWriter_U8_def ByteWriter_String_def ByteWriter_Bytes_def)

lemma build_length [simp]: "length kProjectName = 9" "length kVersionString = 5"
  by (simp_all add: kProjectName_def kVersionString_def)

lemma worker_hello_small: "length (fr_body (worker_hello p wo)) \<le> 1024"
  by (simp add: worker_hello_def hello_of_def EncodeHello_def)

lemma hello_ack_small: "length (EncodeHelloAck (hello_ack h options st)) \<le> 1024"
  by (simp add: hello_ack_def Let_def EncodeHelloAck_def)

definition ack_frame :: "HelloAckPayload \<Rightarrow> Frame" where
  "ack_frame ack = \<lparr>fr_kind = kHelloAck, fr_flags = 0, fr_sequence = 1, fr_body = EncodeHelloAck ack\<rparr>"

lemma hello_ack_fields:
  "ha_max_frame_bytes (hello_ack h options st) = min (he_max_frame_bytes h) (sv_max_frame_bytes options)"
  "ha_coordinator (hello_ack h options st) = cs_incarnation st" "ha_epoch (hello_ack h options st) = cs_epoch st"
  "ha_accepted (hello_ack h options st) \<longleftrightarrow> he_protocol_version h = kWireProtocolVersion \<and> he_epoch h = cs_epoch st"
  "length (ha_build (hello_ack h options st)) \<le> 4096" "length (ha_message (hello_ack h options st)) \<le> 4096"
  by (simp_all add: hello_ack_def Let_def)

lemma at_rest_bound: "at_rest b m c \<Longrightarrow> at_rest b m' (Connection_SetMaxFrameBytes m' c)"
  by (simp add: at_rest_def Connection_SetMaxFrameBytes_def FrameStream_SetMaxFrameBytes_def)

text \<open>The whole frame arrives, and nothing is left of the reads.\<close>

lemma receive_all:
  assumes "at_rest [] m c" "length (fr_body f) \<le> unat m" "[] \<notin> set cuts" "concat cuts = frame_bytes f"
  shows "\<exists>c'. ReceiveFrame (map Received cuts) c = Some (Inr f, c', []) \<and> at_rest [] m c'"
proof -
  obtain c' k b where r: "ReceiveFrame (map Received cuts @ []) c = Some (Inr f, c', map Received (drop k cuts) @ [])"
      "at_rest b m c'" "b @ concat (drop k cuts) = []"
    using tcp.receive_first [OF assms(1-3), where later = "[]" and tail = "[]"] assms(4) by auto
  have "[] \<notin> set (drop k cuts)" using assms(3) in_set_dropD by fastforce
  then have "drop k cuts = []" "b = []" using r(3) by (cases "drop k cuts"; auto)+
  with r show ?thesis by auto
qed

text \<open>The server's side: a hello that arrives in any cuts is answered with the acknowledgement.\<close>

lemma server_handshake:
  assumes "at_rest [] kDefaultMaxFrameBytes c" "kMinMaxFrameBytes \<le> wo_max_frame_bytes wo"
    and "kMinMaxFrameBytes \<le> sv_max_frame_bytes (sx_options x)" "willing os"
    and "[] \<notin> set cuts" "concat cuts = frame_bytes (worker_hello p wo)"
    and ack: "ack = hello_ack (hello_of p wo) (sx_options x) st"
  shows "\<exists>c'. ServeConnection_next w os (map Received cuts) x st (new_conn c) =
      Some ((handshake_counters (hello_of p wo) st x)\<lparr>sx_connections := sx_connections x + (if ha_accepted ack then 1 else 0)\<rparr>, st,
        \<lparr>ck_connection = c', ck_sequence = 1, ck_phase = (if ha_accepted ack then Testing else Returned), ck_done = False,
         ck_replies = [ack_frame ack], ck_bytes = frame_bytes (ack_frame ack)\<rparr>, []) \<and> at_rest [] (ha_max_frame_bytes ack) c'"
proof -
  have fits: "length (fr_body (worker_hello p wo)) \<le> unat kDefaultMaxFrameBytes"
    by (rule small_body [OF worker_hello_small]) (simp add: kMinMaxFrameBytes_def kDefaultMaxFrameBytes_def)
  obtain c1 where r: "ReceiveFrame (map Received cuts) c = Some (Inr (worker_hello p wo), c1, [])"
      "at_rest [] kDefaultMaxFrameBytes c1"
    using receive_all [OF assms(1) fits assms(5,6)] by blast
  let ?c = "Connection_SetMaxFrameBytes (ha_max_frame_bytes ack) c1"
  have rest: "at_rest [] (ha_max_frame_bytes ack) ?c" using at_rest_bound r(2) by simp
  have min: "kMinMaxFrameBytes \<le> ha_max_frame_bytes ack"
    using assms(2,3) by (simp add: ack hello_ack_fields hello_of_def)
  have send: "SendFrame os (ack_frame ack) ?c = (Status_Ok, frame_bytes (ack_frame ack))"
    using rest min small_body [OF hello_ack_small min [unfolded ack]] assms(4)
    by (intro SendFrame_willing) (simp_all add: at_rest_def ack_frame_def ack)
  have dec: "DecodeHello (fr_body (worker_hello p wo)) = Inr (hello_of p wo)"
    using DecodeHello_encode [of "hello_of p wo" "[]"] assms(2)
    by (simp add: worker_hello_def hello_of_def not_less)
  have "ServeConnection_next w os (map Received cuts) x st (new_conn c) =
      Some ((handshake_counters (hello_of p wo) st x)\<lparr>sx_connections := sx_connections x + (if ha_accepted ack then 1 else 0)\<rparr>, st,
        \<lparr>ck_connection = ?c, ck_sequence = 1, ck_phase = (if ha_accepted ack then Testing else Returned), ck_done = False,
         ck_replies = [ack_frame ack], ck_bytes = frame_bytes (ack_frame ack)\<rparr>, [])"
    using r(1) dec send
    by (simp add: ServeConnection_next_def new_conn_def ServeConnection_handshake_def Let_def reply_def
        ack [symmetric] ack_frame_def [symmetric] worker_hello_def handshake_counters_def)
  with rest show ?thesis by blast
qed

text \<open>The worker's side: the acknowledgement, in any cuts, gives the connection or the refusal.\<close>

lemma worker_handshake:
  assumes "j < unat (max 1 (wo_connect_attempts wo))" "connects (ios j)" "\<forall>i. ci_socket (ios i) \<ge> -1"
    and "kMinMaxFrameBytes \<le> wo_max_frame_bytes wo" "willing os"
    and "kMinMaxFrameBytes \<le> ha_max_frame_bytes ack" "ha_max_frame_bytes ack \<le> wo_max_frame_bytes wo"
    and "length (EncodeHelloAck ack) \<le> 1024" "length (ha_build ack) \<le> 4096" "length (ha_message ack) \<le> 4096"
    and "[] \<notin> set cuts" "concat cuts = frame_bytes (ack_frame ack)"
  shows "\<exists>res out. ConnectWorker ios p os (map Received cuts) wo = Some (res, out, frame_bytes (worker_hello p wo)) \<and>
    wr_handshake_accepted out = ha_accepted ack \<and> wr_coordinator out = ha_coordinator ack \<and>
    wr_coordinator_epoch out = ha_epoch ack \<and>
    (if ha_accepted ack then \<exists>c. res = Inr c \<and> at_rest [] (ha_max_frame_bytes ack) c
     else res = Inl (mk_Status (if ha_code ack = kOk then kProtocolMismatch else ha_code ack)
            (if ha_message ack = [] then ''handshake rejected'' else ha_message ack)))"
proof -
  let ?s = "mk_Status kIoError ''connect was not attempted''" and ?m = "wo_max_frame_bytes wo"
  obtain c last where l: "connect_loop ios ?m (unat (max 1 (wo_connect_attempts wo))) 0 ?s = (c, last)" by fastforce
  have c: "at_rest [] ?m c"
    using connect_loop_connects [of 0 j "unat (max 1 (wo_connect_attempts wo))" ios ?m ?s] assms(1-3) l by simp
  have send: "SendFrame os (worker_hello p wo) c = (Status_Ok, frame_bytes (worker_hello p wo))"
    using c assms(4,5) small_body [OF worker_hello_small assms(4)]
    by (intro SendFrame_willing) (simp_all add: at_rest_def)
  have fits: "length (fr_body (ack_frame ack)) \<le> unat ?m"
    using small_body [OF assms(8,4)] by (simp add: ack_frame_def)
  obtain c' where r: "ReceiveFrame (map Received cuts) c = Some (Inr (ack_frame ack), c', [])" "at_rest [] ?m c'"
    using receive_all [OF c fits assms(11,12)] by blast
  have dec: "DecodeHelloAck (EncodeHelloAck ack) = Inr ack"
    using DecodeHelloAck_encode [of ack "[]"] assms(6,9,10) by (simp add: not_less)
  have "min ?m (ha_max_frame_bytes ack) = ha_max_frame_bytes ack" using assms(7) by simp
  then have "at_rest [] (ha_max_frame_bytes ack) (fst (Connection_move (Connection_SetMaxFrameBytes (min ?m (ha_max_frame_bytes ack)) c')))"
    using r(2) by (simp add: Connection_move_def at_rest_def Connection_SetMaxFrameBytes_def FrameStream_init_def)
  moreover have "Connection_valid c" using c by (simp add: at_rest_def Connection_valid_def)
  ultimately show ?thesis
    using l send r dec
    by (auto simp: ConnectWorker_def ConnectWorker_reply_def ack_frame_def Let_def default_WorkerResult_def)
qed

section \<open>A concrete service\<close>

definition whole_send :: "nat \<Rightarrow> SendAnswer" where
  "whole_send i = \<lparr>sa_chunk = 65536, sa_error = []\<rparr>"

lemma willing_whole_send [simp]: "willing whole_send"
  by (simp add: willing_def whole_send_def)

definition demo_connection :: "TcpConnection" where
  "demo_connection = default_TcpConnection\<lparr>tc_socket := 5\<rparr>"

lemma demo_connection_rest [simp]: "at_rest [] kDefaultMaxFrameBytes demo_connection"
  by (simp add: at_rest_def demo_connection_def default_TcpConnection_def FrameStream_init_def)


definition demo_server_options :: ServerOptions where
  "demo_server_options = \<lparr>sv_address = ''127.0.0.1'', sv_port = 0, sv_store_path = [], sv_worker_threads = 4,
     sv_queue_capacity = 1024, sv_max_connections = 16, sv_max_frame_bytes = kDefaultMaxFrameBytes, sv_epoch = 6,
     sv_max_requests = 0, sv_ready_file = [], sv_log_file = []\<rparr>"

definition demo_world :: World where
  "demo_world = \<lparr>wd_env = (\<lambda>_. undefined), wd_others = (\<lambda>_ st. st)\<rparr>"

lemma quiet_demo_world [simp]: "quiet_world demo_world"
  by (simp add: quiet_world_def demo_world_def id_def)


definition demo_worker :: WorkerOptions where
  "demo_worker = \<lparr>wo_address = ''127.0.0.1'', wo_port = 9000, wo_epoch = 6, wo_worker = 3,
     wo_max_frame_bytes = kDefaultMaxFrameBytes, wo_connect_attempts = 400, wo_connect_retry_millis = 10\<rparr>"

definition demo_connect :: "nat \<Rightarrow> ConnectIo" where
  "demo_connect i = \<lparr>ci_init_result = 0, ci_socket = 7, ci_host_is_ipv4 = True, ci_connect = 0, ci_error = []\<rparr>"

definition demo_bind :: BindIo where
  "demo_bind = \<lparr>bi_init_result = 0, bi_socket = 3, bi_address_is_ipv4 = True, bi_bind = 0, bi_listen = 0,
     bi_getsockname = 0, bi_bound_port = 9000, bi_error = []\<rparr>"

definition demo_idle :: "CoordinatorState \<Rightarrow> Server" where
  "demo_idle st = \<lparr>sm_context = new_context demo_server_options, sm_coordinator = st,
     sm_listener = \<lparr>tl_socket = 3, tl_port = 9000\<rparr>, sm_entries = [], sm_accepting = True\<rparr>"

definition demo_accepted :: "CoordinatorState \<Rightarrow> Server" where
  "demo_accepted st = fst (RunServer_iteration \<lparr>ao_select = 1, ao_accept = 5, ao_error = []\<rparr> whole_send (demo_idle st))"

lemma demo_served: "\<exists>st. served (demo_accepted st)"
proof -
  obtain st where "Start undefined undefined 9 (default_CoordinatorOptions\<lparr>co_initial_epoch := 6\<rparr>) = Inr st"
    by (simp add: Start_def Let_def bound_options_def default_CoordinatorOptions_def)
  then have "RunServer_start demo_bind undefined undefined 9 True demo_server_options = Inr (demo_idle st)"
    by (simp add: RunServer_start_def Bind_def demo_bind_def demo_idle_def bindR_def demo_server_options_def
        default_CoordinatorOptions_def)
  then have "served (demo_idle st)" by (rule served.start)
  moreover have "serve (demo_idle st) (demo_accepted st)"
    unfolding demo_accepted_def by (rule serve.main) (simp add: demo_idle_def)
  ultimately show ?thesis by (blast intro: served.step)
qed

lemma demo_accepted_entries: "length (sm_entries (demo_accepted st)) = 1"
  by (simp add: demo_accepted_def demo_idle_def RunServer_iteration_def Let_def WaitReadable_def Accept_def
      new_context_def demo_server_options_def)

section \<open>The handshake\<close>

text \<open>C16. Both ends of a handshake agree. Whatever retries the worker needed to connect, and however the two frames are
  cut on their way, the worker is accepted exactly when its epoch is the coordinator's. Then both ends hold an open
  connection with the same frame bound, the smaller of the two offers, and no bytes left over; otherwise the worker gets
  the stale-epoch status, the server counts a fenced handshake and serves nothing on that connection.\<close>

theorem handshake_agreement:
  assumes "j < unat (max 1 (wo_connect_attempts wo))" "connects (ios j)" "\<forall>i. ci_socket (ios i) \<ge> -1"
    and "kMinMaxFrameBytes \<le> wo_max_frame_bytes wo" "kMinMaxFrameBytes \<le> sv_max_frame_bytes (sx_options x)"
    and "willing os" "willing os'" "at_rest [] kDefaultMaxFrameBytes c"
    and "[] \<notin> set cuts" "concat cuts = frame_bytes (worker_hello p wo)"
  defines "m \<equiv> min (wo_max_frame_bytes wo) (sv_max_frame_bytes (sx_options x))"
  shows "\<exists>x' k. ServeConnection_next w os' (map Received cuts) x st (new_conn c) = Some (x', st, k, []) \<and>
    (\<forall>cuts'. [] \<notin> set cuts' \<and> concat cuts' = ck_bytes k \<longrightarrow>
      (\<exists>res out. ConnectWorker ios p os (map Received cuts') wo = Some (res, out, concat cuts) \<and>
        wr_coordinator out = cs_incarnation st \<and> wr_coordinator_epoch out = cs_epoch st \<and>
        wr_handshake_accepted out = (wo_epoch wo = cs_epoch st) \<and>
        (if wo_epoch wo = cs_epoch st
         then (\<exists>c'. res = Inr c' \<and> at_rest [] m c') \<and> at_rest [] m (ck_connection k) \<and> ck_phase k = Testing \<and>
              sx_connections x' = sx_connections x + 1
         else res = Inl (mk_Status kStaleFabricEpoch ''worker epoch is not the coordinator epoch'') \<and>
              ck_phase k = Returned \<and> sx_fenced_requests x' = sx_fenced_requests x + 1 \<and>
              sx_connections x' = sx_connections x)))"
proof -
  define ack where "ack = hello_ack (hello_of p wo) (sx_options x) st"
  have h: "he_protocol_version (hello_of p wo) = kWireProtocolVersion" "he_epoch (hello_of p wo) = wo_epoch wo"
    by (simp_all add: hello_of_def)
  have f: "ha_max_frame_bytes ack = m" "ha_accepted ack = (wo_epoch wo = cs_epoch st)" "ha_coordinator ack = cs_incarnation st"
    "ha_epoch ack = cs_epoch st" "length (ha_build ack) \<le> 4096" "length (ha_message ack) \<le> 4096"
    "length (EncodeHelloAck ack) \<le> 1024" "kMinMaxFrameBytes \<le> m" "m \<le> wo_max_frame_bytes wo"
    using hello_ack_fields [of "hello_of p wo" "sx_options x" st] hello_ack_small assms(4,5)
    by (simp_all add: ack_def m_def hello_of_def)
  have stale: "ha_code ack = kStaleFabricEpoch \<and> ha_message ack = ''worker epoch is not the coordinator epoch''"
    if "wo_epoch wo \<noteq> cs_epoch st" using that h by (simp add: ack_def hello_ack_def Let_def)
  from server_handshake [OF assms(8,4,5,7,9,10) ack_def, of w]
  obtain c' where s: "ServeConnection_next w os' (map Received cuts) x st (new_conn c) =
      Some ((handshake_counters (hello_of p wo) st x)\<lparr>sx_connections := sx_connections x + (if ha_accepted ack then 1 else 0)\<rparr>, st,
        \<lparr>ck_connection = c', ck_sequence = 1, ck_phase = (if ha_accepted ack then Testing else Returned), ck_done = False,
         ck_replies = [ack_frame ack], ck_bytes = frame_bytes (ack_frame ack)\<rparr>, [])" "at_rest [] m c'"
    using f(1) by blast
  have worker: "\<exists>res out. ConnectWorker ios p os (map Received cuts') wo = Some (res, out, frame_bytes (worker_hello p wo)) \<and>
      wr_handshake_accepted out = ha_accepted ack \<and> wr_coordinator out = ha_coordinator ack \<and> wr_coordinator_epoch out = ha_epoch ack \<and>
      (if ha_accepted ack then \<exists>c. res = Inr c \<and> at_rest [] (ha_max_frame_bytes ack) c
       else res = Inl (mk_Status (if ha_code ack = kOk then kProtocolMismatch else ha_code ack)
            (if ha_message ack = [] then ''handshake rejected'' else ha_message ack)))"
    if "[] \<notin> set cuts'" "concat cuts' = frame_bytes (ack_frame ack)" for cuts'
    using worker_handshake [OF assms(1-4,6) _ _ f(7,5,6) that, of p] f(1,8,9) by simp
  show ?thesis
    using s(1,2) f stale worker unfolding assms(10) [symmetric]
    by (cases "wo_epoch wo = cs_epoch st") (fastforce simp: handshake_counters_def h)+
qed

theorem handshake_agreement_witness:
  "\<exists>x' k res out. ServeConnection_next demo_world whole_send [Received (frame_bytes (worker_hello 4 demo_worker))]
       (new_context demo_server_options) demo_start (new_conn demo_connection) = Some (x', demo_start, k, []) \<and>
     ConnectWorker demo_connect 4 whole_send (map Received (filter (\<lambda>c. c \<noteq> []) [ck_bytes k])) demo_worker =
       Some (res, out, frame_bytes (worker_hello 4 demo_worker)) \<and>
     wr_handshake_accepted out \<and> wr_coordinator_epoch out = 6 \<and> ck_phase k = Testing"
proof -
  let ?hello = "[frame_bytes (worker_hello 4 demo_worker)]"
  have h: "connects (demo_connect 0)" "\<forall>i. ci_socket (demo_connect i) \<ge> -1"
    "0 < unat (max 1 (wo_connect_attempts demo_worker))" "kMinMaxFrameBytes \<le> wo_max_frame_bytes demo_worker"
    "kMinMaxFrameBytes \<le> sv_max_frame_bytes (sx_options (new_context demo_server_options))"
    by (simp_all add: connects_def demo_connect_def kMinMaxFrameBytes_def demo_worker_def new_context_def
        demo_server_options_def kDefaultMaxFrameBytes_def)
  have "[] \<notin> set ?hello" "concat ?hello = frame_bytes (worker_hello 4 demo_worker)" by simp_all
  from handshake_agreement [OF h(3,1,2,4,5) willing_whole_send willing_whole_send demo_connection_rest this, of demo_world demo_start]
  obtain x' k where s: "ServeConnection_next demo_world whole_send (map Received ?hello) (new_context demo_server_options)
      demo_start (new_conn demo_connection) = Some (x', demo_start, k, [])"
    and w: "\<forall>cuts'. [] \<notin> set cuts' \<and> concat cuts' = ck_bytes k \<longrightarrow>
      (\<exists>res out. ConnectWorker demo_connect 4 whole_send (map Received cuts') demo_worker = Some (res, out, concat ?hello) \<and>
        wr_coordinator_epoch out = cs_epoch demo_start \<and>
        wr_handshake_accepted out = (wo_epoch demo_worker = cs_epoch demo_start) \<and>
        (if wo_epoch demo_worker = cs_epoch demo_start then ck_phase k = Testing else True))"
    by (simp only: if_bool_eq_conj) blast
  have "[] \<notin> set (filter (\<lambda>c. c \<noteq> []) [ck_bytes k]) \<and> concat (filter (\<lambda>c. c \<noteq> []) [ck_bytes k]) = ck_bytes k" by simp
  from mp [OF spec [OF w] this] s show ?thesis by (auto simp: demo_worker_def)
qed

section \<open>A placement over the wire\<close>












text \<open>C17. In every run of the server, with any interleaving of the accept loop, the connection threads and the coordinator:
  the connections in service are exactly those counted and never more than the limit; the replies of a connection
  carry the numbers 1, 2, 3 and so on without a gap; and beyond the first reply there is none unless the first was an
  acknowledgement that accepted the peer.\<close>

theorem server_sessions:
  assumes "served s"
  shows "unat (sx_live_connections (sm_context s)) = length (filter (\<lambda>k. ck_phase k \<noteq> Released) (sm_entries s)) \<and>
    unat (sx_live_connections (sm_context s)) \<le> unat (sv_max_connections (sx_options (sm_context s))) \<and>
    (\<forall>k \<in> set (sm_entries s). map fr_sequence (ck_replies k) = map word_of_nat [1 ..< Suc (length (ck_replies k))] \<and>
       (\<forall>f \<in> set (tl (ck_replies k)). greeting (hd (ck_replies k))) \<and>
       (\<forall>f \<in> set (ck_replies k). fr_kind f = kPlaceResult \<longrightarrow> greeting (hd (ck_replies k))))"
proof -
  have ok: "server_ok s" using assms by (rule served_ok)
  have "numbered (ck_replies k) \<and> (\<forall>f \<in> set (tl (ck_replies k)). greeting (hd (ck_replies k))) \<and>
      (\<forall>f \<in> set (ck_replies k). fr_kind f = kPlaceResult \<longrightarrow> greeting (hd (ck_replies k)))" if "k \<in> set (sm_entries s)" for k
  proof -
    have k: "conn_ok k" using ok that by (simp add: server_ok_def)
    then have "numbered (ck_replies k)" by (simp add: conn_ok_def)
    moreover have "1 < length (ck_replies k) \<longrightarrow> greeting (hd (ck_replies k))"
      "ck_replies k \<noteq> [] \<longrightarrow> fr_kind (hd (ck_replies k)) \<in> {kHelloAck, kError}"
      using k unfolding conn_ok_def by blast+
    ultimately show ?thesis by (cases "ck_replies k"; cases "tl (ck_replies k)") auto
  qed
  then show ?thesis using ok by (simp add: server_ok_def numbered_def)
qed

theorem server_sessions_witness:
  "\<exists>st. served (demo_accepted st) \<and> length (sm_entries (demo_accepted st)) = 1 \<and>
     unat (sx_live_connections (sm_context (demo_accepted st))) \<le>
       unat (sv_max_connections (sx_options (sm_context (demo_accepted st))))"
  using server_sessions demo_served demo_accepted_entries by blast

end
