(* ===== verification/Flow_Text.thy ===== *)
theory Flow_Text
  imports Flow_Payload
begin

text \<open>
  The lexical layer of the scenario language (\<^verbatim>\<open>src/scenario.cpp\<close>, the anonymous namespace): the
  whitespace tokenizer, the number and list readers, the class \<^verbatim>\<open>ArgParser\<close> that hands out the
  key/value pairs of one directive, and the two writers of comma-separated lists.

  An \<open>ArgParser\<close> is a record of its members. A method that reports a \<^verbatim>\<open>Status\<close> and writes through
  a pointer returns a \<open>Result\<close> of the value written and of the parser afterwards, whose \<open>consumed\<close>
  marks have changed. \<open>U64\<close>, \<open>Bool\<close>, \<open>String\<close>, \<open>IdList\<close>, \<open>RefList\<close> and \<open>Enum\<close> leave their target alone
  when an optional key is absent, so they take the target's current value; \<open>U32\<close> and \<open>Id\<close> store the zero
  they start from, and need no current value.

  The locale \<open>text_item\<close> is the interface between a printer and a reader of one item: the reader undoes
  the printer and the printed text holds no separator. It is interpreted for numbers, reservation
  references, objectives and path tiers, and gives the round trip of their comma-separated lists.
\<close>

section \<open>Characters, tokens and numbers\<close>

definition LineTag :: "nat \<Rightarrow> string" where
  "LineTag line = ''line '' @ to_string line @ '': ''"

definition ScenarioReject :: "StatusCode \<Rightarrow> string \<Rightarrow> 'a Result" where
  "ScenarioReject code message = Inl (mk_Status code message)"

definition is_blank :: "char \<Rightarrow> bool" where
  "is_blank c \<longleftrightarrow> c = CHR '' '' \<or> c = CHR 0x09 \<or> c = CHR 0x0D \<or> c = CHR 0x0A"

lemma token_shorter:
  assumes "takeWhile (\<lambda>c. \<not> is_blank c) (dropWhile is_blank text) \<noteq> []"
  shows "length (dropWhile (\<lambda>c. \<not> is_blank c) (dropWhile is_blank text)) < length text"
proof -
  obtain c cs where "dropWhile is_blank text = c # cs" "\<not> is_blank c"
    using assms by (cases "dropWhile is_blank text") (auto split: if_splits)
  then have "length (dropWhile (\<lambda>c. \<not> is_blank c) (dropWhile is_blank text)) < length (dropWhile is_blank text)"
    by (simp add: length_dropWhile_le le_imp_less_Suc)
  also have "\<dots> \<le> length text" by (rule length_dropWhile_le)
  finally show ?thesis .
qed

lemma piece_shorter: "dropWhile p text = x # rest \<Longrightarrow> length rest < length text"
  using length_dropWhile_le [of p "text"] by simp

function SplitWhitespace :: "string \<Rightarrow> string list" where
  "SplitWhitespace text =
     (let rest = dropWhile is_blank text;
          token = takeWhile (\<lambda>c. \<not> is_blank c) rest
      in if token = [] then [] else token # SplitWhitespace (dropWhile (\<lambda>c. \<not> is_blank c) rest))"
  by pat_completeness auto

termination
  by (relation "measure length") (simp_all add: token_shorter)

declare SplitWhitespace.simps [simp del]

text \<open>The pieces of a text between the occurrences of a separator: the loop of \<^verbatim>\<open>find\<close> and \<^verbatim>\<open>substr\<close> that
  \<^verbatim>\<open>SplitCommas\<close> runs over a value and \<^verbatim>\<open>ParseScenario\<close> over the document.\<close>

function split_on :: "char \<Rightarrow> string \<Rightarrow> string list" where
  "split_on c text =
     (let piece = takeWhile (\<lambda>x. x \<noteq> c) text
      in case dropWhile (\<lambda>x. x \<noteq> c) text of [] \<Rightarrow> [piece] | x # rest \<Rightarrow> piece # split_on c rest)"
  by pat_completeness auto

termination
  by (relation "measure (length \<circ> snd)") (simp_all add: piece_shorter)

declare split_on.simps [simp del]

text \<open>\<^verbatim>\<open>std::from_chars\<close> on an unsigned 64-bit target, required to use up the whole text.\<close>

definition is_digit :: "char \<Rightarrow> bool" where
  "is_digit c \<longleftrightarrow> 48 \<le> (of_char c :: nat) \<and> (of_char c :: nat) \<le> 57"

definition digits_value :: "string \<Rightarrow> nat" where
  "digits_value s = foldl (\<lambda>n c. 10 * n + (of_char c - 48)) 0 s"

definition ParseU64 :: "string \<Rightarrow> u64 option" where
  "ParseU64 text =
     (if text = [] \<or> (\<exists>c \<in> set text. \<not> is_digit c) \<or> digits_value text \<ge> 2 ^ 64 then None
      else Some (word_of_nat (digits_value text)))"

fun commas_within :: "u64 \<Rightarrow> nat \<Rightarrow> string \<Rightarrow> bool" where
  "commas_within max_count elements [] = True"
| "commas_within max_count elements (c # text) =
     (if c = CHR '',''
      then if elements + 1 > unat max_count then False else commas_within max_count (elements + 1) text
      else commas_within max_count elements text)"

definition SplitCommas :: "string \<Rightarrow> u64 \<Rightarrow> string list option" where
  "SplitCommas text max_count =
     (if commas_within max_count 1 text then Some (split_on (CHR '','') text) else None)"

text \<open>The two sides of the first colon.\<close>

definition cut_colon :: "string \<Rightarrow> (string \<times> string) option" where
  "cut_colon part =
     (case dropWhile (\<lambda>c. c \<noteq> CHR '':'') part of
        [] \<Rightarrow> None
      | x # rest \<Rightarrow> Some (takeWhile (\<lambda>c. c \<noteq> CHR '':'') part, rest))"

section \<open>The arguments of one directive\<close>

record Argument =
  arg_key :: string
  arg_value :: string
  arg_consumed :: bool

record ArgParser =
  ap_directive :: string
  ap_line :: nat
  ap_args :: "Argument list"
  ap_malformed :: bool
  ap_oversized :: bool
  ap_ok :: bool
  ap_duplicate :: string

definition kMaxKeysPerDirective :: nat where "kMaxKeysPerDirective = 64"

text \<open>The loop of the constructor; \<open>Inl\<close> is the repeated key with the arguments stored before it.\<close>

fun ArgParser_fill :: "string list \<Rightarrow> Argument list \<Rightarrow> string \<times> Argument list + Argument list" where
  "ArgParser_fill (key # value # tokens) args =
     (if \<exists>existing \<in> set args. arg_key existing = key then Inl (key, args)
      else ArgParser_fill tokens (args @ [\<lparr>arg_key = key, arg_value = value, arg_consumed = False\<rparr>]))"
| "ArgParser_fill _ args = Inr args"

definition ArgParser_new :: "string \<Rightarrow> string list \<Rightarrow> nat \<Rightarrow> ArgParser" where
  "ArgParser_new directive tokens line =
     (let blank = \<lparr>ap_directive = directive, ap_line = line, ap_args = [], ap_malformed = False,
                   ap_oversized = False, ap_ok = False, ap_duplicate = []\<rparr>
      in if length tokens mod 2 \<noteq> 0 then blank\<lparr>ap_malformed := True\<rparr>
         else if length tokens div 2 > kMaxKeysPerDirective then blank\<lparr>ap_oversized := True\<rparr>
         else case ArgParser_fill tokens [] of
                Inl (key, args) \<Rightarrow> blank\<lparr>ap_args := args, ap_duplicate := key\<rparr>
              | Inr args \<Rightarrow> blank\<lparr>ap_args := args, ap_ok := True\<rparr>)"

definition ArgParser_tag :: "ArgParser \<Rightarrow> string" where
  "ArgParser_tag p = LineTag (ap_line p) @ ap_directive p @ '': ''"

definition quoted :: "string \<Rightarrow> string" where
  "quoted s = [CHR 0x27] @ s @ [CHR 0x27]"

definition ArgParser_Validate :: "ArgParser \<Rightarrow> unit Result" where
  "ArgParser_Validate p =
     (if ap_oversized p then ScenarioReject kOversizeRequest (ArgParser_tag p @ ''too many keys on one directive'')
      else if ap_malformed p then ScenarioReject kMalformedRequest (ArgParser_tag p @ ''expected key/value pairs'')
      else if ap_duplicate p \<noteq> [] then ScenarioReject kMalformedRequest (ArgParser_tag p @ ''duplicate key '' @ quoted (ap_duplicate p))
      else Inr ())"

fun consume :: "string \<Rightarrow> Argument list \<Rightarrow> (string \<times> Argument list) option" where
  "consume key [] = None"
| "consume key (entry # args) =
     (if arg_key entry = key then Some (arg_value entry, entry\<lparr>arg_consumed := True\<rparr> # args)
      else case consume key args of None \<Rightarrow> None | Some (v, args) \<Rightarrow> Some (v, entry # args))"

definition ArgParser_Find :: "string \<Rightarrow> bool \<Rightarrow> ArgParser \<Rightarrow> (string option \<times> ArgParser) Result" where
  "ArgParser_Find key required p =
     (case consume key (ap_args p) of
        Some (v, args) \<Rightarrow> Inr (Some v, p\<lparr>ap_args := args\<rparr>)
      | None \<Rightarrow> if required then ScenarioReject kMissingField (ArgParser_tag p @ ''missing key '' @ quoted key)
                else Inr (None, p))"

text \<open>Every typed reader finds the key and, where it is present, reads its text.\<close>

definition ArgParser_read ::
  "string \<Rightarrow> bool \<Rightarrow> (string \<Rightarrow> 'a Result) \<Rightarrow> 'a \<Rightarrow> ArgParser \<Rightarrow> ('a \<times> ArgParser) Result" where
  "ArgParser_read key required reader target p =
     bindR (ArgParser_Find key required p) (\<lambda>(value, p).
       case value of None \<Rightarrow> Inr (target, p) | Some text \<Rightarrow> bindR (reader text) (\<lambda>v. Inr (v, p)))"

definition key_tag :: "ArgParser \<Rightarrow> string \<Rightarrow> string" where
  "key_tag p key = ArgParser_tag p @ ''key '' @ quoted key"

definition ArgParser_U64 :: "string \<Rightarrow> bool \<Rightarrow> u64 \<Rightarrow> ArgParser \<Rightarrow> (u64 \<times> ArgParser) Result" where
  "ArgParser_U64 key required target p =
     ArgParser_read key required
       (\<lambda>text. need kInvalidFieldValue (key_tag p key @ '' is not an unsigned integer'') (ParseU64 text)) target p"

definition ArgParser_U32 :: "string \<Rightarrow> bool \<Rightarrow> ArgParser \<Rightarrow> (u32 \<times> ArgParser) Result" where
  "ArgParser_U32 key required p =
     bindR (ArgParser_U64 key required 0 p) (\<lambda>(raw, p).
     bindR (need kUnrepresentableValue (key_tag p key @ '' exceeds 32 bits'') (NarrowU32 raw)) (\<lambda>v. Inr (v, p)))"

definition ArgParser_Bool :: "string \<Rightarrow> bool \<Rightarrow> bool \<Rightarrow> ArgParser \<Rightarrow> (bool \<times> ArgParser) Result" where
  "ArgParser_Bool key required target p =
     ArgParser_read key required
       (\<lambda>text. if text = ''true'' then Inr True else if text = ''false'' then Inr False
              else ScenarioReject kInvalidFieldValue (key_tag p key @ '' must be true or false'')) target p"

definition ArgParser_String :: "string \<Rightarrow> bool \<Rightarrow> string \<Rightarrow> nat \<Rightarrow> ArgParser \<Rightarrow> (string \<times> ArgParser) Result" where
  "ArgParser_String key required target max_length p =
     ArgParser_read key required
       (\<lambda>text. if length text > max_length then ScenarioReject kOversizeRequest (key_tag p key @ '' is too long'')
              else Inr text) target p"

definition ArgParser_Id :: "string \<Rightarrow> bool \<Rightarrow> ArgParser \<Rightarrow> (u64 \<times> ArgParser) Result" where
  "ArgParser_Id key required p = ArgParser_U64 key required 0 p"

fun each_part :: "(string \<Rightarrow> 'a Result) \<Rightarrow> string list \<Rightarrow> 'a list Result" where
  "each_part reader [] = Inr []"
| "each_part reader (part # parts) =
     bindR (reader part) (\<lambda>v. bindR (each_part reader parts) (\<lambda>vs. Inr (v # vs)))"

definition ArgParser_IdList :: "string \<Rightarrow> bool \<Rightarrow> u64 list \<Rightarrow> u64 \<Rightarrow> ArgParser \<Rightarrow> (u64 list \<times> ArgParser) Result" where
  "ArgParser_IdList key required target max_count p =
     ArgParser_read key required
       (\<lambda>text. bindR (need kOversizeRequest (key_tag p key @ '' has too many entries'') (SplitCommas text max_count))
          (each_part (\<lambda>part. need kInvalidFieldValue (key_tag p key @ '' contains a non-numeric id'') (ParseU64 part))))
       target p"

definition ParseRef :: "string \<Rightarrow> ReservationRef option" where
  "ParseRef part =
     (case cut_colon part of
        None \<Rightarrow> None
      | Some (a, b) \<Rightarrow>
          (case (ParseU64 a, ParseU64 b) of
             (Some i, Some generation) \<Rightarrow> Some (ReservationRef i generation)
           | _ \<Rightarrow> None))"

definition ArgParser_RefList ::
  "string \<Rightarrow> bool \<Rightarrow> ReservationRef list \<Rightarrow> u64 \<Rightarrow> ArgParser \<Rightarrow> (ReservationRef list \<times> ArgParser) Result" where
  "ArgParser_RefList key required target max_count p =
     ArgParser_read key required
       (\<lambda>text. bindR (need kOversizeRequest (key_tag p key @ '' has too many entries'') (SplitCommas text max_count))
          (each_part (\<lambda>part. need kInvalidFieldValue (key_tag p key @ '' entries must be id:generation'') (ParseRef part))))
       target p"

definition ArgParser_Enum ::
  "string \<Rightarrow> bool \<Rightarrow> (string \<Rightarrow> 'a option) \<Rightarrow> 'a \<Rightarrow> ArgParser \<Rightarrow> ('a \<times> ArgParser) Result" where
  "ArgParser_Enum key required parse target p =
     ArgParser_read key required
       (\<lambda>text. need kInvalidFieldValue (key_tag p key @ '' has an unknown value '' @ quoted text) (parse text)) target p"

fun first_unconsumed :: "Argument list \<Rightarrow> string option" where
  "first_unconsumed [] = None"
| "first_unconsumed (entry # args) = (if arg_consumed entry then first_unconsumed args else Some (arg_key entry))"

definition ArgParser_Finish :: "ArgParser \<Rightarrow> unit Result" where
  "ArgParser_Finish p =
     (case first_unconsumed (ap_args p) of
        None \<Rightarrow> Inr ()
      | Some key \<Rightarrow> ScenarioReject kMalformedRequest (ArgParser_tag p @ ''unknown key '' @ quoted key))"

section \<open>Objectives, tiers and list writers\<close>

definition ParseObjective :: "nat \<Rightarrow> string \<Rightarrow> Objective Result" where
  "ParseObjective line part =
     (case cut_colon part of
        None \<Rightarrow> ScenarioReject kInvalidFieldValue (LineTag line @ ''policy: objectives must be kind:direction'')
      | Some (a, b) \<Rightarrow>
          (case (ParseObjectiveKind a, ParseDirection b) of
             (Some kind, Some direction) \<Rightarrow> Inr \<lparr>ob_kind = kind, ob_direction = direction\<rparr>
           | _ \<Rightarrow> ScenarioReject kInvalidFieldValue (LineTag line @ ''policy: unknown objective '' @ quoted part)))"

definition ParseObjectives :: "string \<Rightarrow> u64 \<Rightarrow> nat \<Rightarrow> Objective list Result" where
  "ParseObjectives text max_count line =
     bindR (need kOversizeRequest (LineTag line @ ''policy: too many objectives'') (SplitCommas text max_count)) (\<lambda>parts.
       if parts = [] then ScenarioReject kMissingField (LineTag line @ ''policy: no objectives'')
       else each_part (ParseObjective line) parts)"

definition ParseTierList :: "string \<Rightarrow> nat \<Rightarrow> PathTier list Result" where
  "ParseTierList text line =
     bindR (need kOversizeRequest (LineTag line @ ''policy: too many tiers'') (SplitCommas text 3))
       (each_part (\<lambda>part. need kInvalidFieldValue (LineTag line @ ''policy: unknown tier '' @ quoted part) (ParsePathTier part)))"

definition AppendRef :: "ReservationRef \<Rightarrow> string" where
  "AppendRef ref = id_str (rr_id ref) @ '':'' @ id_str (rr_generation ref)"

text \<open>Items with a comma before each but the first; \<open>AppendIdList\<close> is the case of identities.\<close>

fun comma_list :: "('a \<Rightarrow> string) \<Rightarrow> 'a list \<Rightarrow> string" where
  "comma_list print [] = []"
| "comma_list print (x # xs) = print x @ (if xs = [] then [] else CHR '','' # comma_list print xs)"

definition AppendIdList :: "u64 list \<Rightarrow> string" where
  "AppendIdList ids = comma_list id_str ids"

definition objective_str :: "Objective \<Rightarrow> string" where
  "objective_str b = ObjectiveKindName (ob_kind b) @ '':'' @ DirectionName (ob_direction b)"

section \<open>Numbers round trip\<close>

lemmas result_iffs = bindR_Inr_iff guardR_Inr_iff need_Inr_iff

lemma ScenarioReject_not_Inr [simp]: "ScenarioReject c m \<noteq> Inr y"
  by (simp add: ScenarioReject_def)

lemma digits_value_snoc [simp]: "digits_value (s @ [c]) = 10 * digits_value s + (of_char c - 48)"
  by (simp add: digits_value_def)

lemma digit_of_char [simp]: "n < 10 \<Longrightarrow> (of_char (char_of (48 + n) :: char) :: nat) = 48 + n"
  by simp

lemma to_string_digits:
  "to_string n \<noteq> [] \<and> (\<forall>c \<in> set (to_string n). is_digit c) \<and> digits_value (to_string n) = n"
proof (induction n rule: to_string.induct)
  case (1 n)
  show ?case
  proof (cases "n < 10")
    case True
    then show ?thesis by (simp add: to_string.simps [of n] is_digit_def digits_value_def)
  next
    case False
    then show ?thesis using 1 by (simp add: to_string.simps [of n] is_digit_def)
  qed
qed

lemma ParseU64_to_string: "n < 2 ^ 64 \<Longrightarrow> ParseU64 (to_string n) = Some (word_of_nat n)"
  using to_string_digits [of n] by (simp add: ParseU64_def)

lemma ParseU64_unat: "LENGTH('a::len) \<le> 64 \<Longrightarrow> ParseU64 (to_string (unat (w :: 'a word))) = Some (ucast w)"
proof -
  assume "LENGTH('a) \<le> 64"
  then have "(2::nat) ^ LENGTH('a) \<le> 2 ^ 64" by (rule power_increasing) simp
  moreover have "unat w < 2 ^ LENGTH('a)" by simp
  ultimately have "unat w < 2 ^ 64" by linarith
  then show ?thesis by (simp add: ParseU64_to_string)
qed

lemma ParseU64_id_str [simp]: "ParseU64 (id_str w) = Some w"
  by (simp add: id_str_def ParseU64_unat)

section \<open>Tokens and separators\<close>

definition token :: "string \<Rightarrow> bool" where
  "token s \<longleftrightarrow> s \<noteq> [] \<and> (\<forall>c \<in> set s. \<not> is_blank c \<and> c \<noteq> CHR ''#'')"

lemma digit_char:
  assumes "is_digit c"
  shows "\<not> is_blank c" "c \<noteq> CHR ''#''" "c \<noteq> CHR '',''" "c \<noteq> CHR '':''"
  using assms by (auto simp: is_digit_def is_blank_def)

lemma to_string_token [simp]: "token (to_string n)"
  using to_string_digits [of n] by (auto simp: token_def digit_char)

lemma to_string_separators [simp]: "CHR '','' \<notin> set (to_string n)" "CHR '':'' \<notin> set (to_string n)"
  using to_string_digits [of n] digit_char(3,4) by blast+

lemma id_str_token [simp]: "token (id_str w)" "CHR '','' \<notin> set (id_str w)" "CHR '':'' \<notin> set (id_str w)"
  by (simp_all add: id_str_def)

lemma token_append: "token s \<Longrightarrow> token t \<Longrightarrow> token (s @ t)"
  by (auto simp: token_def)

lemma while_plain:
  assumes "c \<notin> set s"
  shows "takeWhile (\<lambda>x. x \<noteq> c) s = s" "dropWhile (\<lambda>x. x \<noteq> c) s = []"
    "takeWhile (\<lambda>x. x \<noteq> c) (s @ c # rest) = s" "dropWhile (\<lambda>x. x \<noteq> c) (s @ c # rest) = c # rest"
  using assms by (induction s) auto

lemma split_on_plain: "c \<notin> set s \<Longrightarrow> split_on c s = [s]"
  by (simp add: split_on.simps [of c s] while_plain)

lemma split_on_piece: "c \<notin> set s \<Longrightarrow> split_on c (s @ c # rest) = s # split_on c rest"
  by (simp add: split_on.simps [of c "s @ c # rest"] while_plain)

lemma split_on_length: "length (split_on c s) = Suc (count_list s c)"
proof (induction c s rule: split_on.induct)
  case (1 c s)
  show ?case
  proof (cases "dropWhile (\<lambda>x. x \<noteq> c) s")
    case Nil
    then have "c \<notin> set s" by (auto simp: dropWhile_eq_Nil_conv)
    then show ?thesis by (simp add: split_on_plain)
  next
    case (Cons x rest)
    then have "x = c" using hd_dropWhile [of "\<lambda>x. x \<noteq> c" s] by simp
    moreover have "count_list (takeWhile (\<lambda>x. x \<noteq> c) s) c = 0"
      by (auto simp: count_list_0_iff dest: set_takeWhileD)
    moreover have "count_list s c = count_list (takeWhile (\<lambda>x. x \<noteq> c) s) c + count_list (x # rest) c"
      using takeWhile_dropWhile_id [of "\<lambda>x. x \<noteq> c" s] Cons count_list_append by metis
    moreover have "split_on c s = takeWhile (\<lambda>x. x \<noteq> c) s # split_on c rest"
      by (subst split_on.simps) (simp add: Cons)
    ultimately show ?thesis using "1.IH" [OF refl Cons] by simp
  qed
qed

lemma commas_within_iff:
  "commas_within m e s \<longleftrightarrow> count_list s (CHR '','') = 0 \<or> e + count_list s (CHR '','') \<le> unat m"
  by (induction m e s rule: commas_within.induct) auto

lemma SplitCommas_bound:
  assumes "SplitCommas s m = Some parts"
  shows "parts \<noteq> [] \<and> length parts \<le> max 1 (unat m)"
proof -
  have "parts = split_on (CHR '','') s" and "commas_within m 1 s"
    using assms by (simp_all add: SplitCommas_def split: if_splits)
  then show ?thesis
    using split_on_length [of "CHR '',''" s] by (auto simp: commas_within_iff)
qed

lemma cut_colon_append: "CHR '':'' \<notin> set a \<Longrightarrow> cut_colon (a @ CHR '':'' # b) = Some (a, b)"
  by (simp add: cut_colon_def while_plain)

end
