(* ===== verification/Flow_Lexing.thy ===== *)
theory Flow_Lexing
  imports Flow_Text
begin

text \<open>
  Laws of the lexical layer: the lists that the writers print are read back, a line of a directive
  word and its key/value fields is tokenized into exactly those, and an \<open>ArgParser\<close> over distinct keys
  answers each reader from the field of that key. A directive's arguments are a list of fields, each a key
  with an optional text; \<open>args_of\<close> is the parser over the present ones with the keys \<open>K\<close> consumed.
\<close>

section \<open>Comma-separated lists\<close>

locale text_item =
  fixes print :: "'a \<Rightarrow> string" and parse :: "string \<Rightarrow> 'a Result" and ok :: "'a \<Rightarrow> bool"
  assumes parse_print: "ok x \<Longrightarrow> parse (print x) = Inr x"
    and print_token: "ok x \<Longrightarrow> token (print x)"
    and print_no_comma: "ok x \<Longrightarrow> CHR '','' \<notin> set (print x)"
begin

lemma list_token: "xs \<noteq> [] \<Longrightarrow> \<forall>x \<in> set xs. ok x \<Longrightarrow> token (comma_list print xs)"
proof (induction xs)
  case (Cons x xs)
  have "token [CHR '','']" by (simp add: token_def is_blank_def)
  then show ?case
    using Cons print_token [of x] token_append [of "print x"] token_append [of "[CHR '','']" "comma_list print xs"]
    by (cases xs) auto
qed simp

lemma split_list: "xs \<noteq> [] \<Longrightarrow> \<forall>x \<in> set xs. ok x \<Longrightarrow> split_on (CHR '','') (comma_list print xs) = map print xs"
  by (induction xs) (auto simp: split_on_plain split_on_piece print_no_comma)

lemma list_commas: "\<forall>x \<in> set xs. ok x \<Longrightarrow> count_list (comma_list print xs) (CHR '','') = length xs - 1"
  by (induction xs) (auto simp: count_list_0_iff print_no_comma neq_Nil_conv)

lemma SplitCommas_list:
  assumes "xs \<noteq> []" "\<forall>x \<in> set xs. ok x" "length xs \<le> unat m"
  shows "SplitCommas (comma_list print xs) m = Some (map print xs)"
  using assms by (simp add: SplitCommas_def commas_within_iff list_commas split_list)

lemma each_list: "\<forall>x \<in> set xs. ok x \<Longrightarrow> each_part parse (map print xs) = Inr xs"
  by (induction xs) (simp_all add: parse_print)

lemma read_list:
  assumes "xs \<noteq> []" "\<forall>x \<in> set xs. ok x" "length xs \<le> unat m"
  shows "bindR (need c e (SplitCommas (comma_list print xs) m)) (each_part parse) = Inr xs"
  by (simp add: SplitCommas_list [OF assms] each_list [OF assms(2)] need_def)

end

lemma ParseRef_AppendRef [simp]: "ParseRef (AppendRef ref) = Some ref"
  by (simp add: ParseRef_def AppendRef_def cut_colon_append)

lemma AppendRef_token: "token (AppendRef ref)" "CHR '','' \<notin> set (AppendRef ref)"
proof -
  have "token [CHR '':'']" by (simp add: token_def is_blank_def)
  then show "token (AppendRef ref)"
    unfolding AppendRef_def by (intro token_append) simp_all
qed (simp add: AppendRef_def)

lemma enum_tokens [simp]:
  "token (PathTierName t)" "token (LocalityScopeName s)" "token (ServiceClassName c)" "token (PriorityClassName p)"
  "token (ObjectiveKindName k)" "token (DirectionName d)" "token (GateActionName g)" "token (ChurnActionName h)"
  "token (EvidencePolicyModeName e)"
proof -
  show "token (PathTierName t)" by (cases t) (simp_all add: token_def is_blank_def)
  show "token (LocalityScopeName s)" by (cases s) (simp_all add: token_def is_blank_def)
  show "token (ServiceClassName c)" by (cases c) (simp_all add: token_def is_blank_def)
  show "token (PriorityClassName p)" by (cases p) (simp_all add: token_def is_blank_def)
  show "token (ObjectiveKindName k)" by (cases k) (simp_all add: token_def is_blank_def)
  show "token (DirectionName d)" by (cases d) (simp_all add: token_def is_blank_def)
  show "token (GateActionName g)" by (cases g) (simp_all add: token_def is_blank_def)
  show "token (ChurnActionName h)" by (cases h) (simp_all add: token_def is_blank_def)
  show "token (EvidencePolicyModeName e)" by (cases e) (simp_all add: token_def is_blank_def)
qed

interpretation number_item: text_item id_str "\<lambda>part. need code (message part) (ParseU64 part)" "\<lambda>_. True"
  for code message
  by unfold_locales simp_all

interpretation ref_item: text_item AppendRef "\<lambda>part. need code (message part) (ParseRef part)" "\<lambda>_. True"
  for code message
  by unfold_locales (simp_all add: AppendRef_token)

interpretation tier_item: text_item PathTierName "\<lambda>part. need code (message part) (ParsePathTier part)"
  "\<lambda>t. PathTier_value t < 3" for code message
proof
  fix t assume "PathTier_value t < 3"
  then show "need code (message (PathTierName t)) (ParsePathTier (PathTierName t)) = Inr t"
    by (simp add: need_Inr_iff ParsePathTier_roundtrip)
  show "CHR '','' \<notin> set (PathTierName t)" by (cases t) simp_all
qed simp

lemma enum_separators [simp]:
  "CHR '','' \<notin> set (ObjectiveKindName k)" "CHR '':'' \<notin> set (ObjectiveKindName k)" "CHR '','' \<notin> set (DirectionName d)"
  by (cases k, simp_all, cases k, simp_all, cases d, simp_all)

interpretation objective_item: text_item objective_str "ParseObjective line"
  "\<lambda>b. ObjectiveKind_value (ob_kind b) < 9 \<and> Direction_value (ob_direction b) < 2" for line
proof
  fix b :: Objective assume "ObjectiveKind_value (ob_kind b) < 9 \<and> Direction_value (ob_direction b) < 2"
  then have "ParseObjectiveKind (ObjectiveKindName (ob_kind b)) = Some (ob_kind b)"
    and "ParseDirection (DirectionName (ob_direction b)) = Some (ob_direction b)"
    by (simp_all add: ParseObjectiveKind_roundtrip ParseDirection_roundtrip)
  then show "ParseObjective line (objective_str b) = Inr b"
    by (simp add: ParseObjective_def objective_str_def cut_colon_append)
  have "token [CHR '':'']" by (simp add: token_def is_blank_def)
  then show "token (objective_str b)" unfolding objective_str_def by (intro token_append) simp_all
  show "CHR '','' \<notin> set (objective_str b)" by (simp add: objective_str_def)
qed

section \<open>Tokens of a line\<close>

lemma SplitWhitespace_Nil: "SplitWhitespace [] = []"
  by (simp add: SplitWhitespace.simps)

lemma SplitWhitespace_blank: "SplitWhitespace (CHR '' '' # s) = SplitWhitespace s"
  by (simp add: SplitWhitespace.simps [of "CHR '' '' # s"] SplitWhitespace.simps [of s] is_blank_def)

lemma SplitWhitespace_token:
  assumes "token w" "s = [] \<or> is_blank (hd s)"
  shows "SplitWhitespace (w @ s) = w # SplitWhitespace s"
proof -
  have "dropWhile is_blank (w @ s) = w @ s"
    using assms(1) by (cases w) (auto simp: token_def)
  moreover have "takeWhile (\<lambda>c. \<not> is_blank c) (w @ s) = w" "dropWhile (\<lambda>c. \<not> is_blank c) (w @ s) = s"
    using assms by (auto simp: token_def takeWhile_append dropWhile_append takeWhile_eq_Nil_iff dropWhile_eq_self_iff)
  ultimately show ?thesis
    using assms(1) by (simp add: SplitWhitespace.simps [of "w @ s"] token_def)
qed

type_synonym field = "string \<times> string option"

fun present :: "field list \<Rightarrow> (string \<times> string) list" where
  "present [] = []"
| "present ((k, v) # fs) = (case v of None \<Rightarrow> [] | Some t \<Rightarrow> [(k, t)]) @ present fs"

definition spaced :: "(string \<times> string) list \<Rightarrow> string" where
  "spaced kvs = concat (map (\<lambda>(k, v). CHR '' '' # k @ CHR '' '' # v) kvs)"

definition token_list :: "(string \<times> string) list \<Rightarrow> string list" where
  "token_list kvs = concat (map (\<lambda>(k, v). [k, v]) kvs)"

definition tokens_ok :: "field list \<Rightarrow> bool" where
  "tokens_ok fs \<longleftrightarrow> (\<forall>(k, v) \<in> set fs. token k \<and> (\<forall>t \<in> set_option v. token t))"

lemma present_tokens: "tokens_ok fs \<Longrightarrow> (k, t) \<in> set (present fs) \<Longrightarrow> token k \<and> token t"
  by (induction fs rule: present.induct) (auto simp: tokens_ok_def split: option.splits)

lemma spaced_hd: "spaced kvs = [] \<or> is_blank (hd (spaced kvs))"
  by (cases kvs) (auto simp: spaced_def is_blank_def)

lemma SplitWhitespace_spaced:
  "\<forall>(k, v) \<in> set kvs. token k \<and> token v \<Longrightarrow> SplitWhitespace (spaced kvs) = token_list kvs"
proof (induction kvs)
  case Nil
  then show ?case by (simp add: spaced_def token_list_def SplitWhitespace_Nil)
next
  case (Cons kv kvs)
  obtain k v where kv: "kv = (k, v)" by (cases kv)
  have "spaced (kv # kvs) = CHR '' '' # k @ (CHR '' '' # (v @ spaced kvs))"
    by (simp add: kv spaced_def)
  then show ?case
    using Cons spaced_hd [of kvs]
    by (simp add: kv SplitWhitespace_blank SplitWhitespace_token is_blank_def token_list_def)
qed

lemma SplitWhitespace_line:
  assumes "token d" "tokens_ok fs"
  shows "SplitWhitespace (d @ spaced (present fs)) = d # token_list (present fs)"
proof -
  have "SplitWhitespace (spaced (present fs)) = token_list (present fs)"
    using present_tokens [OF assms(2)] by (intro SplitWhitespace_spaced) blast
  then show ?thesis using SplitWhitespace_token [OF assms(1) spaced_hd] by simp
qed

lemma plain_line:
  assumes "token d" "tokens_ok fs" "c = CHR ''#'' \<or> c = CHR 0x0A"
  shows "c \<notin> set (d @ spaced (present fs))"
  using assms present_tokens [OF assms(2)]
  by (fastforce simp: token_def spaced_def is_blank_def)

section \<open>Arguments\<close>

definition args_with :: "string \<Rightarrow> nat \<Rightarrow> (string \<times> string) list \<Rightarrow> string set \<Rightarrow> ArgParser" where
  "args_with d n kvs K = \<lparr>ap_directive = d, ap_line = n,
     ap_args = map (\<lambda>(k, v). \<lparr>arg_key = k, arg_value = v, arg_consumed = k \<in> K\<rparr>) kvs,
     ap_malformed = False, ap_oversized = False, ap_ok = True, ap_duplicate = []\<rparr>"

definition args_of :: "string \<Rightarrow> nat \<Rightarrow> field list \<Rightarrow> string set \<Rightarrow> ArgParser" where
  "args_of d n fs K = args_with d n (present fs) K"

definition reads :: "field list \<Rightarrow> string \<Rightarrow> string option \<Rightarrow> bool" where
  "reads fs k v \<longleftrightarrow> distinct (map fst fs) \<and> map_of fs k = Some v"

lemma present_keys: "fst ` set (present fs) \<subseteq> fst ` set fs"
  by (induction fs rule: present.induct) (auto split: option.splits)

lemma present_distinct: "distinct (map fst fs) \<Longrightarrow> distinct (map fst (present fs))"
proof (induction fs rule: present.induct)
  case (2 k v fs)
  then have "k \<notin> fst ` set (present fs)" using present_keys [of fs] by auto
  then show ?case using 2 by (simp split: option.split)
qed simp

lemma present_length: "length (present fs) \<le> length fs"
  by (induction fs rule: present.induct) (auto split: option.splits)

lemma map_of_present: "reads fs k v \<Longrightarrow> map_of (present fs) k = v"
proof (induction fs rule: present.induct)
  case (2 k' v' fs)
  show ?case
  proof (cases "k = k'")
    case True
    then have "k \<notin> fst ` set (present fs)" and "v' = v"
      using 2 present_keys [of fs] by (auto simp: reads_def)
    then show ?thesis using True by (simp add: map_of_eq_None_iff [THEN iffD2] split: option.split)
  next
    case False
    then have "reads fs k v" using 2 by (simp add: reads_def)
    then show ?thesis using 2 False by (simp split: option.split)
  qed
qed (simp add: reads_def)

lemma consume_args:
  assumes "distinct (map fst kvs)"
  shows "consume k (ap_args (args_with d n kvs K)) =
    map_option (\<lambda>v. (v, ap_args (args_with d n kvs (insert k K)))) (map_of kvs k)"
  using assms
proof (induction kvs)
  case (Cons kv kvs)
  obtain k' v where kv: "kv = (k', v)" by (cases kv)
  show ?case
  proof (cases "k' = k")
    case True
    then have "k \<notin> fst ` set kvs" using Cons.prems kv by simp
    then have "map (\<lambda>(k', v). \<lparr>arg_key = k', arg_value = v, arg_consumed = k' = k \<or> k' \<in> K\<rparr>) kvs =
               map (\<lambda>(k', v). \<lparr>arg_key = k', arg_value = v, arg_consumed = k' \<in> K\<rparr>) kvs"
      by (force intro!: map_cong)
    then show ?thesis using True by (simp add: args_with_def kv)
  next
    case False
    then show ?thesis using Cons by (simp add: args_with_def kv split: option.split)
  qed
qed (simp add: args_with_def)

lemma args_with_absent: "k \<notin> fst ` set kvs \<Longrightarrow> args_with d n kvs (insert k K) = args_with d n kvs K"
  by (force simp: args_with_def intro!: map_cong)

lemma Find_args:
  assumes "reads fs k v" "v \<noteq> None \<or> \<not> required"
  shows "ArgParser_Find k required (args_of d n fs K) = Inr (v, args_of d n fs (insert k K))"
proof -
  have "consume k (ap_args (args_with d n (present fs) K)) =
    map_option (\<lambda>v. (v, ap_args (args_with d n (present fs) (insert k K)))) v"
    using assms(1) map_of_present [OF assms(1)] by (simp add: reads_def present_distinct consume_args)
  moreover have "v = None \<Longrightarrow> args_with d n (present fs) (insert k K) = args_with d n (present fs) K"
    using map_of_present [OF assms(1)] by (intro args_with_absent) (simp add: map_of_eq_None_iff)
  ultimately show ?thesis
    using assms(2) by (cases v) (auto simp: ArgParser_Find_def args_of_def args_with_def)
qed

lemma read_args:
  assumes "reads fs k (Some t)" "reader t = Inr v"
  shows "ArgParser_read k required reader target (args_of d n fs K) = Inr (v, args_of d n fs (insert k K))"
  using Find_args [OF assms(1)] assms(2) by (simp add: ArgParser_read_def)

lemma read_absent:
  assumes "reads fs k None"
  shows "ArgParser_read k False reader target (args_of d n fs K) = Inr (target, args_of d n fs (insert k K))"
  by (simp add: ArgParser_read_def Find_args [OF assms])

lemma reads_distinct: "reads fs k v \<Longrightarrow> distinct (map fst fs)"
  by (simp add: reads_def)

lemma unconsumed_None: "first_unconsumed args = None \<longleftrightarrow> (\<forall>entry \<in> set args. arg_consumed entry)"
  by (induction args) auto

lemma Finish_args: "fst ` set fs \<subseteq> K \<Longrightarrow> ArgParser_Finish (args_of d n fs K) = Inr ()"
proof -
  assume "fst ` set fs \<subseteq> K"
  then have "fst ` set (present fs) \<subseteq> K" using present_keys by blast
  then have "first_unconsumed (ap_args (args_with d n (present fs) K)) = None"
    by (simp add: unconsumed_None args_with_def split_beta image_subset_iff)
  then show ?thesis by (simp add: ArgParser_Finish_def args_of_def)
qed

lemma fill_args:
  assumes "distinct (map fst kvs)" "fst ` set kvs \<inter> arg_key ` set args = {}"
  shows "ArgParser_fill (token_list kvs) args = Inr (args @ ap_args (args_with d n kvs {}))"
  using assms
proof (induction kvs arbitrary: args)
  case (Cons kv kvs)
  obtain k v where kv: "kv = (k, v)" by (cases kv)
  show ?case using Cons by (force simp: kv token_list_def args_with_def)
qed (simp add: token_list_def args_with_def)

lemma ArgParser_new_args:
  assumes "distinct (map fst fs)" "length fs \<le> 64"
  shows "ArgParser_new d (token_list (present fs)) n = args_of d n fs {}"
proof -
  have len: "length (token_list kvs) = 2 * length kvs" for kvs
    by (induction kvs) (auto simp: token_list_def)
  have "ArgParser_fill (token_list (present fs)) [] = Inr (ap_args (args_with d n (present fs) {}))"
    using fill_args [of "present fs" "[]"] present_distinct [OF assms(1)] by simp
  moreover have "length (present fs) \<le> 64" using present_length [of fs] assms(2) by linarith
  ultimately show ?thesis
    by (simp add: ArgParser_new_def len kMaxKeysPerDirective_def args_of_def args_with_def)
qed

lemma Validate_args [simp]: "ArgParser_Validate (args_of d n fs K) = Inr ()"
  by (simp add: ArgParser_Validate_def args_of_def args_with_def)

section \<open>Readers\<close>

lemma U64_args:
  assumes "reads fs k (Some (id_str w))"
  shows "ArgParser_U64 k required target (args_of d n fs K) = Inr (w, args_of d n fs (insert k K))"
  unfolding ArgParser_U64_def by (rule read_args [OF assms]) simp

lemma Id_args:
  assumes "reads fs k (Some (id_str w))"
  shows "ArgParser_Id k required (args_of d n fs K) = Inr (w, args_of d n fs (insert k K))"
  unfolding ArgParser_Id_def by (rule U64_args [OF assms])

lemma Id_option_args:
  assumes "reads fs k (map_option id_str w)"
  shows "ArgParser_Id k False (args_of d n fs K) = Inr (case w of None \<Rightarrow> 0 | Some w \<Rightarrow> w, args_of d n fs (insert k K))"
  using assms by (cases w) (simp add: ArgParser_Id_def ArgParser_U64_def read_absent, simp add: Id_args)

lemma narrow_laws:
  "unat v < 2 ^ 32 \<Longrightarrow> NarrowU32 v = Some (ucast v)"
  "unat v < 2 ^ 16 \<Longrightarrow> NarrowU16 v = Some (ucast v)"
  "unat v < 2 ^ 8 \<Longrightarrow> NarrowU8 v = Some (ucast v)"
  by (simp_all add: NarrowU32_def NarrowU16_def NarrowU8_def u32_max_def u16_max_def u8_max_def word_less_nat_alt)

lemma unat_ucast_u64: "LENGTH('a::len) \<le> 64 \<Longrightarrow> unat (ucast (w :: 'a word) :: u64) = unat w"
  by transfer (simp add: take_bit_take_bit min_def)

lemma U32_args:
  fixes w :: "'a::len word"
  assumes "reads fs k (Some (to_string (unat w)))" "LENGTH('a) \<le> 32"
  shows "ArgParser_U32 k required (args_of d n fs K) = Inr (ucast w, args_of d n fs (insert k K))"
proof -
  have "ParseU64 (to_string (unat w)) = Some (ucast w)" using assms(2) by (simp add: ParseU64_unat)
  then have read: "ArgParser_U64 k required 0 (args_of d n fs K) = Inr (ucast w, args_of d n fs (insert k K))"
    unfolding ArgParser_U64_def by (intro read_args [OF assms(1)]) simp
  have "(2::nat) ^ LENGTH('a) \<le> 2 ^ 32" using assms(2) by (rule power_increasing) simp
  then have "unat w < 2 ^ 32" using unsigned_less [of w, where 'a = nat] by linarith
  then have "NarrowU32 (ucast w) = Some (ucast (ucast w :: u64))"
    using assms(2) by (intro narrow_laws) (simp add: unat_ucast_u64)
  moreover have "ucast (ucast w :: u64) = (ucast w :: u32)"
    using assms(2) by (intro bit_word_eqI) (auto simp: bit_unsigned_iff)
  ultimately show ?thesis by (simp add: ArgParser_U32_def read)
qed

lemma hops_narrow: "NarrowU16 (ucast (ucast (w :: u16) :: u32)) = Some w"
  and relaxation_narrow: "NarrowU8 (ucast (ucast (v :: u8) :: u32)) = Some v"
proof -
  have "ucast (ucast w :: u32) = (ucast w :: u64)" "ucast (ucast v :: u32) = (ucast v :: u64)"
    by (rule bit_word_eqI, auto simp: bit_unsigned_iff dest: bit_imp_le_length)+
  moreover have "ucast (ucast w :: u64) = w" "ucast (ucast v :: u64) = v"
    by (rule bit_word_eqI, auto simp: bit_unsigned_iff dest: bit_imp_le_length)+
  moreover have "unat w < 2 ^ 16" "unat v < 2 ^ 8"
    using unsigned_less [of w, where 'a = nat] unsigned_less [of v, where 'a = nat] by simp_all
  ultimately show "NarrowU16 (ucast (ucast w :: u32)) = Some w" "NarrowU8 (ucast (ucast v :: u32)) = Some v"
    by (simp_all add: narrow_laws unat_ucast_u64)
qed

lemma Bool_args:
  assumes "reads fs k (Some (if b then ''true'' else ''false''))"
  shows "ArgParser_Bool k required target (args_of d n fs K) = Inr (b, args_of d n fs (insert k K))"
  unfolding ArgParser_Bool_def by (rule read_args [OF assms]) simp

lemma String_args:
  assumes "reads fs k (Some t)" "length t \<le> m"
  shows "ArgParser_String k required target m (args_of d n fs K) = Inr (t, args_of d n fs (insert k K))"
  unfolding ArgParser_String_def using assms(2) by (intro read_args [OF assms(1)]) simp

lemma Enum_args:
  assumes "reads fs k (Some t)" "parse t = Some v"
  shows "ArgParser_Enum k required parse target (args_of d n fs K) = Inr (v, args_of d n fs (insert k K))"
  unfolding ArgParser_Enum_def by (rule read_args [OF assms(1)]) (simp add: assms(2))

definition list_field :: "('a \<Rightarrow> string) \<Rightarrow> 'a list \<Rightarrow> string option" where
  "list_field print xs = (if xs \<noteq> [] then Some (comma_list print xs) else None)"

lemma IdList_args:
  assumes "reads fs k (list_field id_str xs)" "length xs \<le> unat m" "xs \<noteq> [] \<or> \<not> required"
  shows "ArgParser_IdList k required [] m (args_of d n fs K) = Inr (xs, args_of d n fs (insert k K))"
proof (cases "xs = []")
  case True
  then show ?thesis using assms read_absent [of fs k] by (simp add: ArgParser_IdList_def list_field_def)
next
  case False
  then show ?thesis
    unfolding ArgParser_IdList_def using assms
    by (intro read_args [where t = "comma_list id_str xs"] number_item.read_list) (simp_all add: list_field_def)
qed

lemma RefList_args:
  assumes "reads fs k (list_field AppendRef xs)" "length xs \<le> unat m" "xs \<noteq> [] \<or> \<not> required"
  shows "ArgParser_RefList k required [] m (args_of d n fs K) = Inr (xs, args_of d n fs (insert k K))"
proof (cases "xs = []")
  case True
  then show ?thesis using assms read_absent [of fs k] by (simp add: ArgParser_RefList_def list_field_def)
next
  case False
  then show ?thesis
    unfolding ArgParser_RefList_def using assms
    by (intro read_args [where t = "comma_list AppendRef xs"] ref_item.read_list) (simp_all add: list_field_def)
qed

lemma Objectives_args:
  assumes "xs \<noteq> []" "\<forall>b \<in> set xs. ObjectiveKind_value (ob_kind b) < 9 \<and> Direction_value (ob_direction b) < 2"
    and "length xs \<le> unat m"
  shows "ParseObjectives (comma_list objective_str xs) m line = Inr xs"
  using assms
  by (simp add: ParseObjectives_def objective_item.SplitCommas_list objective_item.each_list)

lemma Tiers_args:
  assumes "xs \<noteq> []" "\<forall>t \<in> set xs. PathTier_value t < 3" "length xs \<le> 3"
  shows "ParseTierList (comma_list PathTierName xs) line = Inr xs"
  unfolding ParseTierList_def using assms by (intro tier_item.read_list) simp_all

lemma list_field_token [simp]:
  "t \<in> set_option (list_field id_str ids) \<Longrightarrow> token t"
  "t \<in> set_option (list_field AppendRef refs) \<Longrightarrow> token t"
  by (auto simp: list_field_def number_item.list_token ref_item.list_token split: if_splits)

text \<open>The text of the fields as the writers spell it.\<close>

lemma spaced_field:
  "spaced (present []) = []"
  "spaced (present ((k, Some t) # fs)) = CHR '' '' # k @ CHR '' '' # t @ spaced (present fs)"
  "spaced (present ((k, list_field print xs) # fs)) =
     (if xs \<noteq> [] then CHR '' '' # k @ CHR '' '' # comma_list print xs else []) @ spaced (present fs)"
  "spaced (present ((k, map_option f v) # fs)) =
     (case v of None \<Rightarrow> [] | Some x \<Rightarrow> CHR '' '' # k @ CHR '' '' # f x) @ spaced (present fs)"
  by (auto simp: spaced_def list_field_def split: option.split)

end
