(* ===== verification/Flow_Scenario.thy ===== *)
theory Flow_Scenario
  imports Flow_Lexing
begin

text \<open>
  The scenario language (\<^verbatim>\<open>src/scenario.cpp\<close>): \<open>ParseScenario\<close> reads a document line by line into a
  request, \<open>WriteScenario\<close> renders a request. The locals of \<^verbatim>\<open>ParseScenario\<close> are a record
  \<open>ScenarioState\<close> (the request under construction and one flag per directive that may be declared
  once); each branch of its dispatch is a definition \<open>Parse_\<dots>\<close> that takes the arguments, the line number
  and that state.
\<close>

section \<open>Default values\<close>

definition default_PathAttributes :: PathAttributes where
  "default_PathAttributes = \<lparr>pa_tier = kStandard, pa_locality = 0, pa_locality_scope = kNode,
     pa_failure_domain = 0, pa_cost_micro = 0, pa_latency_nanos = 0, pa_hop_count = 0, pa_labels = [],
     pa_reservations = []\<rparr>"

definition default_QosProfile :: QosProfile where
  "default_QosProfile = \<lparr>qos_id = 0, qos_generation = 0, qos_service_class = kBestEffort,
     qos_priority = kNormal, qos_required_residual_bytes = 0, qos_max_latency_nanos = 0\<rparr>"

definition default_PlacementPolicy :: PlacementPolicy where
  "default_PlacementPolicy = \<lparr>pp_id = 0, pp_generation = 0, pp_objectives = [], pp_allowed_tiers = [],
     pp_required_labels = [], pp_forbidden_labels = [],
     pp_locality = \<lparr>lc_required_locality = None, lc_preferred_locality = None, lc_forbidden_localities = []\<rparr>,
     pp_failure_domains = \<lparr>fd_required_domain = None, fd_forbidden_domains = [],
       fd_avoid_occupied_domains = False, fd_min_distinct_domains = 0\<rparr>,
     pp_reservation_affinity = \<lparr>ra_required = False, ra_refs = []\<rparr>,
     pp_admission = \<lparr>ag_min_residual_headroom_bytes = 0, ag_on_below = kPlace\<rparr>,
     pp_service = \<lparr>sp_allow_degraded = False, sp_max_relaxation_steps = 0\<rparr>,
     pp_churn = \<lparr>ch_on_move = kAllowMove, ch_prefer_incumbent = False,
       ch_move_improvement_threshold = 0, ch_threshold_objective_index = 0\<rparr>,
     pp_evidence = \<lparr>ep_on_missing = kHardExclude, ep_on_stale = kHardExclude\<rparr>,
     pp_revalidate_after_nanos = 0\<rparr>"

definition default_AuthorityExpectation :: AuthorityExpectation where
  "default_AuthorityExpectation = \<lparr>ex_path_authority = 0, ex_candidate_set = 0, ex_capacity = 0,
     ex_policy = 0, ex_qos = 0, ex_fabric_epoch = 0, ex_evidence = 0\<rparr>"

definition default_PlacementRequest :: PlacementRequest where
  "default_PlacementRequest = \<lparr>rq_flow = 0, rq_flow_generation = 0,
     rq_candidates = \<lparr>cs_id = 0, cs_generation = 0, cs_paths = []\<rparr>,
     rq_capacity = \<lparr>cap_id = 0, cap_generation = 0, cap_entries = []\<rparr>,
     rq_qos = default_QosProfile, rq_policy = default_PlacementPolicy,
     rq_evidence = \<lparr>ev_id = 0, ev_generation = 0, ev_entries = []\<rparr>,
     rq_incumbent = None, rq_occupied_failure_domains = [],
     rq_expected = default_AuthorityExpectation,
     rq_provenance = \<lparr>pv_producer = [], pv_producer_version = [], pv_source_sequence = 0,
       pv_observer_unix_nanos = 0\<rparr>,
     rq_attempt = 0\<rparr>"

record ScenarioState =
  sc_request :: PlacementRequest
  have_flow :: bool
  have_candidates :: bool
  have_capacity :: bool
  have_qos :: bool
  have_policy :: bool
  have_expected :: bool
  have_provenance :: bool
  have_evidence :: bool
  have_incumbent :: bool
  have_attempt :: bool
  have_occupied :: bool

definition initial_ScenarioState :: ScenarioState where
  "initial_ScenarioState = \<lparr>sc_request = default_PlacementRequest, have_flow = False,
     have_candidates = False, have_capacity = False, have_qos = False, have_policy = False,
     have_expected = False, have_provenance = False, have_evidence = False, have_incumbent = False,
     have_attempt = False, have_occupied = False\<rparr>"

section \<open>Directives\<close>

definition already :: "bool \<Rightarrow> nat \<Rightarrow> string \<Rightarrow> 'a Result \<Rightarrow> 'a Result" where
  "already declared line directive v =
     guardR declared kMalformedRequest (LineTag line @ directive @ '': already declared'') v"

definition Parse_flow :: "ArgParser \<Rightarrow> nat \<Rightarrow> ScenarioState \<Rightarrow> ScenarioState Result" where
  "Parse_flow args line st = already (have_flow st) line ''flow'' (
     bindR (ArgParser_Id ''id'' True args) (\<lambda>(flow, args).
     bindR (ArgParser_Id ''gen'' True args) (\<lambda>(gen, args).
     Inr (st\<lparr>sc_request := (sc_request st)\<lparr>rq_flow := flow, rq_flow_generation := gen\<rparr>, have_flow := True\<rparr>))))"

definition Parse_candidateset :: "ArgParser \<Rightarrow> nat \<Rightarrow> ScenarioState \<Rightarrow> ScenarioState Result" where
  "Parse_candidateset args line st = already (have_candidates st) line ''candidateset'' (
     bindR (ArgParser_Id ''id'' True args) (\<lambda>(cid, args).
     bindR (ArgParser_Id ''gen'' True args) (\<lambda>(gen, args).
     Inr (st\<lparr>sc_request := (sc_request st)\<lparr>rq_candidates := (rq_candidates (sc_request st))\<lparr>cs_id := cid, cs_generation := gen\<rparr>\<rparr>,
             have_candidates := True\<rparr>))))"

definition Parse_path :: "Limits \<Rightarrow> ArgParser \<Rightarrow> nat \<Rightarrow> ScenarioState \<Rightarrow> ScenarioState Result" where
  "Parse_path limits args line st =
     guardR (\<not> have_candidates st) kMissingField (LineTag line @ ''path: candidateset must be declared first'') (
     guardR (length (cs_paths (rq_candidates (sc_request st))) \<ge> unat (max_candidate_paths limits))
       kOversizeRequest (LineTag line @ ''path: too many candidate paths'') (
     bindR (ArgParser_Id ''id'' True args) (\<lambda>(pid, args).
     bindR (ArgParser_Id ''auth'' True args) (\<lambda>(authority, args).
     bindR (ArgParser_Enum ''tier'' False ParsePathTier (pa_tier default_PathAttributes) args) (\<lambda>(tier, args).
     bindR (ArgParser_Id ''locality'' False args) (\<lambda>(locality, args).
     bindR (ArgParser_Enum ''scope'' False ParseLocalityScope (pa_locality_scope default_PathAttributes) args) (\<lambda>(scope, args).
     bindR (ArgParser_Id ''domain'' False args) (\<lambda>(domain, args).
     bindR (ArgParser_U64 ''cost'' False (pa_cost_micro default_PathAttributes) args) (\<lambda>(cost, args).
     bindR (ArgParser_U64 ''latency'' False (pa_latency_nanos default_PathAttributes) args) (\<lambda>(latency, args).
     bindR (ArgParser_U32 ''hops'' False args) (\<lambda>(hops, args).
     bindR (need kUnrepresentableValue (LineTag line @ ''path: hops exceeds 16 bits'') (NarrowU16 (ucast hops))) (\<lambda>hop_count.
     bindR (ArgParser_IdList ''labels'' False (pa_labels default_PathAttributes) (max_path_labels limits) args) (\<lambda>(labels, args).
     bindR (ArgParser_RefList ''reservations'' False (pa_reservations default_PathAttributes) (max_path_reservations limits) args)
       (\<lambda>(reservations, args).
     bindR (ArgParser_Finish args) (\<lambda>_.
     let path = \<lparr>cp_id = pid, cp_authority = authority,
                 cp_attributes = \<lparr>pa_tier = tier, pa_locality = locality, pa_locality_scope = scope,
                   pa_failure_domain = domain, pa_cost_micro = cost, pa_latency_nanos = latency,
                   pa_hop_count = hop_count, pa_labels = labels, pa_reservations = reservations\<rparr>\<rparr>
     in Inr (st\<lparr>sc_request := (sc_request st)\<lparr>rq_candidates :=
          (rq_candidates (sc_request st))\<lparr>cs_paths := cs_paths (rq_candidates (sc_request st)) @ [path]\<rparr>\<rparr>\<rparr>))))))))))))))))"

definition Parse_capacity :: "ArgParser \<Rightarrow> nat \<Rightarrow> ScenarioState \<Rightarrow> ScenarioState Result" where
  "Parse_capacity args line st = already (have_capacity st) line ''capacity'' (
     bindR (ArgParser_Id ''id'' True args) (\<lambda>(cid, args).
     bindR (ArgParser_Id ''gen'' True args) (\<lambda>(gen, args).
     bindR (ArgParser_Finish args) (\<lambda>_.
     Inr (st\<lparr>sc_request := (sc_request st)\<lparr>rq_capacity := (rq_capacity (sc_request st))\<lparr>cap_id := cid, cap_generation := gen\<rparr>\<rparr>,
             have_capacity := True\<rparr>)))))"

definition Parse_entry :: "Limits \<Rightarrow> ArgParser \<Rightarrow> nat \<Rightarrow> ScenarioState \<Rightarrow> ScenarioState Result" where
  "Parse_entry limits args line st =
     guardR (\<not> have_capacity st) kMissingField (LineTag line @ ''entry: capacity must be declared first'') (
     guardR (length (cap_entries (rq_capacity (sc_request st))) \<ge> unat (max_capacity_entries limits))
       kOversizeRequest (LineTag line @ ''entry: too many capacity entries'') (
     bindR (ArgParser_Id ''path'' True args) (\<lambda>(path, args).
     bindR (ArgParser_U64 ''total'' True 0 args) (\<lambda>(total, args).
     bindR (ArgParser_U64 ''residual'' True 0 args) (\<lambda>(residual, args).
     bindR (ArgParser_Finish args) (\<lambda>_.
     let entry = \<lparr>pc_path = path, pc_capacity_bytes = total, pc_residual_bytes = residual\<rparr>
     in Inr (st\<lparr>sc_request := (sc_request st)\<lparr>rq_capacity :=
          (rq_capacity (sc_request st))\<lparr>cap_entries := cap_entries (rq_capacity (sc_request st)) @ [entry]\<rparr>\<rparr>\<rparr>)))))))"

definition Parse_qos :: "ArgParser \<Rightarrow> nat \<Rightarrow> ScenarioState \<Rightarrow> ScenarioState Result" where
  "Parse_qos args line st = already (have_qos st) line ''qos'' (
     let qos = rq_qos (sc_request st) in
     bindR (ArgParser_Id ''id'' True args) (\<lambda>(qid, args).
     bindR (ArgParser_Id ''gen'' True args) (\<lambda>(gen, args).
     bindR (ArgParser_Enum ''class'' True ParseServiceClass (qos_service_class qos) args) (\<lambda>(service, args).
     bindR (ArgParser_Enum ''priority'' False ParsePriorityClass (qos_priority qos) args) (\<lambda>(priority, args).
     bindR (ArgParser_U64 ''required'' False (qos_required_residual_bytes qos) args) (\<lambda>(required, args).
     bindR (ArgParser_U64 ''maxlatency'' False (qos_max_latency_nanos qos) args) (\<lambda>(maxlatency, args).
     bindR (ArgParser_Finish args) (\<lambda>_.
     Inr (st\<lparr>sc_request := (sc_request st)\<lparr>rq_qos := \<lparr>qos_id = qid, qos_generation = gen,
            qos_service_class = service, qos_priority = priority, qos_required_residual_bytes = required,
            qos_max_latency_nanos = maxlatency\<rparr>\<rparr>, have_qos := True\<rparr>)))))))))"

definition Parse_evidence :: "ArgParser \<Rightarrow> nat \<Rightarrow> ScenarioState \<Rightarrow> ScenarioState Result" where
  "Parse_evidence args line st = already (have_evidence st) line ''evidence'' (
     bindR (ArgParser_Id ''id'' True args) (\<lambda>(eid, args).
     bindR (ArgParser_Id ''gen'' True args) (\<lambda>(gen, args).
     bindR (ArgParser_Finish args) (\<lambda>_.
     Inr (st\<lparr>sc_request := (sc_request st)\<lparr>rq_evidence := (rq_evidence (sc_request st))\<lparr>ev_id := eid, ev_generation := gen\<rparr>\<rparr>,
             have_evidence := True\<rparr>)))))"

definition Parse_util :: "Limits \<Rightarrow> ArgParser \<Rightarrow> nat \<Rightarrow> ScenarioState \<Rightarrow> ScenarioState Result" where
  "Parse_util limits args line st =
     guardR (length (ev_entries (rq_evidence (sc_request st))) \<ge> unat (max_evidence_entries limits))
       kOversizeRequest (LineTag line @ ''util: too many evidence entries'') (
     bindR (ArgParser_Id ''path'' True args) (\<lambda>(path, args).
     bindR (ArgParser_U32 ''ppb'' True args) (\<lambda>(ppb, args).
     bindR (ArgParser_Finish args) (\<lambda>_.
     let entry = \<lparr>ce_path = path, ce_utilization_ppb = ppb\<rparr>
     in Inr (st\<lparr>sc_request := (sc_request st)\<lparr>rq_evidence :=
          (rq_evidence (sc_request st))\<lparr>ev_entries := ev_entries (rq_evidence (sc_request st)) @ [entry]\<rparr>\<rparr>\<rparr>)))))"

text \<open>\<open>some_valid\<close>: an optional identity is stored only when it is not zero.\<close>

definition some_valid :: "u64 \<Rightarrow> u64 option \<Rightarrow> u64 option" where
  "some_valid value target = (if valid_id value then Some value else target)"

definition Parse_policy :: "Limits \<Rightarrow> ArgParser \<Rightarrow> nat \<Rightarrow> ScenarioState \<Rightarrow> ScenarioState Result" where
  "Parse_policy limits args line st = already (have_policy st) line ''policy'' (
     let policy = rq_policy (sc_request st);
         lists = max_policy_id_lists limits;
         locality = pp_locality policy; domains = pp_failure_domains policy;
         affinity = pp_reservation_affinity policy; admission = pp_admission policy;
         service = pp_service policy; churn = pp_churn policy; evidence = pp_evidence policy in
     bindR (ArgParser_Id ''id'' True args) (\<lambda>(pid, args).
     bindR (ArgParser_Id ''gen'' True args) (\<lambda>(gen, args).
     bindR (ArgParser_read ''objectives'' True (\<lambda>text. ParseObjectives text (max_objectives limits) line)
       (pp_objectives policy) args) (\<lambda>(objectives, args).
     bindR (ArgParser_read ''tiers'' False (\<lambda>text. ParseTierList text line) (pp_allowed_tiers policy) args) (\<lambda>(tiers, args).
     bindR (ArgParser_IdList ''require-labels'' False (pp_required_labels policy) lists args) (\<lambda>(require_labels, args).
     bindR (ArgParser_IdList ''forbid-labels'' False (pp_forbidden_labels policy) lists args) (\<lambda>(forbid_labels, args).
     bindR (ArgParser_Id ''locality-required'' False args) (\<lambda>(loc_required, args).
     bindR (ArgParser_Id ''locality-preferred'' False args) (\<lambda>(loc_preferred, args).
     bindR (ArgParser_IdList ''locality-forbidden'' False (lc_forbidden_localities locality) lists args) (\<lambda>(loc_forbidden, args).
     bindR (ArgParser_Id ''domain-required'' False args) (\<lambda>(dom_required, args).
     bindR (ArgParser_IdList ''domain-forbidden'' False (fd_forbidden_domains domains) lists args) (\<lambda>(dom_forbidden, args).
     bindR (ArgParser_Bool ''domain-avoid-occupied'' False (fd_avoid_occupied_domains domains) args) (\<lambda>(avoid, args).
     bindR (ArgParser_U32 ''domain-min-distinct'' False args) (\<lambda>(min_distinct, args).
     bindR (ArgParser_Bool ''affinity-required'' False (ra_required affinity) args) (\<lambda>(aff_required, args).
     bindR (ArgParser_RefList ''affinity-refs'' False (ra_refs affinity) (max_affinity_refs limits) args) (\<lambda>(refs, args).
     bindR (ArgParser_U64 ''admission-headroom'' False (ag_min_residual_headroom_bytes admission) args) (\<lambda>(headroom, args).
     bindR (ArgParser_Enum ''admission-action'' False ParseGateAction (ag_on_below admission) args) (\<lambda>(gate, args).
     bindR (ArgParser_Bool ''service-degraded'' False (sp_allow_degraded service) args) (\<lambda>(degraded, args).
     bindR (ArgParser_U32 ''service-relaxation'' False args) (\<lambda>(steps, args).
     bindR (need kUnrepresentableValue (LineTag line @ ''policy: service relaxation exceeds 8 bits'') (NarrowU8 (ucast steps))) (\<lambda>relaxation.
     bindR (ArgParser_Enum ''churn-action'' False ParseChurnAction (ch_on_move churn) args) (\<lambda>(on_move, args).
     bindR (ArgParser_Bool ''churn-prefer-incumbent'' False (ch_prefer_incumbent churn) args) (\<lambda>(prefer, args).
     bindR (ArgParser_U64 ''churn-threshold'' False (ch_move_improvement_threshold churn) args) (\<lambda>(threshold, args).
     bindR (ArgParser_U32 ''churn-threshold-objective'' False args) (\<lambda>(index, args).
     bindR (ArgParser_Enum ''evidence-missing'' False ParseEvidencePolicyMode (ep_on_missing evidence) args) (\<lambda>(missing, args).
     bindR (ArgParser_Enum ''evidence-stale'' False ParseEvidencePolicyMode (ep_on_stale evidence) args) (\<lambda>(stale, args).
     bindR (ArgParser_U64 ''revalidate'' False (pp_revalidate_after_nanos policy) args) (\<lambda>(revalidate, args).
     bindR (ArgParser_Finish args) (\<lambda>_.
     Inr (st\<lparr>sc_request := (sc_request st)\<lparr>rq_policy := \<lparr>pp_id = pid, pp_generation = gen,
            pp_objectives = objectives, pp_allowed_tiers = tiers,
            pp_required_labels = require_labels, pp_forbidden_labels = forbid_labels,
            pp_locality = \<lparr>lc_required_locality = some_valid loc_required (lc_required_locality locality),
              lc_preferred_locality = some_valid loc_preferred (lc_preferred_locality locality),
              lc_forbidden_localities = loc_forbidden\<rparr>,
            pp_failure_domains = \<lparr>fd_required_domain = some_valid dom_required (fd_required_domain domains),
              fd_forbidden_domains = dom_forbidden, fd_avoid_occupied_domains = avoid,
              fd_min_distinct_domains = min_distinct\<rparr>,
            pp_reservation_affinity = \<lparr>ra_required = aff_required, ra_refs = refs\<rparr>,
            pp_admission = \<lparr>ag_min_residual_headroom_bytes = headroom, ag_on_below = gate\<rparr>,
            pp_service = \<lparr>sp_allow_degraded = degraded, sp_max_relaxation_steps = relaxation\<rparr>,
            pp_churn = \<lparr>ch_on_move = on_move, ch_prefer_incumbent = prefer,
              ch_move_improvement_threshold = threshold, ch_threshold_objective_index = index\<rparr>,
            pp_evidence = \<lparr>ep_on_missing = missing, ep_on_stale = stale\<rparr>,
            pp_revalidate_after_nanos = revalidate\<rparr>\<rparr>, have_policy := True\<rparr>))))))))))))))))))))))))))))))"

definition Parse_incumbent :: "ArgParser \<Rightarrow> nat \<Rightarrow> ScenarioState \<Rightarrow> ScenarioState Result" where
  "Parse_incumbent args line st = already (have_incumbent st) line ''incumbent'' (
     bindR (ArgParser_Id ''id'' True args) (\<lambda>(iid, args).
     bindR (ArgParser_Id ''gen'' True args) (\<lambda>(gen, args).
     bindR (ArgParser_Id ''path'' True args) (\<lambda>(path, args).
     bindR (ArgParser_Id ''pathauth'' True args) (\<lambda>(pathauth, args).
     bindR (ArgParser_Id ''cset'' True args) (\<lambda>(cset, args).
     bindR (ArgParser_Id ''cap'' True args) (\<lambda>(cap, args).
     bindR (ArgParser_Id ''policy'' True args) (\<lambda>(policy, args).
     bindR (ArgParser_Id ''qos'' True args) (\<lambda>(qos, args).
     bindR (ArgParser_Id ''epoch'' True args) (\<lambda>(epoch, args).
     bindR (ArgParser_RefList ''reservation'' False [] 1 args) (\<lambda>(refs, args).
     bindR (ArgParser_Finish args) (\<lambda>_.
     let incumbent = \<lparr>inc_id = iid, inc_generation = gen, inc_path = path, inc_path_authority = pathauth,
           inc_candidate_set_generation = cset, inc_capacity_generation = cap, inc_policy_generation = policy,
           inc_qos_generation = qos, inc_fabric_epoch = epoch,
           inc_reservation = (case refs of [] \<Rightarrow> ReservationRef_none | ref # _ \<Rightarrow> ref)\<rparr>
     in Inr (st\<lparr>sc_request := (sc_request st)\<lparr>rq_incumbent := Some incumbent\<rparr>, have_incumbent := True\<rparr>)))))))))))))"

definition Parse_occupied :: "Limits \<Rightarrow> ArgParser \<Rightarrow> nat \<Rightarrow> ScenarioState \<Rightarrow> ScenarioState Result" where
  "Parse_occupied limits args line st = already (have_occupied st) line ''occupied'' (
     bindR (ArgParser_IdList ''domains'' True (rq_occupied_failure_domains (sc_request st))
       (max_occupied_failure_domains limits) args) (\<lambda>(domains, args).
     bindR (ArgParser_Finish args) (\<lambda>_.
     Inr (st\<lparr>sc_request := (sc_request st)\<lparr>rq_occupied_failure_domains := domains\<rparr>, have_occupied := True\<rparr>))))"

definition Parse_expected :: "ArgParser \<Rightarrow> nat \<Rightarrow> ScenarioState \<Rightarrow> ScenarioState Result" where
  "Parse_expected args line st = already (have_expected st) line ''expected'' (
     bindR (ArgParser_Id ''pathauth'' True args) (\<lambda>(pathauth, args).
     bindR (ArgParser_Id ''cset'' True args) (\<lambda>(cset, args).
     bindR (ArgParser_Id ''cap'' True args) (\<lambda>(cap, args).
     bindR (ArgParser_Id ''policy'' True args) (\<lambda>(policy, args).
     bindR (ArgParser_Id ''qos'' True args) (\<lambda>(qos, args).
     bindR (ArgParser_Id ''epoch'' True args) (\<lambda>(epoch, args).
     bindR (ArgParser_Id ''evidence'' False args) (\<lambda>(evidence, args).
     bindR (ArgParser_Finish args) (\<lambda>_.
     Inr (st\<lparr>sc_request := (sc_request st)\<lparr>rq_expected := \<lparr>ex_path_authority = pathauth,
            ex_candidate_set = cset, ex_capacity = cap, ex_policy = policy, ex_qos = qos,
            ex_fabric_epoch = epoch, ex_evidence = evidence\<rparr>\<rparr>, have_expected := True\<rparr>))))))))))"

definition Parse_provenance :: "ArgParser \<Rightarrow> nat \<Rightarrow> ScenarioState \<Rightarrow> ScenarioState Result" where
  "Parse_provenance args line st = already (have_provenance st) line ''provenance'' (
     let prov = rq_provenance (sc_request st) in
     bindR (ArgParser_String ''producer'' True (pv_producer prov) kMaxProvenanceFieldLength args) (\<lambda>(producer, args).
     bindR (ArgParser_String ''version'' True (pv_producer_version prov) kMaxProvenanceFieldLength args) (\<lambda>(version, args).
     bindR (ArgParser_U64 ''sequence'' True (pv_source_sequence prov) args) (\<lambda>(sequence, args).
     bindR (ArgParser_U64 ''observed'' False 0 args) (\<lambda>(observed, args).
     bindR (ArgParser_Finish args) (\<lambda>_.
     Inr (st\<lparr>sc_request := (sc_request st)\<lparr>rq_provenance := \<lparr>pv_producer = producer,
            pv_producer_version = version, pv_source_sequence = sequence, pv_observer_unix_nanos = observed\<rparr>\<rparr>,
            have_provenance := True\<rparr>)))))))"

definition Parse_attempt :: "ArgParser \<Rightarrow> nat \<Rightarrow> ScenarioState \<Rightarrow> ScenarioState Result" where
  "Parse_attempt args line st = already (have_attempt st) line ''attempt'' (
     bindR (ArgParser_Id ''id'' True args) (\<lambda>(attempt, args).
     bindR (ArgParser_Finish args) (\<lambda>_.
     Inr (st\<lparr>sc_request := (sc_request st)\<lparr>rq_attempt := attempt\<rparr>, have_attempt := True\<rparr>))))"

section \<open>Lines and documents\<close>

definition kScenarioFormatVersion :: u64 where "kScenarioFormatVersion = 1"
definition kMaxScenarioBytes :: nat where "kMaxScenarioBytes = 64 * 2 ^ 20"
definition kMaxScenarioLineBytes :: nat where "kMaxScenarioLineBytes = 64 * 2 ^ 10"

definition Parse_version :: "string list \<Rightarrow> nat \<Rightarrow> ScenarioState \<Rightarrow> ScenarioState Result" where
  "Parse_version tokens line st =
     guardR (length tokens \<noteq> 1) kMalformedRequest (LineTag line @ ''version: expected one value'') (
     bindR (need kInvalidFieldValue (LineTag line @ ''version: not a number'') (ParseU64 (hd tokens))) (\<lambda>value.
     guardR (value \<noteq> kScenarioFormatVersion) kUnsupported
       (LineTag line @ ''version: unsupported scenario format version'') (Inr st)))"

definition Parse_directive ::
  "Limits \<Rightarrow> string \<Rightarrow> ArgParser \<Rightarrow> nat \<Rightarrow> ScenarioState \<Rightarrow> ScenarioState Result" where
  "Parse_directive limits directive args line st =
     (if directive = ''flow'' then Parse_flow args line st
      else if directive = ''candidateset'' then Parse_candidateset args line st
      else if directive = ''path'' then Parse_path limits args line st
      else if directive = ''capacity'' then Parse_capacity args line st
      else if directive = ''entry'' then Parse_entry limits args line st
      else if directive = ''qos'' then Parse_qos args line st
      else if directive = ''evidence'' then Parse_evidence args line st
      else if directive = ''util'' then Parse_util limits args line st
      else if directive = ''policy'' then Parse_policy limits args line st
      else if directive = ''incumbent'' then Parse_incumbent args line st
      else if directive = ''occupied'' then Parse_occupied limits args line st
      else if directive = ''expected'' then Parse_expected args line st
      else if directive = ''provenance'' then Parse_provenance args line st
      else if directive = ''attempt'' then Parse_attempt args line st
      else ScenarioReject kMalformedRequest (LineTag line @ ''unknown directive '' @ quoted directive))"

definition Parse_line :: "Limits \<Rightarrow> nat \<Rightarrow> string \<Rightarrow> ScenarioState \<Rightarrow> ScenarioState Result" where
  "Parse_line limits line_number line st =
     guardR (length line > kMaxScenarioLineBytes) kOversizeRequest (LineTag line_number @ ''line is too long'') (
     case SplitWhitespace (takeWhile (\<lambda>c. c \<noteq> CHR ''#'') line) of
       [] \<Rightarrow> Inr st
     | directive # tokens \<Rightarrow>
         if directive = ''version'' then Parse_version tokens line_number st
         else let args = ArgParser_new directive tokens line_number
              in bindR (ArgParser_Validate args) (\<lambda>_. Parse_directive limits directive args line_number st))"

fun Parse_lines :: "Limits \<Rightarrow> nat \<Rightarrow> string list \<Rightarrow> ScenarioState \<Rightarrow> ScenarioState Result" where
  "Parse_lines limits n [] st = Inr st"
| "Parse_lines limits n (line # lines) st =
     bindR (Parse_line limits (n + 1) line st) (Parse_lines limits (n + 1) lines)"

definition missing_directive :: "string \<Rightarrow> string" where
  "missing_directive directive = ''scenario is missing the '' @ directive @ '' directive''"

definition ParseScenario :: "string \<Rightarrow> Limits \<Rightarrow> PlacementRequest Result" where
  "ParseScenario text limits =
     guardR (length text > kMaxScenarioBytes) kOversizeRequest ''scenario exceeds kMaxScenarioBytes'' (
     bindR (Parse_lines limits 0 (split_on (CHR 0x0A) text) initial_ScenarioState) (\<lambda>st.
     guardR (\<not> have_flow st) kMissingField (missing_directive ''flow'') (
     guardR (\<not> have_candidates st) kMissingField (missing_directive ''candidateset'') (
     guardR (\<not> have_capacity st) kMissingField (missing_directive ''capacity'') (
     guardR (\<not> have_qos st) kMissingField (missing_directive ''qos'') (
     guardR (\<not> have_policy st) kMissingField (missing_directive ''policy'') (
     guardR (\<not> have_expected st) kMissingField (missing_directive ''expected'') (
     Inr (sc_request st)))))))))"

section \<open>Writing\<close>

text \<open>\<^verbatim>\<open>WriteScenario\<close> is one long sequence of appends; each line it appends is a definition.\<close>

definition bool_str :: "bool \<Rightarrow> string" where
  "bool_str b = (if b then ''true'' else ''false'')"

definition i64_str :: "i64 \<Rightarrow> string" where
  "i64_str v = (if sint v < 0 then CHR ''-'' # to_string (nat (- sint v)) else to_string (nat (sint v)))"

definition Write_path :: "CandidatePath \<Rightarrow> string" where
  "Write_path path =
     ''path id '' @ id_str (cp_id path) @ '' auth '' @ id_str (cp_authority path) @
     '' tier '' @ PathTierName (pa_tier (cp_attributes path)) @
     '' locality '' @ id_str (pa_locality (cp_attributes path)) @
     '' scope '' @ LocalityScopeName (pa_locality_scope (cp_attributes path)) @
     '' domain '' @ id_str (pa_failure_domain (cp_attributes path)) @
     '' cost '' @ to_string (unat (pa_cost_micro (cp_attributes path))) @
     '' latency '' @ to_string (unat (pa_latency_nanos (cp_attributes path))) @
     '' hops '' @ to_string (unat (pa_hop_count (cp_attributes path))) @
     (if pa_labels (cp_attributes path) \<noteq> [] then '' labels '' @ AppendIdList (pa_labels (cp_attributes path)) else []) @
     (if pa_reservations (cp_attributes path) \<noteq> []
      then '' reservations '' @ comma_list AppendRef (pa_reservations (cp_attributes path)) else [])"

definition Write_entry :: "PathCapacity \<Rightarrow> string" where
  "Write_entry entry =
     ''entry path '' @ id_str (pc_path entry) @ '' total '' @ to_string (unat (pc_capacity_bytes entry)) @
     '' residual '' @ to_string (unat (pc_residual_bytes entry))"

definition Write_qos :: "QosProfile \<Rightarrow> string" where
  "Write_qos qos =
     ''qos id '' @ id_str (qos_id qos) @ '' gen '' @ id_str (qos_generation qos) @
     '' class '' @ ServiceClassName (qos_service_class qos) @ '' priority '' @ PriorityClassName (qos_priority qos) @
     '' required '' @ to_string (unat (qos_required_residual_bytes qos)) @
     '' maxlatency '' @ to_string (unat (qos_max_latency_nanos qos))"

definition Write_util :: "CongestionEvidenceEntry \<Rightarrow> string" where
  "Write_util entry = ''util path '' @ id_str (ce_path entry) @ '' ppb '' @ to_string (unat (ce_utilization_ppb entry))"

definition Write_policy :: "PlacementPolicy \<Rightarrow> string" where
  "Write_policy policy =
     (let locality = pp_locality policy; domains = pp_failure_domains policy;
          affinity = pp_reservation_affinity policy in
     ''policy id '' @ id_str (pp_id policy) @ '' gen '' @ id_str (pp_generation policy) @
     '' objectives '' @ comma_list objective_str (pp_objectives policy) @
     (if pp_allowed_tiers policy \<noteq> [] then '' tiers '' @ comma_list PathTierName (pp_allowed_tiers policy) else []) @
     (if pp_required_labels policy \<noteq> [] then '' require-labels '' @ AppendIdList (pp_required_labels policy) else []) @
     (if pp_forbidden_labels policy \<noteq> [] then '' forbid-labels '' @ AppendIdList (pp_forbidden_labels policy) else []) @
     (case lc_required_locality locality of None \<Rightarrow> [] | Some v \<Rightarrow> '' locality-required '' @ id_str v) @
     (case lc_preferred_locality locality of None \<Rightarrow> [] | Some v \<Rightarrow> '' locality-preferred '' @ id_str v) @
     (if lc_forbidden_localities locality \<noteq> []
      then '' locality-forbidden '' @ AppendIdList (lc_forbidden_localities locality) else []) @
     (case fd_required_domain domains of None \<Rightarrow> [] | Some v \<Rightarrow> '' domain-required '' @ id_str v) @
     (if fd_forbidden_domains domains \<noteq> []
      then '' domain-forbidden '' @ AppendIdList (fd_forbidden_domains domains) else []) @
     '' domain-avoid-occupied '' @ bool_str (fd_avoid_occupied_domains domains) @
     '' domain-min-distinct '' @ to_string (unat (fd_min_distinct_domains domains)) @
     '' affinity-required '' @ bool_str (ra_required affinity) @
     (if ra_refs affinity \<noteq> [] then '' affinity-refs '' @ comma_list AppendRef (ra_refs affinity) else []) @
     '' admission-headroom '' @ to_string (unat (ag_min_residual_headroom_bytes (pp_admission policy))) @
     '' admission-action '' @ GateActionName (ag_on_below (pp_admission policy)) @
     '' service-degraded '' @ bool_str (sp_allow_degraded (pp_service policy)) @
     '' service-relaxation '' @ to_string (unat (sp_max_relaxation_steps (pp_service policy))) @
     '' churn-action '' @ ChurnActionName (ch_on_move (pp_churn policy)) @
     '' churn-prefer-incumbent '' @ bool_str (ch_prefer_incumbent (pp_churn policy)) @
     '' churn-threshold '' @ to_string (unat (ch_move_improvement_threshold (pp_churn policy))) @
     '' churn-threshold-objective '' @ to_string (unat (ch_threshold_objective_index (pp_churn policy))) @
     '' evidence-missing '' @ EvidencePolicyModeName (ep_on_missing (pp_evidence policy)) @
     '' evidence-stale '' @ EvidencePolicyModeName (ep_on_stale (pp_evidence policy)) @
     '' revalidate '' @ to_string (unat (pp_revalidate_after_nanos policy)))"

definition Write_incumbent :: "IncumbentPlacement \<Rightarrow> string" where
  "Write_incumbent incumbent =
     ''incumbent id '' @ id_str (inc_id incumbent) @ '' gen '' @ id_str (inc_generation incumbent) @
     '' path '' @ id_str (inc_path incumbent) @ '' pathauth '' @ id_str (inc_path_authority incumbent) @
     '' cset '' @ id_str (inc_candidate_set_generation incumbent) @ '' cap '' @ id_str (inc_capacity_generation incumbent) @
     '' policy '' @ id_str (inc_policy_generation incumbent) @ '' qos '' @ id_str (inc_qos_generation incumbent) @
     '' epoch '' @ to_string (unat (inc_fabric_epoch incumbent)) @
     (if ReservationRef_valid (inc_reservation incumbent) then '' reservation '' @ AppendRef (inc_reservation incumbent) else [])"

definition Write_expected :: "AuthorityExpectation \<Rightarrow> string" where
  "Write_expected expected =
     ''expected pathauth '' @ id_str (ex_path_authority expected) @ '' cset '' @ id_str (ex_candidate_set expected) @
     '' cap '' @ id_str (ex_capacity expected) @ '' policy '' @ id_str (ex_policy expected) @
     '' qos '' @ id_str (ex_qos expected) @ '' epoch '' @ to_string (unat (ex_fabric_epoch expected)) @
     '' evidence '' @ id_str (ex_evidence expected)"

definition dash_if_empty :: "string \<Rightarrow> string" where
  "dash_if_empty s = (if s = [] then ''-'' else s)"

definition Write_provenance :: "Provenance \<Rightarrow> string" where
  "Write_provenance provenance =
     ''provenance producer '' @ dash_if_empty (pv_producer provenance) @
     '' version '' @ dash_if_empty (pv_producer_version provenance) @
     '' sequence '' @ to_string (unat (pv_source_sequence provenance)) @
     '' observed '' @ i64_str (pv_observer_unix_nanos provenance)"

definition WriteScenario :: "PlacementRequest \<Rightarrow> string" where
  "WriteScenario request =
     ''version '' @ to_string (unat kScenarioFormatVersion) @ newline @
     ''flow id '' @ id_str (rq_flow request) @ '' gen '' @ id_str (rq_flow_generation request) @ newline @
     ''candidateset id '' @ id_str (cs_id (rq_candidates request)) @
     '' gen '' @ id_str (cs_generation (rq_candidates request)) @ newline @
     concat (map (\<lambda>path. Write_path path @ newline) (cs_paths (rq_candidates request))) @
     ''capacity id '' @ id_str (cap_id (rq_capacity request)) @
     '' gen '' @ id_str (cap_generation (rq_capacity request)) @ newline @
     concat (map (\<lambda>entry. Write_entry entry @ newline) (cap_entries (rq_capacity request))) @
     Write_qos (rq_qos request) @ newline @
     ''evidence id '' @ id_str (ev_id (rq_evidence request)) @
     '' gen '' @ id_str (ev_generation (rq_evidence request)) @ newline @
     concat (map (\<lambda>entry. Write_util entry @ newline) (ev_entries (rq_evidence request))) @
     Write_policy (rq_policy request) @ newline @
     (case rq_incumbent request of None \<Rightarrow> [] | Some incumbent \<Rightarrow> Write_incumbent incumbent @ newline) @
     (if rq_occupied_failure_domains request \<noteq> []
      then ''occupied domains '' @ AppendIdList (rq_occupied_failure_domains request) @ newline else []) @
     Write_expected (rq_expected request) @ newline @
     Write_provenance (rq_provenance request) @ newline @
     ''attempt id '' @ id_str (rq_attempt request) @ newline"

end
