(* ===== verification/Flow_Document.thy ===== *)
theory Flow_Document
  imports Flow_Scenario
begin

text \<open>
  The scenario language read back. Each line that \<open>WriteScenario\<close> appends is a directive word followed by
  its fields, each directive's branch of \<open>ParseScenario\<close> applied to those fields stores what was written,
  and the document as a whole is the list of its lines.
\<close>

section \<open>One line\<close>

lemma Parse_line_fields:
  assumes "token d" "d \<noteq> ''version''" "tokens_ok fs" "distinct (map fst fs)" "length fs \<le> 64"
    and "length (d @ spaced (present fs)) \<le> kMaxScenarioLineBytes"
  shows "Parse_line l n (d @ spaced (present fs)) st = Parse_directive l d (args_of d n fs {}) n st"
proof -
  have "takeWhile (\<lambda>c. c \<noteq> CHR ''#'') (d @ spaced (present fs)) = d @ spaced (present fs)"
    using plain_line [OF assms(1,3)] by (intro while_plain) blast
  then have "SplitWhitespace (takeWhile (\<lambda>c. c \<noteq> CHR ''#'') (d @ spaced (present fs))) = d # token_list (present fs)"
    using SplitWhitespace_line [OF assms(1,3)] by (simp only:)
  then show ?thesis
    unfolding Parse_line_def using assms by (simp only: list.case) (simp add: guardR_def ArgParser_new_args)
qed

lemma token_literal:
  "token (c # cs) \<longleftrightarrow> \<not> is_blank c \<and> c \<noteq> CHR ''#'' \<and> (cs = [] \<or> token cs)"
  by (auto simp: token_def)

lemmas field_simps = tokens_ok_def token_literal is_blank_def

definition id_gen_fields :: "u64 \<Rightarrow> u64 \<Rightarrow> field list" where
  "id_gen_fields i g = [(''id'', Some (id_str i)), (''gen'', Some (id_str g))]"

lemma id_gen_distinct: "distinct (map fst (id_gen_fields i g))"
  by (simp add: id_gen_fields_def)

lemma id_gen_reads:
  "reads (id_gen_fields i g) ''id'' (Some (id_str i))" "reads (id_gen_fields i g) ''gen'' (Some (id_str g))"
  by (simp_all add: reads_def id_gen_distinct) (simp_all add: id_gen_fields_def)

lemma id_gen_tokens: "tokens_ok (id_gen_fields i g)"
  by (simp add: id_gen_fields_def field_simps)

definition path_fields :: "CandidatePath \<Rightarrow> field list" where
  "path_fields p =
    [(''id'', Some (id_str (cp_id p))), (''auth'', Some (id_str (cp_authority p))),
     (''tier'', Some (PathTierName (pa_tier (cp_attributes p)))),
     (''locality'', Some (id_str (pa_locality (cp_attributes p)))),
     (''scope'', Some (LocalityScopeName (pa_locality_scope (cp_attributes p)))),
     (''domain'', Some (id_str (pa_failure_domain (cp_attributes p)))),
     (''cost'', Some (id_str (pa_cost_micro (cp_attributes p)))),
     (''latency'', Some (id_str (pa_latency_nanos (cp_attributes p)))),
     (''hops'', Some (to_string (unat (pa_hop_count (cp_attributes p))))),
     (''labels'', list_field id_str (pa_labels (cp_attributes p))),
     (''reservations'', list_field AppendRef (pa_reservations (cp_attributes p)))]"

lemma path_distinct: "distinct (map fst (path_fields p))"
  by (simp add: path_fields_def)

lemma path_tokens: "tokens_ok (path_fields p)"
  by (simp add: path_fields_def field_simps)

lemma Write_path_fields: "Write_path p = ''path'' @ spaced (present (path_fields p))"
  by (simp add: Write_path_def path_fields_def spaced_field id_str_def AppendIdList_def del: present.simps split del: if_split cong: if_cong)

lemma path_reads:
  "reads (path_fields p) ''id'' (Some (id_str (cp_id p)))"
  "reads (path_fields p) ''auth'' (Some (id_str (cp_authority p)))"
  "reads (path_fields p) ''tier'' (Some (PathTierName (pa_tier (cp_attributes p))))"
  "reads (path_fields p) ''locality'' (Some (id_str (pa_locality (cp_attributes p))))"
  "reads (path_fields p) ''scope'' (Some (LocalityScopeName (pa_locality_scope (cp_attributes p))))"
  "reads (path_fields p) ''domain'' (Some (id_str (pa_failure_domain (cp_attributes p))))"
  "reads (path_fields p) ''cost'' (Some (id_str (pa_cost_micro (cp_attributes p))))"
  "reads (path_fields p) ''latency'' (Some (id_str (pa_latency_nanos (cp_attributes p))))"
  "reads (path_fields p) ''hops'' (Some (to_string (unat (pa_hop_count (cp_attributes p)))))"
  "reads (path_fields p) ''labels'' (list_field id_str (pa_labels (cp_attributes p)))"
  "reads (path_fields p) ''reservations'' (list_field AppendRef (pa_reservations (cp_attributes p)))"
  by (simp_all add: reads_def path_distinct) (simp_all add: path_fields_def)

lemma path_keys: "fst ` set (path_fields p) =
  {''id'', ''auth'', ''tier'', ''locality'', ''scope'', ''domain'', ''cost'', ''latency'', ''hops'', ''labels'', ''reservations''}"
  by (simp add: path_fields_def)

lemma Parse_path_args:
  assumes "codec_candidate l p" "have_candidates st"
    and "length (cs_paths (rq_candidates (sc_request st))) < unat (max_candidate_paths l)"
  shows "Parse_path l (args_of d n (path_fields p) {}) n st =
    Inr (st\<lparr>sc_request := (sc_request st)\<lparr>rq_candidates :=
          (rq_candidates (sc_request st))\<lparr>cs_paths := cs_paths (rq_candidates (sc_request st)) @ [p]\<rparr>\<rparr>\<rparr>)"
proof -
  have enums: "ParsePathTier (PathTierName (pa_tier (cp_attributes p))) = Some (pa_tier (cp_attributes p))"
    "ParseLocalityScope (LocalityScopeName (pa_locality_scope (cp_attributes p))) = Some (pa_locality_scope (cp_attributes p))"
    using assms(1) by (simp_all add: codec_candidate_def ParsePathTier_roundtrip ParseLocalityScope_roundtrip)
  have lens: "length (pa_labels (cp_attributes p)) \<le> unat (max_path_labels l)"
    "length (pa_reservations (cp_attributes p)) \<le> unat (max_path_reservations l)"
    using assms(1) by (simp_all add: codec_candidate_def vec_ok_def)
  note steps = path_reads(1,2,4,6) [THEN Id_args] Enum_args [where parse = ParsePathTier, OF path_reads(3) enums(1)]
    Enum_args [where parse = ParseLocalityScope, OF path_reads(5) enums(2)] path_reads(7,8) [THEN U64_args] U32_args [OF path_reads(9)]
    IdList_args [OF path_reads(10) lens(1)] RefList_args [OF path_reads(11) lens(2)]
  show ?thesis
    unfolding Parse_path_def using assms(2,3)
    by (simp add: steps hops_narrow guardR_def Finish_args path_keys default_PathAttributes_def)
qed

definition entry_fields :: "PathCapacity \<Rightarrow> field list" where
  "entry_fields e =
    [(''path'', Some (id_str (pc_path e))),
     (''total'', Some (id_str (pc_capacity_bytes e))),
     (''residual'', Some (id_str (pc_residual_bytes e)))]"

lemma entry_distinct: "distinct (map fst (entry_fields e))"
  by (simp add: entry_fields_def)

lemma Write_entry_fields: "Write_entry e = ''entry'' @ spaced (present (entry_fields e))"
  by (simp add: Write_entry_def entry_fields_def spaced_field id_str_def AppendIdList_def bool_str_def Let_def del: present.simps split del: if_split cong: if_cong option.case_cong)

lemma entry_reads:
  "reads (entry_fields e) ''path'' (Some (id_str (pc_path e)))"
  "reads (entry_fields e) ''total'' (Some (id_str (pc_capacity_bytes e)))"
  "reads (entry_fields e) ''residual'' (Some (id_str (pc_residual_bytes e)))"
  by (simp_all add: reads_def entry_distinct) (simp_all add: entry_fields_def)

lemma entry_keys: "fst ` set (entry_fields e) =
  {''path'', ''total'', ''residual''}"
  by (simp add: entry_fields_def)

lemma entry_tokens: "tokens_ok (entry_fields e)"
  by (simp add: entry_fields_def field_simps)

lemma Parse_entry_args:
  assumes "have_capacity st" "length (cap_entries (rq_capacity (sc_request st))) < unat (max_capacity_entries l)"
  shows "Parse_entry l (args_of d n (entry_fields e) {}) n st =
    Inr (st\<lparr>sc_request := (sc_request st)\<lparr>rq_capacity :=
          (rq_capacity (sc_request st))\<lparr>cap_entries := cap_entries (rq_capacity (sc_request st)) @ [e]\<rparr>\<rparr>\<rparr>)"
  unfolding Parse_entry_def using assms
  by (simp add: Id_args [OF entry_reads(1)] entry_reads(2,3) [THEN U64_args] guardR_def Finish_args entry_keys)

definition qos_fields :: "QosProfile \<Rightarrow> field list" where
  "qos_fields q =
    [(''id'', Some (id_str (qos_id q))),
     (''gen'', Some (id_str (qos_generation q))),
     (''class'', Some (ServiceClassName (qos_service_class q))),
     (''priority'', Some (PriorityClassName (qos_priority q))),
     (''required'', Some (id_str (qos_required_residual_bytes q))),
     (''maxlatency'', Some (id_str (qos_max_latency_nanos q)))]"

lemma qos_distinct: "distinct (map fst (qos_fields q))"
  by (simp add: qos_fields_def)

lemma Write_qos_fields: "Write_qos q = ''qos'' @ spaced (present (qos_fields q))"
  by (simp add: Write_qos_def qos_fields_def spaced_field id_str_def AppendIdList_def bool_str_def Let_def del: present.simps split del: if_split cong: if_cong option.case_cong)

lemma qos_reads:
  "reads (qos_fields q) ''id'' (Some (id_str (qos_id q)))"
  "reads (qos_fields q) ''gen'' (Some (id_str (qos_generation q)))"
  "reads (qos_fields q) ''class'' (Some (ServiceClassName (qos_service_class q)))"
  "reads (qos_fields q) ''priority'' (Some (PriorityClassName (qos_priority q)))"
  "reads (qos_fields q) ''required'' (Some (id_str (qos_required_residual_bytes q)))"
  "reads (qos_fields q) ''maxlatency'' (Some (id_str (qos_max_latency_nanos q)))"
  by (simp_all add: reads_def qos_distinct) (simp_all add: qos_fields_def)

lemma qos_keys: "fst ` set (qos_fields q) =
  {''id'', ''gen'', ''class'', ''priority'', ''required'', ''maxlatency''}"
  by (simp add: qos_fields_def)

lemma qos_tokens: "tokens_ok (qos_fields q)"
  by (simp add: qos_fields_def field_simps)

lemma Parse_qos_args:
  assumes "ServiceClass_value (qos_service_class q) < 4" "PriorityClass_value (qos_priority q) < 4" "\<not> have_qos st"
  shows "Parse_qos (args_of d n (qos_fields q) {}) n st = Inr (st\<lparr>sc_request := (sc_request st)\<lparr>rq_qos := q\<rparr>, have_qos := True\<rparr>)"
proof -
  have enums: "ParseServiceClass (ServiceClassName (qos_service_class q)) = Some (qos_service_class q)"
    "ParsePriorityClass (PriorityClassName (qos_priority q)) = Some (qos_priority q)"
    using assms(1,2) by (simp_all add: ParseServiceClass_roundtrip ParsePriorityClass_roundtrip)
  note steps = qos_reads(1,2) [THEN Id_args] Enum_args [where parse = ParseServiceClass, OF qos_reads(3) enums(1)]
    Enum_args [where parse = ParsePriorityClass, OF qos_reads(4) enums(2)] qos_reads(5,6) [THEN U64_args]
  show ?thesis
    unfolding Parse_qos_def using assms(3)
    by (simp add: steps already_def guardR_def Finish_args qos_keys)
qed

definition util_fields :: "CongestionEvidenceEntry \<Rightarrow> field list" where
  "util_fields e =
    [(''path'', Some (id_str (ce_path e))),
     (''ppb'', Some (to_string (unat (ce_utilization_ppb e))))]"

lemma util_distinct: "distinct (map fst (util_fields e))"
  by (simp add: util_fields_def)

lemma Write_util_fields: "Write_util e = ''util'' @ spaced (present (util_fields e))"
  by (simp add: Write_util_def util_fields_def spaced_field id_str_def AppendIdList_def bool_str_def Let_def del: present.simps split del: if_split cong: if_cong option.case_cong)

lemma util_reads:
  "reads (util_fields e) ''path'' (Some (id_str (ce_path e)))"
  "reads (util_fields e) ''ppb'' (Some (to_string (unat (ce_utilization_ppb e))))"
  by (simp_all add: reads_def util_distinct) (simp_all add: util_fields_def)

lemma util_keys: "fst ` set (util_fields e) =
  {''path'', ''ppb''}"
  by (simp add: util_fields_def)

lemma util_tokens: "tokens_ok (util_fields e)"
  by (simp add: util_fields_def field_simps)

lemma Parse_util_args:
  assumes "length (ev_entries (rq_evidence (sc_request st))) < unat (max_evidence_entries l)"
  shows "Parse_util l (args_of d n (util_fields e) {}) n st =
    Inr (st\<lparr>sc_request := (sc_request st)\<lparr>rq_evidence :=
          (rq_evidence (sc_request st))\<lparr>ev_entries := ev_entries (rq_evidence (sc_request st)) @ [e]\<rparr>\<rparr>\<rparr>)"
  unfolding Parse_util_def using assms
  by (simp add: Id_args [OF util_reads(1)] U32_args [OF util_reads(2)] guardR_def Finish_args util_keys)

definition incumbent_fields :: "IncumbentPlacement \<Rightarrow> field list" where
  "incumbent_fields i =
    [(''id'', Some (id_str (inc_id i))),
     (''gen'', Some (id_str (inc_generation i))),
     (''path'', Some (id_str (inc_path i))),
     (''pathauth'', Some (id_str (inc_path_authority i))),
     (''cset'', Some (id_str (inc_candidate_set_generation i))),
     (''cap'', Some (id_str (inc_capacity_generation i))),
     (''policy'', Some (id_str (inc_policy_generation i))),
     (''qos'', Some (id_str (inc_qos_generation i))),
     (''epoch'', Some (id_str (inc_fabric_epoch i))),
     (''reservation'', list_field AppendRef (if ReservationRef_valid (inc_reservation i) then [inc_reservation i] else []))]"

lemma incumbent_distinct: "distinct (map fst (incumbent_fields i))"
  by (simp add: incumbent_fields_def)

lemma Write_incumbent_fields: "Write_incumbent i = ''incumbent'' @ spaced (present (incumbent_fields i))"
  by (cases "ReservationRef_valid (inc_reservation i)") (simp_all add: Write_incumbent_def incumbent_fields_def spaced_field id_str_def AppendIdList_def bool_str_def Let_def del: present.simps split del: if_split cong: if_cong option.case_cong)

lemma incumbent_reads:
  "reads (incumbent_fields i) ''id'' (Some (id_str (inc_id i)))"
  "reads (incumbent_fields i) ''gen'' (Some (id_str (inc_generation i)))"
  "reads (incumbent_fields i) ''path'' (Some (id_str (inc_path i)))"
  "reads (incumbent_fields i) ''pathauth'' (Some (id_str (inc_path_authority i)))"
  "reads (incumbent_fields i) ''cset'' (Some (id_str (inc_candidate_set_generation i)))"
  "reads (incumbent_fields i) ''cap'' (Some (id_str (inc_capacity_generation i)))"
  "reads (incumbent_fields i) ''policy'' (Some (id_str (inc_policy_generation i)))"
  "reads (incumbent_fields i) ''qos'' (Some (id_str (inc_qos_generation i)))"
  "reads (incumbent_fields i) ''epoch'' (Some (id_str (inc_fabric_epoch i)))"
  "reads (incumbent_fields i) ''reservation'' (list_field AppendRef (if ReservationRef_valid (inc_reservation i) then [inc_reservation i] else []))"
  by (simp_all add: reads_def incumbent_distinct) (simp_all add: incumbent_fields_def)

lemma incumbent_keys: "fst ` set (incumbent_fields i) =
  {''id'', ''gen'', ''path'', ''pathauth'', ''cset'', ''cap'', ''policy'', ''qos'', ''epoch'', ''reservation''}"
  by (simp add: incumbent_fields_def)

lemma incumbent_tokens: "tokens_ok (incumbent_fields i)"
  by (simp add: incumbent_fields_def field_simps)

lemma Parse_incumbent_args:
  assumes "ReservationRef_valid (inc_reservation i) \<or> inc_reservation i = ReservationRef_none" "\<not> have_incumbent st"
  shows "Parse_incumbent (args_of d n (incumbent_fields i) {}) n st =
    Inr (st\<lparr>sc_request := (sc_request st)\<lparr>rq_incumbent := Some i\<rparr>, have_incumbent := True\<rparr>)"
proof -
  have "length (if ReservationRef_valid (inc_reservation i) then [inc_reservation i] else []) \<le> unat (1 :: u64)" by simp
  note steps = incumbent_reads(1-9) [THEN Id_args] RefList_args [OF incumbent_reads(10) this]
  show ?thesis
    unfolding Parse_incumbent_def using assms
    by (auto simp add: steps already_def guardR_def Finish_args incumbent_keys)
qed

definition expected_fields :: "AuthorityExpectation \<Rightarrow> field list" where
  "expected_fields e =
    [(''pathauth'', Some (id_str (ex_path_authority e))),
     (''cset'', Some (id_str (ex_candidate_set e))),
     (''cap'', Some (id_str (ex_capacity e))),
     (''policy'', Some (id_str (ex_policy e))),
     (''qos'', Some (id_str (ex_qos e))),
     (''epoch'', Some (id_str (ex_fabric_epoch e))),
     (''evidence'', Some (id_str (ex_evidence e)))]"

lemma expected_distinct: "distinct (map fst (expected_fields e))"
  by (simp add: expected_fields_def)

lemma Write_expected_fields: "Write_expected e = ''expected'' @ spaced (present (expected_fields e))"
  by (simp add: Write_expected_def expected_fields_def spaced_field id_str_def AppendIdList_def bool_str_def Let_def del: present.simps split del: if_split cong: if_cong option.case_cong)

lemma expected_reads:
  "reads (expected_fields e) ''pathauth'' (Some (id_str (ex_path_authority e)))"
  "reads (expected_fields e) ''cset'' (Some (id_str (ex_candidate_set e)))"
  "reads (expected_fields e) ''cap'' (Some (id_str (ex_capacity e)))"
  "reads (expected_fields e) ''policy'' (Some (id_str (ex_policy e)))"
  "reads (expected_fields e) ''qos'' (Some (id_str (ex_qos e)))"
  "reads (expected_fields e) ''epoch'' (Some (id_str (ex_fabric_epoch e)))"
  "reads (expected_fields e) ''evidence'' (Some (id_str (ex_evidence e)))"
  by (simp_all add: reads_def expected_distinct) (simp_all add: expected_fields_def)

lemma expected_keys: "fst ` set (expected_fields e) =
  {''pathauth'', ''cset'', ''cap'', ''policy'', ''qos'', ''epoch'', ''evidence''}"
  by (simp add: expected_fields_def)

lemma expected_tokens: "tokens_ok (expected_fields e)"
  by (simp add: expected_fields_def field_simps)

lemma Parse_expected_args:
  assumes "\<not> have_expected st"
  shows "Parse_expected (args_of d n (expected_fields e) {}) n st =
    Inr (st\<lparr>sc_request := (sc_request st)\<lparr>rq_expected := e\<rparr>, have_expected := True\<rparr>)"
  unfolding Parse_expected_def using assms
  by (simp add: expected_reads [THEN Id_args] already_def guardR_def Finish_args expected_keys)

section \<open>The policy line\<close>

definition policy_fields :: "PlacementPolicy \<Rightarrow> field list" where
  "policy_fields p =
    [(''id'', Some (id_str (pp_id p))),
     (''gen'', Some (id_str (pp_generation p))),
     (''objectives'', Some (comma_list objective_str (pp_objectives p))),
     (''tiers'', list_field PathTierName (pp_allowed_tiers p)),
     (''require-labels'', list_field id_str (pp_required_labels p)),
     (''forbid-labels'', list_field id_str (pp_forbidden_labels p)),
     (''locality-required'', map_option id_str (lc_required_locality (pp_locality p))),
     (''locality-preferred'', map_option id_str (lc_preferred_locality (pp_locality p))),
     (''locality-forbidden'', list_field id_str (lc_forbidden_localities (pp_locality p))),
     (''domain-required'', map_option id_str (fd_required_domain (pp_failure_domains p))),
     (''domain-forbidden'', list_field id_str (fd_forbidden_domains (pp_failure_domains p))),
     (''domain-avoid-occupied'', Some (if fd_avoid_occupied_domains (pp_failure_domains p) then ''true'' else ''false'')),
     (''domain-min-distinct'', Some (to_string (unat (fd_min_distinct_domains (pp_failure_domains p))))),
     (''affinity-required'', Some (if ra_required (pp_reservation_affinity p) then ''true'' else ''false'')),
     (''affinity-refs'', list_field AppendRef (ra_refs (pp_reservation_affinity p))),
     (''admission-headroom'', Some (id_str (ag_min_residual_headroom_bytes (pp_admission p)))),
     (''admission-action'', Some (GateActionName (ag_on_below (pp_admission p)))),
     (''service-degraded'', Some (if sp_allow_degraded (pp_service p) then ''true'' else ''false'')),
     (''service-relaxation'', Some (to_string (unat (sp_max_relaxation_steps (pp_service p))))),
     (''churn-action'', Some (ChurnActionName (ch_on_move (pp_churn p)))),
     (''churn-prefer-incumbent'', Some (if ch_prefer_incumbent (pp_churn p) then ''true'' else ''false'')),
     (''churn-threshold'', Some (id_str (ch_move_improvement_threshold (pp_churn p)))),
     (''churn-threshold-objective'', Some (to_string (unat (ch_threshold_objective_index (pp_churn p))))),
     (''evidence-missing'', Some (EvidencePolicyModeName (ep_on_missing (pp_evidence p)))),
     (''evidence-stale'', Some (EvidencePolicyModeName (ep_on_stale (pp_evidence p)))),
     (''revalidate'', Some (id_str (pp_revalidate_after_nanos p)))]"

lemma policy_distinct: "distinct (map fst (policy_fields p))"
  by (simp add: policy_fields_def)

lemma Write_policy_fields: "Write_policy p = ''policy'' @ spaced (present (policy_fields p))"
  by (simp add: Write_policy_def policy_fields_def spaced_field id_str_def AppendIdList_def bool_str_def Let_def del: present.simps split del: if_split cong: if_cong option.case_cong)

lemma policy_reads:
  "reads (policy_fields p) ''id'' (Some (id_str (pp_id p)))"
  "reads (policy_fields p) ''gen'' (Some (id_str (pp_generation p)))"
  "reads (policy_fields p) ''objectives'' (Some (comma_list objective_str (pp_objectives p)))"
  "reads (policy_fields p) ''tiers'' (list_field PathTierName (pp_allowed_tiers p))"
  "reads (policy_fields p) ''require-labels'' (list_field id_str (pp_required_labels p))"
  "reads (policy_fields p) ''forbid-labels'' (list_field id_str (pp_forbidden_labels p))"
  "reads (policy_fields p) ''locality-required'' (map_option id_str (lc_required_locality (pp_locality p)))"
  "reads (policy_fields p) ''locality-preferred'' (map_option id_str (lc_preferred_locality (pp_locality p)))"
  "reads (policy_fields p) ''locality-forbidden'' (list_field id_str (lc_forbidden_localities (pp_locality p)))"
  "reads (policy_fields p) ''domain-required'' (map_option id_str (fd_required_domain (pp_failure_domains p)))"
  "reads (policy_fields p) ''domain-forbidden'' (list_field id_str (fd_forbidden_domains (pp_failure_domains p)))"
  "reads (policy_fields p) ''domain-avoid-occupied'' (Some (if fd_avoid_occupied_domains (pp_failure_domains p) then ''true'' else ''false''))"
  "reads (policy_fields p) ''domain-min-distinct'' (Some (to_string (unat (fd_min_distinct_domains (pp_failure_domains p)))))"
  "reads (policy_fields p) ''affinity-required'' (Some (if ra_required (pp_reservation_affinity p) then ''true'' else ''false''))"
  "reads (policy_fields p) ''affinity-refs'' (list_field AppendRef (ra_refs (pp_reservation_affinity p)))"
  "reads (policy_fields p) ''admission-headroom'' (Some (id_str (ag_min_residual_headroom_bytes (pp_admission p))))"
  "reads (policy_fields p) ''admission-action'' (Some (GateActionName (ag_on_below (pp_admission p))))"
  "reads (policy_fields p) ''service-degraded'' (Some (if sp_allow_degraded (pp_service p) then ''true'' else ''false''))"
  "reads (policy_fields p) ''service-relaxation'' (Some (to_string (unat (sp_max_relaxation_steps (pp_service p)))))"
  "reads (policy_fields p) ''churn-action'' (Some (ChurnActionName (ch_on_move (pp_churn p))))"
  "reads (policy_fields p) ''churn-prefer-incumbent'' (Some (if ch_prefer_incumbent (pp_churn p) then ''true'' else ''false''))"
  "reads (policy_fields p) ''churn-threshold'' (Some (id_str (ch_move_improvement_threshold (pp_churn p))))"
  "reads (policy_fields p) ''churn-threshold-objective'' (Some (to_string (unat (ch_threshold_objective_index (pp_churn p)))))"
  "reads (policy_fields p) ''evidence-missing'' (Some (EvidencePolicyModeName (ep_on_missing (pp_evidence p))))"
  "reads (policy_fields p) ''evidence-stale'' (Some (EvidencePolicyModeName (ep_on_stale (pp_evidence p))))"
  "reads (policy_fields p) ''revalidate'' (Some (id_str (pp_revalidate_after_nanos p)))"
  by (simp_all add: reads_def policy_distinct) (simp_all add: policy_fields_def)

lemma policy_keys: "fst ` set (policy_fields p) =
  {''id'', ''gen'', ''objectives'', ''tiers'', ''require-labels'', ''forbid-labels'', ''locality-required'', ''locality-preferred'', ''locality-forbidden'', ''domain-required'', ''domain-forbidden'', ''domain-avoid-occupied'', ''domain-min-distinct'', ''affinity-required'', ''affinity-refs'', ''admission-headroom'', ''admission-action'', ''service-degraded'', ''service-relaxation'', ''churn-action'', ''churn-prefer-incumbent'', ''churn-threshold'', ''churn-threshold-objective'', ''evidence-missing'', ''evidence-stale'', ''revalidate''}"
  by (simp add: policy_fields_def)

lemma policy_tokens:
  assumes "codec_policy l p"
  shows "tokens_ok (policy_fields p)"
proof -
  have "token (comma_list objective_str (pp_objectives p))"
    using assms by (intro objective_item.list_token) (simp_all add: codec_policy_def)
  moreover have "token t" if "t \<in> set_option (list_field PathTierName (pp_allowed_tiers p))" for t
    using that assms by (auto simp: list_field_def codec_policy_def intro!: tier_item.list_token split: if_splits)
  ultimately show ?thesis
    by (simp add: policy_fields_def field_simps option.set_map)
qed

lemma some_valid_option: "v \<noteq> Some 0 \<Longrightarrow> some_valid (case v of None \<Rightarrow> 0 | Some w \<Rightarrow> w) None = v"
  by (cases v) (simp_all add: some_valid_def valid_id_def)

lemma tiers_read:
  assumes "codec_policy l p"
  shows "ArgParser_read ''tiers'' False (\<lambda>text. ParseTierList text line) [] (args_of d n (policy_fields p) K) =
    Inr (pp_allowed_tiers p, args_of d n (policy_fields p) (insert ''tiers'' K))"
proof (cases "pp_allowed_tiers p = []")
  case True
  then show ?thesis using policy_reads(4) [of p] read_absent [of "policy_fields p" "''tiers''"] by (simp add: list_field_def)
next
  case False
  then show ?thesis
    using policy_reads(4) [of p] assms
    by (intro read_args [where t = "comma_list PathTierName (pp_allowed_tiers p)"] Tiers_args)
       (simp_all add: list_field_def codec_policy_def vec_ok_def)
qed

lemma objectives_read:
  assumes "codec_policy l p"
  shows "ArgParser_read ''objectives'' True (\<lambda>text. ParseObjectives text (max_objectives l) line) target (args_of d n (policy_fields p) K) =
    Inr (pp_objectives p, args_of d n (policy_fields p) (insert ''objectives'' K))"
  using assms by (intro read_args [OF policy_reads(3)] Objectives_args) (simp_all add: codec_policy_def vec_ok_def)

lemma policy_enums:
  assumes "codec_policy l p"
  shows "ParseGateAction (GateActionName (ag_on_below (pp_admission p))) = Some (ag_on_below (pp_admission p))"
    "ParseChurnAction (ChurnActionName (ch_on_move (pp_churn p))) = Some (ch_on_move (pp_churn p))"
    "ParseEvidencePolicyMode (EvidencePolicyModeName (ep_on_missing (pp_evidence p))) = Some (ep_on_missing (pp_evidence p))"
    "ParseEvidencePolicyMode (EvidencePolicyModeName (ep_on_stale (pp_evidence p))) = Some (ep_on_stale (pp_evidence p))"
  using assms
  by (simp_all add: codec_policy_def ParseGateAction_roundtrip ParseChurnAction_roundtrip ParseEvidencePolicyMode_roundtrip)

lemma policy_lengths:
  assumes "codec_policy l p"
  shows "length (pp_required_labels p) \<le> unat (max_policy_id_lists l)"
    "length (pp_forbidden_labels p) \<le> unat (max_policy_id_lists l)"
    "length (lc_forbidden_localities (pp_locality p)) \<le> unat (max_policy_id_lists l)"
    "length (fd_forbidden_domains (pp_failure_domains p)) \<le> unat (max_policy_id_lists l)"
    "length (ra_refs (pp_reservation_affinity p)) \<le> unat (max_affinity_refs l)"
  using assms by (simp_all add: codec_policy_def vec_ok_def)

lemma Parse_policy_args:
  assumes "codec_policy l p" "\<not> have_policy st" "rq_policy (sc_request st) = default_PlacementPolicy"
  shows "Parse_policy l (args_of d n (policy_fields p) {}) n st =
    Inr (st\<lparr>sc_request := (sc_request st)\<lparr>rq_policy := p\<rparr>, have_policy := True\<rparr>)"
proof -
  note lens = policy_lengths [OF assms(1)] and enums = policy_enums [OF assms(1)]
  have options: "lc_required_locality (pp_locality p) \<noteq> Some 0" "lc_preferred_locality (pp_locality p) \<noteq> Some 0"
    "fd_required_domain (pp_failure_domains p) \<noteq> Some 0"
    using assms(1) by (simp_all add: codec_policy_def)
  note steps = policy_reads(1,2) [THEN Id_args] objectives_read [OF assms(1)] tiers_read [OF assms(1)]
    IdList_args [OF policy_reads(5) lens(1)] IdList_args [OF policy_reads(6) lens(2)]
    policy_reads(7,8,10) [THEN Id_option_args] IdList_args [OF policy_reads(9) lens(3)]
    IdList_args [OF policy_reads(11) lens(4)] policy_reads(12,14,18,21) [THEN Bool_args]
    policy_reads(13,19,23) [THEN U32_args] RefList_args [OF policy_reads(15) lens(5)]
    policy_reads(16,22,26) [THEN U64_args]
    Enum_args [where parse = ParseGateAction, OF policy_reads(17) enums(1)]
    Enum_args [where parse = ParseChurnAction, OF policy_reads(20) enums(2)]
    Enum_args [where parse = ParseEvidencePolicyMode, OF policy_reads(24) enums(3)]
    Enum_args [where parse = ParseEvidencePolicyMode, OF policy_reads(25) enums(4)]
  show ?thesis
    unfolding Parse_policy_def using assms(2,3)
    by (simp add: steps relaxation_narrow already_def guardR_def Finish_args policy_keys some_valid_option options
        default_PlacementPolicy_def Let_def)
qed

section \<open>The remaining directives\<close>

lemma Parse_flow_args:
  assumes "\<not> have_flow st"
  shows "Parse_flow (args_of d n (id_gen_fields i g) {}) n st =
    Inr (st\<lparr>sc_request := (sc_request st)\<lparr>rq_flow := i, rq_flow_generation := g\<rparr>, have_flow := True\<rparr>)"
  unfolding Parse_flow_def using assms by (simp add: id_gen_reads [THEN Id_args] already_def guardR_def)

lemma Parse_candidateset_args:
  assumes "\<not> have_candidates st"
  shows "Parse_candidateset (args_of d n (id_gen_fields i g) {}) n st =
    Inr (st\<lparr>sc_request := (sc_request st)\<lparr>rq_candidates := (rq_candidates (sc_request st))\<lparr>cs_id := i, cs_generation := g\<rparr>\<rparr>,
            have_candidates := True\<rparr>)"
  unfolding Parse_candidateset_def using assms by (simp add: id_gen_reads [THEN Id_args] already_def guardR_def)

lemma id_gen_keys: "fst ` set (id_gen_fields i g) = {''id'', ''gen''}"
  by (simp add: id_gen_fields_def)

lemma Parse_capacity_args:
  assumes "\<not> have_capacity st"
  shows "Parse_capacity (args_of d n (id_gen_fields i g) {}) n st =
    Inr (st\<lparr>sc_request := (sc_request st)\<lparr>rq_capacity := (rq_capacity (sc_request st))\<lparr>cap_id := i, cap_generation := g\<rparr>\<rparr>,
            have_capacity := True\<rparr>)"
  unfolding Parse_capacity_def using assms
  by (simp add: id_gen_reads [THEN Id_args] already_def guardR_def Finish_args id_gen_keys)

lemma Parse_evidence_args:
  assumes "\<not> have_evidence st"
  shows "Parse_evidence (args_of d n (id_gen_fields i g) {}) n st =
    Inr (st\<lparr>sc_request := (sc_request st)\<lparr>rq_evidence := (rq_evidence (sc_request st))\<lparr>ev_id := i, ev_generation := g\<rparr>\<rparr>,
            have_evidence := True\<rparr>)"
  unfolding Parse_evidence_def using assms
  by (simp add: id_gen_reads [THEN Id_args] already_def guardR_def Finish_args id_gen_keys)

definition occupied_fields :: "u64 list \<Rightarrow> field list" where
  "occupied_fields ids = [(''domains'', list_field id_str ids)]"

lemma Parse_occupied_args:
  assumes "\<not> have_occupied st" "rq_occupied_failure_domains (sc_request st) = []"
    and "ids \<noteq> []" "length ids \<le> unat (max_occupied_failure_domains l)"
  shows "Parse_occupied l (args_of d n (occupied_fields ids) {}) n st =
    Inr (st\<lparr>sc_request := (sc_request st)\<lparr>rq_occupied_failure_domains := ids\<rparr>, have_occupied := True\<rparr>)"
proof -
  have "reads (occupied_fields ids) ''domains'' (list_field id_str ids)"
    by (simp add: occupied_fields_def reads_def)
  note step = IdList_args [OF this assms(4)]
  have "fst ` set (occupied_fields ids) = {''domains''}" by (simp add: occupied_fields_def)
  then show ?thesis
    unfolding Parse_occupied_def using assms(1-3) by (simp add: step already_def guardR_def Finish_args)
qed

definition attempt_fields :: "u64 \<Rightarrow> field list" where
  "attempt_fields i = [(''id'', Some (id_str i))]"

lemma Parse_attempt_args:
  assumes "\<not> have_attempt st"
  shows "Parse_attempt (args_of d n (attempt_fields i) {}) n st =
    Inr (st\<lparr>sc_request := (sc_request st)\<lparr>rq_attempt := i\<rparr>, have_attempt := True\<rparr>)"
proof -
  have "reads (attempt_fields i) ''id'' (Some (id_str i))" by (simp add: attempt_fields_def reads_def)
  moreover have "fst ` set (attempt_fields i) = {''id''}" by (simp add: attempt_fields_def)
  ultimately show ?thesis
    unfolding Parse_attempt_def using assms by (simp add: Id_args already_def guardR_def Finish_args)
qed

definition provenance_fields :: "Provenance \<Rightarrow> field list" where
  "provenance_fields v =
    [(''producer'', Some (dash_if_empty (pv_producer v))),
     (''version'', Some (dash_if_empty (pv_producer_version v))),
     (''sequence'', Some (id_str (pv_source_sequence v))),
     (''observed'', Some (id_str (pv_observer_unix_nanos v)))]"

lemma provenance_distinct: "distinct (map fst (provenance_fields v))"
  by (simp add: provenance_fields_def)

lemma provenance_reads:
  "reads (provenance_fields v) ''producer'' (Some (dash_if_empty (pv_producer v)))"
  "reads (provenance_fields v) ''version'' (Some (dash_if_empty (pv_producer_version v)))"
  "reads (provenance_fields v) ''sequence'' (Some (id_str (pv_source_sequence v)))"
  "reads (provenance_fields v) ''observed'' (Some (id_str (pv_observer_unix_nanos v)))"
  by (simp_all add: reads_def provenance_distinct) (simp_all add: provenance_fields_def)

lemma provenance_keys: "fst ` set (provenance_fields v) =
  {''producer'', ''version'', ''sequence'', ''observed''}"
  by (simp add: provenance_fields_def)

text \<open>A provenance that survives: its names are empty or single tokens within the length bound, and the
  observation time is not negative.\<close>

definition name_ok :: "string \<Rightarrow> bool" where
  "name_ok s \<longleftrightarrow> (s = [] \<or> token s) \<and> length s \<le> kMaxProvenanceFieldLength"

definition provenance_ok :: "Provenance \<Rightarrow> bool" where
  "provenance_ok v \<longleftrightarrow> name_ok (pv_producer v) \<and> name_ok (pv_producer_version v) \<and> 0 \<le> sint (pv_observer_unix_nanos v)"

definition shown_provenance :: "Provenance \<Rightarrow> Provenance" where
  "shown_provenance v =
     v\<lparr>pv_producer := dash_if_empty (pv_producer v), pv_producer_version := dash_if_empty (pv_producer_version v)\<rparr>"

lemma name_shown: "name_ok s \<Longrightarrow> token (dash_if_empty s) \<and> length (dash_if_empty s) \<le> kMaxProvenanceFieldLength"
  by (auto simp: name_ok_def dash_if_empty_def field_simps kMaxProvenanceFieldLength_def)

lemma i64_str_nonneg: "0 \<le> sint v \<Longrightarrow> i64_str v = id_str v"
proof -
  assume nonneg: "0 \<le> sint v"
  then have "\<not> bit (uint v) 63" by (simp add: sint_uint)
  then have "sint v = take_bit 64 (uint v)"
    using signed_take_bit_eq_take_bit_minus [of 63 "uint v"] by (simp add: sint_uint)
  moreover have "take_bit 64 (uint v) = uint v"
    using unsigned_less [of v, where 'a = int] by (intro take_bit_int_eq_self) simp_all
  ultimately show ?thesis by (simp add: i64_str_def id_str_def)
qed

lemma Write_provenance_fields:
  assumes "provenance_ok v"
  shows "Write_provenance v = ''provenance'' @ spaced (present (provenance_fields v))"
  using assms
  by (simp add: Write_provenance_def provenance_fields_def provenance_ok_def i64_str_nonneg spaced_field id_str_def del: present.simps)

lemma provenance_tokens: "provenance_ok v \<Longrightarrow> tokens_ok (provenance_fields v)"
  using name_shown by (auto simp: provenance_ok_def provenance_fields_def field_simps)

lemma Parse_provenance_args:
  assumes "provenance_ok v" "\<not> have_provenance st"
  shows "Parse_provenance (args_of d n (provenance_fields v) {}) n st =
    Inr (st\<lparr>sc_request := (sc_request st)\<lparr>rq_provenance := shown_provenance v\<rparr>, have_provenance := True\<rparr>)"
proof -
  have lens: "length (dash_if_empty (pv_producer v)) \<le> kMaxProvenanceFieldLength"
    "length (dash_if_empty (pv_producer_version v)) \<le> kMaxProvenanceFieldLength"
    using assms(1) name_shown by (auto simp: provenance_ok_def)
  note steps = String_args [OF provenance_reads(1) lens(1)] String_args [OF provenance_reads(2) lens(2)]
    provenance_reads(3,4) [THEN U64_args]
  show ?thesis
    unfolding Parse_provenance_def using assms(2)
    by (simp add: steps already_def guardR_def Finish_args provenance_keys shown_provenance_def)
qed

end
