(* ===== verification/Flow_Roundtrip.thy ===== *)
theory Flow_Roundtrip
  imports Flow_Document Flow_Replies
begin

text \<open>
  Whole documents. The text that \<open>WriteScenario\<close> renders is its list of lines, each closed by a newline;
  reading them one after the other builds the request up, field by field, from the default one.
\<close>

section \<open>Sequences of lines\<close>

text \<open>\<open>accepts l lines s t\<close>: reading the lines takes the state \<open>s\<close> to \<open>t\<close>, whatever their numbers.\<close>

definition accepts :: "Limits \<Rightarrow> string list \<Rightarrow> ScenarioState \<Rightarrow> ScenarioState \<Rightarrow> bool" where
  "accepts l lines s t \<longleftrightarrow> (\<forall>n. Parse_lines l n lines s = Inr t)"

lemma accepts_Nil: "accepts l [] s s"
  by (simp add: accepts_def)

lemma accepts_Cons: "(\<And>n. Parse_line l n line s = Inr t) \<Longrightarrow> accepts l lines t u \<Longrightarrow> accepts l (line # lines) s u"
  by (simp add: accepts_def)

lemma accepts_one: "(\<And>n. Parse_line l n line s = Inr t) \<Longrightarrow> accepts l [line] s t"
  by (simp add: accepts_def)

lemma accepts_append: "accepts l xs s t \<Longrightarrow> accepts l ys t u \<Longrightarrow> accepts l (xs @ ys) s u"
proof -
  have "Parse_lines l n (xs @ ys) s = bindR (Parse_lines l n xs s) (Parse_lines l (n + length xs) ys)" for n
    by (induction xs arbitrary: n s) (simp_all add: bindR_def split: sum.split)
  then show "accepts l xs s t \<Longrightarrow> accepts l ys t u \<Longrightarrow> accepts l (xs @ ys) s u"
    by (simp add: accepts_def)
qed

abbreviation short_line :: "string \<Rightarrow> bool" where
  "short_line line \<equiv> length line \<le> kMaxScenarioLineBytes"

lemma accepts_map:
  assumes "\<And>s x n. P s \<Longrightarrow> length (get s) < m \<Longrightarrow> Q x \<Longrightarrow> Parse_line l n (write x) s = Inr (push x s)"
    and "\<And>s x. P s \<Longrightarrow> P (push x s)" "\<And>s x. get (push x s) = get s @ [x]"
    and "P s" "length (get s) + length xs \<le> m" "\<forall>x \<in> set xs. Q x"
  shows "accepts l (map write xs) s (fold push xs s)"
  using assms(4-6)
proof (induction xs arbitrary: s)
  case (Cons x xs)
  then show ?case using assms(2,3) by (auto intro!: accepts_Cons assms(1))
qed (simp add: accepts_Nil)

text \<open>What one line of each kind does.\<close>

definition push_path :: "CandidatePath \<Rightarrow> ScenarioState \<Rightarrow> ScenarioState" where
  "push_path p st = st\<lparr>sc_request := (sc_request st)\<lparr>rq_candidates :=
     (rq_candidates (sc_request st))\<lparr>cs_paths := cs_paths (rq_candidates (sc_request st)) @ [p]\<rparr>\<rparr>\<rparr>"

definition push_entry :: "PathCapacity \<Rightarrow> ScenarioState \<Rightarrow> ScenarioState" where
  "push_entry e st = st\<lparr>sc_request := (sc_request st)\<lparr>rq_capacity :=
     (rq_capacity (sc_request st))\<lparr>cap_entries := cap_entries (rq_capacity (sc_request st)) @ [e]\<rparr>\<rparr>\<rparr>"

definition push_util :: "CongestionEvidenceEntry \<Rightarrow> ScenarioState \<Rightarrow> ScenarioState" where
  "push_util e st = st\<lparr>sc_request := (sc_request st)\<lparr>rq_evidence :=
     (rq_evidence (sc_request st))\<lparr>ev_entries := ev_entries (rq_evidence (sc_request st)) @ [e]\<rparr>\<rparr>\<rparr>"

lemma fold_push_path:
  "fold push_path ps st = st\<lparr>sc_request := (sc_request st)\<lparr>rq_candidates :=
     (rq_candidates (sc_request st))\<lparr>cs_paths := cs_paths (rq_candidates (sc_request st)) @ ps\<rparr>\<rparr>\<rparr>"
  by (induction ps arbitrary: st) (simp_all add: push_path_def)

lemma fold_push_entry:
  "fold push_entry es st = st\<lparr>sc_request := (sc_request st)\<lparr>rq_capacity :=
     (rq_capacity (sc_request st))\<lparr>cap_entries := cap_entries (rq_capacity (sc_request st)) @ es\<rparr>\<rparr>\<rparr>"
  by (induction es arbitrary: st) (simp_all add: push_entry_def)

lemma fold_push_util:
  "fold push_util us st = st\<lparr>sc_request := (sc_request st)\<lparr>rq_evidence :=
     (rq_evidence (sc_request st))\<lparr>ev_entries := ev_entries (rq_evidence (sc_request st)) @ us\<rparr>\<rparr>\<rparr>"
  by (induction us arbitrary: st) (simp_all add: push_util_def)

lemma fields_line:
  assumes "line = d @ spaced (present fs)" "token d" "d \<noteq> ''version''" "tokens_ok fs" "distinct (map fst fs)"
    and "length fs \<le> 64" "short_line line" "Parse_directive l d (args_of d n fs {}) n st = Inr t"
  shows "Parse_line l n line st = Inr t"
  using assms Parse_line_fields [of d fs l n st] by simp

lemma directive_tokens:
  "token ''flow''" "token ''candidateset''" "token ''path''" "token ''capacity''" "token ''entry''" "token ''qos''"
  "token ''evidence''" "token ''util''" "token ''policy''" "token ''incumbent''" "token ''occupied''" "token ''expected''"
  "token ''provenance''" "token ''attempt''"
  by (simp_all add: token_def is_blank_def)

lemma fields_lengths:
  "length (id_gen_fields i g) = 2" "length (path_fields p) = 11" "length (entry_fields e) = 3" "length (qos_fields q) = 6"
  "length (util_fields u) = 2" "length (policy_fields c) = 26" "length (incumbent_fields k) = 10"
  "length (expected_fields x) = 7" "length (provenance_fields v) = 4"
  "length (occupied_fields ids) = 1" "length (attempt_fields a) = 1"
  by (simp_all add: id_gen_fields_def path_fields_def entry_fields_def qos_fields_def util_fields_def policy_fields_def
      incumbent_fields_def expected_fields_def provenance_fields_def occupied_fields_def attempt_fields_def)

lemma path_lines:
  assumes "have_candidates st" "length (cs_paths (rq_candidates (sc_request st))) + length ps \<le> unat (max_candidate_paths l)"
    and "\<forall>p \<in> set ps. codec_candidate l p \<and> short_line (Write_path p)"
  shows "accepts l (map Write_path ps) st (fold push_path ps st)"
proof (rule accepts_map [where P = have_candidates and get = "\<lambda>s. cs_paths (rq_candidates (sc_request s))"
    and m = "unat (max_candidate_paths l)" and Q = "\<lambda>p. codec_candidate l p \<and> short_line (Write_path p)"])
  fix s :: ScenarioState and p n
  assume "have_candidates s" "length (cs_paths (rq_candidates (sc_request s))) < unat (max_candidate_paths l)"
    and "codec_candidate l p \<and> short_line (Write_path p)"
  then show "Parse_line l n (Write_path p) s = Inr (push_path p s)"
    by (intro fields_line [OF Write_path_fields directive_tokens(3) _ path_tokens path_distinct])
       (simp_all add: fields_lengths Parse_directive_def Parse_path_args push_path_def)
qed (use assms in \<open>simp_all add: push_path_def\<close>)

lemma entry_lines:
  assumes "have_capacity st" "length (cap_entries (rq_capacity (sc_request st))) + length es \<le> unat (max_capacity_entries l)"
    and "\<forall>e \<in> set es. short_line (Write_entry e)"
  shows "accepts l (map Write_entry es) st (fold push_entry es st)"
proof (rule accepts_map [where P = have_capacity and get = "\<lambda>s. cap_entries (rq_capacity (sc_request s))"
    and m = "unat (max_capacity_entries l)" and Q = "\<lambda>e. short_line (Write_entry e)"])
  fix s :: ScenarioState and e n
  assume "have_capacity s" "length (cap_entries (rq_capacity (sc_request s))) < unat (max_capacity_entries l)"
    and "short_line (Write_entry e)"
  then show "Parse_line l n (Write_entry e) s = Inr (push_entry e s)"
    by (intro fields_line [OF Write_entry_fields directive_tokens(5) _ entry_tokens entry_distinct])
       (simp_all add: fields_lengths Parse_directive_def Parse_entry_args push_entry_def)
qed (use assms in \<open>simp_all add: push_entry_def\<close>)

lemma util_lines:
  assumes "length (ev_entries (rq_evidence (sc_request st))) + length us \<le> unat (max_evidence_entries l)"
    and "\<forall>u \<in> set us. short_line (Write_util u)"
  shows "accepts l (map Write_util us) st (fold push_util us st)"
proof (rule accepts_map [where P = "\<lambda>_. True" and get = "\<lambda>s. ev_entries (rq_evidence (sc_request s))"
    and m = "unat (max_evidence_entries l)" and Q = "\<lambda>u. short_line (Write_util u)"])
  fix s :: ScenarioState and u n
  assume "length (ev_entries (rq_evidence (sc_request s))) < unat (max_evidence_entries l)"
    and "short_line (Write_util u)"
  then show "Parse_line l n (Write_util u) s = Inr (push_util u s)"
    by (intro fields_line [OF Write_util_fields directive_tokens(8) _ util_tokens util_distinct])
       (simp_all add: fields_lengths Parse_directive_def Parse_util_args push_util_def)
qed (use assms in \<open>simp_all add: push_util_def\<close>)

section \<open>The document\<close>

definition id_gen_line :: "string \<Rightarrow> u64 \<Rightarrow> u64 \<Rightarrow> string" where
  "id_gen_line d i g = d @ spaced (present (id_gen_fields i g))"

definition scenario_lines :: "PlacementRequest \<Rightarrow> string list" where
  "scenario_lines r =
     [''version '' @ to_string (unat kScenarioFormatVersion),
      id_gen_line ''flow'' (rq_flow r) (rq_flow_generation r),
      id_gen_line ''candidateset'' (cs_id (rq_candidates r)) (cs_generation (rq_candidates r))] @
     map Write_path (cs_paths (rq_candidates r)) @
     [id_gen_line ''capacity'' (cap_id (rq_capacity r)) (cap_generation (rq_capacity r))] @
     map Write_entry (cap_entries (rq_capacity r)) @
     [Write_qos (rq_qos r), id_gen_line ''evidence'' (ev_id (rq_evidence r)) (ev_generation (rq_evidence r))] @
     map Write_util (ev_entries (rq_evidence r)) @
     [Write_policy (rq_policy r)] @
     map Write_incumbent (case rq_incumbent r of None \<Rightarrow> [] | Some i \<Rightarrow> [i]) @
     (if rq_occupied_failure_domains r \<noteq> []
      then [''occupied'' @ spaced (present (occupied_fields (rq_occupied_failure_domains r)))] else []) @
     [Write_expected (rq_expected r), Write_provenance (rq_provenance r),
      ''attempt'' @ spaced (present (attempt_fields (rq_attempt r)))]"

lemma WriteScenario_lines: "WriteScenario r = concat (map (\<lambda>line. line @ newline) (scenario_lines r))"
  by (cases "rq_incumbent r")
     (simp_all add: WriteScenario_def scenario_lines_def id_gen_line_def id_gen_fields_def occupied_fields_def
       attempt_fields_def spaced_field AppendIdList_def comp_def del: present.simps cong: if_cong)

lemma split_on_lines:
  "\<forall>line \<in> set ls. CHR 0x0A \<notin> set line \<Longrightarrow> split_on (CHR 0x0A) (concat (map (\<lambda>line. line @ newline) ls)) = ls @ [[]]"
  by (induction ls) (simp_all add: split_on_plain split_on_piece newline_def)

text \<open>The requests that a document can carry, and what reading gives back: the empty names come back as
  dashes.\<close>

definition writable :: "Limits \<Rightarrow> PlacementRequest \<Rightarrow> bool" where
  "writable l r \<longleftrightarrow> codec_request l r \<and> provenance_ok (rq_provenance r) \<and>
     (\<forall>i \<in> set_option (rq_incumbent r). ReservationRef_valid (inc_reservation i) \<or> inc_reservation i = ReservationRef_none)"

definition shown :: "PlacementRequest \<Rightarrow> PlacementRequest" where
  "shown r = r\<lparr>rq_provenance := shown_provenance (rq_provenance r)\<rparr>"

lemma occupied_tokens: "tokens_ok (occupied_fields ids)"
  by (simp add: occupied_fields_def field_simps)

lemma attempt_tokens: "tokens_ok (attempt_fields a)"
  by (simp add: attempt_fields_def field_simps)

lemma version_plain: "CHR 0x0A \<notin> set (''version '' @ to_string n)" "CHR ''#'' \<notin> set (''version '' @ to_string n)"
  using to_string_token [of n] by (auto simp: token_def is_blank_def)

lemma scenario_lines_plain:
  assumes "writable l r" "line \<in> set (scenario_lines r)"
  shows "CHR 0x0A \<notin> set line"
proof -
  define P where "P = (\<lambda>line. CHR 0x0A \<notin> set line)"
  have plain: "P (d @ spaced (present fs))" if "token d" "tokens_ok fs" for d fs
    using plain_line [OF that] by (simp add: P_def)
  have policy: "tokens_ok (policy_fields (rq_policy r))"
    using assms(1) policy_tokens by (auto simp: writable_def codec_request_def)
  have prov: "provenance_ok (rq_provenance r)" using assms(1) by (simp add: writable_def)
  have "P (''version '' @ to_string n)" for n
    using version_plain by (simp add: P_def)
  moreover have "P (Write_path p)" "P (Write_entry e)" "P (Write_qos q)" "P (Write_util u)" "P (Write_incumbent i)"
    "P (Write_expected x)" "P (Write_policy (rq_policy r))" "P (Write_provenance (rq_provenance r))" for p e q u i x
    unfolding Write_path_fields Write_entry_fields Write_qos_fields Write_util_fields Write_policy_fields
      Write_incumbent_fields Write_expected_fields Write_provenance_fields [OF prov]
    by (intro plain directive_tokens path_tokens entry_tokens qos_tokens util_tokens policy incumbent_tokens
        expected_tokens provenance_tokens [OF prov])+
  moreover have "P (id_gen_line ''flow'' i g)" "P (id_gen_line ''candidateset'' i g)" "P (id_gen_line ''capacity'' i g)"
    "P (id_gen_line ''evidence'' i g)" "P (''occupied'' @ spaced (present (occupied_fields ids)))"
    "P (''attempt'' @ spaced (present (attempt_fields a)))" for i g ids a
    unfolding id_gen_line_def by (intro plain directive_tokens id_gen_tokens occupied_tokens attempt_tokens)+
  ultimately have "list_all P (scenario_lines r)"
    unfolding scenario_lines_def
    by (auto simp add: list_all_iff simp del: append_Cons)
  then show ?thesis using assms(2) by (simp add: list_all_iff P_def)
qed

lemma id_gen_accepts:
  assumes "token d" "d \<noteq> ''version''" "short_line (id_gen_line d i g)"
    and "\<And>n. Parse_directive l d (args_of d n (id_gen_fields i g) {}) n s = Inr t"
  shows "accepts l [id_gen_line d i g] s t"
  using assms
  by (intro accepts_one fields_line [OF id_gen_line_def _ _ id_gen_tokens id_gen_distinct])
     (simp_all add: fields_lengths)

lemma version_accepts: "accepts l [''version '' @ to_string (unat kScenarioFormatVersion)] s s"
proof (rule accepts_one)
  fix n
  let ?v = "to_string (unat kScenarioFormatVersion)"
  have short: "length (''version '' @ ?v) \<le> kMaxScenarioLineBytes"
    by (simp add: kScenarioFormatVersion_def to_string.simps kMaxScenarioLineBytes_def)
  have "SplitWhitespace (''version'' @ CHR '' '' # ?v @ []) = [''version'', ?v]"
    using SplitWhitespace_token [of "''version''" "CHR '' '' # ?v @ []"] SplitWhitespace_token [of ?v "[]"]
    by (simp add: SplitWhitespace_blank SplitWhitespace_Nil is_blank_def token_def [of "''version''"])
  then have "SplitWhitespace (takeWhile (\<lambda>c. c \<noteq> CHR ''#'') (''version '' @ ?v)) = [''version'', ?v]"
    using while_plain(1) [OF version_plain(2)] by (simp only: append_Cons append_Nil append_Nil2)
  moreover have "ParseU64 ?v = Some kScenarioFormatVersion" by (simp add: ParseU64_unat)
  ultimately show "Parse_line l n (''version '' @ ?v) s = Inr s"
    unfolding Parse_line_def using short by (simp add: guardR_def Parse_version_def)
qed

lemma single_accepts:
  assumes "line = d @ spaced (present fs)" "token d" "d \<noteq> ''version''" "tokens_ok fs" "distinct (map fst fs)"
    and "length fs \<le> 64" "short_line line" "\<And>n. Parse_directive l d (args_of d n fs {}) n s = Inr t"
  shows "accepts l [line] s t"
  by (intro accepts_one fields_line [OF assms(1-7)] assms(8))

text \<open>The document up to the capacity entries.\<close>

definition facts_state :: "PlacementRequest \<Rightarrow> ScenarioState" where
  "facts_state r = initial_ScenarioState\<lparr>sc_request := default_PlacementRequest\<lparr>rq_flow := rq_flow r,
      rq_flow_generation := rq_flow_generation r, rq_candidates := rq_candidates r, rq_capacity := rq_capacity r\<rparr>,
      have_flow := True, have_candidates := True, have_capacity := True\<rparr>"

lemma facts_accepts:
  assumes "writable l r" "\<forall>line \<in> set (scenario_lines r). short_line line"
  shows "accepts l
    ([''version '' @ to_string (unat kScenarioFormatVersion)] @
     [id_gen_line ''flow'' (rq_flow r) (rq_flow_generation r)] @
     [id_gen_line ''candidateset'' (cs_id (rq_candidates r)) (cs_generation (rq_candidates r))] @
     map Write_path (cs_paths (rq_candidates r)) @
     [id_gen_line ''capacity'' (cap_id (rq_capacity r)) (cap_generation (rq_capacity r))] @
     map Write_entry (cap_entries (rq_capacity r))) initial_ScenarioState (facts_state r)"
proof -
  let ?s1 = "initial_ScenarioState\<lparr>sc_request := default_PlacementRequest\<lparr>rq_flow := rq_flow r,
      rq_flow_generation := rq_flow_generation r\<rparr>, have_flow := True\<rparr>"
  let ?s2 = "?s1\<lparr>sc_request := (sc_request ?s1)\<lparr>rq_candidates := (rq_candidates (sc_request ?s1))\<lparr>
      cs_id := cs_id (rq_candidates r), cs_generation := cs_generation (rq_candidates r)\<rparr>\<rparr>, have_candidates := True\<rparr>"
  let ?s3 = "fold push_path (cs_paths (rq_candidates r)) ?s2"
  let ?s4 = "?s3\<lparr>sc_request := (sc_request ?s3)\<lparr>rq_capacity := (rq_capacity (sc_request ?s3))\<lparr>
      cap_id := cap_id (rq_capacity r), cap_generation := cap_generation (rq_capacity r)\<rparr>\<rparr>, have_capacity := True\<rparr>"
  let ?s5 = "fold push_entry (cap_entries (rq_capacity r)) ?s4"
  have short: "short_line (id_gen_line ''flow'' (rq_flow r) (rq_flow_generation r))"
    "short_line (id_gen_line ''candidateset'' (cs_id (rq_candidates r)) (cs_generation (rq_candidates r)))"
    "short_line (id_gen_line ''capacity'' (cap_id (rq_capacity r)) (cap_generation (rq_capacity r)))"
    "\<forall>p \<in> set (cs_paths (rq_candidates r)). short_line (Write_path p)"
    "\<forall>e \<in> set (cap_entries (rq_capacity r)). short_line (Write_entry e)"
    using assms(2) by (simp_all add: scenario_lines_def del: append_Cons)
  have request: "codec_request l r" using assms(1) by (simp add: writable_def)
  have 1: "accepts l [id_gen_line ''flow'' (rq_flow r) (rq_flow_generation r)] initial_ScenarioState ?s1"
    using short(1) by (intro id_gen_accepts directive_tokens)
      (simp_all add: Parse_directive_def Parse_flow_args initial_ScenarioState_def)
  have 2: "accepts l [id_gen_line ''candidateset'' (cs_id (rq_candidates r)) (cs_generation (rq_candidates r))] ?s1 ?s2"
    using short(2) by (intro id_gen_accepts directive_tokens)
      (simp_all add: Parse_directive_def Parse_candidateset_args initial_ScenarioState_def)
  have 3: "accepts l (map Write_path (cs_paths (rq_candidates r))) ?s2 ?s3"
    using request short(4) by (intro path_lines)
      (simp_all add: codec_request_def vec_ok_def initial_ScenarioState_def default_PlacementRequest_def)
  have 4: "accepts l [id_gen_line ''capacity'' (cap_id (rq_capacity r)) (cap_generation (rq_capacity r))] ?s3 ?s4"
    using short(3) by (intro id_gen_accepts directive_tokens)
      (simp_all add: Parse_directive_def Parse_capacity_args initial_ScenarioState_def fold_push_path)
  have 5: "accepts l (map Write_entry (cap_entries (rq_capacity r))) ?s4 ?s5"
    using request short(5) by (intro entry_lines)
      (simp_all add: codec_request_def vec_ok_def initial_ScenarioState_def default_PlacementRequest_def fold_push_path)
  have "?s5 = facts_state r"
    by (cases "rq_candidates r"; cases "rq_capacity r")
       (simp add: fold_push_path fold_push_entry facts_state_def initial_ScenarioState_def default_PlacementRequest_def)
  then show ?thesis
    using accepts_append [OF version_accepts accepts_append [OF 1 accepts_append [OF 2 accepts_append [OF 3
      accepts_append [OF 4 5]]]]] by (simp only:)
qed

text \<open>The quality of service, the evidence and the policy.\<close>

definition policy_state :: "PlacementRequest \<Rightarrow> ScenarioState" where
  "policy_state r = (facts_state r)\<lparr>sc_request := (sc_request (facts_state r))\<lparr>rq_qos := rq_qos r,
      rq_evidence := rq_evidence r, rq_policy := rq_policy r\<rparr>, have_qos := True, have_evidence := True, have_policy := True\<rparr>"

lemma policy_accepts:
  assumes "writable l r" "\<forall>line \<in> set (scenario_lines r). short_line line"
  shows "accepts l
    ([Write_qos (rq_qos r)] @ [id_gen_line ''evidence'' (ev_id (rq_evidence r)) (ev_generation (rq_evidence r))] @
     map Write_util (ev_entries (rq_evidence r)) @ [Write_policy (rq_policy r)]) (facts_state r) (policy_state r)"
proof -
  let ?s1 = "(facts_state r)\<lparr>sc_request := (sc_request (facts_state r))\<lparr>rq_qos := rq_qos r\<rparr>, have_qos := True\<rparr>"
  let ?s2 = "?s1\<lparr>sc_request := (sc_request ?s1)\<lparr>rq_evidence := (rq_evidence (sc_request ?s1))\<lparr>
      ev_id := ev_id (rq_evidence r), ev_generation := ev_generation (rq_evidence r)\<rparr>\<rparr>, have_evidence := True\<rparr>"
  let ?s3 = "fold push_util (ev_entries (rq_evidence r)) ?s2"
  let ?s4 = "?s3\<lparr>sc_request := (sc_request ?s3)\<lparr>rq_policy := rq_policy r\<rparr>, have_policy := True\<rparr>"
  have short: "short_line (Write_qos (rq_qos r))"
    "short_line (id_gen_line ''evidence'' (ev_id (rq_evidence r)) (ev_generation (rq_evidence r)))"
    "\<forall>u \<in> set (ev_entries (rq_evidence r)). short_line (Write_util u)"
    "short_line (Write_policy (rq_policy r))"
    using assms(2) by (simp_all add: scenario_lines_def del: append_Cons)
  have request: "codec_request l r" using assms(1) by (simp add: writable_def)
  note unfold_state = facts_state_def initial_ScenarioState_def default_PlacementRequest_def
  have 1: "accepts l [Write_qos (rq_qos r)] (facts_state r) ?s1"
    using short(1) request
    by (intro single_accepts [OF Write_qos_fields] directive_tokens qos_tokens qos_distinct)
       (simp_all add: fields_lengths Parse_directive_def Parse_qos_args unfold_state codec_request_def)
  have 2: "accepts l [id_gen_line ''evidence'' (ev_id (rq_evidence r)) (ev_generation (rq_evidence r))] ?s1 ?s2"
    using short(2) by (intro id_gen_accepts directive_tokens)
      (simp_all add: Parse_directive_def Parse_evidence_args unfold_state)
  have 3: "accepts l (map Write_util (ev_entries (rq_evidence r))) ?s2 ?s3"
    using request short(3) by (intro util_lines) (simp_all add: codec_request_def vec_ok_def unfold_state)
  have policy: "codec_policy l (rq_policy r)" using request by (simp add: codec_request_def)
  have 4: "accepts l [Write_policy (rq_policy r)] ?s3 ?s4"
    using short(4) policy
    by (intro single_accepts [OF Write_policy_fields] directive_tokens policy_tokens policy_distinct)
       (simp_all add: fields_lengths Parse_directive_def Parse_policy_args fold_push_util unfold_state)
  have "?s4 = policy_state r"
    by (cases "rq_evidence r") (simp add: fold_push_util policy_state_def unfold_state)
  then show ?thesis
    using accepts_append [OF 1 accepts_append [OF 2 accepts_append [OF 3 4]]] by (simp only:)
qed

text \<open>The optional lines.\<close>

definition optional_state :: "PlacementRequest \<Rightarrow> ScenarioState" where
  "optional_state r = (policy_state r)\<lparr>sc_request := (sc_request (policy_state r))\<lparr>rq_incumbent := rq_incumbent r,
      rq_occupied_failure_domains := rq_occupied_failure_domains r\<rparr>,
      have_incumbent := rq_incumbent r \<noteq> None, have_occupied := rq_occupied_failure_domains r \<noteq> []\<rparr>"

lemmas unfold_states = optional_state_def policy_state_def facts_state_def initial_ScenarioState_def default_PlacementRequest_def

lemma optional_accepts:
  assumes "writable l r" "\<forall>line \<in> set (scenario_lines r). short_line line"
  shows "accepts l
    (map Write_incumbent (case rq_incumbent r of None \<Rightarrow> [] | Some i \<Rightarrow> [i]) @
     (if rq_occupied_failure_domains r \<noteq> []
      then [''occupied'' @ spaced (present (occupied_fields (rq_occupied_failure_domains r)))] else []))
    (policy_state r) (optional_state r)"
proof -
  let ?s1 = "(policy_state r)\<lparr>sc_request := (sc_request (policy_state r))\<lparr>rq_incumbent := rq_incumbent r\<rparr>,
      have_incumbent := rq_incumbent r \<noteq> None\<rparr>"
  have 1: "accepts l (map Write_incumbent (case rq_incumbent r of None \<Rightarrow> [] | Some i \<Rightarrow> [i])) (policy_state r) ?s1"
  proof (cases "rq_incumbent r")
    case None
    then have "?s1 = policy_state r" by (simp add: unfold_states)
    then show ?thesis using None accepts_Nil by simp
  next
    case (Some i)
    have "short_line (Write_incumbent i)" using assms(2) Some by (simp add: scenario_lines_def del: append_Cons)
    moreover have "ReservationRef_valid (inc_reservation i) \<or> inc_reservation i = ReservationRef_none"
      using assms(1) Some by (simp add: writable_def)
    ultimately have "accepts l [Write_incumbent i] (policy_state r) ?s1"
      by (intro single_accepts [OF Write_incumbent_fields] directive_tokens incumbent_tokens incumbent_distinct)
         (simp_all add: fields_lengths Parse_directive_def Parse_incumbent_args Some unfold_states)
    then show ?thesis using Some by simp
  qed
  have 2: "accepts l (if rq_occupied_failure_domains r \<noteq> []
      then [''occupied'' @ spaced (present (occupied_fields (rq_occupied_failure_domains r)))] else []) ?s1 (optional_state r)"
  proof (cases "rq_occupied_failure_domains r = []")
    case True
    then have "?s1 = optional_state r" by (simp add: unfold_states)
    then show ?thesis using True accepts_Nil by simp
  next
    case False
    have "short_line (''occupied'' @ spaced (present (occupied_fields (rq_occupied_failure_domains r))))"
      using assms(2) False by (simp add: scenario_lines_def del: append_Cons)
    moreover have "length (rq_occupied_failure_domains r) \<le> unat (max_occupied_failure_domains l)"
      using assms(1) by (simp add: writable_def codec_request_def vec_ok_def)
    moreover have "distinct (map fst (occupied_fields (rq_occupied_failure_domains r)))" by (simp add: occupied_fields_def)
    ultimately have "accepts l [''occupied'' @ spaced (present (occupied_fields (rq_occupied_failure_domains r)))] ?s1 (optional_state r)"
      using False
      by (intro single_accepts [OF refl] directive_tokens occupied_tokens)
         (simp_all add: fields_lengths Parse_directive_def Parse_occupied_args unfold_states)
    then show ?thesis using False by simp
  qed
  show ?thesis by (rule accepts_append [OF 1 2])
qed

text \<open>The lines that close the document.\<close>

definition final_state :: "PlacementRequest \<Rightarrow> ScenarioState" where
  "final_state r = (optional_state r)\<lparr>sc_request := (sc_request (optional_state r))\<lparr>rq_expected := rq_expected r,
      rq_provenance := shown_provenance (rq_provenance r), rq_attempt := rq_attempt r\<rparr>,
      have_expected := True, have_provenance := True, have_attempt := True\<rparr>"

lemma final_accepts:
  assumes "writable l r" "\<forall>line \<in> set (scenario_lines r). short_line line"
  shows "accepts l
    ([Write_expected (rq_expected r)] @ [Write_provenance (rq_provenance r)] @
     [''attempt'' @ spaced (present (attempt_fields (rq_attempt r)))]) (optional_state r) (final_state r)"
proof -
  let ?s1 = "(optional_state r)\<lparr>sc_request := (sc_request (optional_state r))\<lparr>rq_expected := rq_expected r\<rparr>, have_expected := True\<rparr>"
  let ?s2 = "?s1\<lparr>sc_request := (sc_request ?s1)\<lparr>rq_provenance := shown_provenance (rq_provenance r)\<rparr>, have_provenance := True\<rparr>"
  have short: "short_line (Write_expected (rq_expected r))" "short_line (Write_provenance (rq_provenance r))"
    "short_line (''attempt'' @ spaced (present (attempt_fields (rq_attempt r))))"
    using assms(2) by (simp_all add: scenario_lines_def del: append_Cons)
  have prov: "provenance_ok (rq_provenance r)" using assms(1) by (simp add: writable_def)
  have 1: "accepts l [Write_expected (rq_expected r)] (optional_state r) ?s1"
    using short(1)
    by (intro single_accepts [OF Write_expected_fields] directive_tokens expected_tokens expected_distinct)
       (simp_all add: fields_lengths Parse_directive_def Parse_expected_args unfold_states)
  have 2: "accepts l [Write_provenance (rq_provenance r)] ?s1 ?s2"
    using short(2) prov
    by (intro single_accepts [OF Write_provenance_fields] directive_tokens provenance_tokens provenance_distinct)
       (simp_all add: fields_lengths Parse_directive_def Parse_provenance_args unfold_states)
  have "distinct (map fst (attempt_fields (rq_attempt r)))" by (simp add: attempt_fields_def)
  then have 3: "accepts l [''attempt'' @ spaced (present (attempt_fields (rq_attempt r)))] ?s2 (final_state r)"
    using short(3)
    by (intro single_accepts [OF refl] directive_tokens attempt_tokens)
       (simp_all add: fields_lengths Parse_directive_def Parse_attempt_args final_state_def unfold_states)
  show ?thesis by (rule accepts_append [OF 1 accepts_append [OF 2 3]])
qed

lemma final_request: "sc_request (final_state r) = shown r"
  by (cases r) (simp add: final_state_def unfold_states shown_def)

lemma ParseScenario_WriteScenario:
  assumes "writable l r" "length (WriteScenario r) \<le> kMaxScenarioBytes"
    and "\<forall>line \<in> set (split_on (CHR 0x0A) (WriteScenario r)). length line \<le> kMaxScenarioLineBytes"
  shows "ParseScenario (WriteScenario r) l = Inr (shown r)"
proof -
  have split: "split_on (CHR 0x0A) (WriteScenario r) = scenario_lines r @ [[]]"
    unfolding WriteScenario_lines using scenario_lines_plain [OF assms(1)] by (intro split_on_lines) blast
  then have short: "\<forall>line \<in> set (scenario_lines r). short_line line" using assms(3) by simp
  have "accepts l (scenario_lines r) initial_ScenarioState (final_state r)"
    using accepts_append [OF facts_accepts [OF assms(1) short] accepts_append [OF policy_accepts [OF assms(1) short]
      accepts_append [OF optional_accepts [OF assms(1) short] final_accepts [OF assms(1) short]]]]
    by (simp add: scenario_lines_def)
  moreover have "accepts l [[]] (final_state r) (final_state r)"
    by (rule accepts_one) (simp add: Parse_line_def guardR_def SplitWhitespace_Nil)
  ultimately have "Parse_lines l 0 (split_on (CHR 0x0A) (WriteScenario r)) initial_ScenarioState = Inr (final_state r)"
    unfolding split accepts_def [symmetric] using accepts_append accepts_def by blast
  moreover have "have_flow (final_state r)" "have_candidates (final_state r)" "have_capacity (final_state r)"
    "have_qos (final_state r)" "have_policy (final_state r)" "have_expected (final_state r)"
    by (simp_all add: final_state_def unfold_states)
  ultimately show ?thesis
    using assms(2) by (simp add: ParseScenario_def guardR_def final_request)
qed

end
