(* ===== verification/Flow_Grammar.thy ===== *)
theory Flow_Grammar
  imports Flow_Scenario Flow_Replies
begin

text \<open>
  What any accepted document gives: a request whose enumerations name enumerators and whose
  collections and names are within the limits. Each reader of \<open>ArgParser\<close> is described by the values it can
  hand out, and every directive keeps the invariant \<open>within\<close> of the request under construction.
\<close>

section \<open>What the readers hand out\<close>

lemma read_result:
  "ArgParser_read k required reader target p = Inr (v, q) \<Longrightarrow> v = target \<or> (\<exists>t. reader t = Inr v)"
  by (auto simp: ArgParser_read_def bindR_Inr_iff split: option.splits)

lemma required_result:
  "ArgParser_read k True reader target p = Inr (v, q) \<Longrightarrow> \<exists>t. reader t = Inr v"
  by (auto simp: ArgParser_read_def ArgParser_Find_def bindR_Inr_iff split: option.splits prod.splits)

lemma Enum_result:
  "ArgParser_Enum k required parse target p = Inr (v, q) \<Longrightarrow> v = target \<or> (\<exists>t. parse t = Some v)"
  unfolding ArgParser_Enum_def by (drule read_result) (simp add: need_Inr_iff)

lemma String_result:
  "ArgParser_String k required target m p = Inr (v, q) \<Longrightarrow> v = target \<or> length v \<le> m"
  unfolding ArgParser_String_def by (drule read_result) (auto split: if_splits)

lemma each_part_length: "each_part reader parts = Inr vs \<Longrightarrow> length vs = length parts"
  by (induction parts arbitrary: vs) (auto simp: bindR_Inr_iff)

lemma each_part_set: "each_part reader parts = Inr vs \<Longrightarrow> v \<in> set vs \<Longrightarrow> \<exists>part. reader part = Inr v"
  by (induction parts arbitrary: vs) (auto simp: bindR_Inr_iff)

lemma list_bound:
  assumes "bindR (need c e (SplitCommas t m)) (each_part reader) = Inr vs"
  shows "length vs \<le> max 1 (unat m)"
  using assms by (auto simp: bindR_Inr_iff need_Inr_iff dest!: SplitCommas_bound each_part_length)

lemma IdList_result:
  "ArgParser_IdList k required target m p = Inr (vs, q) \<Longrightarrow> vs = target \<or> length vs \<le> max 1 (unat m)"
  unfolding ArgParser_IdList_def by (drule read_result) (blast intro: list_bound)

lemma RefList_result:
  "ArgParser_RefList k required target m p = Inr (vs, q) \<Longrightarrow> vs = target \<or> length vs \<le> max 1 (unat m)"
  unfolding ArgParser_RefList_def by (drule read_result) (blast intro: list_bound)

lemma ParseObjectives_result:
  assumes "ParseObjectives t m line = Inr bs"
  shows "bs \<noteq> [] \<and> length bs \<le> max 1 (unat m) \<and>
    (\<forall>b \<in> set bs. ObjectiveKind_value (ob_kind b) < 9 \<and> Direction_value (ob_direction b) < 2)"
proof -
  obtain parts where split: "SplitCommas t m = Some parts" and bs: "each_part (ParseObjective line) parts = Inr bs"
    using assms by (auto simp: ParseObjectives_def bindR_Inr_iff need_Inr_iff split: if_splits)
  have "ObjectiveKind_value (ob_kind b) < 9 \<and> Direction_value (ob_direction b) < 2" if "ParseObjective line part = Inr b" for part b
    using that by (auto simp: ParseObjective_def ParseObjectiveKind_roundtrip ParseDirection_roundtrip split: option.splits prod.splits)
  then show ?thesis
    using SplitCommas_bound [OF split] each_part_length [OF bs] each_part_set [OF bs] by fastforce
qed

lemma ParseTierList_result:
  assumes "ParseTierList t line = Inr ts"
  shows "length ts \<le> 3 \<and> (\<forall>x \<in> set ts. PathTier_value x < 3)"
proof -
  have "length ts \<le> max 1 (unat (3 :: u64))" using assms unfolding ParseTierList_def by (rule list_bound)
  moreover obtain parts where "each_part (\<lambda>part. need kInvalidFieldValue (LineTag line @ ''policy: unknown tier '' @ quoted part) (ParsePathTier part)) parts = Inr ts"
    using assms by (auto simp: ParseTierList_def bindR_Inr_iff)
  then have "\<forall>x \<in> set ts. PathTier_value x < 3"
    by (auto dest: each_part_set simp: need_Inr_iff ParsePathTier_roundtrip)
  ultimately show ?thesis by simp
qed

section \<open>The invariant\<close>

text \<open>\<open>fits m n\<close>: a list of \<open>n\<close> items that the readers accept under the limit \<open>m\<close>. One item passes even
  under the limit zero, because the separators are what is counted.\<close>

definition fits :: "u64 \<Rightarrow> 'a list \<Rightarrow> bool" where
  "fits m xs \<longleftrightarrow> length xs \<le> max 1 (unat m)"

definition policy_within :: "Limits \<Rightarrow> PlacementPolicy \<Rightarrow> bool" where
  "policy_within l p \<longleftrightarrow>
     fits (max_objectives l) (pp_objectives p) \<and>
     (\<forall>b \<in> set (pp_objectives p). ObjectiveKind_value (ob_kind b) < 9 \<and> Direction_value (ob_direction b) < 2) \<and>
     length (pp_allowed_tiers p) \<le> 3 \<and> (\<forall>t \<in> set (pp_allowed_tiers p). PathTier_value t < 3) \<and>
     fits (max_policy_id_lists l) (pp_required_labels p) \<and> fits (max_policy_id_lists l) (pp_forbidden_labels p) \<and>
     fits (max_policy_id_lists l) (lc_forbidden_localities (pp_locality p)) \<and>
     fits (max_policy_id_lists l) (fd_forbidden_domains (pp_failure_domains p)) \<and>
     fits (max_affinity_refs l) (ra_refs (pp_reservation_affinity p)) \<and>
     GateAction_value (ag_on_below (pp_admission p)) < 2 \<and> ChurnAction_value (ch_on_move (pp_churn p)) < 2 \<and>
     EvidencePolicyMode_value (ep_on_missing (pp_evidence p)) < 2 \<and> EvidencePolicyMode_value (ep_on_stale (pp_evidence p)) < 2"

definition path_within :: "Limits \<Rightarrow> CandidatePath \<Rightarrow> bool" where
  "path_within l p \<longleftrightarrow>
     PathTier_value (pa_tier (cp_attributes p)) < 3 \<and> LocalityScope_value (pa_locality_scope (cp_attributes p)) < 5 \<and>
     fits (max_path_labels l) (pa_labels (cp_attributes p)) \<and> fits (max_path_reservations l) (pa_reservations (cp_attributes p))"

definition within :: "Limits \<Rightarrow> ScenarioState \<Rightarrow> bool" where
  "within l st \<longleftrightarrow>
     length (cs_paths (rq_candidates (sc_request st))) \<le> unat (max_candidate_paths l) \<and>
     (\<forall>p \<in> set (cs_paths (rq_candidates (sc_request st))). path_within l p) \<and>
     length (cap_entries (rq_capacity (sc_request st))) \<le> unat (max_capacity_entries l) \<and>
     length (ev_entries (rq_evidence (sc_request st))) \<le> unat (max_evidence_entries l) \<and>
     fits (max_occupied_failure_domains l) (rq_occupied_failure_domains (sc_request st)) \<and>
     ServiceClass_value (qos_service_class (rq_qos (sc_request st))) < 4 \<and>
     PriorityClass_value (qos_priority (rq_qos (sc_request st))) < 4 \<and>
     policy_within l (rq_policy (sc_request st)) \<and>
     (have_policy st \<longrightarrow> pp_objectives (rq_policy (sc_request st)) \<noteq> []) \<and>
     length (pv_producer (rq_provenance (sc_request st))) \<le> kMaxProvenanceFieldLength \<and>
     length (pv_producer_version (rq_provenance (sc_request st))) \<le> kMaxProvenanceFieldLength"

lemmas directive_results = already_def bindR_Inr_iff guardR_Inr_iff split_paired_Ex prod.case Let_def

lemma enum_ranges:
  "ParsePathTier t = Some a \<Longrightarrow> PathTier_value a < 3" "ParseLocalityScope t = Some b \<Longrightarrow> LocalityScope_value b < 5"
  "ParseServiceClass t = Some c \<Longrightarrow> ServiceClass_value c < 4" "ParsePriorityClass t = Some d \<Longrightarrow> PriorityClass_value d < 4"
  "ParseGateAction t = Some e \<Longrightarrow> GateAction_value e < 2" "ParseChurnAction t = Some f \<Longrightarrow> ChurnAction_value f < 2"
  "ParseEvidencePolicyMode t = Some g \<Longrightarrow> EvidencePolicyMode_value g < 2"
  by (simp_all add: ParsePathTier_roundtrip ParseLocalityScope_roundtrip ParseServiceClass_roundtrip
      ParsePriorityClass_roundtrip ParseGateAction_roundtrip ParseChurnAction_roundtrip ParseEvidencePolicyMode_roundtrip)

lemma Parse_path_within:
  assumes "Parse_path l args line st = Inr st'" "within l st"
  shows "within l st'"
proof -
  from assms(1) obtain p where st': "st' = st\<lparr>sc_request := (sc_request st)\<lparr>rq_candidates :=
      (rq_candidates (sc_request st))\<lparr>cs_paths := cs_paths (rq_candidates (sc_request st)) @ [p]\<rparr>\<rparr>\<rparr>"
    and room: "length (cs_paths (rq_candidates (sc_request st))) < unat (max_candidate_paths l)" and p: "path_within l p"
    unfolding Parse_path_def
    by (force simp: directive_results need_Inr_iff path_within_def fits_def default_PathAttributes_def not_le
        dest!: Enum_result IdList_result RefList_result dest: enum_ranges)
  then show ?thesis using assms(2) by (auto simp: within_def)
qed

lemma IdList_fits: "ArgParser_IdList k required target m p = Inr (vs, q) \<Longrightarrow> fits m target \<Longrightarrow> fits m vs"
  and RefList_fits: "ArgParser_RefList k required refs m p = Inr (us, q) \<Longrightarrow> fits m refs \<Longrightarrow> fits m us"
  by (auto simp: fits_def dest: IdList_result RefList_result)

lemma tiers_within:
  assumes "ArgParser_read k required (\<lambda>text. ParseTierList text line) target p = Inr (ts, q)"
    and "length target \<le> 3 \<and> (\<forall>x \<in> set target. PathTier_value x < 3)"
  shows "length ts \<le> 3 \<and> (\<forall>x \<in> set ts. PathTier_value x < 3)"
  using read_result [OF assms(1)] assms(2) ParseTierList_result by blast

lemma objectives_within:
  assumes "ArgParser_read k True (\<lambda>text. ParseObjectives text m line) target p = Inr (bs, q)"
  shows "bs \<noteq> [] \<and> fits m bs \<and> (\<forall>b \<in> set bs. ObjectiveKind_value (ob_kind b) < 9 \<and> Direction_value (ob_direction b) < 2)"
  using required_result [OF assms] ParseObjectives_result unfolding fits_def by blast

lemma mode_within:
  "ArgParser_Enum k required ParseGateAction g p = Inr (v, q) \<Longrightarrow> GateAction_value g < 2 \<Longrightarrow> GateAction_value v < 2"
  "ArgParser_Enum k required ParseChurnAction c p = Inr (w, q) \<Longrightarrow> ChurnAction_value c < 2 \<Longrightarrow> ChurnAction_value w < 2"
  "ArgParser_Enum k required ParseEvidencePolicyMode e p = Inr (u, q) \<Longrightarrow> EvidencePolicyMode_value e < 2 \<Longrightarrow> EvidencePolicyMode_value u < 2"
  by (auto dest!: Enum_result dest: enum_ranges)

lemma within_policy:
  "within l st \<Longrightarrow> pp_objectives p \<noteq> [] \<and> policy_within l p \<Longrightarrow>
   within l (st\<lparr>sc_request := (sc_request st)\<lparr>rq_policy := p\<rparr>, have_policy := True\<rparr>)"
  by (simp add: within_def)

lemma Parse_policy_within:
  assumes "Parse_policy l args line st = Inr st'" "within l st"
  shows "within l st'"
proof -
  have old: "policy_within l (rq_policy (sc_request st))" using assms(2) by (simp add: within_def)
  note kept = old [unfolded policy_within_def]
  show ?thesis
    using assms(1)
    unfolding Parse_policy_def Let_def already_def guardR_Inr_iff bindR_Inr_iff split_paired_Ex prod.case sum.inject
    apply (elim exE conjE)
    apply hypsubst
    apply (rule within_policy [OF assms(2)])
    apply (drule objectives_within)
    apply (drule tiers_within)
    using kept apply blast
    apply (drule IdList_fits, (use kept in blast))+
    apply (drule RefList_fits, (use kept in blast))
    apply (drule mode_within, (use kept in blast))+
    apply (simp (no_asm) add: policy_within_def)
    apply blast
    done
qed

lemma Parse_qos_within:
  assumes "Parse_qos args line st = Inr st'" "within l st"
  shows "within l st'"
  using assms unfolding Parse_qos_def
  by (auto simp: directive_results within_def dest!: Enum_result dest: enum_ranges)

lemma Parse_provenance_within:
  assumes "Parse_provenance args line st = Inr st'" "within l st"
  shows "within l st'"
  using assms unfolding Parse_provenance_def
  by (auto simp: directive_results within_def dest!: String_result)

lemma Parse_occupied_within:
  assumes "Parse_occupied l args line st = Inr st'" "within l st"
  shows "within l st'"
  using assms unfolding Parse_occupied_def
  by (auto simp: directive_results within_def fits_def dest!: IdList_result)

lemma Parse_list_within:
  "Parse_entry l args line st = Inr st' \<Longrightarrow> within l st \<Longrightarrow> within l st'"
  "Parse_util l args line st = Inr st' \<Longrightarrow> within l st \<Longrightarrow> within l st'"
  unfolding Parse_entry_def Parse_util_def
  by (auto simp: directive_results within_def)

lemma Parse_header_within:
  "Parse_flow args line st = Inr st' \<Longrightarrow> within l st \<Longrightarrow> within l st'"
  "Parse_candidateset args line st = Inr st' \<Longrightarrow> within l st \<Longrightarrow> within l st'"
  "Parse_capacity args line st = Inr st' \<Longrightarrow> within l st \<Longrightarrow> within l st'"
  "Parse_evidence args line st = Inr st' \<Longrightarrow> within l st \<Longrightarrow> within l st'"
  "Parse_incumbent args line st = Inr st' \<Longrightarrow> within l st \<Longrightarrow> within l st'"
  "Parse_expected args line st = Inr st' \<Longrightarrow> within l st \<Longrightarrow> within l st'"
  "Parse_attempt args line st = Inr st' \<Longrightarrow> within l st \<Longrightarrow> within l st'"
  unfolding Parse_flow_def Parse_candidateset_def Parse_capacity_def Parse_evidence_def Parse_incumbent_def
    Parse_expected_def Parse_attempt_def
  by (auto simp: directive_results within_def)

lemma Parse_line_within: "Parse_line l n line st = Inr st' \<Longrightarrow> within l st \<Longrightarrow> within l st'"
  by (auto simp: Parse_line_def Parse_version_def Parse_directive_def result_iffs Let_def split: list.splits if_splits
      intro: Parse_path_within Parse_policy_within Parse_qos_within Parse_provenance_within Parse_occupied_within
        Parse_list_within Parse_header_within)

lemma Parse_lines_within: "Parse_lines l n lines st = Inr st' \<Longrightarrow> within l st \<Longrightarrow> within l st'"
  by (induction lines arbitrary: n st) (auto simp: bindR_Inr_iff dest: Parse_line_within)

lemma initial_within: "within l initial_ScenarioState"
  by (simp add: within_def policy_within_def fits_def initial_ScenarioState_def default_PlacementRequest_def
      default_PlacementPolicy_def default_QosProfile_def kMaxProvenanceFieldLength_def)

lemma ParseScenario_within:
  assumes "ParseScenario text l = Inr r"
  shows "\<exists>st. sc_request st = r \<and> have_policy st \<and> within l st"
  using assms Parse_lines_within [OF _ initial_within]
  by (auto simp: ParseScenario_def result_iffs)

text \<open>Every list limit that is read through commas admits one item.\<close>

definition list_limits :: "Limits \<Rightarrow> bool" where
  "list_limits l \<longleftrightarrow> 0 \<notin> {max_occupied_failure_domains l, max_objectives l, max_path_labels l, max_path_reservations l,
     max_policy_id_lists l, max_affinity_refs l}"

lemma fits_limit: "m \<noteq> 0 \<Longrightarrow> fits m xs \<Longrightarrow> length xs \<le> unat m"
  by (simp add: fits_def max_def unat_eq_zero split: if_splits) (metis One_nat_def Suc_leI order.trans unat_gt_0)

lemma ParseScenario_checked:
  assumes "ParseScenario text l = Inr r" "list_limits l"
  shows "wf_enums r \<and> wf_bounds r l"
proof -
  obtain st where st: "sc_request st = r" "have_policy st" "within l st"
    using ParseScenario_within [OF assms(1)] by blast
  then show ?thesis
    using assms(2)
    by (auto simp: within_def policy_within_def path_within_def wf_enums_def wf_bounds_def list_limits_def
        kMaxProvenanceFieldLength_def intro!: fits_limit)
qed

section \<open>The codes of a refusal\<close>

definition scenario_codes :: "StatusCode set" where
  "scenario_codes = {kOversizeRequest, kMalformedRequest, kMissingField, kInvalidFieldValue, kUnrepresentableValue, kUnsupported}"

definition refuses :: "'a Result \<Rightarrow> bool" where
  "refuses v \<longleftrightarrow> (case v of Inl s \<Rightarrow> st_code s \<in> scenario_codes | Inr x \<Rightarrow> True)"

lemma refuses_Inr: "refuses (Inr x)"
  by (simp add: refuses_def)

lemma refuses_ScenarioReject: "c \<in> scenario_codes \<Longrightarrow> refuses (ScenarioReject c m)"
  by (simp add: refuses_def ScenarioReject_def)

lemma refuses_need: "c \<in> scenario_codes \<Longrightarrow> refuses (need c m v)"
  by (simp add: refuses_def need_def split: option.split)

lemma refuses_guard: "c \<in> scenario_codes \<Longrightarrow> refuses v \<Longrightarrow> refuses (guardR b c m v)"
  by (simp add: refuses_def guardR_def)

lemma refuses_bind: "refuses v \<Longrightarrow> (\<And>x. refuses (f x)) \<Longrightarrow> refuses (bindR v f)"
  by (cases v) (simp_all add: refuses_def)

lemma refuses_pair: "(\<And>a b. refuses (f a b)) \<Longrightarrow> refuses (case x of (a, b) \<Rightarrow> f a b)"
  by (cases x) simp

lemma refuses_option: "refuses a \<Longrightarrow> (\<And>x. refuses (f x)) \<Longrightarrow> refuses (case v of None \<Rightarrow> a | Some x \<Rightarrow> f x)"
  by (cases v) simp_all

lemma refuses_if: "refuses a \<Longrightarrow> refuses b \<Longrightarrow> refuses (if c then a else b)"
  by simp

lemma scenario_codes_simps:
  "kOversizeRequest \<in> scenario_codes" "kMalformedRequest \<in> scenario_codes" "kMissingField \<in> scenario_codes"
  "kInvalidFieldValue \<in> scenario_codes" "kUnrepresentableValue \<in> scenario_codes" "kUnsupported \<in> scenario_codes"
  by (simp_all add: scenario_codes_def)

lemmas refuses_rules = refuses_Inr refuses_ScenarioReject refuses_need refuses_guard refuses_bind refuses_pair refuses_option
  refuses_if scenario_codes_simps

lemma refuses_each_part: "(\<And>part. refuses (reader part)) \<Longrightarrow> refuses (each_part reader parts)"
  by (induction parts) (auto intro!: refuses_rules)

lemma refuses_Find: "refuses (ArgParser_Find k required p)"
  unfolding ArgParser_Find_def by (intro refuses_rules)

lemma refuses_read: "(\<And>t. refuses (reader t)) \<Longrightarrow> refuses (ArgParser_read k required reader target p)"
  unfolding ArgParser_read_def by (intro refuses_rules refuses_Find)

lemma refuses_U64: "refuses (ArgParser_U64 k required u p)"
  unfolding ArgParser_U64_def by (intro refuses_read refuses_rules)

lemma refuses_readers:
  "refuses (ArgParser_Id k required p)" "refuses (ArgParser_U32 k required p)"
  "refuses (ArgParser_Bool k required b p)" "refuses (ArgParser_String k required t n p)" "refuses (ArgParser_IdList k required ids m p)"
  "refuses (ArgParser_RefList k required refs m p)" "refuses (ArgParser_Enum k required parse e p)" "refuses (ArgParser_Finish p)"
  "refuses (ArgParser_Validate p)" "refuses (ParseObjectives text m line)" "refuses (ParseTierList text line)"
  unfolding ArgParser_U32_def ArgParser_Bool_def ArgParser_String_def ArgParser_Id_def ArgParser_IdList_def
    ArgParser_RefList_def ArgParser_Enum_def ArgParser_Finish_def ArgParser_Validate_def ParseObjectives_def ParseTierList_def
    ParseObjective_def
  by (intro refuses_read refuses_rules refuses_each_part refuses_U64)+

lemma refuses_directive: "refuses (Parse_directive l d args line st)"
  unfolding Parse_directive_def Parse_flow_def Parse_candidateset_def Parse_path_def Parse_capacity_def Parse_entry_def
    Parse_qos_def Parse_evidence_def Parse_util_def Parse_policy_def Parse_incumbent_def Parse_occupied_def
    Parse_expected_def Parse_provenance_def Parse_attempt_def already_def Let_def
  by (intro refuses_rules refuses_readers refuses_U64 refuses_read)

lemma refuses_line: "refuses (Parse_line l n line st)"
  unfolding Parse_line_def Parse_version_def
  by (cases "SplitWhitespace (takeWhile (\<lambda>c. c \<noteq> CHR ''#'') line)")
     (auto simp: Let_def intro!: refuses_rules refuses_readers refuses_directive)

lemma refuses_lines: "refuses (Parse_lines l n lines st)"
  by (induction lines arbitrary: n st) (auto intro!: refuses_rules refuses_line)

lemma refuses_scenario: "refuses (ParseScenario text l)"
  unfolding ParseScenario_def by (intro refuses_rules refuses_lines)

end
