(* ===== verification/Flow_Language.thy ===== *)
theory Flow_Language
  imports Flow_Roundtrip Flow_Grammar Flow_Example
begin

text \<open>
  The scenario language as a whole: a rendered request is read back, and what the reader accepts or refuses.
\<close>

section \<open>Concrete documents\<close>

lemma sample_provenance: "provenance_ok (rq_provenance sample_request)"
  by (simp add: provenance_ok_def name_ok_def kMaxProvenanceFieldLength_def field_simps sample_defs)

lemma sample_lines: "\<forall>line \<in> set (scenario_lines sample_request). length line \<le> 1000"
  by (simp add: scenario_lines_def id_gen_line_def id_gen_fields_def occupied_fields_def attempt_fields_def spaced_def list_field_def
      Write_path_def Write_entry_def Write_qos_def Write_util_def Write_policy_def Write_expected_def Write_provenance_def
      sample_defs id_str_def to_string.simps AppendIdList_def bool_str_def objective_str_def dash_if_empty_def i64_str_def
      kScenarioFormatVersion_def)

section \<open>Properties\<close>


lemma valid_writable:
  assumes "Status_ok (ValidateRequest r l)" "wire_limits l" "no_zero_ids (rq_policy r)" "provenance_ok (rq_provenance r)"
  shows "writable l r"
proof -
  have wf: "wf_request r l" using assms(1) by (simp add: ValidateRequest_ok_wf)
  have "ReservationRef_valid (inc_reservation i) \<or> inc_reservation i = ReservationRef_none" if "rq_incumbent r = Some i" for i
    using wf that by (cases "inc_reservation i")
      (auto simp: wf_request_def wf_ids_def ReservationRef_valid_def ReservationRef_none_def valid_id_def)
  then show ?thesis
    using wf_request_codec [OF wf assms(2,3)] assms(4) by (simp add: writable_def)
qed

lemma sample_writes:
  "length (WriteScenario sample_request) \<le> kMaxScenarioBytes"
  "\<forall>line \<in> set (split_on (CHR 0x0A) (WriteScenario sample_request)). length line \<le> kMaxScenarioLineBytes"
proof -
  have "writable default_Limits sample_request"
    using sample_wf by (intro valid_writable)
      (simp_all add: ValidateRequest_ok_wf wire_default_Limits sample_provenance, simp add: no_zero_ids_def sample_defs)
  then have split: "split_on (CHR 0x0A) (WriteScenario sample_request) = scenario_lines sample_request @ [[]]"
    unfolding WriteScenario_lines by (intro split_on_lines) (blast dest: scenario_lines_plain)
  then show "\<forall>line \<in> set (split_on (CHR 0x0A) (WriteScenario sample_request)). length line \<le> kMaxScenarioLineBytes"
    using sample_lines by (auto simp: kMaxScenarioLineBytes_def intro: order.trans)
  have sum: "length (concat (map (\<lambda>line. line @ newline) ls)) \<le> 1001 * length ls"
    if "\<forall>line \<in> set ls. length line \<le> 1000" for ls :: "string list"
    using that by (induction ls) (auto simp: newline_def)
  have "length (scenario_lines sample_request) = 15"
    by (simp add: scenario_lines_def sample_defs)
  then show "length (WriteScenario sample_request) \<le> kMaxScenarioBytes"
    unfolding WriteScenario_lines using sum [OF sample_lines] by (simp add: kMaxScenarioBytes_def)
qed

lemma sample_document: "ParseScenario (WriteScenario sample_request) default_Limits = Inr sample_request"
proof -
  have "shown sample_request = sample_request"
    by (simp add: shown_def shown_provenance_def dash_if_empty_def sample_defs)
  moreover have "no_zero_ids (rq_policy sample_request)" by (simp add: no_zero_ids_def sample_defs)
  ultimately show ?thesis
    using ParseScenario_WriteScenario [OF valid_writable sample_writes] sample_provenance
    by (simp add: ValidateRequest_ok_wf sample_wf wire_default_Limits)
qed



text \<open>C39. Whatever the document: a refusal carries one of six codes, and an accepted document gives a
  request that passes the check of the bounds, and passes the check of the enumerations exactly when it asks for
  at most two relaxation steps, where every list limit admits an item.\<close>

theorem scenario_checked:
  assumes "list_limits l"
  shows "case ParseScenario text l of
      Inl status \<Rightarrow> st_code status \<in> {kOversizeRequest, kMalformedRequest, kMissingField, kInvalidFieldValue,
        kUnrepresentableValue, kUnsupported}
    | Inr r \<Rightarrow> Status_ok (ValidateBounds r l) \<and>
        (Status_ok (ValidateEnumerations r) \<longleftrightarrow> sp_max_relaxation_steps (pp_service (rq_policy r)) \<le> 2)"
proof (cases "ParseScenario text l")
  case (Inl status)
  then show ?thesis using refuses_scenario [of "text" l] by (simp add: refuses_def scenario_codes_def)
next
  case (Inr r)
  then show ?thesis using ParseScenario_checked [OF Inr assms] by (simp add: ValidateEnumerations_ok ValidateBounds_ok)
qed

theorem scenario_checked_witness:
  "Status_ok (ValidateEnumerations sample_request) \<and> Status_ok (ValidateBounds sample_request default_Limits)"
proof -
  have "list_limits default_Limits" by (simp add: list_limits_def default_Limits_def)
  then show ?thesis
    using scenario_checked [of default_Limits "WriteScenario sample_request"]
    by (simp add: sample_document) (simp add: sample_defs)
qed

end
