(* ===== verification/Spec2Isabelle.thy ===== *)
theory Spec2Isabelle
  imports Flow_Guarantees Flow_Exchange Flow_Transport Flow_Persistence Flow_Coordination Flow_Service Flow_Language
begin

text \<open>
  Flow-Placement decides on which network path a flow is placed. This library models its C++ sources and proves
  what makes them correct. Paths below are relative to the root of the repository; \<^verbatim>\<open>src\<close> holds the
  implementation files and \<^verbatim>\<open>include/flowplace\<close> the headers.

  \<^bold>\<open>The program.\<close> A caller supplies facts (candidate paths, capacity, congestion evidence), a policy and the
  generations it relies on. A pure engine validates the request, excludes every path that violates a hard
  constraint, ranks the others and answers with a decision and its explanation; for a placed flow the decision
  carries an intent. A coordinator admits attempts, runs the engine on worker threads, fences stale work by
  epoch and authority, and commits an intent to a durable journal. A server offers the coordinator to workers over
  framed TCP connections. A line-oriented scenario language describes a request as text for the command line.

  \<^bold>\<open>Foundations.\<close> \<open>Flow_Prelude\<close>: machine integers and the algorithms of the C++ library that the sources
  call. \<open>Flow_Checked\<close>: \<^verbatim>\<open>checked.hpp\<close> and \<^verbatim>\<open>ids.hpp\<close>. \<open>Flow_Status\<close>: \<^verbatim>\<open>status.hpp\<close>, \<^verbatim>\<open>status.cpp\<close>; a
  \<^verbatim>\<open>Result\<close> is a sum. \<open>Flow_Bytes\<close>: \<^verbatim>\<open>bytes.cpp\<close>, with the locale \<open>codec\<close> for a writer and a reader that undoes it.
  \<open>Flow_Hash\<close>: \<^verbatim>\<open>hash.cpp\<close>; both checksums are instances of the locale \<open>absorbing_hash\<close>, whose lemma is that one changed
  byte changes the value. \<open>Flow_OMap\<close>: \<^verbatim>\<open>std::map\<close> as an ascending association list, by the locale \<open>key_map\<close>.

  \<^bold>\<open>The engine.\<close> \<open>Flow_Model\<close>: \<^verbatim>\<open>model.hpp\<close>, \<^verbatim>\<open>model.cpp\<close>, with the values of an enumeration that name no
  enumerator kept. \<open>Flow_Explain\<close>: \<^verbatim>\<open>explain.cpp\<close>. \<open>Flow_Validate\<close>: \<^verbatim>\<open>validate.cpp\<close>, shown to accept exactly the
  well-formed requests. \<open>Flow_Engine\<close>: \<^verbatim>\<open>engine.cpp\<close>. \<open>Flow_Eligibility\<close>: the hard constraints stated declaratively,
  and that \<^verbatim>\<open>Evaluate\<close> reports the first violated one; its index by identity is the locale \<open>keyed_index\<close>.
  \<open>Flow_Ranking\<close>: the ranking order is a strict order (locale \<open>strict_order_on\<close>). \<open>Flow_Decision\<close>, \<open>Flow_Exclusions\<close>,
  \<open>Flow_Determinism\<close>: soundness of intents, exact explanations, independence of the order of the facts.
  \<open>Flow_Guarantees\<close> states these properties; \<open>Flow_Example\<close> holds the request they are exercised on.

  \<^bold>\<open>The codec.\<close> \<open>Flow_Codec\<close>, \<open>Flow_Payload\<close>: \<^verbatim>\<open>codec.cpp\<close>, a writer as the bytes it appends and a reader as a partial
  function of the bytes left; locale \<open>result_codec\<close> for readers with a status. \<open>Flow_Canonical\<close>: the readers that accept
  nothing but encodings (\<open>exact_codec\<close>). \<open>Flow_Replies\<close>: requests and decisions stay within what the reader allows.
  \<open>Flow_Exchange\<close> states the round trips.

  \<^bold>\<open>The store.\<close> \<open>Flow_Journal\<close>, \<open>Flow_Store\<close>, \<open>Flow_Append\<close>: \<^verbatim>\<open>store.cpp\<close>. The disk is a record of the two files and
  an append that fails may leave any prefix of its record. \<open>Flow_Recovery\<close>: the byte loops of recovery compute a fold of the
  entries written. \<open>Flow_Ledger\<close>, \<open>Flow_Durability\<close>, \<open>Flow_Index\<close>: the files of a running store always replay to its index,
  a simulation between the process and its disk. \<open>Flow_Persistence\<close> states the properties.

  \<^bold>\<open>The coordinator.\<close> \<open>Flow_Attempt\<close>, \<open>Flow_Coordinator\<close>: \<^verbatim>\<open>runtime.hpp\<close>, \<^verbatim>\<open>runtime.cpp\<close>, one definition per critical
  section on an explicit heap of slots, because slots are shared between the table, the queue and the threads.
  \<open>Flow_Threads\<close>: every thread as the sections it still has to run, and the inductive relation that interleaves them.
  \<open>Flow_Slots\<close>, \<open>Flow_Fates\<close>, \<open>Flow_Machine\<close>: invariants by rule induction. \<open>Flow_Fencing\<close>: which placements are
  committed. \<open>Flow_Progress\<close>: a measure of the remaining work bounds the internal runs. \<open>Flow_Calls\<close>: the synchronous calls with
  the values they return; a \<open>World\<close> gives the answers of the environment and the changes that other threads make between two sections, and
  \<open>quiet_world\<close> is the one without interference. \<open>Flow_Demo\<close> is a concrete run, \<open>Flow_Coordination\<close> states the properties.

  \<^bold>\<open>Wire, transport and server.\<close> \<open>Flow_Wire\<close>, \<open>Flow_Frames\<close>: \<^verbatim>\<open>wire.cpp\<close>, and the frames a byte stream
  decodes to however it is cut. \<open>Flow_Sockets\<close>: \<^verbatim>\<open>transport.cpp\<close> in its POSIX form; the answers of the operating system are
  arguments, the locale \<open>frame_link\<close> is the contract of a connection. \<open>Flow_Server\<close>: \<^verbatim>\<open>server.cpp\<close>, the handler of
  every frame, the accept loop and the client side of the handshake, with a step relation of all connections.
  \<open>Flow_Sessions\<close>: its invariants. \<open>Flow_Transport\<close> and \<open>Flow_Service\<close> state the properties.

  \<^bold>\<open>The scenario language.\<close> \<open>Flow_Text\<close>, \<open>Flow_Scenario\<close>: \<^verbatim>\<open>scenario.cpp\<close>, the tokenizer, the class \<^verbatim>\<open>ArgParser\<close>, a
  definition per directive and the renderer. \<open>Flow_Lexing\<close>: what is printed is read back, by the locale \<open>text_item\<close>.
  \<open>Flow_Document\<close>, \<open>Flow_Roundtrip\<close>: the same for directives and documents. \<open>Flow_Grammar\<close>: what an accepted document
  satisfies and how a document is refused. \<open>Flow_Language\<close> states the properties.

  \<^bold>\<open>Loops and bounds.\<close> No definition uses fuel. Loops over data are structural or have a termination proof; a loop over the
  answers of the system consumes the list of answers and is \<open>None\<close> where it would block; threads that wait are steps that are
  not enabled, and \<open>Flow_Coordination\<close> proves that the coordinator settles. Values that can overflow are words; the sizes of
  vectors and strings are natural numbers, since no container outgrows its \<^verbatim>\<open>size_t\<close>.

  \<^bold>\<open>Not modelled.\<close> \<^verbatim>\<open>process.cpp\<close> starts and stops operating-system processes and \<^verbatim>\<open>bench.cpp\<close> measures time:
  neither has logic of its own. \<^verbatim>\<open>apps/flowplace_main.cpp\<close> reads options and files and prints what the parts above
  return. Also left out: the log and the announcement file of the server, the Windows form of the sockets, objects that
  have been moved from (sockets apart), failures of allocation and other exceptions, and read errors of the disk. The mutexes of
  the sources are taken to work: the sections are atomic, and a condition variable is a guard on a step.
\<close>

section \<open>Digests and checksums\<close>

text \<open>C40. The table-driven CRC-32C of the source equals the bitwise definition of the checksum.\<close>

theorem crc32c_equals_reference: "Crc32C_Compute data = crc32c_reference data"
  by (rule Crc32C_Compute_reference)

text \<open>Changing one byte of a buffer to a different value always changes its CRC-32C.\<close>

theorem crc32c_detects_one_byte:
  assumes "i < length bs"
  shows "Crc32C_Compute (bs[i := c]) = Crc32C_Compute bs \<longleftrightarrow> bs ! i = c"
  using assms by (rule Crc32C_Compute_one_change)

theorem crc32c_detects_one_byte_witness: "Crc32C_Compute ([1, 2, 3][1 := 7]) \<noteq> Crc32C_Compute [1, 2, 3]"
  using crc32c_detects_one_byte [of 1 "[1, 2, 3]" 7] by simp

text \<open>The high half of a digest is a function of the low half: two canonical streams whose low
  halves agree have equal digests, so the 128-bit digest tells apart no more than its 64-bit half.\<close>

theorem digest_high_half_redundant: "OfCanonical a = OfCanonical b \<longleftrightarrow> dg_lo (OfCanonical a) = dg_lo (OfCanonical b)"
  by (auto simp: OfCanonical_def Let_def)

end
